(* ===== verification/Prelude.thy ===== *)
theory Prelude
  imports Main "HOL-Library.Sublist" "HOL-Library.List_Lexorder" "HOL-Library.Char_ord"
    "HOL-Library.AList"
begin

text \<open>
  Shared vocabulary of the development. A JavaScript string is represented by its UTF-8
  byte sequence, a HOL \<open>string\<close>: concatenation, equality and the search for an ASCII
  separator are the same on both representations, and a literal with non-ASCII characters
  is written as its bytes. The theory holds the few string operations of the JavaScript
  standard library that the sources call (\<open>trim\<close>, \<open>toUpperCase\<close>, \<open>toLowerCase\<close>,
  \<open>indexOf\<close> of one character), the number rounding the sources call, and generic lemmas on
  lists and options that several components share.
\<close>

named_theorems handler_defs \<open>definitions of handlers, unfolded to expose their branches\<close>

section \<open>Strings\<close>

type_synonym js_string = string

text \<open>
  The characters that \<open>String.prototype.trim\<close> removes (ECMAScript WhiteSpace and
  LineTerminator), each as its UTF-8 bytes.
\<close>

definition js_whitespace :: "js_string list" where
  "js_whitespace =
     map (map char_of)
       ([[9], [10], [11], [12], [13], [32], [194, 160], [225, 154, 128],
         [226, 128, 168], [226, 128, 169], [226, 128, 175], [226, 129, 159],
         [227, 128, 128], [239, 187, 191],
         [226, 128, 128], [226, 128, 129], [226, 128, 130], [226, 128, 131],
         [226, 128, 132], [226, 128, 133], [226, 128, 134], [226, 128, 135],
         [226, 128, 136], [226, 128, 137], [226, 128, 138]] :: nat list list)"

text \<open>The same bytes written out, for evaluation.\<close>

lemma js_whitespace_chars [code]: "js_whitespace =
  [[CHR 0x09], [CHR 0x0A], [CHR 0x0B], [CHR 0x0C], [CHR 0x0D], [CHR 0x20], [CHR 0xC2, CHR 0xA0], [CHR 0xE1, CHR 0x9A, CHR 0x80],
   [CHR 0xE2, CHR 0x80, CHR 0xA8], [CHR 0xE2, CHR 0x80, CHR 0xA9], [CHR 0xE2, CHR 0x80, CHR 0xAF], [CHR 0xE2, CHR 0x81, CHR 0x9F],
   [CHR 0xE3, CHR 0x80, CHR 0x80], [CHR 0xEF, CHR 0xBB, CHR 0xBF],
   [CHR 0xE2, CHR 0x80, CHR 0x80], [CHR 0xE2, CHR 0x80, CHR 0x81], [CHR 0xE2, CHR 0x80, CHR 0x82], [CHR 0xE2, CHR 0x80, CHR 0x83],
   [CHR 0xE2, CHR 0x80, CHR 0x84], [CHR 0xE2, CHR 0x80, CHR 0x85], [CHR 0xE2, CHR 0x80, CHR 0x86], [CHR 0xE2, CHR 0x80, CHR 0x87],
   [CHR 0xE2, CHR 0x80, CHR 0x88], [CHR 0xE2, CHR 0x80, CHR 0x89], [CHR 0xE2, CHR 0x80, CHR 0x8A]]"
  by code_simp

text \<open>The number of bytes of the first entry of \<open>ws\<close> that starts \<open>s\<close>; 0 if none does.\<close>

fun lead_len :: "js_string list \<Rightarrow> js_string \<Rightarrow> nat" where
  "lead_len [] s = 0"
| "lead_len (w # ws) s = (if prefix w s then length w else lead_len ws s)"

function drop_lead :: "js_string list \<Rightarrow> js_string \<Rightarrow> js_string" where
  "drop_lead ws s =
     (let n = lead_len ws s in if n = 0 \<or> s = [] then s else drop_lead ws (drop n s))"
  by pat_completeness auto
termination
  by (relation "measure (\<lambda>(ws, s). length s)") auto

declare drop_lead.simps [simp del]

definition js_trim :: "js_string \<Rightarrow> js_string" where
  "js_trim s =
     rev (drop_lead (map rev js_whitespace) (rev (drop_lead js_whitespace s)))"

text \<open>
  Case mapping on ASCII letters. The sources only compare the result with ASCII provider
  codes and currencies; bytes of non-ASCII characters are left unchanged.
\<close>

definition upper_char :: "char \<Rightarrow> char" where
  "upper_char c = (if CHR ''a'' \<le> c \<and> c \<le> CHR ''z'' then char_of (of_char c - (32 :: nat)) else c)"

definition lower_char :: "char \<Rightarrow> char" where
  "lower_char c = (if CHR ''A'' \<le> c \<and> c \<le> CHR ''Z'' then char_of (of_char c + (32 :: nat)) else c)"

definition js_upper :: "js_string \<Rightarrow> js_string" where
  "js_upper s = map upper_char s"

definition js_lower :: "js_string \<Rightarrow> js_string" where
  "js_lower s = map lower_char s"

text \<open>\<open>s.indexOf(c)\<close> for one ASCII character: \<open>None\<close> is -1.\<close>

fun index_of :: "char \<Rightarrow> js_string \<Rightarrow> nat option" where
  "index_of c [] = None"
| "index_of c (x # xs) = (if x = c then Some 0 else map_option Suc (index_of c xs))"

text \<open>
  Numbers in text. \<open>String(n)\<close> of an integer, and \<open>Number(s)\<close> of the decimal integers that
  the sources store in the key-value server; \<open>None\<close> is \<open>NaN\<close>. \<open>Number\<close> of blank text is 0.
\<close>

fun nat_text :: "nat \<Rightarrow> js_string" where
  "nat_text n = (if n < 10 then [char_of (48 + n)] else nat_text (n div 10) @ [char_of (48 + n mod 10)])"

declare nat_text.simps [simp del]

definition js_of_int :: "int \<Rightarrow> js_string" where
  "js_of_int i = (if i < 0 then CHR ''-'' # nat_text (nat (- i)) else nat_text (nat i))"

definition is_digit :: "char \<Rightarrow> bool" where
  "is_digit c \<longleftrightarrow> CHR ''0'' \<le> c \<and> c \<le> CHR ''9''"

definition digits_value :: "js_string \<Rightarrow> nat" where
  "digits_value s = foldl (\<lambda>n c. 10 * n + (of_char c - 48)) 0 s"

definition js_number :: "js_string \<Rightarrow> int option" where
  "js_number s =
     (let t = js_trim s
      in if t = [] then Some 0
         else if hd t = CHR ''-'' \<and> tl t \<noteq> [] \<and> list_all is_digit (tl t) then Some (- int (digits_value (tl t)))
         else if list_all is_digit t then Some (int (digits_value t)) else None)"

text \<open>\<open>s.split(c)\<close> for one ASCII character.\<close>

fun js_split :: "char \<Rightarrow> js_string \<Rightarrow> js_string list" where
  "js_split c [] = [[]]"
| "js_split c (x # s) =
     (if x = c then [] # js_split c s
      else (case js_split c s of p # ps \<Rightarrow> (x # p) # ps | [] \<Rightarrow> [[x]]))"

lemma js_split_nonempty: "js_split c s \<noteq> []"
  by (induction s) (auto split: list.splits)

lemma js_split_notin: "c \<notin> set s \<Longrightarrow> js_split c s = [s]"
  by (induction s) auto

lemma js_split_append: "c \<notin> set p \<Longrightarrow> js_split c (p @ c # s) = p # js_split c s"
  by (induction p) auto

text \<open>\<open>a ?? b\<close>\<close>

fun nullish :: "'a option \<Rightarrow> 'a option \<Rightarrow> 'a option" where
  "nullish (Some a) b = Some a"
| "nullish None b = b"

fun or_else :: "'a option \<Rightarrow> 'a \<Rightarrow> 'a" where
  "or_else (Some a) b = a"
| "or_else None b = b"

lemma or_else_Some_iff: "or_else m b = b \<longleftrightarrow> m = None \<or> m = Some b"
  by (cases m) auto

lemma index_of_None_iff: "index_of c s = None \<longleftrightarrow> c \<notin> set s"
  by (induction s) auto

lemma index_of_Some:
  "index_of c s = Some n \<Longrightarrow> n < length s \<and> s ! n = c \<and> c \<notin> set (take n s)"
proof (induction s arbitrary: n)
  case Nil
  then show ?case by simp
next
  case (Cons x s)
  then show ?case by (cases n) (auto split: if_splits)
qed

lemma index_of_append_notin:
  "c \<notin> set p \<Longrightarrow> index_of c (p @ c # s) = Some (length p)"
  by (induction p) auto

lemma index_of_append_in: "c \<in> set p \<Longrightarrow> index_of c (p @ s) = index_of c p"
  by (induction p) auto

section \<open>Trimming\<close>

lemma lead_len_le: "lead_len ws s \<le> length s"
  by (induction ws) (auto dest: prefix_length_le)

lemma drop_lead_suffix: "suffix (drop_lead ws s) s"
proof (induction ws s rule: drop_lead.induct)
  case (1 ws s)
  show ?case
  proof (cases "lead_len ws s = 0 \<or> s = []")
    case True
    then show ?thesis by (subst drop_lead.simps) (auto simp: Let_def)
  next
    case False
    with "1.IH" [OF refl] have "suffix (drop_lead ws (drop (lead_len ws s) s)) (drop (lead_len ws s) s)"
      by simp
    also have "suffix (drop (lead_len ws s) s) s" by (rule suffix_drop)
    finally show ?thesis using False by (subst drop_lead.simps) (simp add: Let_def)
  qed
qed

lemma drop_lead_id: "lead_len ws s = 0 \<Longrightarrow> drop_lead ws s = s"
  by (subst drop_lead.simps) simp

lemma drop_lead_clean: "drop_lead ws s = [] \<or> lead_len ws (drop_lead ws s) = 0"
proof (induction ws s rule: drop_lead.induct)
  case (1 ws s)
  show ?case
  proof (cases "lead_len ws s = 0 \<or> s = []")
    case True
    then show ?thesis by (auto simp: drop_lead.simps [of ws s] Let_def)
  next
    case False
    with "1.IH" [OF refl] show ?thesis by (simp add: drop_lead.simps [of ws s] Let_def)
  qed
qed

lemma drop_lead_idem: "drop_lead ws (drop_lead ws s) = drop_lead ws s"
  using drop_lead_clean [of ws s] by (auto intro: drop_lead_id simp: drop_lead.simps [of ws "[]"] Let_def)

text \<open>A string whose bytes are all printable ASCII has nothing to trim.\<close>

definition printable :: "js_string \<Rightarrow> bool" where
  "printable s \<longleftrightarrow> (\<forall>c \<in> set s. 33 \<le> (of_char c :: nat) \<and> (of_char c :: nat) < 127)"

lemma lead_len_0: "\<forall>w \<in> set ws. \<not> prefix w s \<Longrightarrow> lead_len ws s = 0"
  by (induction ws) auto

lemma prefix_not_printable:
  assumes "w \<noteq> []" and "\<not> printable [hd w]" and "printable s"
  shows "\<not> prefix w s"
proof
  assume "prefix w s"
  then obtain t where s: "s = w @ t" by (auto simp: prefix_def)
  from assms(1) have "hd w \<in> set s" unfolding s by (cases w) auto
  with assms(3) have "printable [hd w]" by (auto simp: printable_def)
  with assms(2) show False by simp
qed

lemma js_whitespace_heads: "\<forall>w \<in> set js_whitespace. w \<noteq> [] \<and> \<not> printable [hd w]"
  by (simp add: js_whitespace_def printable_def)

lemma js_whitespace_lasts: "\<forall>w \<in> set (map rev js_whitespace). w \<noteq> [] \<and> \<not> printable [hd w]"
  by (simp add: js_whitespace_def printable_def)

lemma js_trim_printable: "printable s \<Longrightarrow> js_trim s = s"
proof -
  assume p: "printable s"
  then have "lead_len js_whitespace s = 0"
    using js_whitespace_heads prefix_not_printable by (intro lead_len_0) blast
  then have 1: "drop_lead js_whitespace s = s" by (rule drop_lead_id)
  from p have "printable (rev s)" by (simp add: printable_def)
  then have "lead_len (map rev js_whitespace) (rev s) = 0"
    using js_whitespace_lasts prefix_not_printable by (intro lead_len_0) blast
  then have "drop_lead (map rev js_whitespace) (rev s) = rev s" by (rule drop_lead_id)
  with 1 show ?thesis by (simp add: js_trim_def)
qed

lemma js_trim_Nil [simp]: "js_trim [] = []"
  by (simp add: js_trim_def drop_lead.simps Let_def)

lemma lead_len_prefix: "lead_len ws s \<noteq> 0 \<Longrightarrow> \<exists>w \<in> set ws. prefix w s \<and> lead_len ws s = length w"
  by (induction ws) (auto split: if_splits)

lemma lead_len_0_iff:
  "\<forall>w \<in> set ws. w \<noteq> [] \<Longrightarrow> lead_len ws s = 0 \<longleftrightarrow> (\<forall>w \<in> set ws. \<not> prefix w s)"
  by (induction ws) auto

abbreviation js_whitespace_rev :: "js_string list" where
  "js_whitespace_rev \<equiv> map rev js_whitespace"

lemma js_whitespace_nonempty:
  "\<forall>w \<in> set js_whitespace. w \<noteq> []" "\<forall>w \<in> set js_whitespace_rev. w \<noteq> []"
  using js_whitespace_heads js_whitespace_lasts by blast+

lemmas no_lead = lead_len_0_iff [OF js_whitespace_nonempty(1)]
lemmas no_trail = lead_len_0_iff [OF js_whitespace_nonempty(2)]

lemma js_trim_fixed:
  "lead_len js_whitespace s = 0 \<Longrightarrow> lead_len js_whitespace_rev (rev s) = 0 \<Longrightarrow> js_trim s = s"
  by (simp add: js_trim_def drop_lead_id)

lemma js_trim_clean:
  "lead_len js_whitespace (js_trim s) = 0" "lead_len js_whitespace_rev (rev (js_trim s)) = 0"
proof -
  let ?a = "drop_lead js_whitespace s"
  let ?b = "rev (drop_lead js_whitespace_rev (rev ?a))"
  have a: "lead_len js_whitespace ?a = 0"
    using drop_lead_clean [of js_whitespace s] js_whitespace_nonempty(1) by (auto simp: no_lead)
  have "prefix ?b ?a"
    using drop_lead_suffix [of js_whitespace_rev "rev ?a"] by (simp add: suffix_to_prefix)
  with a have "lead_len js_whitespace ?b = 0"
    by (auto simp: no_lead)
  then show "lead_len js_whitespace (js_trim s) = 0" by (simp add: js_trim_def)
  show "lead_len js_whitespace_rev (rev (js_trim s)) = 0"
    using drop_lead_clean [of js_whitespace_rev "rev ?a"] js_whitespace_nonempty(2)
    by (auto simp: no_trail js_trim_def)
qed

lemma js_trim_idem: "js_trim (js_trim s) = js_trim s"
  by (intro js_trim_fixed js_trim_clean)

text \<open>A prefix that starts with a printable byte and ends with one survives trimming.\<close>

lemma js_trim_guarded:
  assumes "printable [hd p]" and "printable [last p]" and "p \<noteq> []"
    and "printable p" and "lead_len js_whitespace_rev (rev r) = 0"
  shows "js_trim (p @ r) = p @ r"
proof (rule js_trim_fixed)
  from assms(1,3) show "lead_len js_whitespace (p @ r) = 0"
    using js_whitespace_heads by (auto simp: no_lead prefix_def append_eq_append_conv2 hd_append)
  have "\<not> prefix (rev w) (rev (p @ r))" if w: "w \<in> set js_whitespace" for w
  proof
    assume "prefix (rev w) (rev (p @ r))"
    then have "suffix w (p @ r)" by (simp add: suffix_to_prefix)
    then consider "suffix w r" | u where "u \<noteq> []" "suffix u p" "w = u @ r"
      by (cases "suffix w r") (auto simp: suffix_append)
    then show False
    proof cases
      case 1
      with assms(5) w show False by (auto simp: no_trail suffix_to_prefix)
    next
      case 2
      then have "hd u \<in> set p" by (auto simp: suffix_def)
      with assms(4) have "printable [hd u]" by (auto simp: printable_def)
      with 2 w js_whitespace_heads show False by auto
    qed
  qed
  then show "lead_len js_whitespace_rev (rev (p @ r)) = 0"
    by (auto simp: no_trail)
qed

section \<open>Lists\<close>

lemma sum_list_map_filter_le:
  fixes f :: "'a \<Rightarrow> nat"
  shows "sum_list (map f (filter P xs)) \<le> sum_list (map f xs)"
  by (induction xs) auto

lemma find_SomeD: "find P xs = Some x \<Longrightarrow> x \<in> set xs \<and> P x"
  by (induction xs) (auto split: if_splits)

end
