(* ===== verification/Redis.thy ===== *)
theory Redis
  imports Prelude
begin

text \<open>
  The command interface of the key-value server (Redis or Valkey) that the seat locks, the
  queue and the rate limits run on. The server itself is not part of the repository: its
  commands are the fields of the record \<open>redis\<close>, an argument of every Lua script of the
  sources, and what the scripts rely on is the locale \<open>redis_server\<close>, which states documented
  behaviour of the commands for string and set keys. \<open>MemRedis\<close> gives the one implementation
  the repository has, the in-memory server of \<open>redis.provider.ts\<close>, and interprets the locale.
\<close>

record 's redis =
  GET :: "'s \<Rightarrow> js_string \<Rightarrow> js_string option"
  SET_EX :: "js_string \<Rightarrow> js_string \<Rightarrow> int \<Rightarrow> 's \<Rightarrow> 's"
  SET_NX_EX :: "js_string \<Rightarrow> js_string \<Rightarrow> int \<Rightarrow> 's \<Rightarrow> bool \<times> 's"
  DEL :: "js_string \<Rightarrow> 's \<Rightarrow> 's"
  EXPIRE :: "js_string \<Rightarrow> int \<Rightarrow> 's \<Rightarrow> 's"
  TTL :: "'s \<Rightarrow> js_string \<Rightarrow> int"
  SADD :: "js_string \<Rightarrow> js_string \<Rightarrow> 's \<Rightarrow> 's"
  SREM :: "js_string \<Rightarrow> js_string \<Rightarrow> 's \<Rightarrow> 's"
  SMEMBERS :: "'s \<Rightarrow> js_string \<Rightarrow> js_string list"

text \<open>
  A key holds a string or a set, never both; a command on a key of the other type is an error
  of the server, so the laws on sets are stated for keys that hold no string. \<open>inv\<close> is whatever
  the server keeps true of its own state.
\<close>

locale redis_server =
  fixes R :: "'s redis" and inv :: "'s \<Rightarrow> bool"
  assumes get_set: "0 < t \<Longrightarrow> GET R (SET_EX R k v t s) k' = (if k' = k then Some v else GET R s k')"
    and set_nx: "SET_NX_EX R k v t s =
      (if GET R s k = None then (True, SET_EX R k v t s) else (False, s))"
    and get_del: "GET R (DEL R k s) k' = (if k' = k then None else GET R s k')"
    and get_expire: "0 < t \<Longrightarrow> GET R (EXPIRE R k t s) k' = GET R s k'"
    and get_sadd: "GET R (SADD R k m s) k' = GET R s k'"
    and get_srem: "GET R (SREM R k m s) k' = GET R s k'"
    and members_set: "0 < t \<Longrightarrow> k' \<noteq> k \<Longrightarrow> set (SMEMBERS R (SET_EX R k v t s) k') = set (SMEMBERS R s k')"
    and members_del: "k' \<noteq> k \<Longrightarrow> set (SMEMBERS R (DEL R k s) k') = set (SMEMBERS R s k')"
    and members_expire: "0 < t \<Longrightarrow> set (SMEMBERS R (EXPIRE R k t s) k') = set (SMEMBERS R s k')"
    and members_sadd: "GET R s k = None \<Longrightarrow>
      set (SMEMBERS R (SADD R k m s) k') =
        (if k' = k then insert m (set (SMEMBERS R s k)) else set (SMEMBERS R s k'))"
    and members_srem: "set (SMEMBERS R (SREM R k m s) k') =
        (if k' = k then set (SMEMBERS R s k) - {m} else set (SMEMBERS R s k'))"
    and members_distinct: "inv s \<Longrightarrow> distinct (SMEMBERS R s k)"
    and ttl_set: "inv s \<Longrightarrow> 0 < t \<Longrightarrow> TTL R (SET_EX R k v t s) k = t"
    and ttl_expire: "inv s \<Longrightarrow> 0 < t \<Longrightarrow> GET R s k \<noteq> None \<Longrightarrow> TTL R (EXPIRE R k t s) k = t"
    and ttl_expire_other: "k' \<noteq> k \<Longrightarrow> TTL R (EXPIRE R k t s) k' = TTL R s k'"
    and ttl_sadd: "GET R s k' \<noteq> None \<Longrightarrow> TTL R (SADD R k m s) k' = TTL R s k'"
    and inv_step: "inv s \<Longrightarrow> inv (SET_EX R k v t s)" "inv s \<Longrightarrow> inv (DEL R k s)"
      "inv s \<Longrightarrow> inv (EXPIRE R k t s)" "inv s \<Longrightarrow> inv (SADD R k m s)" "inv s \<Longrightarrow> inv (SREM R k m s)"
begin

lemmas get_laws = get_set get_del get_expire get_sadd get_srem
lemmas members_laws = members_set members_del members_expire members_sadd members_srem

text \<open>Removing a list of members, as the clean-up loops of the scripts do.\<close>

lemma get_srem_list: "GET R (fold (SREM R k) ms s) k' = GET R s k'"
  by (induction ms arbitrary: s) (auto simp: get_srem)

lemma members_srem_list:
  "set (SMEMBERS R (fold (SREM R k) ms s) k') =
     (if k' = k then set (SMEMBERS R s k) - set ms else set (SMEMBERS R s k'))"
  by (induction ms arbitrary: s) (auto simp: members_srem)

lemma inv_srem_list: "inv s \<Longrightarrow> inv (fold (SREM R k) ms s)"
  by (induction ms arbitrary: s) (auto simp: inv_step)

end

section \<open>Keys of a showtime\<close>

text \<open>
  All keys of one showtime share the hash tag \<open>{showtimeId}\<close>; the seat part is the
  percent-encoded runtime id.
\<close>

definition seat_prefix :: "js_string \<Rightarrow> js_string" where
  "seat_prefix showtimeId = ''{'' @ showtimeId @ ''}:seat:''"

definition seat_lock_key :: "js_string \<Rightarrow> js_string \<Rightarrow> js_string" where
  "seat_lock_key showtimeId runtimeSeatId = seat_prefix showtimeId @ runtimeSeatId"

definition locked_seats_key :: "js_string \<Rightarrow> js_string" where
  "locked_seats_key showtimeId = ''{'' @ showtimeId @ ''}:locked-seats''"

definition user_seats_key :: "js_string \<Rightarrow> js_string \<Rightarrow> js_string" where
  "user_seats_key showtimeId userId = ''{'' @ showtimeId @ ''}:user-seats:'' @ userId"

lemma seat_lock_key_inject [simp]: "seat_lock_key st x = seat_lock_key st y \<longleftrightarrow> x = y"
  by (simp add: seat_lock_key_def)

lemma user_seats_key_inject [simp]: "user_seats_key st u = user_seats_key st v \<longleftrightarrow> u = v"
  by (simp add: user_seats_key_def)

lemma keys_distinct [simp]:
  "seat_lock_key st x \<noteq> locked_seats_key st" "locked_seats_key st \<noteq> seat_lock_key st x"
  "seat_lock_key st x \<noteq> user_seats_key st u" "user_seats_key st u \<noteq> seat_lock_key st x"
  "locked_seats_key st \<noteq> user_seats_key st u" "user_seats_key st u \<noteq> locked_seats_key st"
  by (simp_all add: seat_lock_key_def seat_prefix_def locked_seats_key_def user_seats_key_def)

end
