(* ===== verification/SeatIdentity.thy ===== *)
theory SeatIdentity
  imports Prelude
begin

text \<open>
  \<open>packages/shared/src/seat-identity.ts\<close>: the floor-aware identity of a seat and the
  runtime id that names its lock. A seat arrives as a bare id (\<open>A-1\<close>), as a key
  (\<open>2F:A-1\<close>) or with an explicit floor; \<open>normalizeSeatIdentity\<close> brings all of them to one
  \<open>floorKey:seatId\<close> key, and the runtime id is that key percent-encoded.
\<close>

section \<open>The standard library's URI component coding\<close>

text \<open>Well-formed UTF-8 (RFC 3629), on byte values.\<close>

definition cont_bytes :: "nat \<Rightarrow> nat list \<Rightarrow> bool" where
  "cont_bytes n r \<longleftrightarrow> n \<le> length r \<and> list_all (\<lambda>b. 128 \<le> b \<and> b < 192) (take n r)"

definition second_ok :: "nat \<Rightarrow> nat list \<Rightarrow> bool" where
  "second_ok b r \<longleftrightarrow>
     (b = 224 \<longrightarrow> 160 \<le> hd r) \<and> (b = 237 \<longrightarrow> hd r < 160) \<and>
     (b = 240 \<longrightarrow> 144 \<le> hd r) \<and> (b = 244 \<longrightarrow> hd r < 144)"

fun utf8_bytes :: "nat list \<Rightarrow> bool" where
  "utf8_bytes [] = True"
| "utf8_bytes (b # r) =
     (if b < 128 then utf8_bytes r
      else if 194 \<le> b \<and> b < 224 then cont_bytes 1 r \<and> utf8_bytes (drop 1 r)
      else if 224 \<le> b \<and> b < 240 then cont_bytes 2 r \<and> second_ok b r \<and> utf8_bytes (drop 2 r)
      else if 240 \<le> b \<and> b < 245 then cont_bytes 3 r \<and> second_ok b r \<and> utf8_bytes (drop 3 r)
      else False)"

definition well_formed :: "js_string \<Rightarrow> bool" where
  "well_formed s = utf8_bytes (map of_char s)"

definition uri_unreserved :: "char \<Rightarrow> bool" where
  "uri_unreserved c \<longleftrightarrow>
     CHR ''A'' \<le> c \<and> c \<le> CHR ''Z'' \<or> CHR ''a'' \<le> c \<and> c \<le> CHR ''z'' \<or>
     CHR ''0'' \<le> c \<and> c \<le> CHR ''9'' \<or>
     c \<in> {CHR ''-'', CHR ''_'', CHR ''.'', CHR ''!'', CHR ''~'', CHR ''*'', CHR 0x27, CHR ''('', CHR '')''}"

definition hex_digit :: "nat \<Rightarrow> char" where
  "hex_digit n = (if n < 10 then char_of (48 + n) else char_of (55 + n))"

definition hex_value :: "char \<Rightarrow> nat option" where
  "hex_value c =
     (let n = of_char c
      in if 48 \<le> n \<and> n \<le> 57 then Some (n - 48)
         else if 65 \<le> n \<and> n \<le> 70 then Some (n - 55)
         else if 97 \<le> n \<and> n \<le> 102 then Some (n - 87) else None)"

fun encodeURIComponent :: "js_string \<Rightarrow> js_string" where
  "encodeURIComponent [] = []"
| "encodeURIComponent (c # s) =
     (if uri_unreserved c then c # encodeURIComponent s
      else CHR ''%'' # hex_digit (of_char c div 16) # hex_digit (of_char c mod 16) # encodeURIComponent s)"

text \<open>\<open>None\<close> is the thrown \<open>URIError\<close>.\<close>

fun percent_decode :: "js_string \<Rightarrow> js_string option" where
  "percent_decode [] = Some []"
| "percent_decode (c # s) =
     (if c \<noteq> CHR ''%'' then map_option (Cons c) (percent_decode s)
      else (case s of
          h # l # r \<Rightarrow>
            (case (hex_value h, hex_value l) of
               (Some x, Some y) \<Rightarrow> map_option (Cons (char_of (16 * x + y))) (percent_decode r)
             | _ \<Rightarrow> None)
        | _ \<Rightarrow> None))"

definition decodeURIComponent :: "js_string \<Rightarrow> js_string option" where
  "decodeURIComponent s =
     (case percent_decode s of
        Some t \<Rightarrow> if well_formed t then Some t else None
      | None \<Rightarrow> None)"

section \<open>Seat identity\<close>

record seat_input =
  in_seatId :: js_string
  in_floorKey :: "js_string option"
  in_floorLabel :: "js_string option"
  in_seatKey :: "js_string option"

record seat_defaults =
  defaultFloorKey :: "js_string option"
  defaultFloorLabel :: "js_string option"

record seat_identity =
  floorKey :: js_string
  floorLabel :: js_string
  seatId :: js_string
  seatKey :: js_string

definition DEFAULT_SEAT_FLOOR_KEY :: js_string where
  "DEFAULT_SEAT_FLOOR_KEY = ''1F''"

definition DEFAULT_SEAT_FLOOR_LABEL :: js_string where
  "DEFAULT_SEAT_FLOOR_LABEL = CHR ''1'' # [CHR 0xEC, CHR 0xB8, CHR 0xB5]"

definition clean :: "js_string option \<Rightarrow> js_string option" where
  "clean v =
     (case v of None \<Rightarrow> None
      | Some s \<Rightarrow> (let trimmed = js_trim s in if length trimmed > 0 then Some trimmed else None))"

definition splitSeatKey :: "js_string option \<Rightarrow> (js_string \<times> js_string) option" where
  "splitSeatKey v =
     (case v of None \<Rightarrow> None
      | Some s \<Rightarrow>
          (case index_of CHR '':'' s of
             None \<Rightarrow> None
           | Some i \<Rightarrow> if i = 0 then None else Some (take i s, drop (i + 1) s)))"

definition no_defaults :: seat_defaults where
  "no_defaults = \<lparr>defaultFloorKey = None, defaultFloorLabel = None\<rparr>"

definition normalizeSeatIdentity :: "'x seat_input_scheme \<Rightarrow> seat_defaults \<Rightarrow> seat_identity" where
  "normalizeSeatIdentity input defaults =
     (let dKey = or_else (clean (defaultFloorKey defaults)) DEFAULT_SEAT_FLOOR_KEY;
          dLabel = or_else (clean (defaultFloorLabel defaults)) DEFAULT_SEAT_FLOOR_LABEL;
          rawSeatKey = clean (in_seatKey input);
          rawSeatId = or_else (clean (Some (in_seatId input))) '''';
          seatKeyParts = splitSeatKey rawSeatKey;
          seatIdParts = splitSeatKey (Some rawSeatId);
          fKey = or_else (nullish (clean (in_floorKey input))
                   (nullish (map_option fst seatKeyParts) (map_option fst seatIdParts))) dKey;
          sId = or_else (nullish (map_option snd seatKeyParts) (map_option snd seatIdParts)) rawSeatId
      in \<lparr>floorKey = fKey,
          floorLabel = or_else (clean (in_floorLabel input)) (if fKey = dKey then dLabel else fKey),
          seatId = sId,
          seatKey = fKey @ '':'' @ sId\<rparr>)"

definition toFloorAwareSeatSelection :: "'x seat_input_scheme \<Rightarrow> seat_defaults \<Rightarrow> 'x seat_input_scheme" where
  "toFloorAwareSeatSelection seat defaults =
     (let identity = normalizeSeatIdentity seat defaults
      in seat\<lparr>in_seatId := seatId identity, in_floorKey := Some (floorKey identity),
              in_floorLabel := Some (floorLabel identity), in_seatKey := Some (seatKey identity)\<rparr>)"

definition bare_seat :: "js_string \<Rightarrow> seat_input" where
  "bare_seat s = \<lparr>in_seatId = s, in_floorKey = None, in_floorLabel = None, in_seatKey = None\<rparr>"

definition encodeSeatRuntimeId :: "js_string \<Rightarrow> js_string" where
  "encodeSeatRuntimeId s = encodeURIComponent (seatKey (normalizeSeatIdentity (bare_seat s) no_defaults))"

definition decodeSeatRuntimeId :: "js_string \<Rightarrow> js_string option" where
  "decodeSeatRuntimeId r = decodeURIComponent r"


section \<open>URI coding: round trip and alphabet\<close>

lemma hex_value_digit: "n < 16 \<Longrightarrow> hex_value (hex_digit n) = Some n"
  by (auto simp: hex_value_def hex_digit_def Let_def)

lemma hex_digit_unreserved: "n < 16 \<Longrightarrow> uri_unreserved (hex_digit n)"
proof -
  assume "n < 16"
  then have "n \<in> {0..<16}" by simp
  moreover have "\<forall>n \<in> {0..<16}. uri_unreserved (hex_digit n)" by code_simp
  ultimately show ?thesis by blast
qed

lemma of_char_lt [simp]: "(of_char c :: nat) < 256"
  using of_char_mod_256 [where 'a = nat, of c] mod_less_divisor [of 256 "of_char c"] by simp

lemma hex_bounds: "(of_char c :: nat) div 16 < 16" "(of_char c :: nat) mod 16 < 16"
  using of_char_lt [of c] by (simp_all add: less_mult_imp_div_less)

lemma unreserved_not_percent: "uri_unreserved c \<Longrightarrow> c \<noteq> CHR ''%''"
  by (auto simp: uri_unreserved_def)

lemma percent_decode_encode [simp]: "percent_decode (encodeURIComponent s) = Some s"
proof (induction s)
  case Nil
  then show ?case by simp
next
  case (Cons c s)
  have "char_of (16 * (of_char c div 16) + of_char c mod 16 :: nat) = c"
    by (simp only: mult_div_mod_eq char_of_char)
  with Cons show ?case
    by (auto simp: hex_value_digit hex_bounds unreserved_not_percent)
qed

lemma encodeURIComponent_alphabet:
  "c \<in> set (encodeURIComponent s) \<Longrightarrow> uri_unreserved c \<or> c = CHR ''%''"
  by (induction s) (auto simp: hex_digit_unreserved hex_bounds split: if_splits)

lemma decode_encode_URIComponent: "well_formed s \<Longrightarrow> decodeURIComponent (encodeURIComponent s) = Some s"
  by (simp add: decodeURIComponent_def)

lemma encodeURIComponent_inject: "encodeURIComponent s = encodeURIComponent t \<longleftrightarrow> s = t"
  by (metis option.inject percent_decode_encode)

section \<open>UTF-8\<close>

lemma cont_bytes_append: "cont_bytes n r \<Longrightarrow> cont_bytes n (r @ t)"
  by (auto simp: cont_bytes_def)

lemma cont_bytes_length: "cont_bytes n r \<Longrightarrow> n \<le> length r"
  by (simp add: cont_bytes_def)

lemma hd_append_cont: "cont_bytes (Suc n) r \<Longrightarrow> hd (r @ t) = hd r"
  by (cases r) (auto simp: cont_bytes_def)

lemma utf8_bytes_append: "utf8_bytes a \<Longrightarrow> utf8_bytes (a @ b) \<longleftrightarrow> utf8_bytes b"
proof (induction a rule: utf8_bytes.induct)
  case 1
  then show ?case by simp
next
  case (2 x r)
  have drops: "cont_bytes n r \<Longrightarrow> drop n (r @ b) = drop n r @ b" for n
    by (simp add: cont_bytes_length)
  have seconds: "cont_bytes (Suc n) r \<Longrightarrow> second_ok x (r @ b) = second_ok x r" for n
    by (simp add: second_ok_def hd_append_cont)
  from 2 show ?case
    by (auto simp: drops cont_bytes_append seconds [of 1] seconds [of 2] numeral_2_eq_2 numeral_3_eq_3
        simp del: drop_append split: if_splits)
qed

lemma cont_bytes_append_short:
  "cont_bytes n (r @ b) \<Longrightarrow> length r < n \<Longrightarrow> b \<noteq> [] \<and> 128 \<le> hd b \<and> hd b < 192"
proof -
  assume c: "cont_bytes n (r @ b)" and l: "length r < n"
  then obtain x t where b: "b = x # t" by (cases b) (auto simp: cont_bytes_def)
  from l have "x \<in> set (take n (r @ x # t))" by (cases "n - length r") auto
  with c b show ?thesis by (auto simp: cont_bytes_def list_all_iff)
qed

lemma utf8_bytes_head: "utf8_bytes b \<Longrightarrow> b \<noteq> [] \<Longrightarrow> hd b < 128 \<or> 192 \<le> hd b"
  by (cases b) (auto split: if_splits)

lemma cont_bytes_left:
  "utf8_bytes b \<Longrightarrow> cont_bytes n (r @ b) \<Longrightarrow> cont_bytes n r"
  using cont_bytes_append_short [of n r b] utf8_bytes_head [of b]
  by (cases "length r < n") (force simp: cont_bytes_def)+

lemma utf8_bytes_left: "utf8_bytes (a @ b) \<Longrightarrow> utf8_bytes b \<Longrightarrow> utf8_bytes a"
proof (induction a rule: utf8_bytes.induct)
  case 1
  then show ?case by simp
next
  case (2 x r)
  have drops: "cont_bytes n r \<Longrightarrow> drop n (r @ b) = drop n r @ b" for n
    by (simp add: cont_bytes_length)
  have conts: "cont_bytes n (r @ b) \<Longrightarrow> cont_bytes n r" for n
    using "2.prems"(2) by (rule cont_bytes_left)
  have seconds: "cont_bytes (Suc n) r \<Longrightarrow> second_ok x (r @ b) = second_ok x r" for n
    by (simp add: second_ok_def hd_append_cont)
  from 2 show ?case
    by (auto simp: drops seconds [of 1] seconds [of 2] numeral_2_eq_2 numeral_3_eq_3
        simp del: drop_append dest!: conts split: if_splits)
qed

lemma well_formed_append: "well_formed a \<Longrightarrow> well_formed (a @ b) \<longleftrightarrow> well_formed b"
  by (simp add: well_formed_def utf8_bytes_append)

lemma well_formed_left: "well_formed (a @ b) \<Longrightarrow> well_formed b \<Longrightarrow> well_formed a"
  by (auto simp: well_formed_def dest: utf8_bytes_left)

lemma js_whitespace_well_formed: "\<forall>w \<in> set js_whitespace. well_formed w"
  by (simp add: js_whitespace_def well_formed_def cont_bytes_def second_ok_def numeral_2_eq_2)

lemma drop_lead_well_formed:
  assumes "well_formed s"
  shows "well_formed (drop_lead js_whitespace s)"
  using assms
proof (induction js_whitespace s rule: drop_lead.induct)
  case (1 s)
  show ?case
  proof (cases "lead_len js_whitespace s = 0 \<or> s = []")
    case True
    with 1 show ?thesis by (subst drop_lead.simps) (auto simp: Let_def)
  next
    case False
    then obtain w t where w: "w \<in> set js_whitespace" "s = w @ t" "lead_len js_whitespace s = length w"
      using lead_len_prefix [of js_whitespace s] by (auto simp: prefix_def)
    with 1(2) js_whitespace_well_formed have "well_formed t" by (auto simp: well_formed_append)
    with w False 1(1) [OF refl] show ?thesis by (subst drop_lead.simps) (simp add: Let_def)
  qed
qed

lemma drop_trail_well_formed:
  assumes "well_formed (rev r)"
  shows "well_formed (rev (drop_lead js_whitespace_rev r))"
  using assms
proof (induction js_whitespace_rev r rule: drop_lead.induct)
  case (1 r)
  show ?case
  proof (cases "lead_len js_whitespace_rev r = 0 \<or> r = []")
    case True
    with 1 show ?thesis by (subst drop_lead.simps) (auto simp: Let_def)
  next
    case False
    then obtain w t where w: "w \<in> set js_whitespace" "r = rev w @ t"
        "lead_len js_whitespace_rev r = length w"
      using lead_len_prefix [of js_whitespace_rev r] by (auto simp: prefix_def)
    with 1(2) js_whitespace_well_formed have "well_formed (rev t)"
      by (auto dest: well_formed_left)
    with w False 1(1) [OF refl] show ?thesis by (subst drop_lead.simps) (simp add: Let_def)
  qed
qed

lemma js_trim_well_formed: "well_formed s \<Longrightarrow> well_formed (js_trim s)"
  by (simp add: js_trim_def drop_lead_well_formed drop_trail_well_formed)

section \<open>Normalisation\<close>

lemma clean_Some: "clean (Some s) = (if js_trim s = [] then None else Some (js_trim s))"
  by (simp add: clean_def Let_def)

lemma clean_None [simp]: "clean None = None"
  by (simp add: clean_def)

lemma splitSeatKey_Some:
  "splitSeatKey (Some s) = Some (f, i) \<longleftrightarrow>
     f \<noteq> [] \<and> CHR '':'' \<notin> set f \<and> s = f @ CHR '':'' # i"
proof
  assume "splitSeatKey (Some s) = Some (f, i)"
  then obtain n where n: "index_of CHR '':'' s = Some n" "n \<noteq> 0" "f = take n s" "i = drop (n + 1) s"
    by (auto simp: splitSeatKey_def split: option.splits if_splits)
  then show "f \<noteq> [] \<and> CHR '':'' \<notin> set f \<and> s = f @ CHR '':'' # i"
    using index_of_Some [OF n(1)] id_take_nth_drop [of n s] by auto
next
  assume "f \<noteq> [] \<and> CHR '':'' \<notin> set f \<and> s = f @ CHR '':'' # i"
  then show "splitSeatKey (Some s) = Some (f, i)"
    by (auto simp: splitSeatKey_def index_of_append_notin)
qed

lemma splitSeatKey_default [simp]: "splitSeatKey (Some (''1F:'' @ r)) = Some (''1F'', r)"
  using splitSeatKey_Some [of "''1F:'' @ r" "''1F''" r] by simp

text \<open>For a bare id the key is the trimmed text, put on floor 1F unless it names a floor.\<close>

lemma seatKey_bare:
  "seatKey (normalizeSeatIdentity (bare_seat s) no_defaults) =
     (if splitSeatKey (Some (js_trim s)) = None then ''1F:'' @ js_trim s else js_trim s)"
proof -
  have raw: "or_else (clean (Some s)) [] = js_trim s"
    by (simp add: clean_Some)
  show ?thesis
  proof (cases "splitSeatKey (Some (js_trim s))")
    case None
    then show ?thesis
      by (simp add: normalizeSeatIdentity_def bare_seat_def no_defaults_def raw Let_def
          splitSeatKey_def [of None] DEFAULT_SEAT_FLOOR_KEY_def)
  next
    case (Some p)
    obtain f i where p: "p = (f, i)" by (cases p)
    with Some have "js_trim s = f @ CHR '':'' # i" by (simp add: splitSeatKey_Some)
    with Some p show ?thesis
      by (simp add: normalizeSeatIdentity_def bare_seat_def no_defaults_def raw Let_def
          splitSeatKey_def [of None])
  qed
qed

lemma seatKey_bare_clean: "js_trim (seatKey (normalizeSeatIdentity (bare_seat s) no_defaults)) =
    seatKey (normalizeSeatIdentity (bare_seat s) no_defaults)"
proof -
  have "js_trim (''1F:'' @ js_trim s) = ''1F:'' @ js_trim s"
    by (rule js_trim_guarded) (simp_all add: printable_def js_trim_clean)
  then show ?thesis by (simp add: seatKey_bare js_trim_idem)
qed

lemma seatKey_bare_idem:
  assumes "k = seatKey (normalizeSeatIdentity (bare_seat s) no_defaults)"
  shows "seatKey (normalizeSeatIdentity (bare_seat k) no_defaults) = k"
proof -
  have t: "js_trim k = k" using assms seatKey_bare_clean by simp
  have "splitSeatKey (Some k) \<noteq> None"
    using assms by (cases "splitSeatKey (Some (js_trim s))") (simp_all add: seatKey_bare del: append.simps)
  with t show ?thesis by (simp add: seatKey_bare)
qed

lemma seatKey_well_formed:
  assumes "well_formed s"
  shows "well_formed (seatKey (normalizeSeatIdentity (bare_seat s) no_defaults))"
proof -
  have "well_formed ''1F:''" by (simp add: well_formed_def)
  with assms show ?thesis
    by (simp add: seatKey_bare well_formed_append js_trim_well_formed del: append.simps)
qed

end
