(* ===== verification/MemRedis.thy ===== *)
theory MemRedis
  imports Redis SeatIdentity
begin

text \<open>
  The class \<open>InMemoryRedis\<close> of \<open>apps/api/src/modules/booking/providers/redis.provider.ts\<close>,
  the server used when no \<open>REDIS_URL\<close> is configured. Its state is the class's five maps and
  the clock; a JavaScript \<open>Map\<close> is an association list in insertion order. Every pending
  \<open>setTimeout\<close> callback is an entry of \<open>ttls\<close> (one per key, cleared when it is replaced), and
  \<open>tick\<close> lets time pass and runs the callbacks that are due. The methods are \<open>async\<close>
  functions without an \<open>await\<close> between their reads and writes, so each is one step.
\<close>

section \<open>State\<close>

datatype timer =
    LockTimer js_string int  \<comment> \<open>the callback of \<open>set\<close>: stored value, due time\<close>
  | KeyTimer int             \<comment> \<open>the callback of \<open>expire\<close>: due time\<close>

record mem =
  store :: "(js_string \<times> js_string) list"
  sets :: "(js_string \<times> js_string list) list"
  sortedSets :: "(js_string \<times> (js_string \<times> int) list) list"
  ttls :: "(js_string \<times> timer) list"
  expiries :: "(js_string \<times> int) list"
  clock :: int

definition mem_empty :: "int \<Rightarrow> mem" where
  "mem_empty t = \<lparr>store = [], sets = [], sortedSets = [], ttls = [], expiries = [], clock = t\<rparr>"

abbreviation has :: "('k \<times> 'v) list \<Rightarrow> 'k \<Rightarrow> bool" where
  "has al k \<equiv> map_of al k \<noteq> None"

definition has_any :: "mem \<Rightarrow> js_string \<Rightarrow> bool" where
  "has_any m k \<longleftrightarrow> has (store m) k \<or> has (sets m) k \<or> has (sortedSets m) k"

definition clear_timer :: "js_string \<Rightarrow> mem \<Rightarrow> mem" where
  "clear_timer k m = m\<lparr>ttls := AList.delete k (ttls m), expiries := AList.delete k (expiries m)\<rparr>"

section \<open>String commands\<close>

text \<open>The options of \<open>set\<close>: the object form, or ioredis flags in any case.\<close>

datatype set_arg = AStr js_string | ANum int

datatype set_opts = ObjectForm "bool option" "int option" | Variadic "set_arg list"

definition upper_arg :: "set_arg \<Rightarrow> set_arg" where
  "upper_arg a = (case a of AStr s \<Rightarrow> AStr (js_upper s) | ANum n \<Rightarrow> ANum n)"

fun arg_after :: "set_arg \<Rightarrow> set_arg list \<Rightarrow> set_arg option option" where
  "arg_after f [] = None"
| "arg_after f (a # as) = (if a = f then Some (case as of [] \<Rightarrow> None | b # _ \<Rightarrow> Some b) else arg_after f as)"

definition number_arg :: "set_arg option \<Rightarrow> int option" where
  "number_arg a =
     (case a of None \<Rightarrow> None | Some (AStr s) \<Rightarrow> js_number s | Some (ANum n) \<Rightarrow> Some n)"

definition parse_set_opts :: "set_opts \<Rightarrow> bool \<times> int option" where
  "parse_set_opts opts =
     (case opts of
        ObjectForm nx ex \<Rightarrow> (or_else nx False, map_option (\<lambda>e. e * 1000) ex)
      | Variadic args \<Rightarrow>
          (let flags = map upper_arg args
           in (AStr ''NX'' \<in> set flags,
               (case arg_after (AStr ''PX'') flags of
                  Some a \<Rightarrow> number_arg a
                | None \<Rightarrow>
                    (case arg_after (AStr ''EX'') flags of
                       Some a \<Rightarrow> map_option (\<lambda>e. e * 1000) (number_arg a)
                     | None \<Rightarrow> None)))))"

text \<open>\<open>True\<close> is the reply \<open>OK\<close>, \<open>False\<close> is \<open>null\<close>.\<close>

definition mem_set :: "js_string \<Rightarrow> js_string \<Rightarrow> set_opts \<Rightarrow> mem \<Rightarrow> bool \<times> mem" where
  "mem_set k v opts m =
     (let (nx, ttlMs) = parse_set_opts opts
      in if nx \<and> has (store m) k then (False, m)
         else let m1 = (clear_timer k m)\<lparr>store := AList.update k v (store m)\<rparr>
              in (True,
                  case ttlMs of
                    None \<Rightarrow> m1
                  | Some t \<Rightarrow> m1\<lparr>expiries := AList.update k (clock m + t) (expiries m1),
                                 ttls := AList.update k (LockTimer v (clock m + t)) (ttls m1)\<rparr>))"

definition mem_get :: "mem \<Rightarrow> js_string \<Rightarrow> js_string option" where
  "mem_get m k = map_of (store m) k"

definition mem_decr :: "js_string \<Rightarrow> mem \<Rightarrow> int option \<times> mem" where
  "mem_decr k m =
     (let next = map_option (\<lambda>n. n - 1) (js_number (or_else (mem_get m k) ''0''))
      in (next, m\<lparr>store := AList.update k (case next of Some n \<Rightarrow> js_of_int n | None \<Rightarrow> ''NaN'') (store m)\<rparr>))"

definition mem_del1 :: "js_string \<Rightarrow> mem \<Rightarrow> bool \<times> mem" where
  "mem_del1 k m =
     (if has (store m) k then (True, (clear_timer k m)\<lparr>store := AList.delete k (store m)\<rparr>)
      else if has (sets m) k then (True, (clear_timer k m)\<lparr>sets := AList.delete k (sets m)\<rparr>)
      else if has (sortedSets m) k then (True, (clear_timer k m)\<lparr>sortedSets := AList.delete k (sortedSets m)\<rparr>)
      else (False, clear_timer k m))"

fun mem_del :: "js_string list \<Rightarrow> mem \<Rightarrow> nat \<times> mem" where
  "mem_del [] m = (0, m)"
| "mem_del (k # ks) m =
     (let (existed, m1) = mem_del1 k m; (n, m2) = mem_del ks m1
      in ((if existed then Suc n else n), m2))"

text \<open>Remaining lifetimes. An expiry of 0 reads as none, as \<open>!expiry\<close> does.\<close>

definition live_expiry :: "mem \<Rightarrow> js_string \<Rightarrow> int option" where
  "live_expiry m k =
     (case map_of (expiries m) k of None \<Rightarrow> None | Some e \<Rightarrow> if e = 0 then None else Some e)"

definition mem_pttl :: "mem \<Rightarrow> js_string \<Rightarrow> int" where
  "mem_pttl m k =
     (if \<not> has_any m k then -2
      else case live_expiry m k of
        None \<Rightarrow> -1
      | Some e \<Rightarrow> (let remaining = e - clock m in if remaining > 0 then remaining else -2))"

definition ceil_div :: "int \<Rightarrow> int \<Rightarrow> int" where
  "ceil_div a b = - ((- a) div b)"

definition mem_ttl :: "mem \<Rightarrow> js_string \<Rightarrow> int" where
  "mem_ttl m k =
     (if \<not> has_any m k then -2
      else case live_expiry m k of
        None \<Rightarrow> -1
      | Some e \<Rightarrow> (let remaining = ceil_div (e - clock m) 1000 in if remaining > 0 then remaining else -2))"

definition mem_expire :: "js_string \<Rightarrow> int \<Rightarrow> mem \<Rightarrow> nat \<times> mem" where
  "mem_expire k seconds m =
     (if \<not> has_any m k then (0, m)
      else (1, m\<lparr>expiries := AList.update k (clock m + seconds * 1000) (expiries m),
                 ttls := AList.update k (KeyTimer (clock m + seconds * 1000)) (ttls m)\<rparr>))"

section \<open>Set commands\<close>

definition set_of :: "mem \<Rightarrow> js_string \<Rightarrow> js_string list" where
  "set_of m k = or_else (map_of (sets m) k) []"

definition set_add :: "js_string \<Rightarrow> js_string list \<Rightarrow> js_string list" where
  "set_add x xs = (if x \<in> set xs then xs else xs @ [x])"

fun mem_sadd :: "js_string \<Rightarrow> js_string list \<Rightarrow> mem \<Rightarrow> nat \<times> mem" where
  "mem_sadd k [] m =
     (0, if has (sets m) k then m else m\<lparr>sets := AList.update k [] (sets m)\<rparr>)"
| "mem_sadd k (x # xs) m =
     (let s = set_of m k;
          m1 = m\<lparr>sets := AList.update k (set_add x s) (sets m)\<rparr>;
          (n, m2) = mem_sadd k xs m1
      in ((if x \<in> set s then n else Suc n), m2))"

text \<open>\<open>Set.delete\<close> on the set of a key, if the key has one.\<close>

definition set_remove :: "js_string \<Rightarrow> js_string \<Rightarrow> mem \<Rightarrow> mem" where
  "set_remove k x m =
     (case map_of (sets m) k of
        None \<Rightarrow> m
      | Some s \<Rightarrow> m\<lparr>sets := AList.update k (removeAll x s) (sets m)\<rparr>)"

fun mem_srem :: "js_string \<Rightarrow> js_string list \<Rightarrow> mem \<Rightarrow> nat \<times> mem" where
  "mem_srem k [] m = (0, m)"
| "mem_srem k (x # xs) m =
     (let (n, m2) = mem_srem k xs (set_remove k x m)
      in ((if x \<in> set (set_of m k) then Suc n else n), m2))"

definition mem_smembers :: "mem \<Rightarrow> js_string \<Rightarrow> js_string list" where
  "mem_smembers m k = set_of m k"

definition mem_scard :: "mem \<Rightarrow> js_string \<Rightarrow> nat" where
  "mem_scard m k = length (set_of m k)"

section \<open>Sorted set commands\<close>

definition zset_of :: "mem \<Rightarrow> js_string \<Rightarrow> (js_string \<times> int) list" where
  "zset_of m k = or_else (map_of (sortedSets m) k) []"

text \<open>By score, then by member; members are UUIDs, on which \<open>localeCompare\<close> is byte order.\<close>

definition getSortedSetEntries :: "mem \<Rightarrow> js_string \<Rightarrow> (js_string \<times> int) list" where
  "getSortedSetEntries m k = sort_key snd (sort_key fst (zset_of m k))"

definition mem_zadd :: "js_string \<Rightarrow> int \<Rightarrow> js_string \<Rightarrow> mem \<Rightarrow> nat \<times> mem" where
  "mem_zadd k score x m =
     ((if has (zset_of m k) x then 0 else 1),
      m\<lparr>sortedSets := AList.update k (AList.update x score (zset_of m k)) (sortedSets m)\<rparr>)"

fun mem_zrem :: "js_string \<Rightarrow> js_string list \<Rightarrow> mem \<Rightarrow> nat \<times> mem" where
  "mem_zrem k [] m = (0, m)"
| "mem_zrem k (x # xs) m =
     (let m1 = (case map_of (sortedSets m) k of
                  None \<Rightarrow> m
                | Some z \<Rightarrow> m\<lparr>sortedSets := AList.update k (AList.delete x z) (sortedSets m)\<rparr>);
          (n, m2) = mem_zrem k xs m1
      in ((if has (zset_of m k) x then Suc n else n), m2))"

fun index_where :: "('a \<Rightarrow> bool) \<Rightarrow> 'a list \<Rightarrow> nat option" where
  "index_where P [] = None"
| "index_where P (x # xs) = (if P x then Some 0 else map_option Suc (index_where P xs))"

definition mem_zrank :: "mem \<Rightarrow> js_string \<Rightarrow> js_string \<Rightarrow> nat option" where
  "mem_zrank m k x = index_where (\<lambda>e. fst e = x) (getSortedSetEntries m k)"

definition mem_zcard :: "mem \<Rightarrow> js_string \<Rightarrow> nat" where
  "mem_zcard m k = length (zset_of m k)"

definition mem_zrange :: "mem \<Rightarrow> js_string \<Rightarrow> int \<Rightarrow> int \<Rightarrow> (js_string \<times> int) list" where
  "mem_zrange m k start stop =
     (let entries = getSortedSetEntries m k; n = int (length entries)
      in if n = 0 then []
         else let s = (if start < 0 then max (n + start) 0 else start);
                  e = (if stop < 0 then n + stop else stop);
                  inclusiveStop = min (e + 1) n
              in if s \<ge> n \<or> s > e then []
                 else take (nat (inclusiveStop - s)) (drop (nat s) entries))"

section \<open>Timers\<close>

definition due :: "timer \<Rightarrow> int" where
  "due t = (case t of LockTimer _ d \<Rightarrow> d | KeyTimer d \<Rightarrow> d)"

definition fire_lock_timer :: "js_string \<Rightarrow> js_string \<Rightarrow> mem \<Rightarrow> mem" where
  "fire_lock_timer k v m =
     (let m1 = (clear_timer k m)\<lparr>store := AList.delete k (store m)\<rparr>;
          parts = js_split CHR '':'' k
      in if length parts = 3 \<and> parts ! 1 = ''seat''
         then let showtimeId = butlast (tl (parts ! 0)); seatId = parts ! 2
              in set_remove (user_seats_key showtimeId v) seatId
                   (set_remove (locked_seats_key showtimeId) seatId m1)
         else m1)"

definition fire_key_timer :: "js_string \<Rightarrow> mem \<Rightarrow> mem" where
  "fire_key_timer k m =
     (clear_timer k m)\<lparr>store := AList.delete k (store m), sets := AList.delete k (sets m),
        sortedSets := AList.delete k (sortedSets m)\<rparr>"

definition fire :: "js_string \<times> timer \<Rightarrow> mem \<Rightarrow> mem" where
  "fire e m = (case snd e of LockTimer v _ \<Rightarrow> fire_lock_timer (fst e) v m | KeyTimer _ \<Rightarrow> fire_key_timer (fst e) m)"

definition tick :: "nat \<Rightarrow> mem \<Rightarrow> mem" where
  "tick ms m =
     (let m1 = m\<lparr>clock := clock m + int ms\<rparr>
      in fold fire (filter (\<lambda>e. due (snd e) \<le> clock m1) (ttls m1)) m1)"

end
