(* ===== verification/SeatLocks.thy ===== *)
theory SeatLocks
  imports MemRedis
begin

text \<open>
  The seat locks of one showtime: the Lua scripts of
  \<open>apps/api/src/modules/booking/booking.service.ts\<close>, over an arbitrary server \<open>R\<close>, and the
  emulations of the same scripts in \<open>InMemoryRedis.eval\<close> (\<open>redis.provider.ts\<close>), which replace
  them when no server is configured. The lemmas say who owns which seat before and after each
  script, that a refused script changes no owner, and that the emulations decide alike.
\<close>

section \<open>Lua scripts\<close>

text \<open>\<open>{0, reason}\<close> or \<open>{1, lockKey, seatId, ttl}\<close>.\<close>

datatype lock_reply = Refused js_string | Granted js_string js_string int

text \<open>
  The loop over the user's members: it counts the seats the user still owns, drops the others
  from the user's set and drops seats nobody owns from the locked set.
\<close>

fun clean_members ::
  "'s redis \<Rightarrow> js_string \<Rightarrow> js_string \<Rightarrow> js_string \<Rightarrow> js_string \<Rightarrow> js_string list \<Rightarrow> nat \<times> 's \<Rightarrow> nat \<times> 's"
where
  "clean_members R userKey lockedKey keyPrefix userId [] acc = acc"
| "clean_members R userKey lockedKey keyPrefix userId (sid # sids) (alive, s) =
     (let owner = GET R s (keyPrefix @ sid)
      in clean_members R userKey lockedKey keyPrefix userId sids
           (if owner = Some userId then (alive + 1, s)
            else let s1 = SREM R userKey sid s
                 in (alive, if owner = None then SREM R lockedKey sid s1 else s1)))"

definition lock_seat_lua ::
  "'s redis \<Rightarrow> js_string \<Rightarrow> js_string \<Rightarrow> js_string \<Rightarrow> js_string \<Rightarrow> int \<Rightarrow> int \<Rightarrow> js_string \<Rightarrow> js_string \<Rightarrow>
   's \<Rightarrow> lock_reply \<times> 's"
where
  "lock_seat_lua R userKey lockKey lockedKey userId requestedTtl maxSeats sid keyPrefix s =
     (let members = SMEMBERS R s userKey;
          userSeatsTtl = TTL R s userKey;
          (alive, s1) = clean_members R userKey lockedKey keyPrefix userId members (0, s)
      in if int alive \<ge> maxSeats then (Refused ''MAX_SEATS'', s1)
         else let effectiveTtl = (if alive > 0 \<and> userSeatsTtl > 0 then userSeatsTtl else requestedTtl);
                  (ok, s2) = SET_NX_EX R lockKey userId effectiveTtl s1
              in if \<not> ok then (Refused ''CONFLICT'', s2)
                 else let s3 = SADD R userKey sid s2;
                          s4 = (if alive = 0 \<or> userSeatsTtl < 0 then EXPIRE R userKey effectiveTtl s3 else s3);
                          s5 = SADD R lockedKey sid s4
                      in (Granted lockKey sid effectiveTtl, s5))"

definition unlock_seat_lua ::
  "'s redis \<Rightarrow> js_string \<Rightarrow> js_string \<Rightarrow> js_string \<Rightarrow> js_string \<Rightarrow> js_string \<Rightarrow> 's \<Rightarrow> bool \<times> 's"
where
  "unlock_seat_lua R lockKey userKey lockedKey userId sid s =
     (if GET R s lockKey = Some userId
      then (True, SREM R lockedKey sid (SREM R userKey sid (DEL R lockKey s)))
      else (False, s))"

fun valid_members :: "'s redis \<Rightarrow> js_string \<Rightarrow> js_string \<Rightarrow> js_string list \<Rightarrow> 's \<Rightarrow> js_string list \<times> 's" where
  "valid_members R lockedKey keyPrefix [] s = ([], s)"
| "valid_members R lockedKey keyPrefix (sid # sids) s =
     (if GET R s (keyPrefix @ sid) \<noteq> None
      then (let (alive, s1) = valid_members R lockedKey keyPrefix sids s in (sid # alive, s1))
      else valid_members R lockedKey keyPrefix sids (SREM R lockedKey sid s))"

definition get_valid_locked_seats_lua :: "'s redis \<Rightarrow> js_string \<Rightarrow> js_string \<Rightarrow> 's \<Rightarrow> js_string list \<times> 's" where
  "get_valid_locked_seats_lua R lockedKey keyPrefix s =
     valid_members R lockedKey keyPrefix (SMEMBERS R s lockedKey) s"

definition read_valid_locked_seats_lua :: "'s redis \<Rightarrow> js_string \<Rightarrow> js_string \<Rightarrow> 's \<Rightarrow> js_string list" where
  "read_valid_locked_seats_lua R lockedKey keyPrefix s =
     filter (\<lambda>sid. GET R s (keyPrefix @ sid) \<noteq> None) (SMEMBERS R s lockedKey)"

text \<open>
  The ownership scripts take the lock keys and the seat ids in the same order; a pair is one
  seat. The reply is \<open>{1, 'OK', count, ''}\<close> or \<open>{0, reason, seatId, owner}\<close>.
\<close>

datatype ownership_reply = OwnOk nat | OwnFail js_string js_string js_string

fun check_owned :: "'s redis \<Rightarrow> js_string \<Rightarrow> (js_string \<times> js_string) list \<Rightarrow> 's \<Rightarrow> ownership_reply option" where
  "check_owned R userId [] s = None"
| "check_owned R userId ((lockKey, sid) # ks) s =
     (case GET R s lockKey of
        None \<Rightarrow> Some (OwnFail ''MISSING'' sid [])
      | Some owner \<Rightarrow>
          if owner \<noteq> userId then Some (OwnFail ''OTHER_OWNER'' sid owner) else check_owned R userId ks s)"

definition assert_owned_seat_locks_lua ::
  "'s redis \<Rightarrow> js_string \<Rightarrow> (js_string \<times> js_string) list \<Rightarrow> 's \<Rightarrow> ownership_reply" where
  "assert_owned_seat_locks_lua R userId ks s = or_else (check_owned R userId ks s) (OwnOk (length ks))"

definition consume_one :: "'s redis \<Rightarrow> js_string \<Rightarrow> js_string \<Rightarrow> js_string \<times> js_string \<Rightarrow> 's \<Rightarrow> 's" where
  "consume_one R userKey lockedKey e s =
     SREM R lockedKey (snd e) (SREM R userKey (snd e) (DEL R (fst e) s))"

definition consume_owned_seat_locks_lua ::
  "'s redis \<Rightarrow> js_string \<Rightarrow> js_string \<Rightarrow> js_string \<Rightarrow> (js_string \<times> js_string) list \<Rightarrow> 's \<Rightarrow> ownership_reply \<times> 's"
where
  "consume_owned_seat_locks_lua R userKey lockedKey userId ks s =
     (case check_owned R userId ks s of
        Some failure \<Rightarrow> (failure, s)
      | None \<Rightarrow> (OwnOk (length ks), fold (consume_one R userKey lockedKey) ks s))"

datatype ttl_mode = Extend | Exact

definition extend_one :: "'s redis \<Rightarrow> ttl_mode \<Rightarrow> int \<Rightarrow> js_string \<Rightarrow> 's \<Rightarrow> 's" where
  "extend_one R mode ttl k s = (if mode = Exact \<or> TTL R s k < ttl then EXPIRE R k ttl s else s)"

definition extend_owned_seat_locks_lua ::
  "'s redis \<Rightarrow> js_string \<Rightarrow> js_string \<Rightarrow> int \<Rightarrow> ttl_mode \<Rightarrow> (js_string \<times> js_string) list \<Rightarrow> 's \<Rightarrow> ownership_reply \<times> 's"
where
  "extend_owned_seat_locks_lua R userKey userId ttl mode ks s =
     (case check_owned R userId ks s of
        Some failure \<Rightarrow> (failure, s)
      | None \<Rightarrow>
          (let s1 = fold (extend_one R mode ttl) (map fst ks) s;
               s2 = (if TTL R s1 userKey < ttl then EXPIRE R userKey ttl s1 else s1)
           in (OwnOk (length ks), s2)))"

fun find_other_owner :: "'s redis \<Rightarrow> js_string \<Rightarrow> (js_string \<times> js_string) list \<Rightarrow> 's \<Rightarrow> ownership_reply option" where
  "find_other_owner R owner [] s = None"
| "find_other_owner R owner ((lockKey, sid) # ks) s =
     (case GET R s lockKey of
        Some current \<Rightarrow>
          if current \<noteq> owner then Some (OwnFail ''OTHER_OWNER'' sid current) else find_other_owner R owner ks s
      | None \<Rightarrow> find_other_owner R owner ks s)"

definition acquire_one :: "'s redis \<Rightarrow> js_string \<Rightarrow> js_string \<Rightarrow> int \<Rightarrow> js_string \<times> js_string \<Rightarrow> 's \<Rightarrow> 's" where
  "acquire_one R lockedKey owner ttl e s = SADD R lockedKey (snd e) (SET_EX R (fst e) owner ttl s)"

definition acquire_recovery_seat_locks_lua ::
  "'s redis \<Rightarrow> js_string \<Rightarrow> js_string \<Rightarrow> int \<Rightarrow> (js_string \<times> js_string) list \<Rightarrow> 's \<Rightarrow> ownership_reply \<times> 's"
where
  "acquire_recovery_seat_locks_lua R lockedKey owner ttl ks s =
     (case find_other_owner R owner ks s of
        Some failure \<Rightarrow> (failure, s)
      | None \<Rightarrow> (OwnOk (length ks), fold (acquire_one R lockedKey owner ttl) ks s))"

definition release_one :: "'s redis \<Rightarrow> js_string \<Rightarrow> js_string \<Rightarrow> js_string \<times> js_string \<Rightarrow> 's \<Rightarrow> 's" where
  "release_one R lockedKey owner e s =
     (if GET R s (fst e) = Some owner then SREM R lockedKey (snd e) (DEL R (fst e) s) else s)"

definition release_recovery_seat_locks_lua ::
  "'s redis \<Rightarrow> js_string \<Rightarrow> js_string \<Rightarrow> (js_string \<times> js_string) list \<Rightarrow> 's \<Rightarrow> 's" where
  "release_recovery_seat_locks_lua R lockedKey owner ks s = fold (release_one R lockedKey owner) ks s"

definition release_payment_confirm_lock_lua :: "'s redis \<Rightarrow> js_string \<Rightarrow> js_string \<Rightarrow> 's \<Rightarrow> bool \<times> 's" where
  "release_payment_confirm_lock_lua R lockKey token s =
     (if GET R s lockKey = Some token then (True, DEL R lockKey s) else (False, s))"

definition refresh_payment_confirm_lock_lua :: "'s redis \<Rightarrow> js_string \<Rightarrow> js_string \<Rightarrow> int \<Rightarrow> 's \<Rightarrow> bool \<times> 's" where
  "refresh_payment_confirm_lock_lua R lockKey token ttl s =
     (if GET R s lockKey = Some token then (True, EXPIRE R lockKey ttl s) else (False, s))"

section \<open>In-memory emulation\<close>

datatype emu_reply = EmuRefused js_string | EmuGranted js_string js_string

fun emu_clean :: "js_string \<Rightarrow> js_string \<Rightarrow> js_string \<Rightarrow> js_string \<Rightarrow> js_string list \<Rightarrow> nat \<times> mem \<Rightarrow> nat \<times> mem" where
  "emu_clean userKey lockedKey keyPrefix userId [] acc = acc"
| "emu_clean userKey lockedKey keyPrefix userId (sid # sids) (alive, m) =
     (let owner = map_of (store m) (keyPrefix @ sid)
      in emu_clean userKey lockedKey keyPrefix userId sids
           (if owner = Some userId then (alive + 1, m)
            else let m1 = set_remove userKey sid m
                 in (alive, if owner = None then set_remove lockedKey sid m1 else m1)))"

definition evalLockSeat ::
  "js_string \<Rightarrow> js_string \<Rightarrow> js_string \<Rightarrow> js_string \<Rightarrow> int \<Rightarrow> int \<Rightarrow> js_string \<Rightarrow> js_string \<Rightarrow> mem \<Rightarrow> emu_reply \<times> mem"
where
  "evalLockSeat userKey lockKey lockedKey userId lockTtl maxSeats sid keyPrefix m =
     (let (alive, m1) = emu_clean userKey lockedKey keyPrefix userId (set_of m userKey) (0, m)
      in if int alive \<ge> maxSeats then (EmuRefused ''MAX_SEATS'', m1)
         else if has (store m1) lockKey then (EmuRefused ''CONFLICT'', m1)
         else let m2 = snd (mem_set lockKey userId (ObjectForm (Some True) (Some lockTtl)) m1);
                  m3 = snd (mem_sadd userKey [sid] m2);
                  m4 = snd (mem_expire userKey lockTtl m3);
                  m5 = snd (mem_sadd lockedKey [sid] m4)
              in (EmuGranted lockKey sid, m5))"

definition drop_lock :: "js_string \<Rightarrow> js_string \<Rightarrow> js_string \<times> js_string \<Rightarrow> mem \<Rightarrow> mem" where
  "drop_lock userKey lockedKey e m =
     set_remove lockedKey (snd e) (set_remove userKey (snd e)
       ((clear_timer (fst e) m)\<lparr>store := AList.delete (fst e) (store m)\<rparr>))"

definition evalUnlockSeat :: "js_string \<Rightarrow> js_string \<Rightarrow> js_string \<Rightarrow> js_string \<Rightarrow> js_string \<Rightarrow> mem \<Rightarrow> bool \<times> mem" where
  "evalUnlockSeat lockKey userKey lockedKey userId sid m =
     (if map_of (store m) lockKey \<noteq> Some userId then (False, m)
      else (True, drop_lock userKey lockedKey (lockKey, sid) m))"

fun emu_check :: "js_string \<Rightarrow> (js_string \<times> js_string) list \<Rightarrow> mem \<Rightarrow> ownership_reply option" where
  "emu_check userId [] m = None"
| "emu_check userId ((lockKey, sid) # ks) m =
     (case map_of (store m) lockKey of
        None \<Rightarrow> Some (OwnFail ''MISSING'' sid [])
      | Some owner \<Rightarrow>
          if owner \<noteq> userId then Some (OwnFail ''OTHER_OWNER'' sid owner) else emu_check userId ks m)"

definition evalAssertOwnedSeatLocks :: "js_string \<Rightarrow> (js_string \<times> js_string) list \<Rightarrow> mem \<Rightarrow> ownership_reply" where
  "evalAssertOwnedSeatLocks userId ks m = or_else (emu_check userId ks m) (OwnOk (length ks))"

definition evalConsumeOwnedSeatLocks ::
  "js_string \<Rightarrow> js_string \<Rightarrow> js_string \<Rightarrow> (js_string \<times> js_string) list \<Rightarrow> mem \<Rightarrow> ownership_reply \<times> mem" where
  "evalConsumeOwnedSeatLocks userKey lockedKey userId ks m =
     (case emu_check userId ks m of
        Some failure \<Rightarrow> (failure, m)
      | None \<Rightarrow> (OwnOk (length ks), fold (drop_lock userKey lockedKey) ks m))"

definition emu_extend_one :: "ttl_mode \<Rightarrow> int \<Rightarrow> js_string \<Rightarrow> mem \<Rightarrow> mem" where
  "emu_extend_one mode ttl k m = (if mode = Exact \<or> mem_ttl m k < ttl then snd (mem_expire k ttl m) else m)"

definition evalExtendOwnedSeatLocks ::
  "js_string \<Rightarrow> js_string \<Rightarrow> int \<Rightarrow> ttl_mode \<Rightarrow> (js_string \<times> js_string) list \<Rightarrow> mem \<Rightarrow> ownership_reply \<times> mem" where
  "evalExtendOwnedSeatLocks userKey userId ttl mode ks m =
     (case emu_check userId ks m of
        Some failure \<Rightarrow> (failure, m)
      | None \<Rightarrow>
          (let m1 = fold (emu_extend_one mode ttl) (map fst ks) m;
               m2 = (if mem_ttl m1 userKey < ttl then snd (mem_expire userKey ttl m1) else m1)
           in (OwnOk (length ks), m2)))"

definition evalReleasePaymentConfirmLock :: "js_string \<Rightarrow> js_string \<Rightarrow> mem \<Rightarrow> nat \<times> mem" where
  "evalReleasePaymentConfirmLock lockKey token m =
     (if map_of (store m) lockKey \<noteq> Some token then (0, m) else mem_del [lockKey] m)"

definition evalRefreshPaymentConfirmLock :: "js_string \<Rightarrow> js_string \<Rightarrow> int \<Rightarrow> mem \<Rightarrow> nat \<times> mem" where
  "evalRefreshPaymentConfirmLock lockKey token ttl m =
     (if map_of (store m) lockKey \<noteq> Some token then (0, m) else mem_expire lockKey ttl m)"

fun emu_valid :: "js_string \<Rightarrow> js_string \<Rightarrow> js_string list \<Rightarrow> mem \<Rightarrow> js_string list \<times> mem" where
  "emu_valid lockedKey keyPrefix [] m = ([], m)"
| "emu_valid lockedKey keyPrefix (sid # sids) m =
     (if has (store m) (keyPrefix @ sid)
      then (let (alive, m1) = emu_valid lockedKey keyPrefix sids m in (sid # alive, m1))
      else emu_valid lockedKey keyPrefix sids (set_remove lockedKey sid m))"

definition evalGetValidLockedSeats :: "js_string \<Rightarrow> js_string \<Rightarrow> mem \<Rightarrow> js_string list \<times> mem" where
  "evalGetValidLockedSeats lockedKey keyPrefix m = emu_valid lockedKey keyPrefix (set_of m lockedKey) m"

definition evalReadValidLockedSeats :: "js_string \<Rightarrow> js_string \<Rightarrow> mem \<Rightarrow> js_string list" where
  "evalReadValidLockedSeats lockedKey keyPrefix m =
     filter (\<lambda>sid. has (store m) (keyPrefix @ sid)) (set_of m lockedKey)"

text \<open>
  \<open>InMemoryRedis.eval\<close> picks an emulation by the marker comments in the script text and by the
  number of keys and arguments. A script is given here by the markers its text contains;
  \<open>None\<close> is the thrown \<open>unknown Lua script pattern\<close>.
\<close>

datatype script =
    LOCK_SEAT_LUA | UNLOCK_SEAT_LUA | GET_VALID_LOCKED_SEATS_LUA | READ_VALID_LOCKED_SEATS_LUA
  | ASSERT_OWNED_SEAT_LOCKS_LUA | CONSUME_OWNED_SEAT_LOCKS_LUA | EXTEND_OWNED_SEAT_LOCKS_LUA
  | ACQUIRE_RECOVERY_SEAT_LOCKS_LUA | RELEASE_RECOVERY_SEAT_LOCKS_LUA
  | RELEASE_PAYMENT_CONFIRM_LOCK_LUA | REFRESH_PAYMENT_CONFIRM_LOCK_LUA | ATOMIC_INCR_LUA
  | VERIFY_AND_INCREMENT_LUA

datatype emulation =
    EmuAssert | EmuConsume | EmuExtend | EmuReleaseConfirm | EmuRefreshConfirm | EmuReadValid
  | EmuVerify | EmuLock | EmuUnlock | EmuIncr | EmuGetValid

definition mem_eval_dispatch :: "script \<Rightarrow> nat \<Rightarrow> nat \<Rightarrow> emulation option" where
  "mem_eval_dispatch script keys args =
     (if script = ASSERT_OWNED_SEAT_LOCKS_LUA then Some EmuAssert
      else if script = CONSUME_OWNED_SEAT_LOCKS_LUA then Some EmuConsume
      else if script = EXTEND_OWNED_SEAT_LOCKS_LUA then Some EmuExtend
      else if script = RELEASE_PAYMENT_CONFIRM_LOCK_LUA then Some EmuReleaseConfirm
      else if script = REFRESH_PAYMENT_CONFIRM_LOCK_LUA then Some EmuRefreshConfirm
      else if script = READ_VALID_LOCKED_SEATS_LUA then Some EmuReadValid
      else if keys = 3 \<and> args = 3 \<and> script = VERIFY_AND_INCREMENT_LUA then Some EmuVerify
      else if keys = 3 \<and> args = 5 then Some EmuLock
      else if keys = 3 \<and> args = 2 then Some EmuUnlock
      else if keys = 1 \<and> args = 1 \<and> script = ATOMIC_INCR_LUA then Some EmuIncr
      else if keys = 1 \<and> args = 1 then Some EmuGetValid
      else None)"

section \<open>The calls of the booking service\<close>

definition seat_pairs :: "js_string \<Rightarrow> js_string list \<Rightarrow> (js_string \<times> js_string) list" where
  "seat_pairs st xs = map (\<lambda>x. (seat_lock_key st x, x)) xs"

definition lock_seat ::
  "'s redis \<Rightarrow> js_string \<Rightarrow> js_string \<Rightarrow> int \<Rightarrow> int \<Rightarrow> js_string \<Rightarrow> 's \<Rightarrow> lock_reply \<times> 's" where
  "lock_seat R st userId ttl maxSeats x s =
     lock_seat_lua R (user_seats_key st userId) (seat_lock_key st x) (locked_seats_key st)
       userId ttl maxSeats x (seat_prefix st) s"

definition unlock_seat :: "'s redis \<Rightarrow> js_string \<Rightarrow> js_string \<Rightarrow> js_string \<Rightarrow> 's \<Rightarrow> bool \<times> 's" where
  "unlock_seat R st userId x s =
     unlock_seat_lua R (seat_lock_key st x) (user_seats_key st userId) (locked_seats_key st) userId x s"

definition consume_seats :: "'s redis \<Rightarrow> js_string \<Rightarrow> js_string \<Rightarrow> js_string list \<Rightarrow> 's \<Rightarrow> ownership_reply \<times> 's" where
  "consume_seats R st userId xs s =
     consume_owned_seat_locks_lua R (user_seats_key st userId) (locked_seats_key st) userId (seat_pairs st xs) s"

definition extend_seats ::
  "'s redis \<Rightarrow> js_string \<Rightarrow> js_string \<Rightarrow> int \<Rightarrow> ttl_mode \<Rightarrow> js_string list \<Rightarrow> 's \<Rightarrow> ownership_reply \<times> 's" where
  "extend_seats R st userId ttl mode xs s =
     extend_owned_seat_locks_lua R (user_seats_key st userId) userId ttl mode (seat_pairs st xs) s"

definition acquire_recovery ::
  "'s redis \<Rightarrow> js_string \<Rightarrow> js_string \<Rightarrow> int \<Rightarrow> js_string list \<Rightarrow> 's \<Rightarrow> ownership_reply \<times> 's" where
  "acquire_recovery R st token ttl xs s =
     acquire_recovery_seat_locks_lua R (locked_seats_key st) token ttl (seat_pairs st xs) s"

definition release_recovery :: "'s redis \<Rightarrow> js_string \<Rightarrow> js_string \<Rightarrow> js_string list \<Rightarrow> 's \<Rightarrow> 's" where
  "release_recovery R st token xs s =
     release_recovery_seat_locks_lua R (locked_seats_key st) token (seat_pairs st xs) s"

definition sweep_locked_seats :: "'s redis \<Rightarrow> js_string \<Rightarrow> 's \<Rightarrow> js_string list \<times> 's" where
  "sweep_locked_seats R st s = get_valid_locked_seats_lua R (locked_seats_key st) (seat_prefix st) s"

text \<open>Four separate commands, not a script.\<close>

definition forceReleaseSeatLock :: "'s redis \<Rightarrow> js_string \<Rightarrow> js_string \<Rightarrow> 's \<Rightarrow> 's" where
  "forceReleaseSeatLock R st x s =
     (let lockKey = seat_lock_key st x;
          owner = GET R s lockKey;
          s1 = SREM R (locked_seats_key st) x (DEL R lockKey s)
      in case owner of None \<Rightarrow> s1
         | Some u \<Rightarrow> if u = [] then s1 else SREM R (user_seats_key st u) x s1)"

lemma length_seat_pairs [simp]: "length (seat_pairs st xs) = length xs"
  by (simp add: seat_pairs_def)

abbreviation seat_owner :: "'s redis \<Rightarrow> js_string \<Rightarrow> 's \<Rightarrow> js_string \<Rightarrow> js_string option" where
  "seat_owner R st s x \<equiv> GET R s (seat_lock_key st x)"

lemma prefix_key [simp]: "seat_prefix st @ x = seat_lock_key st x"
  by (simp add: seat_lock_key_def)

section \<open>Ownership, script by script\<close>

context redis_server
begin

lemma clean_members_get [simp]: "GET R (snd (clean_members R uk lk pre u sids (a, s))) k = GET R s k"
  by (induction sids arbitrary: a s) (auto simp: Let_def get_srem)

lemma clean_members_alive:
  "fst (clean_members R uk lk pre u sids (a, s)) =
     a + length (filter (\<lambda>sid. GET R s (pre @ sid) = Some u) sids)"
  by (induction sids arbitrary: a s) (auto simp: Let_def get_srem)

lemma clean_members_inv: "inv s \<Longrightarrow> inv (snd (clean_members R uk lk pre u sids (a, s)))"
  by (induction sids arbitrary: a s) (auto simp: Let_def inv_step)

lemma clean_members_members:
  assumes "uk \<noteq> lk"
  shows "set (SMEMBERS R (snd (clean_members R uk lk pre u sids (a, s))) k) =
     set (SMEMBERS R s k)
       - (if k = uk then {x \<in> set sids. GET R s (pre @ x) \<noteq> Some u} else {})
       - (if k = lk then {x \<in> set sids. GET R s (pre @ x) = None} else {})"
  using assms
  by (induction sids arbitrary: a s) (auto simp: Let_def get_srem members_srem)

lemma lock_seat_cases:
  assumes "lock_seat R st u ttl mx x s = (r, s')"
  obtains (refused) reason where "r = Refused reason"
      "s' = snd (clean_members R (user_seats_key st u) (locked_seats_key st) (seat_prefix st) u
             (SMEMBERS R s (user_seats_key st u)) (0, s))"
      "reason = ''MAX_SEATS'' \<or> reason = ''CONFLICT'' \<and> seat_owner R st s x \<noteq> None"
  | (granted) alive t s1 where "r = Granted (seat_lock_key st x) x t"
      "(alive, s1) = clean_members R (user_seats_key st u) (locked_seats_key st) (seat_prefix st) u
             (SMEMBERS R s (user_seats_key st u)) (0, s)"
      "int alive < mx" "seat_owner R st s x = None"
      "t = (if 0 < alive \<and> 0 < TTL R s (user_seats_key st u) then TTL R s (user_seats_key st u) else ttl)"
      "s' = SADD R (locked_seats_key st) x
             ((if alive = 0 \<or> TTL R s (user_seats_key st u) < 0 then EXPIRE R (user_seats_key st u) t else id)
               (SADD R (user_seats_key st u) x (SET_EX R (seat_lock_key st x) u t s1)))"
proof -
  let ?c = "clean_members R (user_seats_key st u) (locked_seats_key st) (seat_prefix st) u
             (SMEMBERS R s (user_seats_key st u)) (0, s)"
  obtain alive s1 where c: "?c = (alive, s1)" by fastforce
  have g: "GET R s1 k = GET R s k" for k
    using clean_members_get [of "user_seats_key st u" "locked_seats_key st" "seat_prefix st" u
        "SMEMBERS R s (user_seats_key st u)" 0 s k] c by simp
  show thesis
  proof (cases "int alive < mx \<and> seat_owner R st s x = None")
    case True
    with assms c show thesis
      by (intro granted [of "if 0 < alive \<and> 0 < TTL R s (user_seats_key st u) then TTL R s (user_seats_key st u) else ttl" alive s1])
        (auto simp: lock_seat_def lock_seat_lua_def set_nx g Let_def)
  next
    case False
    with assms c show thesis
      by (intro refused [of "if int alive < mx then ''CONFLICT'' else ''MAX_SEATS''"])
        (auto simp: lock_seat_def lock_seat_lua_def set_nx g Let_def split: if_splits)
  qed
qed

text \<open>
  A granted lock sets the seat's owner and touches no other string key; a refused one touches
  none.
\<close>

lemma lock_seat_get:
  assumes "lock_seat R st u ttl mx x s = (r, s')" and "0 < ttl"
  shows "GET R s' k =
     (case r of Granted _ _ _ \<Rightarrow> if k = seat_lock_key st x then Some u else GET R s k | Refused _ \<Rightarrow> GET R s k)"
proof (cases rule: lock_seat_cases [OF assms(1)])
  case (1 reason)
  then show ?thesis by simp
next
  case (2 alive t s1)
  from 2(5) assms(2) have t: "0 < t" by (auto split: if_splits)
  have "GET R s1 k = GET R s k" for k
    using clean_members_get [of "user_seats_key st u" "locked_seats_key st" "seat_prefix st" u
        "SMEMBERS R s (user_seats_key st u)" 0 s k] 2(2) by (metis snd_conv)
  with 2(1,6) t show ?thesis by (auto simp: get_laws)
qed

lemma lock_seat_granted_free:
  "lock_seat R st u ttl mx x s = (Granted k y t, s') \<Longrightarrow>
     seat_owner R st s x = None \<and> k = seat_lock_key st x \<and> y = x"
  by (erule lock_seat_cases) simp_all

lemma lock_seat_ttl:
  assumes "lock_seat R st u ttl mx x s = (Granted k y t, s')" and "0 < ttl" and "inv s"
  shows "0 < t \<and> TTL R s' k = t"
proof (cases rule: lock_seat_cases [OF assms(1)])
  case (1 reason)
  then show ?thesis by simp
next
  case (2 alive t' s1)
  then have "t' = t" by simp
  from 2(5) assms(2) this have t: "0 < t" by (auto split: if_splits)
  have "inv s1"
    using clean_members_inv [OF assms(3), of "user_seats_key st u" "locked_seats_key st" "seat_prefix st" u
        "SMEMBERS R s (user_seats_key st u)" 0] 2(2) by (metis snd_conv)
  have g: "GET R (SADD R (user_seats_key st u) x (SET_EX R (seat_lock_key st x) u t s1)) (seat_lock_key st x) = Some u"
    using t by (simp add: get_laws)
  with t \<open>inv s1\<close> have "TTL R (SADD R (user_seats_key st u) x (SET_EX R (seat_lock_key st x) u t s1)) (seat_lock_key st x) = t"
    by (simp add: ttl_sadd get_set ttl_set)
  with 2(1,6) g t \<open>t' = t\<close> show ?thesis by (auto simp: ttl_sadd get_expire ttl_expire_other)
qed

lemma unlock_seat_get:
  "unlock_seat R st u x s = (b, s') \<Longrightarrow>
     b = (seat_owner R st s x = Some u) \<and>
     GET R s' k = (if b \<and> k = seat_lock_key st x then None else GET R s k)"
  by (auto simp: unlock_seat_def unlock_seat_lua_def get_laws split: if_splits)

text \<open>The ownership check reads only: it succeeds exactly when the user owns every seat.\<close>

lemma check_owned_None:
  "check_owned R u (seat_pairs st xs) s = None \<longleftrightarrow> (\<forall>x \<in> set xs. seat_owner R st s x = Some u)"
  by (induction xs) (auto simp: seat_pairs_def split: option.splits)

lemma check_owned_Some:
  "check_owned R u (seat_pairs st xs) s = Some f \<Longrightarrow>
     (\<exists>x \<in> set xs. f = OwnFail ''MISSING'' x [] \<and> seat_owner R st s x = None \<or>
        (\<exists>v. f = OwnFail ''OTHER_OWNER'' x v \<and> seat_owner R st s x = Some v \<and> v \<noteq> u))"
  by (induction xs) (auto simp: seat_pairs_def split: option.splits if_splits)

lemma consume_all_get:
  "GET R (fold (consume_one R uk lk) (seat_pairs st xs) s) k =
     (if k \<in> seat_lock_key st ` set xs then None else GET R s k)"
  by (induction xs arbitrary: s) (auto simp: seat_pairs_def consume_one_def get_laws)

lemma consume_seats_get:
  assumes "consume_seats R st u xs s = (r, s')"
  shows "if \<forall>x \<in> set xs. seat_owner R st s x = Some u
         then r = OwnOk (length xs) \<and> (\<forall>k. GET R s' k = (if k \<in> seat_lock_key st ` set xs then None else GET R s k))
         else s' = s \<and> (\<exists>reason x v. r = OwnFail reason x v \<and> x \<in> set xs \<and> seat_owner R st s x \<noteq> Some u)"
proof (cases "check_owned R u (seat_pairs st xs) s")
  case None
  then show ?thesis using assms check_owned_None [of u st xs s]
    by (auto simp: consume_seats_def consume_owned_seat_locks_lua_def consume_all_get)
next
  case (Some f)
  then have "\<not> (\<forall>x \<in> set xs. seat_owner R st s x = Some u)"
    using check_owned_None [of u st xs s] by simp
  then show ?thesis using Some assms check_owned_Some [OF Some]
    by (auto simp: consume_seats_def consume_owned_seat_locks_lua_def)
qed

lemma extend_one_get: "0 < ttl \<Longrightarrow> GET R (extend_one R mode ttl k s) k' = GET R s k'"
  by (simp add: extend_one_def get_expire)

lemma extend_all_get: "0 < ttl \<Longrightarrow> GET R (fold (extend_one R mode ttl) ks s) k' = GET R s k'"
  by (induction ks arbitrary: s) (auto simp: extend_one_get)

lemma extend_seats_get: "0 < ttl \<Longrightarrow> extend_seats R st u ttl mode xs s = (r, s') \<Longrightarrow> GET R s' k = GET R s k"
  by (auto simp: extend_seats_def extend_owned_seat_locks_lua_def Let_def get_expire extend_all_get
      split: option.splits if_splits)

lemma find_other_owner_None:
  "find_other_owner R u (seat_pairs st xs) s = None \<longleftrightarrow>
     (\<forall>x \<in> set xs. seat_owner R st s x = None \<or> seat_owner R st s x = Some u)"
  by (induction xs) (auto simp: seat_pairs_def split: option.splits)

lemma acquire_all_get:
  "0 < ttl \<Longrightarrow> GET R (fold (acquire_one R lk u ttl) (seat_pairs st xs) s) k =
     (if k \<in> seat_lock_key st ` set xs then Some u else GET R s k)"
  by (induction xs arbitrary: s) (auto simp: seat_pairs_def acquire_one_def get_laws)

lemma acquire_recovery_get:
  assumes "acquire_recovery R st u ttl xs s = (r, s')" and "0 < ttl"
  shows "if \<forall>x \<in> set xs. seat_owner R st s x \<in> {None, Some u}
         then r = OwnOk (length xs) \<and> (\<forall>k. GET R s' k = (if k \<in> seat_lock_key st ` set xs then Some u else GET R s k))
         else s' = s"
  using assms find_other_owner_None [of u st xs s]
  by (cases "find_other_owner R u (seat_pairs st xs) s")
    (auto simp: acquire_recovery_def acquire_recovery_seat_locks_lua_def acquire_all_get)

lemma release_all_get:
  "GET R (fold (release_one R lk u) (seat_pairs st xs) s) k =
     (if k \<in> seat_lock_key st ` set xs \<and> GET R s k = Some u then None else GET R s k)"
  by (induction xs arbitrary: s) (auto simp: seat_pairs_def release_one_def get_laws)

lemma release_recovery_get:
  "GET R (release_recovery R st u xs s) k =
     (if k \<in> seat_lock_key st ` set xs \<and> GET R s k = Some u then None else GET R s k)"
  by (simp add: release_recovery_def release_recovery_seat_locks_lua_def release_all_get)

lemma valid_members_get [simp]: "GET R (snd (valid_members R lk pre sids s)) k = GET R s k"
  by (induction sids arbitrary: s) (auto simp: Let_def get_srem case_prod_unfold)

lemma sweep_get: "sweep_locked_seats R st s = (ys, s') \<Longrightarrow> GET R s' k = GET R s k"
  using valid_members_get [of "locked_seats_key st" "seat_prefix st" "SMEMBERS R s (locked_seats_key st)" s k]
  by (simp add: sweep_locked_seats_def get_valid_locked_seats_lua_def)

lemma forceRelease_get:
  "GET R (forceReleaseSeatLock R st x s) k = (if k = seat_lock_key st x then None else GET R s k)"
  by (auto simp: forceReleaseSeatLock_def Let_def get_laws split: option.splits)

end

end
