(* ===== verification/SeatSystem.thy ===== *)
theory SeatSystem
  imports SeatLocks
begin

text \<open>
  The seat locks of one showtime as a state machine. A step is one script of one caller, run
  in any order and by any number of callers, the expiry of a lock key, or the expiry of a
  user's set once none of that user's locks is left (the scripts give the set at least the
  lifetime of the locks). Recovery workers own seats under tokens, recognised by \<open>tok\<close>; all
  other owners are buyers, whose lock calls ask for at most \<open>cap\<close> seats. Every reachable state
  keeps the sets consistent with the lock keys, and no buyer ever owns more than \<open>cap\<close> seats.
\<close>

inductive seat_step ::
  "'s redis \<Rightarrow> js_string \<Rightarrow> (js_string \<Rightarrow> bool) \<Rightarrow> nat \<Rightarrow> 's \<Rightarrow> 's \<Rightarrow> bool"
  for R :: "'s redis" and st :: js_string and tok :: "js_string \<Rightarrow> bool" and cap :: nat
where
  Lock: "\<not> tok u \<Longrightarrow> 0 < ttl \<Longrightarrow> mx \<le> int cap \<Longrightarrow> seat_step R st tok cap s (snd (lock_seat R st u ttl mx x s))"
| Unlock: "seat_step R st tok cap s (snd (unlock_seat R st u x s))"
| Consume: "seat_step R st tok cap s (snd (consume_seats R st u xs s))"
| Extend: "0 < ttl \<Longrightarrow> seat_step R st tok cap s (snd (extend_seats R st u ttl mode xs s))"
| Sweep: "seat_step R st tok cap s (snd (sweep_locked_seats R st s))"
| Acquire: "tok w \<Longrightarrow> 0 < ttl \<Longrightarrow> seat_step R st tok cap s (snd (acquire_recovery R st w ttl xs s))"
| Release: "tok w \<Longrightarrow> seat_step R st tok cap s (release_recovery R st w xs s)"
| Force: "seat_step R st tok cap s (forceReleaseSeatLock R st x s)"
| Lock_expires: "seat_step R st tok cap s (DEL R (seat_lock_key st x) s)"
| User_set_expires: "\<forall>x. seat_owner R st s x \<noteq> Some u \<Longrightarrow> seat_step R st tok cap s (DEL R (user_seats_key st u) s)"

inductive seat_steps ::
  "'s redis \<Rightarrow> js_string \<Rightarrow> (js_string \<Rightarrow> bool) \<Rightarrow> nat \<Rightarrow> 's \<Rightarrow> 's \<Rightarrow> bool"
  for R :: "'s redis" and st :: js_string and tok :: "js_string \<Rightarrow> bool" and cap :: nat
where
  Refl: "seat_steps R st tok cap s s"
| Step: "seat_steps R st tok cap s t \<Longrightarrow> seat_step R st tok cap t w \<Longrightarrow> seat_steps R st tok cap s w"

definition typed_keys :: "'s redis \<Rightarrow> js_string \<Rightarrow> 's \<Rightarrow> bool" where
  "typed_keys R st s \<longleftrightarrow> GET R s (locked_seats_key st) = None \<and> (\<forall>u. GET R s (user_seats_key st u) = None)"

definition indexed :: "'s redis \<Rightarrow> js_string \<Rightarrow> (js_string \<Rightarrow> bool) \<Rightarrow> 's \<Rightarrow> bool" where
  "indexed R st tok s \<longleftrightarrow>
     (\<forall>x u. seat_owner R st s x = Some u \<longrightarrow>
        x \<in> set (SMEMBERS R s (locked_seats_key st)) \<and>
        (\<not> tok u \<longrightarrow> x \<in> set (SMEMBERS R s (user_seats_key st u))))"

definition owned :: "'s redis \<Rightarrow> js_string \<Rightarrow> 's \<Rightarrow> js_string \<Rightarrow> js_string set" where
  "owned R st s u = {x. seat_owner R st s x = Some u}"

definition within_cap :: "'s redis \<Rightarrow> js_string \<Rightarrow> (js_string \<Rightarrow> bool) \<Rightarrow> nat \<Rightarrow> 's \<Rightarrow> bool" where
  "within_cap R st tok cap s \<longleftrightarrow> (\<forall>u. \<not> tok u \<longrightarrow> finite (owned R st s u) \<and> card (owned R st s u) \<le> cap)"

lemma indexedI:
  "(\<And>x u. seat_owner R st s x = Some u \<Longrightarrow> x \<in> set (SMEMBERS R s (locked_seats_key st))) \<Longrightarrow>
   (\<And>x u. seat_owner R st s x = Some u \<Longrightarrow> \<not> tok u \<Longrightarrow> x \<in> set (SMEMBERS R s (user_seats_key st u))) \<Longrightarrow>
   indexed R st tok s"
  by (simp add: indexed_def)

text \<open>A step that only releases seats keeps the cap.\<close>

lemma within_cap_mono:
  assumes "within_cap R st tok cap s"
    and "\<And>x u. \<not> tok u \<Longrightarrow> seat_owner R st s' x = Some u \<Longrightarrow> seat_owner R st s x = Some u"
  shows "within_cap R st tok cap s'"
  unfolding within_cap_def
proof (intro allI impI)
  fix u
  assume u: "\<not> tok u"
  with assms(2) have sub: "owned R st s' u \<subseteq> owned R st s u" by (auto simp: owned_def)
  from u assms(1) have "finite (owned R st s u)" "card (owned R st s u) \<le> cap"
    by (simp_all add: within_cap_def)
  with sub show "finite (owned R st s' u) \<and> card (owned R st s' u) \<le> cap"
    using card_mono [OF _ sub] finite_subset [OF sub] by auto
qed

context redis_server
begin

section \<open>Members after each script\<close>

lemma consume_all_members:
  "uk \<noteq> lk \<Longrightarrow> \<forall>y. uk \<noteq> seat_lock_key st y \<Longrightarrow> \<forall>y. lk \<noteq> seat_lock_key st y \<Longrightarrow>
   \<forall>y. k \<noteq> seat_lock_key st y \<Longrightarrow>
   set (SMEMBERS R (fold (consume_one R uk lk) (seat_pairs st xs) s) k) =
     (if k = uk \<or> k = lk then set (SMEMBERS R s k) - set xs else set (SMEMBERS R s k))"
  by (induction xs arbitrary: s) (auto simp: seat_pairs_def consume_one_def members_laws)

lemma extend_all_members:
  "0 < ttl \<Longrightarrow> set (SMEMBERS R (fold (extend_one R mode ttl) ks s) k) = set (SMEMBERS R s k)"
  by (induction ks arbitrary: s) (auto simp: extend_one_def members_expire)

lemma extend_seats_members:
  "0 < ttl \<Longrightarrow> set (SMEMBERS R (snd (extend_seats R st u ttl mode xs s)) k) = set (SMEMBERS R s k)"
  by (auto simp: extend_seats_def extend_owned_seat_locks_lua_def Let_def members_expire extend_all_members
      split: option.splits)

lemma acquire_all_members:
  "0 < ttl \<Longrightarrow> GET R s (locked_seats_key st) = None \<Longrightarrow> \<forall>y. k \<noteq> seat_lock_key st y \<Longrightarrow>
   set (SMEMBERS R (fold (acquire_one R (locked_seats_key st) u ttl) (seat_pairs st xs) s) k) =
     (if k = locked_seats_key st then set xs \<union> set (SMEMBERS R s k) else set (SMEMBERS R s k))"
  by (induction xs arbitrary: s) (auto simp: seat_pairs_def acquire_one_def members_laws get_laws)

lemma release_all_members:
  "\<forall>y. k \<noteq> seat_lock_key st y \<Longrightarrow>
   set (SMEMBERS R (fold (release_one R (locked_seats_key st) u) (seat_pairs st xs) s) k) =
     (if k = locked_seats_key st then set (SMEMBERS R s k) - {x \<in> set xs. seat_owner R st s x = Some u}
      else set (SMEMBERS R s k))"
  by (induction xs arbitrary: s) (auto simp: seat_pairs_def release_one_def members_laws get_laws)

lemma valid_members_members:
  "set (SMEMBERS R (snd (valid_members R lk pre sids s)) k) =
     (if k = lk then set (SMEMBERS R s k) - {x \<in> set sids. GET R s (pre @ x) = None} else set (SMEMBERS R s k))"
  by (induction sids arbitrary: s) (auto simp: case_prod_unfold Let_def members_srem get_srem)

lemma lock_seat_members:
  assumes "lock_seat R st u ttl mx x s = (r, s')" and "0 < ttl" and "typed_keys R st s"
    and "\<forall>y. k \<noteq> seat_lock_key st y"
  shows "set (SMEMBERS R s' k) =
     (set (SMEMBERS R s k)
        - (if k = user_seats_key st u then {y \<in> set (SMEMBERS R s k). seat_owner R st s y \<noteq> Some u} else {})
        - (if k = locked_seats_key st
           then {y \<in> set (SMEMBERS R s (user_seats_key st u)). seat_owner R st s y = None} else {}))
     \<union> (if (k = user_seats_key st u \<or> k = locked_seats_key st) \<and> (\<exists>a b c. r = Granted a b c) then {x} else {})"
proof (cases rule: lock_seat_cases [OF assms(1)])
  case (1 reason)
  then show ?thesis by (simp add: clean_members_members)
next
  case (2 alive t s1)
  from 2(5) assms(2) have t: "0 < t" by (auto split: if_splits)
  have s1: "s1 = snd (clean_members R (user_seats_key st u) (locked_seats_key st) (seat_prefix st) u
             (SMEMBERS R s (user_seats_key st u)) (0, s))"
    using 2(2) by (metis snd_conv)
  have m: "set (SMEMBERS R s1 k) = set (SMEMBERS R s k)
        - (if k = user_seats_key st u then {y \<in> set (SMEMBERS R s k). seat_owner R st s y \<noteq> Some u} else {})
        - (if k = locked_seats_key st
           then {y \<in> set (SMEMBERS R s (user_seats_key st u)). seat_owner R st s y = None} else {})" for k
    by (simp add: s1 clean_members_members)
  have g: "GET R s1 k = GET R s k" for k by (simp add: s1)
  have k: "k \<noteq> seat_lock_key st x" using assms(4) by blast
  have none: "GET R s (user_seats_key st u) = None" "GET R s (locked_seats_key st) = None"
    using assms(3) by (simp_all add: typed_keys_def)
  show ?thesis
    unfolding 2(6) using 2(1) t k none by (auto simp: members_laws get_laws m g)
qed

section \<open>The invariant\<close>

abbreviation lock_system_ok :: "js_string \<Rightarrow> (js_string \<Rightarrow> bool) \<Rightarrow> nat \<Rightarrow> 's \<Rightarrow> bool" where
  "lock_system_ok st tok cap s \<equiv>
     inv s \<and> typed_keys R st s \<and> indexed R st tok s \<and> within_cap R st tok cap s"

lemma seat_step_typed:
  "seat_step R st tok cap s s' \<Longrightarrow> typed_keys R st s \<Longrightarrow> typed_keys R st s'"
proof (induction rule: seat_step.induct)
  case (Lock u ttl mx s x)
  obtain r s' where l: "lock_seat R st u ttl mx x s = (r, s')" by fastforce
  with Lock show ?case by (cases r) (simp_all add: lock_seat_get [OF l] typed_keys_def)
next
  case (Unlock s u x)
  obtain b s' where l: "unlock_seat R st u x s = (b, s')" by fastforce
  with Unlock unlock_seat_get [OF l] show ?case by (simp add: typed_keys_def)
next
  case (Consume s u xs)
  obtain r s' where l: "consume_seats R st u xs s = (r, s')" by fastforce
  with Consume consume_seats_get [OF l] show ?case
    by (auto simp: typed_keys_def split: if_splits)
next
  case (Extend ttl s u mode xs)
  obtain r s' where l: "extend_seats R st u ttl mode xs s = (r, s')" by fastforce
  with Extend extend_seats_get [OF Extend(1) l] show ?case by (simp add: typed_keys_def)
next
  case (Sweep s)
  obtain r s' where l: "sweep_locked_seats R st s = (r, s')" by fastforce
  with Sweep sweep_get [OF l] show ?case by (simp add: typed_keys_def)
next
  case (Acquire w ttl s xs)
  obtain r s' where l: "acquire_recovery R st w ttl xs s = (r, s')" by fastforce
  with Acquire acquire_recovery_get [OF l Acquire(2)] show ?case
    by (auto simp: typed_keys_def split: if_splits)
qed (auto simp: typed_keys_def release_recovery_get forceRelease_get get_del)

lemma fold_inv: "(\<And>x s. inv s \<Longrightarrow> inv (f x s)) \<Longrightarrow> inv s \<Longrightarrow> inv (fold f xs s)"
  by (induction xs arbitrary: s) auto

lemma valid_members_inv: "inv s \<Longrightarrow> inv (snd (valid_members R lk pre sids s))"
  by (induction sids arbitrary: s) (auto simp: case_prod_unfold Let_def inv_step)

lemma seat_step_inv: "seat_step R st tok cap s s' \<Longrightarrow> inv s \<Longrightarrow> inv s'"
proof (induction rule: seat_step.induct)
  case (Lock u ttl mx s x)
  obtain r s' where l: "lock_seat R st u ttl mx x s = (r, s')" by fastforce
  have c: "inv s \<Longrightarrow> inv s1" if "(a, s1) = clean_members R uk lk pre u sids (0, s)" for a s1 uk lk pre sids
    using clean_members_inv [of s uk lk pre u sids 0] that by (metis snd_conv)
  from l have "inv s'"
    by (cases rule: lock_seat_cases) (use Lock c in \<open>auto simp: inv_step clean_members_inv\<close>)
  with l show ?case by simp
next
  case (Consume s u xs)
  then show ?case
    by (auto simp: consume_seats_def consume_owned_seat_locks_lua_def consume_one_def inv_step
        intro!: fold_inv split: option.splits)
next
  case (Extend ttl s u mode xs)
  then have "inv (fold (extend_one R mode ttl) ks s)" for ks
    by (intro fold_inv) (simp_all add: extend_one_def inv_step)
  then show ?case using Extend
    by (auto simp: extend_seats_def extend_owned_seat_locks_lua_def Let_def inv_step split: option.splits)
next
  case (Acquire w ttl s xs)
  then show ?case
    by (auto simp: acquire_recovery_def acquire_recovery_seat_locks_lua_def acquire_one_def inv_step
        intro!: fold_inv split: option.splits)
qed (auto simp: unlock_seat_def unlock_seat_lua_def sweep_locked_seats_def get_valid_locked_seats_lua_def
      release_recovery_def release_recovery_seat_locks_lua_def release_one_def forceReleaseSeatLock_def
      Let_def inv_step valid_members_inv intro!: fold_inv split: option.splits)

lemma typed_keysD:
  "typed_keys R st s \<Longrightarrow> GET R s (user_seats_key st u) = None"
  "typed_keys R st s \<Longrightarrow> GET R s (locked_seats_key st) = None"
  by (simp_all add: typed_keys_def)

lemma indexedD:
  "indexed R st tok s \<Longrightarrow> seat_owner R st s x = Some u \<Longrightarrow> x \<in> set (SMEMBERS R s (locked_seats_key st))"
  "indexed R st tok s \<Longrightarrow> seat_owner R st s x = Some u \<Longrightarrow> \<not> tok u \<Longrightarrow> x \<in> set (SMEMBERS R s (user_seats_key st u))"
  by (auto simp: indexed_def)

lemma seat_step_indexed:
  "seat_step R st tok cap s s' \<Longrightarrow> typed_keys R st s \<Longrightarrow> indexed R st tok s \<Longrightarrow> indexed R st tok s'"
proof (induction rule: seat_step.induct)
  case (Lock u ttl mx s x)
  obtain r s' where l: "lock_seat R st u ttl mx x s = (r, s')" by fastforce
  have s': "snd (lock_seat R st u ttl mx x s) = s'" by (simp add: l)
  note g = lock_seat_get [OF l Lock(2)]
  note m = lock_seat_members [OF l Lock(2,4)]
  show ?case unfolding s'
  proof (rule indexedI)
    fix y v
    assume o: "seat_owner R st s' y = Some v"
    show "y \<in> set (SMEMBERS R s' (locked_seats_key st))"
      using o Lock(5) by (cases r) (auto simp: g m indexed_def split: if_splits)
    assume "\<not> tok v"
    with o Lock(5) show "y \<in> set (SMEMBERS R s' (user_seats_key st v))"
      by (cases r) (auto simp: g m indexed_def split: if_splits)
  qed
next
  case (Unlock s u x)
  then show ?case
    by (auto simp: unlock_seat_def unlock_seat_lua_def indexed_def members_laws get_laws split: if_splits)
next
  case (Consume s u xs)
  show ?case
  proof (cases "check_owned R u (seat_pairs st xs) s")
    case None
    with Consume show ?thesis
      by (auto simp: consume_seats_def consume_owned_seat_locks_lua_def indexed_def consume_all_members
          consume_all_get split: if_splits)
  next
    case (Some f)
    with Consume show ?thesis by (simp add: consume_seats_def consume_owned_seat_locks_lua_def)
  qed
next
  case (Extend ttl s u mode xs)
  obtain r s' where l: "extend_seats R st u ttl mode xs s = (r, s')" by fastforce
  with Extend extend_seats_get [OF Extend(1) l] extend_seats_members [OF Extend(1), of st u mode xs s]
  show ?case by (simp add: indexed_def)
next
  case (Sweep s)
  then show ?case
    by (auto simp: sweep_locked_seats_def get_valid_locked_seats_lua_def indexed_def valid_members_members)
next
  case (Acquire w ttl s xs)
  show ?case
  proof (cases "find_other_owner R w (seat_pairs st xs) s")
    case None
    with Acquire show ?thesis
      by (auto simp: acquire_recovery_def acquire_recovery_seat_locks_lua_def indexed_def acquire_all_get
          acquire_all_members typed_keysD split: if_splits)
  next
    case (Some f)
    with Acquire show ?thesis by (simp add: acquire_recovery_def acquire_recovery_seat_locks_lua_def)
  qed
next
  case (Release w s xs)
  then show ?case
    by (auto simp: release_recovery_def release_recovery_seat_locks_lua_def indexed_def release_all_get
        release_all_members split: if_splits)
next
  case (Force s x)
  then show ?case
    by (auto simp: forceReleaseSeatLock_def Let_def indexed_def members_laws get_laws
        split: option.splits if_splits)
next
  case (User_set_expires s u)
  show ?case
  proof (rule indexedI)
    fix x v
    assume "seat_owner R st (DEL R (user_seats_key st u) s) x = Some v"
    then have o: "seat_owner R st s x = Some v" by (simp add: get_del)
    with User_set_expires(3) show "x \<in> set (SMEMBERS R (DEL R (user_seats_key st u) s) (locked_seats_key st))"
      by (simp add: members_del indexedD)
    from o User_set_expires(1) have "v \<noteq> u" by auto
    moreover assume "\<not> tok v"
    ultimately show "x \<in> set (SMEMBERS R (DEL R (user_seats_key st u) s) (user_seats_key st v))"
      using o User_set_expires(3) by (simp add: members_del indexedD)
  qed
qed (auto simp: indexed_def members_laws get_laws split: if_splits)

text \<open>The seats a buyer owns are the live members of the buyer's set.\<close>

lemma owned_members:
  "indexed R st tok s \<Longrightarrow> \<not> tok u \<Longrightarrow>
   owned R st s u = set (filter (\<lambda>x. seat_owner R st s x = Some u) (SMEMBERS R s (user_seats_key st u)))"
  by (auto simp: owned_def indexed_def)

text \<open>A granted lock finds its caller below the limit: the script counts exactly the seats he owns.\<close>

lemma lock_seat_below_limit:
  assumes "lock_seat R st u ttl mx x s = (Granted k y t, s')" and "inv s" and "indexed R st tok s" and "\<not> tok u"
  shows "int (card (owned R st s u)) < mx"
proof -
  let ?c = "clean_members R (user_seats_key st u) (locked_seats_key st) (seat_prefix st) u
             (SMEMBERS R s (user_seats_key st u)) (0, s)"
  from assms(1) obtain alive s1 where a: "(alive, s1) = ?c" "int alive < mx"
    by (cases rule: lock_seat_cases) auto
  from a(1) have "alive = fst ?c" by (metis fst_conv)
  with a(2) have "int (length (filter (\<lambda>x. seat_owner R st s x = Some u) (SMEMBERS R s (user_seats_key st u)))) < mx"
    by (simp add: clean_members_alive)
  then show ?thesis
    by (simp add: owned_members [OF assms(3,4)] distinct_card members_distinct [OF assms(2)] del: set_filter)
qed

lemma lock_seat_cap:
  assumes "lock_seat R st u ttl mx x s = (r, s')" and "0 < ttl" and "mx \<le> int cap"
    and "inv s" and "indexed R st tok s" and "\<not> tok u" and "within_cap R st tok cap s"
  shows "within_cap R st tok cap s'"
proof (cases r)
  case (Refused reason)
  with lock_seat_get [OF assms(1,2)] show ?thesis
    by (intro within_cap_mono [OF assms(7)]) auto
next
  case (Granted k y t)
  note g = lock_seat_get [OF assms(1,2), unfolded Granted, simplified]
  have "card (owned R st s u) < cap"
    using lock_seat_below_limit [OF assms(1) [unfolded Granted] assms(4-6)] assms(3) by simp
  moreover have u': "owned R st s' u = insert x (owned R st s u)" by (auto simp: owned_def g)
  moreover have fin: "finite (owned R st s v)" "card (owned R st s v) \<le> cap" if "\<not> tok v" for v
    using assms(7) that by (simp_all add: within_cap_def)
  ultimately have u: "finite (owned R st s' u) \<and> card (owned R st s' u) \<le> cap"
    using assms(6) by (auto simp: card_insert_if)
  have "finite (owned R st s' v) \<and> card (owned R st s' v) \<le> cap" if v: "\<not> tok v" "v \<noteq> u" for v
  proof -
    have sub: "owned R st s' v \<subseteq> owned R st s v" using v(2) by (auto simp: owned_def g)
    then show ?thesis using fin [OF v(1)] card_mono [OF _ sub] finite_subset [OF sub] by auto
  qed
  with u show ?thesis unfolding within_cap_def by blast
qed

lemma seat_step_cap:
  "seat_step R st tok cap s s' \<Longrightarrow> inv s \<Longrightarrow> indexed R st tok s \<Longrightarrow> within_cap R st tok cap s \<Longrightarrow>
   within_cap R st tok cap s'"
proof (induction rule: seat_step.induct)
  case (Lock u ttl mx s x)
  obtain r s' where l: "lock_seat R st u ttl mx x s = (r, s')" by fastforce
  then have "snd (lock_seat R st u ttl mx x s) = s'" by simp
  with lock_seat_cap [OF l Lock(2,3,4,5,1,6)] show ?case by simp
next
  case (Unlock s u x)
  obtain b s' where l: "unlock_seat R st u x s = (b, s')" by fastforce
  have "GET R s' k = (if b \<and> k = seat_lock_key st x then None else GET R s k)" for k
    using unlock_seat_get [OF l] by blast
  with l Unlock(3) show ?case by (auto elim!: within_cap_mono split: if_splits)
next
  case (Consume s u xs)
  obtain r s' where l: "consume_seats R st u xs s = (r, s')" by fastforce
  from consume_seats_get [OF l] have "GET R s' k = Some v \<Longrightarrow> GET R s k = Some v" for k v
    by (auto split: if_splits)
  with l Consume(3) show ?case by (auto elim!: within_cap_mono)
next
  case (Extend ttl s u mode xs)
  obtain r s' where l: "extend_seats R st u ttl mode xs s = (r, s')" by fastforce
  with Extend(4) extend_seats_get [OF Extend(1) l] show ?case by (auto elim!: within_cap_mono)
next
  case (Sweep s)
  obtain r s' where l: "sweep_locked_seats R st s = (r, s')" by fastforce
  with Sweep(3) sweep_get [OF l] show ?case by (auto elim!: within_cap_mono)
next
  case (Acquire w ttl s xs)
  obtain r s' where l: "acquire_recovery R st w ttl xs s = (r, s')" by fastforce
  from acquire_recovery_get [OF l Acquire(2)] Acquire(1)
  have "\<not> tok v \<Longrightarrow> GET R s' k = Some v \<Longrightarrow> GET R s k = Some v" for k v
    by (auto split: if_splits)
  with l Acquire(5) show ?case by (auto elim!: within_cap_mono)
qed (auto elim!: within_cap_mono simp: release_recovery_get forceRelease_get get_del split: if_splits)

lemma seat_step_ok: "seat_step R st tok cap s s' \<Longrightarrow> lock_system_ok st tok cap s \<Longrightarrow> lock_system_ok st tok cap s'"
  using seat_step_inv seat_step_typed seat_step_indexed seat_step_cap by blast

lemma seat_steps_ok: "seat_steps R st tok cap s s' \<Longrightarrow> lock_system_ok st tok cap s \<Longrightarrow> lock_system_ok st tok cap s'"
  by (induction rule: seat_steps.induct) (auto dest: seat_step_ok)

end

end
