(* ===== verification/MemServer.thy ===== *)
theory MemServer
  imports SeatSystem
begin

text \<open>
  The in-memory server satisfies the contract of \<open>Redis\<close>, so everything proved about the seat
  lock scripts holds when they run on its commands; and its emulations of the scripts decide as
  the scripts do. They differ in one observable way: the Lua script gives a buyer's further
  locks the remaining lifetime of the first one, the emulation restarts the lifetime.
\<close>

definition mem_ops :: "mem redis" where
  "mem_ops = \<lparr>
     GET = mem_get,
     SET_EX = (\<lambda>k v t m. snd (mem_set k v (Variadic [AStr ''EX'', ANum t]) m)),
     SET_NX_EX = (\<lambda>k v t m. mem_set k v (Variadic [AStr ''EX'', ANum t, AStr ''NX'']) m),
     DEL = (\<lambda>k m. snd (mem_del [k] m)),
     EXPIRE = (\<lambda>k t m. snd (mem_expire k t m)),
     TTL = mem_ttl,
     SADD = (\<lambda>k x m. snd (mem_sadd k [x] m)),
     SREM = (\<lambda>k x m. snd (mem_srem k [x] m)),
     SMEMBERS = mem_smembers\<rparr>"

definition mem_inv :: "mem \<Rightarrow> bool" where
  "mem_inv m \<longleftrightarrow> 0 \<le> clock m \<and> (\<forall>k. distinct (set_of m k))"

section \<open>Commands\<close>

lemma parse_ex [simp]:
  "parse_set_opts (Variadic [AStr ''EX'', ANum t]) = (False, Some (t * 1000))"
  "parse_set_opts (Variadic [AStr ''EX'', ANum t, AStr ''NX'']) = (True, Some (t * 1000))"
  "parse_set_opts (ObjectForm (Some True) (Some t)) = (True, Some (t * 1000))"
  by (simp_all add: parse_set_opts_def upper_arg_def js_upper_def upper_char_def number_arg_def)

lemmas mem_commands = mem_set_def mem_get_def mem_del1_def mem_expire_def mem_smembers_def clear_timer_def
  set_remove_def set_of_def has_any_def

lemma map_of_simps [simp]:
  "map_of (AList.update k v al) = (map_of al)(k \<mapsto> v)"
  "map_of (AList.delete k al) = (map_of al)(k := None)"
  by (simp_all add: update_conv' delete_conv')

lemma or_else_list_cases: "set (or_else (m k) []) = (case m k of None \<Rightarrow> {} | Some s \<Rightarrow> set s)"
  by (simp split: option.split)

lemma ceil_div_exact [simp]: "ceil_div (t * 1000) 1000 = t"
  by (simp add: ceil_div_def)

lemma mem_expire_other: "k' \<noteq> k \<Longrightarrow> mem_ttl (snd (mem_expire k t m)) k' = mem_ttl m k'"
  by (cases "has_any m k")
    (simp_all add: mem_expire_def mem_ttl_def live_expiry_def has_any_def Let_def cong: option.case_cong)

interpretation mem: redis_server mem_ops mem_inv
proof unfold_locales
  fix t :: int and k k' v x :: js_string and s :: mem
  show "0 < t \<Longrightarrow> GET mem_ops (SET_EX mem_ops k v t s) k' = (if k' = k then Some v else GET mem_ops s k')"
    by (simp add: mem_ops_def mem_commands Let_def)
  show "SET_NX_EX mem_ops k v t s = (if GET mem_ops s k = None then (True, SET_EX mem_ops k v t s) else (False, s))"
    by (simp add: mem_ops_def mem_commands Let_def)
  show "GET mem_ops (DEL mem_ops k s) k' = (if k' = k then None else GET mem_ops s k')"
    by (auto simp: mem_ops_def mem_commands Let_def)
  show "GET mem_ops (EXPIRE mem_ops k t s) k' = GET mem_ops s k'"
    by (simp add: mem_ops_def mem_commands)
  show "GET mem_ops (SADD mem_ops k x s) k' = GET mem_ops s k'"
    by (simp add: mem_ops_def mem_commands Let_def)
  show "GET mem_ops (SREM mem_ops k x s) k' = GET mem_ops s k'"
    by (simp add: mem_ops_def mem_commands Let_def split: option.split)
  show "set (SMEMBERS mem_ops (SET_EX mem_ops k v t s) k') = set (SMEMBERS mem_ops s k')"
    by (simp add: mem_ops_def mem_commands Let_def)
  show "k' \<noteq> k \<Longrightarrow> set (SMEMBERS mem_ops (DEL mem_ops k s) k') = set (SMEMBERS mem_ops s k')"
    by (simp add: mem_ops_def mem_commands Let_def)
  show "set (SMEMBERS mem_ops (EXPIRE mem_ops k t s) k') = set (SMEMBERS mem_ops s k')"
    by (simp add: mem_ops_def mem_commands)
  show "set (SMEMBERS mem_ops (SADD mem_ops k x s) k') =
        (if k' = k then insert x (set (SMEMBERS mem_ops s k)) else set (SMEMBERS mem_ops s k'))"
    by (auto simp: mem_ops_def mem_commands Let_def set_add_def)
  show "set (SMEMBERS mem_ops (SREM mem_ops k x s) k') =
        (if k' = k then set (SMEMBERS mem_ops s k) - {x} else set (SMEMBERS mem_ops s k'))"
    by (auto simp: mem_ops_def mem_commands Let_def split: option.split)
  show "mem_inv s \<Longrightarrow> distinct (SMEMBERS mem_ops s k)"
    by (simp add: mem_ops_def mem_smembers_def mem_inv_def)
  show "mem_inv s \<Longrightarrow> 0 < t \<Longrightarrow> TTL mem_ops (SET_EX mem_ops k v t s) k = t"
    by (simp add: mem_ops_def mem_ttl_def live_expiry_def mem_commands Let_def mem_inv_def)
  show "mem_inv s \<Longrightarrow> 0 < t \<Longrightarrow> GET mem_ops s k \<noteq> None \<Longrightarrow> TTL mem_ops (EXPIRE mem_ops k t s) k = t"
    by (auto simp: mem_ops_def mem_ttl_def live_expiry_def mem_commands Let_def mem_inv_def)
  show "k' \<noteq> k \<Longrightarrow> TTL mem_ops (EXPIRE mem_ops k t s) k' = TTL mem_ops s k'"
    by (simp add: mem_ops_def mem_expire_other)
  show "GET mem_ops s k' \<noteq> None \<Longrightarrow> TTL mem_ops (SADD mem_ops k x s) k' = TTL mem_ops s k'"
    by (auto simp: mem_ops_def mem_ttl_def live_expiry_def mem_commands Let_def cong: option.case_cong)
  show "mem_inv s \<Longrightarrow> mem_inv (SET_EX mem_ops k v t s)"
    by (simp add: mem_ops_def mem_commands mem_inv_def Let_def)
  show "mem_inv s \<Longrightarrow> mem_inv (DEL mem_ops k s)"
    by (auto simp: mem_ops_def mem_commands mem_inv_def Let_def)
  show "mem_inv s \<Longrightarrow> mem_inv (EXPIRE mem_ops k t s)"
    by (simp add: mem_ops_def mem_commands mem_inv_def)
  show "mem_inv s \<Longrightarrow> mem_inv (SADD mem_ops k x s)"
    by (auto simp: mem_ops_def mem_commands mem_inv_def Let_def set_add_def)
  show "mem_inv s \<Longrightarrow> mem_inv (SREM mem_ops k x s)"
    by (auto simp: mem_ops_def mem_commands mem_inv_def Let_def split: option.split)
      (metis distinct_removeAll or_else.simps(1))
qed

section \<open>The emulations against the scripts\<close>

lemma mem_ops_simps:
  "GET mem_ops m k = map_of (store m) k"
  "SREM mem_ops k x m = set_remove k x m"
  "SMEMBERS mem_ops m k = set_of m k"
  "TTL mem_ops m k = mem_ttl m k"
  "EXPIRE mem_ops k t m = snd (mem_expire k t m)"
  "DEL mem_ops k m = snd (mem_del [k] m)"
  "SADD mem_ops k x m = snd (mem_sadd k [x] m)"
  "SET_EX mem_ops k v t m = snd (mem_set k v (Variadic [AStr ''EX'', ANum t]) m)"
  by (simp_all add: mem_ops_def mem_get_def mem_smembers_def Let_def)

text \<open>What a client can see besides lifetimes.\<close>

definition same_data :: "mem \<Rightarrow> mem \<Rightarrow> bool" where
  "same_data m m' \<longleftrightarrow> store m = store m' \<and> sets m = sets m' \<and> sortedSets m = sortedSets m'"

lemma emu_clean_eq: "emu_clean uk lk pre u sids am = clean_members mem_ops uk lk pre u sids am"
  by (induction uk lk pre u sids am rule: emu_clean.induct) (simp_all add: mem_ops_simps Let_def)



lemma mem_set_data:
  "store (snd (mem_set k v (ObjectForm (Some True) (Some t)) m)) =
     (if has (store m) k then store m else AList.update k v (store m))"
  "store (snd (mem_set k v (Variadic [AStr ''EX'', ANum t]) m)) = AList.update k v (store m)"
  "sets (snd (mem_set k v opts m)) = sets m"
  "sortedSets (snd (mem_set k v opts m)) = sortedSets m"
  by (simp_all add: mem_set_def clear_timer_def Let_def split: prod.splits option.splits)

lemma mem_expire_data [simp]:
  "store (snd (mem_expire k t m)) = store m" "sets (snd (mem_expire k t m)) = sets m"
  "sortedSets (snd (mem_expire k t m)) = sortedSets m"
  by (simp_all add: mem_expire_def)

lemma mem_sadd_data:
  "store (snd (mem_sadd k [x] m)) = store m"
  "sets (snd (mem_sadd k [x] m)) = AList.update k (set_add x (set_of m k)) (sets m)"
  "sortedSets (snd (mem_sadd k [x] m)) = sortedSets m"
  by (simp_all add: Let_def)

lemma set_of_cong: "sets m = sets m' \<Longrightarrow> set_of m k = set_of m' k"
  by (simp add: set_of_def)

declare mem_sadd.simps [simp del] mem_del.simps [simp del] mem_srem.simps [simp del]

definition emu_of_lua :: "lock_reply \<Rightarrow> emu_reply" where
  "emu_of_lua r = (case r of Refused reason \<Rightarrow> EmuRefused reason | Granted k x t \<Rightarrow> EmuGranted k x)"

lemma evalLockSeat_lua:
  assumes "evalLockSeat uk lockKey lk u ttl mx x pre m = (r, m1)"
    and "lock_seat_lua mem_ops uk lockKey lk u ttl mx x pre m = (r', m2)"
  shows "r = emu_of_lua r' \<and> same_data m1 m2"
proof -
  obtain alive m0 where c: "clean_members mem_ops uk lk pre u (set_of m uk) (0, m) = (alive, m0)"
    by fastforce
  show ?thesis
  proof (cases "int alive < mx \<and> \<not> has (store m0) lockKey")
    case True
    with assms c show ?thesis
      by (auto simp: evalLockSeat_def lock_seat_lua_def emu_clean_eq mem_ops_simps mem.set_nx Let_def
          emu_of_lua_def same_data_def mem_sadd_data mem_set_data set_of_def)
  next
    case False
    with assms c show ?thesis
      by (auto simp: evalLockSeat_def lock_seat_lua_def emu_clean_eq mem_ops_simps mem.set_nx Let_def
          emu_of_lua_def same_data_def split: if_splits)
  qed
qed

lemma mem_del_lock:
  "\<not> has (sets m) k \<Longrightarrow> \<not> has (sortedSets m) k \<Longrightarrow>
   snd (mem_del [k] m) = (clear_timer k m)\<lparr>store := AList.delete k (store m)\<rparr>"
  by (auto simp: mem_del.simps mem_del1_def Let_def delete_id clear_timer_def map_of_eq_None_iff
      split: prod.splits)

lemma drop_lock_eq:
  "\<not> has (sets m) (fst e) \<Longrightarrow> \<not> has (sortedSets m) (fst e) \<Longrightarrow>
   drop_lock uk lk e m = consume_one mem_ops uk lk e m"
  by (simp add: drop_lock_def consume_one_def mem_ops_simps mem_del_lock)

lemma emu_check_eq: "emu_check u ks m = check_owned mem_ops u ks m"
  by (induction ks) (auto simp: mem_ops_simps split: option.splits)

lemma set_remove_has: "(map_of (sets (set_remove k x m)) k' = None) = (map_of (sets m) k' = None)"
  "sortedSets (set_remove k x m) = sortedSets m"
  by (auto simp: set_remove_def split: option.splits)

lemma drop_lock_frame:
  "(map_of (sets (drop_lock uk lk e m)) k = None) = (map_of (sets m) k = None)" "sortedSets (drop_lock uk lk e m) = sortedSets m"
  by (simp_all add: drop_lock_def clear_timer_def set_remove_has)

lemma drop_locks_eq:
  "\<forall>e \<in> set ks. \<not> has (sets m) (fst e) \<and> \<not> has (sortedSets m) (fst e) \<Longrightarrow>
   fold (drop_lock uk lk) ks m = fold (consume_one mem_ops uk lk) ks m"
proof (induction ks arbitrary: m)
  case Nil
  then show ?case by simp
next
  case (Cons e ks)
  have "fold (drop_lock uk lk) ks (drop_lock uk lk e m) = fold (consume_one mem_ops uk lk) ks (drop_lock uk lk e m)"
    by (rule Cons.IH) (use Cons.prems in \<open>auto simp: drop_lock_frame\<close>)
  with Cons.prems show ?case by (simp add: drop_lock_eq)
qed

lemma emu_extend_one_eq: "emu_extend_one mode ttl k m = extend_one mem_ops mode ttl k m"
  by (simp add: emu_extend_one_def extend_one_def mem_ops_simps)

lemma emu_extend_all_eq: "fold (emu_extend_one mode ttl) ks m = fold (extend_one mem_ops mode ttl) ks m"
  by (induction ks arbitrary: m) (simp_all add: emu_extend_one_eq)

lemma evalExtendOwnedSeatLocks_lua:
  "evalExtendOwnedSeatLocks uk u ttl mode ks m = extend_owned_seat_locks_lua mem_ops uk u ttl mode ks m"
  by (simp add: evalExtendOwnedSeatLocks_def extend_owned_seat_locks_lua_def emu_check_eq emu_extend_all_eq
      mem_ops_simps Let_def cong: option.case_cong)

lemma evalAssertOwnedSeatLocks_lua:
  "evalAssertOwnedSeatLocks u ks m = assert_owned_seat_locks_lua mem_ops u ks m"
  by (simp add: evalAssertOwnedSeatLocks_def assert_owned_seat_locks_lua_def emu_check_eq)

lemma evalConsumeOwnedSeatLocks_lua:
  "\<forall>e \<in> set ks. \<not> has (sets m) (fst e) \<and> \<not> has (sortedSets m) (fst e) \<Longrightarrow>
   evalConsumeOwnedSeatLocks uk lk u ks m = consume_owned_seat_locks_lua mem_ops uk lk u ks m"
  by (simp add: evalConsumeOwnedSeatLocks_def consume_owned_seat_locks_lua_def emu_check_eq drop_locks_eq
      cong: option.case_cong)

lemma evalUnlockSeat_lua:
  "\<not> has (sets m) k \<Longrightarrow> \<not> has (sortedSets m) k \<Longrightarrow>
   evalUnlockSeat k uk lk u x m = unlock_seat_lua mem_ops k uk lk u x m"
  using drop_lock_eq [of m "(k, x)" uk lk]
  by (simp add: evalUnlockSeat_def unlock_seat_lua_def consume_one_def) (simp add: mem_ops_simps)

lemma emu_valid_eq: "emu_valid lk pre sids m = valid_members mem_ops lk pre sids m"
  by (induction sids arbitrary: m) (simp_all add: mem_ops_simps)

lemma evalGetValidLockedSeats_lua:
  "evalGetValidLockedSeats lk pre m = get_valid_locked_seats_lua mem_ops lk pre m"
  by (simp add: evalGetValidLockedSeats_def get_valid_locked_seats_lua_def emu_valid_eq mem_ops_simps)

end
