(* ===== verification/SeatTheorems.thy ===== *)
theory SeatTheorems
  imports MemServer
begin

text \<open>
  What the seat locks guarantee. The theorems on the Lua scripts hold for every server that
  satisfies the contract \<open>redis_server\<close>; their witnesses run them on the in-memory server.
\<close>

section \<open>Helpers\<close>

lemma mem_empty_GET [simp]: "GET mem_ops (mem_empty t) k = None"
  by (simp add: mem_ops_simps mem_empty_def)

lemma mem_empty_inv: "0 \<le> t \<Longrightarrow> mem_inv (mem_empty t)"
  by (simp add: mem_inv_def mem_empty_def set_of_def)

lemma empty_ok:
  assumes "\<forall>k. GET R s k = None"
  shows "typed_keys R st s \<and> indexed R st tok s \<and> within_cap R st tok cap s"
  using assms by (simp add: typed_keys_def indexed_def within_cap_def owned_def)

lemma consume_seats_spec:
  assumes "redis_server R ok" and "consume_seats R st u xs s = (r, s')"
  shows "if \<forall>x \<in> set xs. seat_owner R st s x = Some u
         then r = OwnOk (length xs) \<and>
              (\<forall>y. seat_owner R st s' y = (if y \<in> set xs then None else seat_owner R st s y))
         else s' = s \<and> (\<exists>reason x v. r = OwnFail reason x v \<and> x \<in> set xs \<and> seat_owner R st s x \<noteq> Some u)"
  using redis_server.consume_seats_get [OF assms] by (auto simp: image_iff split: if_splits)

section \<open>Properties\<close>



text \<open>A lock is granted only for a seat nobody owns; it makes the caller its owner with a
  positive lifetime and changes no other seat's owner. A refused lock changes no owner, and is
  refused for the cap or because the seat is owned.\<close>
theorem lock_seat_exclusive:
  assumes "redis_server R ok" and "0 < ttl" and "ok s"
    and "lock_seat R st u ttl mx x s = (r, s')"
  shows "case r of
      Granted k y t \<Rightarrow>
        seat_owner R st s x = None \<and> k = seat_lock_key st x \<and> 0 < t \<and> TTL R s' k = t \<and>
        (\<forall>z. seat_owner R st s' z = (if z = x then Some u else seat_owner R st s z))
    | Refused reason \<Rightarrow>
        (reason = ''MAX_SEATS'' \<or> reason = ''CONFLICT'' \<and> seat_owner R st s x \<noteq> None) \<and>
        (\<forall>z. seat_owner R st s' z = seat_owner R st s z)"
proof (cases r)
  case (Refused reason)
  then have "reason = ''MAX_SEATS'' \<or> reason = ''CONFLICT'' \<and> seat_owner R st s x \<noteq> None"
    by (cases rule: redis_server.lock_seat_cases [OF assms(1,4)]) auto
  with redis_server.lock_seat_get [OF assms(1,4,2)] Refused show ?thesis by simp
next
  case (Granted k y t)
  note l = assms(4) [unfolded Granted]
  show ?thesis
    using redis_server.lock_seat_get [OF assms(1) l assms(2)]
      redis_server.lock_seat_granted_free [OF assms(1) l] redis_server.lock_seat_ttl [OF assms(1) l assms(2,3)]
    by (simp add: Granted)
qed

lemma lock_seat_exclusive_witness:
  "case lock_seat mem_ops ''s1'' ''u1'' 600 4 ''A-1'' (mem_empty 1000) of (r, s') \<Rightarrow>
     (case r of Granted k y t \<Rightarrow> seat_owner mem_ops ''s1'' s' ''A-1'' = Some ''u1'' | Refused reason \<Rightarrow> True)"
  using lock_seat_exclusive [OF mem.redis_server_axioms, of 600 "mem_empty 1000" "''s1''" "''u1''" 4 "''A-1''"]
  by (auto simp: mem_empty_inv split: prod.splits lock_reply.splits)

text \<open>No step of the lock system ever hands a seat from one owner to another: an owned seat
  keeps its owner or becomes free.\<close>
theorem seat_never_stolen:
  assumes "redis_server R ok" and "seat_step R st tok cap s s'" and "seat_owner R st s x = Some u"
  shows "seat_owner R st s' x \<in> {None, Some u}"
  using assms(2,3)
proof (induction rule: seat_step.induct)
  case (Lock v ttl mx s y)
  obtain r s' where l: "lock_seat R st v ttl mx y s = (r, s')" by fastforce
  note g = redis_server.lock_seat_get [OF assms(1) l Lock(2), of "seat_lock_key st x"]
  have "seat_owner R st s' x = Some u"
  proof (cases r)
    case (Refused reason)
    with g Lock(4) show ?thesis by simp
  next
    case (Granted k z t)
    with redis_server.lock_seat_granted_free [OF assms(1), of st v ttl mx y s k z t s'] l Lock(4)
    have "x \<noteq> y" by auto
    with g Granted Lock(4) show ?thesis by simp
  qed
  with l show ?case by simp
next
  case (Unlock s v y)
  obtain b s' where l: "unlock_seat R st v y s = (b, s')" by fastforce
  then show ?case using redis_server.unlock_seat_get [OF assms(1) l, of "seat_lock_key st x"] Unlock by auto
next
  case (Consume s v xs)
  obtain r s' where l: "consume_seats R st v xs s = (r, s')" by fastforce
  then show ?case using consume_seats_spec [OF assms(1) l] Consume by (auto split: if_splits)
next
  case (Extend ttl s v mode xs)
  obtain r s' where l: "extend_seats R st v ttl mode xs s = (r, s')" by fastforce
  then show ?case using redis_server.extend_seats_get [OF assms(1) Extend(1) l] Extend by simp
next
  case (Sweep s)
  obtain r s' where l: "sweep_locked_seats R st s = (r, s')" by fastforce
  then show ?case using redis_server.sweep_get [OF assms(1) l] Sweep by simp
next
  case (Acquire w ttl s xs)
  obtain r s' where l: "acquire_recovery R st w ttl xs s = (r, s')" by fastforce
  then show ?case using redis_server.acquire_recovery_get [OF assms(1) l Acquire(2)] Acquire(3)
    by (auto split: if_splits)
qed (auto simp: redis_server.release_recovery_get [OF assms(1)] redis_server.forceRelease_get [OF assms(1)]
      redis_server.get_del [OF assms(1)])

lemma seat_never_stolen_witness:
  "seat_owner mem_ops ''s1'' (DEL mem_ops (seat_lock_key ''s1'' ''B'') (SET_EX mem_ops (seat_lock_key ''s1'' ''A'') ''u'' 9 (mem_empty 1))) ''A''
     \<in> {None, Some ''u''}"
proof (rule seat_never_stolen [OF mem.redis_server_axioms seat_step.Lock_expires])
  show "seat_owner mem_ops ''s1'' (SET_EX mem_ops (seat_lock_key ''s1'' ''A'') ''u'' 9 (mem_empty 1)) ''A'' = Some ''u''"
    by (simp add: mem.get_set)
qed

text \<open>C19: Consuming locks at payment is all or nothing: if the user owns every requested seat all
  of them are released, otherwise the server is unchanged and the reply names a requested seat
  the user does not own.\<close>
theorem consume_all_or_nothing:
  assumes "redis_server R ok" and "consume_seats R st u xs s = (r, s')"
  shows "(\<forall>x \<in> set xs. seat_owner R st s x = Some u) \<and> r = OwnOk (length xs) \<and>
           (\<forall>y. seat_owner R st s' y = (if y \<in> set xs then None else seat_owner R st s y))
       \<or> s' = s \<and> (\<exists>reason x v. r = OwnFail reason x v \<and> x \<in> set xs \<and> seat_owner R st s x \<noteq> Some u)"
  using consume_seats_spec [OF assms] by (auto split: if_splits)

lemma consume_all_or_nothing_witness:
  "\<exists>reason v. fst (consume_seats mem_ops ''s1'' ''u1'' [''A-1''] (mem_empty 1000)) = OwnFail reason ''A-1'' v"
  using consume_all_or_nothing [OF mem.redis_server_axioms, of "''s1''" "''u1''" "[''A-1'']" "mem_empty 1000",
      OF surjective_pairing] by auto

text \<open>C20: The in-memory emulation of the lock script, used when no server is configured, gives the
  same decision as the script run on the in-memory commands and leaves the same stored data.\<close>
theorem lock_emulation_agrees:
  "fst (evalLockSeat uk k lk u ttl mx x pre m) = emu_of_lua (fst (lock_seat_lua mem_ops uk k lk u ttl mx x pre m)) \<and>
   same_data (snd (evalLockSeat uk k lk u ttl mx x pre m)) (snd (lock_seat_lua mem_ops uk k lk u ttl mx x pre m))"
  by (rule evalLockSeat_lua) simp_all
section \<open>Runtime ids and lock expiry\<close>

text \<open>C21: The runtime id of a seat decodes to the seat's key, encoding that key again gives the same
  id, and the id contains none of the characters that separate the parts of a lock key.\<close>
theorem runtime_id_round_trip:
  assumes "well_formed s"
  shows "decodeSeatRuntimeId (encodeSeatRuntimeId s) = Some (seatKey (normalizeSeatIdentity (bare_seat s) no_defaults)) \<and>
    encodeSeatRuntimeId (seatKey (normalizeSeatIdentity (bare_seat s) no_defaults)) = encodeSeatRuntimeId s \<and>
    set (encodeSeatRuntimeId s) \<inter> {CHR '':'', CHR ''{'', CHR ''}''} = {}"
proof -
  have "c \<notin> {CHR '':'', CHR ''{'', CHR ''}''}" if "c \<in> set (encodeSeatRuntimeId s)" for c
    using encodeURIComponent_alphabet [of c] that by (auto simp: encodeSeatRuntimeId_def uri_unreserved_def)
  then show ?thesis
    using assms
    by (auto simp: decodeSeatRuntimeId_def encodeSeatRuntimeId_def decode_encode_URIComponent
        seatKey_well_formed seatKey_bare_idem)
qed

lemma runtime_id_round_trip_witness:
  "decodeSeatRuntimeId (encodeSeatRuntimeId ''2F:A 1'') = Some (seatKey (normalizeSeatIdentity (bare_seat ''2F:A 1'') no_defaults))"
  using runtime_id_round_trip [of "''2F:A 1''"] by (simp add: well_formed_def)

lemma encodeSeatRuntimeId_no_colon: "CHR '':'' \<notin> set (encodeSeatRuntimeId s)"
  using encodeURIComponent_alphabet by (fastforce simp: encodeSeatRuntimeId_def uri_unreserved_def)

lemma js_split_lock_key:
  assumes "CHR '':'' \<notin> set st" and "CHR '':'' \<notin> set x"
  shows "js_split CHR '':'' (seat_lock_key st x) = [''{'' @ st @ ''}'', ''seat'', x]"
proof -
  have eq: "seat_lock_key st x = (''{'' @ st @ ''}'') @ CHR '':'' # (''seat'' @ CHR '':'' # x)"
    by (simp add: seat_lock_key_def seat_prefix_def)
  have 1: "CHR '':'' \<notin> set (''{'' @ st @ ''}'')" using assms(1) by simp
  have 2: "CHR '':'' \<notin> set ''seat''" by simp
  show ?thesis
    unfolding eq js_split_append [OF 1] js_split_append [OF 2] js_split_notin [OF assms(2)] ..
qed

lemma set_of_remove: "set (set_of (set_remove k x m) k') = (if k' = k then set (set_of m k) - {x} else set (set_of m k'))"
  by (auto simp: set_remove_def set_of_def split: option.splits)

lemma store_remove [simp]: "store (set_remove k x m) = store m"
  by (simp add: set_remove_def split: option.splits)

text \<open>When the lock of a seat expires in the in-memory server, its key is gone and the seat is
  in neither the locked-seats set nor its owner's set, so an expired lock leaves no stale entry
  and frees the owner's quota.\<close>
theorem expired_lock_leaves_no_trace:
  assumes "CHR '':'' \<notin> set st"
    and "m' = fire (seat_lock_key st (encodeSeatRuntimeId seat), LockTimer u d) m"
  shows "map_of (store m') (seat_lock_key st (encodeSeatRuntimeId seat)) = None \<and>
    encodeSeatRuntimeId seat \<notin> set (set_of m' (locked_seats_key st)) \<and>
    encodeSeatRuntimeId seat \<notin> set (set_of m' (user_seats_key st u))"
  using js_split_lock_key [OF assms(1) encodeSeatRuntimeId_no_colon [of seat]] assms(2)
  by (simp add: fire_def fire_lock_timer_def Let_def set_of_remove)

lemma expired_lock_leaves_no_trace_witness:
  "map_of (store (fire (seat_lock_key ''s1'' (encodeSeatRuntimeId ''A-1''), LockTimer ''u1'' 5) (mem_empty 9)))
     (seat_lock_key ''s1'' (encodeSeatRuntimeId ''A-1'')) = None"
  using expired_lock_leaves_no_trace [of "''s1''" _ "''A-1''" "''u1''" 5 "mem_empty 9", OF _ refl] by simp

text \<open>The recovery lock scripts have no emulation in the in-memory server: for any number of
  seats, their evaluation falls through every branch of the dispatcher and throws.\<close>
theorem recovery_scripts_not_emulated:
  "mem_eval_dispatch ACQUIRE_RECOVERY_SEAT_LOCKS_LUA (1 + n) (2 + n) = None \<and>
   mem_eval_dispatch RELEASE_RECOVERY_SEAT_LOCKS_LUA (1 + m) (1 + m) = (if m = 0 then Some EmuGetValid else None)"
  by (simp add: mem_eval_dispatch_def)

end
