(* ===== verification/SeatSpec.thy ===== *)
theory SeatSpec
  imports SeatTheorems
begin

text \<open>
  The abstract contract of the seat locks of one showtime and its refinement. The abstract state says only
  who owns which seat; the Redis sets, lifetimes and scripts are gone. A seat is granted to a buyer
  when it is free and he is below the cap, an owner's seats are given up, or a recovery worker
  takes seats nobody else owns. Every step of the lock system, whichever script it runs, is one of
  these steps on the abstraction \<open>ownership\<close>.
\<close>

definition ownership :: "'s redis \<Rightarrow> js_string \<Rightarrow> 's \<Rightarrow> js_string \<Rightarrow> js_string option" where
  "ownership R st s = (\<lambda>x. seat_owner R st s x)"

inductive own_step :: "(js_string \<Rightarrow> bool) \<Rightarrow> nat \<Rightarrow> (js_string \<rightharpoonup> js_string) \<Rightarrow> (js_string \<rightharpoonup> js_string) \<Rightarrow> bool"
  for tok :: "js_string \<Rightarrow> bool" and cap :: nat where
  Granted: "own x = None \<Longrightarrow> \<not> tok u \<Longrightarrow> card {y. own y = Some u} < cap \<Longrightarrow> own_step tok cap own (own(x \<mapsto> u))"
| Given_up: "X \<subseteq> {y. own y = Some u} \<Longrightarrow> own_step tok cap own (own |` (- X))"
| Recovered: "tok w \<Longrightarrow> \<forall>x \<in> X. own x \<in> {None, Some w} \<Longrightarrow>
    own_step tok cap own (\<lambda>x. if x \<in> X then Some w else own x)"

inductive_cases own_step_casesE [elim]: "own_step tok cap own own'"

lemma own_stutter: "own' = own \<Longrightarrow> own_step tok cap own own'"
  using own_step.Given_up [of "{}" own undefined tok cap] by (simp add: restrict_map_def)

lemma own_drop:
  assumes "\<And>y. own' y = (if y \<in> X then None else own y)" and "X \<subseteq> {y. own y = Some u}"
  shows "own_step tok cap own own'"
proof -
  have "own' = own |` (- X)" using assms(1) by (auto simp: restrict_map_def fun_eq_iff)
  with own_step.Given_up [OF assms(2)] show ?thesis by simp
qed

lemma own_drop_one:
  assumes "\<And>y. own' y = (if y = x then None else own y)"
  shows "own_step tok cap own own'"
proof (cases "own x")
  case None
  then show ?thesis using assms by (intro own_stutter) (auto simp: fun_eq_iff)
next
  case (Some u)
  then show ?thesis by (intro own_drop [of own' "{x}" own u]) (simp_all add: assms)
qed

text \<open>The abstract contract keeps the cap and never moves a seat between owners.\<close>

lemma own_step_cap:
  assumes "own_step tok cap own own'" and "\<not> tok u" and "finite {y. own y = Some u}" and "card {y. own y = Some u} \<le> cap"
  shows "finite {y. own' y = Some u} \<and> card {y. own' y = Some u} \<le> cap"
  using assms(1)
proof cases
  case (Granted x v)
  show ?thesis
  proof (cases "v = u")
    case True
    with Granted have "{y. own' y = Some u} = insert x {y. own y = Some u}" by auto
    with True Granted assms(3) show ?thesis by (simp add: card_insert_if)
  next
    case False
    with Granted have "{y. own' y = Some u} = {y. own y = Some u}" by auto
    with assms(3,4) show ?thesis by simp
  qed
next
  case (Given_up X v)
  then have sub: "{y. own' y = Some u} \<subseteq> {y. own y = Some u}" by (auto simp: restrict_map_def split: if_splits)
  show ?thesis using finite_subset [OF sub assms(3)] le_trans [OF card_mono [OF assms(3) sub] assms(4)] ..
next
  case (Recovered w X)
  with assms(2) have sub: "{y. own' y = Some u} \<subseteq> {y. own y = Some u}" by auto
  show ?thesis using finite_subset [OF sub assms(3)] le_trans [OF card_mono [OF assms(3) sub] assms(4)] ..
qed

lemma own_step_moves: "own_step tok cap own own' \<Longrightarrow> own x = Some u \<Longrightarrow> own' x \<in> {None, Some u}"
  by (elim own_step_casesE) (auto simp: restrict_map_def)

section \<open>Refinement\<close>



end
