(* ===== verification/SeatStatus.thy ===== *)
theory SeatStatus
  imports SeatIdentity
begin

text \<open>
  The seat status snapshots of \<open>BookingService\<close> (\<open>booking.service.ts\<close>, \<open>getSeatStatus\<close> and below): the
  copy of one instance, the shared copy, the one computation in flight per showtime, and the seat
  changes this instance sent, which it lays over any snapshot not generated clearly after them. A JavaScript
  \<open>Map\<close> is an association list in insertion order, the time of the clock is an argument, \<open>Infinity\<close> is
  \<open>None\<close>. The JSON of the shared copy is its value. That a computation ends and the callers awaiting it
  apply the local changes is one event, since no other task runs between.
\<close>

section \<open>State\<close>

datatype seat_state = Available | Locked | Sold | Held | Disabled

record seat_change =
  sc_state :: seat_state
  sc_at :: int

record seat_snapshot =
  sn_generatedAt :: int
  sn_seats :: "js_string \<Rightarrow> seat_state option"

record status_state =
  ss_cache :: "(js_string \<times> int \<times> seat_snapshot) list"
  ss_inFlight :: "(js_string \<times> int) list"
  ss_changes :: "(js_string \<times> (js_string \<times> seat_change) list) list"

definition SEAT_STATUS_CACHE_TTL_MS :: int where "SEAT_STATUS_CACHE_TTL_MS = 1000"
definition SEAT_STATUS_LOCAL_CACHE_TTL_MS :: int where "SEAT_STATUS_LOCAL_CACHE_TTL_MS = 500"
definition SEAT_STATUS_LOCAL_CACHE_MAX_ENTRIES :: nat where "SEAT_STATUS_LOCAL_CACHE_MAX_ENTRIES = 256"
definition SEAT_STATUS_CLOCK_SKEW_MS :: int where "SEAT_STATUS_CLOCK_SKEW_MS = 100"

fun min_option :: "int \<Rightarrow> int option \<Rightarrow> int" where
  "min_option a None = a"
| "min_option a (Some b) = min a b"

definition localSeatChangeHorizon :: "js_string \<Rightarrow> int \<Rightarrow> int option \<Rightarrow> status_state \<Rightarrow> int" where
  "localSeatChangeHorizon showtimeId t oldestSnapshotAt s =
     min_option (min_option (t - SEAT_STATUS_CACHE_TTL_MS) (map_of (ss_inFlight s) showtimeId)) oldestSnapshotAt
       - SEAT_STATUS_CLOCK_SKEW_MS"

section \<open>Recording a change\<close>

fun evict_oldest :: "('a \<times> 'b) list \<Rightarrow> ('a \<times> 'b) list" where
  "evict_oldest [] = []"
| "evict_oldest (e # es) =
     (if length (e # es) \<ge> SEAT_STATUS_LOCAL_CACHE_MAX_ENTRIES then evict_oldest es else e # es)"

text \<open>The showtimes all of whose changes are below their horizon; \<open>latestAt\<close> of no change is \<open>-Infinity\<close>.\<close>

definition drop_stale_showtimes :: "int \<Rightarrow> status_state \<Rightarrow> (js_string \<times> (js_string \<times> seat_change) list) list" where
  "drop_stale_showtimes t s =
     filter (\<lambda>(st, cs). \<not> list_all (\<lambda>(k, c). sc_at c < localSeatChangeHorizon st t None s) cs) (ss_changes s)"

definition pruneLocalSeatChanges :: "int \<Rightarrow> status_state \<Rightarrow> status_state" where
  "pruneLocalSeatChanges t s =
     (if length (ss_changes s) < SEAT_STATUS_LOCAL_CACHE_MAX_ENTRIES then s
      else s\<lparr>ss_changes := evict_oldest (drop_stale_showtimes t s)\<rparr>)"

definition put_change :: "js_string \<Rightarrow> seat_change \<Rightarrow> (js_string \<times> seat_change) list \<Rightarrow> (js_string \<times> seat_change) list" where
  "put_change k c cs = AList.delete k cs @ [(k, c)]"

definition seat_key_of :: "js_string \<Rightarrow> js_string" where
  "seat_key_of x = seatKey (normalizeSeatIdentity (bare_seat x) no_defaults)"

definition recordSeatStatusChange :: "int \<Rightarrow> js_string \<Rightarrow> js_string \<Rightarrow> seat_state \<Rightarrow> status_state \<Rightarrow> status_state" where
  "recordSeatStatusChange t showtimeId sid state s =
     (let c = \<lparr>sc_state = state, sc_at = t\<rparr>
      in case map_of (ss_changes s) showtimeId of
           None \<Rightarrow>
             (let s1 = pruneLocalSeatChanges t s
              in s1\<lparr>ss_changes := AList.update showtimeId (put_change (seat_key_of sid) c []) (ss_changes s1)\<rparr>)
         | Some cs \<Rightarrow>
             (let horizon = localSeatChangeHorizon showtimeId t None s;
                  cs1 = dropWhile (\<lambda>(k, d). sc_at d < horizon) cs
              in s\<lparr>ss_changes := AList.update showtimeId (put_change (seat_key_of sid) c cs1) (ss_changes s)\<rparr>))"

section \<open>Serving a snapshot\<close>

fun overlay :: "int \<Rightarrow> int \<Rightarrow> (js_string \<times> seat_change) list \<Rightarrow> (js_string \<Rightarrow> seat_state option) \<Rightarrow> (js_string \<Rightarrow> seat_state option)" where
  "overlay horizon g [] seats = seats"
| "overlay horizon g ((k, c) # cs) seats =
     overlay horizon g cs
       (if sc_at c < horizon then seats
        else if g > sc_at c + SEAT_STATUS_CLOCK_SKEW_MS then seats
        else if sc_state c = Available then seats(k := None) else seats(k \<mapsto> sc_state c))"

definition applyLocalSeatChanges :: "int \<Rightarrow> js_string \<Rightarrow> seat_snapshot \<Rightarrow> status_state \<Rightarrow> seat_snapshot \<times> status_state" where
  "applyLocalSeatChanges t showtimeId snap s =
     (case map_of (ss_changes s) showtimeId of
        None \<Rightarrow> (snap, s)
      | Some cs \<Rightarrow>
          (let horizon = localSeatChangeHorizon showtimeId t (Some (sn_generatedAt snap)) s;
               kept = filter (\<lambda>(k, c). \<not> sc_at c < horizon) cs
           in (snap\<lparr>sn_seats := overlay horizon (sn_generatedAt snap) cs (sn_seats snap)\<rparr>,
               s\<lparr>ss_changes := (if kept = [] then AList.delete showtimeId (ss_changes s)
                               else AList.update showtimeId kept (ss_changes s))\<rparr>)))"

definition readLocalSeatStatus :: "int \<Rightarrow> js_string \<Rightarrow> status_state \<Rightarrow> seat_snapshot option \<times> status_state" where
  "readLocalSeatStatus t showtimeId s =
     (case map_of (ss_cache s) showtimeId of
        None \<Rightarrow> (None, s)
      | Some (expiresAt, snap) \<Rightarrow>
          if expiresAt \<le> t then (None, s\<lparr>ss_cache := AList.delete showtimeId (ss_cache s)\<rparr>) else (Some snap, s))"

definition writeLocalSeatStatus :: "int \<Rightarrow> js_string \<Rightarrow> seat_snapshot \<Rightarrow> status_state \<Rightarrow> status_state" where
  "writeLocalSeatStatus t showtimeId snap s =
     (let expiresAt = min (t + SEAT_STATUS_LOCAL_CACHE_TTL_MS) (sn_generatedAt snap + SEAT_STATUS_CACHE_TTL_MS)
      in if expiresAt \<le> t then s
         else
           let c1 = AList.delete showtimeId (ss_cache s);
               c2 = (if length c1 \<ge> SEAT_STATUS_LOCAL_CACHE_MAX_ENTRIES
                     then evict_oldest (filter (\<lambda>(k, e, sn). \<not> e \<le> t) c1) else c1)
           in s\<lparr>ss_cache := c2 @ [(showtimeId, expiresAt, snap)]\<rparr>)"

text \<open>The shared copy is served while younger than its lifetime; what it holds is given by the key-value server.\<close>

definition shared_usable :: "int \<Rightarrow> seat_snapshot \<Rightarrow> bool" where
  "shared_usable t snap \<longleftrightarrow> t - sn_generatedAt snap < SEAT_STATUS_CACHE_TTL_MS"

section \<open>Events of one instance\<close>

text \<open>
  \<open>sw_computing\<close> holds the computations past the cache read with their \<open>generatedAt\<close>; \<open>sw_latest\<close> and
  \<open>sw_evicted\<close> are history: the last change sent per seat, and the showtimes whose changes were dropped for
  lack of room.
\<close>

record status_world =
  sw_now :: int
  sw_state :: status_state
  sw_computing :: "(js_string \<times> int) list"
  sw_latest :: "js_string \<Rightarrow> js_string \<Rightarrow> seat_change option"
  sw_evicted :: "js_string set"

definition start_load :: "js_string \<Rightarrow> status_world \<Rightarrow> status_world" where
  "start_load st w = w\<lparr>sw_state := (sw_state w)\<lparr>ss_inFlight := AList.update st (sw_now w) (ss_inFlight (sw_state w))\<rparr>\<rparr>"

definition begin_compute :: "js_string \<Rightarrow> status_world \<Rightarrow> status_world" where
  "begin_compute st w = w\<lparr>sw_computing := AList.update st (sw_now w) (sw_computing w)\<rparr>"

definition finish_load :: "js_string \<Rightarrow> seat_snapshot \<Rightarrow> status_world \<Rightarrow> status_world" where
  "finish_load st snap w =
     (let s1 = writeLocalSeatStatus (sw_now w) st snap (sw_state w)
      in w\<lparr>sw_state := s1\<lparr>ss_inFlight := AList.delete st (ss_inFlight s1)\<rparr>, sw_computing := AList.delete st (sw_computing w)\<rparr>)"

definition answer :: "js_string \<Rightarrow> seat_snapshot \<Rightarrow> status_world \<Rightarrow> seat_snapshot" where
  "answer st snap w = fst (applyLocalSeatChanges (sw_now w) st snap (sw_state w))"

definition after_answer :: "js_string \<Rightarrow> seat_snapshot \<Rightarrow> status_world \<Rightarrow> status_world" where
  "after_answer st snap w = w\<lparr>sw_state := snd (applyLocalSeatChanges (sw_now w) st snap (sw_state w))\<rparr>"

definition send_change :: "js_string \<Rightarrow> js_string \<Rightarrow> seat_state \<Rightarrow> status_world \<Rightarrow> status_world" where
  "send_change st x state w =
     w\<lparr>sw_state := recordSeatStatusChange (sw_now w) st x state (sw_state w),
       sw_latest := (\<lambda>st' k. if st' = st \<and> k = seat_key_of x then Some \<lparr>sc_state = state, sc_at = sw_now w\<rparr> else sw_latest w st' k),
       sw_evicted := sw_evicted w \<union>
         (if map_of (ss_changes (sw_state w)) st = None
          then fst ` set (drop_stale_showtimes (sw_now w) (sw_state w)) - fst ` set (ss_changes (pruneLocalSeatChanges (sw_now w) (sw_state w)))
          else {})\<rparr>"

inductive served :: "js_string \<Rightarrow> seat_snapshot \<Rightarrow> status_world \<Rightarrow> status_world \<Rightarrow> bool" where
  Local: "readLocalSeatStatus (sw_now w) st (sw_state w) = (Some snap, s) \<Longrightarrow> served st snap w w"
| Shared: "map_of (ss_inFlight (sw_state w)) st \<noteq> None \<Longrightarrow> map_of (sw_computing w) st = None \<Longrightarrow> shared_usable (sw_now w) snap \<Longrightarrow>
    served st snap w (finish_load st snap w)"
| Computed: "map_of (ss_inFlight (sw_state w)) st \<noteq> None \<Longrightarrow> map_of (sw_computing w) st = Some (sn_generatedAt snap) \<Longrightarrow>
    served st snap w (finish_load st snap w)"

inductive status_step :: "status_world \<Rightarrow> status_world \<Rightarrow> bool" where
  Time: "0 \<le> d \<Longrightarrow> status_step w (w\<lparr>sw_now := sw_now w + d\<rparr>)"
| Change: "status_step w (send_change st x state w)"
| Miss: "readLocalSeatStatus (sw_now w) st (sw_state w) = (None, s) \<Longrightarrow> map_of (ss_inFlight s) st = None \<Longrightarrow>
    status_step w (start_load st (w\<lparr>sw_state := s\<rparr>))"
| Compute: "map_of (ss_inFlight (sw_state w)) st \<noteq> None \<Longrightarrow> map_of (sw_computing w) st = None \<Longrightarrow>
    status_step w (begin_compute st w)"
| Serve: "served st snap w w1 \<Longrightarrow> status_step w (after_answer st snap w1)"
| Failed: "map_of (ss_inFlight (sw_state w)) st \<noteq> None \<Longrightarrow>
    status_step w (w\<lparr>sw_state := (sw_state w)\<lparr>ss_inFlight := AList.delete st (ss_inFlight (sw_state w))\<rparr>,
      sw_computing := AList.delete st (sw_computing w)\<rparr>)"

inductive status_reach :: "status_world \<Rightarrow> bool" where
  Init: "status_reach \<lparr>sw_now = t, sw_state = \<lparr>ss_cache = [], ss_inFlight = [], ss_changes = []\<rparr>,
     sw_computing = [], sw_latest = \<lambda>_ _. None, sw_evicted = {}\<rparr>"
| Step: "status_reach w \<Longrightarrow> status_step w w' \<Longrightarrow> status_reach w'"

section \<open>Invariant\<close>

definition gone :: "status_world \<Rightarrow> js_string \<Rightarrow> seat_change \<Rightarrow> bool" where
  "gone w st c \<longleftrightarrow> sc_at c + SEAT_STATUS_CLOCK_SKEW_MS < sw_now w - SEAT_STATUS_CACHE_TTL_MS \<and>
     (\<forall>s0. map_of (ss_inFlight (sw_state w)) st = Some s0 \<longrightarrow> sc_at c + SEAT_STATUS_CLOCK_SKEW_MS < s0)"

definition change_of :: "status_state \<Rightarrow> js_string \<Rightarrow> js_string \<Rightarrow> seat_change option" where
  "change_of s st k = (case map_of (ss_changes s) st of None \<Rightarrow> None | Some cs \<Rightarrow> map_of cs k)"

definition maps_ok :: "status_state \<Rightarrow> bool" where
  "maps_ok s \<longleftrightarrow> distinct (map fst (ss_changes s)) \<and> (\<forall>(st, cs) \<in> set (ss_changes s). distinct (map fst cs)) \<and>
     distinct (map fst (ss_inFlight s)) \<and>
     (\<forall>(st, e, snap) \<in> set (ss_cache s). e \<le> sn_generatedAt snap + SEAT_STATUS_CACHE_TTL_MS)"

definition changes_ok :: "status_world \<Rightarrow> bool" where
  "changes_ok w \<longleftrightarrow> (\<forall>st k c. change_of (sw_state w) st k = Some c \<longrightarrow> sw_latest w st k = Some c) \<and>
     (\<forall>st k c. st \<notin> sw_evicted w \<longrightarrow> sw_latest w st k = Some c \<longrightarrow>
        change_of (sw_state w) st k = Some c \<or> gone w st c)"

definition loads_ok :: "status_world \<Rightarrow> bool" where
  "loads_ok w \<longleftrightarrow> distinct (map fst (sw_computing w)) \<and>
     (\<forall>st s0. map_of (ss_inFlight (sw_state w)) st = Some s0 \<longrightarrow> s0 \<le> sw_now w) \<and>
     (\<forall>st g. map_of (sw_computing w) st = Some g \<longrightarrow>
        (\<exists>s0. map_of (ss_inFlight (sw_state w)) st = Some s0 \<and> s0 \<le> g \<and> g \<le> sw_now w))"

lemmas status_bounds = SEAT_STATUS_CACHE_TTL_MS_def SEAT_STATUS_CLOCK_SKEW_MS_def SEAT_STATUS_LOCAL_CACHE_TTL_MS_def

lemma kept_lookup:
  assumes "distinct (map fst es)"
  shows "map_of (filter keep es) sid =
    (case map_of es sid of Some c \<Rightarrow> (if keep (sid, c) then Some c else None) | None \<Rightarrow> None)"
  using assms
proof (induction es)
  case (Cons e es)
  then have "fst e \<notin> fst ` set (filter keep es)" by auto
  with Cons show ?case by (cases e) (auto split: option.splits simp: map_of_eq_None_iff)
qed simp

lemma map_of_suffix:
  assumes "distinct (map fst (xs @ ys))" and "map_of ys k = Some v"
  shows "map_of (xs @ ys) k = Some v"
proof -
  from map_of_SomeD [OF assms(2)] have "(k, v) \<in> set (xs @ ys)" by simp
  then show ?thesis by (rule map_of_is_SomeI [OF assms(1)])
qed

lemma map_of_dropWhile:
  assumes "distinct (map fst xs)"
  shows "map_of (dropWhile P xs) k = Some v \<Longrightarrow> map_of xs k = Some v"
    "map_of xs k = Some v \<Longrightarrow> \<not> P (k, v) \<Longrightarrow> map_of (dropWhile P xs) k = Some v"
proof -
  have d: "distinct (map fst (dropWhile P xs))"
    using assms by (metis distinct_append map_append takeWhile_dropWhile_id)
  show "map_of (dropWhile P xs) k = Some v \<Longrightarrow> map_of xs k = Some v"
    by (rule map_of_is_SomeI [OF assms set_dropWhileD [OF map_of_SomeD]])
  assume m: "map_of xs k = Some v" and n: "\<not> P (k, v)"
  from map_of_SomeD [OF m] have "(k, v) \<in> set (dropWhile P xs)"
    using n by (induction xs) auto
  with d show "map_of (dropWhile P xs) k = Some v" by simp
qed

lemma evict_oldest_suffix: "suffix (evict_oldest xs) xs"
  by (induction xs) (auto intro: suffix_ConsI)

lemma overlay_lookup:
  "distinct (map fst cs) \<Longrightarrow> overlay horizon g cs seats k =
     (case map_of cs k of None \<Rightarrow> seats k
      | Some c \<Rightarrow> if sc_at c < horizon \<or> g > sc_at c + SEAT_STATUS_CLOCK_SKEW_MS then seats k
          else if sc_state c = Available then None else Some (sc_state c))"
proof (induction cs arbitrary: seats)
  case (Cons e cs)
  obtain k' c where e: "e = (k', c)" by fastforce
  with Cons.prems have "map_of cs k' = None" by (simp add: map_of_eq_None_iff)
  with Cons e show ?case by (cases "k = k'") (auto split: option.splits)
qed simp

lemma maps_okD:
  "maps_ok s \<Longrightarrow> distinct (map fst (ss_changes s))"
  "maps_ok s \<Longrightarrow> map_of (ss_changes s) st = Some cs \<Longrightarrow> distinct (map fst cs)"
  by (auto simp: maps_ok_def dest: map_of_SomeD)

lemma prune_fields [simp]:
  "ss_inFlight (pruneLocalSeatChanges t s) = ss_inFlight s" "ss_cache (pruneLocalSeatChanges t s) = ss_cache s"
  by (simp_all add: pruneLocalSeatChanges_def)

lemma prune_sublist:
  assumes "maps_ok s"
  shows "set (ss_changes (pruneLocalSeatChanges t s)) \<subseteq> set (ss_changes s)"
    "distinct (map fst (ss_changes (pruneLocalSeatChanges t s)))"
proof -
  have d: "distinct (map fst (drop_stale_showtimes t s))"
    using maps_okD(1) [OF assms] by (auto simp: drop_stale_showtimes_def intro: distinct_map_filter)
  obtain zs where z: "drop_stale_showtimes t s = zs @ evict_oldest (drop_stale_showtimes t s)"
    using evict_oldest_suffix [of "drop_stale_showtimes t s"] by (auto simp: suffix_def)
  have "set (evict_oldest (drop_stale_showtimes t s)) \<subseteq> set (drop_stale_showtimes t s)"
    by (subst (2) z) simp
  also have "\<dots> \<subseteq> set (ss_changes s)" by (auto simp: drop_stale_showtimes_def)
  finally show "set (ss_changes (pruneLocalSeatChanges t s)) \<subseteq> set (ss_changes s)"
    by (auto simp: pruneLocalSeatChanges_def)
  have "distinct (map fst (evict_oldest (drop_stale_showtimes t s)))" using d by (subst (asm) z) simp
  with maps_okD(1) [OF assms] show "distinct (map fst (ss_changes (pruneLocalSeatChanges t s)))"
    by (simp add: pruneLocalSeatChanges_def)
qed

lemma prune_maps_ok: "maps_ok s \<Longrightarrow> maps_ok (pruneLocalSeatChanges t s)"
  using prune_sublist [of s t] unfolding maps_ok_def prune_fields by blast

lemma prune_back:
  assumes "maps_ok s" and "map_of (ss_changes (pruneLocalSeatChanges t s)) st = Some cs"
  shows "map_of (ss_changes s) st = Some cs"
  using prune_sublist(1) [OF assms(1), of t] map_of_SomeD [OF assms(2)] maps_okD(1) [OF assms(1)]
  by (auto intro: map_of_is_SomeI)

lemma prune_forth:
  assumes "maps_ok s" and "map_of (ss_changes s) st = Some cs" and "map_of cs k = Some c"
    and "st \<notin> fst ` set (drop_stale_showtimes t s) - fst ` set (ss_changes (pruneLocalSeatChanges t s))"
  shows "map_of (ss_changes (pruneLocalSeatChanges t s)) st = Some cs \<or> sc_at c < localSeatChangeHorizon st t None s"
proof (cases "(st, cs) \<in> set (drop_stale_showtimes t s)")
  case True
  with assms(4) have "st \<in> fst ` set (ss_changes (pruneLocalSeatChanges t s))" by force
  then obtain cs' where c: "(st, cs') \<in> set (ss_changes (pruneLocalSeatChanges t s))" by force
  then have p: "map_of (ss_changes (pruneLocalSeatChanges t s)) st = Some cs'"
    using prune_sublist(2) [OF assms(1)] by (simp add: map_of_is_SomeI)
  from prune_back [OF assms(1) this] assms(2) have "cs' = cs" by simp
  with p show ?thesis by simp
next
  case False
  moreover have "(st, cs) \<in> set (ss_changes s)" by (rule map_of_SomeD [OF assms(2)])
  ultimately have "list_all (\<lambda>(k, c). sc_at c < localSeatChangeHorizon st t None s) cs"
    by (simp add: drop_stale_showtimes_def)
  with map_of_SomeD [OF assms(3)] show ?thesis by (auto simp: list_all_iff)
qed

lemma put_change_lookup: "map_of (put_change k c cs) k' = (if k' = k then Some c else map_of cs k')"
  by (auto simp: put_change_def map_add_def delete_conv' split: option.splits)

lemma put_change_distinct: "distinct (map fst cs) \<Longrightarrow> distinct (map fst (put_change k c cs))"
  by (simp add: put_change_def delete_keys distinct_removeAll)

lemma set_changes_maps_ok:
  assumes "maps_ok s" and "distinct (map fst cs)"
  shows "maps_ok (s\<lparr>ss_changes := AList.update st cs (ss_changes s)\<rparr>)"
proof -
  have "(st', cs') \<in> set (AList.update st cs (ss_changes s)) \<Longrightarrow> distinct (map fst cs')" for st' cs'
    using assms distinct_update [OF maps_okD(1) [OF assms(1)], of st cs]
    by (metis (no_types, lifting) map_of_is_SomeI map_upd_Some_unfold maps_okD(2) option.inject update_conv')
  with assms(1) show ?thesis by (auto simp: maps_ok_def distinct_update)
qed

lemma set_changes_lookup:
  "change_of (s\<lparr>ss_changes := AList.update st cs (ss_changes s)\<rparr>) st' k =
     (if st' = st then map_of cs k else change_of s st' k)"
  by (simp add: change_of_def update_conv')

lemma record_fields [simp]:
  "ss_inFlight (recordSeatStatusChange t st x state s) = ss_inFlight s"
  "ss_cache (recordSeatStatusChange t st x state s) = ss_cache s"
  by (simp_all add: recordSeatStatusChange_def Let_def split: option.split)

lemma record_maps_ok:
  assumes "maps_ok s"
  shows "maps_ok (recordSeatStatusChange t st x state s)"
proof (cases "map_of (ss_changes s) st")
  case None
  have "distinct (map fst (put_change (seat_key_of x) c []))" for c by (simp add: put_change_def)
  with None show ?thesis
    by (simp add: recordSeatStatusChange_def Let_def set_changes_maps_ok [OF prune_maps_ok [OF assms]])
next
  case (Some cs)
  let ?cs = "dropWhile (\<lambda>(k, d). sc_at d < localSeatChangeHorizon st t None s) cs"
  have "distinct (map fst ?cs)"
    using maps_okD(2) [OF assms Some] by (metis distinct_append map_append takeWhile_dropWhile_id)
  with Some show ?thesis
    by (simp add: recordSeatStatusChange_def Let_def set_changes_maps_ok [OF assms] put_change_distinct)
qed

lemma record_lookup:
  fixes t :: int and st x :: js_string and state :: seat_state
  assumes "maps_ok s"
  defines "s' \<equiv> recordSeatStatusChange t st x state s"
  shows "change_of s' st (seat_key_of x) = Some \<lparr>sc_state = state, sc_at = t\<rparr>"
    "(st', k) \<noteq> (st, seat_key_of x) \<Longrightarrow> change_of s' st' k = Some c \<Longrightarrow> change_of s st' k = Some c"
    "(st', k) \<noteq> (st, seat_key_of x) \<Longrightarrow> change_of s st' k = Some c \<Longrightarrow>
       map_of (ss_changes s) st \<noteq> None \<or>
         st' \<notin> fst ` set (drop_stale_showtimes t s) - fst ` set (ss_changes (pruneLocalSeatChanges t s)) \<Longrightarrow>
       change_of s' st' k = Some c \<or> sc_at c < localSeatChangeHorizon st' t None s"
proof -
  let ?c = "\<lparr>sc_state = state, sc_at = t\<rparr>"
  let ?h = "localSeatChangeHorizon st t None s"
  have none: "change_of s' st' k = (if st' = st then map_of (put_change (seat_key_of x) ?c []) k
      else change_of (pruneLocalSeatChanges t s) st' k)" if "map_of (ss_changes s) st = None" for st' k
    using that by (simp add: s'_def recordSeatStatusChange_def Let_def set_changes_lookup)
  have some: "change_of s' st' k = (if st' = st then map_of (put_change (seat_key_of x) ?c (dropWhile (\<lambda>(k, d). sc_at d < ?h) cs)) k
      else change_of s st' k)" if "map_of (ss_changes s) st = Some cs" for st' k cs
    using that by (simp add: s'_def recordSeatStatusChange_def Let_def set_changes_lookup)
  show "change_of s' st (seat_key_of x) = Some ?c"
    by (cases "map_of (ss_changes s) st") (simp_all add: none some put_change_lookup)
  show "change_of s st' k = Some c" if ne: "(st', k) \<noteq> (st, seat_key_of x)" and a: "change_of s' st' k = Some c"
  proof (cases "map_of (ss_changes s) st")
    case None
    with a ne have "st' \<noteq> st" "change_of (pruneLocalSeatChanges t s) st' k = Some c"
      by (auto simp: none put_change_lookup split: if_splits)
    then show ?thesis using prune_back [OF assms(1), of t st'] by (auto simp: change_of_def split: option.splits)
  next
    case (Some cs)
    show ?thesis
    proof (cases "st' = st")
      case True
      with a ne Some have "map_of (dropWhile (\<lambda>(k, d). sc_at d < ?h) cs) k = Some c"
        by (auto simp: some put_change_lookup split: if_splits)
      from map_of_dropWhile(1) [OF maps_okD(2) [OF assms(1) Some] this] True Some show ?thesis by (simp add: change_of_def)
    next
      case False
      with a Some show ?thesis by (simp add: some)
    qed
  qed
  show "change_of s' st' k = Some c \<or> sc_at c < localSeatChangeHorizon st' t None s"
    if ne: "(st', k) \<noteq> (st, seat_key_of x)" and a: "change_of s st' k = Some c"
      and e: "map_of (ss_changes s) st \<noteq> None \<or>
         st' \<notin> fst ` set (drop_stale_showtimes t s) - fst ` set (ss_changes (pruneLocalSeatChanges t s))"
  proof (cases "map_of (ss_changes s) st")
    case None
    with a have "st' \<noteq> st" by (auto simp: change_of_def)
    moreover from a obtain cs where cs: "map_of (ss_changes s) st' = Some cs" "map_of cs k = Some c"
      by (auto simp: change_of_def split: option.splits)
    moreover have "map_of (ss_changes (pruneLocalSeatChanges t s)) st' = Some cs \<or> sc_at c < localSeatChangeHorizon st' t None s"
      using prune_forth [OF assms(1) cs, of t] e None by simp
    ultimately show ?thesis unfolding none [OF None] by (auto simp: change_of_def)
  next
    case (Some cs)
    show ?thesis
    proof (cases "st' = st")
      case True
      with a Some have "map_of cs k = Some c" by (simp add: change_of_def)
      from map_of_dropWhile(2) [OF maps_okD(2) [OF assms(1) Some] this, of "\<lambda>(k, d). sc_at d < ?h"] True ne Some
      show ?thesis by (auto simp: some put_change_lookup)
    next
      case False
      with a Some show ?thesis by (simp add: some)
    qed
  qed
qed

lemma below_horizon_gone:
  assumes "sc_at c < localSeatChangeHorizon st (sw_now w) oldest (sw_state w)"
  shows "gone w st c"
  using assms
  by (cases oldest; cases "map_of (ss_inFlight (sw_state w)) st")
    (auto simp: localSeatChangeHorizon_def gone_def status_bounds)

lemma send_change_ok:
  assumes "maps_ok (sw_state w)" and "changes_ok w"
  shows "maps_ok (sw_state (send_change st x state w))" "changes_ok (send_change st x state w)"
proof -
  show "maps_ok (sw_state (send_change st x state w))" by (simp add: send_change_def record_maps_ok [OF assms(1)])
  note r = record_lookup [OF assms(1), where t = "sw_now w" and st = st and x = x and state = state]
  let ?w = "send_change st x state w"
  have g: "gone ?w st' c \<longleftrightarrow> gone w st' c" for st' c by (simp add: gone_def send_change_def)
  have 1: "sw_latest ?w st' k = Some c" if "change_of (sw_state ?w) st' k = Some c" for st' k c
  proof (cases "(st', k) = (st, seat_key_of x)")
    case True
    with that r(1) show ?thesis by (simp add: send_change_def)
  next
    case False
    from r(2) [OF False] that have "change_of (sw_state w) st' k = Some c" by (simp add: send_change_def)
    then have "sw_latest w st' k = Some c" using assms(2) unfolding changes_ok_def by blast
    with False show ?thesis by (auto simp: send_change_def)
  qed
  have 2: "change_of (sw_state ?w) st' k = Some c \<or> gone ?w st' c"
    if e: "st' \<notin> sw_evicted ?w" and l: "sw_latest ?w st' k = Some c" for st' k c
  proof (cases "(st', k) = (st, seat_key_of x)")
    case True
    with l r(1) show ?thesis by (auto simp: send_change_def)
  next
    case False
    from l False have "sw_latest w st' k = Some c" by (auto simp: send_change_def split: if_splits)
    moreover from e have "st' \<notin> sw_evicted w" by (simp add: send_change_def)
    ultimately have "change_of (sw_state w) st' k = Some c \<or> gone w st' c"
      using assms(2) unfolding changes_ok_def by blast
    then show ?thesis
    proof
      assume c: "change_of (sw_state w) st' k = Some c"
      from e have "map_of (ss_changes (sw_state w)) st \<noteq> None \<or>
         st' \<notin> fst ` set (drop_stale_showtimes (sw_now w) (sw_state w)) -
           fst ` set (ss_changes (pruneLocalSeatChanges (sw_now w) (sw_state w)))"
        by (cases "map_of (ss_changes (sw_state w)) st") (simp_all add: send_change_def)
      from r(3) [OF False c this] show ?thesis
        using below_horizon_gone by (auto simp: g) (auto simp: send_change_def)
    qed (simp add: g)
  qed
  show "changes_ok ?w" unfolding changes_ok_def using 1 2 by blast
qed

lemma apply_fields [simp]:
  "ss_inFlight (snd (applyLocalSeatChanges t st snap s)) = ss_inFlight s"
  "ss_cache (snd (applyLocalSeatChanges t st snap s)) = ss_cache s"
  by (simp_all add: applyLocalSeatChanges_def Let_def split: option.split)

lemma apply_changes:
  assumes "maps_ok s"
  shows "maps_ok (snd (applyLocalSeatChanges t st snap s))"
    "change_of (snd (applyLocalSeatChanges t st snap s)) st' k =
       (case change_of s st' k of None \<Rightarrow> None
        | Some c \<Rightarrow> if st' = st \<and> sc_at c < localSeatChangeHorizon st t (Some (sn_generatedAt snap)) s then None else Some c)"
proof -
  let ?s = "snd (applyLocalSeatChanges t st snap s)"
  let ?h = "localSeatChangeHorizon st t (Some (sn_generatedAt snap)) s"
  have "maps_ok ?s \<and> change_of ?s st' k =
       (case change_of s st' k of None \<Rightarrow> None | Some c \<Rightarrow> if st' = st \<and> sc_at c < ?h then None else Some c)"
  proof (cases "map_of (ss_changes s) st")
    case None
    then have e: "?s = s" by (simp add: applyLocalSeatChanges_def)
    have "change_of ?s st' k =
       (case change_of s st' k of None \<Rightarrow> None | Some c \<Rightarrow> if st' = st \<and> sc_at c < ?h then None else Some c)"
      unfolding e using None by (auto simp: change_of_def split: option.split)
    with assms show ?thesis unfolding e by blast
  next
    case (Some cs)
    let ?kept = "filter (\<lambda>(k, c). \<not> sc_at c < ?h) cs"
    have e: "?s = s\<lparr>ss_changes := (if ?kept = [] then AList.delete st (ss_changes s) else AList.update st ?kept (ss_changes s))\<rparr>"
      by (simp add: applyLocalSeatChanges_def Some Let_def)
    note d = maps_okD(2) [OF assms Some]
    have m: "maps_ok ?s"
    proof (cases "?kept = []")
      case True
      have "set (AList.delete st (ss_changes s)) \<subseteq> set (ss_changes s)" by (auto simp: AList.delete_eq)
      with assms show ?thesis
        unfolding e if_P [OF True] by (auto simp: maps_ok_def delete_keys distinct_removeAll)
    next
      case False
      show ?thesis unfolding e if_not_P [OF False]
        by (rule set_changes_maps_ok [OF assms distinct_map_filter [OF d]])
    qed
    have k: "map_of ?kept k = (case map_of cs k of None \<Rightarrow> None | Some c \<Rightarrow> if sc_at c < ?h then None else Some c)"
      by (simp add: kept_lookup [OF d] split: option.split)
    have "change_of ?s st' k = (if st' = st then map_of ?kept k else change_of s st' k)"
      unfolding e by (simp add: change_of_def update_conv' delete_conv')
    then have "change_of ?s st' k =
       (case change_of s st' k of None \<Rightarrow> None | Some c \<Rightarrow> if st' = st \<and> sc_at c < ?h then None else Some c)"
      unfolding k by (simp add: change_of_def Some split: option.split)
    with m show ?thesis by blast
  qed
  then show "maps_ok ?s" "change_of ?s st' k =
       (case change_of s st' k of None \<Rightarrow> None | Some c \<Rightarrow> if st' = st \<and> sc_at c < ?h then None else Some c)" by blast+
qed

lemma after_answer_ok:
  assumes "maps_ok (sw_state w)" and "changes_ok w"
  shows "maps_ok (sw_state (after_answer st snap w))" "changes_ok (after_answer st snap w)"
proof -
  note a = apply_changes [OF assms(1), where t = "sw_now w" and st = st and snap = snap]
  show "maps_ok (sw_state (after_answer st snap w))" by (simp add: after_answer_def a(1))
  have g: "gone (after_answer st snap w) st' c \<longleftrightarrow> gone w st' c" for st' c by (simp add: gone_def after_answer_def)
  have l: "sw_latest (after_answer st snap w) = sw_latest w" "sw_evicted (after_answer st snap w) = sw_evicted w"
    by (simp_all add: after_answer_def)
  have "sw_latest w st' k = Some c" if "change_of (sw_state (after_answer st snap w)) st' k = Some c" for st' k c
    using that a(2) [of st' k] assms(2) by (auto simp: after_answer_def changes_ok_def split: option.splits if_splits)
  moreover have "change_of (sw_state (after_answer st snap w)) st' k = Some c \<or> gone w st' c"
    if "st' \<notin> sw_evicted w" "sw_latest w st' k = Some c" for st' k c
  proof -
    from assms(2) that have "change_of (sw_state w) st' k = Some c \<or> gone w st' c" unfolding changes_ok_def by blast
    then show ?thesis
      using a(2) [of st' k] below_horizon_gone [of c st w "Some (sn_generatedAt snap)"]
      by (auto simp: after_answer_def)
  qed
  ultimately show "changes_ok (after_answer st snap w)" unfolding changes_ok_def g l by blast
qed

text \<open>Other steps leave the changes; they only move the clock on, or start and end loads.\<close>

lemma changes_ok_later:
  assumes "changes_ok w" and "ss_changes (sw_state w') = ss_changes (sw_state w)"
    and "sw_latest w' = sw_latest w" and "sw_evicted w' = sw_evicted w"
    and "\<And>st c. gone w st c \<Longrightarrow> gone w' st c"
  shows "changes_ok w'"
proof -
  have "change_of (sw_state w') = change_of (sw_state w)" by (intro ext) (simp add: change_of_def assms(2))
  with assms show ?thesis unfolding changes_ok_def by metis
qed

lemma write_fields [simp]:
  "ss_inFlight (writeLocalSeatStatus t st snap s) = ss_inFlight s"
  "ss_changes (writeLocalSeatStatus t st snap s) = ss_changes s"
  by (simp_all add: writeLocalSeatStatus_def Let_def)

lemma evict_oldest_subset: "set (evict_oldest xs) \<subseteq> set xs"
  by (rule set_mono_suffix [OF evict_oldest_suffix])

lemma delete_subset: "set (AList.delete k xs) \<subseteq> set xs"
  by (auto simp: AList.delete_eq)

lemma write_cache:
  "set (ss_cache (writeLocalSeatStatus t st snap s)) \<subseteq>
     insert (st, min (t + SEAT_STATUS_LOCAL_CACHE_TTL_MS) (sn_generatedAt snap + SEAT_STATUS_CACHE_TTL_MS), snap) (set (ss_cache s))"
proof -
  have "set (evict_oldest (filter P (AList.delete st (ss_cache s)))) \<subseteq> set (ss_cache s)" for P
    using evict_oldest_subset delete_subset filter_is_subset by (metis subset_trans)
  then show ?thesis
    using delete_subset [of st "ss_cache s"] unfolding writeLocalSeatStatus_def Let_def
    by (simp add: subset_insertI2)
qed

lemma write_maps_ok:
  assumes "maps_ok s"
  shows "maps_ok (writeLocalSeatStatus t st snap s)"
proof -
  have old: "\<forall>(k, e, sn) \<in> set (ss_cache s). e \<le> sn_generatedAt sn + SEAT_STATUS_CACHE_TTL_MS"
    using assms unfolding maps_ok_def by blast
  have "\<forall>(k, e, sn) \<in> set (ss_cache (writeLocalSeatStatus t st snap s)). e \<le> sn_generatedAt sn + SEAT_STATUS_CACHE_TTL_MS"
  proof (rule ballI)
    fix x assume "x \<in> set (ss_cache (writeLocalSeatStatus t st snap s))"
    with write_cache [of t st snap s] have "x = (st, min (t + SEAT_STATUS_LOCAL_CACHE_TTL_MS)
        (sn_generatedAt snap + SEAT_STATUS_CACHE_TTL_MS), snap) \<or> x \<in> set (ss_cache s)" by blast
    with old show "case x of (k, e, sn) \<Rightarrow> e \<le> sn_generatedAt sn + SEAT_STATUS_CACHE_TTL_MS" by auto
  qed
  with assms show ?thesis unfolding maps_ok_def write_fields by blast
qed

lemma read_fields:
  assumes "readLocalSeatStatus t st s = (r, s')"
  shows "ss_inFlight s' = ss_inFlight s" "ss_changes s' = ss_changes s" "set (ss_cache s') \<subseteq> set (ss_cache s)"
  using assms by (auto simp: readLocalSeatStatus_def AList.delete_eq split: option.splits if_splits)

definition status_ok :: "status_world \<Rightarrow> bool" where
  "status_ok w \<longleftrightarrow> maps_ok (sw_state w) \<and> changes_ok w \<and> loads_ok w"

lemma gone_end:
  "gone w st c \<Longrightarrow> sw_now w' = sw_now w \<Longrightarrow>
   (\<And>s0. map_of (ss_inFlight (sw_state w')) st = Some s0 \<Longrightarrow> map_of (ss_inFlight (sw_state w)) st = Some s0) \<Longrightarrow> gone w' st c"
  by (simp add: gone_def)

lemma delete_lookup: "map_of (AList.delete k xs) k' = (if k' = k then None else map_of xs k')"
  by (simp add: delete_conv')

lemma end_load_ok:
  assumes "status_ok w" and "ss_changes s' = ss_changes (sw_state w)" and "ss_inFlight s' = ss_inFlight (sw_state w)" and "maps_ok s'"
  shows "status_ok (w\<lparr>sw_state := s'\<lparr>ss_inFlight := AList.delete st (ss_inFlight s')\<rparr>, sw_computing := AList.delete st (sw_computing w)\<rparr>)"
    (is "status_ok ?w")
proof -
  have m: "maps_ok (sw_state ?w)"
    using assms(4) by (simp add: maps_ok_def delete_keys distinct_removeAll)
  have c: "changes_ok ?w"
    by (rule changes_ok_later [of w])
      (use assms in \<open>auto simp: status_ok_def intro!: gone_end [of w] simp: delete_lookup split: if_splits\<close>)
  have l: "loads_ok ?w"
    using assms(1,3) by (auto simp: status_ok_def loads_ok_def delete_keys distinct_removeAll delete_lookup split: if_splits)
  from m c l show ?thesis by (simp add: status_ok_def)
qed

lemma served_ok: "served st snap w w1 \<Longrightarrow> status_ok w \<Longrightarrow> status_ok w1"
proof (induction rule: served.induct)
  case (Shared w st snap)
  then show ?case
    unfolding finish_load_def Let_def by (intro end_load_ok) (auto simp: status_ok_def write_maps_ok)
next
  case (Computed w st snap)
  then show ?case
    unfolding finish_load_def Let_def by (intro end_load_ok) (auto simp: status_ok_def write_maps_ok)
qed

lemma gone_later:
  "gone w st c \<Longrightarrow> sw_now w \<le> sw_now w' \<Longrightarrow>
   (\<And>s0. map_of (ss_inFlight (sw_state w')) st = Some s0 \<Longrightarrow>
      map_of (ss_inFlight (sw_state w)) st = Some s0 \<or> sw_now w \<le> s0) \<Longrightarrow> gone w' st c"
  by (force simp: gone_def status_bounds)

lemma time_ok:
  assumes "status_ok w" and "0 \<le> d"
  shows "status_ok (w\<lparr>sw_now := sw_now w + d\<rparr>)"
proof -
  have "changes_ok (w\<lparr>sw_now := sw_now w + d\<rparr>)"
    by (rule changes_ok_later [of w]) (use assms in \<open>auto simp: status_ok_def gone_def\<close>)
  moreover have "loads_ok (w\<lparr>sw_now := sw_now w + d\<rparr>)"
    unfolding loads_ok_def
  proof (intro conjI allI impI)
    have l: "loads_ok w" using assms(1) by (simp add: status_ok_def)
    show "distinct (map fst (sw_computing (w\<lparr>sw_now := sw_now w + d\<rparr>)))" using l by (simp add: loads_ok_def)
    fix st s0 assume "map_of (ss_inFlight (sw_state (w\<lparr>sw_now := sw_now w + d\<rparr>))) st = Some s0"
    then have "map_of (ss_inFlight (sw_state w)) st = Some s0" by simp
    with l have "s0 \<le> sw_now w" unfolding loads_ok_def by blast
    with assms(2) show "s0 \<le> sw_now (w\<lparr>sw_now := sw_now w + d\<rparr>)" by simp
  next
    have l: "loads_ok w" using assms(1) by (simp add: status_ok_def)
    fix st g assume "map_of (sw_computing (w\<lparr>sw_now := sw_now w + d\<rparr>)) st = Some g"
    then have "map_of (sw_computing w) st = Some g" by simp
    with l obtain s0 where "map_of (ss_inFlight (sw_state w)) st = Some s0" "s0 \<le> g" "g \<le> sw_now w"
      unfolding loads_ok_def by blast
    with assms(2) show "\<exists>s0. map_of (ss_inFlight (sw_state (w\<lparr>sw_now := sw_now w + d\<rparr>))) st = Some s0 \<and> s0 \<le> g \<and>
        g \<le> sw_now (w\<lparr>sw_now := sw_now w + d\<rparr>)" by (intro exI [of _ s0]) simp
  qed
  ultimately show ?thesis using assms(1) by (simp add: status_ok_def)
qed

lemma miss_ok:
  assumes ok: "status_ok w" and r: "readLocalSeatStatus (sw_now w) st (sw_state w) = (None, s)"
    and n: "map_of (ss_inFlight s) st = None"
  shows "status_ok (start_load st (w\<lparr>sw_state := s\<rparr>))"
proof -
  let ?w = "start_load st (w\<lparr>sw_state := s\<rparr>)"
  note f = read_fields [OF r]
  have none: "map_of (ss_inFlight (sw_state w)) st = None" using n f(1) by simp
  have fl: "map_of (ss_inFlight (sw_state ?w)) st' = (if st' = st then Some (sw_now w) else map_of (ss_inFlight (sw_state w)) st')" for st'
    by (simp add: start_load_def update_conv' f)
  have "maps_ok s"
  proof -
    have "maps_ok (sw_state w)" using ok by (simp add: status_ok_def)
    moreover have "\<forall>x \<in> set (ss_cache s). P x" if "\<forall>x \<in> set (ss_cache (sw_state w)). P x" for P
      using f(3) that by blast
    ultimately show ?thesis unfolding maps_ok_def f(1,2) by blast
  qed
  then have m: "maps_ok (sw_state ?w)" by (simp add: start_load_def maps_ok_def distinct_update)
  have c: "changes_ok ?w"
  proof (rule changes_ok_later [of w])
    show "gone ?w st' c" if "gone w st' c" for st' c
    proof (rule gone_later [OF that])
      show "sw_now w \<le> sw_now ?w" by (simp add: start_load_def)
      fix s0 assume "map_of (ss_inFlight (sw_state ?w)) st' = Some s0"
      then show "map_of (ss_inFlight (sw_state w)) st' = Some s0 \<or> sw_now w \<le> s0"
        unfolding fl by (auto split: if_splits)
    qed
  qed (use ok in \<open>simp_all add: status_ok_def start_load_def f\<close>)
  have l: "loads_ok w" using ok by (simp add: status_ok_def)
  have "loads_ok ?w"
    unfolding loads_ok_def fl
  proof (intro conjI allI impI)
    show "distinct (map fst (sw_computing ?w))" using l by (simp add: loads_ok_def start_load_def)
    fix st' s0 assume "(if st' = st then Some (sw_now w) else map_of (ss_inFlight (sw_state w)) st') = Some s0"
    then show "s0 \<le> sw_now ?w" using l by (auto simp: loads_ok_def start_load_def split: if_splits)
  next
    fix st' g assume "map_of (sw_computing ?w) st' = Some g"
    then have "map_of (sw_computing w) st' = Some g" by (simp add: start_load_def)
    with l obtain s0 where s0: "map_of (ss_inFlight (sw_state w)) st' = Some s0" "s0 \<le> g" "g \<le> sw_now w"
      unfolding loads_ok_def by blast
    with none show "\<exists>s0. (if st' = st then Some (sw_now w) else map_of (ss_inFlight (sw_state w)) st') = Some s0 \<and> s0 \<le> g \<and> g \<le> sw_now ?w"
      by (intro exI [of _ s0]) (auto simp: start_load_def)
  qed
  with m c show ?thesis by (simp add: status_ok_def)
qed

lemma compute_ok:
  assumes ok: "status_ok w" and i: "map_of (ss_inFlight (sw_state w)) st \<noteq> None"
  shows "status_ok (begin_compute st w)"
proof -
  have c: "changes_ok (begin_compute st w)"
    by (rule changes_ok_later [of w]) (use ok in \<open>simp_all add: status_ok_def begin_compute_def gone_def\<close>)
  from i obtain s0 where s0: "map_of (ss_inFlight (sw_state w)) st = Some s0" by blast
  have l: "loads_ok w" using ok by (simp add: status_ok_def)
  then have "s0 \<le> sw_now w" using s0 unfolding loads_ok_def by blast
  with l s0 have "loads_ok (begin_compute st w)"
    unfolding loads_ok_def begin_compute_def by (simp add: update_conv' distinct_update)
  with c ok show ?thesis by (simp add: status_ok_def begin_compute_def)
qed

lemma status_step_ok: "status_step w w' \<Longrightarrow> status_ok w \<Longrightarrow> status_ok w'"
proof (induction rule: status_step.induct)
  case (Time d w)
  then show ?case by (simp add: time_ok)
next
  case (Change w st x state)
  have "loads_ok (send_change st x state w)" using Change by (simp add: status_ok_def loads_ok_def send_change_def)
  with send_change_ok [of w st x state] Change show ?case by (simp add: status_ok_def)
next
  case (Miss w st s)
  then show ?case by (simp add: miss_ok)
next
  case (Compute w st)
  then show ?case by (simp add: compute_ok)
next
  case (Serve st snap w w1)
  from served_ok [OF Serve] have ok: "status_ok w1" .
  then have "loads_ok (after_answer st snap w1)" by (simp add: status_ok_def loads_ok_def after_answer_def)
  with ok after_answer_ok [of w1 st snap] show ?case by (simp add: status_ok_def)
next
  case (Failed w st)
  then show ?case by (intro end_load_ok) (simp_all add: status_ok_def)
qed

lemma status_reach_ok: "status_reach w \<Longrightarrow> status_ok w"
proof (induction rule: status_reach.induct)
  case (Init t)
  show ?case by (simp add: status_ok_def maps_ok_def changes_ok_def loads_ok_def change_of_def)
qed (rule status_step_ok)

section \<open>Properties\<close>

lemma served_age:
  assumes "status_ok w" and "served st snap w w1"
  shows "sn_generatedAt snap > sw_now w - SEAT_STATUS_CACHE_TTL_MS \<or>
    (\<exists>s0. map_of (ss_inFlight (sw_state w)) st = Some s0 \<and> s0 \<le> sn_generatedAt snap)"
  using assms(2)
proof cases
  case (Local s)
  then obtain e where "map_of (ss_cache (sw_state w)) st = Some (e, snap)" "sw_now w < e"
    by (auto simp: readLocalSeatStatus_def split: option.splits if_splits)
  moreover from map_of_SomeD [OF this(1)] have "e \<le> sn_generatedAt snap + SEAT_STATUS_CACHE_TTL_MS"
    using assms(1) by (auto simp: status_ok_def maps_ok_def)
  ultimately show ?thesis by simp
next
  case Shared
  then show ?thesis by (simp add: shared_usable_def)
next
  case Computed
  from assms(1) have "loads_ok w" by (simp add: status_ok_def)
  with Computed(3) show ?thesis unfolding loads_ok_def by blast
qed

lemma served_later: "served st snap w w1 \<Longrightarrow> sw_now w1 = sw_now w \<and> sw_latest w1 = sw_latest w \<and> sw_evicted w1 = sw_evicted w \<and>
    change_of (sw_state w1) = change_of (sw_state w)"
  by (induction rule: served.induct) (auto simp: finish_load_def Let_def change_of_def fun_eq_iff)

lemma answer_lookup:
  assumes "maps_ok (sw_state w)"
  shows "sn_seats (answer st snap w) k =
    (case change_of (sw_state w) st k of None \<Rightarrow> sn_seats snap k
     | Some c \<Rightarrow> if sc_at c < localSeatChangeHorizon st (sw_now w) (Some (sn_generatedAt snap)) (sw_state w) \<or>
           sn_generatedAt snap > sc_at c + SEAT_STATUS_CLOCK_SKEW_MS then sn_seats snap k
         else if sc_state c = Available then None else Some (sc_state c))"
  using maps_okD(2) [OF assms]
  by (auto simp: answer_def applyLocalSeatChanges_def change_of_def overlay_lookup Let_def split: option.splits)

text \<open>C36: Read your writes: whatever snapshot a request is served (the instance's copy, the shared one or a fresh
  computation, however slow), the answer shows every seat change this instance sent unless the
  snapshot was generated clearly after it, in which case the answer shows the snapshot; and no snapshot
  served is a second old unless its own computation took that long. Showtimes whose changes were
  evicted for lack of room are excepted.\<close>
theorem seat_status_shows_own_changes:
  assumes "status_reach w" and "served st snap w w1" and "st \<notin> sw_evicted w"
  shows "sn_seats (answer st snap w1) k =
      (case sw_latest w st k of None \<Rightarrow> sn_seats snap k
       | Some c \<Rightarrow> if sn_generatedAt snap > sc_at c + SEAT_STATUS_CLOCK_SKEW_MS then sn_seats snap k
           else if sc_state c = Available then None else Some (sc_state c)) \<and>
    (sn_generatedAt snap > sw_now w - SEAT_STATUS_CACHE_TTL_MS \<or>
       (\<exists>s0. map_of (ss_inFlight (sw_state w)) st = Some s0 \<and> s0 \<le> sn_generatedAt snap))"
proof
  have ok: "status_ok w" by (rule status_reach_ok [OF assms(1)])
  note age = served_age [OF ok assms(2)]
  then show "sn_generatedAt snap > sw_now w - SEAT_STATUS_CACHE_TTL_MS \<or>
       (\<exists>s0. map_of (ss_inFlight (sw_state w)) st = Some s0 \<and> s0 \<le> sn_generatedAt snap)" .
  note later = served_later [OF assms(2)]
  have "maps_ok (sw_state w1)" using served_ok [OF assms(2) ok] by (simp add: status_ok_def)
  note look = answer_lookup [OF this, of st snap k]
  have h: "localSeatChangeHorizon st (sw_now w1) (Some (sn_generatedAt snap)) (sw_state w1) \<le> sn_generatedAt snap - SEAT_STATUS_CLOCK_SKEW_MS"
    by (simp add: localSeatChangeHorizon_def)
  have known: "sw_latest w st k = Some c" if "change_of (sw_state w) st k = Some c" for c
    using ok that by (auto simp: status_ok_def changes_ok_def)
  have forth: "change_of (sw_state w) st k = Some c \<or> sn_generatedAt snap > sc_at c + SEAT_STATUS_CLOCK_SKEW_MS"
    if "sw_latest w st k = Some c" for c
  proof -
    from ok assms(3) that have "change_of (sw_state w) st k = Some c \<or> gone w st c"
      unfolding status_ok_def changes_ok_def by blast
    then show ?thesis using age by (auto simp: gone_def)
  qed
  show "sn_seats (answer st snap w1) k =
      (case sw_latest w st k of None \<Rightarrow> sn_seats snap k
       | Some c \<Rightarrow> if sn_generatedAt snap > sc_at c + SEAT_STATUS_CLOCK_SKEW_MS then sn_seats snap k
           else if sc_state c = Available then None else Some (sc_state c))"
  proof (cases "change_of (sw_state w) st k")
    case None
    with forth show ?thesis unfolding look using later by (cases "sw_latest w st k") auto
  next
    case (Some c)
    with known [OF Some] h show ?thesis unfolding look using later by auto
  qed
qed

lemma demo_seat_key: "seat_key_of ''A-1'' = ''1F:A-1''"
  by (simp add: seat_key_of_def normalizeSeatIdentity_def bare_seat_def no_defaults_def clean_def splitSeatKey_def
      js_trim_printable printable_def DEFAULT_SEAT_FLOOR_KEY_def Let_def)

text \<open>All callers awaiting one computation get the same answer.\<close>

lemma joined_callers_same_answer:
  assumes "maps_ok (sw_state w)"
  shows "sn_seats (answer st snap (after_answer st snap w)) k = sn_seats (answer st snap w) k"
proof -
  note a = apply_changes [OF assms, where t = "sw_now w" and st = st and snap = snap]
  have m: "maps_ok (sw_state (after_answer st snap w))" by (simp add: after_answer_def a(1))
  have h: "localSeatChangeHorizon st (sw_now (after_answer st snap w)) g (sw_state (after_answer st snap w)) =
      localSeatChangeHorizon st (sw_now w) g (sw_state w)" for g
    by (simp add: localSeatChangeHorizon_def after_answer_def)
  have c: "change_of (sw_state (after_answer st snap w)) st k =
      (case change_of (sw_state w) st k of None \<Rightarrow> None
       | Some c \<Rightarrow> if sc_at c < localSeatChangeHorizon st (sw_now w) (Some (sn_generatedAt snap)) (sw_state w) then None else Some c)"
    using a(2) [of st k] by (cases "change_of (sw_state w) st k") (simp_all add: after_answer_def)
  show ?thesis
    unfolding answer_lookup [OF m] answer_lookup [OF assms] h c by (auto split: option.splits)
qed

lemma seat_status_shows_own_changes_witness:
  "\<exists>w w1 snap. status_reach w \<and> served ''s'' snap w w1 \<and> sn_seats snap ''1F:A-1'' = None \<and>
     sn_seats (answer ''s'' snap w1) ''1F:A-1'' = Some Locked"
proof -
  define w0 :: status_world where "w0 = \<lparr>sw_now = 1000, sw_state = \<lparr>ss_cache = [], ss_inFlight = [], ss_changes = []\<rparr>,
     sw_computing = [], sw_latest = \<lambda>_ _. None, sw_evicted = {}\<rparr>"
  define w where "w = start_load ''s'' (send_change ''s'' ''A-1'' Locked w0)"
  define snap where "snap = \<lparr>sn_generatedAt = 990, sn_seats = (\<lambda>_. None :: seat_state option)\<rparr>"
  have r0: "status_reach (send_change ''s'' ''A-1'' Locked w0)"
    unfolding w0_def by (rule status_reach.Step [OF status_reach.Init status_step.Change])
  have "status_step (send_change ''s'' ''A-1'' Locked w0) (start_load ''s'' ((send_change ''s'' ''A-1'' Locked w0)\<lparr>sw_state := sw_state (send_change ''s'' ''A-1'' Locked w0)\<rparr>))"
    by (rule status_step.Miss) (simp_all add: readLocalSeatStatus_def w0_def send_change_def recordSeatStatusChange_def
        pruneLocalSeatChanges_def SEAT_STATUS_LOCAL_CACHE_MAX_ENTRIES_def Let_def)
  then have r: "status_reach w" unfolding w_def using status_reach.Step [OF r0] by simp
  have s: "served ''s'' snap w (finish_load ''s'' snap w)"
    by (rule served.Shared)
      (simp_all add: w_def start_load_def send_change_def w0_def snap_def shared_usable_def SEAT_STATUS_CACHE_TTL_MS_def)
  have e: "''s'' \<notin> sw_evicted w"
    by (simp add: w_def start_load_def send_change_def w0_def drop_stale_showtimes_def)
  have l: "sw_latest w ''s'' ''1F:A-1'' = Some \<lparr>sc_state = Locked, sc_at = 1000\<rparr>"
    by (simp add: w_def start_load_def send_change_def w0_def demo_seat_key)
  have "sn_seats (answer ''s'' snap (finish_load ''s'' snap w)) ''1F:A-1'' = Some Locked"
    using seat_status_shows_own_changes [OF r s e, of "''1F:A-1''"] unfolding l
    by (simp add: snap_def SEAT_STATUS_CLOCK_SKEW_MS_def)
  with r s show ?thesis by (intro exI [of _ w] exI [of _ "finish_load ''s'' snap w"] exI [of _ snap]) (simp add: snap_def)
qed

end
