(* ===== verification/AdminAccess.thy ===== *)
theory AdminAccess
  imports Prelude
begin

text \<open>
  Who may skip the sale gates: the admin capability snapshot of
  \<open>packages/shared/src/types/admin-operations.types.ts\<close> with the capability lists of
  \<open>schemas/admin-operations.schema.ts\<close>, \<open>apps/api/src/common/admin-booking-bypass.ts\<close>, the flag parser of
  \<open>packages/shared/src/flags.ts\<close> and \<open>FeatureFlagsService\<close>. Capabilities and bundles are the source's
  strings; a claim of the token may be absent (\<open>undefined\<close>), \<open>null\<close> or a value.
\<close>

datatype 'a js_claim = Undefined | Null | Value 'a

definition ADMIN_CAPABILITIES :: "js_string list" where
  "ADMIN_CAPABILITIES =
     [''event.write'', ''event.publish'', ''support.manage'', ''support.escalate'', ''reservations.export_raw'',
      ''reservations.read'', ''refund.admin_refund'', ''seat.disable'', ''seat.reactivate'', ''seat.manual_open'',
      ''banner.manage'', ''audit.read'', ''security.manage'', ''field.scan.verify'', ''field.scan.consume'',
      ''field.scan.sync'', ''field.benefits.redeem'', ''settlement.export'', ''benefits.manage'', ''benefits.export'']"

definition ADMIN_CAPABILITY_BUNDLES :: "js_string list" where
  "ADMIN_CAPABILITY_BUNDLES = [''operator'', ''reviewer'', ''approver'', ''finance'', ''scanner'', ''admin'']"

definition ADMIN_CAPABILITY_BUNDLE_CAPABILITIES :: "js_string \<Rightarrow> js_string list" where
  "ADMIN_CAPABILITY_BUNDLE_CAPABILITIES bundle =
     (if bundle = ''operator'' then
        [''reservations.read'', ''event.write'', ''support.manage'', ''support.escalate'', ''seat.disable'',
         ''seat.reactivate'', ''seat.manual_open'', ''banner.manage'']
      else if bundle = ''reviewer'' then
        [''reservations.read'', ''event.write'', ''support.manage'', ''support.escalate'', ''audit.read'']
      else if bundle = ''approver'' then
        [''reservations.read'', ''event.write'', ''event.publish'', ''banner.manage'', ''audit.read'']
      else if bundle = ''finance'' then
        [''reservations.read'', ''reservations.export_raw'', ''settlement.export'', ''audit.read'']
      else if bundle = ''scanner'' then
        [''field.scan.verify'', ''field.scan.consume'', ''field.scan.sync'', ''field.benefits.redeem'']
      else if bundle = ''admin'' then ADMIN_CAPABILITIES else [])"

record capability_user =
  cu_role :: "js_string option"
  cu_adminCapabilityBundle :: "js_string js_claim"
  cu_adminCapabilities :: "js_string list option"

record capability_snapshot =
  sn_bundle :: "js_string option"
  sn_capabilities :: "js_string list"
  sn_superuser :: bool

definition no_capability :: capability_snapshot where
  "no_capability = \<lparr>sn_bundle = None, sn_capabilities = [], sn_superuser = False\<rparr>"

definition full_admin :: capability_snapshot where
  "full_admin = \<lparr>sn_bundle = Some ''admin'', sn_capabilities = ADMIN_CAPABILITIES, sn_superuser = True\<rparr>"

definition parseAdminCapabilityBundle :: "js_string js_claim \<Rightarrow> js_string option" where
  "parseAdminCapabilityBundle bundle =
     (case bundle of Value b \<Rightarrow> if b \<in> set ADMIN_CAPABILITY_BUNDLES then Some b else None | _ \<Rightarrow> None)"

definition normalizeAdminCapabilities :: "js_string list \<Rightarrow> js_string list" where
  "normalizeAdminCapabilities capabilities = filter (\<lambda>c. c \<in> set capabilities) ADMIN_CAPABILITIES"

definition isFixtureBundleRole :: "js_string option \<Rightarrow> bool" where
  "isFixtureBundleRole role =
     (case role of None \<Rightarrow> False
      | Some r \<Rightarrow> r \<in> {''operator'', ''reviewer'', ''approver'', ''finance'', ''scanner''})"

definition resolveAdminCapabilitySnapshot :: "capability_user option \<Rightarrow> capability_snapshot" where
  "resolveAdminCapabilitySnapshot user =
     (case user of None \<Rightarrow> no_capability
      | Some u \<Rightarrow>
        let bundle = parseAdminCapabilityBundle (cu_adminCapabilityBundle u);
            stored = normalizeAdminCapabilities (or_else (cu_adminCapabilities u) [])
        in if bundle = Some ''admin'' then full_admin
           else (case bundle of
               Some b \<Rightarrow> \<lparr>sn_bundle = Some b,
                 sn_capabilities = (if length stored > 0 then stored else ADMIN_CAPABILITY_BUNDLE_CAPABILITIES b),
                 sn_superuser = False\<rparr>
             | None \<Rightarrow>
                 if length stored > 0 then \<lparr>sn_bundle = None, sn_capabilities = stored, sn_superuser = False\<rparr>
                 else if (case cu_adminCapabilityBundle u of Value b \<Rightarrow> js_trim b \<noteq> [] | _ \<Rightarrow> False) then no_capability
                 else if cu_role u = Some ''admin'' then full_admin
                 else (case cu_role u of
                     Some r \<Rightarrow> if isFixtureBundleRole (Some r)
                       then \<lparr>sn_bundle = Some r, sn_capabilities = ADMIN_CAPABILITY_BUNDLE_CAPABILITIES r, sn_superuser = False\<rparr>
                       else no_capability
                   | None \<Rightarrow> no_capability)))"

definition hasAdminCapability :: "capability_user option \<Rightarrow> js_string \<Rightarrow> bool" where
  "hasAdminCapability user capability \<longleftrightarrow> capability \<in> set (sn_capabilities (resolveAdminCapabilitySnapshot user))"

text \<open>\<open>None\<close> for \<open>cu_adminCapabilities\<close> covers every claim that is not an array.\<close>

definition canUseAdminBookingBypass :: "capability_user option \<Rightarrow> bool" where
  "canUseAdminBookingBypass actor =
     (case actor of None \<Rightarrow> False
      | Some a \<Rightarrow>
          if cu_role a \<noteq> Some ''admin'' then False
          else if cu_adminCapabilityBundle a = Undefined \<or> cu_adminCapabilities a = None then False
          else sn_superuser (resolveAdminCapabilitySnapshot (Some a)))"

section \<open>Feature flags\<close>

definition parseBooleanFlag :: "js_string option \<Rightarrow> bool \<Rightarrow> bool" where
  "parseBooleanFlag v defaultValue =
     (case v of None \<Rightarrow> defaultValue
      | Some s \<Rightarrow>
          let normalized = js_lower (js_trim s)
          in if normalized \<in> {''true'', ''1'', ''yes'', ''on''} then True
             else if normalized \<in> {''false'', ''0'', ''no'', ''off'', ''''} then False
             else defaultValue)"

definition readFeatureFlags :: "(js_string \<Rightarrow> js_string option) \<Rightarrow> bool" where
  "readFeatureFlags env = parseBooleanFlag (env ''BOOKING_ENABLED'') False"

definition assertBookingEnabled :: "(js_string \<Rightarrow> js_string option) \<Rightarrow> capability_user option \<Rightarrow> js_string + unit" where
  "assertBookingEnabled env actor =
     (if readFeatureFlags env \<or> canUseAdminBookingBypass actor then Inr () else Inl ''BOOKING_NOT_OPEN'')"

section \<open>Lemmas\<close>

lemma snapshot_capabilities_known:
  "set (sn_capabilities (resolveAdminCapabilitySnapshot u)) \<subseteq> set ADMIN_CAPABILITIES"
proof -
  have b: "set (ADMIN_CAPABILITY_BUNDLE_CAPABILITIES b) \<subseteq> set ADMIN_CAPABILITIES" for b
    unfolding ADMIN_CAPABILITY_BUNDLE_CAPABILITIES_def by (cases "b = ''admin''") (simp, simp add: ADMIN_CAPABILITIES_def)
  have n: "set (normalizeAdminCapabilities cs) \<subseteq> set ADMIN_CAPABILITIES" for cs
    by (auto simp: normalizeAdminCapabilities_def)
  from b n show ?thesis
    by (simp add: resolveAdminCapabilitySnapshot_def no_capability_def full_admin_def Let_def split: option.split js_claim.split)
qed

lemma superuser_iff:
  "sn_superuser (resolveAdminCapabilitySnapshot (Some u)) \<longleftrightarrow>
     cu_adminCapabilityBundle u = Value ''admin'' \<or>
     cu_role u = Some ''admin'' \<and>
     (cu_adminCapabilityBundle u \<in> {Undefined, Null} \<or> (\<exists>b. cu_adminCapabilityBundle u = Value b \<and> js_trim b = [])) \<and>
     normalizeAdminCapabilities (or_else (cu_adminCapabilities u) []) = []"
proof -
  have blank: "b \<notin> set ADMIN_CAPABILITY_BUNDLES" if "js_trim b = []" for b
  proof
    assume "b \<in> set ADMIN_CAPABILITY_BUNDLES"
    then have "printable b \<and> b \<noteq> []" by (auto simp: ADMIN_CAPABILITY_BUNDLES_def printable_def)
    with that show False by (simp add: js_trim_printable)
  qed
  have a: "''admin'' \<in> set ADMIN_CAPABILITY_BUNDLES" by (simp add: ADMIN_CAPABILITY_BUNDLES_def)
  show ?thesis
    by (cases "cu_adminCapabilityBundle u")
      (auto simp: resolveAdminCapabilitySnapshot_def parseAdminCapabilityBundle_def no_capability_def full_admin_def
         Let_def a dest: blank split: option.splits)
qed

text \<open>The bypass fails closed: it needs the admin role, both claims, and full capabilities.\<close>

lemma bypass_needs_full_admin:
  assumes "canUseAdminBookingBypass (Some u)"
  shows "cu_role u = Some ''admin'' \<and> cu_adminCapabilityBundle u \<noteq> Undefined \<and> cu_adminCapabilities u \<noteq> None \<and>
    sn_capabilities (resolveAdminCapabilitySnapshot (Some u)) = ADMIN_CAPABILITIES \<and>
    (\<forall>b. cu_adminCapabilityBundle u = Value b \<longrightarrow> b = ''admin'' \<or> js_trim b = [])"
proof -
  from assms have s: "sn_superuser (resolveAdminCapabilitySnapshot (Some u))" and
    c: "cu_role u = Some ''admin''" "cu_adminCapabilityBundle u \<noteq> Undefined" "cu_adminCapabilities u \<noteq> None"
    by (auto simp: canUseAdminBookingBypass_def split: if_splits)
  from s have "sn_capabilities (resolveAdminCapabilitySnapshot (Some u)) = ADMIN_CAPABILITIES"
    by (auto simp: resolveAdminCapabilitySnapshot_def no_capability_def full_admin_def Let_def split: option.splits if_splits)
  with c s show ?thesis by (auto simp: superuser_iff)
qed

lemma restricted_bundle_no_bypass:
  "cu_adminCapabilityBundle u = Value b \<Longrightarrow> b \<in> {''operator'', ''reviewer'', ''approver'', ''finance'', ''scanner''} \<Longrightarrow>
     \<not> canUseAdminBookingBypass (Some u)"
  using bypass_needs_full_admin [of u] by (auto simp: js_trim_printable printable_def)

end
