(* ===== verification/ShowtimeSales.thy ===== *)
theory ShowtimeSales
  imports Prelude
begin

text \<open>
  The sales cutoff of \<open>apps/api/src/modules/booking/showtime-sales-cutoff.ts\<close> and the booking start of
  the booking and queue services. A \<open>Date\<close> is its time in milliseconds; \<open>None\<close> stands for null,
  undefined and an invalid date, which the code treats alike.
\<close>

definition isShowtimeSalesClosed :: "int option \<Rightarrow> int \<Rightarrow> bool" where
  "isShowtimeSalesClosed startsAt t = (case startsAt of None \<Rightarrow> True | Some ms \<Rightarrow> t \<ge> ms)"

definition showtimeOnSaleCondition :: "int option \<Rightarrow> int \<Rightarrow> bool" where
  "showtimeOnSaleCondition dateTime t = (case dateTime of None \<Rightarrow> False | Some ms \<Rightarrow> ms > t)"

definition assertShowtimeSalesOpen :: "int option \<Rightarrow> int \<Rightarrow> js_string + unit" where
  "assertShowtimeSalesOpen startsAt t =
     (if isShowtimeSalesClosed startsAt t then Inl ''SHOWTIME_STARTED'' else Inr ())"

definition isBookingStartReached :: "int option \<Rightarrow> int \<Rightarrow> bool" where
  "isBookingStartReached v t = (case v of None \<Rightarrow> False | Some ms \<Rightarrow> ms \<le> t)"

lemma on_sale_iff_open: "showtimeOnSaleCondition d t \<longleftrightarrow> \<not> isShowtimeSalesClosed d t"
  by (auto simp: showtimeOnSaleCondition_def isShowtimeSalesClosed_def split: option.splits)

lemma sales_stay_closed: "isShowtimeSalesClosed d t \<Longrightarrow> t \<le> t' \<Longrightarrow> isShowtimeSalesClosed d t'"
  by (auto simp: isShowtimeSalesClosed_def split: option.splits)

lemma booking_stays_open: "isBookingStartReached d t \<Longrightarrow> t \<le> t' \<Longrightarrow> isBookingStartReached d t'"
  by (auto simp: isBookingStartReached_def split: option.splits)

end
