(* ===== verification/BookingService.thy ===== *)
theory BookingService
  imports SeatSpec SeatStatus AdminAccess ShowtimeSales
begin

text \<open>
  The public calls of \<open>BookingService\<close> (\<open>apps/api/src/modules/booking/booking.service.ts\<close>): the gates of
  \<open>lockSeat\<close>, unlocking, the checks of payment on owned locks, the confirm lease, \<open>getMyLocks\<close>, and
  \<open>computeSeatStatus\<close>, over the scripts of \<open>SeatLocks\<close>, the local seat changes of \<open>SeatStatus\<close>, the flags and the
  bypass of \<open>AdminAccess\<close>. The database is the rows its queries read; a stored date is never
  invalid. The ticket count is the one of \<open>TicketLimit\<close>, given per user and performance. Messages
  are the constructors of \<open>booking_error\<close>.
\<close>

section \<open>Rows, actors and errors\<close>

record sale_row =
  sr_performanceStatus :: js_string
  sr_publishState :: js_string
  sr_bookingStartsAt :: "int option"
  sr_dateTime :: "int option"

record inventory_row =
  iv_showtimeId :: js_string
  iv_floorKey :: js_string
  iv_seatKey :: "js_string option"
  iv_seatId :: js_string
  iv_status :: js_string

record policy_row =
  pl_performanceId :: js_string
  pl_maxTicketsPerUser :: "int option"
  pl_seatHoldMinutes :: "int option"

record pending_order_row =
  od_userId :: js_string
  od_showtimeId :: js_string
  od_status :: js_string
  od_paymentDeadlineAt :: "int option"
  od_admissionActiveUntilAt :: "int option"
  od_seatIds :: "js_string list"

record booking_db =
  bd_env :: "js_string \<Rightarrow> js_string option"
  bd_sales :: "js_string \<Rightarrow> sale_row option"
  bd_seatMaps :: "js_string \<Rightarrow> js_string \<Rightarrow> js_string list list option"
  bd_inventory :: "inventory_row list"
  bd_policies :: "js_string \<Rightarrow> policy_row option"
  bd_orders :: "pending_order_row list"
  bd_activeTickets :: "js_string \<Rightarrow> js_string \<Rightarrow> int"

record booking_actor = capability_user +
  ba_id :: js_string
  ba_isEmailVerified :: bool
  ba_isPhoneVerified :: bool

datatype booking_error =
    BookingNotOpen | VerificationRequired | BookingEnded | ShowtimeStarted | InvalidSeat
  | RefundPending | SeatStopped | SeatSold | MaxTickets int | MaxSeats int | SeatTaken
  | LockExpired | LockOtherOwner

record runtime_seat =
  rt_seatId :: js_string
  rt_floorKey :: js_string
  rt_seatKey :: js_string
  rt_runtimeSeatId :: js_string

definition parseRuntimeSeatIdentity :: "js_string \<Rightarrow> runtime_seat" where
  "parseRuntimeSeatIdentity raw =
     (let i = normalizeSeatIdentity (bare_seat raw) no_defaults
      in \<lparr>rt_seatId = seatId i, rt_floorKey = floorKey i, rt_seatKey = seatKey i,
          rt_runtimeSeatId = encodeSeatRuntimeId (seatKey i)\<rparr>)"

abbreviation runtime_id :: "js_string \<Rightarrow> js_string" where
  "runtime_id raw \<equiv> rt_runtimeSeatId (parseRuntimeSeatIdentity raw)"

section \<open>Gates\<close>

definition assertBookingVerificationComplete :: "booking_actor \<Rightarrow> booking_error option" where
  "assertBookingVerificationComplete a =
     (if \<not> ba_isEmailVerified a \<or> \<not> ba_isPhoneVerified a then Some VerificationRequired else None)"

definition seatMapHasSeatId :: "js_string list list option \<Rightarrow> js_string \<Rightarrow> bool" where
  "seatMapHasSeatId tiers sid = (case tiers of None \<Rightarrow> False | Some ts \<Rightarrow> list_ex (\<lambda>seatIds. sid \<in> set seatIds) ts)"

definition assertShowtimeBookingOpen :: "booking_db \<Rightarrow> int \<Rightarrow> js_string \<Rightarrow> booking_actor \<Rightarrow> booking_error option" where
  "assertShowtimeBookingOpen db t showtimeId a =
     (let row = bd_sales db showtimeId
      in if map_option sr_performanceStatus row = Some ''ended'' then Some BookingEnded
         else if (case row of None \<Rightarrow> False | Some r \<Rightarrow> isShowtimeSalesClosed (sr_dateTime r) t) then Some ShowtimeStarted
         else if canUseAdminBookingBypass (Some (capability_user.truncate a)) then None
         else (case row of
             None \<Rightarrow> Some BookingNotOpen
           | Some r \<Rightarrow>
               if sr_publishState r \<noteq> ''published'' then Some BookingNotOpen
               else if sr_bookingStartsAt r \<noteq> None \<and> \<not> isBookingStartReached (sr_bookingStartsAt r) t then Some BookingNotOpen
               else if sr_performanceStatus r = ''upcoming'' \<and> \<not> isBookingStartReached (sr_bookingStartsAt r) t
                 then Some BookingNotOpen
               else None))"

text \<open>\<open>createUnavailableSeatReader\<close>: the first record of the seat that takes it off sale.\<close>

definition unavailableSeat :: "booking_db \<Rightarrow> js_string \<Rightarrow> runtime_seat \<Rightarrow> inventory_row option" where
  "unavailableSeat db showtimeId i =
     List.find (\<lambda>r. iv_showtimeId r = showtimeId \<and> iv_floorKey r = rt_floorKey i
        \<and> (iv_seatKey r = Some (rt_seatKey i) \<or> iv_seatKey r = None \<and> iv_seatId r = rt_seatId i)
        \<and> iv_status r \<in> {''sold'', ''held_cancelled'', ''disabled''}) (bd_inventory db)"

definition unavailable_error :: "inventory_row \<Rightarrow> booking_error" where
  "unavailable_error r =
     (if iv_status r = ''held_cancelled'' then RefundPending
      else if iv_status r = ''disabled'' then SeatStopped else SeatSold)"

record lock_policy =
  lp_performanceId :: "js_string option"
  lp_maxTicketsPerUser :: int
  lp_lockTtlSeconds :: int

definition DEFAULT_MAX_TICKETS :: int where "DEFAULT_MAX_TICKETS = 1"
definition DEFAULT_SEAT_HOLD_MINUTES :: int where "DEFAULT_SEAT_HOLD_MINUTES = 10"
definition DEFAULT_LOCK_TTL_SECONDS :: int where "DEFAULT_LOCK_TTL_SECONDS = DEFAULT_SEAT_HOLD_MINUTES * 60"

definition loadSeatLockPolicy :: "booking_db \<Rightarrow> js_string \<Rightarrow> lock_policy" where
  "loadSeatLockPolicy db showtimeId =
     (let row = bd_policies db showtimeId;
          seatHoldMinutes = or_else (Option.bind row pl_seatHoldMinutes) DEFAULT_SEAT_HOLD_MINUTES
      in \<lparr>lp_performanceId = map_option pl_performanceId row,
          lp_maxTicketsPerUser = or_else (Option.bind row pl_maxTicketsPerUser) DEFAULT_MAX_TICKETS,
          lp_lockTtlSeconds = (if seatHoldMinutes * 60 \<noteq> 0 then seatHoldMinutes * 60 else DEFAULT_LOCK_TTL_SECONDS)\<rparr>)"

section \<open>Seat changes and broadcasts\<close>

record 's booking =
  bk_redis :: 's
  bk_status :: status_state
  bk_sent :: "(js_string \<times> js_string \<times> js_string \<times> seat_state) list"

definition seatUpdateEventNames :: "seat_state \<Rightarrow> js_string list" where
  "seatUpdateEventNames state = (if state = Locked then [''seat-update.v2''] else [''seat-update.v2'', ''seat-update''])"

text \<open>\<open>publishSeatUpdate\<close> tells its listener, which is \<open>recordSeatStatusChange\<close>, and emits the events to the room.\<close>

definition broadcastSeatUpdate :: "int \<Rightarrow> js_string \<Rightarrow> js_string \<Rightarrow> seat_state \<Rightarrow> 's booking \<Rightarrow> 's booking" where
  "broadcastSeatUpdate t showtimeId sid state b =
     b\<lparr>bk_status := recordSeatStatusChange t showtimeId sid state (bk_status b),
       bk_sent := bk_sent b @ map (\<lambda>e. (e, ''showtime:'' @ showtimeId, sid, state)) (seatUpdateEventNames state)\<rparr>"

definition change_seat :: "int \<Rightarrow> js_string \<Rightarrow> js_string \<Rightarrow> seat_state \<Rightarrow> 's booking \<Rightarrow> 's booking" where
  "change_seat t showtimeId sid state b =
     broadcastSeatUpdate t showtimeId sid state (b\<lparr>bk_status := recordSeatStatusChange t showtimeId sid state (bk_status b)\<rparr>)"

section \<open>Locking\<close>

record lock_response =
  lr_lockId :: js_string
  lr_seatId :: js_string
  lr_seatKey :: js_string
  lr_floorKey :: js_string
  lr_expiresAt :: int

text \<open>The checks before the script, in the order of the code.\<close>

definition lock_gates :: "booking_db \<Rightarrow> int \<Rightarrow> booking_actor \<Rightarrow> js_string \<Rightarrow> js_string \<Rightarrow> booking_error option" where
  "lock_gates db t a showtimeId sid =
     (if assertBookingEnabled (bd_env db) (Some (capability_user.truncate a)) \<noteq> Inr () then Some BookingNotOpen
      else case assertBookingVerificationComplete a of Some e \<Rightarrow> Some e
      | None \<Rightarrow> (case assertShowtimeBookingOpen db t showtimeId a of Some e \<Rightarrow> Some e
      | None \<Rightarrow>
          let i = parseRuntimeSeatIdentity sid
          in if \<not> seatMapHasSeatId (bd_seatMaps db showtimeId (rt_floorKey i)) (rt_seatId i) then Some InvalidSeat
             else map_option unavailable_error (unavailableSeat db showtimeId i)))"

definition active_count :: "booking_db \<Rightarrow> booking_actor \<Rightarrow> js_string \<Rightarrow> int" where
  "active_count db a st = (case lp_performanceId (loadSeatLockPolicy db st) of None \<Rightarrow> 0
     | Some p \<Rightarrow> if p \<noteq> [] then bd_activeTickets db (ba_id a) p else 0)"

definition lockSeat ::
  "'s redis \<Rightarrow> booking_db \<Rightarrow> int \<Rightarrow> booking_actor \<Rightarrow> js_string \<Rightarrow> js_string \<Rightarrow> 's booking
     \<Rightarrow> (booking_error + lock_response) \<times> 's booking" where
  "lockSeat R db t a showtimeId sid b =
     (case lock_gates db t a showtimeId sid of Some e \<Rightarrow> (Inl e, b)
      | None \<Rightarrow>
        let i = parseRuntimeSeatIdentity sid;
            policy = loadSeatLockPolicy db showtimeId;
            activeTicketCount = active_count db a showtimeId;
            maxLockableSeats = lp_maxTicketsPerUser policy - activeTicketCount
        in if maxLockableSeats \<le> 0 then (Inl (MaxTickets (lp_maxTicketsPerUser policy)), b)
           else case lock_seat R showtimeId (ba_id a) (lp_lockTtlSeconds policy) maxLockableSeats (rt_runtimeSeatId i) (bk_redis b) of
             (Refused reason, s) \<Rightarrow>
               (Inl (if reason = ''MAX_SEATS''
                     then (if activeTicketCount > 0 then MaxTickets (lp_maxTicketsPerUser policy)
                           else MaxSeats (lp_maxTicketsPerUser policy))
                     else SeatTaken), b\<lparr>bk_redis := s\<rparr>)
           | (Granted lockKey x luaTtl, s) \<Rightarrow>
               (Inr \<lparr>lr_lockId = lockKey, lr_seatId = sid, lr_seatKey = rt_seatKey i, lr_floorKey = rt_floorKey i,
                     lr_expiresAt = t + (if luaTtl > 0 then luaTtl else lp_lockTtlSeconds policy) * 1000\<rparr>,
                change_seat t showtimeId sid Locked (b\<lparr>bk_redis := s\<rparr>)))"

section \<open>Unlocking\<close>

definition date_reached :: "int option \<Rightarrow> int \<Rightarrow> bool" where
  "date_reached d t = (case d of None \<Rightarrow> False | Some v \<Rightarrow> v \<ge> t)"

definition findPendingPaymentRuntimeSeatIds :: "booking_db \<Rightarrow> int \<Rightarrow> js_string \<Rightarrow> js_string \<Rightarrow> js_string list" where
  "findPendingPaymentRuntimeSeatIds db t userId showtimeId =
     map runtime_id (concat (map od_seatIds
       (filter (\<lambda>o'. od_userId o' = userId \<and> od_showtimeId o' = showtimeId \<and> od_status o' = ''PENDING_PAYMENT''
          \<and> (date_reached (od_paymentDeadlineAt o') t \<or> date_reached (od_admissionActiveUntilAt o') t)) (bd_orders db))))"

definition unlockOwnedSeat :: "'s redis \<Rightarrow> int \<Rightarrow> js_string \<Rightarrow> js_string \<Rightarrow> js_string \<Rightarrow> 's booking \<Rightarrow> bool \<times> 's booking" where
  "unlockOwnedSeat R t userId showtimeId sid b =
     (case unlock_seat R showtimeId userId (runtime_id sid) (bk_redis b) of
        (False, s) \<Rightarrow> (False, b\<lparr>bk_redis := s\<rparr>)
      | (True, s) \<Rightarrow> (True, change_seat t showtimeId sid Available (b\<lparr>bk_redis := s\<rparr>)))"

definition unlockSeat :: "'s redis \<Rightarrow> booking_db \<Rightarrow> int \<Rightarrow> js_string \<Rightarrow> js_string \<Rightarrow> js_string \<Rightarrow> 's booking \<Rightarrow> bool \<times> 's booking" where
  "unlockSeat R db t userId showtimeId sid b =
     (if runtime_id sid \<in> set (findPendingPaymentRuntimeSeatIds db t userId showtimeId) then (False, b)
      else unlockOwnedSeat R t userId showtimeId sid b)"

text \<open>\<open>None\<close> is the \<open>URIError\<close> of a member that is no runtime id; what was released before it stays released.\<close>

fun unlock_members ::
  "'s redis \<Rightarrow> int \<Rightarrow> js_string \<Rightarrow> js_string \<Rightarrow> js_string list \<Rightarrow> js_string list \<Rightarrow> 's booking \<Rightarrow> js_string list option \<times> 's booking" where
  "unlock_members R t userId showtimeId pending [] b = (Some [], b)"
| "unlock_members R t userId showtimeId pending (m # ms) b =
     (case decodeSeatRuntimeId m of
        None \<Rightarrow> (None, b)
      | Some sid \<Rightarrow>
          if runtime_id sid \<in> set pending then unlock_members R t userId showtimeId pending ms b
          else
            let (released, b1) = unlockOwnedSeat R t userId showtimeId sid b;
                (rest, b2) = unlock_members R t userId showtimeId pending ms b1
            in (map_option (\<lambda>xs. if released then sid # xs else xs) rest, b2))"

definition unlockAllSeats :: "'s redis \<Rightarrow> booking_db \<Rightarrow> int \<Rightarrow> js_string \<Rightarrow> js_string \<Rightarrow> 's booking \<Rightarrow> js_string list option \<times> 's booking" where
  "unlockAllSeats R db t userId showtimeId b =
     (let members = SMEMBERS R (bk_redis b) (user_seats_key showtimeId userId)
      in if members = [] then (Some [], b)
         else unlock_members R t userId showtimeId (findPendingPaymentRuntimeSeatIds db t userId showtimeId) members b)"

section \<open>Owned locks at payment\<close>

definition lockConflictFromResult :: "ownership_reply \<Rightarrow> booking_error option" where
  "lockConflictFromResult r =
     (case r of OwnOk n \<Rightarrow> None
      | OwnFail reason x owner \<Rightarrow> Some (if reason = ''OTHER_OWNER'' then LockOtherOwner else LockExpired))"

fun assertNoUnavailableSeatRecords :: "booking_db \<Rightarrow> js_string \<Rightarrow> js_string list \<Rightarrow> booking_error option" where
  "assertNoUnavailableSeatRecords db showtimeId [] = None"
| "assertNoUnavailableSeatRecords db showtimeId (x # xs) =
     (case unavailableSeat db showtimeId (parseRuntimeSeatIdentity x) of
        None \<Rightarrow> assertNoUnavailableSeatRecords db showtimeId xs
      | Some r \<Rightarrow> Some (unavailable_error r))"

definition assertOwnedSeatLocks :: "'s redis \<Rightarrow> booking_db \<Rightarrow> js_string \<Rightarrow> js_string \<Rightarrow> js_string list \<Rightarrow> 's \<Rightarrow> booking_error option" where
  "assertOwnedSeatLocks R db userId showtimeId seatIds s =
     (case assertNoUnavailableSeatRecords db showtimeId seatIds of Some e \<Rightarrow> Some e
      | None \<Rightarrow> lockConflictFromResult
          (assert_owned_seat_locks_lua R userId (seat_pairs showtimeId (map runtime_id seatIds)) s))"

definition consumeOwnedSeatLocks ::
  "'s redis \<Rightarrow> booking_db \<Rightarrow> bool \<Rightarrow> js_string \<Rightarrow> js_string \<Rightarrow> js_string list \<Rightarrow> 's \<Rightarrow> (booking_error + js_string list) \<times> 's" where
  "consumeOwnedSeatLocks R db skipUnavailableCheck userId showtimeId seatIds s =
     (case (if skipUnavailableCheck then None else assertNoUnavailableSeatRecords db showtimeId seatIds) of
        Some e \<Rightarrow> (Inl e, s)
      | None \<Rightarrow>
          let (r, s') = consume_seats R showtimeId userId (map runtime_id seatIds) s
          in (case lockConflictFromResult r of Some e \<Rightarrow> Inl e | None \<Rightarrow> Inr seatIds, s'))"

definition updateOwnedSeatLockTtl ::
  "'s redis \<Rightarrow> booking_db \<Rightarrow> ttl_mode \<Rightarrow> js_string \<Rightarrow> js_string \<Rightarrow> js_string list \<Rightarrow> int \<Rightarrow> 's \<Rightarrow> booking_error option \<times> 's" where
  "updateOwnedSeatLockTtl R db mode userId showtimeId seatIds ttlSeconds s =
     (case assertNoUnavailableSeatRecords db showtimeId seatIds of Some e \<Rightarrow> (Some e, s)
      | None \<Rightarrow>
          let (r, s') = extend_seats R showtimeId userId ttlSeconds mode (map runtime_id seatIds) s
          in (lockConflictFromResult r, s'))"

definition extendOwnedSeatLocks ::
  "'s redis \<Rightarrow> booking_db \<Rightarrow> js_string \<Rightarrow> js_string \<Rightarrow> js_string list \<Rightarrow> int \<Rightarrow> 's \<Rightarrow> booking_error option \<times> 's" where
  "extendOwnedSeatLocks R db = updateOwnedSeatLockTtl R db Extend"

definition setOwnedSeatLockTtl ::
  "'s redis \<Rightarrow> booking_db \<Rightarrow> js_string \<Rightarrow> js_string \<Rightarrow> js_string list \<Rightarrow> int \<Rightarrow> 's \<Rightarrow> booking_error option \<times> 's" where
  "setOwnedSeatLockTtl R db = updateOwnedSeatLockTtl R db Exact"

section \<open>The confirm lease\<close>

definition PAYMENT_CONFIRM_LOCK_TTL :: int where "PAYMENT_CONFIRM_LOCK_TTL = 60"
definition PAYMENT_CONFIRM_ATTEMPT_MARKER_TTL :: int where "PAYMENT_CONFIRM_ATTEMPT_MARKER_TTL = 30 * 60"

definition payment_confirm_key :: "js_string \<Rightarrow> js_string" where
  "payment_confirm_key orderId = ''{payment-confirm}:'' @ orderId"

definition confirm_attempt_key :: "js_string \<Rightarrow> js_string" where
  "confirm_attempt_key orderId = ''{payment-confirm-attempt}:'' @ orderId"

definition acquirePaymentConfirmLock :: "'s redis \<Rightarrow> js_string \<Rightarrow> js_string \<Rightarrow> 's \<Rightarrow> bool \<times> 's" where
  "acquirePaymentConfirmLock R orderId lockToken s = SET_NX_EX R (payment_confirm_key orderId) lockToken PAYMENT_CONFIRM_LOCK_TTL s"

definition refreshPaymentConfirmLock :: "'s redis \<Rightarrow> js_string \<Rightarrow> js_string \<Rightarrow> int \<Rightarrow> 's \<Rightarrow> bool \<times> 's" where
  "refreshPaymentConfirmLock R orderId lockToken ttlSeconds s =
     refresh_payment_confirm_lock_lua R (payment_confirm_key orderId) lockToken ttlSeconds s"

definition releasePaymentConfirmLock :: "'s redis \<Rightarrow> js_string \<Rightarrow> js_string \<Rightarrow> 's \<Rightarrow> 's" where
  "releasePaymentConfirmLock R orderId lockToken s =
     snd (release_payment_confirm_lock_lua R (payment_confirm_key orderId) lockToken s)"

definition markPaymentConfirmAttempted :: "'s redis \<Rightarrow> js_string \<Rightarrow> 's \<Rightarrow> 's" where
  "markPaymentConfirmAttempted R orderId s = SET_EX R (confirm_attempt_key orderId) ''1'' PAYMENT_CONFIRM_ATTEMPT_MARKER_TTL s"

definition hasPaymentConfirmAttempt :: "'s redis \<Rightarrow> js_string \<Rightarrow> 's \<Rightarrow> bool" where
  "hasPaymentConfirmAttempt R orderId s \<longleftrightarrow> GET R s (confirm_attempt_key orderId) \<noteq> None"

section \<open>Reading locks\<close>

fun collect_locks :: "'s redis \<Rightarrow> int \<Rightarrow> js_string \<Rightarrow> js_string \<Rightarrow> 's \<Rightarrow> js_string list \<Rightarrow> int option \<Rightarrow> (js_string list \<times> int option) option" where
  "collect_locks R t userId showtimeId s [] expiresAt = Some ([], expiresAt)"
| "collect_locks R t userId showtimeId s (m # ms) expiresAt =
     (if GET R s (seat_lock_key showtimeId m) = Some userId then
        (case decodeSeatRuntimeId m of None \<Rightarrow> None
         | Some sid \<Rightarrow>
             let remainingTtl = TTL R s (seat_lock_key showtimeId m);
                 seatExpiresAt = t + remainingTtl * 1000;
                 expiresAt' = (if remainingTtl > 0
                   then (case expiresAt of None \<Rightarrow> Some seatExpiresAt | Some e \<Rightarrow> Some (min e seatExpiresAt)) else expiresAt)
             in map_option (\<lambda>(xs, e). (sid # xs, e)) (collect_locks R t userId showtimeId s ms expiresAt'))
      else collect_locks R t userId showtimeId s ms expiresAt)"

definition getMyLocks :: "'s redis \<Rightarrow> int \<Rightarrow> js_string \<Rightarrow> js_string \<Rightarrow> 's \<Rightarrow> (js_string list \<times> int option) option" where
  "getMyLocks R t userId showtimeId s =
     (let userSeats = SMEMBERS R s (user_seats_key showtimeId userId)
      in if userSeats = [] then Some ([], None) else collect_locks R t userId showtimeId s userSeats None)"

fun put_locked :: "js_string list \<Rightarrow> (js_string \<Rightarrow> seat_state option) \<Rightarrow> (js_string \<Rightarrow> seat_state option) option" where
  "put_locked [] seats = Some seats"
| "put_locked (m # ms) seats =
     (case decodeSeatRuntimeId m of None \<Rightarrow> None | Some k \<Rightarrow> put_locked ms (seats(k \<mapsto> Locked)))"

definition sold_seat_key :: "inventory_row \<Rightarrow> js_string" where
  "sold_seat_key r =
     or_else (iv_seatKey r) (if iv_floorKey r \<noteq> [] then iv_floorKey r @ '':'' @ iv_seatId r else iv_seatId r)"

definition put_unavailable :: "inventory_row \<Rightarrow> (js_string \<Rightarrow> seat_state option) \<Rightarrow> (js_string \<Rightarrow> seat_state option)" where
  "put_unavailable r seats =
     seats(sold_seat_key r \<mapsto> (if iv_status r = ''held_cancelled'' then Held else if iv_status r = ''disabled'' then Disabled else Sold))"

definition sweepStaleLockedSeats :: "'s redis \<Rightarrow> js_string \<Rightarrow> 's \<Rightarrow> bool \<times> 's" where
  "sweepStaleLockedSeats R showtimeId s =
     (let (acquired, s1) = SET_NX_EX R (''{'' @ showtimeId @ ''}:locked-seats:sweep-guard'') ''1'' 10 s
      in if \<not> acquired then (False, s1) else (True, snd (sweep_locked_seats R showtimeId s1)))"

definition computeSeatStatus :: "'s redis \<Rightarrow> booking_db \<Rightarrow> js_string \<Rightarrow> 's \<Rightarrow> (js_string \<Rightarrow> seat_state option) option" where
  "computeSeatStatus R db showtimeId s =
     (let lockedSeats = read_valid_locked_seats_lua R (locked_seats_key showtimeId) (seat_prefix showtimeId) s;
          unavailable = filter (\<lambda>r. iv_showtimeId r = showtimeId \<and> iv_status r \<in> {''sold'', ''held_cancelled'', ''disabled''})
            (bd_inventory db)
      in map_option (\<lambda>seats. fold put_unavailable unavailable seats) (put_locked lockedSeats (\<lambda>_. None)))"

section \<open>Lemmas\<close>

abbreviation bypass :: "booking_actor \<Rightarrow> bool" where
  "bypass a \<equiv> canUseAdminBookingBypass (Some (capability_user.truncate a))"

lemma showtime_open:
  assumes "assertShowtimeBookingOpen db t st a = None"
  shows "\<forall>row. bd_sales db st = Some row \<longrightarrow> sr_performanceStatus row \<noteq> ''ended'' \<and> \<not> isShowtimeSalesClosed (sr_dateTime row) t"
    "bypass a \<or> (\<exists>row. bd_sales db st = Some row \<and> sr_publishState row = ''published'' \<and>
       (sr_bookingStartsAt row \<noteq> None \<longrightarrow> isBookingStartReached (sr_bookingStartsAt row) t) \<and>
       (sr_performanceStatus row = ''upcoming'' \<longrightarrow> isBookingStartReached (sr_bookingStartsAt row) t))"
  using assms by (auto simp: assertShowtimeBookingOpen_def Let_def split: option.splits if_splits)

lemma lock_gates_passed:
  assumes "lock_gates db t a st sid = None"
  shows "readFeatureFlags (bd_env db) \<or> bypass a" "ba_isEmailVerified a" "ba_isPhoneVerified a"
    "assertShowtimeBookingOpen db t st a = None"
    "seatMapHasSeatId (bd_seatMaps db st (rt_floorKey (parseRuntimeSeatIdentity sid))) (rt_seatId (parseRuntimeSeatIdentity sid))"
    "unavailableSeat db st (parseRuntimeSeatIdentity sid) = None"
  using assms
  by (auto simp: lock_gates_def assertBookingEnabled_def assertBookingVerificationComplete_def Let_def
      split: option.splits if_splits)

lemma change_seat_fields [simp]:
  "bk_redis (change_seat t st sid state b) = bk_redis b"
  "bk_sent (change_seat t st sid state b) =
     bk_sent b @ map (\<lambda>e. (e, ''showtime:'' @ st, sid, state)) (seatUpdateEventNames state)"
  by (simp_all add: change_seat_def broadcastSeatUpdate_def)

lemma lockSeat_cases:
  assumes "lockSeat R db t a st sid b = (r, b')"
  obtains (stopped) e where "r = Inl e" "b' = b" "lock_gates db t a st sid = Some e \<or>
      lp_maxTicketsPerUser (loadSeatLockPolicy db st) \<le> active_count db a st"
  | (refused) e reason s where "r = Inl e" "b' = b\<lparr>bk_redis := s\<rparr>"
      "lock_seat R st (ba_id a) (lp_lockTtlSeconds (loadSeatLockPolicy db st))
         (lp_maxTicketsPerUser (loadSeatLockPolicy db st) - active_count db a st) (runtime_id sid) (bk_redis b) = (Refused reason, s)"
  | (granted) resp k x ttl s where "r = Inr resp" "lock_gates db t a st sid = None"
      "lock_seat R st (ba_id a) (lp_lockTtlSeconds (loadSeatLockPolicy db st))
         (lp_maxTicketsPerUser (loadSeatLockPolicy db st) - active_count db a st) (runtime_id sid) (bk_redis b) = (Granted k x ttl, s)"
      "b' = change_seat t st sid Locked (b\<lparr>bk_redis := s\<rparr>)" "lr_lockId resp = k"
      "lr_expiresAt resp = t + (if ttl > 0 then ttl else lp_lockTtlSeconds (loadSeatLockPolicy db st)) * 1000"
proof -
  note u = assms [unfolded lockSeat_def Let_def]
  let ?l = "lock_seat R st (ba_id a) (lp_lockTtlSeconds (loadSeatLockPolicy db st))
         (lp_maxTicketsPerUser (loadSeatLockPolicy db st) - active_count db a st) (runtime_id sid) (bk_redis b)"
  show thesis
  proof (cases "lock_gates db t a st sid")
    case (Some e)
    with u show thesis by (intro stopped) auto
  next
    case None
    show thesis
    proof (cases "lp_maxTicketsPerUser (loadSeatLockPolicy db st) \<le> active_count db a st")
      case True
      with None u show thesis by (intro stopped) auto
    next
      case False
      obtain rep s where l: "?l = (rep, s)" by fastforce
      show thesis
      proof (cases rep)
        case (Refused reason)
        with None False u l have "b' = b\<lparr>bk_redis := s\<rparr>" and "\<exists>e. r = Inl e" by auto
        with l Refused show thesis using refused by blast
      next
        case (Granted k x ttl)
        with None False u l have "\<exists>resp. r = Inr resp \<and> lr_lockId resp = k \<and>
            lr_expiresAt resp = t + (if ttl > 0 then ttl else lp_lockTtlSeconds (loadSeatLockPolicy db st)) * 1000"
          and "b' = change_seat t st sid Locked (b\<lparr>bk_redis := s\<rparr>)" by auto
        with l Granted None show thesis using granted by blast
      qed
    qed
  qed
qed

section \<open>Properties\<close>

text \<open>C35: A seat is handed out only through every gate: whatever the outcome, a lock call that succeeds was made
  while booking is enabled (or by a full admin), by a verified account, for a seat of the map that is
  not sold, held or disabled, on a showtime that has not started and whose performance has not ended,
  and, except for a full admin, is published and past its booking start; every other call sends no
  seat update, leaves the served seat states and answers an error.\<close>
theorem lock_call_is_gated:
  "case lockSeat R db t a st sid b of
     (Inl e, b') \<Rightarrow> bk_sent b' = bk_sent b \<and> bk_status b' = bk_status b
   | (Inr resp, b') \<Rightarrow>
       (readFeatureFlags (bd_env db) \<or> bypass a) \<and> ba_isEmailVerified a \<and> ba_isPhoneVerified a \<and>
       (\<forall>row. bd_sales db st = Some row \<longrightarrow> sr_performanceStatus row \<noteq> ''ended'' \<and> \<not> isShowtimeSalesClosed (sr_dateTime row) t) \<and>
       (bypass a \<or> (\<exists>row. bd_sales db st = Some row \<and> sr_publishState row = ''published'' \<and>
          (sr_bookingStartsAt row \<noteq> None \<longrightarrow> isBookingStartReached (sr_bookingStartsAt row) t) \<and>
          (sr_performanceStatus row = ''upcoming'' \<longrightarrow> isBookingStartReached (sr_bookingStartsAt row) t))) \<and>
       seatMapHasSeatId (bd_seatMaps db st (rt_floorKey (parseRuntimeSeatIdentity sid))) (rt_seatId (parseRuntimeSeatIdentity sid)) \<and>
       unavailableSeat db st (parseRuntimeSeatIdentity sid) = None \<and>
       bk_sent b' = bk_sent b @ [(''seat-update.v2'', ''showtime:'' @ st, sid, Locked)]"
proof -
  obtain r b' where l: "lockSeat R db t a st sid b = (r, b')" by fastforce
  then show ?thesis
  proof (cases rule: lockSeat_cases)
    case (stopped e)
    with l show ?thesis by simp
  next
    case (refused e reason s)
    with l show ?thesis by simp
  next
    case (granted resp k x ttl s)
    note g = lock_gates_passed [OF granted(2)]
    note o = showtime_open [OF g(4)]
    show ?thesis
      unfolding l granted(1,4) prod.case sum.case change_seat_fields
      by (intro conjI g o) (simp add: seatUpdateEventNames_def)
  qed
qed

text \<open>The per-person limit holds across accounts and locks: when a lock call succeeds, the seats its buyer now
  owns and the tickets counted for his identity together stay within the performance's limit; the seat was
  free, is now his, no other seat changed hands, and the expiry he is told is the lifetime of the
  lock. A call that fails changes no owner.\<close>
theorem lock_call_keeps_limit:
  assumes R: "redis_server R ok" and "ok (bk_redis b)" and ix: "indexed R st tok (bk_redis b)" and "\<not> tok (ba_id a)"
    and "finite (owned R st (bk_redis b) (ba_id a))"
    and ttl: "0 < lp_lockTtlSeconds (loadSeatLockPolicy db st)"
    and l: "lockSeat R db t a st sid b = (r, b')"
  shows "case r of
      Inl e \<Rightarrow> (\<forall>x. seat_owner R st (bk_redis b') x = seat_owner R st (bk_redis b) x)
    | Inr resp \<Rightarrow>
        int (card (owned R st (bk_redis b') (ba_id a))) + active_count db a st \<le> lp_maxTicketsPerUser (loadSeatLockPolicy db st) \<and>
        seat_owner R st (bk_redis b) (runtime_id sid) = None \<and>
        (\<forall>x. seat_owner R st (bk_redis b') x =
           (if x = runtime_id sid then Some (ba_id a) else seat_owner R st (bk_redis b) x)) \<and>
        lr_expiresAt resp = t + TTL R (bk_redis b') (lr_lockId resp) * 1000"
  using l
proof (cases rule: lockSeat_cases)
  case (stopped e)
  then show ?thesis by simp
next
  case (refused e reason s)
  then show ?thesis using redis_server.lock_seat_get [OF R refused(3) ttl] by simp
next
  case (granted resp k x lifetime s)
  note g = redis_server.lock_seat_get [OF R granted(3) ttl]
  note free = redis_server.lock_seat_granted_free [OF R granted(3)]
  note life = redis_server.lock_seat_ttl [OF R granted(3) ttl assms(2)]
  have owners: "seat_owner R st (bk_redis b') y =
      (if y = runtime_id sid then Some (ba_id a) else seat_owner R st (bk_redis b) y)" for y
    using g by (simp add: granted(4))
  then have own: "owned R st (bk_redis b') (ba_id a) = insert (runtime_id sid) (owned R st (bk_redis b) (ba_id a))"
    by (auto simp: owned_def)
  have "int (card (owned R st (bk_redis b) (ba_id a))) < lp_maxTicketsPerUser (loadSeatLockPolicy db st) - active_count db a st"
    by (rule redis_server.lock_seat_below_limit [OF R granted(3) assms(2) ix assms(4)])
  moreover have "card (insert (runtime_id sid) (owned R st (bk_redis b) (ba_id a))) \<le> Suc (card (owned R st (bk_redis b) (ba_id a)))"
    by (rule card_insert_le_m1) simp_all
  ultimately have "int (card (owned R st (bk_redis b') (ba_id a))) + active_count db a st \<le> lp_maxTicketsPerUser (loadSeatLockPolicy db st)"
    unfolding own by linarith
  with owners free life show ?thesis by (simp add: granted(1,4,5,6))
qed

lemma unlockOwnedSeat_owner:
  assumes "redis_server R ok" and "unlockOwnedSeat R t u st sid b = (released, b')"
  shows "seat_owner R st (bk_redis b') x = (if released \<and> x = runtime_id sid then None else seat_owner R st (bk_redis b) x)"
    "released \<longleftrightarrow> seat_owner R st (bk_redis b) (runtime_id sid) = Some u"
proof -
  obtain r s where l: "unlock_seat R st u (runtime_id sid) (bk_redis b) = (r, s)" by fastforce
  note g = redis_server.unlock_seat_get [OF assms(1) l]
  from assms(2) l have e: "released = r" "bk_redis b' = s" by (auto simp: unlockOwnedSeat_def split: bool.splits)
  show "seat_owner R st (bk_redis b') x = (if released \<and> x = runtime_id sid then None else seat_owner R st (bk_redis b) x)"
    using g [of "seat_lock_key st x"] unfolding e by auto
  show "released \<longleftrightarrow> seat_owner R st (bk_redis b) (runtime_id sid) = Some u" using g unfolding e by blast
qed

lemma unlock_members_owner:
  assumes "redis_server R ok"
  shows "unlock_members R t u st pending ms b = (r, b') \<Longrightarrow>
    (\<forall>x. seat_owner R st (bk_redis b') x = seat_owner R st (bk_redis b) x \<or>
       seat_owner R st (bk_redis b) x = Some u \<and> seat_owner R st (bk_redis b') x = None \<and> x \<notin> set pending) \<and>
    (\<forall>m \<in> set ms. r \<noteq> None \<longrightarrow> (\<forall>sid. decodeSeatRuntimeId m = Some sid \<longrightarrow> runtime_id sid \<notin> set pending \<longrightarrow>
       seat_owner R st (bk_redis b') (runtime_id sid) \<noteq> Some u))"
proof (induction ms arbitrary: b r b')
  case (Cons m ms)
  show ?case
  proof (cases "decodeSeatRuntimeId m")
    case None
    with Cons.prems show ?thesis by simp
  next
    case (Some sid)
    show ?thesis
    proof (cases "runtime_id sid \<in> set pending")
      case True
      with Cons Some show ?thesis by fastforce
    next
      case False
      obtain released b1 where u: "unlockOwnedSeat R t u st sid b = (released, b1)" by fastforce
      obtain rest b2 where m: "unlock_members R t u st pending ms b1 = (rest, b2)" by fastforce
      from Cons.prems Some False u m have e: "b' = b2" "r \<noteq> None \<longleftrightarrow> rest \<noteq> None" by auto
      note o = unlockOwnedSeat_owner [OF assms u]
      note ih = Cons.IH [OF m]
      have 1: "seat_owner R st (bk_redis b1) (runtime_id sid) \<noteq> Some u" using o by auto
      from ih have 2: "\<forall>x. seat_owner R st (bk_redis b2) x = seat_owner R st (bk_redis b1) x \<or>
         seat_owner R st (bk_redis b1) x = Some u \<and> seat_owner R st (bk_redis b2) x = None \<and> x \<notin> set pending" by blast
      have A: "seat_owner R st (bk_redis b') x = seat_owner R st (bk_redis b) x \<or>
         seat_owner R st (bk_redis b) x = Some u \<and> seat_owner R st (bk_redis b') x = None \<and> x \<notin> set pending" for x
        using 2 [rule_format, of x] o(1) [of x] o(2) False unfolding e(1) by (auto split: if_splits)
      have B: "seat_owner R st (bk_redis b') (runtime_id sid) \<noteq> Some u"
        using 1 2 [rule_format, of "runtime_id sid"] unfolding e(1) by auto
      from ih have C: "\<forall>m \<in> set ms. r \<noteq> None \<longrightarrow> (\<forall>sid. decodeSeatRuntimeId m = Some sid \<longrightarrow> runtime_id sid \<notin> set pending \<longrightarrow>
         seat_owner R st (bk_redis b') (runtime_id sid) \<noteq> Some u)" unfolding e by blast
      from A B C Some show ?thesis by auto
    qed
  qed
qed simp

text \<open>Releasing all locks of a buyer never takes a seat he is paying for, on whatever device, nor anybody
  else's: an owner changes only from the caller to nobody, and only for seats outside his unexpired
  pending orders; of the other seats in his set none is still his.\<close>
theorem unlock_all_spares_paying_seats:
  assumes R: "redis_server R ok" and "unlockAllSeats R db t u st b = (r, b')"
  shows "(\<forall>x. seat_owner R st (bk_redis b') x = seat_owner R st (bk_redis b) x \<or>
       seat_owner R st (bk_redis b) x = Some u \<and> seat_owner R st (bk_redis b') x = None \<and>
       x \<notin> set (findPendingPaymentRuntimeSeatIds db t u st)) \<and>
    (\<forall>sid. r \<noteq> None \<longrightarrow> (\<exists>m \<in> set (SMEMBERS R (bk_redis b) (user_seats_key st u)). decodeSeatRuntimeId m = Some sid) \<longrightarrow>
       runtime_id sid \<notin> set (findPendingPaymentRuntimeSeatIds db t u st) \<longrightarrow>
       seat_owner R st (bk_redis b') (runtime_id sid) \<noteq> Some u)"
proof (cases "SMEMBERS R (bk_redis b) (user_seats_key st u) = []")
  case True
  with assms(2) show ?thesis by (simp add: unlockAllSeats_def)
next
  case False
  with assms(2) have "unlock_members R t u st (findPendingPaymentRuntimeSeatIds db t u st)
      (SMEMBERS R (bk_redis b) (user_seats_key st u)) b = (r, b')"
    by (simp add: unlockAllSeats_def)
  from unlock_members_owner [OF R this] show ?thesis by blast
qed

definition demo_actor :: booking_actor where
  "demo_actor = \<lparr>cu_role = Some ''user'', cu_adminCapabilityBundle = Null, cu_adminCapabilities = Some [],
     ba_id = ''u1'', ba_isEmailVerified = True, ba_isPhoneVerified = True\<rparr>"

definition demo_db :: booking_db where
  "demo_db = \<lparr>bd_env = (\<lambda>k. if k = ''BOOKING_ENABLED'' then Some ''true'' else None),
     bd_sales = (\<lambda>st. Some \<lparr>sr_performanceStatus = ''selling'', sr_publishState = ''published'',
       sr_bookingStartsAt = Some 0, sr_dateTime = Some 9000\<rparr>),
     bd_seatMaps = (\<lambda>st floor. Some [[''A-1'']]), bd_inventory = [],
     bd_policies = (\<lambda>st. Some \<lparr>pl_performanceId = ''p'', pl_maxTicketsPerUser = Some 2, pl_seatHoldMinutes = Some 10\<rparr>),
     bd_orders = [], bd_activeTickets = (\<lambda>u p. 1)\<rparr>"

definition demo_booking :: "mem booking" where
  "demo_booking = \<lparr>bk_redis = mem_empty 1000, bk_status = \<lparr>ss_cache = [], ss_inFlight = [], ss_changes = []\<rparr>, bk_sent = []\<rparr>"

lemma demo_identity: "rt_seatId (parseRuntimeSeatIdentity ''A-1'') = ''A-1''"
  by (simp add: parseRuntimeSeatIdentity_def normalizeSeatIdentity_def bare_seat_def no_defaults_def clean_def splitSeatKey_def
      js_trim_printable printable_def Let_def)

lemma demo_gates: "lock_gates demo_db 1000 demo_actor ''s1'' ''A-1'' = None"
  by (simp add: lock_gates_def assertBookingEnabled_def readFeatureFlags_def parseBooleanFlag_def js_trim_printable printable_def
      js_lower_def lower_char_def assertBookingVerificationComplete_def assertShowtimeBookingOpen_def demo_actor_def
      demo_db_def isShowtimeSalesClosed_def isBookingStartReached_def seatMapHasSeatId_def demo_identity
      unavailableSeat_def Let_def)

lemma demo_policy: "loadSeatLockPolicy demo_db ''s1'' = \<lparr>lp_performanceId = Some ''p'', lp_maxTicketsPerUser = 2, lp_lockTtlSeconds = 600\<rparr>"
  "active_count demo_db demo_actor ''s1'' = 1"
  by (simp_all add: loadSeatLockPolicy_def demo_db_def active_count_def demo_actor_def Let_def)

lemma demo_ids: "ba_id demo_actor = ''u1''" "bk_redis demo_booking = mem_empty 1000" "bk_sent demo_booking = []"
  by (simp_all add: demo_actor_def demo_booking_def)

lemma demo_no_owner: "owned mem_ops st (mem_empty 1000) u = {}" "indexed mem_ops st tok (mem_empty 1000)"
  by (simp_all add: owned_def indexed_def)

lemma lock_call_keeps_limit_witness:
  "\<exists>resp b'. lockSeat mem_ops demo_db 1000 demo_actor ''s1'' ''A-1'' demo_booking = (Inr resp, b') \<and>
     int (card (owned mem_ops ''s1'' (bk_redis b') ''u1'')) + 1 \<le> 2"
proof -
  let ?l = "lock_seat mem_ops ''s1'' ''u1'' 600 1 (runtime_id ''A-1'') (mem_empty 1000)"
  have empty: "SMEMBERS mem_ops (mem_empty 1000) k = []" for k by (simp add: mem_ops_simps mem_empty_def set_of_def)
  obtain k ttl s where l: "?l = (Granted k (runtime_id ''A-1'') ttl, s)"
    by (simp add: lock_seat_def lock_seat_lua_def empty mem.set_nx)
  have ok: "\<exists>resp b'. lockSeat mem_ops demo_db 1000 demo_actor ''s1'' ''A-1'' demo_booking = (Inr resp, b')"
    using l unfolding lockSeat_def demo_gates option.case Let_def demo_policy lock_policy.simps demo_ids by simp
  then obtain resp b' where r: "lockSeat mem_ops demo_db 1000 demo_actor ''s1'' ''A-1'' demo_booking = (Inr resp, b')" by blast
  have "int (card (owned mem_ops ''s1'' (bk_redis b') (ba_id demo_actor))) + active_count demo_db demo_actor ''s1'' \<le>
      lp_maxTicketsPerUser (loadSeatLockPolicy demo_db ''s1'')"
    using lock_call_keeps_limit [OF mem.redis_server_axioms _ _ _ _ _ r, of "\<lambda>_. False"]
    by (simp add: demo_ids demo_no_owner mem_empty_inv demo_policy)
  with r show ?thesis by (simp add: demo_policy demo_ids)
qed

lemma lock_call_is_gated_witness:
  "case lockSeat mem_ops demo_db 1000 demo_actor ''s1'' ''A-1'' demo_booking of
     (Inl e, b') \<Rightarrow> bk_sent b' = []
   | (Inr resp, b') \<Rightarrow> bk_sent b' = [(''seat-update.v2'', ''showtime:s1'', ''A-1'', Locked)]"
proof -
  have "bk_sent demo_booking = []" by (rule demo_ids)
  with lock_call_is_gated [where R = mem_ops and db = demo_db and t = 1000 and a = demo_actor and st = "''s1''"
      and sid = "''A-1''" and b = demo_booking]
  show ?thesis by (simp split: prod.splits sum.splits)
qed

lemma unlock_all_spares_paying_seats_witness:
  "\<forall>x. seat_owner mem_ops ''s1'' (bk_redis (snd (unlockAllSeats mem_ops demo_db 1000 ''u1'' ''s1'' demo_booking))) x = None"
proof -
  obtain r b' where u: "unlockAllSeats mem_ops demo_db 1000 ''u1'' ''s1'' demo_booking = (r, b')" by fastforce
  from unlock_all_spares_paying_seats [OF mem.redis_server_axioms u] show ?thesis by (simp add: u demo_ids)
qed

section \<open>Payment on owned locks\<close>

lemma assertNoUnavailable_None:
  "assertNoUnavailableSeatRecords db st xs = None \<longleftrightarrow> (\<forall>x \<in> set xs. unavailableSeat db st (parseRuntimeSeatIdentity x) = None)"
  by (induction xs) (auto split: option.splits)

text \<open>
  A payment that consumed its locks owned all of them, none of them sold, held or stopped unless the
  check was skipped, and leaves none; a refused one leaves the server as it was.
\<close>

lemma consumeOwnedSeatLocks_sound:
  assumes "redis_server R ok" and "consumeOwnedSeatLocks R db skip u st xs s = (r, s')"
  shows "case r of
      Inl e \<Rightarrow> s' = s
    | Inr ys \<Rightarrow> ys = xs \<and> (\<forall>x \<in> set xs. seat_owner R st s (runtime_id x) = Some u \<and> seat_owner R st s' (runtime_id x) = None) \<and>
        (skip \<or> (\<forall>x \<in> set xs. unavailableSeat db st (parseRuntimeSeatIdentity x) = None))"
proof (cases "if skip then None else assertNoUnavailableSeatRecords db st xs")
  case (Some e)
  with assms(2) show ?thesis by (auto simp: consumeOwnedSeatLocks_def)
next
  case None
  obtain rep s1 where c: "consume_seats R st u (map runtime_id xs) s = (rep, s1)" by fastforce
  note g = consume_seats_spec [OF assms(1) c]
  from None assms(2) c have e: "s' = s1" "r = (case lockConflictFromResult rep of Some e \<Rightarrow> Inl e | None \<Rightarrow> Inr xs)"
    by (auto simp: consumeOwnedSeatLocks_def)
  from None have n: "skip \<or> (\<forall>x \<in> set xs. unavailableSeat db st (parseRuntimeSeatIdentity x) = None)"
    using assertNoUnavailable_None by (cases skip) auto
  show ?thesis
  proof (cases "\<forall>x \<in> set (map runtime_id xs). seat_owner R st s x = Some u")
    case True
    with g e n show ?thesis by (auto simp: lockConflictFromResult_def)
  next
    case False
    with g obtain reason y v where "rep = OwnFail reason y v" "s1 = s" by (auto split: if_splits)
    then show ?thesis unfolding e by (simp add: lockConflictFromResult_def)
  qed
qed

text \<open>The confirm lease excludes: while one token holds an order, no other acquires, refreshes or releases it.\<close>

lemma confirm_lease_excludes:
  assumes "redis_server R ok" and "GET R s (payment_confirm_key o') = Some a" and "a \<noteq> c" and "0 < ttl"
  shows "acquirePaymentConfirmLock R o' c s = (False, s)" "refreshPaymentConfirmLock R o' c ttl s = (False, s)"
    "releasePaymentConfirmLock R o' c s = s"
    "fst (refreshPaymentConfirmLock R o' a ttl s)" "GET R (snd (refreshPaymentConfirmLock R o' a ttl s)) (payment_confirm_key o') = Some a"
    "GET R (releasePaymentConfirmLock R o' a s) (payment_confirm_key o') = None"
  using assms redis_server.set_nx [OF assms(1)] redis_server.get_expire [OF assms(1)] redis_server.get_del [OF assms(1)]
  by (auto simp: acquirePaymentConfirmLock_def refreshPaymentConfirmLock_def releasePaymentConfirmLock_def
      refresh_payment_confirm_lock_lua_def release_payment_confirm_lock_lua_def)

lemma confirm_lease_acquired:
  assumes "redis_server R ok" and "acquirePaymentConfirmLock R o' a s = (True, s')"
  shows "GET R s (payment_confirm_key o') = None" "GET R s' (payment_confirm_key o') = Some a"
  using assms redis_server.set_nx [OF assms(1)] redis_server.get_set [OF assms(1)]
  by (auto simp: acquirePaymentConfirmLock_def PAYMENT_CONFIRM_LOCK_TTL_def split: if_splits)

lemma attempt_marker_outlives_lease:
  assumes "redis_server R ok"
  shows "hasPaymentConfirmAttempt R o' (releasePaymentConfirmLock R o' a (markPaymentConfirmAttempted R o' s))"
proof -
  have "payment_confirm_key o' \<noteq> confirm_attempt_key o'" by (simp add: payment_confirm_key_def confirm_attempt_key_def)
  then show ?thesis
    using redis_server.get_set [OF assms] redis_server.get_del [OF assms]
    by (auto simp: hasPaymentConfirmAttempt_def releasePaymentConfirmLock_def release_payment_confirm_lock_lua_def
        markPaymentConfirmAttempted_def PAYMENT_CONFIRM_ATTEMPT_MARKER_TTL_def)
qed

end
