(* ===== verification/TicketLimit.thy ===== *)
theory TicketLimit
  imports Prelude
begin

text \<open>
  The per-person ticket limit of \<open>apps/api/src/database/ticket-limit.ts\<close> with the phone normalisation of
  \<open>apps/api/src/modules/sms/phone.util.ts\<close>. \<open>lib\<close> is \<open>libphonenumber\<close>: the E.164 number of a text it parses
  and finds valid, \<open>None\<close> where it throws or the number is invalid. The tables are lists of rows: the
  tickets joined with their reservations and showtimes, the pending seats, and the accounts; the SQL
  is the filter and the count it writes. Text is UTF-8, so a full-width digit is three bytes.
\<close>

section \<open>Phone numbers\<close>

fun normalizeFullWidth :: "js_string \<Rightarrow> js_string" where
  "normalizeFullWidth (a # b # c # s) =
     (if a = CHR 0xEF \<and> b = CHR 0xBC \<and> c = CHR 0x8B then CHR ''+'' # normalizeFullWidth s
      else if a = CHR 0xEF \<and> b = CHR 0xBC \<and> CHR 0x90 \<le> c \<and> c \<le> CHR 0x99
        then char_of (of_char c - (96 :: nat)) # normalizeFullWidth s
      else a # normalizeFullWidth (b # c # s))"
| "normalizeFullWidth s = s"

definition phone_noise :: "js_string list" where
  "phone_noise = js_whitespace @ [''-'', ''('', '')'']"

function strip_noise :: "js_string \<Rightarrow> js_string" where
  "strip_noise [] = []"
| "strip_noise (c # s) =
     (let n = lead_len phone_noise (c # s)
      in if n = 0 then c # strip_noise s else strip_noise (drop n (c # s)))"
  by pat_completeness auto
termination by (relation "measure length") auto

definition is_korean_mobile :: "js_string \<Rightarrow> bool" where
  "is_korean_mobile d \<longleftrightarrow> length d \<in> {10, 11} \<and> prefix ''01'' d \<and> list_all is_digit d \<and>
     d ! 2 \<in> {CHR ''0'', CHR ''1'', CHR ''6'', CHR ''7'', CHR ''8'', CHR ''9''}"

definition parseE164 :: "(js_string \<Rightarrow> js_string option) \<Rightarrow> js_string \<Rightarrow> js_string option" where
  "parseE164 lib input =
     (let cleaned = strip_noise (normalizeFullWidth input);
          withPlus = (if prefix ''00'' cleaned then CHR ''+'' # drop 2 cleaned else cleaned);
          digits = filter (\<lambda>c. c = CHR ''+'' \<or> is_digit c) withPlus
      in if is_korean_mobile digits then Some (''+82'' @ drop 1 digits)
         else lib (if prefix ''+'' digits then digits else CHR ''+'' # digits))"

definition toE164OrNull :: "(js_string \<Rightarrow> js_string option) \<Rightarrow> js_string option \<Rightarrow> js_string option" where
  "toE164OrNull lib phone = (case phone of None \<Rightarrow> None | Some p \<Rightarrow> if p = [] then None else parseE164 lib p)"

text \<open>The SQL expression of \<open>verifiedPhoneSuffix\<close>: full-width digits translated, other characters dropped, the last eight kept.\<close>

definition verifiedPhoneSuffix :: "js_string option \<Rightarrow> js_string option" where
  "verifiedPhoneSuffix phone =
     map_option (\<lambda>p. let d = filter is_digit (normalizeFullWidth p) in drop (length d - 8) d) phone"

section \<open>Counting\<close>

record ticket_row =
  tk_user :: js_string
  tk_performance :: js_string
  tk_reservation :: js_string
  tk_reservationStatus :: js_string
  tk_status :: js_string

record pending_row =
  ps_user :: js_string
  ps_performance :: js_string
  ps_reservationStatus :: js_string
  ps_paymentDeadlineAt :: "int option"

record account_row =
  ac_id :: js_string
  ac_phone :: "js_string option"
  ac_phoneVerified :: bool

record limit_db =
  db_tickets :: "ticket_row list"
  db_pending :: "pending_row list"
  db_accounts :: "account_row list"

definition confirmedTicketCount :: "limit_db \<Rightarrow> js_string \<Rightarrow> js_string \<Rightarrow> js_string option \<Rightarrow> int" where
  "confirmedTicketCount db userId performanceId excludeReservationId =
     int (length (filter (\<lambda>t. tk_user t = userId \<and> Some (tk_reservation t) \<noteq> excludeReservationId
        \<and> tk_performance t = performanceId \<and> tk_reservationStatus t = ''CONFIRMED''
        \<and> tk_status t \<in> {''active'', ''cancellation_pending''}) (db_tickets db)))"

definition unexpiredPendingSeatCount :: "limit_db \<Rightarrow> int \<Rightarrow> js_string \<Rightarrow> js_string \<Rightarrow> int" where
  "unexpiredPendingSeatCount db t userId performanceId =
     int (length (filter (\<lambda>p. ps_user p = userId \<and> ps_performance p = performanceId
        \<and> ps_reservationStatus p = ''PENDING_PAYMENT''
        \<and> (case ps_paymentDeadlineAt p of None \<Rightarrow> False | Some d \<Rightarrow> d > t)) (db_pending db)))"

text \<open>A row of the query: the counts are numbers here, so \<open>toCount\<close> only turns a missing one into 0.\<close>

record linked_account =
  la_phone :: "js_string option"
  la_active_ticket_count :: "int option"
  la_pending_seat_count :: "int option"

record buyer_row =
  bt_active_ticket_count :: "int option"
  bt_phone :: "js_string option"
  bt_phone_verified :: bool
  bt_linked_phone_accounts :: "linked_account list"

definition toCount :: "int option \<Rightarrow> int" where
  "toCount v = or_else v 0"

definition sumBuyerIdentityTickets :: "(js_string \<Rightarrow> js_string option) \<Rightarrow> buyer_row \<Rightarrow> int" where
  "sumBuyerIdentityTickets lib row =
     (let ownCount = toCount (bt_active_ticket_count row);
          buyerPhone = (if bt_phone_verified row then toE164OrNull lib (bt_phone row) else None)
      in case buyerPhone of None \<Rightarrow> ownCount
         | Some e \<Rightarrow>
             if e = [] then ownCount
             else foldl (\<lambda>total a. if toE164OrNull lib (la_phone a) = Some e
                  then total + toCount (la_active_ticket_count a) + toCount (la_pending_seat_count a) else total)
                ownCount (bt_linked_phone_accounts row))"

definition find_account :: "limit_db \<Rightarrow> js_string \<Rightarrow> account_row option" where
  "find_account db userId = List.find (\<lambda>a. ac_id a = userId) (db_accounts db)"

text \<open>\<open>buyerPhoneColumns\<close>: a comparison with a null phone is not true in SQL.\<close>

definition linked_accounts ::
  "limit_db \<Rightarrow> int \<Rightarrow> js_string \<Rightarrow> js_string option \<Rightarrow> bool \<Rightarrow> account_row \<Rightarrow> linked_account list" where
  "linked_accounts db t performanceId excl includePending buyer =
     map (\<lambda>l. \<lparr>la_phone = ac_phone l,
            la_active_ticket_count = Some (confirmedTicketCount db (ac_id l) performanceId excl),
            la_pending_seat_count =
              (if includePending then Some (unexpiredPendingSeatCount db t (ac_id l) performanceId) else None)\<rparr>)
       (filter (\<lambda>l. ac_phoneVerified buyer \<and> ac_phoneVerified l \<and> ac_id l \<noteq> ac_id buyer
          \<and> verifiedPhoneSuffix (ac_phone l) \<noteq> None
          \<and> verifiedPhoneSuffix (ac_phone l) = verifiedPhoneSuffix (ac_phone buyer)) (db_accounts db))"

definition buyer_query :: "limit_db \<Rightarrow> int \<Rightarrow> js_string \<Rightarrow> js_string \<Rightarrow> js_string option \<Rightarrow> bool \<Rightarrow> buyer_row" where
  "buyer_query db t userId performanceId excl includePending =
     \<lparr>bt_active_ticket_count = Some (confirmedTicketCount db userId performanceId excl),
      bt_phone = (case find_account db userId of None \<Rightarrow> None | Some a \<Rightarrow> ac_phone a),
      bt_phone_verified = (case find_account db userId of None \<Rightarrow> False | Some a \<Rightarrow> ac_phoneVerified a),
      bt_linked_phone_accounts = (case find_account db userId of None \<Rightarrow> []
         | Some a \<Rightarrow> linked_accounts db t performanceId excl includePending a)\<rparr>"

definition countBuyerActiveTicketsForPerformance ::
  "(js_string \<Rightarrow> js_string option) \<Rightarrow> limit_db \<Rightarrow> int \<Rightarrow> js_string \<Rightarrow> js_string \<Rightarrow> int" where
  "countBuyerActiveTicketsForPerformance lib db t userId performanceId =
     sumBuyerIdentityTickets lib (buyer_query db t userId performanceId None True)"

text \<open>The count of \<open>getTicketLimitSnapshot\<close>, read in the confirm transaction.\<close>

definition snapshot_activeTicketCount ::
  "(js_string \<Rightarrow> js_string option) \<Rightarrow> limit_db \<Rightarrow> int \<Rightarrow> js_string \<Rightarrow> js_string \<Rightarrow> js_string \<Rightarrow> int" where
  "snapshot_activeTicketCount lib db t userId reservationId performanceId =
     sumBuyerIdentityTickets lib (buyer_query db t userId performanceId (Some reservationId) False)"

text \<open>The text whose hash \<open>lockTicketLimitScope\<close> locks.\<close>

definition lockTicketLimitScope :: "limit_db \<Rightarrow> js_string \<Rightarrow> js_string \<Rightarrow> js_string" where
  "lockTicketLimitScope db userId performanceId =
     ''ticket-limit:'' @
     (case find_account db userId of
        Some a \<Rightarrow> (case verifiedPhoneSuffix (ac_phone a) of
            Some x \<Rightarrow> if ac_phoneVerified a \<and> x \<noteq> [] then ''phone:'' @ x else userId
          | None \<Rightarrow> userId)
      | None \<Rightarrow> userId) @ '':'' @ performanceId"

section \<open>Properties\<close>

text \<open>What the SQL narrowing relies on: numbers of one identity have the same last eight digits.\<close>

definition suffix_agrees :: "(js_string \<Rightarrow> js_string option) \<Rightarrow> limit_db \<Rightarrow> bool" where
  "suffix_agrees lib db \<longleftrightarrow>
     (\<forall>x \<in> set (db_accounts db). \<forall>y \<in> set (db_accounts db). \<forall>e.
        toE164OrNull lib (ac_phone x) = Some e \<longrightarrow> toE164OrNull lib (ac_phone y) = Some e \<longrightarrow>
        verifiedPhoneSuffix (ac_phone x) = verifiedPhoneSuffix (ac_phone y) \<and> verifiedPhoneSuffix (ac_phone x) \<noteq> Some [])"

lemma suffix_agreesD:
  assumes "suffix_agrees lib db" and "x \<in> set (db_accounts db)" and "y \<in> set (db_accounts db)"
    and "toE164OrNull lib (ac_phone x) = Some e" and "toE164OrNull lib (ac_phone y) = Some e"
  shows "verifiedPhoneSuffix (ac_phone x) = verifiedPhoneSuffix (ac_phone y)" "verifiedPhoneSuffix (ac_phone x) \<noteq> Some []"
  using assms(1) [unfolded suffix_agrees_def, rule_format, OF assms(2-5)] by blast+

lemma foldl_add_if: "foldl (\<lambda>total a. if P a then total + f a + g a else total) (n :: int) xs =
    n + sum_list (map (\<lambda>a. f a + g a) (filter P xs))"
  by (induction xs arbitrary: n) auto

lemma sum_list_but_one:
  fixes f :: "'a \<Rightarrow> int"
  assumes "distinct (map key xs)" and "a \<in> set xs" and "P a"
  shows "f a + sum_list (map f (filter (\<lambda>l. P l \<and> key l \<noteq> key a) xs)) = sum_list (map f (filter P xs))"
  using assms
proof (induction xs)
  case (Cons x xs)
  show ?case
  proof (cases "x = a")
    case True
    from Cons.prems(1) True have "key a \<notin> key ` set xs" by simp
    then have "key l \<noteq> key a" if "l \<in> set xs" for l using that by (metis imageI)
    then have "filter (\<lambda>l. P l \<and> key l \<noteq> key a) xs = filter P xs" by (auto intro: filter_cong)
    with True Cons.prems(3) show ?thesis by simp
  next
    case False
    with Cons.prems have "key x \<noteq> key a" "a \<in> set xs" by auto
    with Cons show ?thesis by auto
  qed
qed simp

lemma find_account_eq:
  assumes "distinct (map ac_id (db_accounts db))" and "a \<in> set (db_accounts db)"
  shows "find_account db (ac_id a) = Some a"
proof -
  have "List.find (\<lambda>b. ac_id b = ac_id a) xs = Some a" if "distinct (map ac_id xs)" "a \<in> set xs" for xs
    using that by (induction xs) force+
  with assms show ?thesis by (simp add: find_account_def)
qed

definition same_person :: "(js_string \<Rightarrow> js_string option) \<Rightarrow> js_string \<Rightarrow> account_row \<Rightarrow> bool" where
  "same_person lib e l \<longleftrightarrow> ac_phoneVerified l \<and> toE164OrNull lib (ac_phone l) = Some e"

lemma fewer_rows:
  assumes "\<And>row. narrow row \<Longrightarrow> wide row"
  shows "length (filter narrow rows) \<le> length (filter wide rows)"
  using assms by (induction rows) (auto intro: le_SucI)

lemma filter_linked:
  "(\<And>l. la_phone (h l) = ac_phone l) \<Longrightarrow>
   filter (\<lambda>x. toE164OrNull lib (la_phone x) = Some e) (map h (filter Q xs)) =
   map h (filter (\<lambda>l. Q l \<and> toE164OrNull lib (ac_phone l) = Some e) xs)"
  by (induction xs) auto

lemma identity_count:
  assumes "distinct (map ac_id (db_accounts db))" and "a \<in> set (db_accounts db)" and "suffix_agrees lib db"
    and "same_person lib e a" and "e \<noteq> []"
  shows "sumBuyerIdentityTickets lib (buyer_query db t (ac_id a) p excl pend) =
    sum_list (map (\<lambda>l. confirmedTicketCount db (ac_id l) p excl) (filter (same_person lib e) (db_accounts db))) +
    (if pend then sum_list (map (\<lambda>l. unexpiredPendingSeatCount db t (ac_id l) p)
       (filter (\<lambda>l. same_person lib e l \<and> ac_id l \<noteq> ac_id a) (db_accounts db))) else 0)"
proof -
  let ?f = "\<lambda>l. confirmedTicketCount db (ac_id l) p excl"
  let ?g = "\<lambda>l. if pend then unexpiredPendingSeatCount db t (ac_id l) p else 0"
  let ?L = "filter (\<lambda>l. same_person lib e l \<and> ac_id l \<noteq> ac_id a) (db_accounts db)"
  have suffix: "verifiedPhoneSuffix (ac_phone l) \<noteq> None \<and> verifiedPhoneSuffix (ac_phone l) = verifiedPhoneSuffix (ac_phone a)"
    if "l \<in> set (db_accounts db)" "toE164OrNull lib (ac_phone l) = Some e" for l
  proof
    show "verifiedPhoneSuffix (ac_phone l) \<noteq> None"
      using that(2) by (cases "ac_phone l") (simp_all add: toE164OrNull_def verifiedPhoneSuffix_def)
    show "verifiedPhoneSuffix (ac_phone l) = verifiedPhoneSuffix (ac_phone a)"
      using suffix_agreesD(1) [OF assms(3) that(1) assms(2) that(2)] assms(4) by (simp add: same_person_def)
  qed
  have "filter (\<lambda>l. toE164OrNull lib (la_phone l) = Some e) (linked_accounts db t p excl pend a) =
      map (\<lambda>l. \<lparr>la_phone = ac_phone l, la_active_ticket_count = Some (?f l),
        la_pending_seat_count = (if pend then Some (unexpiredPendingSeatCount db t (ac_id l) p) else None)\<rparr>) ?L"
  proof -
    have "ac_phoneVerified a" using assms(4) by (simp add: same_person_def)
    then have "filter (\<lambda>l. (ac_phoneVerified a \<and> ac_phoneVerified l \<and> ac_id l \<noteq> ac_id a \<and> verifiedPhoneSuffix (ac_phone l) \<noteq> None
          \<and> verifiedPhoneSuffix (ac_phone l) = verifiedPhoneSuffix (ac_phone a)) \<and> toE164OrNull lib (ac_phone l) = Some e)
        (db_accounts db) = ?L"
      using suffix by (intro filter_cong refl) (auto simp: same_person_def)
    then show ?thesis unfolding linked_accounts_def by (subst filter_linked) simp_all
  qed
  moreover have "toE164OrNull lib (bt_phone (buyer_query db t (ac_id a) p excl pend)) = Some e"
    "bt_phone_verified (buyer_query db t (ac_id a) p excl pend)"
    "bt_linked_phone_accounts (buyer_query db t (ac_id a) p excl pend) = linked_accounts db t p excl pend a"
    "bt_active_ticket_count (buyer_query db t (ac_id a) p excl pend) = Some (?f a)"
    using assms(4) by (simp_all add: buyer_query_def find_account_eq [OF assms(1,2)] same_person_def)
  moreover have "map (\<lambda>x. toCount (la_active_ticket_count x) + toCount (la_pending_seat_count x))
      (map (\<lambda>l. \<lparr>la_phone = ac_phone l, la_active_ticket_count = Some (?f l),
        la_pending_seat_count = (if pend then Some (unexpiredPendingSeatCount db t (ac_id l) p) else None)\<rparr>) ?L) =
      map (\<lambda>l. ?f l + ?g l) ?L" by (cases pend) (simp_all add: toCount_def)
  ultimately have "sumBuyerIdentityTickets lib (buyer_query db t (ac_id a) p excl pend) =
      ?f a + sum_list (map (\<lambda>l. ?f l + ?g l) ?L)"
    using assms(5) unfolding sumBuyerIdentityTickets_def foldl_add_if by (simp only: Let_def if_True if_False option.simps toCount_def or_else.simps)
  also have "\<dots> = ?f a + sum_list (map ?f ?L) + sum_list (map ?g ?L)" by (simp add: sum_list_addf)
  also have "?f a + sum_list (map ?f ?L) = sum_list (map ?f (filter (same_person lib e) (db_accounts db)))"
    by (rule sum_list_but_one [where P = "same_person lib e" and a = a, OF assms(1,2,4)])
  finally show ?thesis by (cases pend) simp_all
qed


definition demo_limit :: limit_db where
  "demo_limit = \<lparr>db_tickets =
      [\<lparr>tk_user = ''u1'', tk_performance = ''p'', tk_reservation = ''r1'', tk_reservationStatus = ''CONFIRMED'', tk_status = ''active''\<rparr>],
     db_pending = [],
     db_accounts = [\<lparr>ac_id = ''u1'', ac_phone = Some ''010-1234-5678'', ac_phoneVerified = True\<rparr>,
                    \<lparr>ac_id = ''u2'', ac_phone = Some ''01012345678'', ac_phoneVerified = True\<rparr>]\<rparr>"

lemma strip_noise_printable:
  "printable s \<Longrightarrow> strip_noise s = filter (\<lambda>c. c \<notin> {CHR ''-'', CHR ''('', CHR '')''}) s"
proof (induction s)
  case (Cons c s)
  have "\<not> prefix w (c # s)" if "w \<in> set js_whitespace" for w
    using prefix_not_printable [of w "c # s"] js_whitespace_heads that Cons.prems by blast
  then have "lead_len js_whitespace (c # s) = 0" by (intro lead_len_0) blast
  moreover have "lead_len (ws @ vs) x = (if lead_len ws x = 0 then lead_len vs x else lead_len ws x)"
    if "\<forall>w \<in> set ws. w \<noteq> []" for ws vs x using that by (induction ws) auto
  moreover have "\<forall>w \<in> set js_whitespace. w \<noteq> []" using js_whitespace_heads by blast
  ultimately have "lead_len phone_noise (c # s) = (if c \<in> {CHR ''-'', CHR ''('', CHR '')''} then 1 else 0)"
    by (simp add: phone_noise_def)
  moreover have "printable s" using Cons.prems by (simp add: printable_def)
  ultimately show ?case using Cons.IH by simp
qed simp

lemma normalizeFullWidth_printable: "printable s \<Longrightarrow> normalizeFullWidth s = s"
  by (induction s rule: normalizeFullWidth.induct) (auto simp: printable_def)

lemma demo_parse: "parseE164 lib ''010-1234-5678'' = Some ''+821012345678''" "parseE164 lib ''01012345678'' = Some ''+821012345678''"
  by (simp_all add: parseE164_def strip_noise_printable normalizeFullWidth_printable printable_def is_korean_mobile_def is_digit_def Let_def
      del: strip_noise.simps normalizeFullWidth.simps)


end
