(* ===== verification/FreshReads.thy ===== *)
theory FreshReads
  imports Prelude "HOL-Library.Multiset"
begin

text \<open>
  The read batcher of \<open>apps/api/src/common/fresh-read-batcher.ts\<close>: \<open>FreshReadBatcher\<close>, which joins the reads
  of one turn into one query and never caches, and the caller counts of \<open>coalesceFreshReads\<close>. The
  booking service reads seats, policies and ticket counts through it.

  A promise is a number; \<open>pending\<close> is the insertion-ordered \<open>Map\<close>. The event loop is the step relation
  \<open>fr_step\<close>: a call of \<open>read\<close>, the \<open>setImmediate\<close> callback \<open>flush\<close>, the moment the query reads the
  database, its completion or failure, and a write of the database by anyone. The history of the
  database is kept as a list of its versions, only to state freshness.
\<close>

section \<open>The batcher\<close>

record 'k batcher =
  pending :: "('k \<times> nat list) list"
  scheduled :: bool
  running :: bool
  inflight :: "('k \<times> nat list) list"

definition new_batcher :: "'k batcher" where
  "new_batcher = \<lparr>pending = [], scheduled = False, running = False, inflight = []\<rparr>"

fun add_waiter :: "'k \<Rightarrow> nat \<Rightarrow> ('k \<times> nat list) list \<Rightarrow> ('k \<times> nat list) list" where
  "add_waiter k x [] = [(k, [x])]"
| "add_waiter k x ((k', ws) # ps) = (if k' = k then (k', ws @ [x]) # ps else (k', ws) # add_waiter k x ps)"

definition schedule :: "'k batcher \<Rightarrow> 'k batcher" where
  "schedule b = (if scheduled b \<or> running b \<or> pending b = [] then b else b\<lparr>scheduled := True\<rparr>)"

definition read_key :: "'k \<Rightarrow> nat \<Rightarrow> 'k batcher \<Rightarrow> 'k batcher" where
  "read_key k x b = schedule (b\<lparr>pending := add_waiter k x (pending b)\<rparr>)"

fun take_batch :: "nat \<Rightarrow> ('k \<times> nat list) list \<Rightarrow> ('k \<times> nat list) list \<Rightarrow> ('k \<times> nat list) list \<times> ('k \<times> nat list) list" where
  "take_batch mx batch [] = (batch, [])"
| "take_batch mx batch (p # ps) =
     (if length (batch @ [p]) \<ge> mx then (batch @ [p], ps) else take_batch mx (batch @ [p]) ps)"

definition flush_start :: "nat \<Rightarrow> 'k batcher \<Rightarrow> 'k batcher" where
  "flush_start mx b =
     (let (batch, rest) = take_batch mx [] (pending b)
      in b\<lparr>pending := rest, scheduled := False, running := True, inflight := batch\<rparr>)"

definition flush_end :: "'k batcher \<Rightarrow> 'k batcher" where
  "flush_end b = schedule (b\<lparr>running := False, inflight := []\<rparr>)"

datatype 'v outcome = Resolved "'v option" | Rejected

definition resolve_batch :: "('k \<rightharpoonup> 'v) \<Rightarrow> ('k \<times> nat list) list \<Rightarrow> (nat \<times> 'v outcome) list" where
  "resolve_batch values batch = concat (map (\<lambda>(k, ws). map (\<lambda>x. (x, Resolved (values k))) ws) batch)"

definition reject_batch :: "('k \<times> nat list) list \<Rightarrow> (nat \<times> 'v outcome) list" where
  "reject_batch batch = concat (map (\<lambda>(k, ws). map (\<lambda>x. (x, Rejected)) ws) batch)"

section \<open>The event loop\<close>

record ('k, 'v) fworld =
  fw_batcher :: "'k batcher"
  fw_loaded :: "('k \<rightharpoonup> 'v) option"
  fw_versions :: "('k \<rightharpoonup> 'v) list"
  fw_calls :: "('k \<times> nat) list"
  fw_answers :: "(nat \<times> 'v outcome) list"

text \<open>Call \<open>x\<close> of \<open>read\<close> is entry \<open>x\<close> of \<open>fw_calls\<close>: its key and the version current at the call.\<close>

abbreviation current :: "('k, 'v) fworld \<Rightarrow> nat" where
  "current w \<equiv> length (fw_versions w) - 1"

definition fr_init :: "('k \<rightharpoonup> 'v) \<Rightarrow> ('k, 'v) fworld" where
  "fr_init db = \<lparr>fw_batcher = new_batcher, fw_loaded = None, fw_versions = [db], fw_calls = [], fw_answers = []\<rparr>"

definition do_read :: "'k \<Rightarrow> ('k, 'v) fworld \<Rightarrow> ('k, 'v) fworld" where
  "do_read k w = w\<lparr>fw_batcher := read_key k (length (fw_calls w)) (fw_batcher w), fw_calls := fw_calls w @ [(k, current w)]\<rparr>"

definition do_flush :: "nat \<Rightarrow> ('k, 'v) fworld \<Rightarrow> ('k, 'v) fworld" where
  "do_flush mx w = w\<lparr>fw_batcher := flush_start mx (fw_batcher w), fw_loaded := None\<rparr>"

definition do_query :: "('k, 'v) fworld \<Rightarrow> ('k, 'v) fworld" where
  "do_query w = w\<lparr>fw_loaded := Some (last (fw_versions w))\<rparr>"

definition do_finish :: "(nat \<times> 'v outcome) list \<Rightarrow> ('k, 'v) fworld \<Rightarrow> ('k, 'v) fworld" where
  "do_finish ans w = w\<lparr>fw_batcher := flush_end (fw_batcher w), fw_loaded := None, fw_answers := fw_answers w @ ans\<rparr>"

inductive fr_step :: "nat \<Rightarrow> ('k, 'v) fworld \<Rightarrow> ('k, 'v) fworld \<Rightarrow> bool" for mx :: nat where
  Read: "fr_step mx w (do_read k w)"
| Flush: "scheduled (fw_batcher w) \<Longrightarrow> fr_step mx w (do_flush mx w)"
| Query: "running (fw_batcher w) \<Longrightarrow> fw_loaded w = None \<Longrightarrow> fr_step mx w (do_query w)"
| Done: "running (fw_batcher w) \<Longrightarrow> fw_loaded w = Some db \<Longrightarrow>
    fr_step mx w (do_finish (resolve_batch db (inflight (fw_batcher w))) w)"
| Fail: "running (fw_batcher w) \<Longrightarrow> fr_step mx w (do_finish (reject_batch (inflight (fw_batcher w))) w)"
| Write: "fr_step mx w (w\<lparr>fw_versions := fw_versions w @ [db]\<rparr>)"

inductive fr_reach :: "nat \<Rightarrow> ('k, 'v) fworld \<Rightarrow> bool" for mx :: nat where
  Init: "fr_reach mx (fr_init db)"
| Step: "fr_reach mx w \<Longrightarrow> fr_step mx w w' \<Longrightarrow> fr_reach mx w'"

section \<open>The loop that serves what is pending\<close>

definition fr_round :: "nat \<Rightarrow> ('k, 'v) fworld \<Rightarrow> ('k, 'v) fworld" where
  "fr_round mx w =
     (let w1 = do_query (do_flush mx w)
      in do_finish (resolve_batch (last (fw_versions w1)) (inflight (fw_batcher w1))) w1)"

lemma take_batch_eq:
  "length batch < mx \<Longrightarrow> take_batch mx batch ps = (batch @ take (mx - length batch) ps, drop (mx - length batch) ps)"
proof (induction mx batch ps rule: take_batch.induct)
  case (2 mx batch p ps)
  show ?case
  proof (cases "length (batch @ [p]) \<ge> mx")
    case True
    with 2(2) have "mx - length batch = 1" by simp
    with True show ?thesis by simp
  next
    case False
    with 2(1) [OF False] have "take_batch mx (batch @ [p]) ps =
        (batch @ [p] @ take (mx - length (batch @ [p])) ps, drop (mx - length (batch @ [p])) ps)" by simp
    moreover have "mx - length batch = Suc (mx - length (batch @ [p]))" using False by simp
    ultimately show ?thesis using False by simp
  qed
qed simp

lemma flush_start_eq:
  "0 < mx \<Longrightarrow> flush_start mx b =
     b\<lparr>pending := drop mx (pending b), scheduled := False, running := True, inflight := take mx (pending b)\<rparr>"
  by (simp add: flush_start_def take_batch_eq)

lemma fr_round_pending:
  "0 < mx \<Longrightarrow> pending (fw_batcher (fr_round mx w)) = drop mx (pending (fw_batcher w))"
  by (simp add: fr_round_def do_query_def do_flush_def do_finish_def flush_start_eq flush_end_def schedule_def Let_def)

function drain :: "nat \<Rightarrow> ('k, 'v) fworld \<Rightarrow> ('k, 'v) fworld" where
  "drain mx w =
     (if mx = 0 \<or> \<not> scheduled (fw_batcher w) \<or> pending (fw_batcher w) = [] then w else drain mx (fr_round mx w))"
  by pat_completeness auto
termination
  by (relation "measure (\<lambda>(mx, w). length (pending (fw_batcher w)))") (auto simp: fr_round_pending)

declare drain.simps [simp del]

section \<open>Invariants\<close>

abbreviation waiters :: "('k \<times> nat list) list \<Rightarrow> nat list" where
  "waiters ps \<equiv> concat (map snd ps)"

definition tidy :: "'k batcher \<Rightarrow> bool" where
  "tidy b \<longleftrightarrow> (scheduled b \<longleftrightarrow> pending b \<noteq> [] \<and> \<not> running b) \<and> (\<not> running b \<longrightarrow> inflight b = [])"

definition accounted :: "('k, 'v) fworld \<Rightarrow> bool" where
  "accounted w \<longleftrightarrow>
     mset (waiters (pending (fw_batcher w)) @ waiters (inflight (fw_batcher w)) @ map fst (fw_answers w)) =
       mset [0..<length (fw_calls w)] \<and>
     (\<forall>(k, ws) \<in> set (pending (fw_batcher w) @ inflight (fw_batcher w)). \<forall>x \<in> set ws. fst (fw_calls w ! x) = k)"

definition served_from :: "('k, 'v) fworld \<Rightarrow> nat \<Rightarrow> nat \<Rightarrow> bool" where
  "served_from w x j \<longleftrightarrow> snd (fw_calls w ! x) \<le> j \<and> j < length (fw_versions w)"

definition fresh :: "('k, 'v) fworld \<Rightarrow> bool" where
  "fresh w \<longleftrightarrow> fw_versions w \<noteq> [] \<and>
     (\<forall>c \<in> set (fw_calls w). snd c \<le> current w) \<and>
     (\<forall>db. fw_loaded w = Some db \<longrightarrow>
        (\<exists>j. db = fw_versions w ! j \<and> j \<le> current w \<and> (\<forall>x \<in> set (waiters (inflight (fw_batcher w))). served_from w x j))) \<and>
     (\<forall>x v. (x, Resolved v) \<in> set (fw_answers w) \<longrightarrow>
        (\<exists>j. served_from w x j \<and> v = (fw_versions w ! j) (fst (fw_calls w ! x))))"

lemma waiters_add: "mset (waiters (add_waiter k x ps)) = add_mset x (mset (waiters ps))"
  by (induction k x ps rule: add_waiter.induct) auto

lemma add_waiter_nonempty [simp]: "add_waiter k x ps \<noteq> []"
  by (induction k x ps rule: add_waiter.induct) simp_all

lemma add_waiter_key:
  "(k', ws) \<in> set (add_waiter k x ps) \<Longrightarrow> y \<in> set ws \<Longrightarrow> (k' = k \<and> y = x) \<or> (\<exists>ws'. (k', ws') \<in> set ps \<and> y \<in> set ws')"
  by (induction k x ps rule: add_waiter.induct) (auto split: if_splits)

lemma schedule_fields [simp]:
  "pending (schedule b) = pending b" "running (schedule b) = running b" "inflight (schedule b) = inflight b"
  "scheduled (schedule b) \<longleftrightarrow> scheduled b \<or> \<not> running b \<and> pending b \<noteq> []"
  by (auto simp: schedule_def)

lemma flush_end_fields [simp]:
  "pending (flush_end b) = pending b" "\<not> running (flush_end b)" "inflight (flush_end b) = []"
  "scheduled (flush_end b) \<longleftrightarrow> scheduled b \<or> pending b \<noteq> []"
  by (auto simp: flush_end_def)

lemma read_key_fields [simp]:
  "pending (read_key k x b) = add_waiter k x (pending b)" "running (read_key k x b) = running b"
  "inflight (read_key k x b) = inflight b" "scheduled (read_key k x b) \<longleftrightarrow> scheduled b \<or> \<not> running b"
  by (auto simp: read_key_def)

lemma resolve_batch_waiters [simp]: "map fst (resolve_batch db batch) = waiters batch"
  by (induction batch) (auto simp: resolve_batch_def comp_def)

lemma reject_batch_waiters [simp]: "map fst (reject_batch batch) = waiters batch"
  by (induction batch) (auto simp: reject_batch_def comp_def)

lemma resolve_batch_in:
  "(x, o') \<in> set (resolve_batch db batch) \<Longrightarrow> \<exists>k ws. (k, ws) \<in> set batch \<and> x \<in> set ws \<and> o' = Resolved (db k)"
  by (auto simp: resolve_batch_def)

lemma reject_batch_in: "(x, o') \<in> set (reject_batch batch) \<Longrightarrow> o' = Rejected"
  by (auto simp: reject_batch_def)

lemmas fr_simps = do_read_def do_flush_def do_query_def do_finish_def

lemma tidy_step:
  assumes "0 < mx" and "tidy (fw_batcher w)" and "fr_step mx w w'"
  shows "tidy (fw_batcher w')"
  using assms(3,2) assms(1) by (cases rule: fr_step.cases) (auto simp: tidy_def fr_simps flush_start_eq)

lemma accounted_lt:
  assumes "accounted w"
  shows "x \<in> set (waiters (pending (fw_batcher w))) \<Longrightarrow> x < length (fw_calls w)"
    "x \<in> set (waiters (inflight (fw_batcher w))) \<Longrightarrow> x < length (fw_calls w)"
    "(x, o') \<in> set (fw_answers w) \<Longrightarrow> x < length (fw_calls w)"
proof -
  have "set (waiters (pending (fw_batcher w)) @ waiters (inflight (fw_batcher w)) @ map fst (fw_answers w)) =
      set [0..<length (fw_calls w)]"
    using assms unfolding accounted_def by (metis mset_eq_setD)
  then have *: "set (waiters (pending (fw_batcher w))) \<union> set (waiters (inflight (fw_batcher w))) \<union>
      fst ` set (fw_answers w) = {0..<length (fw_calls w)}" by (simp add: Un_assoc)
  show "x \<in> set (waiters (pending (fw_batcher w))) \<Longrightarrow> x < length (fw_calls w)"
    "x \<in> set (waiters (inflight (fw_batcher w))) \<Longrightarrow> x < length (fw_calls w)"
    using * by (metis UnCI atLeastLessThan_iff)+
  show "(x, o') \<in> set (fw_answers w) \<Longrightarrow> x < length (fw_calls w)"
    using * by (metis UnCI atLeastLessThan_iff fst_conv image_eqI)
qed

lemma accounted_read:
  assumes "accounted w"
  shows "accounted (do_read k w)"
proof -
  have "fst ((fw_calls w @ [(k, current w)]) ! y) = k'"
    if "(k', ws) \<in> set (add_waiter k (length (fw_calls w)) (pending (fw_batcher w)) @ inflight (fw_batcher w))"
      "y \<in> set ws" for k' ws y
  proof (cases "k' = k \<and> y = length (fw_calls w)")
    case True
    then show ?thesis by simp
  next
    case False
    with that obtain ws' where m: "(k', ws') \<in> set (pending (fw_batcher w) @ inflight (fw_batcher w))" "y \<in> set ws'"
      using add_waiter_key [of k' ws k "length (fw_calls w)" "pending (fw_batcher w)" y] by fastforce
    then have "y < length (fw_calls w)" using accounted_lt(1,2) [OF assms, of y] by fastforce
    moreover have "fst (fw_calls w ! y) = k'" using m assms unfolding accounted_def by blast
    ultimately show ?thesis by (simp add: nth_append)
  qed
  then show ?thesis
    using assms by (auto simp: accounted_def do_read_def waiters_add)
qed

lemma accounted_step:
  assumes "0 < mx" and "tidy (fw_batcher w)" and "accounted w" and "fr_step mx w w'"
  shows "accounted w'"
  using assms(4)
proof (cases rule: fr_step.cases)
  case (Read k)
  with accounted_read [OF assms(3)] show ?thesis by simp
next
  case Flush
  let ?p = "pending (fw_batcher w)"
  have i: "inflight (fw_batcher w) = []" using Flush(2) assms(2) by (simp add: tidy_def)
  have s: "set (drop mx ?p @ take mx ?p) = set ?p" by (metis append_take_drop_id set_append sup_commute)
  have "mset (waiters (drop mx ?p)) + mset (waiters (take mx ?p)) = mset (waiters ?p)"
    by (metis add.commute append_take_drop_id concat_append map_append mset_append)
  then have p: "mset (waiters ?p) = mset (waiters (drop mx ?p)) + mset (waiters (take mx ?p))" by (rule sym)
  from assms(3) i s Flush(1) assms(1) show ?thesis
    by (simp add: accounted_def do_flush_def flush_start_eq p add.assoc)
next
  case (Done db)
  with assms(3) show ?thesis by (simp add: accounted_def do_finish_def add.commute)
next
  case Fail
  with assms(3) show ?thesis by (simp add: accounted_def do_finish_def add.commute)
qed (use assms(3) in \<open>simp_all add: accounted_def fr_simps\<close>)

definition extends_world :: "('k, 'v) fworld \<Rightarrow> ('k, 'v) fworld \<Rightarrow> bool" where
  "extends_world w w' \<longleftrightarrow> prefix (fw_versions w) (fw_versions w') \<and> prefix (fw_calls w) (fw_calls w')"

lemma served_from_mono:
  assumes "extends_world w w'" and "x < length (fw_calls w)" and "served_from w x j"
  shows "served_from w' x j" "fw_versions w' ! j = fw_versions w ! j" "fw_calls w' ! x = fw_calls w ! x"
proof -
  from assms(1) obtain vs cs where e: "fw_versions w' = fw_versions w @ vs" "fw_calls w' = fw_calls w @ cs"
    by (auto simp: extends_world_def prefix_def)
  with assms(2,3) show "served_from w' x j" "fw_versions w' ! j = fw_versions w ! j" "fw_calls w' ! x = fw_calls w ! x"
    by (auto simp: served_from_def nth_append)
qed

text \<open>What a step must give so that freshness is kept: answers and loads that are old, or new and fresh.\<close>

lemma fresh_extend:
  assumes f: "fresh w" and a: "accounted w" and e: "extends_world w w'"
    and calls: "\<And>c. c \<in> set (fw_calls w') \<Longrightarrow> c \<in> set (fw_calls w) \<or> snd c \<le> current w'"
    and loaded: "\<And>db. fw_loaded w' = Some db \<Longrightarrow>
       (fw_loaded w = Some db \<and> inflight (fw_batcher w') = inflight (fw_batcher w)) \<or>
       (\<exists>j. db = fw_versions w' ! j \<and> j \<le> current w' \<and> (\<forall>x \<in> set (waiters (inflight (fw_batcher w'))). served_from w' x j))"
    and answers: "\<And>x v. (x, Resolved v) \<in> set (fw_answers w') \<Longrightarrow> (x, Resolved v) \<in> set (fw_answers w) \<or>
       (\<exists>j. served_from w' x j \<and> v = (fw_versions w' ! j) (fst (fw_calls w' ! x)))"
  shows "fresh w'"
proof -
  from e obtain vs cs where vc: "fw_versions w' = fw_versions w @ vs" "fw_calls w' = fw_calls w @ cs"
    by (auto simp: extends_world_def prefix_def)
  have v: "fw_versions w \<noteq> []" using f by (simp add: fresh_def)
  have cur: "current w \<le> current w'" using vc by simp
  have C: "\<forall>c \<in> set (fw_calls w'). snd c \<le> current w'"
    using calls f cur unfolding fresh_def by (meson le_trans)
  have L: "\<exists>j. db = fw_versions w' ! j \<and> j \<le> current w' \<and> (\<forall>x \<in> set (waiters (inflight (fw_batcher w'))). served_from w' x j)"
    if l: "fw_loaded w' = Some db" for db
    using loaded [OF l]
  proof (elim disjE conjE)
    assume old: "fw_loaded w = Some db" and i: "inflight (fw_batcher w') = inflight (fw_batcher w)"
    then obtain j where j: "db = fw_versions w ! j" "j \<le> current w"
      "\<forall>x \<in> set (waiters (inflight (fw_batcher w))). served_from w x j"
      using f unfolding fresh_def by blast
    have "j < length (fw_versions w)" using j(2) v by (cases "fw_versions w") auto
    then have "db = fw_versions w' ! j" using j(1) vc(1) by (simp add: nth_append)
    moreover have "\<forall>x \<in> set (waiters (inflight (fw_batcher w'))). served_from w' x j"
      using j(3) served_from_mono(1) [OF e] accounted_lt(2) [OF a] unfolding i by blast
    ultimately show ?thesis using le_trans [OF j(2) cur] by blast
  qed
  have A: "\<exists>j. served_from w' x j \<and> v = (fw_versions w' ! j) (fst (fw_calls w' ! x))"
    if ans: "(x, Resolved v) \<in> set (fw_answers w')" for x v
    using answers [OF ans]
  proof (elim disjE)
    assume old: "(x, Resolved v) \<in> set (fw_answers w)"
    then obtain j where j: "served_from w x j" "v = (fw_versions w ! j) (fst (fw_calls w ! x))"
      using f unfolding fresh_def by blast
    show ?thesis using served_from_mono [OF e accounted_lt(3) [OF a old] j(1)] j(2) by auto
  qed
  from v vc C L A show ?thesis unfolding fresh_def by simp
qed

lemma fresh_step:
  assumes "0 < mx" and "accounted w" and "fresh w" and "fr_step mx w w'"
  shows "fresh w'"
  using assms(4)
proof (cases rule: fr_step.cases)
  case (Read k)
  then show ?thesis
    by (intro fresh_extend [OF assms(3,2)]) (auto simp: extends_world_def do_read_def)
next
  case Flush
  then show ?thesis
    by (intro fresh_extend [OF assms(3,2)]) (auto simp: extends_world_def do_flush_def)
next
  case Query
  have v: "fw_versions w \<noteq> []" using assms(3) by (simp add: fresh_def)
  have s: "served_from w' x (current w)" if "x \<in> set (waiters (inflight (fw_batcher w)))" for x
  proof -
    from accounted_lt(2) [OF assms(2) that] have "fw_calls w ! x \<in> set (fw_calls w)" by simp
    then have "snd (fw_calls w ! x) \<le> current w" using assms(3) unfolding fresh_def by blast
    then show ?thesis using v by (simp add: served_from_def Query(1) do_query_def)
  qed
  show ?thesis
  proof (rule fresh_extend [OF assms(3,2)])
    show "extends_world w w'" by (simp add: extends_world_def Query(1) do_query_def)
    fix db assume "fw_loaded w' = Some db"
    then have "db = fw_versions w' ! current w" "current w' = current w"
      "inflight (fw_batcher w') = inflight (fw_batcher w)"
      using v by (auto simp: Query(1) do_query_def last_conv_nth)
    with s show "(fw_loaded w = Some db \<and> inflight (fw_batcher w') = inflight (fw_batcher w)) \<or>
       (\<exists>j. db = fw_versions w' ! j \<and> j \<le> current w' \<and> (\<forall>x \<in> set (waiters (inflight (fw_batcher w'))). served_from w' x j))"
      by (intro disjI2 exI [of _ "current w"]) simp
  qed (simp_all add: Query(1) do_query_def)
next
  case (Done db)
  from assms(3) Done(3) obtain j where j: "db = fw_versions w ! j"
    "\<forall>x \<in> set (waiters (inflight (fw_batcher w))). served_from w x j" unfolding fresh_def by blast
  have "served_from w x j \<and> v = (fw_versions w ! j) (fst (fw_calls w ! x))"
    if r: "(x, Resolved v) \<in> set (resolve_batch db (inflight (fw_batcher w)))" for x v
  proof -
    from resolve_batch_in [OF r] obtain k ws where k: "(k, ws) \<in> set (inflight (fw_batcher w))" "x \<in> set ws" "v = db k"
      by auto
    then have "fst (fw_calls w ! x) = k" using assms(2) unfolding accounted_def by fastforce
    with k j show ?thesis by fastforce
  qed
  then show ?thesis using Done(1)
    by (intro fresh_extend [OF assms(3,2)]) (auto simp: extends_world_def do_finish_def served_from_def)
next
  case Fail
  then show ?thesis
    by (intro fresh_extend [OF assms(3,2)]) (auto simp: extends_world_def do_finish_def dest: reject_batch_in)
next
  case (Write db)
  then show ?thesis
    by (intro fresh_extend [OF assms(3,2)]) (auto simp: extends_world_def)
qed

lemma fr_reach_ok:
  assumes "fr_reach mx w" and "0 < mx"
  shows "tidy (fw_batcher w) \<and> accounted w \<and> fresh w"
  using assms(1)
proof induction
  case (Init db)
  show ?case by (simp add: fr_init_def new_batcher_def tidy_def accounted_def fresh_def)
next
  case (Step w w')
  then show ?case
    using tidy_step [OF assms(2)] accounted_step [OF assms(2)] fresh_step [OF assms(2)] by blast
qed

section \<open>Properties\<close>

text \<open>C38: Coalescing never serves a stale read: whatever the interleaving of calls, batches, queries, failures and
  writes, a call that is answered gets the value its key had in the database at some moment between
  the call and the answer, never an older one and never the value of another key.\<close>
theorem reads_are_fresh:
  assumes "0 < mx" and "fr_reach mx w" and "(x, Resolved v) \<in> set (fw_answers w)"
  shows "x < length (fw_calls w) \<and>
    (\<exists>j. snd (fw_calls w ! x) \<le> j \<and> j < length (fw_versions w) \<and> v = (fw_versions w ! j) (fst (fw_calls w ! x)))"
proof -
  note ok = fr_reach_ok [OF assms(2,1)]
  then have "x < length (fw_calls w)" using accounted_lt(3) [OF _ assms(3)] by blast
  moreover have "\<exists>j. served_from w x j \<and> v = (fw_versions w ! j) (fst (fw_calls w ! x))"
    using ok assms(3) unfolding fresh_def by blast
  ultimately show ?thesis by (simp add: served_from_def)
qed

definition demo_reads :: "(char, nat) fworld" where
  "demo_reads = do_read CHR ''a'' (do_read CHR ''b'' (do_read CHR ''a'' (fr_init [CHR ''a'' \<mapsto> 1])))"

lemma demo_reads_reach: "fr_reach mx demo_reads"
  unfolding demo_reads_def by (intro fr_reach.Step [OF _ fr_step.Read] fr_reach.Init)

lemma fr_round_reach:
  assumes "fr_reach mx w" and "scheduled (fw_batcher w)"
  shows "fr_reach mx (fr_round mx w)"
proof -
  have 1: "fr_reach mx (do_flush mx w)" by (rule fr_reach.Step [OF assms(1) fr_step.Flush [OF assms(2)]])
  have 2: "fr_reach mx (do_query (do_flush mx w))"
    by (rule fr_reach.Step [OF 1 fr_step.Query]) (simp_all add: do_flush_def flush_start_def Let_def split: prod.split)
  show ?thesis
    unfolding fr_round_def Let_def
    by (rule fr_reach.Step [OF 2 fr_step.Done])
      (simp_all add: do_query_def do_flush_def flush_start_def Let_def split: prod.split)
qed

lemma fr_round_idle: "\<not> running (fw_batcher (fr_round mx w))" "fw_calls (fr_round mx w) = fw_calls w"
  by (simp_all add: fr_round_def do_finish_def do_query_def do_flush_def Let_def)

lemma drain_reach:
  assumes "0 < mx"
  shows "fr_reach mx w \<Longrightarrow> \<not> running (fw_batcher w) \<Longrightarrow>
    fr_reach mx (drain mx w) \<and> \<not> running (fw_batcher (drain mx w)) \<and> pending (fw_batcher (drain mx w)) = [] \<and>
    fw_calls (drain mx w) = fw_calls w"
  using assms
proof (induction mx w rule: drain.induct)
  case (1 mx w)
  show ?case
  proof (cases "mx = 0 \<or> \<not> scheduled (fw_batcher w) \<or> pending (fw_batcher w) = []")
    case True
    moreover have "tidy (fw_batcher w)" using fr_reach_ok [OF 1(2,4)] by blast
    ultimately show ?thesis using 1(2-4) by (subst (1 2 3 4) drain.simps) (auto simp: tidy_def)
  next
    case False
    with 1(2) have r: "fr_reach mx (fr_round mx w)" by (blast intro: fr_round_reach)
    from False have "drain mx w = drain mx (fr_round mx w)" by (subst drain.simps) simp
    with 1(1) [OF False r fr_round_idle(1) 1(4)] show ?thesis by (simp add: fr_round_idle)
  qed
qed

text \<open>C39: Every read is answered exactly once: in every reachable state no call has two answers, and once no new
  reads arrive the loop of flushes, which ends because each one takes at least one key off the pending
  map, leaves no call unanswered.\<close>
theorem every_read_answered_once:
  assumes "0 < mx" and "fr_reach mx w"
  shows "distinct (map fst (fw_answers w)) \<and>
    (\<not> running (fw_batcher w) \<longrightarrow> mset (map fst (fw_answers (drain mx w))) = mset [0..<length (fw_calls w)])"
proof
  have count: "mset (map fst (fw_answers w)) \<subseteq># mset [0..<length (fw_calls w)]" if "accounted w" for w :: "('a, 'b) fworld"
    using that unfolding accounted_def by (metis mset_append mset_subset_eq_add_right add.assoc)
  have "accounted w" using fr_reach_ok [OF assms(2,1)] by blast
  from count [OF this] show "distinct (map fst (fw_answers w))"
    by (metis distinct_upt mset_subset_eq_multiset_union_diff_commute distinct_append mset_append ex_mset mset_eq_imp_distinct_iff subset_mset.add_diff_inverse)
  show "\<not> running (fw_batcher w) \<longrightarrow> mset (map fst (fw_answers (drain mx w))) = mset [0..<length (fw_calls w)]"
  proof
    assume idle: "\<not> running (fw_batcher w)"
    note d = drain_reach [OF assms(1,2) idle]
    then have "tidy (fw_batcher (drain mx w)) \<and> accounted (drain mx w)" using fr_reach_ok [OF _ assms(1)] by blast
    moreover from this d have "inflight (fw_batcher (drain mx w)) = []" by (simp add: tidy_def)
    ultimately show "mset (map fst (fw_answers (drain mx w))) = mset [0..<length (fw_calls w)]"
      using d unfolding accounted_def by simp
  qed
qed

lemma every_read_answered_once_witness:
  "mset (map fst (fw_answers (drain 1 demo_reads))) = {#0, 1, 2#}"
proof -
  have "\<not> running (fw_batcher demo_reads)" "length (fw_calls demo_reads) = 3"
    by (simp_all add: demo_reads_def do_read_def fr_init_def new_batcher_def)
  with every_read_answered_once [OF _ demo_reads_reach [of 1]] show ?thesis by (simp add: upt_rec)
qed

lemma reads_are_fresh_witness:
  "\<exists>j. j < length (fw_versions (fr_round 1 demo_reads)) \<and> Some 1 = (fw_versions (fr_round 1 demo_reads) ! j) CHR ''a''"
proof -
  have s: "scheduled (fw_batcher demo_reads)" by (simp add: demo_reads_def do_read_def fr_init_def new_batcher_def)
  have a: "(0, Resolved (Some 1)) \<in> set (fw_answers (fr_round 1 demo_reads))"
    and c: "fw_calls (fr_round 1 demo_reads) ! 0 = (CHR ''a'', 0)"
    by (simp_all add: demo_reads_def fr_round_def do_read_def do_flush_def do_query_def do_finish_def fr_init_def
        new_batcher_def read_key_def schedule_def flush_start_eq flush_end_def resolve_batch_def)
  from reads_are_fresh [OF _ fr_round_reach [OF demo_reads_reach s] a] c show ?thesis by auto
qed

section \<open>Coalescing per key\<close>

text \<open>
  \<open>coalesceFreshReads\<close> keeps one batcher per key while a caller awaits it: the number of callers of each
  entry, counted up on entry and down in the \<open>finally\<close>.
\<close>

definition co_enter :: "'k \<Rightarrow> ('k \<rightharpoonup> nat) \<Rightarrow> ('k \<rightharpoonup> nat)" where
  "co_enter k entries = entries(k \<mapsto> or_else (entries k) 0 + 1)"

definition co_leave :: "'k \<Rightarrow> ('k \<rightharpoonup> nat) \<Rightarrow> ('k \<rightharpoonup> nat)" where
  "co_leave k entries =
     (case entries k of None \<Rightarrow> entries
      | Some n \<Rightarrow> if n - 1 = 0 then entries(k := None) else entries(k \<mapsto> n - 1))"

definition co_callers :: "('k \<rightharpoonup> nat) \<Rightarrow> 'k multiset \<Rightarrow> bool" where
  "co_callers entries calls \<longleftrightarrow> (\<forall>k. entries k = (if k \<in># calls then Some (count calls k) else None))"

text \<open>An entry lives exactly while a call of its key is outstanding, so nothing is cached.\<close>

lemma co_callers_empty: "co_callers (\<lambda>_. None) {#}"
  by (simp add: co_callers_def)

lemma co_callers_enter: "co_callers entries calls \<Longrightarrow> co_callers (co_enter k entries) (add_mset k calls)"
  by (auto simp: co_callers_def co_enter_def not_in_iff)

lemma co_callers_leave:
  assumes "co_callers entries (add_mset k calls)"
  shows "co_callers (co_leave k entries) calls"
proof -
  have k: "entries k = Some (count calls k + 1)" using assms by (simp add: co_callers_def)
  have other: "entries j = (if j \<in># calls then Some (count calls j) else None)" if "j \<noteq> k" for j
    using assms that by (simp add: co_callers_def)
  show ?thesis
    unfolding co_callers_def
  proof
    fix j
    show "co_leave k entries j = (if j \<in># calls then Some (count calls j) else None)"
      by (cases "j = k") (simp_all add: co_leave_def k other not_in_iff)
  qed
qed

end
