(* ===== verification/QueueScripts.thy ===== *)
theory QueueScripts
  imports SeatLocks
begin

text \<open>
  The queue session scripts of \<open>apps/api/src/modules/queue/queue-redis-scripts.ts\<close>, over the keys of one
  performance's hash slot: the session records and identity keys with their deadlines, the sorted set
  of waiting sessions, the set of active sessions, the capacity version, the remaining-seats cache,
  the last assigned order and the reconcile lock. A session record is the record its JSON text holds;
  a timestamp field is the instant its ISO-8601 text denotes (the texts are all made by
  \<open>toISOString\<close>, of one width, so comparing two texts compares the instants, and the empty
  text of a null field is below them all). \<open>transition\<close>, \<open>create_session\<close> and \<open>purge_session\<close> are the Lua
  scripts, the \<open>mirror\<close> definitions their JavaScript counterparts for the in-memory server.
\<close>

section \<open>The hash slot of a performance\<close>

datatype queue_state = Waiting | Admitted | PaymentRecovery | Expired

record session =
  qs_id :: js_string
  qs_performanceId :: js_string
  qs_userId :: js_string
  qs_family :: js_string
  qs_device :: js_string
  qs_tokenHash :: js_string
  qs_state :: queue_state
  qs_enteredAt :: int
  qs_order :: "int option"
  qs_admittedAt :: "int option"
  qs_activeUntilAt :: "int option"
  qs_graceUntilAt :: "int option"
  qs_recoveryUntilAt :: "int option"
  qs_expiresAt :: int

record slot =
  sessions :: "js_string \<Rightarrow> (session \<times> int) option"
  identities :: "js_string \<Rightarrow> (js_string \<times> int) option"
  waiting :: "(js_string \<times> int) list"
  active :: "js_string list"
  capacityVersion :: "js_string option"
  remainingCache :: "(js_string \<times> int) option"
  lastOrder :: "(int \<times> int) option"
  reconcileLock :: "(js_string \<times> int) option"
  throttle :: "(js_string \<times> int) option"

definition empty_slot :: slot where
  "empty_slot = \<lparr>sessions = \<lambda>_. None, identities = \<lambda>_. None, waiting = [], active = [], capacityVersion = None,
     remainingCache = None, lastOrder = None, reconcileLock = None, throttle = None\<rparr>"

text \<open>A key read at time \<open>t\<close>: present while its deadline is ahead.\<close>

fun live :: "int \<Rightarrow> ('v \<times> int) option \<Rightarrow> 'v option" where
  "live t None = None"
| "live t (Some (v, d)) = (if t < d then Some v else None)"

fun pttl :: "int \<Rightarrow> ('v \<times> int) option \<Rightarrow> int" where
  "pttl t None = -2"
| "pttl t (Some (v, d)) = (if t < d then d - t else -2)"

definition GET_SESSION :: "int \<Rightarrow> slot \<Rightarrow> js_string \<Rightarrow> session option" where
  "GET_SESSION t s sid = live t (sessions s sid)"

section \<open>Sorted sets\<close>

fun zinsert :: "js_string \<times> int \<Rightarrow> (js_string \<times> int) list \<Rightarrow> (js_string \<times> int) list" where
  "zinsert e [] = [e]"
| "zinsert e (f # z) =
     (if snd e < snd f \<or> (snd e = snd f \<and> fst e < fst f) then e # f # z else f # zinsert e z)"

definition ZREM :: "js_string \<Rightarrow> slot \<Rightarrow> slot" where
  "ZREM sid s = s\<lparr>waiting := filter (\<lambda>e. fst e \<noteq> sid) (waiting s)\<rparr>"

definition ZADD :: "int \<Rightarrow> js_string \<Rightarrow> slot \<Rightarrow> slot" where
  "ZADD score sid s = s\<lparr>waiting := zinsert (sid, score) (filter (\<lambda>e. fst e \<noteq> sid) (waiting s))\<rparr>"

definition ZADD_NX :: "int \<Rightarrow> js_string \<Rightarrow> slot \<Rightarrow> slot" where
  "ZADD_NX score sid s = (if sid \<in> fst ` set (waiting s) then s else ZADD score sid s)"

fun zrank :: "js_string \<Rightarrow> (js_string \<times> int) list \<Rightarrow> nat option" where
  "zrank x [] = None"
| "zrank x (e # z) = (if fst e = x then Some 0 else map_option Suc (zrank x z))"

definition SREM_active :: "js_string \<Rightarrow> slot \<Rightarrow> slot" where
  "SREM_active sid s = s\<lparr>active := filter (\<lambda>x. x \<noteq> sid) (active s)\<rparr>"

definition SADD_active :: "js_string \<Rightarrow> slot \<Rightarrow> slot" where
  "SADD_active sid s = (if sid \<in> set (active s) then s else s\<lparr>active := active s @ [sid]\<rparr>)"

section \<open>The session transition script\<close>

text \<open>\<open>Admit admittedAt activeUntilAt graceUntilAt expiresAt ttl capacity version\<close>: no capacity is the
  admission of the Admin Booking Bypass. \<open>Touch\<close> with hash \<open>''''\<close> keeps the token. \<open>Expire None\<close>
  expects any authority.\<close>

datatype queue_op =
    Admit int int int int int "int option" js_string
  | Touch js_string "(int \<times> int) option" int bool
  | Recovery int int int int
  | Expire "(queue_state \<times> int option \<times> int option) option" int int
  | Release int int

record queue_reply =
  applied :: bool
  reply_status :: js_string
  reply_session :: "session option"
  previousTokenHash :: js_string
  reply_ttl :: int

fun state_text :: "queue_state \<Rightarrow> js_string" where
  "state_text Waiting = ''WAITING''"
| "state_text Admitted = ''ADMITTED''"
| "state_text PaymentRecovery = ''PAYMENT_RECOVERY''"
| "state_text Expired = ''EXPIRED''"

definition refuse :: "js_string \<Rightarrow> session \<Rightarrow> queue_reply" where
  "refuse st r = \<lparr>applied = False, reply_status = st, reply_session = Some r,
     previousTokenHash = qs_tokenHash r, reply_ttl = 0\<rparr>"

definition grant :: "js_string \<Rightarrow> session \<Rightarrow> session \<Rightarrow> int \<Rightarrow> queue_reply" where
  "grant st r r' ttl = \<lparr>applied = True, reply_status = st, reply_session = Some r',
     previousTokenHash = qs_tokenHash r, reply_ttl = ttl\<rparr>"

definition missing_reply :: queue_reply where
  "missing_reply = \<lparr>applied = False, reply_status = ''MISSING'', reply_session = None,
     previousTokenHash = [], reply_ttl = 0\<rparr>"

definition currentTtlMs :: "int \<Rightarrow> js_string \<Rightarrow> slot \<Rightarrow> int" where
  "currentTtlMs t sid s = (let p = pttl t (sessions s sid) in if p < 1 then 1000 else p)"

definition lua_ttl :: "int \<Rightarrow> int" where
  "lua_ttl ms = max 1 ms"

definition put_session :: "int \<Rightarrow> js_string \<Rightarrow> js_string \<Rightarrow> session \<Rightarrow> int \<Rightarrow> slot \<Rightarrow> slot" where
  "put_session t sid ik r ttl s =
     (let s1 = s\<lparr>sessions := (sessions s)(sid := Some (r, t + ttl))\<rparr>;
          owner = live t (identities s ik)
      in if owner = None \<or> owner = Some sid
         then s1\<lparr>identities := (identities s1)(ik := Some (sid, t + ttl))\<rparr> else s1)"

definition admitted_record :: "int \<Rightarrow> int \<Rightarrow> int \<Rightarrow> int \<Rightarrow> session \<Rightarrow> session" where
  "admitted_record at until grace exp r =
     r\<lparr>qs_state := Admitted, qs_admittedAt := Some at, qs_activeUntilAt := Some until,
       qs_graceUntilAt := Some grace, qs_recoveryUntilAt := None, qs_expiresAt := exp\<rparr>"

definition admit_refusal :: "js_string \<Rightarrow> int option \<Rightarrow> js_string \<Rightarrow> slot \<Rightarrow> js_string option" where
  "admit_refusal sid capacity ver s =
     (case capacity of None \<Rightarrow> None
      | Some c \<Rightarrow>
          if or_else (capacityVersion s) ''0'' \<noteq> ver then Some ''STALE_CAPACITY''
          else (case zrank sid (waiting s) of
              None \<Rightarrow> Some ''NOT_QUEUED''
            | Some rank \<Rightarrow> if int rank \<ge> c - int (length (active s)) then Some ''NO_CAPACITY'' else None))"

definition fingerprint :: "session \<Rightarrow> queue_state \<times> int option \<times> int option" where
  "fingerprint r = (qs_state r, qs_activeUntilAt r, qs_recoveryUntilAt r)"

fun null_less_eq :: "int \<Rightarrow> int option \<Rightarrow> bool" where
  "null_less_eq target None = False"
| "null_less_eq target (Some v) = (v \<ge> target)"

fun apply_op ::
  "int \<Rightarrow> js_string \<Rightarrow> js_string \<Rightarrow> queue_op \<Rightarrow> session \<Rightarrow> slot \<Rightarrow> queue_reply \<times> slot" where
  "apply_op t sid ik (Admit at until grace exp ttlMs capacity ver) r s =
     (if qs_state r \<noteq> Waiting then (refuse (state_text (qs_state r)) r, ZREM sid s)
      else case admit_refusal sid capacity ver s of
          Some reason \<Rightarrow> (refuse reason r, s)
        | None \<Rightarrow>
            let r' = admitted_record at until grace exp r; ttl = lua_ttl ttlMs
            in (grant ''ADMITTED'' r r' ttl, SADD_active sid (ZREM sid (put_session t sid ik r' ttl s))))"
| "apply_op t sid ik (Touch hash renewal order recover) r s =
     (let r1 = (if hash \<noteq> [] then r\<lparr>qs_tokenHash := hash\<rparr> else r) in
      if qs_state r = Expired then
        if \<not> recover then (refuse ''EXPIRED'' r, s)
        else (let ttl = lua_ttl (currentTtlMs t sid s)
              in (grant ''EXPIRED'' r r1 ttl, put_session t sid ik r1 ttl s))
      else
        let (r2, ttlMs, s2) =
          (if qs_state r = Waiting then
             (case renewal of Some (exp, ms) \<Rightarrow> r1\<lparr>qs_expiresAt := exp\<rparr> | None \<Rightarrow> r1,
              case renewal of Some (exp, ms) \<Rightarrow> ms | None \<Rightarrow> currentTtlMs t sid s,
              ZADD_NX (or_else (qs_order r) order) sid (SREM_active sid s))
           else (r1, currentTtlMs t sid s, s));
            ttl = lua_ttl ttlMs
        in (grant (state_text (qs_state r)) r r2 ttl, put_session t sid ik r2 ttl s2))"
| "apply_op t sid ik (Recovery at until exp ttlMs) r s =
     (if qs_state r \<noteq> Admitted \<or> qs_admittedAt r \<noteq> Some at then (refuse (state_text (qs_state r)) r, s)
      else if null_less_eq until (qs_recoveryUntilAt r) then (refuse ''UNCHANGED'' r, s)
      else
        let r' = r\<lparr>qs_recoveryUntilAt := Some until, qs_expiresAt := exp\<rparr>; ttl = lua_ttl ttlMs
        in (grant ''ADMITTED'' r r' ttl, put_session t sid ik r' ttl s))"
| "apply_op t sid ik (Expire expected exp ttlMs) r s =
     (if qs_state r = Expired then (refuse ''EXPIRED'' r, SREM_active sid (ZREM sid s))
      else if expected \<noteq> None \<and> expected \<noteq> Some (fingerprint r) then (refuse ''CHANGED'' r, s)
      else
        let r' = r\<lparr>qs_state := Expired, qs_expiresAt := exp\<rparr>; ttl = lua_ttl ttlMs
        in (grant ''EXPIRED'' r r' ttl, SREM_active sid (ZREM sid (put_session t sid ik r' ttl s))))"
| "apply_op t sid ik (Release exp ttlMs) r s =
     (if qs_state r = Expired then (refuse ''EXPIRED'' r, SREM_active sid (ZREM sid s))
      else if qs_state r = Waiting then (refuse ''WAITING'' r, s)
      else
        let r' = r\<lparr>qs_state := Expired, qs_expiresAt := exp\<rparr>; ttl = lua_ttl ttlMs
        in (grant ''EXPIRED'' r r' ttl, SREM_active sid (ZREM sid (put_session t sid ik r' ttl s))))"

definition transition ::
  "int \<Rightarrow> js_string \<Rightarrow> js_string \<Rightarrow> queue_op \<Rightarrow> slot \<Rightarrow> queue_reply \<times> slot" where
  "transition t sid ik q s =
     (case GET_SESSION t s sid of
        None \<Rightarrow> (missing_reply, SREM_active sid (ZREM sid s))
      | Some r \<Rightarrow> apply_op t sid ik q r s)"

section \<open>Capacity, creation and purge\<close>

definition read_capacity :: "int \<Rightarrow> slot \<Rightarrow> js_string \<times> js_string" where
  "read_capacity t s = (or_else (live t (remainingCache s)) [], or_else (capacityVersion s) ''0'')"

definition cache_capacity :: "int \<Rightarrow> js_string \<Rightarrow> js_string \<Rightarrow> int \<Rightarrow> slot \<Rightarrow> bool \<times> slot" where
  "cache_capacity t ver val seconds s =
     (if or_else (capacityVersion s) ''0'' \<noteq> ver then (False, s)
      else (True, s\<lparr>remainingCache := Some (val, t + seconds * 1000)\<rparr>))"

definition invalidate_capacity :: "js_string \<Rightarrow> slot \<Rightarrow> slot" where
  "invalidate_capacity ver s = s\<lparr>capacityVersion := Some ver, remainingCache := None\<rparr>"

definition create_session ::
  "int \<Rightarrow> js_string \<Rightarrow> js_string \<Rightarrow> session \<Rightarrow> int \<Rightarrow> int \<Rightarrow> slot \<Rightarrow> (bool \<times> js_string) \<times> slot" where
  "create_session t ik sid r ttlMs score s =
     (case live t (identities s ik) of
        Some owner \<Rightarrow> ((False, owner), s)
      | None \<Rightarrow>
          let ttl = lua_ttl ttlMs;
              previous = or_else (live t (lastOrder s)) 0;
              tailOrder = (if waiting s = [] then 0 else snd (last (waiting s)));
              order = max score (max (previous + 1) (tailOrder + 1))
          in ((True, sid),
              ZADD order sid
                (s\<lparr>lastOrder := Some (order, t + ttl),
                   sessions := (sessions s)(sid := Some (r\<lparr>qs_order := Some order\<rparr>, t + ttl)),
                   identities := (identities s)(ik := Some (sid, t + ttl))\<rparr>)))"

definition purge_session :: "int \<Rightarrow> js_string \<Rightarrow> js_string \<Rightarrow> int \<Rightarrow> slot \<Rightarrow> bool \<times> slot" where
  "purge_session t sid ik nowIso s =
     (case GET_SESSION t s sid of
        Some r \<Rightarrow>
          if qs_state r \<noteq> Expired \<and> qs_expiresAt r > nowIso then (False, s)
          else
            let s1 = SREM_active sid (ZREM sid (s\<lparr>sessions := (sessions s)(sid := None)\<rparr>)) in
            (True, if live t (identities s1 ik) = Some sid
                   then s1\<lparr>identities := (identities s1)(ik := None)\<rparr> else s1)
      | None \<Rightarrow>
          let s1 = SREM_active sid (ZREM sid s) in
          (True, if live t (identities s1 ik) = Some sid
                 then s1\<lparr>identities := (identities s1)(ik := None)\<rparr> else s1))"

fun count_valid :: "'s redis \<Rightarrow> js_string \<Rightarrow> js_string \<Rightarrow> js_string list \<Rightarrow> 's \<Rightarrow> nat \<times> 's" where
  "count_valid R set_key keyPrefix [] s = (0, s)"
| "count_valid R set_key keyPrefix (x # xs) s =
     (if GET R s (keyPrefix @ x) \<noteq> None
      then (let (n, s') = count_valid R set_key keyPrefix xs s in (Suc n, s'))
      else count_valid R set_key keyPrefix xs (SREM R set_key x s))"

definition count_valid_locked_seats_lua :: "'s redis \<Rightarrow> js_string \<Rightarrow> js_string \<Rightarrow> 's \<Rightarrow> nat \<times> 's" where
  "count_valid_locked_seats_lua R set_key keyPrefix s = count_valid R set_key keyPrefix (SMEMBERS R s set_key) s"

definition release_reconcile_lock :: "int \<Rightarrow> js_string \<Rightarrow> slot \<Rightarrow> bool \<times> slot" where
  "release_reconcile_lock t token s =
     (if live t (reconcileLock s) = Some token then (True, s\<lparr>reconcileLock := None\<rparr>) else (False, s))"

section \<open>The JavaScript mirror of the scripts\<close>

text \<open>\<open>runQueueScriptInMemory\<close> and \<open>evalTransitionInMemory\<close>. The mirror reads a TTL with
  \<open>Number(ttlMs) || 1000\<close>, so a TTL of 0 becomes one second, where the script takes 1 ms; it tests
  the rank instead of using \<open>ZADD NX\<close>; and an empty identity value counts as no owner.\<close>

definition js_ttl :: "int \<Rightarrow> int" where
  "js_ttl ms = max 1 (if ms = 0 then 1000 else ms)"

definition mirror_save :: "int \<Rightarrow> js_string \<Rightarrow> js_string \<Rightarrow> session \<Rightarrow> int \<Rightarrow> slot \<Rightarrow> slot \<times> int" where
  "mirror_save t sid ik r ttlMs s =
     (let ttl = js_ttl ttlMs;
          s1 = s\<lparr>sessions := (sessions s)(sid := Some (r, t + ttl))\<rparr>
      in (case live t (identities s1 ik) of
            None \<Rightarrow> s1\<lparr>identities := (identities s1)(ik := Some (sid, t + ttl))\<rparr>
          | Some owner \<Rightarrow>
              if owner = [] \<or> owner = sid
              then s1\<lparr>identities := (identities s1)(ik := Some (sid, t + ttl))\<rparr> else s1, ttl))"

definition mirror_pttl :: "int \<Rightarrow> js_string \<Rightarrow> slot \<Rightarrow> int" where
  "mirror_pttl t sid s = (if pttl t (sessions s sid) < 1 then 1000 else pttl t (sessions s sid))"

definition mirror_admit_refusal :: "js_string \<Rightarrow> int option \<Rightarrow> js_string \<Rightarrow> slot \<Rightarrow> js_string option" where
  "mirror_admit_refusal sid capacity ver s =
     (case capacity of None \<Rightarrow> None
      | Some c \<Rightarrow>
          if or_else (capacityVersion s) ''0'' \<noteq> ver then Some ''STALE_CAPACITY''
          else if zrank sid (waiting s) = None then Some ''NOT_QUEUED''
          else if int (the (zrank sid (waiting s))) \<ge> c - int (length (active s)) then Some ''NO_CAPACITY''
          else None)"

fun mirror_apply ::
  "int \<Rightarrow> js_string \<Rightarrow> js_string \<Rightarrow> queue_op \<Rightarrow> session \<Rightarrow> slot \<Rightarrow> queue_reply \<times> slot" where
  "mirror_apply t sid ik (Admit at until grace exp ttlMs capacity ver) r s =
     (if qs_state r \<noteq> Waiting then (refuse (state_text (qs_state r)) r, ZREM sid s)
      else case mirror_admit_refusal sid capacity ver s of
          Some reason \<Rightarrow> (refuse reason r, s)
        | None \<Rightarrow>
            let r' = r\<lparr>qs_state := Admitted, qs_admittedAt := Some at, qs_activeUntilAt := Some until,
                       qs_graceUntilAt := Some grace, qs_recoveryUntilAt := None, qs_expiresAt := exp\<rparr>;
                (s1, ttl) = mirror_save t sid ik r' ttlMs s
            in (grant ''ADMITTED'' r r' ttl, SADD_active sid (ZREM sid s1)))"
| "mirror_apply t sid ik (Touch hash renewal order recover) r s =
     (if qs_state r = Expired then
        if \<not> recover then (refuse ''EXPIRED'' r, s)
        else
          let r' = (if hash \<noteq> [] then r\<lparr>qs_tokenHash := hash\<rparr> else r);
              (s1, ttl) = mirror_save t sid ik r' (mirror_pttl t sid s) s
          in (grant ''EXPIRED'' r r' ttl, s1)
      else
        let r1 = (if hash \<noteq> [] then r\<lparr>qs_tokenHash := hash\<rparr> else r);
            r2 = (case renewal of Some (exp, ms) \<Rightarrow> if qs_state r = Waiting then r1\<lparr>qs_expiresAt := exp\<rparr> else r1
                  | None \<Rightarrow> r1);
            s1 = (if qs_state r = Waiting then
                    let s0 = SREM_active sid s in
                    if zrank sid (waiting s0) = None then ZADD (or_else (qs_order r) order) sid s0 else s0
                  else s);
            ttlMs = (case renewal of Some (exp, ms) \<Rightarrow> if qs_state r = Waiting then ms else mirror_pttl t sid s
                     | None \<Rightarrow> mirror_pttl t sid s);
            (s2, ttl) = mirror_save t sid ik r2 ttlMs s1
        in (grant (state_text (qs_state r)) r r2 ttl, s2))"
| "mirror_apply t sid ik (Recovery at until exp ttlMs) r s =
     (if qs_state r \<noteq> Admitted \<or> qs_admittedAt r \<noteq> Some at then (refuse (state_text (qs_state r)) r, s)
      else if null_less_eq until (qs_recoveryUntilAt r) then (refuse ''UNCHANGED'' r, s)
      else
        let r' = r\<lparr>qs_recoveryUntilAt := Some until, qs_expiresAt := exp\<rparr>;
            (s1, ttl) = mirror_save t sid ik r' ttlMs s
        in (grant ''ADMITTED'' r r' ttl, s1))"
| "mirror_apply t sid ik (Expire expected exp ttlMs) r s =
     (if qs_state r = Expired then (refuse ''EXPIRED'' r, SREM_active sid (ZREM sid s))
      else if expected \<noteq> None \<and> expected \<noteq> Some (qs_state r, qs_activeUntilAt r, qs_recoveryUntilAt r)
      then (refuse ''CHANGED'' r, s)
      else
        let r' = r\<lparr>qs_state := Expired, qs_expiresAt := exp\<rparr>; (s1, ttl) = mirror_save t sid ik r' ttlMs s
        in (grant ''EXPIRED'' r r' ttl, SREM_active sid (ZREM sid s1)))"
| "mirror_apply t sid ik (Release exp ttlMs) r s =
     (if qs_state r = Expired then (refuse ''EXPIRED'' r, SREM_active sid (ZREM sid s))
      else if qs_state r = Waiting then (refuse ''WAITING'' r, s)
      else
        let r' = r\<lparr>qs_state := Expired, qs_expiresAt := exp\<rparr>; (s1, ttl) = mirror_save t sid ik r' ttlMs s
        in (grant ''EXPIRED'' r r' ttl, SREM_active sid (ZREM sid s1)))"

definition evalTransitionInMemory ::
  "int \<Rightarrow> js_string \<Rightarrow> js_string \<Rightarrow> queue_op \<Rightarrow> slot \<Rightarrow> queue_reply \<times> slot" where
  "evalTransitionInMemory t sid ik q s =
     (case GET_SESSION t s sid of
        None \<Rightarrow> (missing_reply, SREM_active sid (ZREM sid s))
      | Some r \<Rightarrow> mirror_apply t sid ik q r s)"

definition mirror_create ::
  "int \<Rightarrow> js_string \<Rightarrow> js_string \<Rightarrow> session \<Rightarrow> int \<Rightarrow> int \<Rightarrow> slot \<Rightarrow> (bool \<times> js_string) \<times> slot" where
  "mirror_create t ik sid r ttlMs score s =
     (let owner = or_else (live t (identities s ik)) [] in
      if owner \<noteq> [] then ((False, owner), s)
      else
        let ttl = js_ttl ttlMs;
            tail = (case rev (waiting s) of [] \<Rightarrow> 0 | e # _ \<Rightarrow> snd e);
            order = max (max score (or_else (live t (lastOrder s)) 0 + 1)) (tail + 1);
            s1 = s\<lparr>lastOrder := Some (order, t + ttl)\<rparr>;
            s2 = s1\<lparr>sessions := (sessions s1)(sid := Some (r\<lparr>qs_order := Some order\<rparr>, t + ttl))\<rparr>;
            s3 = s2\<lparr>identities := (identities s2)(ik := Some (sid, t + ttl))\<rparr>
        in ((True, sid), ZADD order sid s3))"

fun op_ttl :: "queue_op \<Rightarrow> int option" where
  "op_ttl (Admit _ _ _ _ ms _ _) = Some ms"
| "op_ttl (Touch _ renewal _ _) = map_option snd renewal"
| "op_ttl (Recovery _ _ _ ms) = Some ms"
| "op_ttl (Expire _ _ ms) = Some ms"
| "op_ttl (Release _ ms) = Some ms"

end
