(* ===== verification/QueueSystem.thy ===== *)
theory QueueSystem
  imports QueueScripts
begin

text \<open>
  The waiting line of a performance as a transition system: every Redis call the queue service makes
  on the slot is a step, in any order and by any instance, and time may pass. \<open>slot_ok\<close> ties the record of
  a live session to its place: a waiting session is in line, an admitted one holds an active slot,
  an expired one has neither.
\<close>

section \<open>Field lemmas\<close>

lemma slot_updates [simp]:
  "sessions (ZREM x s) = sessions s" "identities (ZREM x s) = identities s" "active (ZREM x s) = active s"
  "capacityVersion (ZREM x s) = capacityVersion s"
  "sessions (SREM_active x s) = sessions s" "identities (SREM_active x s) = identities s"
  "waiting (SREM_active x s) = waiting s"
  "sessions (SADD_active x s) = sessions s" "waiting (SADD_active x s) = waiting s"
  "sessions (ZADD k x s) = sessions s" "active (ZADD k x s) = active s"
  "sessions (ZADD_NX k x s) = sessions s" "active (ZADD_NX k x s) = active s"
  "waiting (put_session t x ik r ttl s) = waiting s" "active (put_session t x ik r ttl s) = active s"
  "capacityVersion (put_session t x ik r ttl s) = capacityVersion s"
  by (simp_all add: ZREM_def SREM_active_def SADD_active_def ZADD_def ZADD_NX_def put_session_def Let_def)

lemma active_SREM [simp]: "active (SREM_active x s) = filter (\<lambda>y. y \<noteq> x) (active s)"
  by (simp add: SREM_active_def)

lemma waiting_ZREM [simp]: "waiting (ZREM x s) = filter (\<lambda>e. fst e \<noteq> x) (waiting s)"
  by (simp add: ZREM_def)

lemma active_SADD [simp]: "active (SADD_active x s) = (if x \<in> set (active s) then active s else active s @ [x])"
  by (simp add: SADD_active_def)

lemma GET_SESSION_updates [simp]:
  "GET_SESSION t (ZREM x s) = GET_SESSION t s" "GET_SESSION t (SREM_active x s) = GET_SESSION t s"
  "GET_SESSION t (SADD_active x s) = GET_SESSION t s" "GET_SESSION t (ZADD k x s) = GET_SESSION t s"
  "GET_SESSION t (ZADD_NX k x s) = GET_SESSION t s"
  by (simp_all add: GET_SESSION_def fun_eq_iff)

lemma sessions_put [simp]: "sessions (put_session t x ik r ttl s) = (sessions s)(x := Some (r, t + ttl))"
  by (simp add: put_session_def Let_def)

lemma lua_ttl_pos [simp]: "0 < lua_ttl ms"
  by (simp add: lua_ttl_def)

lemma GET_put [simp]:
  "0 < ttl \<Longrightarrow> GET_SESSION t (put_session t x ik r ttl s) = (GET_SESSION t s)(x := Some r)"
  by (rule ext) (simp add: GET_SESSION_def)

lemma live_later: "t \<le> t' \<Longrightarrow> live t' e = Some v \<Longrightarrow> live t e = Some v"
  by (cases e) (auto split: if_splits)

section \<open>The line\<close>

definition before :: "js_string \<times> int \<Rightarrow> js_string \<times> int \<Rightarrow> bool" where
  "before e f \<longleftrightarrow> snd e < snd f \<or> (snd e = snd f \<and> fst e < fst f)"

lemma set_zinsert [simp]: "set (zinsert e z) = insert e (set z)"
  by (induction z) auto

lemma zinsert_distinct:
  "distinct (map fst (zinsert e z)) \<longleftrightarrow> fst e \<notin> fst ` set z \<and> distinct (map fst z)"
  by (induction z) auto

lemma before_trans: "before e f \<Longrightarrow> before f g \<Longrightarrow> before e g"
  unfolding before_def by auto

lemma zinsert_sorted: "sorted_wrt before z \<Longrightarrow> fst e \<notin> fst ` set z \<Longrightarrow> sorted_wrt before (zinsert e z)"
proof (induction z)
  case (Cons f z)
  have "before f e" if "\<not> before e f" using that Cons.prems by (auto simp: before_def not_less_iff_gr_or_eq)
  with Cons show ?case
    by (auto simp: before_def [symmetric] intro: before_trans)
qed simp

lemma zinsert_last: "\<forall>f \<in> set z. snd f < snd e \<Longrightarrow> zinsert e z = z @ [e]"
  by (induction z) auto

lemma zrank_None: "zrank x z = None \<longleftrightarrow> x \<notin> fst ` set z"
  by (induction z) auto

lemma zrank_nth: "zrank x z = Some i \<Longrightarrow> i < length z \<and> fst (z ! i) = x \<and> (\<forall>j < i. fst (z ! j) \<noteq> x)"
proof (induction z arbitrary: i)
  case (Cons e z)
  then show ?case by (cases i) (auto split: if_splits simp: nth_Cons split: nat.splits)
qed simp

lemma zrank_append: "zrank x y = Some i \<Longrightarrow> zrank x (y @ z) = Some i"
  by (induction y arbitrary: i) auto

lemma zrank_filter_mono:
  assumes "zrank a z = Some i" and "zrank b z = Some j" and "i < j" and "distinct (map fst z)"
    and "zrank a (filter P z) = Some i'" and "zrank b (filter P z) = Some j'"
  shows "i' < j'"
  using assms
proof (induction z arbitrary: i j i' j')
  case (Cons e z)
  show ?case
  proof (cases "fst e = a")
    case True
    have b: "fst e \<noteq> b" using Cons.prems(1-3) True by auto
    have "P e"
    proof (rule ccontr)
      assume "\<not> P e"
      then have "a \<in> fst ` set z" using Cons.prems(5) zrank_None [of a "filter P z"] by fastforce
      then show False using Cons.prems(4) True by auto
    qed
    with Cons.prems(5,6) True b show ?thesis by (auto split: if_splits)
  next
    case False
    then obtain i0 where i0: "i = Suc i0" "zrank a z = Some i0" using Cons.prems(1) by auto
    then have "fst e \<noteq> b" using Cons.prems(2,3) by auto
    then obtain j0 where "j = Suc j0" "zrank b z = Some j0" using Cons.prems(2) by auto
    with i0 Cons show ?thesis using False \<open>fst e \<noteq> b\<close> by (auto split: if_splits)
  qed
qed simp

section \<open>Invariant\<close>

definition place_ok :: "js_string \<Rightarrow> slot \<Rightarrow> queue_state \<Rightarrow> bool" where
  "place_ok sid s st =
     (case st of
        Waiting \<Rightarrow> sid \<in> fst ` set (waiting s) \<and> sid \<notin> set (active s)
      | Admitted \<Rightarrow> sid \<notin> fst ` set (waiting s) \<and> sid \<in> set (active s)
      | Expired \<Rightarrow> sid \<notin> fst ` set (waiting s) \<and> sid \<notin> set (active s)
      | PaymentRecovery \<Rightarrow> False)"

definition line_ok :: "slot \<Rightarrow> bool" where
  "line_ok s \<longleftrightarrow> distinct (map fst (waiting s)) \<and> sorted_wrt before (waiting s) \<and> distinct (active s)"

definition slot_ok :: "int \<Rightarrow> slot \<Rightarrow> bool" where
  "slot_ok t s \<longleftrightarrow> line_ok s \<and> (\<forall>sid r. GET_SESSION t s sid = Some r \<longrightarrow> place_ok sid s (qs_state r))"

lemma sorted_wrt_filter_before: "sorted_wrt R z \<Longrightarrow> sorted_wrt R (filter P z)"
  by (rule sorted_wrt_filter)

lemma line_ok_updates [simp]:
  "line_ok s \<Longrightarrow> line_ok (ZREM x s)" "line_ok s \<Longrightarrow> line_ok (SREM_active x s)"
  "line_ok s \<Longrightarrow> line_ok (SADD_active x s)"
  "line_ok (put_session t x ik r ttl s) = line_ok s"
  by (auto simp: line_ok_def sorted_wrt_filter distinct_map_filter)

lemma line_ok_ZADD [simp]: "line_ok s \<Longrightarrow> line_ok (ZADD k x s)"
  by (auto simp: line_ok_def ZADD_def zinsert_distinct distinct_map_filter intro!: zinsert_sorted sorted_wrt_filter)

lemma line_ok_ZADD_NX [simp]: "line_ok s \<Longrightarrow> line_ok (ZADD_NX k x s)"
  by (simp add: ZADD_NX_def)

text \<open>One session changes, every other keeps its place.\<close>

lemma slot_ok_change:
  assumes "slot_ok t s" and "line_ok s'"
    and "\<And>y r. y \<noteq> x \<Longrightarrow> GET_SESSION t s' y = Some r \<Longrightarrow> GET_SESSION t s y = Some r"
    and "\<And>y. y \<noteq> x \<Longrightarrow> y \<in> fst ` set (waiting s') \<longleftrightarrow> y \<in> fst ` set (waiting s)"
    and "\<And>y. y \<noteq> x \<Longrightarrow> y \<in> set (active s') \<longleftrightarrow> y \<in> set (active s)"
    and "\<And>r. GET_SESSION t s' x = Some r \<Longrightarrow> place_ok x s' (qs_state r)"
  shows "slot_ok t s'"
  unfolding slot_ok_def
proof (intro conjI allI impI)
  fix y r
  assume "GET_SESSION t s' y = Some r"
  show "place_ok y s' (qs_state r)"
  proof (cases "y = x")
    case True
    with assms(6) \<open>GET_SESSION t s' y = Some r\<close> show ?thesis by simp
  next
    case False
    with assms(1,3) \<open>GET_SESSION t s' y = Some r\<close> have "place_ok y s (qs_state r)"
      by (simp add: slot_ok_def)
    with assms(4,5) False show ?thesis by (simp add: place_ok_def split: queue_state.splits)
  qed
qed (rule assms(2))

lemma place_okD:
  "slot_ok t s \<Longrightarrow> GET_SESSION t s x = Some r \<Longrightarrow> place_ok x s (qs_state r)"
  by (simp add: slot_ok_def)

lemma slot_ok_line: "slot_ok t s \<Longrightarrow> line_ok s"
  by (simp add: slot_ok_def)

lemma slot_ok_put:
  assumes "slot_ok t s" and "GET_SESSION t s x = Some r0" and "qs_state r = qs_state r0" and "0 < ttl"
  shows "slot_ok t (put_session t x ik r ttl s)"
  by (rule slot_ok_change [OF assms(1), where x = x])
     (use assms place_okD [OF assms(1,2)] in \<open>auto simp: slot_ok_line place_ok_def split: queue_state.splits\<close>)

lemma slot_ok_drop:
  assumes "slot_ok t s" and "\<And>r. GET_SESSION t s' x = Some r \<Longrightarrow> qs_state r = Expired"
    and "GET_SESSION t s' = (GET_SESSION t s)(x := GET_SESSION t s' x)"
    and "waiting s' = waiting s" and "active s' = active s"
  shows "slot_ok t (SREM_active x (ZREM x s'))"
proof (rule slot_ok_change [OF assms(1), where x = x])
  have "line_ok s'" using slot_ok_line [OF assms(1)] assms(4,5) by (simp add: line_ok_def)
  then show "line_ok (SREM_active x (ZREM x s'))" by simp
  fix y r assume "y \<noteq> x" "GET_SESSION t (SREM_active x (ZREM x s')) y = Some r"
  then show "GET_SESSION t s y = Some r" using assms(3) by (metis GET_SESSION_updates(1,2) fun_upd_other)
qed (use assms in \<open>auto simp: place_ok_def\<close>)

lemma slot_ok_gone: "slot_ok t s \<Longrightarrow> GET_SESSION t s x = None \<Longrightarrow> slot_ok t (SREM_active x (ZREM x s))"
  by (rule slot_ok_drop) (simp_all add: fun_upd_idem)

lemma slot_ok_expire:
  assumes "slot_ok t s" and "qs_state r = Expired" and "0 < ttl"
  shows "slot_ok t (SREM_active x (ZREM x (put_session t x ik r ttl s)))"
  by (rule slot_ok_drop [OF assms(1)]) (use assms in \<open>auto simp: fun_eq_iff\<close>)

lemma slot_ok_admit:
  assumes "slot_ok t s" and "qs_state r = Admitted" and "0 < ttl"
  shows "slot_ok t (SADD_active x (ZREM x (put_session t x ik r ttl s)))"
  by (rule slot_ok_change [OF assms(1), where x = x])
     (use assms in \<open>auto simp: slot_ok_line place_ok_def\<close>)

lemma ZADD_NX_present: "x \<in> fst ` set (waiting s) \<Longrightarrow> ZADD_NX k x s = s"
  by (simp add: ZADD_NX_def)

lemma SREM_absent: "x \<notin> set (active s) \<Longrightarrow> SREM_active x s = s"
  by (subgoal_tac "filter (\<lambda>y. y \<noteq> x) (active s) = active s") (auto simp: SREM_active_def intro: filter_True)

lemma ZREM_absent: "x \<notin> fst ` set (waiting s) \<Longrightarrow> ZREM x s = s"
  by (subgoal_tac "filter (\<lambda>e. fst e \<noteq> x) (waiting s) = waiting s") (auto simp: ZREM_def image_iff intro!: filter_True)

section \<open>Every operation keeps the invariant\<close>

text \<open>A live session that touches, recovers, is admitted, expires or is released. The five branches
  of the script are one lemma each.\<close>

lemma touch_effect:
  assumes "slot_ok t s" and "GET_SESSION t s x = Some r"
    and "apply_op t x ik (Touch hash renewal order recover) r s = (rep, s')"
  shows "slot_ok t s' \<and> waiting s' = waiting s \<and> active s' = active s \<and> capacityVersion s' = capacityVersion s"
proof -
  note p = place_okD [OF assms(1,2)]
  have "SREM_active x s = s" "ZADD_NX k x s = s" if "qs_state r = Waiting" for k
    using p that by (auto simp: place_ok_def SREM_absent ZADD_NX_present)
  then show ?thesis
    using assms slot_ok_put [OF assms(1,2)]
    by (auto simp: Let_def split: if_splits option.splits)
qed

lemma recovery_effect:
  assumes "slot_ok t s" and "GET_SESSION t s x = Some r"
    and "apply_op t x ik (Recovery at until exp ms) r s = (rep, s')"
  shows "slot_ok t s' \<and> waiting s' = waiting s \<and> active s' = active s \<and> capacityVersion s' = capacityVersion s"
  using assms slot_ok_put [OF assms(1,2)] by (auto simp: Let_def split: if_splits)

lemma end_effect:
  assumes "slot_ok t s" and "GET_SESSION t s x = Some r" and "q = Expire expected exp ms \<or> q = Release exp ms"
    and "apply_op t x ik q r s = (rep, s')"
  shows "slot_ok t s' \<and> (s' = s \<or> waiting s' = filter (\<lambda>e. fst e \<noteq> x) (waiting s) \<and>
           active s' = filter (\<lambda>y. y \<noteq> x) (active s)) \<and> capacityVersion s' = capacityVersion s"
proof -
  have "slot_ok t (SREM_active x (ZREM x s))" if "qs_state r = Expired"
    using slot_ok_drop [OF assms(1), of s x] assms(2) that by (simp add: fun_upd_idem)
  moreover have "capacityVersion (SREM_active x s1) = capacityVersion s1" for s1 by (simp add: SREM_active_def)
  ultimately show ?thesis
    using assms slot_ok_expire [OF assms(1)]
    by (auto simp: Let_def split: if_splits)
qed

lemma admit_effect:
  assumes "slot_ok t s" and "GET_SESSION t s x = Some r"
    and "apply_op t x ik (Admit at until grace exp ms capacity ver) r s = (rep, s')"
  shows "slot_ok t s' \<and> capacityVersion s' = capacityVersion s \<and>
    (if applied rep
     then x \<in> fst ` set (waiting s) \<and> x \<notin> set (active s) \<and> admit_refusal x capacity ver s = None \<and>
       waiting s' = filter (\<lambda>e. fst e \<noteq> x) (waiting s) \<and> active s' = active s @ [x]
     else s' = s)"
proof -
  note p = place_okD [OF assms(1,2)]
  have z: "ZREM x s = s" if "qs_state r \<noteq> Waiting"
    using p that by (auto simp: place_ok_def ZREM_absent split: queue_state.splits)
  have c: "capacityVersion (SADD_active x s1) = capacityVersion s1" for s1 by (simp add: SADD_active_def)
  show ?thesis
  proof (cases "qs_state r = Waiting")
    case False
    with assms z show ?thesis by (auto simp: refuse_def)
  next
    case True
    with p have w: "x \<in> fst ` set (waiting s)" "x \<notin> set (active s)" by (auto simp: place_ok_def)
    show ?thesis
    proof (cases "admit_refusal x capacity ver s")
      case None
      with assms(3) True have "rep = grant ''ADMITTED'' r (admitted_record at until grace exp r) (lua_ttl ms)"
        and s': "s' = SADD_active x (ZREM x (put_session t x ik (admitted_record at until grace exp r) (lua_ttl ms) s))"
        by (auto simp: Let_def)
      then have "applied rep" by (simp add: grant_def)
      moreover have "slot_ok t s'"
        unfolding s' by (rule slot_ok_admit [OF assms(1)]) (simp_all add: admitted_record_def)
      ultimately show ?thesis using s' w None c by simp
    qed (use assms True in \<open>auto simp: refuse_def\<close>)
  qed
qed

lemma admit_room:
  "admit_refusal x (Some c) ver s = None \<Longrightarrow> x \<in> fst ` set (waiting s) \<Longrightarrow>
   ver = or_else (capacityVersion s) ''0'' \<and>
   (\<exists>i. zrank x (waiting s) = Some i \<and> int (length (active s)) + int i < c)"
  by (auto simp: admit_refusal_def split: if_splits option.splits)

section \<open>The step relation\<close>

text \<open>\<open>queue_step L t s b s'\<close>: one call at time \<open>t\<close>; \<open>b\<close> marks an admission of the Admin Booking Bypass, and
  every other admission asks with a capacity of at most \<open>L\<close>. New session ids are fresh (\<open>randomUUID\<close>),
  and the clean-up of an id whose record is gone is the service's own \<open>zrem\<close> and \<open>srem\<close>.\<close>

fun asks_at_most :: "int \<Rightarrow> queue_op \<Rightarrow> bool" where
  "asks_at_most L (Admit _ _ _ _ _ (Some c) _) = (c \<le> L)"
| "asks_at_most L (Admit _ _ _ _ _ None _) = False"
| "asks_at_most L _ = True"

inductive queue_step :: "int \<Rightarrow> int \<Rightarrow> slot \<Rightarrow> bool \<Rightarrow> slot \<Rightarrow> bool" for L t where
  call: "asks_at_most L q \<Longrightarrow> transition t x ik q s = (rep, s') \<Longrightarrow> queue_step L t s False s'"
| bypass: "transition t x ik (Admit at until grace exp ms None ver) s = (rep, s') \<Longrightarrow> queue_step L t s True s'"
| create: "GET_SESSION t s x = None \<Longrightarrow> x \<notin> fst ` set (waiting s) \<Longrightarrow> x \<notin> set (active s) \<Longrightarrow>
    qs_state r = Waiting \<Longrightarrow> create_session t ik x r ms score s = (rep, s') \<Longrightarrow> queue_step L t s False s'"
| purge: "purge_session t x ik nowIso s = (rep, s') \<Longrightarrow> nowIso \<le> t \<Longrightarrow> queue_step L t s False s'"
| drop_waiting: "GET_SESSION t s x = None \<Longrightarrow> queue_step L t s False (ZREM x s)"
| drop_active: "GET_SESSION t s x = None \<Longrightarrow> queue_step L t s False (SREM_active x s)"
| publish: "cache_capacity t ver val n s = (rep, s') \<Longrightarrow> queue_step L t s False s'"
| invalidate: "queue_step L t s False (invalidate_capacity ver s)"
| throttle_lock: "queue_step L t s False (s\<lparr>throttle := a, reconcileLock := b\<rparr>)"

inductive queue_run :: "int \<Rightarrow> nat \<Rightarrow> int \<Rightarrow> slot \<Rightarrow> bool" for L where
  start: "queue_run L 0 t empty_slot"
| time: "queue_run L n t s \<Longrightarrow> t \<le> t' \<Longrightarrow> queue_run L n t' s"
| step: "queue_run L n t s \<Longrightarrow> queue_step L t s b s' \<Longrightarrow> queue_run L (if b then Suc n else n) t s'"

inductive_cases queue_stepE: "queue_step L t s b s'"

lemma GET_SESSION_later: "t \<le> t' \<Longrightarrow> GET_SESSION t' s y = Some r \<Longrightarrow> GET_SESSION t s y = Some r"
  unfolding GET_SESSION_def by (rule live_later)

lemma slot_ok_time: "slot_ok t s \<Longrightarrow> t \<le> t' \<Longrightarrow> slot_ok t' s"
  by (simp add: slot_ok_def GET_SESSION_later)

lemma slot_ok_cong:
  "slot_ok t s \<Longrightarrow> sessions s' = sessions s \<Longrightarrow> waiting s' = waiting s \<Longrightarrow> active s' = active s \<Longrightarrow> slot_ok t s'"
  by (simp add: slot_ok_def line_ok_def place_ok_def GET_SESSION_def split: queue_state.splits)

text \<open>What a step may do to the line and to the active set.\<close>

definition line_change :: "slot \<Rightarrow> slot \<Rightarrow> bool" where
  "line_change s s' \<longleftrightarrow>
     (\<exists>P. waiting s' = filter P (waiting s)) \<or>
     (\<exists>x k. waiting s' = waiting s @ [(x, k)] \<and> (\<forall>e \<in> set (waiting s). snd e < k))"

lemma line_change_same: "waiting s' = waiting s \<Longrightarrow> line_change s s'"
  unfolding line_change_def by (intro disjI1 exI [where x = "\<lambda>_. True"]) simp

lemma line_change_filter: "waiting s' = filter P (waiting s) \<Longrightarrow> line_change s s'"
  unfolding line_change_def by blast

definition step_effect :: "int \<Rightarrow> int \<Rightarrow> slot \<Rightarrow> bool \<Rightarrow> slot \<Rightarrow> bool" where
  "step_effect L t s b s' \<longleftrightarrow> slot_ok t s' \<and> line_change s s' \<and>
     (length (active s') \<le> length (active s) \<or>
      length (active s') = Suc (length (active s)) \<and> (b \<or> int (length (active s')) \<le> L))"

lemma removal_effect:
  assumes "slot_ok t s'" and "waiting s' = filter P (waiting s)" and "active s' = filter Q (active s)"
  shows "step_effect L t s b s'"
  using assms line_change_filter [of s' P s] by (simp add: step_effect_def)

lemma same_line_effect:
  assumes "slot_ok t s'" and "waiting s' = waiting s" and "active s' = active s"
  shows "step_effect L t s b s'"
  using assms line_change_same [of s' s] by (simp add: step_effect_def)

lemma apply_op_step_effect:
  assumes "slot_ok t s" and "GET_SESSION t s x = Some r"
    and "asks_at_most L q \<or> b" and "apply_op t x ik q r s = (rep, s')"
  shows "step_effect L t s b s'"
proof (cases q)
  case (Admit at until grace exp ms capacity ver)
  note e = admit_effect [OF assms(1,2) assms(4) [unfolded Admit]]
  show ?thesis
  proof (cases "applied rep")
    case True
    with e have x: "x \<in> fst ` set (waiting s)" "admit_refusal x capacity ver s = None"
      "waiting s' = filter (\<lambda>e. fst e \<noteq> x) (waiting s)" "active s' = active s @ [x]" "slot_ok t s'" by simp_all
    have "b \<or> int (length (active s')) \<le> L"
    proof (cases capacity)
      case None
      with assms(3) Admit show ?thesis by simp
    next
      case (Some c)
      with assms(3) Admit admit_room [OF x(2) [unfolded Some] x(1)] x(4) show ?thesis by auto
    qed
    with x line_change_filter [OF x(3)] show ?thesis by (simp add: step_effect_def)
  next
    case False
    with e assms(1) show ?thesis by (simp add: same_line_effect)
  qed
next
  case (Touch hash renewal order recover)
  with touch_effect [OF assms(1,2)] assms(4) show ?thesis by (blast intro: same_line_effect)
next
  case (Recovery at until exp ms)
  with recovery_effect [OF assms(1,2)] assms(4) show ?thesis by (blast intro: same_line_effect)
next
  case (Expire expected exp ms)
  with end_effect [OF assms(1,2) _ assms(4)] assms(1) show ?thesis
    by (metis removal_effect same_line_effect)
next
  case (Release exp ms)
  with end_effect [OF assms(1,2) _ assms(4)] assms(1) show ?thesis
    by (metis removal_effect same_line_effect)
qed

lemma sorted_last_max:
  assumes "sorted_wrt before z" and "e \<in> set z"
  shows "snd e \<le> snd (last z)"
proof -
  from assms(2) have ne: "z \<noteq> []" by auto
  then have z: "z = butlast z @ [last z]" by simp
  have "e = last z \<or> before e (last z)"
    using assms z by (metis sorted_wrt_append append_butlast_last_id ne Un_iff list.set_intros(1) set_append set_ConsD empty_iff list.set(1))
  then show ?thesis by (auto simp: before_def)
qed

definition next_order :: "int \<Rightarrow> int \<Rightarrow> slot \<Rightarrow> int" where
  "next_order t score s =
     max score (max (or_else (live t (lastOrder s)) 0 + 1) ((if waiting s = [] then 0 else snd (last (waiting s))) + 1))"

lemma next_order_ahead:
  assumes "line_ok s" and "e \<in> set (waiting s)"
  shows "snd e < next_order t score s"
proof -
  have "snd e \<le> snd (last (waiting s))" using assms sorted_last_max by (auto simp: line_ok_def)
  moreover have "waiting s \<noteq> []" using assms(2) by auto
  ultimately show ?thesis by (auto simp: next_order_def)
qed

lemma ZADD_last:
  assumes "line_ok s" and "x \<notin> fst ` set (waiting s)" and "\<forall>e \<in> set (waiting s). snd e < k"
  shows "waiting (ZADD k x s) = waiting s @ [(x, k)]"
  using assms ZREM_absent [OF assms(2)] zinsert_last [of "waiting s" "(x, k)"]
  by (simp add: ZADD_def ZREM_def) (metis slot.ext_inject slot.surjective slot.update_convs(3))

lemma create_effect:
  assumes "slot_ok t s" and "x \<notin> fst ` set (waiting s)" and "x \<notin> set (active s)"
    and "qs_state r = Waiting" and "create_session t ik x r ms score s = ((b, y), s')"
  shows "slot_ok t s' \<and> active s' = active s \<and>
    (if b then waiting s' = waiting s @ [(x, next_order t score s)] else s' = s)"
proof (cases "live t (identities s ik)")
  case (Some owner)
  with assms show ?thesis by (auto simp: create_session_def)
next
  case None
  define s1 where "s1 = s\<lparr>lastOrder := Some (next_order t score s, t + lua_ttl ms),
     sessions := (sessions s)(x := Some (r\<lparr>qs_order := Some (next_order t score s)\<rparr>, t + lua_ttl ms)),
     identities := (identities s)(ik := Some (x, t + lua_ttl ms))\<rparr>"
  have b: b and s': "s' = ZADD (next_order t score s) x s1"
    using None assms(5) by (auto simp: create_session_def next_order_def s1_def Let_def)
  have l: "line_ok s1" using slot_ok_line [OF assms(1)] by (simp add: line_ok_def s1_def)
  have w: "waiting s' = waiting s @ [(x, next_order t score s)]"
    using ZADD_last [OF l, of x "next_order t score s"] assms(2) next_order_ahead [OF slot_ok_line [OF assms(1)]]
    by (simp add: s' s1_def)
  have "slot_ok t s'"
  proof (rule slot_ok_change [OF assms(1), where x = x])
    show "line_ok s'" using l s' by simp
    show "place_ok x s' (qs_state r')" if "GET_SESSION t s' x = Some r'" for r'
      using that w assms(3,4) by (auto simp: s' s1_def GET_SESSION_def place_ok_def split: if_splits)
  qed (use w in \<open>auto simp: s' s1_def GET_SESSION_def\<close>)
  with b w show ?thesis by (simp add: s' s1_def)
qed

lemma slot_ok_identities [simp]: "slot_ok t (s\<lparr>identities := I\<rparr>) = slot_ok t s"
  by (simp add: slot_ok_def line_ok_def place_ok_def GET_SESSION_def split: queue_state.splits)

lemma purge_effect:
  assumes "slot_ok t s" and "purge_session t x ik nowIso s = (b, s')"
  shows "slot_ok t s' \<and> (s' = s \<or> waiting s' = filter (\<lambda>e. fst e \<noteq> x) (waiting s) \<and> active s' = filter (\<lambda>y. y \<noteq> x) (active s))"
proof -
  define s1 where "s1 = SREM_active x (ZREM x (s\<lparr>sessions := (sessions s)(x := None)\<rparr>))"
  have 1: "slot_ok t s1" unfolding s1_def
    by (rule slot_ok_drop [OF assms(1)]) (auto simp: GET_SESSION_def)
  have 2: "slot_ok t (SREM_active x (ZREM x s))" if "GET_SESSION t s x = None"
    by (rule slot_ok_gone [OF assms(1) that])
  show ?thesis
    using assms 1 2
    by (auto simp: purge_session_def Let_def s1_def [symmetric] split: option.splits if_splits)
       (auto simp: s1_def)
qed

lemma transition_step_effect:
  assumes "slot_ok t s" and "asks_at_most L q \<or> b" and "transition t x ik q s = (rep, s')"
  shows "step_effect L t s b s'"
proof (cases "GET_SESSION t s x")
  case None
  with assms(3) have s': "s' = SREM_active x (ZREM x s)" by (simp add: transition_def)
  show ?thesis unfolding s'
    by (rule removal_effect [OF slot_ok_gone [OF assms(1) None]]) simp_all
next
  case (Some r)
  with assms show ?thesis by (intro apply_op_step_effect) (auto simp: transition_def)
qed

lemma step_effects:
  assumes "queue_step L t s b s'" and "slot_ok t s"
  shows "step_effect L t s b s'"
  using assms
proof cases
  case (call q x ik rep)
  with assms(2) show ?thesis by (blast intro: transition_step_effect)
next
  case (bypass x ik at until grace exp ms ver rep)
  with assms(2) show ?thesis by (blast intro: transition_step_effect)
next
  case (create x r ik ms score rep)
  obtain c y where rep: "rep = (c, y)" by force
  note e = create_effect [OF assms(2) create(3-5) create(6) [unfolded rep]]
  show ?thesis
  proof (cases c)
    case True
    with e next_order_ahead [OF slot_ok_line [OF assms(2)]] show ?thesis
      by (auto simp: step_effect_def line_change_def)
  next
    case False
    with e assms(2) create(1) show ?thesis by (simp add: same_line_effect)
  qed
next
  case (purge x ik nowIso rep)
  with purge_effect [OF assms(2)] assms(2) show ?thesis by (metis removal_effect same_line_effect)
next
  case (drop_waiting x)
  have "slot_ok t s'"
    by (rule slot_ok_change [OF assms(2), where x = x]) (use drop_waiting slot_ok_line [OF assms(2)] in auto)
  then show ?thesis using drop_waiting by (auto intro!: removal_effect [where Q = "\<lambda>_. True"])
next
  case (drop_active x)
  have "slot_ok t s'"
    by (rule slot_ok_change [OF assms(2), where x = x]) (use drop_active slot_ok_line [OF assms(2)] in auto)
  then show ?thesis using drop_active by (auto intro!: removal_effect [where P = "\<lambda>_. True"])
next
  case (publish ver val n rep)
  then show ?thesis using assms(2)
    by (auto simp: cache_capacity_def split: if_splits intro!: same_line_effect intro: slot_ok_cong)
next
  case (invalidate ver)
  then show ?thesis using assms(2)
    by (auto simp: invalidate_capacity_def intro!: same_line_effect intro: slot_ok_cong)
next
  case (throttle_lock a b)
  then show ?thesis using assms(2) by (auto intro!: same_line_effect intro: slot_ok_cong)
qed

lemma empty_slot_ok: "slot_ok t empty_slot"
  by (simp add: empty_slot_def slot_ok_def line_ok_def GET_SESSION_def)

lemma run_ok: "queue_run L n t s \<Longrightarrow> slot_ok t s \<and> (0 \<le> L \<longrightarrow> int (length (active s)) \<le> L + int n)"
proof (induction rule: queue_run.induct)
  case (start t)
  show ?case by (simp add: empty_slot_ok) (simp add: empty_slot_def)
next
  case (time n t s t')
  then show ?case using slot_ok_time by blast
next
  case (step n t s b s')
  then show ?case using step_effects [of L t s b s'] by (auto simp: step_effect_def)
qed

end
