(* ===== verification/QueueService.thy ===== *)
theory QueueService
  imports QueueSystem ShowtimeSales
begin

text \<open>
  \<open>apps/api/src/modules/queue/queue.service.ts\<close>. The world holds the hash slot of every performance,
  the two cross-slot indexes (session id to performance, token hash to session id) and the orders the
  service reads. \<open>H\<close> is the SHA-256 of \<open>node:crypto\<close>; random tokens, session ids and lock tokens
  are arguments. Each method reads the clock once: \<open>t\<close>. WebSocket notifications and log lines are
  not part of the state.
\<close>

section \<open>Constants and the wait estimate\<close>

definition QUEUE_ACTIVE_WINDOW_SECONDS :: int where "QUEUE_ACTIVE_WINDOW_SECONDS = 600"
definition QUEUE_REENTRY_GRACE_SECONDS :: int where "QUEUE_REENTRY_GRACE_SECONDS = 180"
definition QUEUE_WAIT_SESSION_SECONDS :: int where "QUEUE_WAIT_SESSION_SECONDS = 1800"
definition QUEUE_WAIT_SESSION_RENEW_INTERVAL_SECONDS :: int where
  "QUEUE_WAIT_SESSION_RENEW_INTERVAL_SECONDS = 60"
definition QUEUE_EXPIRED_RETENTION_SECONDS :: int where "QUEUE_EXPIRED_RETENTION_SECONDS = 300"
definition QUEUE_MAX_ACTIVE_ADMISSIONS :: int where "QUEUE_MAX_ACTIVE_ADMISSIONS = 1000"
definition QUEUE_SLOT_MIN_HOLD_SECONDS :: int where "QUEUE_SLOT_MIN_HOLD_SECONDS = 0"
definition QUEUE_ETA_CYCLE_MAX_SECONDS :: int where
  "QUEUE_ETA_CYCLE_MAX_SECONDS = QUEUE_ACTIVE_WINDOW_SECONDS + QUEUE_REENTRY_GRACE_SECONDS + 20"
definition QUEUE_ETA_MAX_SECONDS :: int where "QUEUE_ETA_MAX_SECONDS = 3 * 60 * 60"

lemmas queue_constants = QUEUE_ACTIVE_WINDOW_SECONDS_def QUEUE_REENTRY_GRACE_SECONDS_def
  QUEUE_WAIT_SESSION_SECONDS_def QUEUE_WAIT_SESSION_RENEW_INTERVAL_SECONDS_def
  QUEUE_EXPIRED_RETENTION_SECONDS_def QUEUE_MAX_ACTIVE_ADMISSIONS_def QUEUE_SLOT_MIN_HOLD_SECONDS_def
  QUEUE_ETA_CYCLE_MAX_SECONDS_def QUEUE_ETA_MAX_SECONDS_def

text \<open>The configured limit: a decimal text or a number; \<open>None\<close> as result is the thrown error.\<close>

definition resolveQueueAdmissionLimit :: "js_string option \<Rightarrow> int option" where
  "resolveQueueAdmissionLimit value =
     (case value of None \<Rightarrow> Some QUEUE_MAX_ACTIVE_ADMISSIONS
      | Some v \<Rightarrow>
          if js_trim v = [] then Some QUEUE_MAX_ACTIVE_ADMISSIONS
          else (case js_number v of None \<Rightarrow> None
            | Some limit \<Rightarrow> if limit < 1 \<or> limit > QUEUE_MAX_ACTIVE_ADMISSIONS then None else Some limit))"

record wait_estimate =
  etaSeconds :: int
  etaMinSeconds :: int
  etaUnavailable :: bool

definition ceil_quotient :: "int \<Rightarrow> int \<Rightarrow> int" where
  "ceil_quotient a b = - ((- a) div b)"

text \<open>\<open>limit\<close> is the limit \<open>resolveQueueAdmissionLimit\<close> accepted in the constructor.\<close>

definition estimateQueueWait :: "int \<Rightarrow> int \<Rightarrow> int \<Rightarrow> wait_estimate" where
  "estimateQueueWait limit position remainingSeats =
     (if \<not> position > 0 then \<lparr>etaSeconds = 0, etaMinSeconds = 0, etaUnavailable = True\<rparr>
      else if \<not> remainingSeats > 0 then
        \<lparr>etaSeconds = QUEUE_ETA_MAX_SECONDS, etaMinSeconds = 0, etaUnavailable = True\<rparr>
      else
        let cycleCapacity = min remainingSeats limit;
            cycles = ceil_quotient position cycleCapacity;
            maxSeconds = cycles * QUEUE_ETA_CYCLE_MAX_SECONDS
        in if maxSeconds > QUEUE_ETA_MAX_SECONDS
           then \<lparr>etaSeconds = QUEUE_ETA_MAX_SECONDS, etaMinSeconds = 0, etaUnavailable = True\<rparr>
           else \<lparr>etaSeconds = maxSeconds, etaMinSeconds = (cycles - 1) * QUEUE_SLOT_MIN_HOLD_SECONDS,
                 etaUnavailable = False\<rparr>)"

section \<open>Reading a record\<close>

definition isAdmissionWindowClosed :: "session \<Rightarrow> int \<Rightarrow> bool" where
  "isAdmissionWindowClosed r t =
     (if qs_state r = Expired then True
      else if qs_state r \<noteq> Admitted then False
      else case qs_activeUntilAt r of None \<Rightarrow> True | Some u \<Rightarrow> t > u)"

definition resolveVisibleState :: "session \<Rightarrow> js_string option \<Rightarrow> int \<Rightarrow> queue_state" where
  "resolveVisibleState r recoveryOrderId t =
     (if qs_state r = Waiting \<or> \<not> isAdmissionWindowClosed r t then qs_state r
      else if recoveryOrderId \<noteq> None \<and> recoveryOrderId \<noteq> Some [] then PaymentRecovery else Expired)"

definition max_option :: "int option list \<Rightarrow> int option" where
  "max_option xs = (case List.map_filter id xs of [] \<Rightarrow> None | y # ys \<Rightarrow> Some (fold max ys y))"

definition resolveAuthorityExpiry :: "session \<Rightarrow> int option" where
  "resolveAuthorityExpiry r = max_option [qs_activeUntilAt r, qs_recoveryUntilAt r]"

definition isReusable :: "session \<Rightarrow> int \<Rightarrow> bool" where
  "isReusable r t \<longleftrightarrow> qs_state r \<noteq> Expired \<and> qs_expiresAt r > t"

definition resolveEnteredAtScore :: "session \<Rightarrow> int" where
  "resolveEnteredAtScore r =
     (case qs_order r of
        Some ord \<Rightarrow> if ord > 0 \<and> ord \<le> 2 ^ 53 - 1 then ord else qs_enteredAt r
      | None \<Rightarrow> qs_enteredAt r)"

text \<open>\<open>buildAdmissionArgs\<close> with the capacity and version the caller appends.\<close>

definition buildAdmissionArgs :: "int \<Rightarrow> int option \<Rightarrow> js_string \<Rightarrow> queue_op" where
  "buildAdmissionArgs admittedAt capacity ver =
     (let activeUntilAt = admittedAt + QUEUE_ACTIVE_WINDOW_SECONDS * 1000;
          reentryGraceUntilAt = activeUntilAt + QUEUE_REENTRY_GRACE_SECONDS * 1000;
          expiresAt = reentryGraceUntilAt + QUEUE_EXPIRED_RETENTION_SECONDS * 1000
      in Admit admittedAt activeUntilAt reentryGraceUntilAt expiresAt (expiresAt - admittedAt) capacity ver)"

definition waiting_renewal :: "js_string \<Rightarrow> session \<Rightarrow> int \<Rightarrow> bool \<Rightarrow> queue_op" where
  "waiting_renewal hash r t allowExpired =
     Touch hash (Some (t + QUEUE_WAIT_SESSION_SECONDS * 1000, QUEUE_WAIT_SESSION_SECONDS * 1000))
       (resolveEnteredAtScore r) allowExpired"

record queue_identity =
  qi_userId :: js_string
  qi_family :: js_string
  qi_device :: js_string

definition identity_of :: "session \<Rightarrow> queue_identity" where
  "identity_of r = \<lparr>qi_userId = qs_userId r, qi_family = qs_family r, qi_device = qs_device r\<rparr>"

definition identityKey :: "js_string \<Rightarrow> queue_identity \<Rightarrow> js_string" where
  "identityKey p i = ''{queue:'' @ p @ ''}:identity:'' @ qi_userId i @ '':'' @ qi_family i @ '':'' @ qi_device i"

datatype queue_error =
    PerformanceNotFound | BookingEnded | ShowtimeStarted | NoShowtime | BookingNotOpen
  | SetupConflict | SessionNotFound | ShowtimeNotFound | OrderNotFound
  | SessionMismatch | AdmissionRequired | PerformanceMismatch | NotAdmitted | AdmissionExpired | AdmissionInvalid

definition assertRecordMatchesIdentity :: "session \<Rightarrow> queue_identity \<Rightarrow> bool" where
  "assertRecordMatchesIdentity r i \<longleftrightarrow>
     qs_userId r = qi_userId i \<and> qs_family r = qi_family i \<and> qs_device r = qi_device i"

section \<open>Orders bound to an admission\<close>

record order_row =
  or_tossOrderId :: "js_string option"
  or_userId :: js_string
  or_performanceId :: js_string
  or_status :: js_string
  or_queueSessionId :: "js_string option"
  or_family :: "js_string option"
  or_device :: "js_string option"
  or_admittedAt :: "int option"
  or_activeUntilAt :: "int option"
  or_graceUntilAt :: "int option"
  or_paymentDeadlineAt :: "int option"
  or_showtimeAt :: "int option"

record admission =
  ad_queueSessionId :: js_string
  ad_identity :: queue_identity
  ad_admittedAt :: int
  ad_activeUntilAt :: int
  ad_graceUntilAt :: int

definition resolveOrderBoundAdmission :: "order_row \<Rightarrow> queue_identity \<Rightarrow> js_string \<Rightarrow> int \<Rightarrow> admission option" where
  "resolveOrderBoundAdmission b i userId t =
     (if or_queueSessionId b = None \<or> or_queueSessionId b = Some [] \<or> qi_userId i \<noteq> userId
         \<or> or_family b \<noteq> Some (qi_family i) \<or> or_device b \<noteq> Some (qi_device i) then None
      else
        let authorityEndsAt = max_option [or_paymentDeadlineAt b, or_activeUntilAt b] in
        if or_status b = ''PENDING_PAYMENT'' \<and> (authorityEndsAt = None \<or> t > or_else authorityEndsAt 0) then None
        else if or_status b \<noteq> ''PENDING_PAYMENT'' \<and> or_status b \<noteq> ''CONFIRMED'' then None
        else
          let fallback = or_else authorityEndsAt t;
              activeUntilAt = or_else (or_activeUntilAt b) fallback
          in Some \<lparr>ad_queueSessionId = or_else (or_queueSessionId b) [], ad_identity = i,
                ad_admittedAt = or_else (or_admittedAt b) activeUntilAt,
                ad_activeUntilAt = activeUntilAt,
                ad_graceUntilAt = or_else (or_graceUntilAt b) activeUntilAt\<rparr>)"

text \<open>\<open>findRecoveryOrderId\<close>: the query's conditions, then the loop that keeps the order ending last.\<close>

definition recovery_row :: "session \<Rightarrow> int \<Rightarrow> order_row \<Rightarrow> bool" where
  "recovery_row r t o1 \<longleftrightarrow>
     or_queueSessionId o1 = Some (qs_id r) \<and> or_userId o1 = qs_userId r \<and> or_status o1 = ''PENDING_PAYMENT''
     \<and> (null_less_eq t (or_paymentDeadlineAt o1) \<or> null_less_eq t (or_activeUntilAt o1))
     \<and> showtimeOnSaleCondition (or_showtimeAt o1) t"

fun best_recovery :: "session \<Rightarrow> int \<Rightarrow> order_row list \<Rightarrow> (js_string \<times> int) option \<Rightarrow> (js_string \<times> int) option" where
  "best_recovery r t [] best = best"
| "best_recovery r t (o1 # os) best =
     (if or_tossOrderId o1 = None \<or> or_tossOrderId o1 = Some [] \<or> or_queueSessionId o1 \<noteq> Some (qs_id r)
         \<or> isShowtimeSalesClosed (or_showtimeAt o1) t
         \<or> resolveOrderBoundAdmission o1 (identity_of r) (qs_userId r) t = None
         \<or> or_status o1 \<noteq> ''PENDING_PAYMENT''
      then best_recovery r t os best
      else
        let endsAt = or_else (max_option [or_paymentDeadlineAt o1, or_activeUntilAt o1]) 0 in
        best_recovery r t os
          (case best of None \<Rightarrow> Some (or_else (or_tossOrderId o1) [], endsAt)
           | Some (oid, e) \<Rightarrow> if endsAt > e then Some (or_else (or_tossOrderId o1) [], endsAt) else best))"

definition findRecoveryOrderId :: "order_row list \<Rightarrow> session \<Rightarrow> int \<Rightarrow> js_string option" where
  "findRecoveryOrderId orders r t =
     map_option fst (best_recovery r t (filter (recovery_row r t) orders) None)"

section \<open>The world and the indexes\<close>

record qworld =
  w_slots :: "js_string \<Rightarrow> slot"
  w_refs :: "js_string \<Rightarrow> (js_string \<times> int) option"
  w_tokens :: "js_string \<Rightarrow> (js_string \<times> int) option"
  w_orders :: "order_row list"

definition set_slot :: "js_string \<Rightarrow> slot \<Rightarrow> qworld \<Rightarrow> qworld" where
  "set_slot p s w = w\<lparr>w_slots := (w_slots w)(p := s)\<rparr>"

definition readQueueSessionRecord :: "int \<Rightarrow> js_string \<Rightarrow> js_string \<Rightarrow> qworld \<Rightarrow> session option" where
  "readQueueSessionRecord t p sid w = GET_SESSION t (w_slots w p) sid"

definition transitionQueueSession :: "int \<Rightarrow> session \<Rightarrow> queue_op \<Rightarrow> qworld \<Rightarrow> queue_reply \<times> qworld" where
  "transitionQueueSession t r q w =
     (let p = qs_performanceId r;
          (rep, s) = transition t (qs_id r) (identityKey p (identity_of r)) q (w_slots w p)
      in (rep, set_slot p s w))"

definition syncQueueSessionIndexes :: "int \<Rightarrow> queue_reply \<Rightarrow> qworld \<Rightarrow> qworld" where
  "syncQueueSessionIndexes t rep w =
     (case reply_session rep of None \<Rightarrow> w
      | Some r \<Rightarrow>
          if reply_ttl rep \<le> 0 then w
          else
            let ttlMs = max 1 (reply_ttl rep);
                rotated = previousTokenHash rep \<noteq> [] \<and> previousTokenHash rep \<noteq> qs_tokenHash r;
                w1 = w\<lparr>w_refs := (w_refs w)(qs_id r := Some (qs_performanceId r, t + ttlMs))\<rparr>;
                hash = qs_tokenHash r
            in if rotated
               then w1\<lparr>w_tokens := ((w_tokens w1)(hash := Some (qs_id r, t + ttlMs)))(previousTokenHash rep := None)\<rparr>
               else w1\<lparr>w_tokens := (w_tokens w1)(hash :=
                      map_option (\<lambda>v. (v, t + max 1 (ceil_quotient ttlMs 1000) * 1000)) (live t (w_tokens w1 hash)))\<rparr>)"

definition transition_and_sync :: "int \<Rightarrow> session \<Rightarrow> queue_op \<Rightarrow> qworld \<Rightarrow> queue_reply \<times> qworld" where
  "transition_and_sync t r q w =
     (let (rep, w1) = transitionQueueSession t r q w
      in (rep, if applied rep then syncQueueSessionIndexes t rep w1 else w1))"

definition expireQueueSession :: "int \<Rightarrow> session \<Rightarrow> qworld \<Rightarrow> session \<times> qworld" where
  "expireQueueSession t r w =
     (let (rep, w1) = transition_and_sync t r
            (Expire (Some (fingerprint r)) (t + QUEUE_EXPIRED_RETENTION_SECONDS * 1000)
               (QUEUE_EXPIRED_RETENTION_SECONDS * 1000)) w
      in (or_else (reply_session rep) (r\<lparr>qs_state := Expired\<rparr>), w1))"

definition renewWaitingSession :: "int \<Rightarrow> session \<Rightarrow> qworld \<Rightarrow> session \<times> qworld" where
  "renewWaitingSession t r w =
     (if qs_state r \<noteq> Waiting then (r, w)
      else if qs_expiresAt r - t
              > (QUEUE_WAIT_SESSION_SECONDS - QUEUE_WAIT_SESSION_RENEW_INTERVAL_SECONDS) * 1000 then (r, w)
      else let (rep, w1) = transition_and_sync t r (waiting_renewal [] r t False) w
           in (or_else (reply_session rep) r, w1))"

definition enablePaymentRecovery :: "int \<Rightarrow> session \<Rightarrow> qworld \<Rightarrow> session \<times> qworld" where
  "enablePaymentRecovery t r w =
     (case (qs_admittedAt r, qs_activeUntilAt r, qs_graceUntilAt r) of
        (Some at, Some _, Some targetRecovery) \<Rightarrow>
          if or_else (qs_recoveryUntilAt r) 0 \<ge> targetRecovery then (r, w)
          else
            let expiresAt = targetRecovery + QUEUE_EXPIRED_RETENTION_SECONDS * 1000;
                (rep, w1) = transition_and_sync t r
                  (Recovery at targetRecovery expiresAt (max 1 (expiresAt - t))) w
            in (or_else (reply_session rep) r, w1)
      | _ \<Rightarrow> (r, w))"

definition purgeQueueSession ::
  "int \<Rightarrow> js_string \<Rightarrow> js_string \<Rightarrow> js_string \<Rightarrow> js_string option \<Rightarrow> qworld \<Rightarrow> bool \<times> qworld" where
  "purgeQueueSession t p sid ik hash w =
     (let (purged, s) = purge_session t sid ik t (w_slots w p); w1 = set_slot p s w
      in if \<not> purged then (False, w1)
         else
           let w2 = w1\<lparr>w_refs := (w_refs w1)(sid := None)\<rparr>
           in (True, case hash of
                 Some h \<Rightarrow> if h = [] then w2 else w2\<lparr>w_tokens := (w_tokens w2)(h := None)\<rparr>
               | None \<Rightarrow> w2))"

section \<open>Taking a place in the line\<close>

record lease =
  le_queueSessionId :: js_string
  le_admissionToken :: js_string
  le_identity :: queue_identity
  le_recoveryOrderId :: "js_string option"

definition toLease :: "session \<Rightarrow> js_string \<Rightarrow> lease" where
  "toLease r token = \<lparr>le_queueSessionId = qs_id r, le_admissionToken = token,
     le_identity = identity_of r, le_recoveryOrderId = None\<rparr>"

definition reuseQueueSession ::
  "(js_string \<Rightarrow> js_string) \<Rightarrow> int \<Rightarrow> session \<Rightarrow> js_string option \<Rightarrow> js_string \<Rightarrow> bool \<Rightarrow> qworld
     \<Rightarrow> lease option \<times> qworld" where
  "reuseQueueSession H t r presented newToken allowExpired w =
     (let keepPresentedToken =
            (case presented of Some p \<Rightarrow> p \<noteq> [] \<and> H p = qs_tokenHash r | None \<Rightarrow> False);
          admissionToken = (if keepPresentedToken then or_else presented [] else newToken);
          hash = (if keepPresentedToken then [] else H admissionToken);
          (rep, w1) = transitionQueueSession t r (waiting_renewal hash r t allowExpired) w
      in case reply_session rep of
           Some r' \<Rightarrow> if applied rep then (Some (toLease r' admissionToken), syncQueueSessionIndexes t rep w1)
                      else (None, w1)
         | None \<Rightarrow> (None, w1))"

definition new_record :: "int \<Rightarrow> js_string \<Rightarrow> queue_identity \<Rightarrow> js_string \<Rightarrow> js_string \<Rightarrow> session" where
  "new_record t p i sid hash =
     \<lparr>qs_id = sid, qs_performanceId = p, qs_userId = qi_userId i, qs_family = qi_family i, qs_device = qi_device i,
      qs_tokenHash = hash, qs_state = Waiting, qs_enteredAt = t, qs_order = None, qs_admittedAt = None,
      qs_activeUntilAt = None, qs_graceUntilAt = None, qs_recoveryUntilAt = None,
      qs_expiresAt = t + QUEUE_WAIT_SESSION_SECONDS * 1000\<rparr>"

definition createQueueSession ::
  "(js_string \<Rightarrow> js_string) \<Rightarrow> int \<Rightarrow> js_string \<Rightarrow> queue_identity \<Rightarrow> js_string \<Rightarrow> js_string \<Rightarrow> js_string
     \<Rightarrow> qworld \<Rightarrow> lease option \<times> qworld" where
  "createQueueSession H t p i ik sid token w =
     (let r = new_record t p i sid (H token);
          ttlMs = QUEUE_WAIT_SESSION_SECONDS * 1000;
          w1 = w\<lparr>w_refs := (w_refs w)(sid := Some (p, t + ttlMs)),
                 w_tokens := (w_tokens w)(H token := Some (sid, t + ttlMs))\<rparr>;
          ((created, _), s) = create_session t ik sid r ttlMs t (w_slots w1 p);
          w2 = set_slot p s w1
      in if created then (Some (toLease r token), w2)
         else (None, w2\<lparr>w_refs := (w_refs w2)(sid := None), w_tokens := (w_tokens w2)(H token := None)\<rparr>))"

text \<open>\<open>ensureQueueSession\<close>: three attempts. \<open>env k\<close> is what other requests do before the k-th attempt,
  \<open>rnd k\<close> its fresh session id and token.\<close>

definition settle_existing ::
  "(js_string \<Rightarrow> js_string) \<Rightarrow> int \<Rightarrow> js_string \<Rightarrow> js_string \<Rightarrow> js_string \<Rightarrow> js_string option \<Rightarrow> js_string
     \<Rightarrow> qworld \<Rightarrow> lease option option \<times> qworld" where
  "settle_existing H t p ik existing presented token w =
     (case readQueueSessionRecord t p existing w of
        Some r \<Rightarrow>
          if isAdmissionWindowClosed r t then
            (case findRecoveryOrderId (w_orders w) r t of
               Some oid \<Rightarrow>
                 (case reuseQueueSession H t r presented token True w of
                    (Some l, w1) \<Rightarrow> (Some (Some (l\<lparr>le_recoveryOrderId := Some oid\<rparr>)), w1)
                  | (None, w1) \<Rightarrow> (Some None, w1))
             | None \<Rightarrow>
                 let (r', w1) = (if qs_state r \<noteq> Expired then expireQueueSession t r w else (r, w)) in
                 if qs_state r' \<noteq> Expired then (Some None, w1)
                 else (None, snd (purgeQueueSession t p existing ik (Some (qs_tokenHash r')) w1)))
          else if isReusable r t then
            (case reuseQueueSession H t r presented token False w of
               (Some l, w1) \<Rightarrow> (Some (Some l), w1)
             | (None, w1) \<Rightarrow> (Some None, w1))
          else (None, snd (purgeQueueSession t p existing ik (Some (qs_tokenHash r)) w))
      | None \<Rightarrow> (None, snd (purgeQueueSession t p existing ik None w)))"

fun ensure_attempts ::
  "(js_string \<Rightarrow> js_string) \<Rightarrow> int \<Rightarrow> js_string \<Rightarrow> queue_identity \<Rightarrow> js_string option
     \<Rightarrow> (nat \<Rightarrow> qworld \<Rightarrow> qworld) \<Rightarrow> (nat \<Rightarrow> js_string \<times> js_string) \<Rightarrow> nat \<Rightarrow> nat \<Rightarrow> qworld
     \<Rightarrow> (queue_error + lease) \<times> qworld" where
  "ensure_attempts H t p i presented env rnd k 0 w = (Inl SetupConflict, w)"
| "ensure_attempts H t p i presented env rnd k (Suc left) w =
     (let w0 = env k w; ik = identityKey p i;
          (settled, w1) =
            (case live t (identities (w_slots w0 p) ik) of
               Some existing \<Rightarrow> settle_existing H t p ik existing presented (snd (rnd k)) w0
             | None \<Rightarrow> (None, w0))
      in case settled of
           Some (Some l) \<Rightarrow> (Inr l, w1)
         | Some None \<Rightarrow> ensure_attempts H t p i presented env rnd (Suc k) left w1
         | None \<Rightarrow>
             (case createQueueSession H t p i ik (fst (rnd k)) (snd (rnd k)) w1 of
                (Some l, w2) \<Rightarrow> (Inr l, w2)
              | (None, w2) \<Rightarrow> ensure_attempts H t p i presented env rnd (Suc k) left w2))"

definition ensureQueueSession ::
  "(js_string \<Rightarrow> js_string) \<Rightarrow> int \<Rightarrow> js_string \<Rightarrow> queue_identity \<Rightarrow> js_string option
     \<Rightarrow> (nat \<Rightarrow> qworld \<Rightarrow> qworld) \<Rightarrow> (nat \<Rightarrow> js_string \<times> js_string) \<Rightarrow> qworld
     \<Rightarrow> (queue_error + lease) \<times> qworld" where
  "ensureQueueSession H t p i presented env rnd w = ensure_attempts H t p i presented env rnd 0 3 w"

section \<open>Remaining seats\<close>

text \<open>\<open>remaining_seats_state\<close>: the seat count and whether a showtime is on sale. The sold count and
  capacity come from SQL; the live locks are counted per showtime on the booking Redis.\<close>

type_synonym seats_state = "int \<times> bool"

definition NO_BOOKABLE_SHOWTIME :: js_string where
  "NO_BOOKABLE_SHOWTIME = ''no-bookable-showtime''"

definition parseRemainingSeatsCache :: "js_string \<Rightarrow> seats_state" where
  "parseRemainingSeatsCache cached =
     (if cached = NO_BOOKABLE_SHOWTIME then (0, False) else (max (or_else (js_number cached) 0) 0, True))"

definition cache_text :: "seats_state \<Rightarrow> js_string" where
  "cache_text st = (if snd st then js_of_int (fst st) else NO_BOOKABLE_SHOWTIME)"

fun count_locked :: "'s redis \<Rightarrow> js_string list \<Rightarrow> 's \<Rightarrow> int \<times> 's" where
  "count_locked R [] s = (0, s)"
| "count_locked R (st # sts) s =
     (let (n, s1) = count_valid_locked_seats_lua R (locked_seats_key st) (seat_prefix st) s;
          (m, s2) = count_locked R sts s1
      in (int n + m, s2))"

definition calculateRemainingSeatsFresh ::
  "'s redis \<Rightarrow> js_string list \<Rightarrow> int option \<Rightarrow> int \<Rightarrow> 's \<Rightarrow> seats_state \<times> 's" where
  "calculateRemainingSeatsFresh R onSaleShowtimes totalSeats soldCount s =
     (if onSaleShowtimes = [] then ((0, False), s)
      else case totalSeats of None \<Rightarrow> ((0, True), s)
        | Some totalCap \<Rightarrow>
            let (lockedCount, s1) = count_locked R onSaleShowtimes s;
                onSaleCapacity = totalCap * int (length onSaleShowtimes)
            in ((max (onSaleCapacity - soldCount - lockedCount) 0, True), s1))"

text \<open>\<open>readRemainingSeatsState\<close>: \<open>fresh k\<close> is the k-th calculation, and \<open>env k\<close> what others do to the
  slot while it runs.\<close>

fun read_remaining ::
  "int \<Rightarrow> (nat \<Rightarrow> seats_state) \<Rightarrow> (nat \<Rightarrow> slot \<Rightarrow> slot) \<Rightarrow> nat \<Rightarrow> nat \<Rightarrow> bool \<Rightarrow> js_string \<Rightarrow> slot
     \<Rightarrow> (seats_state \<times> js_string) \<times> slot" where
  "read_remaining t fresh env k 0 bookable ver s = (((0, bookable), ver), s)"
| "read_remaining t fresh env k (Suc left) bookable ver s =
     (let (cached, capVersion) = read_capacity t s in
      if cached \<noteq> [] then ((parseRemainingSeatsCache cached, capVersion), s)
      else
        let (ok, s1) = cache_capacity t capVersion (cache_text (fresh k)) 2 (env k s) in
        if ok then ((fresh k, capVersion), s1)
        else read_remaining t fresh env (Suc k) left (snd (fresh k)) capVersion s1)"

definition readRemainingSeatsState ::
  "int \<Rightarrow> (nat \<Rightarrow> seats_state) \<Rightarrow> (nat \<Rightarrow> slot \<Rightarrow> slot) \<Rightarrow> slot \<Rightarrow> (seats_state \<times> js_string) \<times> slot" where
  "readRemainingSeatsState t fresh env s = read_remaining t fresh env 0 3 True ''0'' s"

section \<open>Admission\<close>

definition admitQueueSession :: "int \<Rightarrow> js_string \<Rightarrow> js_string \<Rightarrow> qworld \<Rightarrow> qworld" where
  "admitQueueSession t p sid w =
     (case readQueueSessionRecord t p sid w of
        Some r \<Rightarrow> if qs_state r \<noteq> Waiting then w
                  else snd (transition_and_sync t r (buildAdmissionArgs t None []) w)
      | None \<Rightarrow> w)"

definition admitQueueSessionWithinCapacity ::
  "int \<Rightarrow> int \<Rightarrow> js_string \<Rightarrow> js_string \<Rightarrow> seats_state \<times> js_string \<Rightarrow> qworld \<Rightarrow> qworld" where
  "admitQueueSessionWithinCapacity t limit p sid seats w =
     (case readQueueSessionRecord t p sid w of
        Some r \<Rightarrow>
          if qs_state r \<noteq> Waiting then w
          else
            let capacity = min (fst (fst seats)) limit in
            if capacity \<le> 0 then w
            else snd (transition_and_sync t r (buildAdmissionArgs t (Some capacity) (snd seats)) w)
      | None \<Rightarrow> w)"

text \<open>One round of \<open>admitWaitingSessions\<close>: the scripts of the batch run in queue order.\<close>

fun admit_batch ::
  "int \<Rightarrow> js_string \<Rightarrow> int \<Rightarrow> js_string \<Rightarrow> js_string list \<Rightarrow> qworld \<Rightarrow> (session list \<times> bool) \<times> qworld" where
  "admit_batch t p capacity ver [] w = (([], False), w)"
| "admit_batch t p capacity ver (sid # sids) w =
     (case readQueueSessionRecord t p sid w of
        None \<Rightarrow> admit_batch t p capacity ver sids (set_slot p (ZREM sid (w_slots w p)) w)
      | Some r \<Rightarrow>
          let (rep, w1) = transition_and_sync t r (buildAdmissionArgs t (Some capacity) ver) w;
              ((rs, stop), w2) = admit_batch t p capacity ver sids w1
          in (((if applied rep then case reply_session rep of Some r' \<Rightarrow> r' # rs | None \<Rightarrow> rs else rs),
               stop \<or> reply_status rep = ''NO_CAPACITY'' \<or> reply_status rep = ''STALE_CAPACITY''), w2))"

fun admit_rounds ::
  "int \<Rightarrow> js_string \<Rightarrow> int \<Rightarrow> js_string \<Rightarrow> nat \<Rightarrow> nat \<Rightarrow> qworld \<Rightarrow> session list \<times> qworld" where
  "admit_rounds t p capacity ver 0 slots w = ([], w)"
| "admit_rounds t p capacity ver (Suc rounds) slots w =
     (let waitingIds = map fst (take slots (waiting (w_slots w p))) in
      if slots = 0 \<or> waitingIds = [] then ([], w)
      else
        let ((rs, stop), w1) = admit_batch t p capacity ver waitingIds w in
        if stop then (rs, w1)
        else (let (rs', w2) = admit_rounds t p capacity ver rounds (slots - length rs) w1 in (rs @ rs', w2)))"

definition admitWaitingSessions ::
  "int \<Rightarrow> js_string \<Rightarrow> nat \<Rightarrow> int \<Rightarrow> js_string \<Rightarrow> qworld \<Rightarrow> session list \<times> qworld" where
  "admitWaitingSessions t p slotsToFill capacity ver w = admit_rounds t p capacity ver 5 slotsToFill w"

fun expire_stale :: "int \<Rightarrow> js_string \<Rightarrow> js_string list \<Rightarrow> qworld \<Rightarrow> qworld" where
  "expire_stale t p [] w = w"
| "expire_stale t p (sid # sids) w =
     expire_stale t p sids
       (case readQueueSessionRecord t p sid w of
          None \<Rightarrow> set_slot p (SREM_active sid (w_slots w p)) w
        | Some r \<Rightarrow>
            if qs_state r = Waiting then
              snd (transitionQueueSession t r (Touch [] None (resolveEnteredAtScore r) False) w)
            else if qs_state r \<noteq> Expired \<and> null_less_eq t (resolveAuthorityExpiry r) then w
            else snd (expireQueueSession t r w))"

definition expireStaleSessions :: "int \<Rightarrow> js_string \<Rightarrow> qworld \<Rightarrow> qworld" where
  "expireStaleSessions t p w = expire_stale t p (active (w_slots w p)) w"

definition reconcilePerformanceQueue ::
  "int \<Rightarrow> int \<Rightarrow> js_string \<Rightarrow> (nat \<Rightarrow> seats_state) \<Rightarrow> qworld \<Rightarrow> session list \<times> qworld" where
  "reconcilePerformanceQueue t limit p fresh w =
     (let w1 = expireStaleSessions t p w;
          (((remainingSeats, _), capVersion), s) = readRemainingSeatsState t fresh (\<lambda>_. id) (w_slots w1 p);
          w2 = set_slot p s w1
      in if remainingSeats \<le> 0 then ([], w2)
         else
           let capacity = min remainingSeats limit;
               slotsToFill = nat (max 0 (capacity - int (length (active (w_slots w2 p)))))
           in if slotsToFill = 0 then ([], w2)
              else admitWaitingSessions t p slotsToFill capacity capVersion w2)"

definition reconcilePerformanceQueueIfDue ::
  "int \<Rightarrow> int \<Rightarrow> js_string \<Rightarrow> (nat \<Rightarrow> seats_state) \<Rightarrow> js_string \<Rightarrow> qworld \<Rightarrow> session list \<times> qworld" where
  "reconcilePerformanceQueueIfDue t limit p fresh lockToken w =
     (let s = w_slots w p in
      if live t (throttle s) \<noteq> None then ([], w)
      else
        let s1 = s\<lparr>throttle := Some (''1'', t + 1000)\<rparr> in
        if live t (reconcileLock s1) \<noteq> None then ([], set_slot p s1 w)
        else
          let s2 = s1\<lparr>reconcileLock := Some (lockToken, t + 30000)\<rparr>;
              (rs, w1) = reconcilePerformanceQueue t limit p fresh (set_slot p s2 w)
          in (rs, set_slot p (snd (release_reconcile_lock t lockToken (w_slots w1 p))) w1))"

section \<open>Entry, status and authority\<close>

record gate_row =
  ga_status :: js_string
  ga_publishState :: js_string
  ga_bookingStartsAt :: "int option"
  ga_showtimeCount :: nat
  ga_sellableShowtimeCount :: nat

definition assertPerformanceBookingOpen :: "gate_row option \<Rightarrow> bool \<Rightarrow> int \<Rightarrow> queue_error option" where
  "assertPerformanceBookingOpen row isAdmin t =
     (case row of None \<Rightarrow> Some PerformanceNotFound
      | Some g \<Rightarrow>
          if \<not> isAdmin \<and> ga_publishState g \<noteq> ''published'' then Some PerformanceNotFound
          else if ga_status g = ''ended'' then Some BookingEnded
          else if ga_sellableShowtimeCount g = 0 then
            Some (if ga_showtimeCount g > 0 then ShowtimeStarted else NoShowtime)
          else if isAdmin then None
          else if ga_bookingStartsAt g \<noteq> None \<and> \<not> isBookingStartReached (ga_bookingStartsAt g) t
               \<or> ga_status g = ''upcoming'' \<and> \<not> isBookingStartReached (ga_bookingStartsAt g) t
          then Some BookingNotOpen else None)"

record snapshot =
  sn_queueSessionId :: js_string
  sn_state :: queue_state
  sn_position :: nat
  sn_waitingCount :: nat
  sn_estimate :: wait_estimate
  sn_remainingSeats :: int
  sn_autoEnter :: bool
  sn_recoveryOrderId :: "js_string option"

definition buildSnapshot ::
  "int \<Rightarrow> int \<Rightarrow> session \<Rightarrow> js_string option \<Rightarrow> nat \<Rightarrow> nat option \<Rightarrow> int \<Rightarrow> snapshot" where
  "buildSnapshot limit t r recoveryOrderId waitingCount rank remainingSeats =
     (let st = resolveVisibleState r recoveryOrderId t;
          position = (if st = Waiting then (case rank of Some k \<Rightarrow> k + 1 | None \<Rightarrow> 0) else 0)
      in \<lparr>sn_queueSessionId = qs_id r, sn_state = st, sn_position = position, sn_waitingCount = waitingCount,
          sn_estimate = (if st = Waiting then estimateQueueWait limit (int position) remainingSeats
                         else \<lparr>etaSeconds = 0, etaMinSeconds = 0, etaUnavailable = False\<rparr>),
          sn_remainingSeats = remainingSeats, sn_autoEnter = (st = Admitted),
          sn_recoveryOrderId = (if st = PaymentRecovery then recoveryOrderId else None)\<rparr>)"

definition snapshot_of :: "int \<Rightarrow> int \<Rightarrow> session \<Rightarrow> js_string option \<Rightarrow> int \<Rightarrow> qworld \<Rightarrow> snapshot" where
  "snapshot_of limit t r recoveryOrderId remainingSeats w =
     (let z = waiting (w_slots w (qs_performanceId r))
      in buildSnapshot limit t r recoveryOrderId (length z) (zrank (qs_id r) z) remainingSeats)"

definition getQueueSessionStatus ::
  "(js_string \<Rightarrow> js_string) \<Rightarrow> int \<Rightarrow> int \<Rightarrow> js_string \<Rightarrow> queue_identity \<Rightarrow> js_string \<Rightarrow> (nat \<Rightarrow> seats_state)
     \<Rightarrow> js_string \<Rightarrow> qworld \<Rightarrow> (queue_error + snapshot) \<times> qworld" where
  "getQueueSessionStatus H limit t sid i token fresh lockToken w =
     (case live t (w_refs w sid) of None \<Rightarrow> (Inl SessionNotFound, w)
      | Some p \<Rightarrow>
          let w1 = snd (reconcilePerformanceQueueIfDue t limit p fresh lockToken w) in
          (case readQueueSessionRecord t p sid w1 of None \<Rightarrow> (Inl SessionNotFound, w1)
           | Some r \<Rightarrow>
               if \<not> assertRecordMatchesIdentity r i then (Inl SessionMismatch, w1)
               else if qs_tokenHash r \<noteq> H token then (Inl AdmissionRequired, w1)
               else
                 let (((remainingSeats, bookable), _), s) = readRemainingSeatsState t fresh (\<lambda>_. id) (w_slots w1 p);
                     w2 = set_slot p s w1
                 in if \<not> bookable then (Inl ShowtimeStarted, w2)
                    else if isAdmissionWindowClosed r t then
                      (case findRecoveryOrderId (w_orders w2) r t of
                         Some oid \<Rightarrow> (Inr (snapshot_of limit t r (Some oid) remainingSeats w2), w2)
                       | None \<Rightarrow>
                           let (r', w3) = (if qs_state r = Expired then (r, w2) else expireQueueSession t r w2)
                           in (Inr (snapshot_of limit t r' None remainingSeats w3), w3))
                    else
                      let (r', w3) = renewWaitingSession t r w2
                      in (Inr (snapshot_of limit t r' None remainingSeats w3), w3)))"

text \<open>\<open>enterPerformanceQueue\<close> after the gate: two passes, the second replaces a session that ended.\<close>

fun enter_passes ::
  "(js_string \<Rightarrow> js_string) \<Rightarrow> int \<Rightarrow> int \<Rightarrow> js_string \<Rightarrow> queue_identity \<Rightarrow> js_string option \<Rightarrow> bool
     \<Rightarrow> (nat \<Rightarrow> seats_state) \<Rightarrow> (nat \<Rightarrow> nat \<Rightarrow> qworld \<Rightarrow> qworld) \<Rightarrow> (nat \<Rightarrow> nat \<Rightarrow> js_string \<times> js_string) \<Rightarrow> js_string
     \<Rightarrow> nat \<Rightarrow> nat \<Rightarrow> qworld \<Rightarrow> (queue_error + snapshot \<times> js_string) \<times> qworld" where
  "enter_passes H limit t p i presented bypass fresh env rnd lockToken pass 0 w = (Inl SetupConflict, w)"
| "enter_passes H limit t p i presented bypass fresh env rnd lockToken pass (Suc left) w =
     (case ensureQueueSession H t p i presented (env pass) (rnd pass) w of
        (Inl e, w1) \<Rightarrow> (Inl e, w1)
      | (Inr l, w1) \<Rightarrow>
          let w2 =
            (if le_recoveryOrderId l \<noteq> None then w1
             else if bypass then admitQueueSession t p (le_queueSessionId l) w1
             else
               let wr = snd (reconcilePerformanceQueueIfDue t limit p fresh lockToken w1);
                   (seats, s) = readRemainingSeatsState t fresh (\<lambda>_. id) (w_slots wr p)
               in admitQueueSessionWithinCapacity t limit p (le_queueSessionId l) seats (set_slot p s wr))
          in (case getQueueSessionStatus H limit t (le_queueSessionId l) (le_identity l) (le_admissionToken l)
                     fresh lockToken w2 of
                (Inl e, w3) \<Rightarrow> (Inl e, w3)
              | (Inr sn, w3) \<Rightarrow>
                  if sn_state sn \<noteq> Expired \<or> left = 0 then (Inr (sn, le_admissionToken l), w3)
                  else enter_passes H limit t p i presented bypass fresh env rnd lockToken (Suc pass) left w3))"

definition enterPerformanceQueue ::
  "(js_string \<Rightarrow> js_string) \<Rightarrow> int \<Rightarrow> int \<Rightarrow> js_string \<Rightarrow> queue_identity \<Rightarrow> js_string option \<Rightarrow> bool \<Rightarrow> bool
     \<Rightarrow> gate_row option \<Rightarrow> (nat \<Rightarrow> seats_state) \<Rightarrow> (nat \<Rightarrow> nat \<Rightarrow> qworld \<Rightarrow> qworld)
     \<Rightarrow> (nat \<Rightarrow> nat \<Rightarrow> js_string \<times> js_string) \<Rightarrow> js_string
     \<Rightarrow> qworld \<Rightarrow> (queue_error + snapshot \<times> js_string) \<times> qworld" where
  "enterPerformanceQueue H limit t p i presented bypass isAdmin gate fresh env rnd lockToken w =
     (case assertPerformanceBookingOpen gate isAdmin t of
        Some e \<Rightarrow> (Inl e, w)
      | None \<Rightarrow> enter_passes H limit t p i presented bypass fresh env rnd lockToken 0 2 w)"

datatype queue_action = LockSeat | PrepareReservation | ConfirmPayment

definition findQueueSessionByAdmissionToken ::
  "(js_string \<Rightarrow> js_string) \<Rightarrow> int \<Rightarrow> js_string \<Rightarrow> qworld \<Rightarrow> session option" where
  "findQueueSessionByAdmissionToken H t token w =
     (case live t (w_tokens w (H token)) of None \<Rightarrow> None
      | Some sid \<Rightarrow>
          (case live t (w_refs w sid) of None \<Rightarrow> None
           | Some p \<Rightarrow>
               (case readQueueSessionRecord t p sid w of
                  Some r \<Rightarrow> if qs_tokenHash r = H token then Some r else None
                | None \<Rightarrow> None)))"

definition admission_of :: "session \<Rightarrow> queue_error + admission" where
  "admission_of r =
     (case (qs_admittedAt r, qs_activeUntilAt r, qs_graceUntilAt r) of
        (Some a, Some u, Some g) \<Rightarrow>
          Inr \<lparr>ad_queueSessionId = qs_id r, ad_identity = identity_of r, ad_admittedAt = a,
               ad_activeUntilAt = u, ad_graceUntilAt = g\<rparr>
      | _ \<Rightarrow> Inl AdmissionInvalid)"

definition assertAdmissionForPerformance ::
  "(js_string \<Rightarrow> js_string) \<Rightarrow> int \<Rightarrow> js_string \<Rightarrow> queue_identity \<Rightarrow> js_string \<Rightarrow> queue_action
     \<Rightarrow> qworld \<Rightarrow> (queue_error + admission) \<times> qworld" where
  "assertAdmissionForPerformance H t p i token action w =
     (case findQueueSessionByAdmissionToken H t token w of None \<Rightarrow> (Inl AdmissionRequired, w)
      | Some r \<Rightarrow>
          if \<not> assertRecordMatchesIdentity r i then (Inl SessionMismatch, w)
          else if qs_performanceId r \<noteq> p then (Inl PerformanceMismatch, w)
          else if qs_state r = Waiting then (Inl NotAdmitted, w)
          else if qs_state r = Expired then (Inl AdmissionExpired, w)
          else
            let hasActiveAuthority = null_less_eq t (qs_activeUntilAt r);
                hasPaymentRecoveryAuthority = null_less_eq t (qs_recoveryUntilAt r)
            in if action = ConfirmPayment \<and> \<not> hasActiveAuthority \<and> \<not> hasPaymentRecoveryAuthority then
                 (let (r', w1) = expireQueueSession t r w
                  in (Inl (if qs_state r' = Expired then AdmissionExpired else AdmissionRequired), w1))
               else if action \<noteq> ConfirmPayment \<and> \<not> hasActiveAuthority then
                 (Inl AdmissionExpired, snd (expireQueueSession t r w))
               else if action = PrepareReservation then
                 (let (r', w1) = enablePaymentRecovery t r w
                  in if qs_state r' = Expired then (Inl AdmissionExpired, w1) else (admission_of r', w1))
               else (admission_of r, w))"

definition assertAdmissionForShowtime ::
  "(js_string \<Rightarrow> js_string) \<Rightarrow> int \<Rightarrow> js_string option \<Rightarrow> queue_identity \<Rightarrow> js_string \<Rightarrow> queue_action
     \<Rightarrow> qworld \<Rightarrow> (queue_error + admission) \<times> qworld" where
  "assertAdmissionForShowtime H t performanceOfShowtime i token action w =
     (case performanceOfShowtime of None \<Rightarrow> (Inl ShowtimeNotFound, w)
      | Some p \<Rightarrow> assertAdmissionForPerformance H t p i token action w)"

definition assertAdmissionForOrder ::
  "(js_string \<Rightarrow> js_string) \<Rightarrow> int \<Rightarrow> js_string \<Rightarrow> js_string \<Rightarrow> queue_identity \<Rightarrow> js_string option
     \<Rightarrow> qworld \<Rightarrow> (queue_error + admission) \<times> qworld" where
  "assertAdmissionForOrder H t orderId userId i token w =
     (case List.find (\<lambda>o1. or_tossOrderId o1 = Some orderId \<and> or_userId o1 = userId) (w_orders w) of
        None \<Rightarrow> (Inl OrderNotFound, w)
      | Some o1 \<Rightarrow>
          (case resolveOrderBoundAdmission o1 i userId t of
             Some a \<Rightarrow> (Inr a, w)
           | None \<Rightarrow>
               if token = None \<or> token = Some [] then (Inl AdmissionRequired, w)
               else assertAdmissionForPerformance H t (or_performanceId o1) i (or_else token []) ConfirmPayment w))"

section \<open>Returning the slot of a purchase\<close>

definition releaseAdmissionAfterPurchase :: "int \<Rightarrow> js_string option \<Rightarrow> js_string \<Rightarrow> qworld \<Rightarrow> bool \<times> qworld" where
  "releaseAdmissionAfterPurchase t queueSessionId newVersion w =
     (case queueSessionId of None \<Rightarrow> (False, w)
      | Some sid \<Rightarrow>
          if sid = [] then (False, w)
          else (case live t (w_refs w sid) of None \<Rightarrow> (False, w)
            | Some p \<Rightarrow>
                let w1 = set_slot p (invalidate_capacity newVersion (w_slots w p)) w in
                (case readQueueSessionRecord t p sid w1 of
                   None \<Rightarrow> (False, set_slot p (SREM_active sid (w_slots w1 p)) w1)
                 | Some r \<Rightarrow>
                     let (rep, w2) = transition_and_sync t r
                           (Release (t + QUEUE_EXPIRED_RETENTION_SECONDS * 1000)
                              (QUEUE_EXPIRED_RETENTION_SECONDS * 1000)) w1
                     in (applied rep, w2))))"

definition releaseAdmissionForOrder :: "int \<Rightarrow> js_string \<Rightarrow> js_string \<Rightarrow> js_string \<Rightarrow> qworld \<Rightarrow> bool \<times> qworld" where
  "releaseAdmissionForOrder t orderId userId newVersion w =
     (case List.find (\<lambda>o1. or_tossOrderId o1 = Some orderId \<and> or_userId o1 = userId
                        \<and> or_status o1 = ''CONFIRMED'') (w_orders w) of
        None \<Rightarrow> (False, w)
      | Some o1 \<Rightarrow> releaseAdmissionAfterPurchase t (or_queueSessionId o1) newVersion w)"

end
