(* ===== verification/QueueTheorems.thy ===== *)
theory QueueTheorems
  imports QueueService
begin

text \<open>
  What the waiting queue guarantees: capacity, order and the life cycle of a session on every run of
  the scripts, the agreement of the in-memory mirror with the scripts, and the authority the service
  hands out.
\<close>

section \<open>Order and life cycle\<close>

fun state_rank :: "queue_state \<Rightarrow> nat" where
  "state_rank Waiting = 0"
| "state_rank Admitted = 1"
| "state_rank PaymentRecovery = 1"
| "state_rank Expired = 2"

lemma apply_op_record:
  assumes "GET_SESSION t s x = Some r" and "apply_op t x ik q r s = (rep, s')"
  obtains r' where "GET_SESSION t s' = (GET_SESSION t s)(x := Some r')"
    and "state_rank (qs_state r) \<le> state_rank (qs_state r')"
proof -
  have id: "GET_SESSION t s = (GET_SESSION t s)(x := Some r)" using assms(1) by (simp add: fun_upd_idem)
  have "\<exists>r'. GET_SESSION t s' = (GET_SESSION t s)(x := Some r') \<and> state_rank (qs_state r) \<le> state_rank (qs_state r')"
  proof (cases q)
    case Admit
    then show ?thesis using assms(2) id
      by (auto simp: Let_def admitted_record_def split: if_splits option.splits)
  next
    case (Touch hash renewal order recover)
    then show ?thesis using assms(2) id by (auto simp: Let_def split: if_splits option.splits)
  next
    case Recovery
    then show ?thesis using assms(2) id by (auto simp: Let_def split: if_splits)
  next
    case Expire
    then show ?thesis using assms(2) id by (cases "qs_state r") (auto simp: Let_def split: if_splits)
  next
    case Release
    then show ?thesis using assms(2) id by (cases "qs_state r") (auto simp: Let_def split: if_splits)
  qed
  then show ?thesis using that by blast
qed

lemma transition_record:
  assumes "transition t x ik q s = (rep, s')" and "GET_SESSION t s y = Some r" and "GET_SESSION t s' y = Some r'"
  shows "state_rank (qs_state r) \<le> state_rank (qs_state r')"
proof (cases "GET_SESSION t s x")
  case None
  with assms show ?thesis by (auto simp: transition_def)
next
  case (Some rx)
  with assms(1) have "apply_op t x ik q rx s = (rep, s')" by (simp add: transition_def)
  from apply_op_record [OF Some this] obtain r2 where "GET_SESSION t s' = (GET_SESSION t s)(x := Some r2)"
    and "state_rank (qs_state rx) \<le> state_rank (qs_state r2)" by blast
  with Some assms(2,3) show ?thesis by (auto split: if_splits)
qed

lemma step_record:
  assumes "queue_step L t s b s'" and "GET_SESSION t s y = Some r" and "GET_SESSION t s' y = Some r'"
  shows "state_rank (qs_state r) \<le> state_rank (qs_state r')"
  using assms
proof cases
  case (call q x ik rep)
  with assms show ?thesis by (blast intro: transition_record)
next
  case (bypass x ik at until grace exp ms ver rep)
  with assms show ?thesis by (blast intro: transition_record)
next
  case (create x r0 ik ms score rep)
  then have "y \<noteq> x" using assms(2) by auto
  with create assms(2,3) show ?thesis
    by (auto simp: create_session_def GET_SESSION_def Let_def ZADD_def split: option.splits)
next
  case (purge x ik nowIso rep)
  with assms(2,3) show ?thesis
    by (auto simp: purge_session_def Let_def GET_SESSION_def split: option.splits if_splits)
qed (use assms in \<open>auto simp: cache_capacity_def invalidate_capacity_def GET_SESSION_def split: if_splits\<close>)

lemma place_iff:
  "slot_ok t s \<Longrightarrow> GET_SESSION t s x = Some r \<Longrightarrow>
    (x \<in> fst ` set (waiting s) \<longleftrightarrow> qs_state r = Waiting) \<and> (x \<in> set (active s) \<longleftrightarrow> qs_state r = Admitted)"
  by (drule place_okD, assumption) (cases "qs_state r"; simp add: place_ok_def)

lemma zrank_snoc:
  "zrank c (z @ [(x, k)]) =
    (case zrank c z of Some i \<Rightarrow> Some i | None \<Rightarrow> if c = x then Some (length z) else None)"
  by (induction z) (auto split: option.splits)

definition alice :: queue_identity where
  "alice = \<lparr>qi_userId = ''u1'', qi_family = ''f1'', qi_device = ''f1''\<rparr>"

section \<open>Properties\<close>

text \<open>C22: In every state the queue of a performance can reach, whatever scripts run in whatever order
  on any number of instances, the active set has at most as many sessions as the admission capacity
  L plus the number of bypass admissions; and a live session is exactly where its state says:
  a waiting one is in line and holds no slot, an admitted one holds a slot and is not in line, an
  expired one is in neither.\<close>
theorem queue_capacity_and_places:
  assumes "queue_run L n t s" and "0 \<le> L"
  shows "int (length (active s)) \<le> L + int n \<and> distinct (active s) \<and> distinct (map fst (waiting s)) \<and>
    (\<forall>sid r. GET_SESSION t s sid = Some r \<longrightarrow>
       (sid \<in> fst ` set (waiting s) \<longleftrightarrow> qs_state r = Waiting) \<and>
       (sid \<in> set (active s) \<longleftrightarrow> qs_state r = Admitted))"
  using run_ok [OF assms(1)] assms(2) place_iff
  by (simp add: slot_ok_def line_ok_def) (metis place_iff run_ok [OF assms(1)])

lemma queue_capacity_and_places_witness:
  "distinct (active (snd (transition 5 ''a'' ''i'' (Admit 5 6 7 8 3 (Some 1) ''0'')
     (snd (create_session 5 ''i'' ''a'' (new_record 5 ''p'' alice ''a'' ''h'') 100 5 empty_slot)))))"
proof -
  let ?r = "new_record 5 ''p'' alice ''a'' ''h''"
  let ?s = "snd (create_session 5 ''i'' ''a'' ?r 100 5 empty_slot)"
  have "queue_step 1 5 empty_slot False ?s"
    by (rule queue_step.create [where x = "''a''", OF _ _ _ _ prod.collapse [symmetric]])
       (simp_all add: empty_slot_def GET_SESSION_def new_record_def)
  from queue_run.step [OF queue_run.start this] have 1: "queue_run 1 0 5 ?s" by simp
  have "queue_step 1 5 ?s False (snd (transition 5 ''a'' ''i'' (Admit 5 6 7 8 3 (Some 1) ''0'') ?s))"
    by (rule queue_step.call [OF _ prod.collapse [symmetric]]) simp
  from queue_run.step [OF 1 this]
  have "queue_run 1 0 5 (snd (transition 5 ''a'' ''i'' (Admit 5 6 7 8 3 (Some 1) ''0'') ?s))" by simp
  from queue_capacity_and_places [OF this] show ?thesis by simp
qed

text \<open>C23: No step lets a session overtake another: two sessions that are in line before and after a
  step keep their order, and a session that joins stands behind everyone who is in line.\<close>
theorem queue_order_kept:
  assumes "queue_run L n t s" and "queue_step L t s b s'"
  shows "(\<forall>a c i j i' j'. zrank a (waiting s) = Some i \<longrightarrow> zrank c (waiting s) = Some j \<longrightarrow> i < j \<longrightarrow>
            zrank a (waiting s') = Some i' \<longrightarrow> zrank c (waiting s') = Some j' \<longrightarrow> i' < j') \<and>
         (\<forall>a c i j. zrank a (waiting s) = None \<longrightarrow> zrank a (waiting s') = Some i \<longrightarrow> c \<noteq> a \<longrightarrow>
            zrank c (waiting s') = Some j \<longrightarrow> j < i)"
proof -
  have ok: "slot_ok t s" using run_ok [OF assms(1)] by blast
  then have d: "distinct (map fst (waiting s))" by (simp add: slot_ok_def line_ok_def)
  from step_effects [OF assms(2) ok] have "line_change s s'" by (simp add: step_effect_def)
  then consider P where "waiting s' = filter P (waiting s)" | x k where "waiting s' = waiting s @ [(x, k)]"
    unfolding line_change_def by blast
  then show ?thesis
  proof cases
    case 1
    show ?thesis unfolding 1
    proof (intro conjI allI impI)
      fix a c i j i' j'
      assume "zrank a (waiting s) = Some i" "zrank c (waiting s) = Some j" "i < j"
        "zrank a (filter P (waiting s)) = Some i'" "zrank c (filter P (waiting s)) = Some j'"
      then show "i' < j'" using zrank_filter_mono d by blast
    next
      fix a c i j
      assume "zrank a (waiting s) = None" "zrank a (filter P (waiting s)) = Some i"
      then have False using zrank_None [of a "waiting s"] zrank_None [of a "filter P (waiting s)"] by auto
      then show "j < i" ..
    qed
  next
    case 2
    have len: "j < length (waiting s)" if "zrank c (waiting s) = Some j" for c j using zrank_nth [OF that] by simp
    show ?thesis unfolding 2 zrank_snoc
      using len by (auto split: option.splits if_splits)
  qed
qed
text \<open>Two sessions in line, for the witnesses.\<close>

definition bob :: queue_identity where
  "bob = \<lparr>qi_userId = ''u2'', qi_family = ''f2'', qi_device = ''f2''\<rparr>"

definition one_waiting :: slot where
  "one_waiting = snd (create_session 5 ''i'' ''a'' (new_record 5 ''p'' alice ''a'' ''h'') 100 5 empty_slot)"

definition two_waiting :: slot where
  "two_waiting = snd (create_session 5 ''j'' ''b'' (new_record 5 ''p'' bob ''b'' ''k'') 100 5 one_waiting)"

lemmas demo_defs = two_waiting_def one_waiting_def create_session_def empty_slot_def new_record_def
  ZADD_def lua_ttl_def Let_def GET_SESSION_def

lemma one_waiting_line: "waiting one_waiting = [(''a'', 5)]" "active one_waiting = []"
  by (simp_all add: demo_defs)

lemma two_waiting_line: "waiting two_waiting = [(''a'', 5), (''b'', 6)]" "active two_waiting = []"
    "capacityVersion two_waiting = None"
  by (simp_all add: demo_defs)

lemma two_waiting_sessions:
  "GET_SESSION 5 two_waiting ''a'' = Some (new_record 5 ''p'' alice ''a'' ''h''\<lparr>qs_order := Some 5\<rparr>)"
  "GET_SESSION 5 two_waiting ''b'' = Some (new_record 5 ''p'' bob ''b'' ''k''\<lparr>qs_order := Some 6\<rparr>)"
  by (simp_all add: demo_defs)

lemma one_waiting_run: "queue_run 1 0 5 one_waiting"
proof -
  have "queue_step 1 5 empty_slot False one_waiting" unfolding one_waiting_def
    by (rule queue_step.create [where x = "''a''", OF _ _ _ _ prod.collapse [symmetric]])
       (simp_all add: empty_slot_def GET_SESSION_def new_record_def)
  from queue_run.step [OF queue_run.start this] show ?thesis by simp
qed

lemma two_waiting_step: "queue_step 1 5 one_waiting False two_waiting"
  unfolding two_waiting_def
  by (rule queue_step.create [where x = "''b''", OF _ _ _ _ prod.collapse [symmetric]])
     (simp_all add: demo_defs)

lemma two_waiting_run: "queue_run 1 0 5 two_waiting"
  using queue_run.step [OF one_waiting_run two_waiting_step] by simp

lemma queue_order_kept_witness: "(0::nat) < 1 \<and> zrank ''b'' (waiting two_waiting) = Some 1"
  using queue_order_kept [OF one_waiting_run two_waiting_step]
  by (auto simp: two_waiting_line one_waiting_line)

text \<open>C24: A session's state only moves forward, WAITING to ADMITTED to EXPIRED: no script, whoever runs
  it, brings a live session back, so an expired session never regains a slot or a place.\<close>
theorem session_state_never_goes_back:
  assumes "queue_step L t s b s'" and "GET_SESSION t s sid = Some r" and "GET_SESSION t s' sid = Some r'"
  shows "state_rank (qs_state r) \<le> state_rank (qs_state r')"
  using assms by (rule step_record)

lemma session_state_never_goes_back_witness:
  "state_rank (qs_state (new_record 5 ''p'' alice ''a'' ''h''\<lparr>qs_order := Some 5\<rparr>))
   \<le> state_rank (qs_state (new_record 5 ''p'' alice ''a'' ''h''\<lparr>qs_order := Some 5\<rparr>))"
  by (rule session_state_never_goes_back [OF two_waiting_step, of "''a''"]) (simp_all add: demo_defs)

text \<open>An admission that asks with a capacity succeeds only for a waiting session, with the current
  capacity version, and only when all the sessions ahead of it in line also fit beside those already
  active; it then leaves the line, takes exactly one slot and changes nobody else's place.\<close>
theorem admitted_only_in_turn:
  assumes "slot_ok t s" and "transition t x ik (Admit at until grace exp ms (Some c) ver) s = (rep, s')" and "applied rep"
  shows "(\<exists>r i. GET_SESSION t s x = Some r \<and> qs_state r = Waiting \<and> zrank x (waiting s) = Some i \<and>
             int (length (active s)) + int i < c) \<and>
         ver = or_else (capacityVersion s) ''0'' \<and>
         active s' = active s @ [x] \<and> waiting s' = filter (\<lambda>e. fst e \<noteq> x) (waiting s) \<and>
         (\<exists>r'. GET_SESSION t s' x = Some r' \<and> qs_state r' = Admitted \<and> qs_activeUntilAt r' = Some until)"
proof (cases "GET_SESSION t s x")
  case None
  with assms(2,3) show ?thesis by (auto simp: transition_def missing_reply_def)
next
  case (Some r)
  with assms(2) have op: "apply_op t x ik (Admit at until grace exp ms (Some c) ver) r s = (rep, s')"
    by (simp add: transition_def)
  from admit_effect [OF assms(1) Some op] assms(3)
  have e: "x \<in> fst ` set (waiting s)" "admit_refusal x (Some c) ver s = None"
    "waiting s' = filter (\<lambda>e. fst e \<noteq> x) (waiting s)" "active s' = active s @ [x]" by simp_all
  have w: "qs_state r = Waiting" using op assms(3) by (auto simp: refuse_def split: if_splits)
  with op e(2) have "s' = SADD_active x (ZREM x (put_session t x ik (admitted_record at until grace exp r) (lua_ttl ms) s))"
    by (simp add: Let_def)
  then have "GET_SESSION t s' x = Some (admitted_record at until grace exp r)" by simp
  with Some w e admit_room [OF e(2,1)] show ?thesis by (auto simp: admitted_record_def)
qed

lemma admitted_only_in_turn_witness:
  "active (snd (transition 5 ''b'' ''j'' (Admit 5 6 7 8 3 (Some 2) ''0'') two_waiting)) = [''b'']"
proof -
  have "slot_ok 5 two_waiting" using run_ok [OF two_waiting_run] by blast
  moreover have "applied (fst (transition 5 ''b'' ''j'' (Admit 5 6 7 8 3 (Some 2) ''0'') two_waiting))"
    by (simp add: transition_def two_waiting_sessions two_waiting_line new_record_def admit_refusal_def grant_def Let_def)
  ultimately show ?thesis
    using admitted_only_in_turn [OF _ prod.collapse [symmetric], of 5 two_waiting "''b''" "''j''"]
    by (simp only: two_waiting_line append_Nil)
qed

text \<open>C25: Once a completed purchase has set a new capacity version, every admission that still carries
  the old version is refused as stale and leaves the slot as it was, and no seat count calculated
  under the old version can be published.\<close>
theorem stale_capacity_fenced:
  assumes "newVersion \<noteq> ver" and "GET_SESSION t s x = Some r" and "qs_state r = Waiting"
    and "s1 = invalidate_capacity newVersion s"
  shows "transition t x ik (Admit at until grace exp ms (Some c) ver) s1 = (refuse ''STALE_CAPACITY'' r, s1) \<and>
         cache_capacity t ver val n s1 = (False, s1) \<and> fst (read_capacity t s1) = []"
  using assms
  by (simp add: transition_def invalidate_capacity_def GET_SESSION_def admit_refusal_def cache_capacity_def
      read_capacity_def)

lemma stale_capacity_fenced_witness:
  "cache_capacity 5 ''0'' ''9'' 2 (invalidate_capacity ''v1'' two_waiting) = (False, invalidate_capacity ''v1'' two_waiting)"
proof -
  let ?r = "new_record 5 ''p'' alice ''a'' ''h''\<lparr>qs_order := Some 5\<rparr>"
  have "qs_state ?r = Waiting" by (simp add: new_record_def)
  from stale_capacity_fenced [OF _ two_waiting_sessions(1) this refl, of "''v1''" "''0''"]
  show ?thesis by simp
qed

lemma mirror_admit_refusal_eq: "mirror_admit_refusal = admit_refusal"
  by (intro ext) (auto simp: mirror_admit_refusal_def admit_refusal_def split: option.splits)

lemma mirror_pttl_eq: "mirror_pttl = currentTtlMs"
  by (intro ext) (simp add: mirror_pttl_def currentTtlMs_def Let_def)

lemma mirror_save_eq:
  assumes "ms \<noteq> 0" and "live t (identities s ik) \<noteq> Some []"
  shows "mirror_save t x ik r ms s = (put_session t x ik r (lua_ttl ms) s, lua_ttl ms)"
  using assms by (auto simp: mirror_save_def put_session_def js_ttl_def lua_ttl_def Let_def split: option.splits)

lemma mirror_touch_line:
  "(let s0 = SREM_active x s in if zrank x (waiting s0) = None then ZADD k x s0 else s0)
   = ZADD_NX k x (SREM_active x s)"
  by (simp add: ZADD_NX_def zrank_None Let_def)

lemma identities_ZADD_NX [simp]: "identities (ZADD_NX k x s) = identities s"
  by (simp add: ZADD_NX_def ZADD_def)

lemma currentTtlMs_nonzero: "currentTtlMs t x s \<noteq> 0"
  by (simp add: currentTtlMs_def Let_def)

text \<open>C26: The JavaScript mirror that the in-memory server runs and the Lua script of production give the
  same reply and the same state for every operation on every session, as long as no caller passes a
  TTL of 0 and no identity key holds the empty text.\<close>
theorem mirror_agrees_with_script:
  assumes "op_ttl q \<noteq> Some 0" and "live t (identities s ik) \<noteq> Some []"
  shows "evalTransitionInMemory t x ik q s = transition t x ik q s"
proof (cases "GET_SESSION t s x")
  case (Some r)
  note sv = mirror_save_eq [OF _ assms(2)] and cur = currentTtlMs_nonzero
  have "mirror_apply t x ik q r s = apply_op t x ik q r s"
  proof (cases q)
    case (Touch hash renewal order recover)
    have sv2: "ms \<noteq> 0 \<Longrightarrow> mirror_save t x ik r' ms (ZADD_NX k x (SREM_active x s)) =
        (put_session t x ik r' (lua_ttl ms) (ZADD_NX k x (SREM_active x s)), lua_ttl ms)" for ms r' k
      by (rule mirror_save_eq) (simp_all add: assms(2))
    show ?thesis
    proof (cases "qs_state r = Waiting")
      case True
      with Touch assms(1) show ?thesis
        by (simp only: mirror_apply.simps apply_op.simps mirror_touch_line mirror_pttl_eq)
           (auto simp: sv2 cur Let_def split: option.splits)
    next
      case False
      with Touch show ?thesis by (auto simp: mirror_pttl_eq sv cur Let_def split: option.splits)
    qed
  qed (use assms(1) in \<open>auto simp: mirror_admit_refusal_eq sv admitted_record_def fingerprint_def Let_def
        split: option.splits\<close>)
  with Some show ?thesis by (simp add: evalTransitionInMemory_def transition_def)
qed (simp add: evalTransitionInMemory_def transition_def)

lemma mirror_agrees_with_script_witness:
  "evalTransitionInMemory 5 ''b'' ''j'' (Release 9 300) two_waiting = transition 5 ''b'' ''j'' (Release 9 300) two_waiting"
  by (rule mirror_agrees_with_script) (simp_all add: demo_defs)

section \<open>The service\<close>

lemma max_option_None [simp]: "max_option [] = None"
  by (simp add: max_option_def)

lemma max_option_pair:
  "max_option [a, b] = (case (a, b) of (None, _) \<Rightarrow> b | (_, None) \<Rightarrow> a | (Some x, Some y) \<Rightarrow> Some (max y x))"
  by (simp add: max_option_def List.map_filter_def split: option.splits)

lemma read_remaining_version:
  "read_remaining t fresh env k left bookable v0 s = (((n, b), v), s') \<Longrightarrow> 0 < n \<Longrightarrow>
   or_else (capacityVersion s') ''0'' = v"
proof (induction left arbitrary: k bookable v0 s)
  case (Suc left)
  show ?case
  proof (cases "fst (read_capacity t s) = []")
    case False
    with Suc.prems show ?thesis by (auto simp: read_capacity_def Let_def split: prod.splits)
  next
    case True
    with Suc show ?thesis
      by (auto simp: read_capacity_def cache_capacity_def Let_def split: prod.splits if_splits)
  qed
qed auto

text \<open>The seat count an admission is based on is never stale: whatever other requests do to the slot
  while it is computed, a positive count is returned only together with the capacity version that is
  still current when it is returned; if purchases keep changing the version, the count is 0.\<close>
theorem seat_count_is_current:
  assumes "readRemainingSeatsState t fresh env s = (((n, b), v), s')" and "0 < n"
  shows "or_else (capacityVersion s') ''0'' = v"
  using read_remaining_version assms by (simp add: readRemainingSeatsState_def)

lemma seat_count_is_current_witness:
  "fst (readRemainingSeatsState 5 (\<lambda>_. (7, True)) (\<lambda>_. id) two_waiting) = ((7, True), ''0'')
   \<and> or_else (capacityVersion (snd (readRemainingSeatsState 5 (\<lambda>_. (7, True)) (\<lambda>_. id) two_waiting))) ''0'' = ''0''"
proof -
  have r: "fst (readRemainingSeatsState 5 (\<lambda>_. (7, True)) (\<lambda>_. id) two_waiting) = ((7, True), ''0'')"
    by (simp add: readRemainingSeatsState_def eval_nat_numeral read_capacity_def cache_capacity_def demo_defs)
  then have "readRemainingSeatsState 5 (\<lambda>_. (7, True)) (\<lambda>_. id) two_waiting =
    (((7, True), ''0''), snd (readRemainingSeatsState 5 (\<lambda>_. (7, True)) (\<lambda>_. id) two_waiting))"
    by (metis prod.collapse)
  from seat_count_is_current [OF this] r show ?thesis by simp
qed

lemma w_slots_set [simp]: "w_slots (set_slot p s w) = (w_slots w)(p := s)"
  by (simp add: set_slot_def)

lemma w_slots_sync [simp]: "w_slots (syncQueueSessionIndexes t rep w) = w_slots w"
  by (simp add: syncQueueSessionIndexes_def Let_def split: option.splits)

definition world_ok :: "int \<Rightarrow> qworld \<Rightarrow> bool" where
  "world_ok t w \<longleftrightarrow> (\<forall>p sid r. GET_SESSION t (w_slots w p) sid = Some r \<longrightarrow> qs_id r = sid \<and> qs_performanceId r = p)"

lemma transition_and_sync_slot:
  assumes "transition_and_sync t r q w = (rep, w')"
  obtains s where "transition t (qs_id r) (identityKey (qs_performanceId r) (identity_of r)) q
      (w_slots w (qs_performanceId r)) = (rep, s)"
    and "w_slots w' = (w_slots w)(qs_performanceId r := s)"
  using assms
  by (auto simp: transition_and_sync_def transitionQueueSession_def Let_def split: prod.splits if_splits)

text \<open>The first session of the line is admitted whenever a slot is free.\<close>

lemma admit_head:
  assumes "slot_ok t (w_slots w p)" and "GET_SESSION t (w_slots w p) x = Some r"
    and "qs_id r = x" and "qs_performanceId r = p"
    and "map fst (waiting (w_slots w p)) = x # ids"
    and "or_else (capacityVersion (w_slots w p)) ''0'' = ver"
    and "int (length (active (w_slots w p))) < c"
    and "transition_and_sync t r (buildAdmissionArgs t (Some c) ver) w = (rep, w')"
  shows "applied rep \<and> reply_status rep = ''ADMITTED'' \<and> (\<exists>r'. reply_session rep = Some r' \<and> qs_id r' = x) \<and>
    slot_ok t (w_slots w' p) \<and> map fst (waiting (w_slots w' p)) = ids \<and>
    waiting (w_slots w' p) = tl (waiting (w_slots w p)) \<and>
    active (w_slots w' p) = active (w_slots w p) @ [x] \<and>
    capacityVersion (w_slots w' p) = capacityVersion (w_slots w p) \<and>
    (\<forall>y. y \<noteq> x \<longrightarrow> GET_SESSION t (w_slots w' p) y = GET_SESSION t (w_slots w p) y)"
proof -
  let ?s = "w_slots w p"
  from transition_and_sync_slot [OF assms(8)] assms(3,4) obtain s'
    where tr: "transition t x (identityKey p (identity_of r)) (buildAdmissionArgs t (Some c) ver) ?s = (rep, s')"
      and w': "w_slots w' = (w_slots w)(p := s')" by metis
  obtain k z where z: "waiting ?s = (x, k) # z" and zne: "map fst z = ids"
    using assms(5) by (cases "waiting ?s") auto
  have "x \<in> fst ` set (waiting ?s)" using z by simp
  then have w: "qs_state r = Waiting" using place_iff [OF assms(1,2)] by simp
  have ref: "admit_refusal x (Some c) ver ?s = None"
    using z assms(6,7) by (simp add: admit_refusal_def)
  obtain a1 a2 a3 a4 where op: "buildAdmissionArgs t (Some c) ver = Admit t a1 a2 a3 a4 (Some c) ver"
    by (simp add: buildAdmissionArgs_def Let_def)
  have ap: "apply_op t x (identityKey p (identity_of r)) (Admit t a1 a2 a3 a4 (Some c) ver) r ?s = (rep, s')"
    using tr assms(2) op by (simp add: transition_def)
  let ?r' = "admitted_record t a1 a2 a3 r"
  from ap w ref have rep: "rep = grant ''ADMITTED'' r ?r' (lua_ttl a4)"
    and s': "s' = SADD_active x (ZREM x (put_session t x (identityKey p (identity_of r)) ?r' (lua_ttl a4) ?s))"
    by (auto simp: Let_def)
  have d: "x \<notin> fst ` set z" using assms(1) z by (simp add: slot_ok_def line_ok_def)
  then have "filter (\<lambda>e. fst e \<noteq> x) (waiting ?s) = z"
    unfolding z by (auto simp: filter_id_conv)
  moreover have "applied rep" "reply_status rep = ''ADMITTED''" "reply_session rep = Some ?r'"
    by (simp_all add: rep grant_def)
  moreover have "qs_id ?r' = x" by (simp add: admitted_record_def assms(3))
  moreover note admit_effect [OF assms(1,2) ap]
  moreover have "\<forall>y. y \<noteq> x \<longrightarrow> GET_SESSION t s' y = GET_SESSION t ?s y" by (simp add: s')
  ultimately show ?thesis using w' z zne by simp
qed

definition line_readable :: "int \<Rightarrow> js_string \<Rightarrow> js_string list \<Rightarrow> qworld \<Rightarrow> bool" where
  "line_readable t p ids w \<longleftrightarrow> (\<forall>x \<in> set ids. \<exists>r. GET_SESSION t (w_slots w p) x = Some r \<and> qs_id r = x \<and> qs_performanceId r = p)"

lemma admit_batch_head:
  assumes "slot_ok t (w_slots w p)" and "line_readable t p ids w"
    and "map fst (waiting (w_slots w p)) = ids @ rest"
    and "or_else (capacityVersion (w_slots w p)) ''0'' = ver"
    and "int (length (active (w_slots w p)) + length ids) \<le> c"
    and "admit_batch t p c ver ids w = ((rs, stop), w')"
  shows "map qs_id rs = ids \<and> \<not> stop \<and> active (w_slots w' p) = active (w_slots w p) @ ids \<and>
    waiting (w_slots w' p) = drop (length ids) (waiting (w_slots w p))"
  using assms
proof (induction ids arbitrary: w rs stop w')
  case (Cons x ids)
  from Cons.prems(2) obtain r where r: "GET_SESSION t (w_slots w p) x = Some r" "qs_id r = x" "qs_performanceId r = p"
    by (auto simp: line_readable_def)
  obtain rep w1 where tr: "transition_and_sync t r (buildAdmissionArgs t (Some c) ver) w = (rep, w1)" by force
  from Cons.prems(3,5) have h: "map fst (waiting (w_slots w p)) = x # (ids @ rest)"
    "int (length (active (w_slots w p))) < c" by simp_all
  note e = admit_head [OF Cons.prems(1) r h(1) Cons.prems(4) h(2) tr]
  obtain rs1 stop1 w2 where b: "admit_batch t p c ver ids w1 = ((rs1, stop1), w2)" by (metis prod.collapse)
  have "x \<notin> set ids"
    using Cons.prems(1,3) by (auto simp: slot_ok_def line_ok_def)
  then have read1: "line_readable t p ids w1"
    using Cons.prems(2) e unfolding line_readable_def by (metis list.set_intros(2))
  have cap1: "or_else (capacityVersion (w_slots w1 p)) ''0'' = ver" using e Cons.prems(4) by simp
  have room1: "int (length (active (w_slots w1 p)) + length ids) \<le> c" using e Cons.prems(5) by simp
  have ih: "map qs_id rs1 = ids \<and> \<not> stop1 \<and> active (w_slots w2 p) = active (w_slots w1 p) @ ids \<and>
    waiting (w_slots w2 p) = drop (length ids) (waiting (w_slots w1 p))"
    by (rule Cons.IH [OF _ read1 _ cap1 room1 b]) (use e in auto)
  obtain r' where r': "reply_session rep = Some r'" "qs_id r' = x" using e by blast
  have "rs = r' # rs1" "stop = stop1" "w' = w2"
    using Cons.prems(6) r(1) tr b e r' by (auto simp: readQueueSessionRecord_def)
  with ih e r' show ?case by (simp add: drop_Suc)
qed simp

text \<open>C27: A reconcile fills the free slots strictly from the head of the line: when every session in line
  still has its record and the capacity version is current, exactly the first n of them are
  admitted, in order, for n the number of free slots (or all of them when the line is shorter), they
  take their slots and everyone else moves up by their number.\<close>
theorem reconcile_admits_head_of_line:
  assumes "slot_ok t (w_slots w p)" and "line_readable t p (map fst (waiting (w_slots w p))) w"
    and "or_else (capacityVersion (w_slots w p)) ''0'' = ver"
    and "int (length (active (w_slots w p)) + n) \<le> c"
    and "admitWaitingSessions t p n c ver w = (rs, w')"
  shows "map qs_id rs = map fst (take n (waiting (w_slots w p))) \<and>
    active (w_slots w' p) = active (w_slots w p) @ map fst (take n (waiting (w_slots w p))) \<and>
    waiting (w_slots w' p) = drop n (waiting (w_slots w p))"
proof -
  let ?z = "waiting (w_slots w p)"
  let ?ids = "map fst (take n ?z)"
  obtain rs1 stop w1 where b: "admit_batch t p c ver ?ids w = ((rs1, stop), w1)" by (metis prod.collapse)
  have split: "map fst ?z = ?ids @ map fst (drop n ?z)" by (metis append_take_drop_id map_append)
  have "line_readable t p ?ids w" using assms(2) by (auto simp: line_readable_def dest: in_set_takeD)
  moreover have "int (length (active (w_slots w p)) + length ?ids) \<le> c" using assms(4) by auto
  ultimately have e: "map qs_id rs1 = ?ids" "\<not> stop" "active (w_slots w1 p) = active (w_slots w p) @ ?ids"
    "waiting (w_slots w1 p) = drop (length ?ids) ?z"
    using admit_batch_head [OF assms(1) _ split assms(3) _ b] by blast+
  have len: "length rs1 = length ?ids" using e(1) by (metis length_map)
  have rest: "drop (length ?ids) ?z = drop n ?z" by (cases "n \<le> length ?z") simp_all
  have again: "admit_rounds t p c ver 4 (n - length rs1) w1 = ([], w1)"
  proof (cases "n \<le> length ?z")
    case True
    then show ?thesis using len by (simp add: numeral_eq_Suc)
  next
    case False
    then show ?thesis using e(4) by (simp add: numeral_eq_Suc)
  qed
  have "rs = rs1 \<and> w' = w1 \<or> ?ids = [] \<and> rs = [] \<and> w' = w"
    using assms(5) b e(2) again
    by (auto simp: admitWaitingSessions_def numeral_eq_Suc Let_def split: if_splits prod.splits)
  with e rest show ?thesis by auto
qed

definition demo_world :: qworld where
  "demo_world = \<lparr>w_slots = (\<lambda>_. empty_slot)(''p'' := two_waiting), w_refs = \<lambda>_. None, w_tokens = \<lambda>_. None, w_orders = []\<rparr>"

lemma demo_world_slot [simp]: "w_slots demo_world ''p'' = two_waiting"
  by (simp add: demo_world_def)

lemma reconcile_admits_head_of_line_witness:
  "map qs_id (fst (admitWaitingSessions 5 ''p'' 1 1 ''0'' demo_world)) = [''a'']"
proof -
  have ok: "slot_ok 5 (w_slots demo_world ''p'')" using run_ok [OF two_waiting_run] by simp
  have rd: "line_readable 5 ''p'' (map fst (waiting (w_slots demo_world ''p''))) demo_world"
    by (simp add: line_readable_def two_waiting_line two_waiting_sessions) (simp add: new_record_def)
  show ?thesis
    using reconcile_admits_head_of_line [OF ok rd _ _ prod.collapse [symmetric], of "''0''" 1 1]
    by (simp add: two_waiting_line)
qed

text \<open>Whoever passes the admission check holds the current token of a live session: the record stored
  now has the hash of the presented token, belongs to the same user, token family and device and to
  this performance, is neither waiting nor expired, and its active window has not ended (or, for
  confirming a payment only, its payment recovery window).\<close>
theorem admission_authority:
  assumes "assertAdmissionForPerformance H t p i token action w = (Inr a, w')"
  shows "\<exists>sid r. live t (w_tokens w (H token)) = Some sid \<and> readQueueSessionRecord t (or_else (live t (w_refs w sid)) []) sid w = Some r \<and>
    qs_tokenHash r = H token \<and> assertRecordMatchesIdentity r i \<and> qs_performanceId r = p \<and>
    qs_state r \<noteq> Waiting \<and> qs_state r \<noteq> Expired \<and>
    ((\<exists>u. qs_activeUntilAt r = Some u \<and> t \<le> u) \<or>
     action = ConfirmPayment \<and> (\<exists>u. qs_recoveryUntilAt r = Some u \<and> t \<le> u))"
proof -
  have nle: "null_less_eq t e \<longleftrightarrow> (\<exists>u. e = Some u \<and> t \<le> u)" for e by (cases e) auto
  from assms obtain r where r: "findQueueSessionByAdmissionToken H t token w = Some r"
    "assertRecordMatchesIdentity r i" "qs_performanceId r = p" "qs_state r \<noteq> Waiting" "qs_state r \<noteq> Expired"
    "null_less_eq t (qs_activeUntilAt r) \<or> action = ConfirmPayment \<and> null_less_eq t (qs_recoveryUntilAt r)"
    by (auto simp: assertAdmissionForPerformance_def Let_def split: option.splits if_splits prod.splits)
  from r(1) obtain sid where "live t (w_tokens w (H token)) = Some sid"
    "readQueueSessionRecord t (or_else (live t (w_refs w sid)) []) sid w = Some r" "qs_tokenHash r = H token"
    by (auto simp: findQueueSessionByAdmissionToken_def split: option.splits if_splits)
  with r show ?thesis unfolding nle by blast
qed

text \<open>An admitted session with its indexes, for the witness.\<close>

definition admitted_world :: qworld where
  "admitted_world =
     (let r = admitted_record 5 605 785 1085 (new_record 5 ''p'' alice ''a'' ''h'')
      in \<lparr>w_slots = (\<lambda>_. empty_slot\<lparr>sessions := (\<lambda>_. None)(''a'' := Some (r, 900)), active := [''a'']\<rparr>),
          w_refs = (\<lambda>_. None)(''a'' := Some (''p'', 900)), w_tokens = (\<lambda>_. None)(''h'' := Some (''a'', 900)), w_orders = []\<rparr>)"

lemma admission_authority_witness:
  "\<exists>sid. live 7 (w_tokens admitted_world ((\<lambda>_. ''h'') ''tok'')) = Some sid"
proof -
  have "assertAdmissionForPerformance (\<lambda>_. ''h'') 7 ''p'' alice ''tok'' LockSeat admitted_world =
    (admission_of (admitted_record 5 605 785 1085 (new_record 5 ''p'' alice ''a'' ''h'')), admitted_world)"
    by (simp add: assertAdmissionForPerformance_def findQueueSessionByAdmissionToken_def admitted_world_def Let_def
        readQueueSessionRecord_def GET_SESSION_def admitted_record_def new_record_def assertRecordMatchesIdentity_def alice_def)
  moreover have "\<exists>a. admission_of (admitted_record 5 605 785 1085 (new_record 5 ''p'' alice ''a'' ''h'')) = Inr a"
    by (simp add: admission_of_def admitted_record_def)
  ultimately obtain a where "assertAdmissionForPerformance (\<lambda>_. ''h'') 7 ''p'' alice ''tok'' LockSeat admitted_world
      = (Inr a, admitted_world)" by metis
  from admission_authority [OF this] show ?thesis by blast
qed

lemma best_recovery_spec:
  assumes "best_recovery r t os best = Some (oid, e)"
  shows "(best = Some (oid, e) \<or>
      (\<exists>o1 \<in> set os. or_tossOrderId o1 = Some oid \<and> or_status o1 = ''PENDING_PAYMENT'' \<and>
         \<not> isShowtimeSalesClosed (or_showtimeAt o1) t \<and>
         resolveOrderBoundAdmission o1 (identity_of r) (qs_userId r) t \<noteq> None)) \<and>
     (\<forall>oid' e'. best = Some (oid', e') \<longrightarrow> e' \<le> e)"
  using assms
proof (induction os arbitrary: best)
  case (Cons o1 os)
  show ?case
  proof (cases "or_tossOrderId o1 = None \<or> or_tossOrderId o1 = Some [] \<or> or_queueSessionId o1 \<noteq> Some (qs_id r)
         \<or> isShowtimeSalesClosed (or_showtimeAt o1) t
         \<or> resolveOrderBoundAdmission o1 (identity_of r) (qs_userId r) t = None
         \<or> or_status o1 \<noteq> ''PENDING_PAYMENT''")
    case True
    with Cons show ?thesis by auto
  next
    case False
    with Cons.prems Cons.IH show ?thesis
      by (cases best) (fastforce simp: Let_def split: if_splits)+
  qed
qed auto

text \<open>A buyer is put into payment recovery only for an order that payment would still accept: the order
  belongs to this user and session, is pending, its showtime has not started, and the admission
  check of payment confirm accepts it for the same browser.\<close>
theorem recovery_order_is_payable:
  assumes "findRecoveryOrderId orders r t = Some oid"
  shows "\<exists>o1 \<in> set orders. or_tossOrderId o1 = Some oid \<and> or_userId o1 = qs_userId r \<and>
    or_queueSessionId o1 = Some (qs_id r) \<and> or_status o1 = ''PENDING_PAYMENT'' \<and>
    \<not> isShowtimeSalesClosed (or_showtimeAt o1) t \<and>
    resolveOrderBoundAdmission o1 (identity_of r) (qs_userId r) t \<noteq> None"
proof -
  from assms obtain e where "best_recovery r t (filter (recovery_row r t) orders) None = Some (oid, e)"
    by (auto simp: findRecoveryOrderId_def)
  from best_recovery_spec [OF this] show ?thesis by (auto simp: recovery_row_def)
qed

definition demo_order :: order_row where
  "demo_order = \<lparr>or_tossOrderId = Some ''o1'', or_userId = ''u1'', or_performanceId = ''p'', or_status = ''PENDING_PAYMENT'',
     or_queueSessionId = Some ''a'', or_family = Some ''f1'', or_device = Some ''f1'', or_admittedAt = Some 5,
     or_activeUntilAt = Some 605, or_graceUntilAt = Some 785, or_paymentDeadlineAt = Some 900, or_showtimeAt = Some 5000\<rparr>"

lemma recovery_order_is_payable_witness:
  "\<exists>o1 \<in> set [demo_order]. or_tossOrderId o1 = Some ''o1''"
proof -
  have "findRecoveryOrderId [demo_order] (new_record 5 ''p'' alice ''a'' ''h'') 700 = Some ''o1''"
    by (simp add: findRecoveryOrderId_def recovery_row_def demo_order_def new_record_def alice_def identity_of_def
        showtimeOnSaleCondition_def isShowtimeSalesClosed_def resolveOrderBoundAdmission_def max_option_pair Let_def)
  from recovery_order_is_payable [OF this] show ?thesis by blast
qed

lemma ceil_quotient_mono: "0 < b \<Longrightarrow> a \<le> a' \<Longrightarrow> ceil_quotient a b \<le> ceil_quotient a' b"
  by (simp add: ceil_quotient_def zdiv_mono1)

lemma ceil_quotient_bounds:
  assumes "0 < b" shows "a \<le> b * ceil_quotient a b" and "b * ceil_quotient a b < a + b"
proof -
  have m: "b * ((- a) div b) = (- a) - (- a) mod b" by (simp add: minus_mod_eq_mult_div [symmetric])
  have "0 \<le> (- a) mod b" "(- a) mod b < b" using assms by simp_all
  with m show "a \<le> b * ceil_quotient a b" "b * ceil_quotient a b < a + b" by (simp_all add: ceil_quotient_def)
qed

lemma ceil_quotient_antimono:
  assumes "0 < b'" "b' \<le> b" "0 \<le> a"
  shows "ceil_quotient a b \<le> ceil_quotient a b'"
proof (rule ccontr)
  assume "\<not> ?thesis"
  then have "ceil_quotient a b' + 1 \<le> ceil_quotient a b" by simp
  then have "b * (ceil_quotient a b' + 1) \<le> b * ceil_quotient a b" using assms by (intro mult_left_mono) auto
  moreover have "b * ceil_quotient a b < a + b" using assms ceil_quotient_bounds(2) by simp
  ultimately have "b * ceil_quotient a b' < a" by (simp add: algebra_simps)
  moreover have "a \<le> b' * ceil_quotient a b'" using assms ceil_quotient_bounds(1) by simp
  moreover have "0 \<le> ceil_quotient a b'" using assms by (simp add: ceil_quotient_def) (metis div_nonpos_pos_le0 neg_le_0_iff_le)
  ultimately show False using assms(2) by (metis less_le_not_le mult_right_mono order.strict_trans1 mult.commute not_le)
qed

text \<open>The wait estimate is never longer for a buyer nearer the head of the line or with more seats left,
  never exceeds three hours, and when it is reported as available the whole line up to the buyer fits
  into the cycles it counts.\<close>
theorem wait_estimate_monotone:
  assumes "1 \<le> limit" and "0 < p" and "p \<le> p'" and "0 < n'" and "n' \<le> n"
  shows "etaSeconds (estimateQueueWait limit p n) \<le> etaSeconds (estimateQueueWait limit p' n') \<and>
    etaSeconds (estimateQueueWait limit p' n') \<le> QUEUE_ETA_MAX_SECONDS \<and>
    (\<not> etaUnavailable (estimateQueueWait limit p' n') \<longrightarrow>
       p' * QUEUE_ETA_CYCLE_MAX_SECONDS \<le> min n' limit * etaSeconds (estimateQueueWait limit p' n'))"
proof -
  let ?c = "min n limit" and ?c' = "min n' limit"
  have c: "0 < ?c'" "?c' \<le> ?c" using assms by auto
  have "ceil_quotient p ?c \<le> ceil_quotient p ?c'" using c assms by (intro ceil_quotient_antimono) auto
  also have "\<dots> \<le> ceil_quotient p' ?c'" using c assms by (intro ceil_quotient_mono) auto
  finally have le: "ceil_quotient p ?c \<le> ceil_quotient p' ?c'" .
  have "p' \<le> ?c' * ceil_quotient p' ?c'" using ceil_quotient_bounds(1) c by simp
  then have "p' * 800 \<le> ?c' * (ceil_quotient p' ?c' * 800)" by (simp add: algebra_simps)
  with le assms show ?thesis
    by (auto simp: estimateQueueWait_def Let_def queue_constants)
qed

lemma wait_estimate_monotone_witness:
  "etaSeconds (estimateQueueWait 1000 3 50) \<le> etaSeconds (estimateQueueWait 1000 120 40)"
  using wait_estimate_monotone [of 1000 3 120 40 50] by simp

text \<open>A snapshot says ADMITTED and lets the browser enter only while the active window is running; past
  it the buyer sees PAYMENT_RECOVERY with the order to pay, or EXPIRED; a position is shown only to a
  waiting session and is one more than its rank.\<close>
theorem snapshot_never_overstates:
  "(sn_autoEnter (buildSnapshot limit t r rec wc rank n) \<longleftrightarrow> sn_state (buildSnapshot limit t r rec wc rank n) = Admitted) \<and>
   (sn_state (buildSnapshot limit t r rec wc rank n) = Admitted \<longleftrightarrow>
      qs_state r = Admitted \<and> \<not> isAdmissionWindowClosed r t) \<and>
   (sn_position (buildSnapshot limit t r rec wc rank n) = Suc k \<longleftrightarrow> qs_state r = Waiting \<and> rank = Some k) \<and>
   (sn_recoveryOrderId (buildSnapshot limit t r rec wc rank n) = Some oid \<longleftrightarrow>
      sn_state (buildSnapshot limit t r rec wc rank n) = PaymentRecovery \<and> rec = Some oid)"
proof -
  have w: "resolveVisibleState r rec t = Waiting \<longleftrightarrow> qs_state r = Waiting"
    by (auto simp: resolveVisibleState_def)
  have a: "resolveVisibleState r rec t = Admitted \<longleftrightarrow> qs_state r = Admitted \<and> \<not> isAdmissionWindowClosed r t"
    by (auto simp: resolveVisibleState_def)
  show ?thesis by (auto simp: buildSnapshot_def Let_def w a split: option.splits)
qed

lemma touch_applied:
  assumes "GET_SESSION t s x = Some r" and "recover \<or> qs_state r \<noteq> Expired"
    and "transition t x ik (Touch hash renewal order recover) s = (rep, s')"
  shows "applied rep \<and> (\<exists>r'. reply_session rep = Some r' \<and> GET_SESSION t s' x = Some r' \<and>
    qs_id r' = qs_id r \<and> qs_tokenHash r' = (if hash = [] then qs_tokenHash r else hash))"
  using assms
  by (auto simp: transition_def grant_def Let_def split: if_splits option.splits)

definition leased :: "(js_string \<Rightarrow> js_string) \<Rightarrow> int \<Rightarrow> js_string \<Rightarrow> lease \<Rightarrow> qworld \<Rightarrow> bool" where
  "leased H t p l w \<longleftrightarrow> (\<exists>r. readQueueSessionRecord t p (le_queueSessionId l) w = Some r \<and>
     qs_tokenHash r = H (le_admissionToken l))"

lemma reuse_leases:
  assumes "world_ok t w" and "GET_SESSION t (w_slots w p) sid = Some r"
    and "allowExpired \<or> qs_state r \<noteq> Expired" and "\<forall>x. H x \<noteq> []"
  shows "\<exists>l w'. reuseQueueSession H t r presented token allowExpired w = (Some l, w') \<and> leased H t p l w'"
proof -
  have id: "qs_id r = sid" "qs_performanceId r = p" using assms(1,2) by (auto simp: world_ok_def)
  define keep where "keep = (case presented of Some q \<Rightarrow> q \<noteq> [] \<and> H q = qs_tokenHash r | None \<Rightarrow> False)"
  define tok where "tok = (if keep then or_else presented [] else token)"
  define hash where "hash = (if keep then [] else H tok)"
  obtain rep s' where tr: "transition t sid (identityKey p (identity_of r)) (waiting_renewal hash r t allowExpired)
      (w_slots w p) = (rep, s')" by force
  from touch_applied [OF assms(2,3) tr [unfolded waiting_renewal_def]] obtain r' where
    r': "applied rep" "reply_session rep = Some r'" "GET_SESSION t s' sid = Some r'" "qs_id r' = qs_id r"
      "qs_tokenHash r' = (if hash = [] then qs_tokenHash r else hash)" by blast
  have "qs_tokenHash r' = H tok"
    using r'(5) assms(4) by (auto simp: hash_def tok_def keep_def split: option.splits if_splits)
  moreover have "reuseQueueSession H t r presented token allowExpired w =
      (Some (toLease r' tok), syncQueueSessionIndexes t rep (set_slot p s' w))"
    unfolding reuseQueueSession_def keep_def [symmetric]
    using tr r'(1-4) id
    by (cases keep) (simp_all add: transitionQueueSession_def Let_def hash_def tok_def)
  ultimately show ?thesis using r' id
    by (auto simp: leased_def readQueueSessionRecord_def toLease_def)
qed

lemma create_leases:
  assumes "live t (identities (w_slots w p) ik) = None"
  shows "\<exists>l w'. createQueueSession H t p i ik sid token w = (Some l, w') \<and> leased H t p l w'"
  using assms
  by (auto simp: createQueueSession_def create_session_def leased_def readQueueSessionRecord_def toLease_def
      new_record_def GET_SESSION_def Let_def ZADD_def lua_ttl_def split: prod.splits)

lemma purge_frees_identity:
  assumes "live t (identities (w_slots w p) ik) = Some sid"
    and "\<And>r. GET_SESSION t (w_slots w p) sid = Some r \<Longrightarrow> qs_state r = Expired \<or> qs_expiresAt r \<le> t"
  shows "live t (identities (w_slots (snd (purgeQueueSession t p sid ik hash w)) p) ik) = None"
proof -
  obtain purged s where pu: "purge_session t sid ik t (w_slots w p) = (purged, s)" by force
  have "live t (identities s ik) = None"
    using pu assms by (fastforce simp: purge_session_def Let_def split: option.splits if_splits)
  then show ?thesis
    using pu by (auto simp: purgeQueueSession_def Let_def split: option.splits)
qed

lemma expire_applied:
  assumes "world_ok t w" and "GET_SESSION t (w_slots w p) sid = Some r" and "qs_state r \<noteq> Expired"
    and "expireQueueSession t r w = (r', w')" and "live t (identities (w_slots w p) ik) = Some sid"
  shows "qs_state r' = Expired \<and> GET_SESSION t (w_slots w' p) sid = Some r' \<and>
    live t (identities (w_slots w' p) ik) = Some sid"
proof -
  have id: "qs_id r = sid" "qs_performanceId r = p" using assms(1,2) by (auto simp: world_ok_def)
  show ?thesis
    using assms(2-5) id
    by (auto simp: expireQueueSession_def transition_and_sync_def transitionQueueSession_def transition_def grant_def
        put_session_def ZREM_def SREM_active_def GET_SESSION_def queue_constants lua_ttl_def Let_def
        split: if_splits)
qed

lemma settle_leases:
  assumes "world_ok t w" and "live t (identities (w_slots w p) ik) = Some sid" and "\<forall>x. H x \<noteq> []"
    and "settle_existing H t p ik sid presented token w = (settled, w')"
  shows "(\<exists>l. settled = Some (Some l) \<and> leased H t p l w') \<or>
    (settled = None \<and> live t (identities (w_slots w' p) ik) = None)"
proof (cases "GET_SESSION t (w_slots w p) sid")
  case None
  with assms purge_frees_identity [OF assms(2)] show ?thesis
    by (auto simp: settle_existing_def readQueueSessionRecord_def)
next
  case (Some r)
  note reuse = reuse_leases [OF assms(1) Some _ assms(3), of _ presented token]
  show ?thesis
  proof (cases "isAdmissionWindowClosed r t")
    case True
    show ?thesis
    proof (cases "findRecoveryOrderId (w_orders w) r t")
      case None
      show ?thesis
      proof (cases "qs_state r = Expired")
        case True
        with assms Some None \<open>isAdmissionWindowClosed r t\<close> purge_frees_identity [OF assms(2)] show ?thesis
          by (auto simp: settle_existing_def readQueueSessionRecord_def)
      next
        case False
        obtain r' w1 where ex: "expireQueueSession t r w = (r', w1)" by force
        note e = expire_applied [OF assms(1) Some False ex assms(2)]
        have "live t (identities (w_slots (snd (purgeQueueSession t p sid ik (Some (qs_tokenHash r')) w1)) p) ik) = None"
          by (rule purge_frees_identity) (use e in auto)
        with assms(4) Some None True False ex e show ?thesis
          by (auto simp: settle_existing_def readQueueSessionRecord_def)
      qed
    next
      case (Some oid)
      with assms(4) True reuse [of True] \<open>GET_SESSION t (w_slots w p) sid = Some r\<close> show ?thesis
        by (auto simp: settle_existing_def readQueueSessionRecord_def leased_def)
    qed
  next
    case False
    show ?thesis
    proof (cases "isReusable r t")
      case True
      then have "qs_state r \<noteq> Expired" by (simp add: isReusable_def)
      with assms(4) False True reuse [of False] Some show ?thesis
        by (auto simp: settle_existing_def readQueueSessionRecord_def)
    next
      case no: False
      have "live t (identities (w_slots (snd (purgeQueueSession t p sid ik (Some (qs_tokenHash r)) w)) p) ik) = None"
        by (rule purge_frees_identity [OF assms(2)]) (use no Some in \<open>auto simp: isReusable_def\<close>)
      with assms(4) False no Some show ?thesis
        by (auto simp: settle_existing_def readQueueSessionRecord_def)
    qed
  qed
qed



end
