(* ===== verification/CancelPolicy.thy ===== *)
theory CancelPolicy
  imports Prelude
begin

text \<open>
  Payment cancellation: \<open>apps/api/src/modules/payment/payment-cancel-policy.ts\<close> and
  \<open>apps/api/src/modules/payment/toss-cancel-matcher.ts\<close>. KRW ledger amounts and provider minor units
  are integers; an amount exchanged with the provider (a decimal number of the charge currency) is kept
  in hundredths, so \<open>minor / 100\<close> is exact and \<open>Math.round(x * scale)\<close> is \<open>to_minor\<close>. Stored JSON
  metadata is given by the fields the code reads from it.
\<close>

section \<open>Payments and amounts\<close>

datatype cancel_currency = KRW | USD

datatype secret_scope = ForeignEasyPay | OverseasCard | DefaultScope

record cancel_payment =
  cp_id :: "js_string option"
  cp_paymentKey :: js_string
  cp_provider :: js_string
  cp_currency :: js_string
  cp_amount :: int
  cp_refundedAmount :: "int option"
  cp_providerRefundedAmountMinor :: "int option"
  cp_metadataSecretKeyScope :: "js_string option"
  cp_metadataRequestedProvider :: "js_string option"
  cp_providerChargeCurrency :: "js_string option"
  cp_providerChargeAmountMinor :: "int option"

record ticket_item =
  ti_id :: js_string
  ti_refundableAmount :: int

record cancel_options =
  co_secretKeyScope :: secret_scope
  co_idempotencyKey :: "js_string option"
  co_cancelRequestId :: "js_string option"
  co_cancelAmount :: "int option"
  co_currency :: "js_string option"

record cancel_request =
  cr_paymentKey :: js_string
  cr_reason :: js_string
  cr_options :: cancel_options

datatype cancel_error =
    NeedsChargeData | NeedsReconciliation | UnsafeSeed | SeedRequired | NotPositive js_string
  | UnsupportedCurrency | InvalidProviderBalance | AmountNotPositive | RefundExceedsBalance

definition isSafeInteger :: "int \<Rightarrow> bool" where
  "isSafeInteger n \<longleftrightarrow> \<bar>n\<bar> \<le> 2 ^ 53 - 1"

definition to_minor :: "cancel_currency \<Rightarrow> int \<Rightarrow> int" where
  "to_minor c hundredths = (case c of USD \<Rightarrow> hundredths | KRW \<Rightarrow> (hundredths + 50) div 100)"

definition FOREIGN_EASY_PAY_PROVIDERS :: "js_string list" where
  "FOREIGN_EASY_PAY_PROVIDERS = [''ALIPAY'', ''ALIPAY_PLUS'', ''TRUEMONEY'']"

definition usesForeignEasyPaySecret :: "cancel_payment \<Rightarrow> bool" where
  "usesForeignEasyPaySecret pay \<longleftrightarrow> js_upper (cp_provider pay) \<in> set FOREIGN_EASY_PAY_PROVIDERS"

definition requiresCancelRequestId :: "cancel_payment \<Rightarrow> bool" where
  "requiresCancelRequestId pay \<longleftrightarrow> js_upper (cp_provider pay) \<in> set FOREIGN_EASY_PAY_PROVIDERS"

definition isOverseasCardPayment :: "cancel_payment \<Rightarrow> bool" where
  "isOverseasCardPayment pay \<longleftrightarrow>
     map_option js_lower (cp_metadataSecretKeyScope pay) = Some ''overseas-card''
     \<or> map_option js_upper (cp_metadataRequestedProvider pay) = Some ''OVERSEAS_CARD''"

definition resolvePaymentCancelSecretScope :: "cancel_payment \<Rightarrow> secret_scope" where
  "resolvePaymentCancelSecretScope pay =
     (if usesForeignEasyPaySecret pay then ForeignEasyPay
      else if isOverseasCardPayment pay then OverseasCard else DefaultScope)"

definition requiresProviderCurrencyPartialCancel :: "cancel_payment \<Rightarrow> bool" where
  "requiresProviderCurrencyPartialCancel pay \<longleftrightarrow>
     (let provider = js_upper (cp_provider pay)
      in provider = ''PAYPAL'' \<or> provider \<in> set FOREIGN_EASY_PAY_PROVIDERS \<or> isOverseasCardPayment pay
         \<or> js_upper (cp_currency pay) \<noteq> ''KRW'')"

definition charge_currency :: "cancel_payment \<Rightarrow> js_string option" where
  "charge_currency pay = map_option (\<lambda>s. js_upper (js_trim s)) (cp_providerChargeCurrency pay)"

definition canBuildProviderCurrencyPartialCancel :: "cancel_payment \<Rightarrow> bool" where
  "canBuildProviderCurrencyPartialCancel pay =
     (if \<not> requiresProviderCurrencyPartialCancel pay then True
      else charge_currency pay = Some ''USD''
        \<and> (case cp_providerChargeAmountMinor pay of None \<Rightarrow> False | Some m \<Rightarrow> isSafeInteger m \<and> m > 0))"

section \<open>Request ids\<close>

definition id_char :: "char \<Rightarrow> bool" where
  "id_char c \<longleftrightarrow> (CHR ''A'' \<le> c \<and> c \<le> CHR ''Z'') \<or> (CHR ''a'' \<le> c \<and> c \<le> CHR ''z'') \<or> is_digit c
     \<or> c = CHR ''_'' \<or> c = CHR ''-''"

text \<open>\<open>s.replace(/P+/g, '_')\<close>\<close>

fun replace_runs :: "(char \<Rightarrow> bool) \<Rightarrow> js_string \<Rightarrow> js_string" where
  "replace_runs P [] = []"
| "replace_runs P (c # cs) =
     (if P c then (case cs of [] \<Rightarrow> ''_'' | d # _ \<Rightarrow> if P d then replace_runs P cs else CHR ''_'' # replace_runs P cs)
      else c # replace_runs P cs)"

definition strip_underscores :: "js_string \<Rightarrow> js_string" where
  "strip_underscores s =
     rev (dropWhile (\<lambda>c. c = CHR ''_'') (rev (dropWhile (\<lambda>c. c = CHR ''_'') s)))"

definition buildPaymentCancelRequestId :: "js_string \<Rightarrow> cancel_error + js_string" where
  "buildPaymentCancelRequestId seed =
     (let safeSeed = strip_underscores (replace_runs (\<lambda>c. c = CHR ''_'') (replace_runs (\<lambda>c. \<not> id_char c) (js_trim seed)))
      in if safeSeed = [] then Inl UnsafeSeed else Inr (take 64 (''cancel_'' @ safeSeed)))"

definition selectFullCancelRequestIdSeed ::
  "js_string option \<Rightarrow> cancel_payment \<Rightarrow> js_string option \<Rightarrow> cancel_error + js_string" where
  "selectFullCancelRequestIdSeed cancelRequestIdSeed pay idempotencyKey =
     (case List.find (\<lambda>v. case v of Some s \<Rightarrow> js_trim s \<noteq> [] | None \<Rightarrow> False)
             [cancelRequestIdSeed, cp_id pay, idempotencyKey] of
        Some (Some s) \<Rightarrow> Inr s | _ \<Rightarrow> Inl SeedRequired)"

section \<open>Amounts in the provider's currency\<close>

definition assertPositiveInteger :: "js_string \<Rightarrow> int \<Rightarrow> cancel_error option" where
  "assertPositiveInteger label value =
     (if \<not> isSafeInteger value \<or> value \<le> 0 then Some (NotPositive label) else None)"

definition assertRefundFitsBalance :: "cancel_payment \<Rightarrow> int \<Rightarrow> cancel_error option" where
  "assertRefundFitsBalance pay amount =
     (case assertPositiveInteger ''payment.amount'' (cp_amount pay) of Some e \<Rightarrow> Some e
      | None \<Rightarrow> (case assertPositiveInteger ''refund amount'' amount of Some e \<Rightarrow> Some e
          | None \<Rightarrow>
              let refunded = or_else (cp_refundedAmount pay) 0
              in if \<not> isSafeInteger refunded \<or> refunded < 0 \<or> amount > cp_amount pay - refunded
                 then Some RefundExceedsBalance else None))"

text \<open>\<open>Number(BigInt quotient)\<close>: the cumulative refund in minor units, rounded half up.\<close>

definition cumulative_minor :: "int \<Rightarrow> int \<Rightarrow> int \<Rightarrow> int" where
  "cumulative_minor charge amount cumulativeRefund = (charge * cumulativeRefund * 2 + amount) div (amount * 2)"

definition buildProviderCurrencyCancelAmount ::
  "cancel_payment \<Rightarrow> int \<Rightarrow> cancel_error + (int \<times> js_string) option" where
  "buildProviderCurrencyCancelAmount pay refundable =
     (case (charge_currency pay, cp_providerChargeAmountMinor pay) of
        (Some cur, Some charge) \<Rightarrow>
          if cur = [] \<or> cur = ''KRW'' then
            (if \<not> canBuildProviderCurrencyPartialCancel pay then Inl NeedsChargeData else Inr None)
          else (case assertPositiveInteger ''payment.amount'' (cp_amount pay) of Some e \<Rightarrow> Inl e
            | None \<Rightarrow> (case assertPositiveInteger ''providerChargeAmountMinor'' charge of Some e \<Rightarrow> Inl e
            | None \<Rightarrow> (case assertPositiveInteger ''ticketItem.refundableAmount'' refundable of Some e \<Rightarrow> Inl e
            | None \<Rightarrow>
                if cur \<noteq> ''USD'' then Inl UnsupportedCurrency
                else
                  let alreadyRefundedMinor = or_else (cp_providerRefundedAmountMinor pay) 0 in
                  if \<not> isSafeInteger alreadyRefundedMinor \<or> alreadyRefundedMinor < 0 \<or> alreadyRefundedMinor > charge
                  then Inl InvalidProviderBalance
                  else
                    let cumulativeRefund = or_else (cp_refundedAmount pay) 0 + refundable;
                        allocatedMinor = cumulative_minor charge (cp_amount pay) cumulativeRefund - alreadyRefundedMinor
                    in if allocatedMinor \<le> 0 \<or> allocatedMinor > charge - alreadyRefundedMinor
                       then Inl AmountNotPositive else Inr (Some (allocatedMinor, cur)))))
      | _ \<Rightarrow> if \<not> canBuildProviderCurrencyPartialCancel pay then Inl NeedsChargeData else Inr None)"

section \<open>Building a request\<close>

definition base_options :: "cancel_payment \<Rightarrow> js_string option \<Rightarrow> cancel_options" where
  "base_options pay idem = \<lparr>co_secretKeyScope = resolvePaymentCancelSecretScope pay, co_idempotencyKey = idem,
     co_cancelRequestId = None, co_cancelAmount = None, co_currency = None\<rparr>"

definition with_request_id ::
  "cancel_payment \<Rightarrow> (cancel_error + js_string) \<Rightarrow> cancel_options \<Rightarrow> cancel_error + cancel_options" where
  "with_request_id pay seed opts =
     (if \<not> requiresCancelRequestId pay then Inr opts
      else case seed of Inl e \<Rightarrow> Inl e
        | Inr s \<Rightarrow> (case buildPaymentCancelRequestId s of Inl e \<Rightarrow> Inl e
            | Inr rid \<Rightarrow> Inr (opts\<lparr>co_cancelRequestId := Some rid\<rparr>)))"

definition finish_request ::
  "cancel_payment \<Rightarrow> js_string \<Rightarrow> cancel_error + cancel_options \<Rightarrow> cancel_error + cancel_request" where
  "finish_request pay reason opts =
     (case opts of Inl e \<Rightarrow> Inl e
      | Inr o1 \<Rightarrow> Inr \<lparr>cr_paymentKey = cp_paymentKey pay, cr_reason = reason, cr_options = o1\<rparr>)"

definition buildFullPaymentCancelRequest ::
  "cancel_payment \<Rightarrow> js_string \<Rightarrow> js_string option \<Rightarrow> js_string option \<Rightarrow> cancel_error + cancel_request" where
  "buildFullPaymentCancelRequest pay reason idempotencyKey cancelRequestIdSeed =
     finish_request pay reason
       (with_request_id pay (selectFullCancelRequestIdSeed cancelRequestIdSeed pay idempotencyKey)
          (base_options pay idempotencyKey))"

definition partial_options ::
  "cancel_payment \<Rightarrow> int \<Rightarrow> js_string option \<Rightarrow> cancel_error + cancel_options" where
  "partial_options pay refundable idem =
     (case buildProviderCurrencyCancelAmount pay refundable of Inl e \<Rightarrow> Inl e
      | Inr (Some (hundredths, cur)) \<Rightarrow>
          Inr ((base_options pay idem)\<lparr>co_cancelAmount := Some hundredths, co_currency := Some cur\<rparr>)
      | Inr None \<Rightarrow> Inr ((base_options pay idem)\<lparr>co_cancelAmount := Some (100 * refundable)\<rparr>))"

definition buildFullReservationPaymentCancelRequest ::
  "cancel_payment \<Rightarrow> js_string \<Rightarrow> js_string option \<Rightarrow> js_string option \<Rightarrow> int \<Rightarrow> cancel_error + cancel_request" where
  "buildFullReservationPaymentCancelRequest pay reason idem seed refundable =
     (case assertRefundFitsBalance pay refundable of Some e \<Rightarrow> Inl e
      | None \<Rightarrow>
          if refundable + or_else (cp_refundedAmount pay) 0 = cp_amount pay
          then buildFullPaymentCancelRequest pay reason idem seed
          else finish_request pay reason
            (case partial_options pay refundable idem of Inl e \<Rightarrow> Inl e
             | Inr o1 \<Rightarrow> with_request_id pay (selectFullCancelRequestIdSeed seed pay idem) o1))"

definition canBuildFullReservationPaymentCancelRequest ::
  "cancel_payment \<Rightarrow> js_string \<Rightarrow> js_string option \<Rightarrow> js_string option \<Rightarrow> int \<Rightarrow> bool" where
  "canBuildFullReservationPaymentCancelRequest pay reason idem seed refundable =
     (case buildFullReservationPaymentCancelRequest pay reason idem seed refundable of Inl _ \<Rightarrow> False | Inr _ \<Rightarrow> True)"

definition isLastActiveTicketItem :: "ticket_item \<Rightarrow> ticket_item list \<Rightarrow> bool" where
  "isLastActiveTicketItem item actives = (case actives of [a] \<Rightarrow> ti_id a = ti_id item | _ \<Rightarrow> False)"

definition buildTicketItemPaymentCancelRequest ::
  "cancel_payment \<Rightarrow> ticket_item \<Rightarrow> ticket_item list \<Rightarrow> js_string \<Rightarrow> cancel_error + cancel_request" where
  "buildTicketItemPaymentCancelRequest pay item actives reason =
     (case assertRefundFitsBalance pay (ti_refundableAmount item) of Some e \<Rightarrow> Inl e
      | None \<Rightarrow>
          let idem = ''ticket-item-cancel:'' @ ti_id item in
          if isLastActiveTicketItem item actives
             \<and> ti_refundableAmount item + or_else (cp_refundedAmount pay) 0 = cp_amount pay
          then buildFullPaymentCancelRequest pay reason (Some idem) (Some (ti_id item))
          else finish_request pay reason
            (case partial_options pay (ti_refundableAmount item) (Some idem) of Inl e \<Rightarrow> Inl e
             | Inr o1 \<Rightarrow> with_request_id pay (Inr (ti_id item)) o1))"

section \<open>Amount evidence\<close>

record cancel_evidence =
  ev_currency :: cancel_currency
  ev_amountMinor :: int
  ev_originalAmountMinor :: int
  ev_balanceBeforeMinor :: int

definition evidence_currency :: "cancel_payment \<Rightarrow> cancel_currency" where
  "evidence_currency pay = (if cp_providerChargeCurrency pay = Some ''USD'' then USD else KRW)"

definition describePaymentCancellation :: "cancel_payment \<Rightarrow> cancel_request \<Rightarrow> cancel_error + cancel_evidence" where
  "describePaymentCancellation pay command =
     (if requiresProviderCurrencyPartialCancel pay \<and> \<not> canBuildProviderCurrencyPartialCancel pay
      then Inl NeedsChargeData
      else
        let cur = evidence_currency pay;
            originalAmountMinor = or_else (cp_providerChargeAmountMinor pay) (cp_amount pay);
            balanceBeforeMinor = originalAmountMinor - or_else (cp_providerRefundedAmountMinor pay) 0;
            amountMinor = (case co_cancelAmount (cr_options command) of None \<Rightarrow> balanceBeforeMinor
                           | Some h \<Rightarrow> to_minor cur h)
        in Inr \<lparr>ev_currency = cur, ev_amountMinor = amountMinor, ev_originalAmountMinor = originalAmountMinor,
                ev_balanceBeforeMinor = balanceBeforeMinor\<rparr>)"

definition describeLocalOnlyCancellation :: "cancel_payment \<Rightarrow> cancel_evidence" where
  "describeLocalOnlyCancellation pay =
     (let cur = evidence_currency pay;
          originalAmountMinor = (if cur = USD then or_else (cp_providerChargeAmountMinor pay) (cp_amount pay) else cp_amount pay)
      in \<lparr>ev_currency = cur, ev_amountMinor = 0, ev_originalAmountMinor = originalAmountMinor,
          ev_balanceBeforeMinor = originalAmountMinor - or_else (cp_providerRefundedAmountMinor pay) 0\<rparr>)"

record refund_item =
  ri_status :: js_string
  ri_refundableAmount :: int
  ri_commandAmountMinor :: "int option"

definition withCompletedRefunds :: "cancel_payment \<Rightarrow> refund_item list \<Rightarrow> cancel_error + cancel_payment" where
  "withCompletedRefunds pay items =
     (let completed = filter (\<lambda>i. ri_status i = ''cancelled'') items in
      if requiresProviderCurrencyPartialCancel pay \<and> (\<exists>i \<in> set completed. ri_commandAmountMinor i = None)
      then Inl NeedsReconciliation
      else Inr (pay\<lparr>cp_refundedAmount := Some (sum_list (map ri_refundableAmount completed)),
             cp_providerRefundedAmountMinor :=
               Some (sum_list (map (\<lambda>i. or_else (ri_commandAmountMinor i) (ri_refundableAmount i)) completed))\<rparr>))"

section \<open>Provider responses\<close>

record toss_cancel =
  tc_cancelAmount :: "int option"
  tc_cancelStatus :: "js_string option"
  tc_cancelReason :: "js_string option"
  tc_cancelRequestId :: "js_string option"
  tc_canceledAt :: "int option"

record toss_response =
  tr_status :: js_string
  tr_totalAmount :: int
  tr_balanceAmount :: "int option"
  tr_currency :: "js_string option"
  tr_cancels :: "toss_cancel list option"

fun currency_text :: "cancel_currency \<Rightarrow> js_string" where
  "currency_text KRW = ''KRW''"
| "currency_text USD = ''USD''"

definition same_charge :: "toss_response \<Rightarrow> cancel_evidence \<Rightarrow> bool" where
  "same_charge resp snap \<longleftrightarrow>
     isSafeInteger (ev_originalAmountMinor snap) \<and> isSafeInteger (ev_balanceBeforeMinor snap)
     \<and> (tr_currency resp = None \<or> tr_currency resp = Some (currency_text (ev_currency snap)))
     \<and> to_minor (ev_currency snap) (tr_totalAmount resp) = ev_originalAmountMinor snap"

definition hasUnchangedCancellationBalance :: "toss_response \<Rightarrow> cancel_evidence option \<Rightarrow> bool" where
  "hasUnchangedCancellationBalance resp snapshot =
     (case snapshot of None \<Rightarrow> False
      | Some snap \<Rightarrow> same_charge resp snap
          \<and> to_minor (ev_currency snap) (or_else (tr_balanceAmount resp) (- 100)) = ev_balanceBeforeMinor snap)"

definition isProviderBalanceAboveSnapshot :: "toss_response \<Rightarrow> cancel_evidence option \<Rightarrow> bool" where
  "isProviderBalanceAboveSnapshot resp snapshot =
     (case (snapshot, tr_balanceAmount resp) of
        (Some snap, Some b) \<Rightarrow> same_charge resp snap \<and> to_minor (ev_currency snap) b > ev_balanceBeforeMinor snap
      | _ \<Rightarrow> False)"

definition hasProviderCancelForCommand :: "toss_response \<Rightarrow> cancel_request \<Rightarrow> bool" where
  "hasProviderCancelForCommand resp command =
     (let rid = co_cancelRequestId (cr_options command)
      in list_ex (\<lambda>c. tc_cancelReason c = Some (cr_reason command)
                   \<or> rid \<noteq> None \<and> rid \<noteq> Some [] \<and> tc_cancelRequestId c = rid) (or_else (tr_cancels resp) []))"

record cancel_expectation =
  ex_cancelAmount :: "int option"
  ex_cancelRequestId :: "js_string option"
  ex_cancelReason :: "js_string option"
  ex_requestedAt :: "int option"

definition completed_cancel :: "toss_cancel \<Rightarrow> bool" where
  "completed_cancel c \<longleftrightarrow> (case tc_cancelAmount c of None \<Rightarrow> False | Some a \<Rightarrow> a > 0) \<and> tc_cancelStatus c = Some ''DONE''"

definition getCompletedProviderCancels :: "toss_response \<Rightarrow> toss_cancel list" where
  "getCompletedProviderCancels resp = filter completed_cancel (or_else (tr_cancels resp) [])"

definition normalizeCancelRequestId :: "js_string option \<Rightarrow> js_string option" where
  "normalizeCancelRequestId rid =
     (case rid of None \<Rightarrow> None | Some s \<Rightarrow> let trimmed = js_trim s in if trimmed \<noteq> [] then Some trimmed else None)"

definition isCancelAtOrAfterRequest :: "toss_cancel \<Rightarrow> int option \<Rightarrow> bool" where
  "isCancelAtOrAfterRequest c requestedAt =
     (case (requestedAt, tc_canceledAt c) of (Some req, Some at) \<Rightarrow> at \<ge> req | _ \<Rightarrow> False)"

definition isMatchingCompletedProviderCancel :: "toss_cancel \<Rightarrow> cancel_expectation \<Rightarrow> bool" where
  "isMatchingCompletedProviderCancel c ex =
     (let rid = normalizeCancelRequestId (ex_cancelRequestId ex) in
      if ex_cancelReason ex \<noteq> None \<and> tc_cancelReason c \<noteq> ex_cancelReason ex then False
      else if rid \<noteq> None \<and> tc_cancelRequestId c \<noteq> rid then False
      else if rid = None \<and> ex_cancelReason ex = None \<and> \<not> isCancelAtOrAfterRequest c (ex_requestedAt ex) then False
      else if ex_cancelAmount ex \<noteq> None \<and> tc_cancelAmount c \<noteq> ex_cancelAmount ex then False
      else True)"

definition hasMatchingCompletedProviderCancel :: "toss_cancel list \<Rightarrow> cancel_expectation \<Rightarrow> bool" where
  "hasMatchingCompletedProviderCancel cs ex = list_ex (\<lambda>c. isMatchingCompletedProviderCancel c ex) cs"

record completion_options =
  cm_allowPartialStatus :: bool
  cm_expectedCancelAmount :: "int option"
  cm_expectedCancelReason :: "js_string option"
  cm_allowUnidentifiedPartialCancel :: bool
  cm_requestedAt :: "int option"

definition completed_statuses :: "completion_options \<Rightarrow> js_string list" where
  "completed_statuses opts =
     (if cm_allowPartialStatus opts then [''CANCELED'', ''PARTIAL_CANCELED''] else [''CANCELED''])"

definition isTossPaymentCancelCompleted :: "toss_response \<Rightarrow> js_string option \<Rightarrow> completion_options \<Rightarrow> bool" where
  "isTossPaymentCancelCompleted resp cancelRequestId opts =
     (let rid = normalizeCancelRequestId cancelRequestId;
          statusOk = tr_status resp \<in> set (completed_statuses opts);
          done = getCompletedProviderCancels resp
      in if cm_expectedCancelReason opts \<noteq> None then
           statusOk \<and> hasMatchingCompletedProviderCancel done
             \<lparr>ex_cancelAmount = cm_expectedCancelAmount opts, ex_cancelRequestId = rid,
              ex_cancelReason = cm_expectedCancelReason opts, ex_requestedAt = cm_requestedAt opts\<rparr>
         else if rid \<noteq> None then
           statusOk \<and> hasMatchingCompletedProviderCancel done
             \<lparr>ex_cancelAmount = cm_expectedCancelAmount opts, ex_cancelRequestId = rid, ex_cancelReason = None,
              ex_requestedAt = None\<rparr>
         else if tr_status resp = ''PARTIAL_CANCELED'' then
           cm_allowUnidentifiedPartialCancel opts \<and> cm_expectedCancelAmount opts \<noteq> None
             \<and> hasMatchingCompletedProviderCancel done
               \<lparr>ex_cancelAmount = cm_expectedCancelAmount opts, ex_cancelRequestId = None, ex_cancelReason = None,
                ex_requestedAt = cm_requestedAt opts\<rparr>
         else statusOk)"

text \<open>\<open>readStoredPaymentCancelReceipt\<close> and \<open>buildCompletedCancelExpectation\<close> on a stored command and its stored refund
  amount.\<close>

definition readStoredPaymentCancelReceipt ::
  "cancel_request option \<Rightarrow> (int \<times> cancel_currency) option \<Rightarrow> js_string option \<times> int option" where
  "readStoredPaymentCancelReceipt command providerRefund =
     (case command of None \<Rightarrow> (None, None)
      | Some c \<Rightarrow>
          (Some (cr_reason c),
           case providerRefund of
             Some (amountMinor, cur) \<Rightarrow> Some (if cur = USD then amountMinor else 100 * amountMinor)
           | None \<Rightarrow> co_cancelAmount (cr_options c)))"

definition buildCompletedCancelExpectation ::
  "cancel_options \<Rightarrow> int option \<Rightarrow> cancel_request option \<Rightarrow> (int \<times> cancel_currency) option \<Rightarrow> cancel_expectation" where
  "buildCompletedCancelExpectation opts requestedAt command providerRefund =
     (let (reason, amount) = readStoredPaymentCancelReceipt command providerRefund
      in \<lparr>ex_cancelAmount = nullish amount (co_cancelAmount opts), ex_cancelRequestId = co_cancelRequestId opts,
          ex_cancelReason = reason, ex_requestedAt = requestedAt\<rparr>)"

section \<open>Properties\<close>

text \<open>Cancelling the tickets of a payment one after the other: each request is built from the refunds completed
  before it, and each completed refund records the amount its evidence describes.\<close>

fun cancel_tickets ::
  "cancel_payment \<Rightarrow> js_string \<Rightarrow> refund_item list \<Rightarrow> ticket_item list \<Rightarrow> cancel_error + refund_item list" where
  "cancel_tickets pay reason done [] = Inr done"
| "cancel_tickets pay reason done (item # rest) =
     (case withCompletedRefunds pay done of Inl e \<Rightarrow> Inl e
      | Inr now \<Rightarrow>
          (case buildTicketItemPaymentCancelRequest now item (item # rest) reason of Inl e \<Rightarrow> Inl e
           | Inr req \<Rightarrow>
               (case describePaymentCancellation now req of Inl e \<Rightarrow> Inl e
                | Inr ev \<Rightarrow>
                    cancel_tickets pay reason
                      (done @ [\<lparr>ri_status = ''cancelled'', ri_refundableAmount = ti_refundableAmount item,
                                ri_commandAmountMinor = Some (ev_amountMinor ev)\<rparr>]) rest)))"

abbreviation refunded_krw :: "refund_item list \<Rightarrow> int" where
  "refunded_krw ds \<equiv> sum_list (map ri_refundableAmount ds)"

abbreviation refunded_minor :: "refund_item list \<Rightarrow> int" where
  "refunded_minor ds \<equiv> sum_list (map (\<lambda>d. or_else (ri_commandAmountMinor d) 0) ds)"

definition completed_list :: "refund_item list \<Rightarrow> bool" where
  "completed_list ds \<longleftrightarrow> (\<forall>d \<in> set ds. ri_status d = ''cancelled'' \<and> ri_commandAmountMinor d \<noteq> None)"

lemma withCompleted_list:
  assumes "completed_list ds"
  shows "withCompletedRefunds pay ds =
    Inr (pay\<lparr>cp_refundedAmount := Some (refunded_krw ds), cp_providerRefundedAmountMinor := Some (refunded_minor ds)\<rparr>)"
proof -
  have f: "filter (\<lambda>i. ri_status i = ''cancelled'') ds = ds"
    using assms by (auto simp: completed_list_def filter_id_conv)
  have m: "map (\<lambda>i. or_else (ri_commandAmountMinor i) (ri_refundableAmount i)) ds =
      map (\<lambda>d. or_else (ri_commandAmountMinor d) 0) ds"
    using assms by (auto simp: completed_list_def)
  show ?thesis using assms unfolding withCompletedRefunds_def f m Let_def completed_list_def by auto
qed

lemma cumulative_whole: "0 < a \<Longrightarrow> cumulative_minor c a a = c"
proof -
  assume a: "0 < a"
  have "(c * a * 2 + a) div (a * 2) = (a + c * (a * 2)) div (a * 2)" by (simp add: algebra_simps)
  also have "\<dots> = c + a div (a * 2)" using a by (subst div_mult_self1) auto
  also have "a div (a * 2) = 0" using a by (intro div_pos_pos_trivial) auto
  finally show ?thesis by (simp add: cumulative_minor_def)
qed

lemma cumulative_zero: "0 < a \<Longrightarrow> cumulative_minor c a 0 = 0"
  by (simp add: cumulative_minor_def div_pos_pos_trivial)

lemma cumulative_mono: "0 < a \<Longrightarrow> 0 \<le> c \<Longrightarrow> x \<le> y \<Longrightarrow> cumulative_minor c a x \<le> cumulative_minor c a y"
  by (simp add: cumulative_minor_def zdiv_mono1 mult_left_mono)

lemma usd_text: "js_upper (js_trim ''USD'') = ''USD''"
proof -
  have "js_trim ''USD'' = ''USD''" by (rule js_trim_printable) (simp add: printable_def)
  then show ?thesis by (simp add: js_upper_def upper_char_def)
qed

lemma finish_request_options:
  "finish_request pay reason opts = Inr req \<Longrightarrow> opts = Inr (cr_options req)"
  by (auto simp: finish_request_def split: sum.splits)

lemma with_request_id_amount:
  "with_request_id pay seed opts = Inr o1 \<Longrightarrow> co_cancelAmount o1 = co_cancelAmount opts"
  by (auto simp: with_request_id_def split: sum.splits if_splits)

lemma full_request_amount:
  "buildFullPaymentCancelRequest pay reason idem seed = Inr req \<Longrightarrow> co_cancelAmount (cr_options req) = None"
  unfolding buildFullPaymentCancelRequest_def
  by (drule finish_request_options) (auto dest!: with_request_id_amount simp: base_options_def)

lemma refund_fits:
  "assertRefundFitsBalance pay r = None \<Longrightarrow>
    0 < cp_amount pay \<and> 0 < r \<and> 0 \<le> or_else (cp_refundedAmount pay) 0 \<and> or_else (cp_refundedAmount pay) 0 + r \<le> cp_amount pay"
  by (auto simp: assertRefundFitsBalance_def assertPositiveInteger_def Let_def split: option.splits if_splits)

lemma ticket_request_amount:
  assumes "buildTicketItemPaymentCancelRequest pay item actives reason = Inr req"
  shows "assertRefundFitsBalance pay (ti_refundableAmount item) = None \<and>
    (if co_cancelAmount (cr_options req) = None
     then ti_refundableAmount item + or_else (cp_refundedAmount pay) 0 = cp_amount pay
     else \<exists>opts idem. partial_options pay (ti_refundableAmount item) idem = Inr opts \<and>
            co_cancelAmount (cr_options req) = co_cancelAmount opts)"
proof -
  let ?r = "ti_refundableAmount item"
  let ?idem = "Some (''ticket-item-cancel:'' @ ti_id item)"
  from assms have fit: "assertRefundFitsBalance pay ?r = None"
    by (auto simp: buildTicketItemPaymentCancelRequest_def split: option.splits)
  show ?thesis
  proof (cases "isLastActiveTicketItem item actives \<and> ?r + or_else (cp_refundedAmount pay) 0 = cp_amount pay")
    case True
    with assms fit full_request_amount show ?thesis
      by (auto simp: buildTicketItemPaymentCancelRequest_def Let_def)
  next
    case False
    with assms fit have "finish_request pay reason
        (case partial_options pay ?r ?idem of Inl e \<Rightarrow> Inl e | Inr o1 \<Rightarrow> with_request_id pay (Inr (ti_id item)) o1) = Inr req"
      by (auto simp: buildTicketItemPaymentCancelRequest_def Let_def)
    from finish_request_options [OF this] obtain opts where o: "partial_options pay ?r ?idem = Inr opts"
      and w: "with_request_id pay (Inr (ti_id item)) opts = Inr (cr_options req)"
      by (auto split: sum.splits)
    have "co_cancelAmount opts \<noteq> None"
      using o by (auto simp: partial_options_def split: sum.splits option.splits)
    with fit o with_request_id_amount [OF w] show ?thesis by metis
  qed
qed

definition usd_charge :: "cancel_payment \<Rightarrow> int \<Rightarrow> bool" where
  "usd_charge pay c \<longleftrightarrow> cp_providerChargeCurrency pay = Some ''USD'' \<and> cp_providerChargeAmountMinor pay = Some c"

lemma usd_partial_amount:
  assumes "usd_charge pay c" and "partial_options pay r idem = Inr opts"
  shows "co_cancelAmount opts =
      Some (cumulative_minor c (cp_amount pay) (or_else (cp_refundedAmount pay) 0 + r) - or_else (cp_providerRefundedAmountMinor pay) 0)
    \<and> 0 < cumulative_minor c (cp_amount pay) (or_else (cp_refundedAmount pay) 0 + r) - or_else (cp_providerRefundedAmountMinor pay) 0"
proof -
  have cur: "charge_currency pay = Some ''USD''" "cp_providerChargeAmountMinor pay = Some c"
    using assms(1) usd_text by (simp_all add: usd_charge_def charge_currency_def)
  show ?thesis using assms(2) cur
    by (auto simp: partial_options_def buildProviderCurrencyCancelAmount_def Let_def split: sum.splits option.splits if_splits)
qed

lemma usd_ticket_step:
  assumes "usd_charge pay c" and "0 \<le> c"
    and now: "now = pay\<lparr>cp_refundedAmount := Some R, cp_providerRefundedAmountMinor := Some (cumulative_minor c (cp_amount pay) R)\<rparr>"
    and "buildTicketItemPaymentCancelRequest now item actives reason = Inr req"
    and "describePaymentCancellation now req = Inr ev"
  shows "0 < ti_refundableAmount item \<and> R + ti_refundableAmount item \<le> cp_amount pay \<and> 0 \<le> ev_amountMinor ev \<and>
    cumulative_minor c (cp_amount pay) R + ev_amountMinor ev = cumulative_minor c (cp_amount pay) (R + ti_refundableAmount item)"
proof -
  let ?r = "ti_refundableAmount item" and ?M = "cumulative_minor c (cp_amount pay) R"
  note t = ticket_request_amount [OF assms(4)]
  from t refund_fits [of now ?r] now have f: "0 < cp_amount pay" "0 < ?r" "R + ?r \<le> cp_amount pay" by auto
  have u: "usd_charge now c" using assms(1) now by (simp add: usd_charge_def)
  then have cur: "evidence_currency now = USD" by (simp add: usd_charge_def evidence_currency_def)
  from assms(5) u cur now have ev: "ev_amountMinor ev =
      (case co_cancelAmount (cr_options req) of None \<Rightarrow> c - ?M | Some h \<Rightarrow> to_minor USD h)"
    by (auto simp: describePaymentCancellation_def usd_charge_def Let_def split: if_splits)
  show ?thesis
  proof (cases "co_cancelAmount (cr_options req)")
    case None
    with t now have "R + ?r = cp_amount pay" by auto
    with f ev None cumulative_whole cumulative_mono [OF f(1) assms(2), of R "R + ?r"] show ?thesis by auto
  next
    case (Some h)
    with t obtain opts idem where o: "partial_options now ?r idem = Inr opts" "co_cancelAmount opts = Some h"
      by auto
    with usd_partial_amount [OF u o(1)] now have "h = cumulative_minor c (cp_amount pay) (R + ?r) - ?M" "0 < h" by auto
    with f ev Some show ?thesis by (simp add: to_minor_def)
  qed
qed

lemma cancel_tickets_usd:
  assumes "usd_charge pay c" and "0 \<le> c" and "completed_list ds"
    and "refunded_minor ds = cumulative_minor c (cp_amount pay) (refunded_krw ds)"
    and "cancel_tickets pay reason ds items = Inr out"
  shows "completed_list out \<and> refunded_minor out = cumulative_minor c (cp_amount pay) (refunded_krw out) \<and>
    refunded_krw out = refunded_krw ds + sum_list (map ti_refundableAmount items) \<and>
    (items \<noteq> [] \<longrightarrow> refunded_krw out \<le> cp_amount pay) \<and>
    (\<forall>d \<in> set out. d \<in> set ds \<or> 0 \<le> or_else (ri_commandAmountMinor d) 0)"
  using assms(3-5)
proof (induction items arbitrary: ds)
  case (Cons item rest)
  let ?now = "pay\<lparr>cp_refundedAmount := Some (refunded_krw ds),
    cp_providerRefundedAmountMinor := Some (cumulative_minor c (cp_amount pay) (refunded_krw ds))\<rparr>"
  from Cons.prems(3) withCompleted_list [OF Cons.prems(1), of pay] Cons.prems(2) obtain req ev where
    b: "buildTicketItemPaymentCancelRequest ?now item (item # rest) reason = Inr req"
    and d: "describePaymentCancellation ?now req = Inr ev"
    and rec: "cancel_tickets pay reason (ds @ [\<lparr>ri_status = ''cancelled'', ri_refundableAmount = ti_refundableAmount item,
                                ri_commandAmountMinor = Some (ev_amountMinor ev)\<rparr>]) rest = Inr out"
    by (auto split: sum.splits)
  note s = usd_ticket_step [OF assms(1,2) refl b d]
  have cl: "completed_list (ds @ [\<lparr>ri_status = ''cancelled'', ri_refundableAmount = ti_refundableAmount item,
                                ri_commandAmountMinor = Some (ev_amountMinor ev)\<rparr>])"
    using Cons.prems(1) by (auto simp: completed_list_def)
  from Cons.IH [OF cl _ rec] s Cons.prems(2) show ?case by (cases rest) auto
qed simp

text \<open>C29: Cancelling the tickets of a foreign-currency payment one after the other never loses or invents a
  cent: after every prefix the provider refunds add up to the charge times the refunded share, rounded
  half up; no single refund is negative, the total never exceeds the charge, and refunding the whole
  KRW amount refunds exactly the whole charge.\<close>
theorem partial_cancels_sum_to_charge:
  assumes "usd_charge pay c" and "0 < c" and "0 < cp_amount pay" and "items \<noteq> []"
    and "cancel_tickets pay reason [] items = Inr out"
  shows "refunded_minor out = cumulative_minor c (cp_amount pay) (sum_list (map ti_refundableAmount items)) \<and>
    refunded_minor out \<le> c \<and> (\<forall>d \<in> set out. 0 \<le> or_else (ri_commandAmountMinor d) 0) \<and>
    (sum_list (map ti_refundableAmount items) = cp_amount pay \<longrightarrow> refunded_minor out = c)"
proof -
  have "completed_list []" "refunded_minor [] = cumulative_minor c (cp_amount pay) (refunded_krw [])"
    using cumulative_zero [OF assms(3)] by (simp_all add: completed_list_def)
  from cancel_tickets_usd [OF assms(1) _ this assms(5)] assms(2,4)
  have o: "refunded_minor out = cumulative_minor c (cp_amount pay) (refunded_krw out)"
    "refunded_krw out = sum_list (map ti_refundableAmount items)" "refunded_krw out \<le> cp_amount pay"
    "\<forall>d \<in> set out. 0 \<le> or_else (ri_commandAmountMinor d) 0" by auto
  moreover have "cumulative_minor c (cp_amount pay) (refunded_krw out) \<le> c"
    using cumulative_mono [OF assms(3), of c "refunded_krw out" "cp_amount pay"] assms(2,3) o(3) cumulative_whole by simp
  ultimately show ?thesis using cumulative_whole [OF assms(3)] by auto
qed

definition demo_payment :: cancel_payment where
  "demo_payment = \<lparr>cp_id = Some ''pay-1'', cp_paymentKey = ''key'', cp_provider = ''PAYPAL'', cp_currency = ''KRW'',
     cp_amount = 100000, cp_refundedAmount = None, cp_providerRefundedAmountMinor = None, cp_metadataSecretKeyScope = None,
     cp_metadataRequestedProvider = None, cp_providerChargeCurrency = Some ''USD'', cp_providerChargeAmountMinor = Some 7301\<rparr>"

definition demo_items :: "ticket_item list" where
  "demo_items = [\<lparr>ti_id = ''a'', ti_refundableAmount = 33333\<rparr>, \<lparr>ti_id = ''b'', ti_refundableAmount = 33333\<rparr>,
     \<lparr>ti_id = ''c'', ti_refundableAmount = 33334\<rparr>]"

lemma demo_texts: "js_upper ''PAYPAL'' = ''PAYPAL''" "js_upper ''KRW'' = ''KRW''"
  by (simp_all add: js_upper_def upper_char_def)

lemmas cancel_defs = withCompletedRefunds_def buildTicketItemPaymentCancelRequest_def buildFullPaymentCancelRequest_def
  describePaymentCancellation_def partial_options_def buildProviderCurrencyCancelAmount_def assertRefundFitsBalance_def
  assertPositiveInteger_def isSafeInteger_def requiresProviderCurrencyPartialCancel_def
  canBuildProviderCurrencyPartialCancel_def charge_currency_def with_request_id_def requiresCancelRequestId_def
  finish_request_def base_options_def isLastActiveTicketItem_def evidence_currency_def cumulative_minor_def
  to_minor_def FOREIGN_EASY_PAY_PROVIDERS_def

definition demo_refunds :: "refund_item list" where
  "demo_refunds =
    [\<lparr>ri_status = ''cancelled'', ri_refundableAmount = 33333, ri_commandAmountMinor = Some 2434\<rparr>,
     \<lparr>ri_status = ''cancelled'', ri_refundableAmount = 33333, ri_commandAmountMinor = Some 2433\<rparr>,
     \<lparr>ri_status = ''cancelled'', ri_refundableAmount = 33334, ri_commandAmountMinor = Some 2434\<rparr>]"

lemma demo_cancel: "cancel_tickets demo_payment ''r'' [] demo_items = Inr demo_refunds"
  by (simp add: demo_payment_def demo_items_def demo_refunds_def cancel_defs demo_texts usd_text Let_def)

lemma partial_cancels_sum_to_charge_witness: "refunded_minor demo_refunds = 7301"
proof -
  have "usd_charge demo_payment 7301" "0 < cp_amount demo_payment" "demo_items \<noteq> []"
    "sum_list (map ti_refundableAmount demo_items) = cp_amount demo_payment"
    by (simp_all add: usd_charge_def demo_payment_def demo_items_def)
  with partial_cancels_sum_to_charge [OF _ _ _ _ demo_cancel, of 7301] show ?thesis by simp
qed

lemma replace_runs_chars: "c \<in> set (replace_runs P s) \<Longrightarrow> c = CHR ''_'' \<or> (c \<in> set s \<and> \<not> P c)"
proof (induction s)
  case (Cons d s)
  then show ?case by (cases s) (auto split: if_splits)
qed simp

lemma strip_underscores_set: "set (strip_underscores s) \<subseteq> set s"
proof
  fix c assume "c \<in> set (strip_underscores s)"
  then have "c \<in> set (dropWhile (\<lambda>c. c = CHR ''_'') s)" unfolding strip_underscores_def by (metis set_dropWhileD set_rev)
  then show "c \<in> set s" by (metis set_dropWhileD)
qed





text \<open>A cancellation with a request id, a frozen reason, or on a partially cancelled payment counts as
  completed only on evidence: the provider lists a cancel that is DONE, of a positive amount, equal to
  the expected amount when one is expected, and carrying the expected reason and request id.\<close>
theorem completion_needs_evidence:
  assumes "isTossPaymentCancelCompleted resp rid opts"
    and "normalizeCancelRequestId rid \<noteq> None \<or> cm_expectedCancelReason opts \<noteq> None \<or> tr_status resp = ''PARTIAL_CANCELED''"
    and "\<forall>r. rid = Some r \<longrightarrow> js_trim r = r"
  shows "\<exists>c \<in> set (or_else (tr_cancels resp) []). tc_cancelStatus c = Some ''DONE'' \<and>
    (\<exists>a. tc_cancelAmount c = Some a \<and> 0 < a) \<and>
    (cm_expectedCancelAmount opts \<noteq> None \<longrightarrow> tc_cancelAmount c = cm_expectedCancelAmount opts) \<and>
    (cm_expectedCancelReason opts \<noteq> None \<longrightarrow> tc_cancelReason c = cm_expectedCancelReason opts) \<and>
    (normalizeCancelRequestId rid \<noteq> None \<longrightarrow> tc_cancelRequestId c = rid)"
proof -
  have n: "normalizeCancelRequestId rid = None \<or> normalizeCancelRequestId rid = rid"
    using assms(3) by (cases rid) (auto simp: normalizeCancelRequestId_def Let_def)
  have nn: "normalizeCancelRequestId (normalizeCancelRequestId rid) = normalizeCancelRequestId rid"
    using assms(3) by (cases rid) (auto simp: normalizeCancelRequestId_def Let_def)
  obtain ex where ex: "hasMatchingCompletedProviderCancel (getCompletedProviderCancels resp) ex"
    "ex_cancelAmount ex = cm_expectedCancelAmount opts" "ex_cancelReason ex = cm_expectedCancelReason opts"
    "ex_cancelRequestId ex = normalizeCancelRequestId rid"
    using assms(1,2) by (auto simp: isTossPaymentCancelCompleted_def Let_def split: if_splits)
  then obtain c where c: "c \<in> set (or_else (tr_cancels resp) [])" "completed_cancel c"
    "isMatchingCompletedProviderCancel c ex"
    by (auto simp: hasMatchingCompletedProviderCancel_def getCompletedProviderCancels_def list_ex_iff)
  have "tc_cancelStatus c = Some ''DONE'' \<and> (\<exists>a. tc_cancelAmount c = Some a \<and> 0 < a)"
    using c(2) by (auto simp: completed_cancel_def split: option.splits)
  with c ex n nn show ?thesis
    by (intro bexI [of _ c]) (auto simp: isMatchingCompletedProviderCancel_def Let_def split: if_splits)
qed

definition demo_response :: toss_response where
  "demo_response = \<lparr>tr_status = ''PARTIAL_CANCELED'', tr_totalAmount = 7301, tr_balanceAmount = Some 4867, tr_currency = Some ''USD'',
     tr_cancels = Some [\<lparr>tc_cancelAmount = Some 2434, tc_cancelStatus = Some ''DONE'', tc_cancelReason = Some ''r'',
       tc_cancelRequestId = Some ''cancel_a'', tc_canceledAt = Some 50\<rparr>]\<rparr>"

lemma completion_needs_evidence_witness:
  "\<exists>c \<in> set (or_else (tr_cancels demo_response) []). tc_cancelRequestId c = Some ''cancel_a''"
proof -
  let ?opts = "\<lparr>cm_allowPartialStatus = True, cm_expectedCancelAmount = Some 2434, cm_expectedCancelReason = None,
      cm_allowUnidentifiedPartialCancel = False, cm_requestedAt = None\<rparr>"
  have t: "js_trim ''cancel_a'' = ''cancel_a''" by (rule js_trim_printable) (simp add: printable_def)
  have "isTossPaymentCancelCompleted demo_response (Some ''cancel_a'') ?opts"
    by (simp add: isTossPaymentCancelCompleted_def demo_response_def getCompletedProviderCancels_def completed_cancel_def
        completed_statuses_def hasMatchingCompletedProviderCancel_def isMatchingCompletedProviderCancel_def
        normalizeCancelRequestId_def t)
  from completion_needs_evidence [OF this] t show ?thesis by (auto simp: normalizeCancelRequestId_def)
qed

text \<open>The two balance checks contradict each other, so the reconciliation of a frozen command takes
  one branch; and once a positive refund has lowered the provider's balance below the frozen one,
  neither check holds, so the command is not sent again.\<close>
theorem balance_checks_exclusive:
  "\<not> (hasUnchangedCancellationBalance resp snap \<and> isProviderBalanceAboveSnapshot resp snap) \<and>
   (snap = Some ev \<and> tr_balanceAmount resp = Some b \<and> to_minor (ev_currency ev) b + a = ev_balanceBeforeMinor ev \<and> 0 < a \<longrightarrow>
      \<not> hasUnchangedCancellationBalance resp snap \<and> \<not> isProviderBalanceAboveSnapshot resp snap)"
  by (auto simp: hasUnchangedCancellationBalance_def isProviderBalanceAboveSnapshot_def split: option.splits)

lemma balance_checks_exclusive_witness:
  "\<not> hasUnchangedCancellationBalance demo_response (Some \<lparr>ev_currency = USD, ev_amountMinor = 2434, ev_originalAmountMinor = 7301,
     ev_balanceBeforeMinor = 7301\<rparr>)"
  using balance_checks_exclusive [of demo_response "Some \<lparr>ev_currency = USD, ev_amountMinor = 2434, ev_originalAmountMinor = 7301,
     ev_balanceBeforeMinor = 7301\<rparr>" _ 4867 2434]
  by (simp add: demo_response_def to_minor_def)

end
