(* ===== verification/RefundFee.thy ===== *)
theory RefundFee
  imports Prelude
begin

text \<open>
  The cancellation fee schedule of \<open>apps/api/src/modules/refund/refund.service.ts\<close>, its second copy in
  \<open>apps/api/src/modules/reservation/reservation.service.ts\<close>, and the KST windows of
  \<open>apps/api/src/modules/admin/kst-boundary.ts\<close>. A date is its time in milliseconds; the day that the
  Asia/Seoul formatter prints is the day of the time shifted by nine hours (Korea has no daylight saving
  time), and its ordinal is the quotient by the length of a day. A price is a whole number of won below
  \<open>2 ^ 53\<close>, for which \<open>Math.floor (price * 0.3)\<close> is \<open>price * 3 div 10\<close> (the doubles 0.3, 0.2 and 0.1 are within
  half a unit in the last place, so a whole product is computed exactly).
\<close>

section \<open>Days in Seoul\<close>

definition KST_OFFSET_MS :: int where "KST_OFFSET_MS = 9 * 60 * 60 * 1000"
definition DAY_MS :: int where "DAY_MS = 86400000"

definition getSeoulDayOrdinal :: "int \<Rightarrow> int" where
  "getSeoulDayOrdinal ms = (ms + KST_OFFSET_MS) div DAY_MS"

definition kstBoundaryToUtc :: "int \<Rightarrow> int \<Rightarrow> (int \<times> int) option" where
  "kstBoundaryToUtc nowUtcMs days =
     (if days < 1 then None
      else
        let nowKstMs = nowUtcMs + KST_OFFSET_MS;
            kstTodayStartMs = (nowKstMs div DAY_MS) * DAY_MS;
            kstEndOfTodayMs = kstTodayStartMs + DAY_MS;
            kstStartMs = kstEndOfTodayMs - days * DAY_MS
        in Some (kstStartMs - KST_OFFSET_MS, kstEndOfTodayMs - KST_OFFSET_MS))"

definition kstTodayBoundaryUtc :: "int \<Rightarrow> (int \<times> int) option" where
  "kstTodayBoundaryUtc nowUtcMs = kstBoundaryToUtc nowUtcMs 1"

section \<open>The fee schedule\<close>

datatype policy_code =
    SAME_DAY_BEFORE_MIDNIGHT | SHOW_DAY_2_TO_1 | SHOW_DAY_6_TO_3 | SHOW_DAY_9_TO_7
  | WITHIN_7_DAYS_AFTER_BOOKING | BOOKING_DAY_8_TO_SHOW_DAY_10 | ADMIN_FULL_REFUND_OVERRIDE

record fee_quote =
  cancellationFee :: int
  serviceFeeRefund :: int
  refundableAmount :: int
  policyCode :: policy_code

definition percent_fee :: "int \<Rightarrow> int \<Rightarrow> int" where
  "percent_fee price tenths = price * tenths div 10"

text \<open>\<open>RefundService.calculateTicketItemCancellationQuote\<close>; \<open>None\<close> is the refusal on the show day.\<close>

definition calculateTicketItemCancellationQuote :: "int \<Rightarrow> int \<Rightarrow> int \<Rightarrow> int \<Rightarrow> int \<Rightarrow> fee_quote option" where
  "calculateTicketItemCancellationQuote price serviceFee bookedAt showtimeAt t =
     (let today = getSeoulDayOrdinal t;
          bookingDay = getSeoulDayOrdinal bookedAt;
          showDay = getSeoulDayOrdinal showtimeAt;
          daysBeforeShow = showDay - today
      in if daysBeforeShow \<le> 0 then None
         else if today = bookingDay then
           Some \<lparr>cancellationFee = 0, serviceFeeRefund = serviceFee, refundableAmount = price + serviceFee,
                 policyCode = SAME_DAY_BEFORE_MIDNIGHT\<rparr>
         else if daysBeforeShow \<le> 2 then
           (let fee = percent_fee price 3 in
            Some \<lparr>cancellationFee = fee, serviceFeeRefund = 0, refundableAmount = max 0 (price - fee),
                  policyCode = SHOW_DAY_2_TO_1\<rparr>)
         else if daysBeforeShow \<le> 6 then
           (let fee = percent_fee price 2 in
            Some \<lparr>cancellationFee = fee, serviceFeeRefund = 0, refundableAmount = max 0 (price - fee),
                  policyCode = SHOW_DAY_6_TO_3\<rparr>)
         else if daysBeforeShow \<le> 9 then
           (let fee = percent_fee price 1 in
            Some \<lparr>cancellationFee = fee, serviceFeeRefund = 0, refundableAmount = max 0 (price - fee),
                  policyCode = SHOW_DAY_9_TO_7\<rparr>)
         else
           let daysAfterBooking = max 0 (today - bookingDay);
               fee = (if daysAfterBooking \<le> 7 then 0 else min 4000 (percent_fee price 1))
           in Some \<lparr>cancellationFee = fee, serviceFeeRefund = 0, refundableAmount = max 0 (price - fee),
                policyCode = (if daysAfterBooking \<le> 7 then WITHIN_7_DAYS_AFTER_BOOKING
                              else BOOKING_DAY_8_TO_SHOW_DAY_10)\<rparr>)"

text \<open>\<open>ReservationService.calculateTicketItemCancellationQuote\<close>: the assignments of the if-chain, then one return.\<close>

definition reservation_calculateTicketItemCancellationQuote ::
  "int \<Rightarrow> int \<Rightarrow> int \<Rightarrow> int \<Rightarrow> int \<Rightarrow> fee_quote option" where
  "reservation_calculateTicketItemCancellationQuote price serviceFee bookedAt showtimeAt t =
     (let today = getSeoulDayOrdinal t;
          bookingDay = getSeoulDayOrdinal bookedAt;
          daysBeforeShow = getSeoulDayOrdinal showtimeAt - today
      in if daysBeforeShow \<le> 0 then None
         else if today = bookingDay then
           Some \<lparr>cancellationFee = 0, serviceFeeRefund = serviceFee, refundableAmount = price + serviceFee,
                 policyCode = SAME_DAY_BEFORE_MIDNIGHT\<rparr>
         else
           let (fee, code) =
             (if daysBeforeShow \<le> 2 then (percent_fee price 3, SHOW_DAY_2_TO_1)
              else if daysBeforeShow \<le> 6 then (percent_fee price 2, SHOW_DAY_6_TO_3)
              else if daysBeforeShow \<le> 9 then (percent_fee price 1, SHOW_DAY_9_TO_7)
              else
                let daysAfterBooking = max 0 (today - bookingDay)
                in (if daysAfterBooking \<le> 7 then 0 else min 4000 (percent_fee price 1),
                    if daysAfterBooking \<le> 7 then WITHIN_7_DAYS_AFTER_BOOKING else BOOKING_DAY_8_TO_SHOW_DAY_10))
           in Some \<lparr>cancellationFee = fee, serviceFeeRefund = 0, refundableAmount = max 0 (price - fee),
                policyCode = code\<rparr>)"

section \<open>The quote of a whole reservation\<close>

record quote_ticket =
  qt_id :: js_string
  qt_status :: js_string
  qt_admissionState :: js_string
  qt_price :: int
  qt_serviceFee :: int

record item_quote =
  iq_ticketItemId :: js_string
  iq_ticketPrice :: int
  iq_serviceFee :: int
  iq_quote :: fee_quote

record reservation_quote =
  rq_originalPaymentAmount :: int
  rq_ticketSubtotal :: int
  rq_ticketServiceFeeTotal :: int
  rq_cancellationFeeTotal :: int
  rq_serviceFeeRefundTotal :: int
  rq_refundableAmount :: int
  rq_policyCodes :: "policy_code list"
  rq_items :: "item_quote list"

datatype quote_error = CancellationPending | NoActiveTicket | EnteredTicket | ShowDay

definition resolveBookingConfirmedAt :: "int option \<Rightarrow> int \<Rightarrow> int" where
  "resolveBookingConfirmedAt paidAt createdAt = or_else paidAt createdAt"

definition normalizeTicketItemServiceFee :: "int \<Rightarrow> int" where
  "normalizeTicketItemServiceFee v = (if v = 2000 then 2000 else 0)"

definition quote_item :: "bool \<Rightarrow> int \<Rightarrow> int \<Rightarrow> int \<Rightarrow> quote_ticket \<Rightarrow> item_quote option" where
  "quote_item fullRefundOverride bookedAt showtimeAt t ti =
     (let serviceFee = normalizeTicketItemServiceFee (qt_serviceFee ti);
          mk = (\<lambda>q. \<lparr>iq_ticketItemId = qt_id ti, iq_ticketPrice = qt_price ti, iq_serviceFee = serviceFee, iq_quote = q\<rparr>)
      in if fullRefundOverride then
           Some (mk \<lparr>cancellationFee = 0, serviceFeeRefund = serviceFee, refundableAmount = qt_price ti + serviceFee,
                     policyCode = ADMIN_FULL_REFUND_OVERRIDE\<rparr>)
         else map_option mk (calculateTicketItemCancellationQuote (qt_price ti) serviceFee bookedAt showtimeAt t))"

fun quote_items :: "bool \<Rightarrow> int \<Rightarrow> int \<Rightarrow> int \<Rightarrow> quote_ticket list \<Rightarrow> item_quote list option" where
  "quote_items full bookedAt showtimeAt t [] = Some []"
| "quote_items full bookedAt showtimeAt t (ti # tis) =
     (case quote_item full bookedAt showtimeAt t ti of None \<Rightarrow> None
      | Some q \<Rightarrow> map_option (\<lambda>qs. q # qs) (quote_items full bookedAt showtimeAt t tis))"

definition buildFullReservationCancellationQuote ::
  "bool \<Rightarrow> bool \<Rightarrow> int \<Rightarrow> int option \<Rightarrow> int \<Rightarrow> int \<Rightarrow> int \<Rightarrow> quote_ticket list \<Rightarrow> quote_error + reservation_quote" where
  "buildFullReservationCancellationQuote enteredOverride fullOverride paymentAmount paidAt createdAt showtimeAt t tickets =
     (if \<exists>ti \<in> set tickets. qt_status ti = ''cancellation_pending'' then Inl CancellationPending
      else
        let actives = filter (\<lambda>ti. qt_status ti = ''active'') tickets in
        if actives = [] then Inl NoActiveTicket
        else if \<not> enteredOverride \<and> (\<exists>ti \<in> set actives. qt_admissionState ti = ''entered'') then Inl EnteredTicket
        else (case quote_items fullOverride (resolveBookingConfirmedAt paidAt createdAt) showtimeAt t actives of
            None \<Rightarrow> Inl ShowDay
          | Some items \<Rightarrow>
              let codes = map (\<lambda>i. policyCode (iq_quote i)) items in
              Inr \<lparr>rq_originalPaymentAmount = paymentAmount,
                   rq_ticketSubtotal = sum_list (map iq_ticketPrice items),
                   rq_ticketServiceFeeTotal = sum_list (map iq_serviceFee items),
                   rq_cancellationFeeTotal = sum_list (map (\<lambda>i. cancellationFee (iq_quote i)) items),
                   rq_serviceFeeRefundTotal = sum_list (map (\<lambda>i. serviceFeeRefund (iq_quote i)) items),
                   rq_refundableAmount = sum_list (map (\<lambda>i. refundableAmount (iq_quote i)) items),
                   rq_policyCodes = rev (remdups (rev codes)), rq_items = items\<rparr>))"

section \<open>Properties\<close>

text \<open>The fee schedule of the refund service and the one of the reservation service are the same function:
  the amount shown before a cancellation and the amount refunded can never differ.\<close>
theorem fee_schedules_agree:
  "reservation_calculateTicketItemCancellationQuote price serviceFee bookedAt showtimeAt t =
   calculateTicketItemCancellationQuote price serviceFee bookedAt showtimeAt t"
  by (simp add: reservation_calculateTicketItemCancellationQuote_def calculateTicketItemCancellationQuote_def Let_def)

lemma day_mono: "a \<le> b \<Longrightarrow> getSeoulDayOrdinal a \<le> getSeoulDayOrdinal b"
  by (simp add: getSeoulDayOrdinal_def DAY_MS_def zdiv_mono1)

lemma percent_fee_bounds:
  assumes "0 \<le> price"
  shows "0 \<le> percent_fee price 1" "percent_fee price 1 \<le> percent_fee price 2"
    "percent_fee price 2 \<le> percent_fee price 3" "percent_fee price 3 \<le> price" "10 * percent_fee price 3 \<le> 3 * price"
  using assms by (simp_all add: percent_fee_def zdiv_mono1)

text \<open>Waiting never pays: from the booking on, the amount refunded for a ticket only falls as time passes;
  it is never negative, never more than was paid, and a ticket cancelled in time keeps at least 70
  percent of its price.\<close>
theorem refund_never_grows:
  assumes "0 \<le> price" and "0 \<le> serviceFee" and "bookedAt \<le> t" and "t \<le> t'"
    and "calculateTicketItemCancellationQuote price serviceFee bookedAt showtimeAt t = Some q"
    and "calculateTicketItemCancellationQuote price serviceFee bookedAt showtimeAt t' = Some q'"
  shows "refundableAmount q' \<le> refundableAmount q \<and> refundableAmount q \<le> price + serviceFee \<and>
    7 * price \<le> 10 * refundableAmount q' \<and> 0 \<le> cancellationFee q'"
proof -
  note d = day_mono [OF assms(3)] day_mono [OF assms(4)]
  note p = percent_fee_bounds [OF assms(1)]
  show ?thesis using assms(1,2,5,6) d p
    by (simp add: calculateTicketItemCancellationQuote_def Let_def split: if_splits) (auto simp: min_def)
qed
lemma refund_never_grows_witness:
  "refundableAmount \<lparr>cancellationFee = 30000, serviceFeeRefund = 0, refundableAmount = 70000, policyCode = SHOW_DAY_2_TO_1\<rparr>
   \<le> refundableAmount \<lparr>cancellationFee = 4000, serviceFeeRefund = 0, refundableAmount = 96000, policyCode = BOOKING_DAY_8_TO_SHOW_DAY_10\<rparr>"
proof -
  have early: "calculateTicketItemCancellationQuote 100000 2000 0 (40 * 86400000) (20 * 86400000) =
      Some \<lparr>cancellationFee = 4000, serviceFeeRefund = 0, refundableAmount = 96000, policyCode = BOOKING_DAY_8_TO_SHOW_DAY_10\<rparr>"
    and late: "calculateTicketItemCancellationQuote 100000 2000 0 (40 * 86400000) (39 * 86400000) =
      Some \<lparr>cancellationFee = 30000, serviceFeeRefund = 0, refundableAmount = 70000, policyCode = SHOW_DAY_2_TO_1\<rparr>"
    by (simp_all add: calculateTicketItemCancellationQuote_def getSeoulDayOrdinal_def KST_OFFSET_MS_def DAY_MS_def
        percent_fee_def Let_def)
  from refund_never_grows [OF _ _ _ _ early late] show ?thesis by simp
qed

lemma le_quotient_iff: "0 < d \<Longrightarrow> y \<le> x div d \<longleftrightarrow> y * d \<le> (x::int)"
proof
  assume d: "0 < d"
  show "y * d \<le> x" if "y \<le> x div d"
  proof -
    have "y * d \<le> (x div d) * d" using that d by simp
    also have "\<dots> \<le> x" using pos_mod_sign [OF d, of x] by (simp add: minus_mod_eq_div_mult [symmetric])
    finally show ?thesis .
  qed
  show "y \<le> x div d" if "y * d \<le> x"
    using zdiv_mono1 [OF that d] d by simp
qed

lemma DAY_MS_pos: "0 < DAY_MS"
  by (simp add: DAY_MS_def)

text \<open>A ticket can be cancelled by its buyer exactly until midnight in Seoul before the day of the show:
  the quote is refused if and only if the time has reached the start of the show's day.\<close>
theorem cancellation_deadline:
  "calculateTicketItemCancellationQuote price serviceFee bookedAt showtimeAt t = None \<longleftrightarrow>
     getSeoulDayOrdinal showtimeAt * DAY_MS - KST_OFFSET_MS \<le> t"
proof -
  have "getSeoulDayOrdinal showtimeAt \<le> getSeoulDayOrdinal t \<longleftrightarrow> getSeoulDayOrdinal showtimeAt * DAY_MS \<le> t + KST_OFFSET_MS"
    unfolding getSeoulDayOrdinal_def [of t] by (rule le_quotient_iff [OF DAY_MS_pos])
  then show ?thesis by (auto simp: calculateTicketItemCancellationQuote_def Let_def)
qed

lemma quote_item_sound:
  assumes "quote_item full bookedAt showtimeAt t ti = Some q" and "0 \<le> qt_price ti"
  shows "iq_ticketPrice q = qt_price ti \<and> 0 \<le> iq_serviceFee q \<and> iq_serviceFee q \<le> 2000 \<and>
    refundableAmount (iq_quote q) + cancellationFee (iq_quote q) = iq_ticketPrice q + serviceFeeRefund (iq_quote q) \<and>
    (serviceFeeRefund (iq_quote q) = 0 \<or> serviceFeeRefund (iq_quote q) = iq_serviceFee q) \<and>
    0 \<le> cancellationFee (iq_quote q) \<and> 0 \<le> refundableAmount (iq_quote q)"
proof -
  note p = percent_fee_bounds [OF assms(2)]
  show ?thesis using assms p
    by (auto simp: quote_item_def calculateTicketItemCancellationQuote_def normalizeTicketItemServiceFee_def Let_def
        split: if_splits)
qed

lemma quote_items_sound:
  assumes "quote_items full bookedAt showtimeAt t tis = Some qs" and "\<forall>ti \<in> set tis. 0 \<le> qt_price ti"
  shows "sum_list (map (\<lambda>i. refundableAmount (iq_quote i)) qs) + sum_list (map (\<lambda>i. cancellationFee (iq_quote i)) qs) =
      sum_list (map iq_ticketPrice qs) + sum_list (map (\<lambda>i. serviceFeeRefund (iq_quote i)) qs) \<and>
    sum_list (map iq_ticketPrice qs) = sum_list (map qt_price tis) \<and>
    0 \<le> sum_list (map (\<lambda>i. refundableAmount (iq_quote i)) qs) \<and>
    0 \<le> sum_list (map (\<lambda>i. cancellationFee (iq_quote i)) qs) \<and>
    sum_list (map (\<lambda>i. serviceFeeRefund (iq_quote i)) qs) \<le> sum_list (map iq_serviceFee qs)"
  using assms
proof (induction tis arbitrary: qs)
  case (Cons ti tis)
  from Cons.prems obtain q qs' where q: "quote_item full bookedAt showtimeAt t ti = Some q"
    and qs: "quote_items full bookedAt showtimeAt t tis = Some qs'" "qs = q # qs'"
    by (auto split: option.splits)
  have "0 \<le> qt_price ti" using Cons.prems by simp
  from quote_item_sound [OF q this] Cons.IH [OF qs(1)] Cons.prems qs(2) show ?case by auto
qed simp

text \<open>C32: The quote of a whole reservation balances: the refund and the fees add up to the price of the active
  tickets and the refunded service fees, over exactly the active tickets, and the refund lies between 0
  and what was paid for them.\<close>
theorem reservation_quote_balances:
  assumes "buildFullReservationCancellationQuote enteredOverride fullOverride paymentAmount paidAt createdAt showtimeAt t tickets = Inr rq"
    and "\<forall>ti \<in> set tickets. 0 \<le> qt_price ti"
  shows "rq_refundableAmount rq + rq_cancellationFeeTotal rq = rq_ticketSubtotal rq + rq_serviceFeeRefundTotal rq \<and>
    rq_ticketSubtotal rq = sum_list (map qt_price (filter (\<lambda>ti. qt_status ti = ''active'') tickets)) \<and>
    0 \<le> rq_refundableAmount rq \<and> rq_refundableAmount rq \<le> rq_ticketSubtotal rq + rq_ticketServiceFeeTotal rq"
proof -
  from assms(1) obtain items where i: "quote_items fullOverride (resolveBookingConfirmedAt paidAt createdAt) showtimeAt t
      (filter (\<lambda>ti. qt_status ti = ''active'') tickets) = Some items"
    and rq: "rq_refundableAmount rq = sum_list (map (\<lambda>i. refundableAmount (iq_quote i)) items)"
      "rq_cancellationFeeTotal rq = sum_list (map (\<lambda>i. cancellationFee (iq_quote i)) items)"
      "rq_ticketSubtotal rq = sum_list (map iq_ticketPrice items)"
      "rq_serviceFeeRefundTotal rq = sum_list (map (\<lambda>i. serviceFeeRefund (iq_quote i)) items)"
      "rq_ticketServiceFeeTotal rq = sum_list (map iq_serviceFee items)"
    by (auto simp: buildFullReservationCancellationQuote_def Let_def split: if_splits option.splits)
  from quote_items_sound [OF i] assms(2) show ?thesis unfolding rq by auto
qed

lemma reservation_quote_balances_witness:
  "\<exists>rq. buildFullReservationCancellationQuote False False 102000 None 0 (40 * 86400000) (39 * 86400000)
     [\<lparr>qt_id = ''t1'', qt_status = ''active'', qt_admissionState = ''not_entered'', qt_price = 100000, qt_serviceFee = 2000\<rparr>] = Inr rq \<and>
     rq_refundableAmount rq + rq_cancellationFeeTotal rq = 100000"
proof -
  let ?t = "\<lparr>qt_id = ''t1'', qt_status = ''active'', qt_admissionState = ''not_entered'', qt_price = 100000, qt_serviceFee = 2000\<rparr>"
  obtain rq where rq: "buildFullReservationCancellationQuote False False 102000 None 0 (40 * 86400000) (39 * 86400000) [?t] = Inr rq"
    and r: "rq_serviceFeeRefundTotal rq = 0"
    by (simp add: buildFullReservationCancellationQuote_def quote_item_def calculateTicketItemCancellationQuote_def
        getSeoulDayOrdinal_def KST_OFFSET_MS_def DAY_MS_def resolveBookingConfirmedAt_def Let_def)
  from reservation_quote_balances [OF rq] r have "rq_refundableAmount rq + rq_cancellationFeeTotal rq = 100000" by simp
  with rq show ?thesis by blast
qed

text \<open>The KST window of n days is exactly the last n days in Seoul including today: a time falls into it
  if and only if its day in Seoul is one of them, so consecutive windows neither overlap nor leave a gap.\<close>
theorem kst_window_is_days:
  assumes "kstBoundaryToUtc t n = Some (a, b)"
  shows "(a \<le> x \<and> x < b \<longleftrightarrow> getSeoulDayOrdinal t - n < getSeoulDayOrdinal x \<and> getSeoulDayOrdinal x \<le> getSeoulDayOrdinal t) \<and>
    b - a = n * DAY_MS \<and> a \<le> t \<and> t < b"
proof -
  define u where "u = (t + KST_OFFSET_MS) div DAY_MS"
  have n: "1 \<le> n" and ab: "a = (u * DAY_MS + DAY_MS) - n * DAY_MS - KST_OFFSET_MS" "b = u * DAY_MS + DAY_MS - KST_OFFSET_MS"
    using assms by (auto simp: kstBoundaryToUtc_def u_def Let_def split: if_splits)
  have lo: "y * DAY_MS \<le> x + KST_OFFSET_MS \<longleftrightarrow> y \<le> (x + KST_OFFSET_MS) div DAY_MS" for x y :: int
    by (simp add: le_quotient_iff [OF DAY_MS_pos])
  have a: "a \<le> x \<longleftrightarrow> u + 1 - n \<le> getSeoulDayOrdinal x" for x
    using lo [of "u + 1 - n" x] by (simp add: ab getSeoulDayOrdinal_def algebra_simps)
  have b: "x < b \<longleftrightarrow> getSeoulDayOrdinal x \<le> u" for x
    using lo [of "u + 1" x] by (simp add: ab getSeoulDayOrdinal_def algebra_simps) linarith
  have t: "getSeoulDayOrdinal t = u" by (simp add: getSeoulDayOrdinal_def u_def)
  show ?thesis using a b t n by (auto simp: ab)
qed

lemma kst_window_is_days_witness: "(-32400000::int) \<le> 0 \<and> (0::int) < 54000000"
  using kst_window_is_days [of 0 1 "-32400000" 54000000 0]
  by (simp add: kstBoundaryToUtc_def KST_OFFSET_MS_def DAY_MS_def getSeoulDayOrdinal_def)

end
