(* ===== verification/Benefits.thy ===== *)
theory Benefits
  imports Prelude
begin

text \<open>
  The draw of limited ticket benefits of \<open>apps/api/src/modules/admin/benefit-runner.service.ts\<close>:
  \<open>selectLimitedBenefits\<close>, mutual exclusion, and the summaries of a run and of a rollback. \<open>H\<close> is SHA-256
  (hex) and \<open>lc\<close> is \<open>localeCompare\<close>; both are given by the platform. An \<open>Array.sort\<close> with a
  comparator is a stable insertion sort. Database rows and zod schemas are not modelled.
\<close>

section \<open>Configuration\<close>

record limited_benefit =
  lb_identity :: js_string
  lb_eligibleTierNames :: "js_string list"
  lb_quantity :: nat
  lb_selectionPriority :: int
  lb_mutuallyExclusiveWith :: "js_string list"

record benefit_row =
  br_identity :: js_string
  br_kind :: js_string
  br_eligibleTierNames :: "js_string list"
  br_quantity :: nat
  br_selectionPriority :: int
  br_mutualExclusionGroup :: "js_string option"

definition parseMutualExclusionGroup :: "js_string option \<Rightarrow> js_string list" where
  "parseMutualExclusionGroup grp =
     (case grp of None \<Rightarrow> [] | Some g \<Rightarrow> filter (\<lambda>v. v \<noteq> []) (map js_trim (js_split CHR '','' g)))"

text \<open>The limited branch of \<open>benefitFromRow\<close>; \<open>None\<close> for an included benefit, which is never drawn.\<close>

definition benefitFromRow :: "benefit_row \<Rightarrow> limited_benefit option" where
  "benefitFromRow r =
     (if br_kind r = ''included'' then None
      else Some \<lparr>lb_identity = br_identity r, lb_eligibleTierNames = br_eligibleTierNames r, lb_quantity = br_quantity r,
             lb_selectionPriority = br_selectionPriority r,
             lb_mutuallyExclusiveWith = parseMutualExclusionGroup (br_mutualExclusionGroup r)\<rparr>)"

record candidate =
  ca_ticketItemId :: js_string
  ca_reservationId :: js_string
  ca_buyerUserId :: js_string
  ca_tierName :: js_string

record assignment =
  as_ticketItemId :: js_string
  as_reservationId :: js_string
  as_buyerUserId :: js_string
  as_tierName :: js_string
  as_benefitIdentity :: js_string
  as_selectionPriority :: int

record benefit_summary =
  bs_benefitIdentity :: js_string
  bs_requestedQuantity :: nat
  bs_assignedCount :: nat
  bs_shortfallCount :: nat
  bs_eligibleTicketItemCount :: nat
  bs_selectionPriority :: int

section \<open>Sorting and exclusion\<close>

fun insert_by :: "('a \<Rightarrow> 'a \<Rightarrow> int) \<Rightarrow> 'a \<Rightarrow> 'a list \<Rightarrow> 'a list" where
  "insert_by cmp x [] = [x]"
| "insert_by cmp x (y # ys) = (if cmp x y \<le> 0 then x # y # ys else y # insert_by cmp x ys)"

fun sort_by :: "('a \<Rightarrow> 'a \<Rightarrow> int) \<Rightarrow> 'a list \<Rightarrow> 'a list" where
  "sort_by cmp [] = []"
| "sort_by cmp (x # xs) = insert_by cmp x (sort_by cmp xs)"

definition deterministicShuffle ::
  "(js_string \<Rightarrow> js_string) \<Rightarrow> (js_string \<Rightarrow> js_string \<Rightarrow> int) \<Rightarrow> js_string \<Rightarrow> candidate list \<Rightarrow> candidate list" where
  "deterministicShuffle H lc seed values =
     sort_by (\<lambda>l r.
        let leftHash = H (seed @ '':'' @ ca_ticketItemId l); rightHash = H (seed @ '':'' @ ca_ticketItemId r);
            c = lc leftHash rightHash
        in if c \<noteq> 0 then c else lc (ca_ticketItemId l) (ca_ticketItemId r)) values"

definition benefitsAreMutuallyExclusive :: "js_string \<Rightarrow> js_string \<Rightarrow> limited_benefit list \<Rightarrow> bool" where
  "benefitsAreMutuallyExclusive leftIdentity rightIdentity benefits =
     (if leftIdentity = rightIdentity then False
      else
        (case List.find (\<lambda>b. lb_identity b = leftIdentity) benefits of
           Some l \<Rightarrow> rightIdentity \<in> set (lb_mutuallyExclusiveWith l) | None \<Rightarrow> False)
        \<or> (case List.find (\<lambda>b. lb_identity b = rightIdentity) benefits of
           Some r \<Rightarrow> leftIdentity \<in> set (lb_mutuallyExclusiveWith r) | None \<Rightarrow> False))"

definition buyerHasMutualExclusion ::
  "js_string \<Rightarrow> limited_benefit \<Rightarrow> (js_string \<Rightarrow> js_string list) \<Rightarrow> limited_benefit list \<Rightarrow> bool" where
  "buyerHasMutualExclusion buyer b buyerWins allBenefits =
     list_ex (\<lambda>won. benefitsAreMutuallyExclusive won (lb_identity b) allBenefits) (buyerWins buyer)"

section \<open>The draw\<close>

record draw =
  dr_assignedTicketItemIds :: "js_string list"
  dr_buyerWins :: "js_string \<Rightarrow> js_string list"
  dr_assignments :: "assignment list"
  dr_summaries :: "benefit_summary list"

definition empty_draw :: draw where
  "empty_draw = \<lparr>dr_assignedTicketItemIds = [], dr_buyerWins = \<lambda>_. [], dr_assignments = [], dr_summaries = []\<rparr>"

definition award :: "limited_benefit \<Rightarrow> draw \<Rightarrow> candidate \<Rightarrow> draw" where
  "award b d c =
     d\<lparr>dr_assignedTicketItemIds := ca_ticketItemId c # dr_assignedTicketItemIds d,
       dr_buyerWins := (dr_buyerWins d)(ca_buyerUserId c := List.insert (lb_identity b) (dr_buyerWins d (ca_buyerUserId c))),
       dr_assignments := dr_assignments d @
         [\<lparr>as_ticketItemId = ca_ticketItemId c, as_reservationId = ca_reservationId c, as_buyerUserId = ca_buyerUserId c,
           as_tierName = ca_tierName c, as_benefitIdentity = lb_identity b,
           as_selectionPriority = lb_selectionPriority b\<rparr>]\<rparr>"

definition eligible_for :: "limited_benefit list \<Rightarrow> candidate list \<Rightarrow> limited_benefit \<Rightarrow> draw \<Rightarrow> candidate list" where
  "eligible_for allBenefits candidates b d =
     filter (\<lambda>c. ca_tierName c \<in> set (lb_eligibleTierNames b)
                 \<and> ca_ticketItemId c \<notin> set (dr_assignedTicketItemIds d)
                 \<and> \<not> buyerHasMutualExclusion (ca_buyerUserId c) b (dr_buyerWins d) allBenefits) candidates"

definition draw_benefit ::
  "(js_string \<Rightarrow> js_string) \<Rightarrow> (js_string \<Rightarrow> js_string \<Rightarrow> int) \<Rightarrow> js_string \<Rightarrow> limited_benefit list \<Rightarrow> candidate list
     \<Rightarrow> draw \<Rightarrow> limited_benefit \<Rightarrow> draw" where
  "draw_benefit H lc seed allBenefits candidates d b =
     (let eligible = eligible_for allBenefits candidates b d;
          selected = take (lb_quantity b) (deterministicShuffle H lc (seed @ '':'' @ lb_identity b) eligible);
          d' = foldl (award b) d selected
      in d'\<lparr>dr_summaries := dr_summaries d' @
            [\<lparr>bs_benefitIdentity = lb_identity b, bs_requestedQuantity = lb_quantity b, bs_assignedCount = length selected,
              bs_shortfallCount = lb_quantity b - length selected, bs_eligibleTicketItemCount = length eligible,
              bs_selectionPriority = lb_selectionPriority b\<rparr>]\<rparr>)"

record run_summary =
  rs_assignments :: "assignment list"
  rs_benefits :: "benefit_summary list"
  rs_totalAssignedCount :: nat
  rs_totalShortfallCount :: nat
  rs_skippedInactiveTicketItemCount :: "int option"

definition priority_order :: "(js_string \<Rightarrow> js_string \<Rightarrow> int) \<Rightarrow> limited_benefit \<Rightarrow> limited_benefit \<Rightarrow> int" where
  "priority_order lc l r =
     (if lb_selectionPriority l - lb_selectionPriority r \<noteq> 0 then lb_selectionPriority l - lb_selectionPriority r
      else lc (lb_identity l) (lb_identity r))"

definition run_draw ::
  "(js_string \<Rightarrow> js_string) \<Rightarrow> (js_string \<Rightarrow> js_string \<Rightarrow> int) \<Rightarrow> js_string \<Rightarrow> limited_benefit list \<Rightarrow> candidate list \<Rightarrow> draw" where
  "run_draw H lc seed benefits candidates =
     (let limitedBenefits = sort_by (priority_order lc) benefits
      in foldl (draw_benefit H lc seed limitedBenefits candidates) empty_draw limitedBenefits)"

definition selectLimitedBenefits ::
  "(js_string \<Rightarrow> js_string) \<Rightarrow> (js_string \<Rightarrow> js_string \<Rightarrow> int) \<Rightarrow> js_string \<Rightarrow> limited_benefit list \<Rightarrow> candidate list \<Rightarrow> run_summary" where
  "selectLimitedBenefits H lc seed benefits candidates =
     (let d = run_draw H lc seed benefits candidates
      in \<lparr>rs_assignments = dr_assignments d, rs_benefits = dr_summaries d,
          rs_totalAssignedCount = length (dr_assignments d),
          rs_totalShortfallCount = sum_list (map bs_shortfallCount (dr_summaries d)),
          rs_skippedInactiveTicketItemCount = None\<rparr>)"

section \<open>Rollback\<close>

definition summarizeAssignmentsByBenefit :: "benefit_summary list \<Rightarrow> assignment list \<Rightarrow> benefit_summary list" where
  "summarizeAssignmentsByBenefit sourceBenefits assignments =
     map (\<lambda>b. let assignedCount = length (filter (\<lambda>a. as_benefitIdentity a = bs_benefitIdentity b) assignments)
              in b\<lparr>bs_assignedCount := assignedCount, bs_shortfallCount := bs_requestedQuantity b - assignedCount\<rparr>)
       sourceBenefits"

definition buildRollbackSummary :: "run_summary \<Rightarrow> assignment list \<Rightarrow> run_summary" where
  "buildRollbackSummary sourceSummary assignments =
     (let benefits = summarizeAssignmentsByBenefit (rs_benefits sourceSummary) assignments
      in \<lparr>rs_assignments = assignments, rs_benefits = benefits, rs_totalAssignedCount = length assignments,
          rs_totalShortfallCount = sum_list (map bs_shortfallCount benefits),
          rs_skippedInactiveTicketItemCount = Some (int (length (rs_assignments sourceSummary)) - int (length assignments))\<rparr>)"

section \<open>Properties\<close>

lemma set_insert_by [simp]: "set (insert_by cmp x xs) = insert x (set xs)"
  by (induction xs) auto

lemma length_insert_by [simp]: "length (insert_by cmp x xs) = Suc (length xs)"
  by (induction xs) auto

lemma distinct_insert_by: "distinct (map f (insert_by cmp x xs)) \<longleftrightarrow> distinct (map f (x # xs))"
  by (induction xs) auto

lemma set_sort_by [simp]: "set (sort_by cmp xs) = set xs"
  by (induction xs) auto

lemma length_sort_by [simp]: "length (sort_by cmp xs) = length xs"
  by (induction xs) auto

lemma distinct_sort_by: "distinct (map f (sort_by cmp xs)) \<longleftrightarrow> distinct (map f xs)"
  by (induction xs) (auto simp: distinct_insert_by)

lemma exclusive_sym: "benefitsAreMutuallyExclusive x y bs = benefitsAreMutuallyExclusive y x bs"
  by (auto simp: benefitsAreMutuallyExclusive_def)

lemma exclusive_refl [simp]: "\<not> benefitsAreMutuallyExclusive x x bs"
  by (simp add: benefitsAreMutuallyExclusive_def)

definition assigned :: "limited_benefit \<Rightarrow> candidate \<Rightarrow> assignment" where
  "assigned b c = \<lparr>as_ticketItemId = ca_ticketItemId c, as_reservationId = ca_reservationId c, as_buyerUserId = ca_buyerUserId c,
     as_tierName = ca_tierName c, as_benefitIdentity = lb_identity b, as_selectionPriority = lb_selectionPriority b\<rparr>"

lemma foldl_award_assignments: "dr_assignments (foldl (award b) d cs) = dr_assignments d @ map (assigned b) cs"
  by (induction cs arbitrary: d) (simp_all add: award_def assigned_def)

lemma foldl_award_ids:
  "set (dr_assignedTicketItemIds (foldl (award b) d cs)) = set (dr_assignedTicketItemIds d) \<union> ca_ticketItemId ` set cs"
  by (induction cs arbitrary: d) (simp_all add: award_def)

lemma award_wins:
  "set (dr_buyerWins (award b d c) u) = set (dr_buyerWins d u) \<union> (if ca_buyerUserId c = u then {lb_identity b} else {})"
  by (simp add: award_def)

lemma foldl_award_wins:
  "set (dr_buyerWins (foldl (award b) d cs) u) =
     set (dr_buyerWins d u) \<union> (if \<exists>c \<in> set cs. ca_buyerUserId c = u then {lb_identity b} else {})"
proof (induction cs arbitrary: d)
  case (Cons c cs)
  show ?case
    unfolding foldl_Cons Cons.IH award_wins
    by (cases "ca_buyerUserId c = u"; cases "\<exists>c \<in> set cs. ca_buyerUserId c = u") simp_all
qed simp

lemma foldl_award_summaries: "dr_summaries (foldl (award b) d cs) = dr_summaries d"
  by (induction cs arbitrary: d) (simp_all add: award_def)

lemmas foldl_award = foldl_award_assignments foldl_award_ids foldl_award_wins foldl_award_summaries

definition draw_ok :: "limited_benefit list \<Rightarrow> candidate list \<Rightarrow> limited_benefit list \<Rightarrow> draw \<Rightarrow> bool" where
  "draw_ok allBenefits candidates done d \<longleftrightarrow>
     distinct (map as_ticketItemId (dr_assignments d)) \<and>
     set (dr_assignedTicketItemIds d) = as_ticketItemId ` set (dr_assignments d) \<and>
     (\<forall>u. set (dr_buyerWins d u) = as_benefitIdentity ` {a \<in> set (dr_assignments d). as_buyerUserId a = u}) \<and>
     (\<forall>a \<in> set (dr_assignments d). \<exists>b \<in> set done. \<exists>c \<in> set candidates. a = assigned b c \<and> ca_tierName c \<in> set (lb_eligibleTierNames b)) \<and>
     (\<forall>a \<in> set (dr_assignments d). \<forall>a' \<in> set (dr_assignments d). as_buyerUserId a = as_buyerUserId a' \<longrightarrow>
        \<not> benefitsAreMutuallyExclusive (as_benefitIdentity a) (as_benefitIdentity a') allBenefits) \<and>
     map bs_benefitIdentity (dr_summaries d) = map lb_identity done \<and>
     map bs_requestedQuantity (dr_summaries d) = map lb_quantity done \<and>
     (\<forall>s \<in> set (dr_summaries d).
        bs_assignedCount s = length (filter (\<lambda>a. as_benefitIdentity a = bs_benefitIdentity s) (dr_assignments d)) \<and>
        bs_assignedCount s = min (bs_requestedQuantity s) (bs_eligibleTicketItemCount s) \<and>
        bs_shortfallCount s = bs_requestedQuantity s - bs_assignedCount s)"

lemma eligible_forD:
  assumes "c \<in> set (eligible_for allBenefits candidates b d)" and "draw_ok allBenefits candidates done d"
  shows "c \<in> set candidates" "ca_tierName c \<in> set (lb_eligibleTierNames b)"
    "ca_ticketItemId c \<notin> as_ticketItemId ` set (dr_assignments d)"
    "\<And>a. a \<in> set (dr_assignments d) \<Longrightarrow> as_buyerUserId a = ca_buyerUserId c \<Longrightarrow>
       \<not> benefitsAreMutuallyExclusive (as_benefitIdentity a) (lb_identity b) allBenefits"
  using assms by (auto simp: eligible_for_def draw_ok_def buyerHasMutualExclusion_def list_ex_iff)

text \<open>What one benefit adds to the draw, with the selected candidates named.\<close>

lemma draw_benefit_effect:
  assumes "distinct (map ca_ticketItemId candidates)"
  obtains sel where
    "dr_assignments (draw_benefit H lc seed all candidates d b) = dr_assignments d @ map (assigned b) sel"
    "set (dr_assignedTicketItemIds (draw_benefit H lc seed all candidates d b)) =
       set (dr_assignedTicketItemIds d) \<union> ca_ticketItemId ` set sel"
    "\<forall>u. set (dr_buyerWins (draw_benefit H lc seed all candidates d b) u) = set (dr_buyerWins d u) \<union>
       (if \<exists>c \<in> set sel. ca_buyerUserId c = u then {lb_identity b} else {})"
    "dr_summaries (draw_benefit H lc seed all candidates d b) = dr_summaries d @
       [\<lparr>bs_benefitIdentity = lb_identity b, bs_requestedQuantity = lb_quantity b, bs_assignedCount = length sel,
         bs_shortfallCount = lb_quantity b - length sel,
         bs_eligibleTicketItemCount = length (eligible_for all candidates b d),
         bs_selectionPriority = lb_selectionPriority b\<rparr>]"
    "set sel \<subseteq> set (eligible_for all candidates b d)"
    "length sel = min (lb_quantity b) (length (eligible_for all candidates b d))"
    "distinct (map ca_ticketItemId sel)"
proof
  let ?el = "eligible_for all candidates b d"
  let ?sel = "take (lb_quantity b) (deterministicShuffle H lc (seed @ '':'' @ lb_identity b) ?el)"
  show "dr_assignments (draw_benefit H lc seed all candidates d b) = dr_assignments d @ map (assigned b) ?sel"
    "set (dr_assignedTicketItemIds (draw_benefit H lc seed all candidates d b)) =
       set (dr_assignedTicketItemIds d) \<union> ca_ticketItemId ` set ?sel"
    "\<forall>u. set (dr_buyerWins (draw_benefit H lc seed all candidates d b) u) = set (dr_buyerWins d u) \<union>
       (if \<exists>c \<in> set ?sel. ca_buyerUserId c = u then {lb_identity b} else {})"
    by (simp_all add: draw_benefit_def Let_def foldl_award)
  show "dr_summaries (draw_benefit H lc seed all candidates d b) = dr_summaries d @
       [\<lparr>bs_benefitIdentity = lb_identity b, bs_requestedQuantity = lb_quantity b, bs_assignedCount = length ?sel,
         bs_shortfallCount = lb_quantity b - length ?sel,
         bs_eligibleTicketItemCount = length ?el, bs_selectionPriority = lb_selectionPriority b\<rparr>]"
    by (simp add: draw_benefit_def Let_def foldl_award)
  show "set ?sel \<subseteq> set ?el" using set_take_subset by (fastforce simp: deterministicShuffle_def)
  show "length ?sel = min (lb_quantity b) (length ?el)" by (simp add: deterministicShuffle_def)
  have "distinct (map ca_ticketItemId ?el)" using assms by (simp add: eligible_for_def distinct_map_filter)
  then show "distinct (map ca_ticketItemId ?sel)"
    by (simp add: deterministicShuffle_def distinct_sort_by flip: take_map)
qed

lemma wins_image:
  "(if \<exists>c \<in> set sel. ca_buyerUserId c = u then {lb_identity b} else {}) =
   as_benefitIdentity ` {a \<in> assigned b ` set sel. as_buyerUserId a = u}"
proof -
  have "{a \<in> assigned b ` set sel. as_buyerUserId a = u} = assigned b ` {c \<in> set sel. ca_buyerUserId c = u}"
    by (auto simp: assigned_def)
  then have "as_benefitIdentity ` {a \<in> assigned b ` set sel. as_buyerUserId a = u} =
      (\<lambda>_. lb_identity b) ` {c \<in> set sel. ca_buyerUserId c = u}"
    by (simp add: image_image assigned_def)
  then show ?thesis by auto
qed

lemma ball_snoc: "\<forall>x \<in> set xs. P x \<Longrightarrow> P y \<Longrightarrow> \<forall>x \<in> set (xs @ [y]). P x"
  by auto

lemma exclusion_extends:
  assumes "\<And>a a'. a \<in> set A \<Longrightarrow> a' \<in> set A \<Longrightarrow> as_buyerUserId a = as_buyerUserId a' \<Longrightarrow>
        \<not> benefitsAreMutuallyExclusive (as_benefitIdentity a) (as_benefitIdentity a') bs"
    and "\<And>a a'. a \<in> set A \<Longrightarrow> a' \<in> f ` S \<Longrightarrow> as_buyerUserId a = as_buyerUserId a' \<Longrightarrow>
        \<not> benefitsAreMutuallyExclusive (as_benefitIdentity a) i bs"
    and "\<And>a. a \<in> f ` S \<Longrightarrow> as_benefitIdentity a = i"
    and "a \<in> set (A @ map f sel)" "a' \<in> set (A @ map f sel)" "as_buyerUserId a = as_buyerUserId a'" "S = set sel"
  shows "\<not> benefitsAreMutuallyExclusive (as_benefitIdentity a) (as_benefitIdentity a') bs"
proof (cases "a \<in> set A")
  case True
  then show ?thesis using assms(1) [of a a'] assms(2) [of a a'] assms(3) [of a'] assms(4-7) by auto
next
  case False
  then have a: "a \<in> f ` S" using assms(4,7) by auto
  show ?thesis
  proof (cases "a' \<in> set A")
    case True
    from assms(2) [OF True a] assms(6) assms(3) [OF a] show ?thesis
      by (simp add: exclusive_sym [of i])
  next
    case False
    then have "a' \<in> f ` S" using assms(5,7) by auto
    with assms(3) a show ?thesis by simp
  qed
qed

lemma draw_benefit_ok:
  assumes ok: "draw_ok allBenefits candidates done d" and dc: "distinct (map ca_ticketItemId candidates)"
    and new: "lb_identity b \<notin> lb_identity ` set done"
  shows "draw_ok allBenefits candidates (done @ [b]) (draw_benefit H lc seed allBenefits candidates d b)"
proof -
  obtain sel where e:
    "dr_assignments (draw_benefit H lc seed allBenefits candidates d b) = dr_assignments d @ map (assigned b) sel"
    "set (dr_assignedTicketItemIds (draw_benefit H lc seed allBenefits candidates d b)) =
       set (dr_assignedTicketItemIds d) \<union> ca_ticketItemId ` set sel"
    "\<forall>u. set (dr_buyerWins (draw_benefit H lc seed allBenefits candidates d b) u) = set (dr_buyerWins d u) \<union>
       (if \<exists>c \<in> set sel. ca_buyerUserId c = u then {lb_identity b} else {})"
    "dr_summaries (draw_benefit H lc seed allBenefits candidates d b) = dr_summaries d @
       [\<lparr>bs_benefitIdentity = lb_identity b, bs_requestedQuantity = lb_quantity b, bs_assignedCount = length sel,
         bs_shortfallCount = lb_quantity b - length sel,
         bs_eligibleTicketItemCount = length (eligible_for allBenefits candidates b d),
         bs_selectionPriority = lb_selectionPriority b\<rparr>]"
    and sub: "set sel \<subseteq> set (eligible_for allBenefits candidates b d)"
    and len: "length sel = min (lb_quantity b) (length (eligible_for allBenefits candidates b d))"
    and dsel: "distinct (map ca_ticketItemId sel)"
    by (rule draw_benefit_effect [OF dc, of H lc seed allBenefits d b])
  note el = eligible_forD [OF subsetD [OF sub] ok]
  define A where "A = dr_assignments d"
  have A: "distinct (map as_ticketItemId A)" "set (dr_assignedTicketItemIds d) = as_ticketItemId ` set A"
    "\<And>u. set (dr_buyerWins d u) = as_benefitIdentity ` {a \<in> set A. as_buyerUserId a = u}"
    "\<And>a. a \<in> set A \<Longrightarrow> \<exists>b \<in> set done. \<exists>c \<in> set candidates. a = assigned b c \<and> ca_tierName c \<in> set (lb_eligibleTierNames b)"
    "\<And>a a'. a \<in> set A \<Longrightarrow> a' \<in> set A \<Longrightarrow> as_buyerUserId a = as_buyerUserId a' \<Longrightarrow>
        \<not> benefitsAreMutuallyExclusive (as_benefitIdentity a) (as_benefitIdentity a') allBenefits"
    "map bs_benefitIdentity (dr_summaries d) = map lb_identity done"
    "map bs_requestedQuantity (dr_summaries d) = map lb_quantity done"
    "\<And>s. s \<in> set (dr_summaries d) \<Longrightarrow>
        bs_assignedCount s = length (filter (\<lambda>a. as_benefitIdentity a = bs_benefitIdentity s) A) \<and>
        bs_assignedCount s = min (bs_requestedQuantity s) (bs_eligibleTicketItemCount s) \<and>
        bs_shortfallCount s = bs_requestedQuantity s - bs_assignedCount s"
    using ok unfolding draw_ok_def A_def by blast+
  have idmap: "map as_ticketItemId (map (assigned b) sel) = map ca_ticketItemId sel" by (simp add: assigned_def comp_def)
  have disj: "as_ticketItemId ` set A \<inter> ca_ticketItemId ` set sel = {}" proof -
    have "x \<notin> as_ticketItemId ` set A" if "x \<in> ca_ticketItemId ` set sel" for x
      using that el(3) unfolding A_def by (elim imageE) simp
    then show ?thesis by blast
  qed
  have old: "as_benefitIdentity a \<noteq> lb_identity b" if "a \<in> set A" for a
  proof -
    from A(4) [OF that] obtain b' c where "b' \<in> set done" "a = assigned b' c" by blast
    then have "as_benefitIdentity a \<in> lb_identity ` set done" by (simp add: assigned_def)
    then show ?thesis using new by auto
  qed
  have from_sel: "as_benefitIdentity a = lb_identity b" if "a \<in> assigned b ` set sel" for a
    using that by (auto simp: assigned_def)
  have excl: "\<not> benefitsAreMutuallyExclusive (as_benefitIdentity a) (lb_identity b) allBenefits"
    if "a \<in> set A" "a' \<in> assigned b ` set sel" "as_buyerUserId a = as_buyerUserId a'" for a a'
  proof -
    from that(2) obtain c where c: "c \<in> set sel" "a' = assigned b c" by blast
    then show ?thesis using el(4) [OF c(1), of a] that(1,3) by (simp add: A_def assigned_def)
  qed
  have P1: "distinct (map as_ticketItemId (A @ map (assigned b) sel))"
    unfolding map_append idmap distinct_append using A(1) dsel disj by simp
  have P2: "as_ticketItemId ` set A \<union> ca_ticketItemId ` set sel = as_ticketItemId ` set (A @ map (assigned b) sel)"
    by (simp add: image_Un image_image assigned_def)
  have P3: "as_benefitIdentity ` {a \<in> set A. as_buyerUserId a = u} \<union>
      as_benefitIdentity ` {a \<in> assigned b ` set sel. as_buyerUserId a = u} =
      as_benefitIdentity ` {a \<in> set (A @ map (assigned b) sel). as_buyerUserId a = u}" for u
    unfolding image_Un [symmetric] by (rule arg_cong [where f = "image as_benefitIdentity"]) auto
  have P4: "\<exists>b' \<in> set (done @ [b]). \<exists>c \<in> set candidates. a = assigned b' c \<and> ca_tierName c \<in> set (lb_eligibleTierNames b')"
    if "a \<in> set (A @ map (assigned b) sel)" for a
  proof (cases "a \<in> set A")
    case True
    from A(4) [OF this] show ?thesis by auto
  next
    case False
    with that obtain c where "c \<in> set sel" "a = assigned b c" by auto
    with el(1,2) show ?thesis by auto
  qed
  have P5: "\<not> benefitsAreMutuallyExclusive (as_benefitIdentity a) (as_benefitIdentity a') allBenefits"
    if "a \<in> set (A @ map (assigned b) sel)" "a' \<in> set (A @ map (assigned b) sel)" "as_buyerUserId a = as_buyerUserId a'" for a a'
    by (rule exclusion_extends [OF A(5) excl from_sel that refl])
  have P6: "bs_assignedCount s = length (filter (\<lambda>a. as_benefitIdentity a = bs_benefitIdentity s) (A @ map (assigned b) sel))"
    if "s \<in> set (dr_summaries d)" for s
  proof -
    have "bs_benefitIdentity s \<in> lb_identity ` set done" using that A(6) by (metis image_eqI set_map)
    then have "bs_benefitIdentity s \<noteq> lb_identity b" using new by auto
    then have "filter (\<lambda>a. as_benefitIdentity a = bs_benefitIdentity s) (map (assigned b) sel) = []"
      by (auto simp: filter_empty_conv assigned_def)
    with A(8) [OF that] show ?thesis by simp
  qed
  have P7: "length sel = length (filter (\<lambda>a. as_benefitIdentity a = lb_identity b) (A @ map (assigned b) sel))"
  proof -
    have "filter (\<lambda>a. as_benefitIdentity a = lb_identity b) A = []" using old by (simp add: filter_empty_conv)
    moreover have "filter (\<lambda>a. as_benefitIdentity a = lb_identity b) (map (assigned b) sel) = map (assigned b) sel"
      by (auto simp: assigned_def intro: filter_True)
    ultimately show ?thesis by simp
  qed
  show ?thesis
    unfolding draw_ok_def e(1,2,4) e(3) [rule_format] wins_image A(2,3) A_def [symmetric] P2 P3
  proof (intro conjI)
    let ?new = "\<lparr>bs_benefitIdentity = lb_identity b, bs_requestedQuantity = lb_quantity b, bs_assignedCount = length sel,
         bs_shortfallCount = lb_quantity b - length sel,
         bs_eligibleTicketItemCount = length (eligible_for allBenefits candidates b d),
         bs_selectionPriority = lb_selectionPriority b\<rparr>"
    let ?ok = "\<lambda>s. bs_assignedCount s = length (filter (\<lambda>a. as_benefitIdentity a = bs_benefitIdentity s) (A @ map (assigned b) sel)) \<and>
        bs_assignedCount s = min (bs_requestedQuantity s) (bs_eligibleTicketItemCount s) \<and>
        bs_shortfallCount s = bs_requestedQuantity s - bs_assignedCount s"
    have "?ok ?new"
      unfolding benefit_summary.simps by (intro conjI P7 len refl)
    then show "\<forall>s \<in> set (dr_summaries d @ [?new]). ?ok s"
    proof (rule ball_snoc [rotated])
      show "\<forall>s \<in> set (dr_summaries d). ?ok s" using P6 A(8) by blast
    qed
    show "map bs_benefitIdentity (dr_summaries d @ [?new]) = map lb_identity (done @ [b])"
      "map bs_requestedQuantity (dr_summaries d @ [?new]) = map lb_quantity (done @ [b])"
      using A(6,7) by simp_all
  qed (intro allI ballI impI refl P1 P4 P5; assumption)+
qed

lemma draw_all_ok:
  assumes "distinct (map ca_ticketItemId candidates)"
  shows "draw_ok allBenefits candidates done d \<Longrightarrow> distinct (map lb_identity (done @ bs)) \<Longrightarrow>
    draw_ok allBenefits candidates (done @ bs) (foldl (draw_benefit H lc seed allBenefits candidates) d bs)"
proof (induction bs arbitrary: d "done")
  case (Cons b bs)
  have "draw_ok allBenefits candidates (done @ [b]) (draw_benefit H lc seed allBenefits candidates d b)"
    by (rule draw_benefit_ok [OF Cons.prems(1) assms]) (use Cons.prems(2) in auto)
  from Cons.IH [OF this] Cons.prems(2) show ?case by simp
qed simp

lemma run_draw_ok:
  assumes "distinct (map ca_ticketItemId candidates)" and "distinct (map lb_identity benefits)"
  shows "draw_ok (sort_by (priority_order lc) benefits) candidates (sort_by (priority_order lc) benefits)
    (run_draw H lc seed benefits candidates)"
proof -
  have "draw_ok B candidates [] empty_draw" for B by (simp add: draw_ok_def empty_draw_def)
  from draw_all_ok [OF assms(1) this, of "sort_by (priority_order lc) benefits"] assms(2)
  show ?thesis by (simp add: run_draw_def Let_def distinct_sort_by)
qed

text \<open>C33: In the draw of limited benefits no ticket receives two of them, every winner is a candidate of an
  eligible tier, and no buyer wins two benefits that exclude each other, whichever of the two lists
  the other and in whatever order they are drawn.\<close>
theorem draw_respects_rules:
  assumes "distinct (map ca_ticketItemId candidates)" and "distinct (map lb_identity benefits)"
    and "r = selectLimitedBenefits H lc seed benefits candidates"
  shows "distinct (map as_ticketItemId (rs_assignments r)) \<and>
    (\<forall>a \<in> set (rs_assignments r). \<exists>b \<in> set benefits. \<exists>c \<in> set candidates. a = assigned b c \<and>
       ca_tierName c \<in> set (lb_eligibleTierNames b)) \<and>
    (\<forall>a \<in> set (rs_assignments r). \<forall>a' \<in> set (rs_assignments r). as_buyerUserId a = as_buyerUserId a' \<longrightarrow>
       \<not> benefitsAreMutuallyExclusive (as_benefitIdentity a) (as_benefitIdentity a') (sort_by (priority_order lc) benefits))"
  using run_draw_ok [OF assms(1,2), of lc H seed] assms(3)
  by (simp add: draw_ok_def selectLimitedBenefits_def Let_def)

definition demo_benefits :: "limited_benefit list" where
  "demo_benefits =
    [\<lparr>lb_identity = ''photo'', lb_eligibleTierNames = [''VIP''], lb_quantity = 1, lb_selectionPriority = 2, lb_mutuallyExclusiveWith = [''meet'']\<rparr>,
     \<lparr>lb_identity = ''meet'', lb_eligibleTierNames = [''VIP''], lb_quantity = 1, lb_selectionPriority = 1, lb_mutuallyExclusiveWith = []\<rparr>]"

definition demo_candidates :: "candidate list" where
  "demo_candidates =
    [\<lparr>ca_ticketItemId = ''t1'', ca_reservationId = ''r1'', ca_buyerUserId = ''u1'', ca_tierName = ''VIP''\<rparr>,
     \<lparr>ca_ticketItemId = ''t2'', ca_reservationId = ''r1'', ca_buyerUserId = ''u1'', ca_tierName = ''VIP''\<rparr>]"

lemma demo_distinct: "distinct (map ca_ticketItemId demo_candidates)" "distinct (map lb_identity demo_benefits)"
  by (simp_all add: demo_candidates_def demo_benefits_def)

lemma draw_respects_rules_witness:
  "distinct (map as_ticketItemId (rs_assignments (selectLimitedBenefits (\<lambda>x. x) (\<lambda>_ _. 0) ''s'' demo_benefits demo_candidates)))"
  using draw_respects_rules [OF demo_distinct refl] by blast

text \<open>Every benefit is drawn in full: it goes to as many tickets as its quantity allows or as were eligible,
  the reported counts are the counts of the assignments and the shortfall is what is missing; and
  summarising the run again from its own assignments, as a rollback does, changes nothing.\<close>
theorem draw_is_exhaustive:
  assumes "distinct (map ca_ticketItemId candidates)" and "distinct (map lb_identity benefits)"
    and "r = selectLimitedBenefits H lc seed benefits candidates"
  shows "(\<forall>s \<in> set (rs_benefits r). bs_assignedCount s = min (bs_requestedQuantity s) (bs_eligibleTicketItemCount s) \<and>
      bs_shortfallCount s = bs_requestedQuantity s - bs_assignedCount s) \<and>
    map bs_benefitIdentity (rs_benefits r) = map lb_identity (sort_by (priority_order lc) benefits) \<and>
    summarizeAssignmentsByBenefit (rs_benefits r) (rs_assignments r) = rs_benefits r \<and>
    rs_totalShortfallCount (buildRollbackSummary r (rs_assignments r)) = rs_totalShortfallCount r"
proof -
  let ?d = "run_draw H lc seed benefits candidates"
  have ok: "draw_ok (sort_by (priority_order lc) benefits) candidates (sort_by (priority_order lc) benefits) ?d"
    by (rule run_draw_ok [OF assms(1,2)])
  have fields: "rs_assignments r = dr_assignments ?d" "rs_benefits r = dr_summaries ?d"
    "rs_totalShortfallCount r = sum_list (map bs_shortfallCount (dr_summaries ?d))"
    by (simp_all add: assms(3) selectLimitedBenefits_def Let_def)
  have s: "s\<lparr>bs_assignedCount := length (filter (\<lambda>a. as_benefitIdentity a = bs_benefitIdentity s) (dr_assignments ?d)),
       bs_shortfallCount := bs_requestedQuantity s - length (filter (\<lambda>a. as_benefitIdentity a = bs_benefitIdentity s) (dr_assignments ?d))\<rparr> = s"
    if "s \<in> set (dr_summaries ?d)" for s :: benefit_summary
  proof -
    have 1: "length (filter (\<lambda>a. as_benefitIdentity a = bs_benefitIdentity s) (dr_assignments ?d)) = bs_assignedCount s"
      and 2: "bs_requestedQuantity s - bs_assignedCount s = bs_shortfallCount s"
      using ok that by (auto simp: draw_ok_def)
    show ?thesis unfolding 1 2 by simp
  qed
  have again: "summarizeAssignmentsByBenefit (rs_benefits r) (rs_assignments r) = rs_benefits r"
    using s by (simp add: summarizeAssignmentsByBenefit_def fields Let_def map_idI)
  then have "rs_totalShortfallCount (buildRollbackSummary r (rs_assignments r)) = rs_totalShortfallCount r"
    by (simp add: buildRollbackSummary_def Let_def fields)
  moreover have "\<forall>s \<in> set (rs_benefits r). bs_assignedCount s = min (bs_requestedQuantity s) (bs_eligibleTicketItemCount s) \<and>
      bs_shortfallCount s = bs_requestedQuantity s - bs_assignedCount s"
    "map bs_benefitIdentity (rs_benefits r) = map lb_identity (sort_by (priority_order lc) benefits)"
    using ok unfolding draw_ok_def fields by blast+
  ultimately show ?thesis using again by blast
qed

lemma draw_is_exhaustive_witness:
  "map bs_benefitIdentity (rs_benefits (selectLimitedBenefits (\<lambda>x. x) (\<lambda>_ _. 0) ''s'' demo_benefits demo_candidates)) = [''meet'', ''photo'']"
  using draw_is_exhaustive [OF demo_distinct refl, of "\<lambda>x. x" "\<lambda>_ _. 0" "''s''"]
  by (simp add: demo_benefits_def priority_order_def)

end
