(* ===== verification/Effects.thy ===== *)
theory Effects
  imports Prelude
begin

text \<open>
  Asynchronous code with exceptions. A call is a function of the world that returns an error (\<open>Inl\<close>, a
  rejected promise) or a value (\<open>Inr\<close>) and the world it leaves; \<open>await\<close> and \<open>;\<close> are \<open>bnd\<close>, \<open>try/catch\<close> is
  \<open>handle\<close> and \<open>try/finally\<close> is \<open>always\<close>. \<open>wp p Q E w\<close> says that \<open>p\<close>, started in \<open>w\<close>, ends with a value that
  satisfies \<open>Q\<close> or an error that satisfies \<open>E\<close>, together with the world it leaves.
\<close>

type_synonym ('w, 'e, 'a) prog = "'w \<Rightarrow> ('e + 'a) \<times> 'w"

definition ret :: "'a \<Rightarrow> ('w, 'e, 'a) prog" where
  "ret x w = (Inr x, w)"

definition raise :: "'e \<Rightarrow> ('w, 'e, 'a) prog" where
  "raise e w = (Inl e, w)"

definition bnd :: "('w, 'e, 'a) prog \<Rightarrow> ('a \<Rightarrow> ('w, 'e, 'b) prog) \<Rightarrow> ('w, 'e, 'b) prog" where
  "bnd p f w = (case p w of (Inl e, w1) \<Rightarrow> (Inl e, w1) | (Inr x, w1) \<Rightarrow> f x w1)"

definition handle :: "('w, 'e, 'a) prog \<Rightarrow> ('e \<Rightarrow> ('w, 'e, 'a) prog) \<Rightarrow> ('w, 'e, 'a) prog" where
  "handle p h w = (case p w of (Inl e, w1) \<Rightarrow> h e w1 | (Inr x, w1) \<Rightarrow> (Inr x, w1))"

text \<open>\<open>c\<close> runs whether or not \<open>p\<close> failed; its own failure replaces the result.\<close>

definition always :: "('w, 'e, 'a) prog \<Rightarrow> ('w, 'e, unit) prog \<Rightarrow> ('w, 'e, 'a) prog" where
  "always p c w = (case p w of (r, w1) \<Rightarrow> (case c w1 of (Inl e, w2) \<Rightarrow> (Inl e, w2) | (Inr u, w2) \<Rightarrow> (r, w2)))"

text \<open>The outcome of \<open>p\<close> as a value: a \<open>try\<close> whose error is inspected afterwards.\<close>

definition outcome_of :: "('w, 'e, 'a) prog \<Rightarrow> ('w, 'e, 'e + 'a) prog" where
  "outcome_of p w = (case p w of (r, w1) \<Rightarrow> (Inr r, w1))"

definition pure :: "('e + 'a) \<Rightarrow> ('w, 'e, 'a) prog" where
  "pure r w = (r, w)"

definition inspect :: "('w \<Rightarrow> 'a) \<Rightarrow> ('w, 'e, 'a) prog" where
  "inspect f w = (Inr (f w), w)"

definition alter :: "('w \<Rightarrow> 'w) \<Rightarrow> ('w, 'e, unit) prog" where
  "alter f w = (Inr (), f w)"

definition reject_if :: "bool \<Rightarrow> 'e \<Rightarrow> ('w, 'e, unit) prog" where
  "reject_if c e = (if c then raise e else ret ())"

section \<open>Preconditions of calls\<close>

definition wp :: "('w, 'e, 'a) prog \<Rightarrow> ('a \<Rightarrow> 'w \<Rightarrow> bool) \<Rightarrow> ('e \<Rightarrow> 'w \<Rightarrow> bool) \<Rightarrow> 'w \<Rightarrow> bool" where
  "wp p Q E w = (case p w of (Inr x, w1) \<Rightarrow> Q x w1 | (Inl e, w1) \<Rightarrow> E e w1)"

named_theorems wp_eqs "preconditions of the combinators"

lemma wp_ret [wp_eqs]: "wp (ret x) Q E = Q x"
  by (rule ext) (simp add: wp_def ret_def)

lemma wp_raise [wp_eqs]: "wp (raise e) Q E = E e"
  by (rule ext) (simp add: wp_def raise_def)

lemma wp_bnd [wp_eqs]: "wp (bnd p f) Q E = wp p (\<lambda>x. wp (f x) Q E) E"
  by (rule ext) (simp add: wp_def bnd_def split: prod.splits sum.splits)

lemma wp_handle [wp_eqs]: "wp (handle p h) Q E = wp p Q (\<lambda>e. wp (h e) Q E)"
  by (rule ext) (simp add: wp_def handle_def split: prod.splits sum.splits)

lemma wp_always [wp_eqs]: "wp (always p c) Q E = wp p (\<lambda>x. wp c (\<lambda>_. Q x) E) (\<lambda>e. wp c (\<lambda>_. E e) E)"
  by (rule ext) (simp add: wp_def always_def split: prod.splits sum.splits)

lemma wp_outcome_of [wp_eqs]: "wp (outcome_of p) Q E = wp p (\<lambda>x. Q (Inr x)) (\<lambda>e. Q (Inl e))"
  by (rule ext) (simp add: wp_def outcome_of_def split: prod.splits sum.splits)

lemma wp_pure [wp_eqs]: "wp (pure r) Q E = (case r of Inr x \<Rightarrow> Q x | Inl e \<Rightarrow> E e)"
  by (rule ext) (simp add: wp_def pure_def split: sum.splits)

lemma wp_inspect [wp_eqs]: "wp (inspect f) Q E = (\<lambda>w. Q (f w) w)"
  by (rule ext) (simp add: wp_def inspect_def)

lemma wp_alter [wp_eqs]: "wp (alter f) Q E = (\<lambda>w. Q () (f w))"
  by (rule ext) (simp add: wp_def alter_def)

lemma wp_reject_if [wp_eqs]: "wp (reject_if c e) Q E = (if c then E e else Q ())"
  by (simp add: reject_if_def wp_ret wp_raise)

lemma wp_if [wp_eqs]: "wp (if c then p else q) Q E = (if c then wp p Q E else wp q Q E)"
  by simp

lemma wp_result: "wp p Q E w \<Longrightarrow> p w = (r, w1) \<Longrightarrow> (case r of Inr x \<Rightarrow> Q x w1 | Inl e \<Rightarrow> E e w1)"
  by (simp add: wp_def split: sum.splits)

lemma wp_mono:
  assumes "wp p Q E w" and "\<And>x w1. Q x w1 \<Longrightarrow> Q1 x w1" and "\<And>e w1. E e w1 \<Longrightarrow> E1 e w1"
  shows "wp p Q1 E1 w"
  using assms by (auto simp: wp_def split: prod.splits sum.splits)

lemma wp_both: "wp p Q E w \<Longrightarrow> wp p Q1 E1 w \<Longrightarrow> wp p (\<lambda>x w1. Q x w1 \<and> Q1 x w1) (\<lambda>e w1. E e w1 \<and> E1 e w1) w"
  by (simp add: wp_def split: prod.splits sum.splits)

end
