(* ===== verification/DbErrors.thy ===== *)
theory DbErrors
  imports Prelude
begin

text \<open>
  Database errors: \<open>apps/api/src/database/transient-db-error.ts\<close> and \<open>seat-ownership.ts\<close>. An error is the
  chain of itself and its causes, each with the fields that the code reads.
\<close>

record error_link =
  el_code :: "js_string option"
  el_message :: "js_string option"
  el_constraint :: "js_string option"

type_synonym db_error = "error_link list"

definition TRANSIENT_SQLSTATES :: "js_string list" where
  "TRANSIENT_SQLSTATES = [''40001'', ''40P01'', ''55P03'', ''57014'', ''57P01'', ''57P02'', ''57P03'', ''53300'',
     ''08000'', ''08001'', ''08003'', ''08004'', ''08006'']"

definition TRANSIENT_NODE_ERROR_CODES :: "js_string list" where
  "TRANSIENT_NODE_ERROR_CODES = [''ECONNRESET'', ''ECONNREFUSED'', ''ETIMEDOUT'', ''EPIPE'', ''EAI_AGAIN'']"

definition TRANSIENT_MESSAGE_FRAGMENTS :: "js_string list" where
  "TRANSIENT_MESSAGE_FRAGMENTS =
     [''timeout exceeded when trying to connect'', ''connection terminated unexpectedly'',
      ''connection terminated due to connection timeout'',
      ''client has encountered a connection error and is not queryable'']"

definition CONNECTION_LOSS_SQLSTATES :: "js_string list" where
  "CONNECTION_LOSS_SQLSTATES = [''57P01'', ''57P02'', ''08000'', ''08003'', ''08006'']"

definition CONNECTION_LOSS_NODE_ERROR_CODES :: "js_string list" where
  "CONNECTION_LOSS_NODE_ERROR_CODES = [''ECONNRESET'', ''ETIMEDOUT'', ''EPIPE'']"

definition CONNECTION_LOSS_MESSAGE_FRAGMENTS :: "js_string list" where
  "CONNECTION_LOSS_MESSAGE_FRAGMENTS =
     [''connection terminated unexpectedly'', ''client has encountered a connection error and is not queryable'']"

definition MAX_CAUSE_DEPTH :: nat where "MAX_CAUSE_DEPTH = 4"

text \<open>\<open>s.js_includes(fragment)\<close>\<close>

fun js_includes :: "js_string \<Rightarrow> js_string \<Rightarrow> bool" where
  "js_includes fragment [] = (fragment = [])"
| "js_includes fragment (c # s) = (prefix fragment (c # s) \<or> js_includes fragment s)"

definition link_matches :: "js_string list \<Rightarrow> js_string list \<Rightarrow> error_link \<Rightarrow> bool" where
  "link_matches codes fragments l =
     ((case el_code l of None \<Rightarrow> False | Some c \<Rightarrow> c \<in> set codes)
      \<or> (case el_message l of None \<Rightarrow> False | Some m \<Rightarrow> list_ex (\<lambda>f. js_includes f (js_lower m)) fragments))"

definition matchesErrorChain :: "db_error \<Rightarrow> js_string list \<Rightarrow> js_string list \<Rightarrow> bool" where
  "matchesErrorChain e codes fragments = list_ex (link_matches codes fragments) (take MAX_CAUSE_DEPTH e)"

definition isTransientDatabaseError :: "db_error \<Rightarrow> bool" where
  "isTransientDatabaseError e =
     matchesErrorChain e (TRANSIENT_SQLSTATES @ TRANSIENT_NODE_ERROR_CODES) TRANSIENT_MESSAGE_FRAGMENTS"

definition isConnectionLossDatabaseError :: "db_error \<Rightarrow> bool" where
  "isConnectionLossDatabaseError e =
     matchesErrorChain e (CONNECTION_LOSS_SQLSTATES @ CONNECTION_LOSS_NODE_ERROR_CODES) CONNECTION_LOSS_MESSAGE_FRAGMENTS"

definition ACTIVE_TICKET_ITEM_STATUSES :: "js_string list" where
  "ACTIVE_TICKET_ITEM_STATUSES = [''active'', ''cancellation_pending'']"

definition ACTIVE_SEAT_UNIQUE_INDEX :: js_string where
  "ACTIVE_SEAT_UNIQUE_INDEX = ''uq_ticket_items_active_seat''"

definition isActiveSeatUniqueViolation :: "db_error \<Rightarrow> bool" where
  "isActiveSeatUniqueViolation e =
     list_ex (\<lambda>l. el_code l = Some ''23505'' \<and> el_constraint l = Some ACTIVE_SEAT_UNIQUE_INDEX) (take 3 e)"

lemma link_matches_mono:
  assumes "set codes \<subseteq> set codes1" and "set fragments \<subseteq> set fragments1" and "link_matches codes fragments l"
  shows "link_matches codes1 fragments1 l"
  using assms(3) subsetD [OF assms(1)] subsetD [OF assms(2)]
  by (simp add: link_matches_def list_ex_iff split: option.splits) blast+

lemma matchesErrorChain_mono:
  assumes "set codes \<subseteq> set codes1" and "set fragments \<subseteq> set fragments1" and "matchesErrorChain e codes fragments"
  shows "matchesErrorChain e codes1 fragments1"
  using assms(3) link_matches_mono [OF assms(1,2)] unfolding matchesErrorChain_def list_ex_iff by blast

text \<open>A failure after which the transaction may have committed is always one that is retried.\<close>

lemma connection_loss_is_transient:
  assumes "isConnectionLossDatabaseError e"
  shows "isTransientDatabaseError e"
proof -
  have codes: "set (CONNECTION_LOSS_SQLSTATES @ CONNECTION_LOSS_NODE_ERROR_CODES) \<subseteq>
      set (TRANSIENT_SQLSTATES @ TRANSIENT_NODE_ERROR_CODES)"
    by (simp add: CONNECTION_LOSS_SQLSTATES_def CONNECTION_LOSS_NODE_ERROR_CODES_def TRANSIENT_SQLSTATES_def
        TRANSIENT_NODE_ERROR_CODES_def)
  have fragments: "set CONNECTION_LOSS_MESSAGE_FRAGMENTS \<subseteq> set TRANSIENT_MESSAGE_FRAGMENTS"
    by (simp add: CONNECTION_LOSS_MESSAGE_FRAGMENTS_def TRANSIENT_MESSAGE_FRAGMENTS_def)
  from matchesErrorChain_mono [OF codes fragments] assms show ?thesis
    by (simp add: isConnectionLossDatabaseError_def isTransientDatabaseError_def)
qed

end
