(* ===== verification/PaymentMethods.thy ===== *)
theory PaymentMethods
  imports CancelPolicy
begin

text \<open>
  Payment methods: \<open>packages/shared/src/checkout-payment-method.ts\<close>,
  \<open>apps/api/src/modules/payment/payment-method-policy.ts\<close>, \<open>payment-handoff-policy.ts\<close>,
  \<open>payment-failure-diagnostic.ts\<close> and the routes of \<open>reservation-finalization.service.ts\<close>: which
  method the buyer checked out with, which one the provider says it approved, and which ones the performance
  allows. Text is a list of UTF-8 bytes; the Korean labels are given by theirs.
\<close>

section \<open>The checkout method\<close>

record payment_method =
  pm_method :: js_string
  pm_provider :: js_string
  pm_currency :: "js_string option"
  pm_consentRequired :: "bool option"

definition CHECKOUT_CONFIGURABLE_PAYMENT_METHODS :: "js_string list" where
  "CHECKOUT_CONFIGURABLE_PAYMENT_METHODS = [''CARD'', ''TRANSFER'', ''SIMPLE_PAY'', ''FOREIGN_EASY_PAY'']"

definition isForeignCheckout :: "payment_method \<Rightarrow> bool" where
  "isForeignCheckout m \<longleftrightarrow> pm_method m = ''FOREIGN_EASY_PAY''
     \<or> pm_method m = ''CARD'' \<and> pm_currency m = Some ''USD'' \<or> pm_consentRequired m = Some True"

definition checkout_currency :: "payment_method \<Rightarrow> js_string" where
  "checkout_currency m = or_else (pm_currency m) (if isForeignCheckout m then ''USD'' else ''KRW'')"

definition isSameCheckoutPaymentMethod :: "payment_method \<Rightarrow> payment_method \<Rightarrow> bool" where
  "isSameCheckoutPaymentMethod a b \<longleftrightarrow> pm_method a = pm_method b \<and> pm_provider a = pm_provider b
     \<and> checkout_currency a = checkout_currency b \<and> isForeignCheckout a = isForeignCheckout b"

definition isCheckoutConfigurablePaymentMethod :: "js_string \<Rightarrow> bool" where
  "isCheckoutConfigurablePaymentMethod m \<longleftrightarrow> m \<in> set CHECKOUT_CONFIGURABLE_PAYMENT_METHODS"

definition isCheckoutPaymentMethodAllowed :: "js_string \<Rightarrow> js_string list \<Rightarrow> bool" where
  "isCheckoutPaymentMethodAllowed m allowed \<longleftrightarrow> isCheckoutConfigurablePaymentMethod m \<and> m \<in> set allowed"

definition ASYNC_APPROVAL_FOREIGN_EASY_PAY_PROVIDERS :: "js_string list" where
  "ASYNC_APPROVAL_FOREIGN_EASY_PAY_PROVIDERS = [''ALIPAY_PLUS'', ''TRUEMONEY'']"

definition isAsyncApprovalForeignEasyPayProvider :: "js_string option \<Rightarrow> bool" where
  "isAsyncApprovalForeignEasyPayProvider p =
     (case p of None \<Rightarrow> False | Some x \<Rightarrow> x \<in> set ASYNC_APPROVAL_FOREIGN_EASY_PAY_PROVIDERS)"

definition isMerchantConfirmedCheckoutMethod :: "payment_method \<Rightarrow> bool" where
  "isMerchantConfirmedCheckoutMethod m \<longleftrightarrow>
     \<not> (pm_method m = ''FOREIGN_EASY_PAY'' \<and> isAsyncApprovalForeignEasyPayProvider (Some (pm_provider m)))"

definition isPaypalCheckoutMethod :: "payment_method option \<Rightarrow> bool" where
  "isPaypalCheckoutMethod m =
     (case m of None \<Rightarrow> False | Some m \<Rightarrow> pm_method m = ''FOREIGN_EASY_PAY'' \<and> pm_provider m = ''PAYPAL'')"

definition isOverseasCardCheckoutMethod :: "payment_method option \<Rightarrow> bool" where
  "isOverseasCardCheckoutMethod m =
     (case m of None \<Rightarrow> False
      | Some m \<Rightarrow> pm_method m = ''CARD'' \<and> pm_provider m = ''CARD''
          \<and> ((case pm_currency m of None \<Rightarrow> False | Some c \<Rightarrow> js_upper c \<noteq> ''KRW'') \<or> pm_consentRequired m = Some True))"

section \<open>The approved method\<close>

abbreviation text_of_bytes :: "nat list \<Rightarrow> js_string" where
  "text_of_bytes \<equiv> map char_of"

text \<open>The tables are looked up by their own keys.\<close>

definition METHOD_CATEGORY_BY_LABEL :: "(js_string \<times> js_string) list" where
  "METHOD_CATEGORY_BY_LABEL =
     [(text_of_bytes [236, 185, 180, 235, 147, 156], ''CARD''),
      (''CARD'', ''CARD''),
      (text_of_bytes [234, 179, 132, 236, 162, 140, 236, 157, 180, 236, 178, 180], ''TRANSFER''),
      (''TRANSFER'', ''TRANSFER''),
      (text_of_bytes [234, 176, 132, 237, 142, 184, 234, 178, 176, 236, 160, 156], ''SIMPLE_PAY''),
      (''EASY_PAY'', ''SIMPLE_PAY''),
      (''SIMPLE_PAY'', ''SIMPLE_PAY''),
      (text_of_bytes [237, 149, 180, 236, 153, 184, 234, 176, 132, 237, 142, 184, 234, 178, 176, 236, 160, 156], ''FOREIGN_EASY_PAY''),
      (''FOREIGN_EASY_PAY'', ''FOREIGN_EASY_PAY''),
      (text_of_bytes [234, 176, 128, 236, 131, 129, 234, 179, 132, 236, 162, 140], ''VIRTUAL_ACCOUNT''),
      (''VIRTUAL_ACCOUNT'', ''VIRTUAL_ACCOUNT''),
      (text_of_bytes [237, 156, 180, 235, 140, 128, 237, 143, 176], ''MOBILE_PHONE''),
      (''MOBILE_PHONE'', ''MOBILE_PHONE'')]"

definition SIMPLE_PAY_PROVIDER_BY_LABEL :: "(js_string \<times> js_string) list" where
  "SIMPLE_PAY_PROVIDER_BY_LABEL =
     [(text_of_bytes [237, 134, 160, 236, 138, 164, 237, 142, 152, 236, 157, 180], ''TOSS_PAY''),
      (text_of_bytes [237, 134, 160, 236, 138, 164, 234, 178, 176, 236, 160, 156], ''TOSS_PAY''),
      (''TOSSPAY'', ''TOSS_PAY''),
      (''TOSS_PAY'', ''TOSS_PAY''),
      (text_of_bytes [235, 132, 164, 236, 157, 180, 235, 178, 132, 237, 142, 152, 236, 157, 180], ''NAVER_PAY''),
      (''NAVERPAY'', ''NAVER_PAY''),
      (''NAVER_PAY'', ''NAVER_PAY''),
      (text_of_bytes [236, 185, 180, 236, 185, 180, 236, 152, 164, 237, 142, 152, 236, 157, 180], ''KAKAOPAY''),
      (''KAKAOPAY'', ''KAKAOPAY'')]"

definition FOREIGN_EASY_PAY_PROVIDER_BY_LABEL :: "(js_string \<times> js_string) list" where
  "FOREIGN_EASY_PAY_PROVIDER_BY_LABEL =
     [(''PAYPAL'', ''PAYPAL''),
      (text_of_bytes [237, 142, 152, 236, 157, 180, 237, 140, 148], ''PAYPAL''),
      (''ALIPAY'', ''ALIPAY_PLUS''),
      (''ALIPAY_PLUS'', ''ALIPAY_PLUS''),
      (text_of_bytes [236, 149, 140, 235, 166, 172, 237, 142, 152, 236, 157, 180], ''ALIPAY_PLUS''),
      (''ALIPAYHK'', ''ALIPAY_PLUS''),
      (''BILLEASE'', ''ALIPAY_PLUS''),
      (''BOOST'', ''ALIPAY_PLUS''),
      (''BPI'', ''ALIPAY_PLUS''),
      (''DANA'', ''ALIPAY_PLUS''),
      (text_of_bytes [235, 139, 164, 235, 130, 152], ''ALIPAY_PLUS''),
      (''GCASH'', ''ALIPAY_PLUS''),
      (text_of_bytes [236, 167, 128, 236, 186, 144, 236, 139, 156], ''ALIPAY_PLUS''),
      (''RABBIT_LINE_PAY'', ''ALIPAY_PLUS''),
      (''TOUCHNGO'', ''ALIPAY_PLUS''),
      (text_of_bytes [237, 132, 176, 236, 185, 152, 236, 149, 164, 234, 179, 160], ''ALIPAY_PLUS''),
      (''TRUEMONEY'', ''TRUEMONEY''),
      (text_of_bytes [237, 138, 184, 235, 163, 168, 235, 168, 184, 235, 139, 136], ''TRUEMONEY'')]"

definition lookupLabel :: "(js_string \<times> js_string) list \<Rightarrow> js_string option \<Rightarrow> js_string option" where
  "lookupLabel table label =
     (case map_option js_trim label of
        None \<Rightarrow> None
      | Some trimmed \<Rightarrow>
          if trimmed = [] then None else nullish (map_of table trimmed) (map_of table (js_upper trimmed)))"

text \<open>\<open>Payment.easyPay\<close>: a text, an object with or without a textual provider, or anything else.\<close>

datatype easy_pay = NoEasyPay | EasyPayText js_string | EasyPayObject "js_string option"

definition readTossEasyPayProvider :: "easy_pay \<Rightarrow> js_string option" where
  "readTossEasyPayProvider e =
     (let trimmed = (\<lambda>s. if js_trim s = [] then None else Some (js_trim s))
      in case e of NoEasyPay \<Rightarrow> None | EasyPayText s \<Rightarrow> trimmed s
         | EasyPayObject p \<Rightarrow> (case p of None \<Rightarrow> None | Some s \<Rightarrow> trimmed s))"

record approved_method =
  am_category :: js_string
  am_provider :: "js_string option"

definition categorizeTossMethodLabel :: "js_string option \<Rightarrow> js_string" where
  "categorizeTossMethodLabel m = or_else (lookupLabel METHOD_CATEGORY_BY_LABEL m) ''UNSUPPORTED''"

definition normalizeTossApprovedMethod :: "js_string option \<Rightarrow> easy_pay \<Rightarrow> approved_method" where
  "normalizeTossApprovedMethod m easyPay =
     (case lookupLabel METHOD_CATEGORY_BY_LABEL m of
        None \<Rightarrow> \<lparr>am_category = ''UNSUPPORTED'', am_provider = None\<rparr>
      | Some category \<Rightarrow>
          (let easyPayProvider = readTossEasyPayProvider easyPay in
           if category = ''SIMPLE_PAY'' then
             (case lookupLabel SIMPLE_PAY_PROVIDER_BY_LABEL easyPayProvider of
                Some p \<Rightarrow> \<lparr>am_category = category, am_provider = Some p\<rparr>
              | None \<Rightarrow> \<lparr>am_category = ''UNSUPPORTED'', am_provider = None\<rparr>)
           else if category = ''FOREIGN_EASY_PAY'' then
             \<lparr>am_category = category, am_provider = lookupLabel FOREIGN_EASY_PAY_PROVIDER_BY_LABEL easyPayProvider\<rparr>
           else \<lparr>am_category = category, am_provider = None\<rparr>))"

text \<open>\<open>None\<close> is a stored value that is no array of methods, or no stored policy.\<close>

definition DEFAULT_ALLOWED_PAYMENT_METHODS :: "js_string list" where
  "DEFAULT_ALLOWED_PAYMENT_METHODS = [''CARD'']"

definition resolveEnforcedAllowedPaymentMethods :: "js_string list option \<Rightarrow> js_string list" where
  "resolveEnforcedAllowedPaymentMethods stored =
     (let methods = (case stored of Some (m # ms) \<Rightarrow> m # ms | _ \<Rightarrow> DEFAULT_ALLOWED_PAYMENT_METHODS)
      in filter (\<lambda>m. m \<in> set methods) CHECKOUT_CONFIGURABLE_PAYMENT_METHODS)"

definition isEnforcedCheckoutPaymentMethod :: "js_string \<Rightarrow> js_string list \<Rightarrow> bool" where
  "isEnforcedCheckoutPaymentMethod m enforced \<longleftrightarrow> m \<in> set CHECKOUT_CONFIGURABLE_PAYMENT_METHODS \<and> m \<in> set enforced"

definition findApprovedMethodPolicyMismatch ::
  "approved_method \<Rightarrow> payment_method option \<Rightarrow> js_string list \<Rightarrow> js_string option" where
  "findApprovedMethodPolicyMismatch approved checkout enforced =
     (let category = am_category approved in
      if category = ''UNSUPPORTED'' \<or> category = ''VIRTUAL_ACCOUNT'' \<or> category = ''MOBILE_PHONE''
         \<or> category = ''FOREIGN_EASY_PAY'' \<and> am_provider approved = None
      then Some ''unsupported_method''
      else if category \<notin> set enforced then Some ''not_allowed_by_policy''
      else (case checkout of
          None \<Rightarrow> Some ''checkout_method_missing''
        | Some c \<Rightarrow>
            if pm_method c \<noteq> category then Some ''checkout_method_mismatch''
            else if (category = ''SIMPLE_PAY'' \<or> category = ''FOREIGN_EASY_PAY'')
                    \<and> am_provider approved \<noteq> Some (pm_provider c)
              then Some ''checkout_provider_mismatch''
            else None))"

section \<open>The route of a confirm\<close>

datatype confirm_route = DOMESTIC | OVERSEAS_CARD_KRW | OVERSEAS_CARD_USD | PAYPAL

definition CARD_METHOD_LABELS :: "js_string list" where
  "CARD_METHOD_LABELS = [text_of_bytes [236, 185, 180, 235, 147, 156], ''CARD'']"

definition FOREIGN_EASY_PAY_METHOD_LABELS :: "js_string list" where
  "FOREIGN_EASY_PAY_METHOD_LABELS = [text_of_bytes [237, 149, 180, 236, 153, 184, 234, 176, 132, 237, 142, 184, 234, 178, 176, 236, 160, 156], ''FOREIGN_EASY_PAY'']"

definition DOMESTIC_METHOD_LABELS :: "js_string list" where
  "DOMESTIC_METHOD_LABELS = CARD_METHOD_LABELS @
     [text_of_bytes [234, 179, 132, 236, 162, 140, 236, 157, 180, 236, 178, 180],
      ''TRANSFER'',
      text_of_bytes [234, 176, 132, 237, 142, 184, 234, 178, 176, 236, 160, 156],
      ''EASY_PAY'']"

definition isAllowedApprovedMethod :: "js_string option \<Rightarrow> confirm_route \<Rightarrow> bool" where
  "isAllowedApprovedMethod m route =
     (case map_option (\<lambda>s. js_upper (js_trim s)) m of
        None \<Rightarrow> False
      | Some label \<Rightarrow>
          if label = [] then False
          else (case route of
              PAYPAL \<Rightarrow> label \<in> set FOREIGN_EASY_PAY_METHOD_LABELS
            | DOMESTIC \<Rightarrow> label \<in> set DOMESTIC_METHOD_LABELS
            | _ \<Rightarrow> label \<in> set CARD_METHOD_LABELS))"

section \<open>Failure diagnostics\<close>

text \<open>Kind and code of \<open>paymentTerminalFailureDiagnostic\<close>; the buyer's message is fixed text.\<close>

definition paymentTerminalFailureDiagnostic :: "js_string \<Rightarrow> js_string \<times> js_string" where
  "paymentTerminalFailureDiagnostic status =
     (if status = ''EXPIRED'' then (''payment_expired'', ''PAYMENT_EXPIRED'')
      else if status = ''ABORTED'' then (''payment_failed'', ''PAYMENT_ABORTED'')
      else if status = ''CANCELED'' then (''payment_cancelled_before_confirm'', ''PAYMENT_CANCELED_BEFORE_CONFIRM'')
      else (''payment_failed'', ''PAYMENT_FAILED''))"

section \<open>Properties\<close>

text \<open>The methods a stored policy stands for.\<close>

definition policy_methods :: "js_string list option \<Rightarrow> js_string list" where
  "policy_methods stored = (case stored of Some (m # ms) \<Rightarrow> m # ms | _ \<Rightarrow> DEFAULT_ALLOWED_PAYMENT_METHODS)"

lemma enforced_set: "set (resolveEnforcedAllowedPaymentMethods stored) =
    set CHECKOUT_CONFIGURABLE_PAYMENT_METHODS \<inter> set (policy_methods stored)"
  by (auto simp: resolveEnforcedAllowedPaymentMethods_def policy_methods_def Let_def)

lemma checkout_check_agrees:
  "isEnforcedCheckoutPaymentMethod m (resolveEnforcedAllowedPaymentMethods stored) =
    isCheckoutPaymentMethodAllowed m (policy_methods stored)"
  by (auto simp: isEnforcedCheckoutPaymentMethod_def isCheckoutPaymentMethodAllowed_def
      isCheckoutConfigurablePaymentMethod_def enforced_set)

lemma approved_wallet:
  assumes "am_category (normalizeTossApprovedMethod m e) = ''SIMPLE_PAY''"
  shows "am_provider (normalizeTossApprovedMethod m e) \<noteq> None"
  using assms by (auto simp: normalizeTossApprovedMethod_def Let_def split: option.splits if_splits)

text \<open>A provider's approval passes the method policy exactly when the order has a frozen checkout
  method of the approved category that checkout may use under the performance's policy, approved with the
  same wallet when it is an easy pay. So the check after the payment accepts nothing that the check before
  it would have refused, and a wallet that is not recognised never passes.\<close>
theorem approved_method_iff_checked_out:
  "findApprovedMethodPolicyMismatch (normalizeTossApprovedMethod m e) checkout (resolveEnforcedAllowedPaymentMethods stored) = None \<longleftrightarrow>
   (\<exists>c. checkout = Some c \<and> am_category (normalizeTossApprovedMethod m e) = pm_method c \<and>
      isCheckoutPaymentMethodAllowed (pm_method c) (policy_methods stored) \<and>
      (pm_method c \<in> {''SIMPLE_PAY'', ''FOREIGN_EASY_PAY''} \<longrightarrow>
         am_provider (normalizeTossApprovedMethod m e) = Some (pm_provider c)))"
  (is "?lhs \<longleftrightarrow> ?rhs")
proof -
  let ?a = "normalizeTossApprovedMethod m e"
  have conf: "x \<in> set (resolveEnforcedAllowedPaymentMethods stored) \<longleftrightarrow>
      isCheckoutPaymentMethodAllowed x (policy_methods stored)" for x
    by (auto simp: enforced_set isCheckoutPaymentMethodAllowed_def isCheckoutConfigurablePaymentMethod_def)
  have sold: "isCheckoutPaymentMethodAllowed x (policy_methods stored) \<Longrightarrow>
      x \<noteq> ''UNSUPPORTED'' \<and> x \<noteq> ''VIRTUAL_ACCOUNT'' \<and> x \<noteq> ''MOBILE_PHONE''" for x
    by (auto simp: isCheckoutPaymentMethodAllowed_def isCheckoutConfigurablePaymentMethod_def CHECKOUT_CONFIGURABLE_PAYMENT_METHODS_def)
  show ?thesis
    using sold [of "am_category ?a"]
    by (auto simp: findApprovedMethodPolicyMismatch_def Let_def conf split: option.splits if_splits)
qed

lemma approved_method_iff_checked_out_witness:
  "findApprovedMethodPolicyMismatch (normalizeTossApprovedMethod (Some ''CARD'') NoEasyPay)
      (Some \<lparr>pm_method = ''CARD'', pm_provider = ''CARD'', pm_currency = None, pm_consentRequired = None\<rparr>)
      (resolveEnforcedAllowedPaymentMethods None) = None"
proof -
  have "js_trim ''CARD'' = ''CARD''" by (rule js_trim_printable) (simp add: printable_def)
  then have "lookupLabel METHOD_CATEGORY_BY_LABEL (Some ''CARD'') = Some ''CARD''"
    by (simp add: lookupLabel_def METHOD_CATEGORY_BY_LABEL_def)
  then show ?thesis
    unfolding approved_method_iff_checked_out
    by (simp add: normalizeTossApprovedMethod_def Let_def isCheckoutPaymentMethodAllowed_def
        isCheckoutConfigurablePaymentMethod_def CHECKOUT_CONFIGURABLE_PAYMENT_METHODS_def policy_methods_def
        DEFAULT_ALLOWED_PAYMENT_METHODS_def)
qed

end
