(* ===== verification/ChargeQuote.thy ===== *)
theory ChargeQuote
  imports Prelude
begin

text \<open>
  Quotes in the charge currency: \<open>apps/api/src/modules/payment/provider-charge-quote.service.ts\<close>. The
  exchange rate is read from the configuration as a decimal string; a quote and the amount that a client
  sends back are exact decimal texts, compared in cents. A \<open>bigint\<close> is an unbounded \<open>int\<close>.
\<close>

section \<open>Decimal texts\<close>

definition all_digits :: "js_string \<Rightarrow> bool" where
  "all_digits s \<longleftrightarrow> s \<noteq> [] \<and> list_all is_digit s"

text \<open>\<open>/^\d+(\.\d+)?$/\<close> and \<open>/^\d+(\.\d{1,2})?$/\<close>\<close>

definition is_decimal :: "js_string \<Rightarrow> bool" where
  "is_decimal s = (case js_split CHR ''.'' s of
     [w] \<Rightarrow> all_digits w | [w, f] \<Rightarrow> all_digits w \<and> all_digits f | _ \<Rightarrow> False)"

definition is_cents_decimal :: "js_string \<Rightarrow> bool" where
  "is_cents_decimal s = (case js_split CHR ''.'' s of
     [w] \<Rightarrow> all_digits w | [w, f] \<Rightarrow> all_digits w \<and> all_digits f \<and> length f \<le> 2 | _ \<Rightarrow> False)"

definition split_decimal :: "js_string \<Rightarrow> js_string \<times> js_string" where
  "split_decimal s = (case js_split CHR ''.'' s of [w] \<Rightarrow> (w, []) | w # f # _ \<Rightarrow> (w, f) | [] \<Rightarrow> ([], []))"

text \<open>\<open>s.replace(/^0+(?=\d)/, '')\<close> and \<open>s.replace(/0+$/, '')\<close>\<close>

fun strip_leading_zeros :: "js_string \<Rightarrow> js_string" where
  "strip_leading_zeros (c # d # cs) =
     (if c = CHR ''0'' \<and> is_digit d then strip_leading_zeros (d # cs) else c # d # cs)"
| "strip_leading_zeros s = s"

definition strip_trailing_zeros :: "js_string \<Rightarrow> js_string" where
  "strip_trailing_zeros s = rev (dropWhile (\<lambda>c. c = CHR ''0'') (rev s))"

definition text_or :: "js_string \<Rightarrow> js_string \<Rightarrow> js_string" where
  "text_or s d = (if s = [] then d else s)"

definition normalizeDecimalString :: "js_string \<Rightarrow> js_string" where
  "normalizeDecimalString v =
     (if CHR ''.'' \<notin> set v then text_or (strip_leading_zeros v) ''0''
      else let (wholePart, fractionPart) = split_decimal v
           in text_or (strip_leading_zeros wholePart) ''0'' @ ''.'' @ text_or (strip_trailing_zeros fractionPart) ''0'')"

definition padStart :: "nat \<Rightarrow> char \<Rightarrow> js_string \<Rightarrow> js_string" where
  "padStart n c s = replicate (n - length s) c @ s"

definition padEnd :: "nat \<Rightarrow> char \<Rightarrow> js_string \<Rightarrow> js_string" where
  "padEnd n c s = s @ replicate (n - length s) c"

definition formatMinorToDecimal :: "int \<Rightarrow> js_string" where
  "formatMinorToDecimal amountMinor =
     js_of_int (amountMinor div 100) @ ''.'' @ padStart 2 CHR ''0'' (js_of_int (amountMinor mod 100))"

definition MAX_SAFE_INTEGER :: int where "MAX_SAFE_INTEGER = 2 ^ 53 - 1"

datatype charge_quote_error =
    NotDecimal | TooLarge | RateNotDecimal | RateMissing | PayableNotPositive | AmountNotPositiveQuote
  | PaypalDisabled | ForeignDisabled | OverseasKeyMissing | OverseasKeyNotWidget

definition parseProviderDecimalToMinor :: "js_string \<Rightarrow> charge_quote_error + int" where
  "parseProviderDecimalToMinor v =
     (let trimmed = js_trim v
      in if \<not> is_cents_decimal trimmed then Inl NotDecimal
         else let (whole, fraction) = split_decimal trimmed;
                  amountMinor = int (digits_value whole) * 100
                    + int (digits_value (text_or (padEnd 2 CHR ''0'' fraction) ''0''))
              in if amountMinor \<le> 0 \<or> amountMinor > MAX_SAFE_INTEGER then Inl TooLarge else Inr amountMinor)"

section \<open>The rate\<close>

record parsed_rate =
  pr_normalized :: js_string
  pr_numerator :: int
  pr_scale :: int

definition parseRate :: "js_string option \<Rightarrow> charge_quote_error + parsed_rate" where
  "parseRate v =
     (case map_option js_trim v of
        None \<Rightarrow> Inl RateNotDecimal
      | Some raw \<Rightarrow>
          if raw = [] \<or> \<not> is_decimal raw then Inl RateNotDecimal
          else let normalized = normalizeDecimalString raw;
                   (whole, fraction) = split_decimal normalized;
                   numerator = int (digits_value (whole @ fraction))
               in if numerator \<le> 0 then Inl RateNotDecimal
                  else Inr \<lparr>pr_normalized = normalized, pr_numerator = numerator, pr_scale = 10 ^ length fraction\<rparr>)"

section \<open>The service\<close>

record quote_config =
  qc_paypalCheckoutEnabled :: "js_string option"
  qc_alipayCheckoutEnabled :: "js_string option"
  qc_foreignEasyPaySecretKey :: "js_string option"
  qc_overseasCardSecretKey :: "js_string option"
  qc_paypalRate :: "js_string option"
  qc_nodeEnv :: "js_string option"
  qc_tossSecretKey :: "js_string option"

record quote_service =
  qs_paypalCheckoutEnabled :: bool
  qs_alipayCheckoutRequested :: bool
  qs_alipayCheckoutEnabled :: bool
  qs_alipaySecretConfigured :: bool
  qs_overseasCardSecretConfigured :: bool
  qs_overseasCardWidgetSecretConfigured :: bool
  qs_paypalRate :: "parsed_rate option"

definition DEFAULT_LOCAL_TEST_KRW_USD_RATE :: js_string where
  "DEFAULT_LOCAL_TEST_KRW_USD_RATE = ''0.00068''"

definition isWidgetSecretKey :: "js_string \<Rightarrow> bool" where
  "isWidgetSecretKey v = (prefix ''test_gsk_'' (js_trim v) \<or> prefix ''live_gsk_'' (js_trim v))"

definition isLocalTestKeyEnvironment :: "quote_config \<Rightarrow> bool" where
  "isLocalTestKeyEnvironment c =
     (if map_option (\<lambda>s. js_lower (js_trim s)) (qc_nodeEnv c) = Some ''production'' then False
      else (case qc_tossSecretKey c of None \<Rightarrow> False | Some k \<Rightarrow> prefix ''test_'' k))"

definition has_text :: "js_string option \<Rightarrow> bool" where
  "has_text v = (js_trim (or_else v []) \<noteq> [])"

definition flag :: "js_string option \<Rightarrow> js_string option" where
  "flag v = map_option (\<lambda>s. js_lower (js_trim s)) v"

text \<open>The constructor; \<open>Inl\<close> when the process must not start because a rate is needed and is missing or malformed.\<close>

definition ProviderChargeQuoteService :: "quote_config \<Rightarrow> charge_quote_error + quote_service" where
  "ProviderChargeQuoteService c =
     (let paypalFlag = flag (qc_paypalCheckoutEnabled c);
          explicit = (case paypalFlag of None \<Rightarrow> False | Some f \<Rightarrow> f \<noteq> []);
          useLocalTestDefault = (\<not> explicit \<and> isLocalTestKeyEnvironment c);
          paypal = (if explicit then paypalFlag = Some ''true'' else useLocalTestDefault);
          alipayRequested = (flag (qc_alipayCheckoutEnabled c) = Some ''true'');
          alipaySecret = has_text (qc_foreignEasyPaySecretKey c);
          alipay = (alipayRequested \<and> alipaySecret);
          overseas = has_text (qc_overseasCardSecretKey c);
          rate = nullish (qc_paypalRate c) (if useLocalTestDefault then Some DEFAULT_LOCAL_TEST_KRW_USD_RATE else None);
          s = \<lparr>qs_paypalCheckoutEnabled = paypal, qs_alipayCheckoutRequested = alipayRequested,
               qs_alipayCheckoutEnabled = alipay, qs_alipaySecretConfigured = alipaySecret,
               qs_overseasCardSecretConfigured = overseas,
               qs_overseasCardWidgetSecretConfigured = isWidgetSecretKey (or_else (qc_overseasCardSecretKey c) []),
               qs_paypalRate = None\<rparr>
      in if paypal \<or> alipay \<or> overseas
         then (case parseRate rate of Inl e \<Rightarrow> Inl e | Inr r \<Rightarrow> Inr (s\<lparr>qs_paypalRate := Some r\<rparr>))
         else Inr s)"

type_synonym availability = "bool \<times> js_string option"

definition getPaypalAvailability :: "quote_service \<Rightarrow> availability" where
  "getPaypalAvailability s =
     (if qs_paypalCheckoutEnabled s then (True, None) else (False, Some ''PAYPAL_CHECKOUT_DISABLED''))"

definition getAlipayAvailability :: "quote_service \<Rightarrow> availability" where
  "getAlipayAvailability s =
     (if qs_alipayCheckoutEnabled s then (True, None)
      else if qs_alipayCheckoutRequested s \<and> \<not> qs_alipaySecretConfigured s
        then (False, Some ''ALIPAY_SECRET_KEY_MISSING'')
      else (False, Some ''ALIPAY_CHECKOUT_DISABLED''))"

definition getOverseasCardAvailability :: "quote_service \<Rightarrow> availability" where
  "getOverseasCardAvailability s =
     (if qs_overseasCardWidgetSecretConfigured s then (True, None)
      else if qs_overseasCardSecretConfigured s then (False, Some ''OVERSEAS_CARD_WIDGET_SECRET_KEY_INVALID'')
      else (False, Some ''OVERSEAS_CARD_SECRET_KEY_MISSING''))"

record charge_quote =
  cq_amountMinor :: int
  cq_amountDecimal :: js_string
  cq_rate :: js_string
  cq_quotedAt :: int

definition createProviderChargeQuote :: "int \<Rightarrow> int \<Rightarrow> parsed_rate option \<Rightarrow> charge_quote_error + charge_quote" where
  "createProviderChargeQuote payable t rate =
     (case rate of None \<Rightarrow> Inl RateMissing
      | Some r \<Rightarrow>
          if payable \<le> 0 then Inl PayableNotPositive
          else let amountMinor = (payable * pr_numerator r * 100 + pr_scale r div 2) div pr_scale r
               in if amountMinor \<le> 0 then Inl AmountNotPositiveQuote
                  else if amountMinor > MAX_SAFE_INTEGER then Inl TooLarge
                  else Inr \<lparr>cq_amountMinor = amountMinor, cq_amountDecimal = formatMinorToDecimal amountMinor,
                         cq_rate = pr_normalized r, cq_quotedAt = t\<rparr>)"

definition createPaypalQuote :: "quote_service \<Rightarrow> int \<Rightarrow> int \<Rightarrow> charge_quote_error + charge_quote" where
  "createPaypalQuote s payable t =
     (if \<not> qs_paypalCheckoutEnabled s then Inl PaypalDisabled
      else createProviderChargeQuote payable t (qs_paypalRate s))"

definition createForeignEasyPayQuote :: "quote_service \<Rightarrow> int \<Rightarrow> int \<Rightarrow> charge_quote_error + charge_quote" where
  "createForeignEasyPayQuote s payable t =
     (if \<not> qs_paypalCheckoutEnabled s \<and> \<not> qs_alipayCheckoutEnabled s \<or> qs_paypalRate s = None
      then Inl ForeignDisabled else createProviderChargeQuote payable t (qs_paypalRate s))"

definition createOverseasCardQuote :: "quote_service \<Rightarrow> int \<Rightarrow> int \<Rightarrow> charge_quote_error + charge_quote" where
  "createOverseasCardQuote s payable t =
     (if \<not> qs_overseasCardSecretConfigured s then Inl OverseasKeyMissing
      else if \<not> qs_overseasCardWidgetSecretConfigured s then Inl OverseasKeyNotWidget
      else createProviderChargeQuote payable t (qs_paypalRate s))"

section \<open>Texts of numbers\<close>

lemma foldl_digits: "foldl (\<lambda>n c. 10 * n + (of_char c - 48)) a s = a * 10 ^ length s + digits_value s"
proof (induction s arbitrary: a)
  case Nil
  show ?case by (simp add: digits_value_def)
next
  case (Cons c s)
  have "foldl (\<lambda>n c. 10 * n + (of_char c - 48)) a (c # s) =
      foldl (\<lambda>n c. 10 * n + (of_char c - 48)) (10 * a + (of_char c - 48)) s" by simp
  also have "\<dots> = (10 * a + (of_char c - 48)) * 10 ^ length s + digits_value s" by (rule Cons.IH)
  also have "\<dots> = a * 10 ^ length (c # s) + ((of_char c - 48) * 10 ^ length s + digits_value s)"
    by (simp add: algebra_simps)
  also have "(of_char c - 48) * 10 ^ length s + digits_value s = digits_value (c # s)"
    using Cons.IH [of "of_char c - 48"] by (simp add: digits_value_def)
  finally show ?case .
qed

lemma digits_value_append: "digits_value (s @ t) = digits_value s * 10 ^ length t + digits_value t"
  unfolding digits_value_def [of "s @ t"] foldl_append foldl_digits [of "foldl _ 0 s"]
  by (simp only: digits_value_def [of s])

lemma digits_value_Nil [simp]: "digits_value [] = 0"
  by (simp add: digits_value_def)

lemma digit_char:
  assumes "n < 10"
  shows "is_digit (char_of (48 + n))" and "digits_value [char_of (48 + n)] = n"
proof -
  have e: "(of_char (char_of (48 + n) :: char) :: nat) = 48 + n"
    using assms by (simp only: of_char_of) simp
  have "digits_value [char_of (48 + n)] = of_char (char_of (48 + n) :: char) - 48"
    by (simp only: digits_value_def foldl_Cons foldl_Nil mult_0_right add_0)
  then show "digits_value [char_of (48 + n)] = n" by (simp only: e diff_add_inverse)
  have "(of_char CHR ''0'' :: nat) = 48" "(of_char CHR ''9'' :: nat) = 57" by simp_all
  then show "is_digit (char_of (48 + n))"
    using assms unfolding is_digit_def less_eq_char_def e by linarith
qed

lemma nat_text_digits: "all_digits (nat_text n) \<and> digits_value (nat_text n) = n"
proof (induction n rule: less_induct)
  case (less n)
  show ?case
  proof (cases "n < 10")
    case True
    then have "nat_text n = [char_of (48 + n)]" by (simp only: nat_text.simps [of n] if_True)
    then show ?thesis using digit_char [OF True] by (simp only: all_digits_def list.pred_inject) simp
  next
    case False
    then have e: "nat_text n = nat_text (n div 10) @ [char_of (48 + n mod 10)]"
      by (simp only: nat_text.simps [of n] if_False)
    have ih: "all_digits (nat_text (n div 10))" "digits_value (nat_text (n div 10)) = n div 10"
      using less.IH [of "n div 10"] False by auto
    have m: "n mod 10 < 10" by simp
    have "all_digits (nat_text n)"
      unfolding e using ih(1) digit_char(1) [OF m] by (simp only: all_digits_def list_all_append list.pred_inject) simp
    moreover have "digits_value (nat_text n) = n"
      unfolding e digits_value_append ih(2) digit_char(2) [OF m] by simp
    ultimately show ?thesis by blast
  qed
qed

lemma nat_text_length:
  assumes "n < 100"
  shows "length (nat_text n) \<le> 2"
proof (cases "n < 10")
  case True
  then show ?thesis by (simp only: nat_text.simps [of n] if_True) simp
next
  case False
  from assms have "n div 10 < 10" by simp
  then have "nat_text (n div 10) = [char_of (48 + n div 10)]" by (simp only: nat_text.simps [of "n div 10"] if_True)
  with False show ?thesis by (simp only: nat_text.simps [of n] if_False) simp
qed

lemma digit_not_dot: "list_all is_digit s \<Longrightarrow> CHR ''.'' \<notin> set s"
  by (auto simp: list_all_iff is_digit_def less_eq_char_def)

lemma digits_printable: "list_all is_digit s \<Longrightarrow> printable s"
  by (auto simp: printable_def list_all_iff is_digit_def less_eq_char_def)

lemma leading_zeros: "digits_value (replicate k CHR ''0'' @ s) = digits_value s"
proof -
  have "digits_value (replicate k CHR ''0'') = 0"
    by (induction k) (simp_all add: digits_value_def)
  then show ?thesis by (simp add: digits_value_append)
qed

lemma two_digits:
  assumes "0 \<le> n" "n < 100"
  shows "length (padStart 2 CHR ''0'' (js_of_int n)) = 2" "list_all is_digit (padStart 2 CHR ''0'' (js_of_int n))"
    "int (digits_value (padStart 2 CHR ''0'' (js_of_int n))) = n"
proof -
  have len: "length (js_of_int n) \<le> 2" using assms nat_text_length [of "nat n"] by (simp add: js_of_int_def)
  then show "length (padStart 2 CHR ''0'' (js_of_int n)) = 2" by (simp add: padStart_def)
  have "list_all is_digit (js_of_int n)" using nat_text_digits assms(1) by (simp add: js_of_int_def all_digits_def)
  moreover have "is_digit CHR ''0''" by (simp add: is_digit_def less_eq_char_def)
  ultimately show "list_all is_digit (padStart 2 CHR ''0'' (js_of_int n))"
    by (auto simp: padStart_def list_all_iff)
  show "int (digits_value (padStart 2 CHR ''0'' (js_of_int n))) = n"
    using assms(1) by (simp add: padStart_def leading_zeros js_of_int_def nat_text_digits)
qed

section \<open>The amount survives its text\<close>

lemma parse_format:
  assumes "0 < n" and "n \<le> MAX_SAFE_INTEGER"
  shows "parseProviderDecimalToMinor (formatMinorToDecimal n) = Inr n"
proof -
  let ?w = "nat_text (nat (n div 100))" and ?f = "padStart 2 CHR ''0'' (js_of_int (n mod 100))"
  have e: "formatMinorToDecimal n = ?w @ CHR ''.'' # ?f"
    using assms(1) by (simp add: formatMinorToDecimal_def js_of_int_def)
  have w: "all_digits ?w" "int (digits_value ?w) = n div 100" using assms(1) by (simp_all add: nat_text_digits)
  note f = two_digits [of "n mod 100", simplified]
  have nd: "CHR ''.'' \<notin> set ?w" "CHR ''.'' \<notin> set ?f" using w(1) f(2) digit_not_dot by (auto simp: all_digits_def)
  then have sp: "js_split CHR ''.'' (?w @ CHR ''.'' # ?f) = [?w, ?f]"
    by (simp add: js_split_append js_split_notin)
  have pr: "printable (?w @ CHR ''.'' # ?f)"
    using digits_printable [of ?w] digits_printable [of ?f] w(1) f(2) by (auto simp: printable_def all_digits_def)
  have ne: "?f \<noteq> []" using f(1) by auto
  have "is_cents_decimal (?w @ CHR ''.'' # ?f)" using sp w(1) f(1,2) ne by (simp add: is_cents_decimal_def all_digits_def)
  moreover have "split_decimal (?w @ CHR ''.'' # ?f) = (?w, ?f)" using sp by (simp add: split_decimal_def)
  moreover have "padEnd 2 CHR ''0'' ?f = ?f" using f(1) by (simp add: padEnd_def)
  ultimately show ?thesis
    using assms w(2) f(3) ne js_trim_printable [OF pr]
    by (simp add: e parseProviderDecimalToMinor_def Let_def text_or_def)
qed

lemma parseRate_scale:
  assumes "parseRate v = Inr r"
  shows "pr_scale r = 1 \<or> (\<exists>h. pr_scale r = 2 * h \<and> h > 0)" and "pr_numerator r > 0"
proof -
  from assms obtain k where k: "pr_scale r = 10 ^ k" "pr_numerator r > 0"
    by (fastforce simp: parseRate_def Let_def split: option.splits if_splits prod.splits)
  then show "pr_numerator r > 0" by simp
  from k(1) show "pr_scale r = 1 \<or> (\<exists>h. pr_scale r = 2 * h \<and> h > 0)"
    by (cases k) (auto intro: exI [of _ "5 * 10 ^ (k - 1)"])
qed

lemma half_up:
  fixes s x :: int
  assumes "s = 1 \<or> (\<exists>h. s = 2 * h \<and> h > 0)"
  shows "2 * x - s < 2 * ((x + s div 2) div s * s)" "2 * ((x + s div 2) div s * s) \<le> 2 * x + s"
proof -
  let ?m = "(x + s div 2) div s"
  from assms have pos: "s > 0" by auto
  have e: "?m * s + (x + s div 2) mod s = x + s div 2" by simp
  have m: "0 \<le> (x + s div 2) mod s" "(x + s div 2) mod s < s" using pos by simp_all
  from assms have h: "s = 1 \<and> s div 2 = 0 \<or> s = 2 * (s div 2)" by auto
  show "2 * x - s < 2 * (?m * s)" using e m h by linarith
  show "2 * (?m * s) \<le> 2 * x + s" using e m h by linarith
qed

text \<open>C40: Under every rate that the service accepts, the cents of a quote are the price in won times the
  rate, rounded half up to a cent, positive and within the safe integers; and the decimal text that is sent
  to the client parses back to exactly these cents, so a client that returns it passes the comparison.\<close>
theorem quote_text_is_exact:
  assumes "parseRate v = Inr r" and "createProviderChargeQuote payable t (Some r) = Inr q"
  shows "parseProviderDecimalToMinor (cq_amountDecimal q) = Inr (cq_amountMinor q) \<and>
    0 < cq_amountMinor q \<and> cq_amountMinor q \<le> MAX_SAFE_INTEGER \<and>
    2 * (payable * pr_numerator r * 100) - pr_scale r < 2 * (cq_amountMinor q * pr_scale r) \<and>
    2 * (cq_amountMinor q * pr_scale r) \<le> 2 * (payable * pr_numerator r * 100) + pr_scale r"
proof -
  let ?x = "payable * pr_numerator r * 100"
  from assms(2) have q: "cq_amountMinor q = (?x + pr_scale r div 2) div pr_scale r"
      "cq_amountDecimal q = formatMinorToDecimal (cq_amountMinor q)"
    and bounds: "0 < cq_amountMinor q" "cq_amountMinor q \<le> MAX_SAFE_INTEGER"
    by (auto simp: createProviderChargeQuote_def Let_def split: if_splits)
  note h = half_up [OF parseRate_scale(1) [OF assms(1)], of ?x]
  from bounds h show ?thesis by (simp only: q(2) parse_format) (simp only: q(1) simp_thms)
qed

lemma demo_rate: "parseRate (Some ''0.00068'') = Inr \<lparr>pr_normalized = ''0.00068'', pr_numerator = 68, pr_scale = 100000\<rparr>"
proof -
  have t: "js_trim ''0.00068'' = ''0.00068''" by (rule js_trim_printable) (simp add: printable_def)
  show ?thesis
    by (simp add: parseRate_def t Let_def is_decimal_def all_digits_def is_digit_def less_eq_char_def normalizeDecimalString_def
        split_decimal_def strip_trailing_zeros_def text_or_def digits_value_def)
qed

lemma quote_text_is_exact_witness:
  "\<exists>q. createProviderChargeQuote 99000 0 (Some \<lparr>pr_normalized = ''0.00068'', pr_numerator = 68, pr_scale = 100000\<rparr>) = Inr q \<and>
    cq_amountMinor q = 6732 \<and> parseProviderDecimalToMinor (cq_amountDecimal q) = Inr 6732"
proof -
  obtain q where q: "createProviderChargeQuote 99000 0 (Some \<lparr>pr_normalized = ''0.00068'', pr_numerator = 68, pr_scale = 100000\<rparr>) = Inr q"
    "cq_amountMinor q = 6732"
    by (simp add: createProviderChargeQuote_def Let_def MAX_SAFE_INTEGER_def)
  from quote_text_is_exact [OF demo_rate q(1)] q show ?thesis by simp
qed

end
