(* ===== verification/ConfirmWorld.thy ===== *)
theory ConfirmWorld
  imports Effects DbErrors PaymentMethods ChargeQuote TicketLimit ShowtimeSales BookingService
begin

text \<open>
  What payment confirm (\<open>apps/api/src/modules/reservation/reservation-finalization.service.ts\<close>) works on:
  requests, provider payments and answers, the database rows it reads and writes, the reconcile jobs it
  queues, and the world in which every call may fail. An environment \<open>E\<close> gives, for every call in turn, the
  answer of the provider, of the key-value server and of the database, and what other writers did to the
  database before the call; the theorems hold for every environment. The clock is read from it too.
\<close>

section \<open>Requests and approvals\<close>

text \<open>\<open>ConfirmPaymentRequest\<close>; the two bare forms are requests without an amount.\<close>

datatype confirm_kind =
    PaypalRequest js_string | OverseasCharge js_string | OverseasAmount int | OverseasBare
  | DomesticAmount int | DomesticBare

record payment_identity =
  pi_paymentKey :: js_string
  pi_orderId :: js_string

record confirm_request = payment_identity +
  cd_kind :: confirm_kind

record expectation =
  xp_route :: confirm_route
  xp_currency :: cancel_currency
  xp_amountMinor :: int
  xp_secretKeyScope :: secret_scope

record provider_charge =
  pc_amountMinor :: int
  pc_amountDecimal :: js_string
  pc_rate :: js_string
  pc_quotedAt :: int

record reconcile_context =
  rc_identity :: payment_identity
  rc_expectation :: expectation
  rc_providerCharge :: "provider_charge option"

text \<open>The charge columns of a reservation, a payment row or an approval.\<close>

record charge_fields =
  cf_currency :: "js_string option"
  cf_amountMinor :: "int option"
  cf_rate :: "js_string option"
  cf_quotedAt :: "int option"

definition no_charge :: charge_fields where
  "no_charge = \<lparr>cf_currency = None, cf_amountMinor = None, cf_rate = None, cf_quotedAt = None\<rparr>"

text \<open>The metadata object of a payment, by the fields the code reads; a null column is no object.\<close>

record metadata =
  md_secretKeyScope :: "js_string option"
  md_requestedProvider :: "js_string option"
  md_confirmCompensationClaim :: bool
  md_asyncDoneCompensation :: bool

definition no_metadata :: metadata where
  "no_metadata = \<lparr>md_secretKeyScope = None, md_requestedProvider = None, md_confirmCompensationClaim = False,
     md_asyncDoneCompensation = False\<rparr>"

definition OVERSEAS_CARD_PROVIDER_METADATA :: metadata where
  "OVERSEAS_CARD_PROVIDER_METADATA =
     no_metadata\<lparr>md_secretKeyScope := Some ''overseas-card'', md_requestedProvider := Some ''OVERSEAS_CARD''\<rparr>"

definition isConfirmCompensationClaimOwned :: "metadata option \<Rightarrow> bool" where
  "isConfirmCompensationClaimOwned md =
     (case md of None \<Rightarrow> False | Some m \<Rightarrow> md_confirmCompensationClaim m \<and> \<not> md_asyncDoneCompensation m)"

record approved_snapshot =
  as_existingPaymentId :: "js_string option"
  as_paymentKey :: js_string
  as_orderId :: js_string
  as_method :: js_string
  as_provider :: js_string
  as_currency :: js_string
  as_totalAmount :: int
  as_approvedAt :: int
  as_asyncStatus :: "js_string option"
  as_charge :: charge_fields
  as_metadata :: "metadata option"
  as_reconcile :: "reconcile_context option"

definition as_identity :: "approved_snapshot \<Rightarrow> payment_identity" where
  "as_identity a = \<lparr>pi_paymentKey = as_paymentKey a, pi_orderId = as_orderId a\<rparr>"

text \<open>A provider payment that passed \<open>parseTossPaymentResponse\<close>.\<close>

record toss_payment = toss_response +
  tp_paymentKey :: js_string
  tp_orderId :: js_string
  tp_method :: "js_string option"
  tp_easyPay :: easy_pay
  tp_approvedAt :: "int option"

section \<open>Errors\<close>

record toss_error =
  te_code :: js_string
  te_httpStatus :: "int option"

definition TOSS_CONFIRM_OUTCOME_UNKNOWN_CODES :: "js_string list" where
  "TOSS_CONFIRM_OUTCOME_UNKNOWN_CODES = [''PROVIDER_TIMEOUT'', ''NETWORK_ERROR'', ''INVALID_PROVIDER_RESPONSE'',
     ''ALREADY_PROCESSED_PAYMENT'', ''IDEMPOTENT_REQUEST_PROCESSING'']"

text \<open>Messages of the answers, by what they say.\<close>

datatype message =
    ConfirmInProgress | OutcomePending | SalesClosed | ApprovalMismatch | ApprovalNotDone | NotApproved
  | CancelInProgress | PostApprovalFailure | Unrecordable | CancelFailed | OrderMissing | HoldExpired
  | AmountMissing | AmountMismatch | ChargeUnverifiable | ChargeMalformed | ChargeMismatch | RouteMismatch
  | PaymentMismatch | OverseasMismatch | ShowtimeMissing | TicketLimitExceeded int | SeatUnsellable
  | PaymentNotSaved | ProviderRejection js_string | SeatHold booking_error

text \<open>\<open>Http\<close> is a Nest \<open>HttpException\<close> with its status.\<close>

datatype failure = Http nat message | TossFailure toss_error | DatabaseFailure db_error | OtherFailure

fun is_http :: "failure \<Rightarrow> bool" where
  "is_http (Http s m) = True"
| "is_http f = False"

fun is_conflict :: "failure \<Rightarrow> bool" where
  "is_conflict (Http s m) = (s = 409)"
| "is_conflict f = False"

definition isTossConfirmOutcomeUnknown :: "failure \<Rightarrow> bool" where
  "isTossConfirmOutcomeUnknown f =
     (case f of
        TossFailure e \<Rightarrow> te_code e \<in> set TOSS_CONFIRM_OUTCOME_UNKNOWN_CODES
          \<or> (case te_httpStatus e of None \<Rightarrow> False | Some s \<Rightarrow> s \<ge> 500)
      | _ \<Rightarrow> True)"

definition isProviderPaymentNotFound :: "failure \<Rightarrow> bool" where
  "isProviderPaymentNotFound f =
     (case f of TossFailure e \<Rightarrow> te_httpStatus e = Some 404 \<or> te_code e = ''NOT_FOUND_PAYMENT'' \<or> te_code e = ''NOT_FOUND''
      | _ \<Rightarrow> False)"

definition CONFIRM_REJECTION_PASSTHROUGH_CODES :: "js_string list" where
  "CONFIRM_REJECTION_PASSTHROUGH_CODES =
     [''UNAUTHORIZED_KEY'', ''FORBIDDEN_REQUEST'', ''INVALID_API_KEY'', ''INVALID_CLIENT_KEY'', ''API_KEY_ACCESS_DENIED'',
      ''NOT_FOUND_MERCHANT'', ''NOT_FOUND_MERCHANT_INTEGRATION'', ''NOT_FOUND_PAYMENT'', ''NOT_FOUND_TERMINAL_ID'',
      ''NOT_REGISTERED_BUSINESS'', ''NOT_REGISTERED_SUBMALL'', ''INVALID_UNREGISTERED_SUBMALL'',
      ''API_VERSION_UPDATE_NEEDED'', ''NOT_FOUND_HTTP_METHOD'', ''INVALID_REQUEST'', ''INVALID_REQUIRED_PARAM'',
      ''FORBIDDEN_CONSECUTIVE_REQUEST'', ''ALREADY_PROCESSING_REQUEST'', ''DUPLICATED_REQUEST'']"

definition toDefinitiveConfirmRejection :: "failure \<Rightarrow> failure" where
  "toDefinitiveConfirmRejection f =
     (case f of
        TossFailure e \<Rightarrow>
          if (case te_httpStatus e of None \<Rightarrow> False | Some s \<Rightarrow> s \<ge> 400 \<and> s < 500)
             \<and> te_code e \<notin> set CONFIRM_REJECTION_PASSTHROUGH_CODES
          then Http 400 (ProviderRejection (te_code e)) else f
      | _ \<Rightarrow> f)"

section \<open>Constants\<close>

definition PROVIDER_APPROVED_STATUSES :: "js_string list" where
  "PROVIDER_APPROVED_STATUSES = [''DONE'', ''WAITING_FOR_DEPOSIT'', ''PARTIAL_CANCELED'']"

definition PROVIDER_NOT_APPROVED_STATUSES :: "js_string list" where
  "PROVIDER_NOT_APPROVED_STATUSES = [''ABORTED'', ''EXPIRED'']"

definition CAPTURED_PAYMENT_STATUSES :: "js_string list" where
  "CAPTURED_PAYMENT_STATUSES = [''DONE'', ''PARTIAL_CANCELED'', ''CANCELED'']"

definition USD_CURRENCY_LABELS :: "js_string list" where
  "USD_CURRENCY_LABELS = [''USD'', ''MUSD'']"

definition TICKET_SERVICE_FEE_KRW :: int where "TICKET_SERVICE_FEE_KRW = 2000"
definition FINALIZATION_MAX_ATTEMPTS :: nat where "FINALIZATION_MAX_ATTEMPTS = 3"
definition PAYMENT_CONFIRM_RECONCILE_MAX_ATTEMPTS :: nat where "PAYMENT_CONFIRM_RECONCILE_MAX_ATTEMPTS = 20"
definition RECONCILE_INITIAL_DELAY_MS :: int where "RECONCILE_INITIAL_DELAY_MS = 60000"
definition RECONCILE_WINDOW_MARGIN_MS :: int where "RECONCILE_WINDOW_MARGIN_MS = 30000"
definition RECONCILE_LEASE_BUSY_DELAY_MS :: int where "RECONCILE_LEASE_BUSY_DELAY_MS = 30000"
definition RECONCILE_BACKOFF_BASE_MS :: int where "RECONCILE_BACKOFF_BASE_MS = 60000"
definition RECONCILE_BACKOFF_MAX_MS :: int where "RECONCILE_BACKOFF_MAX_MS = 30 * 60000"

text \<open>Reasons of automatic cancellations, as their UTF-8 bytes.\<close>

definition ADMISSION_WINDOW_CANCEL_REASON :: js_string where
  "ADMISSION_WINDOW_CANCEL_REASON =
     text_of_bytes [234, 178, 176, 236, 160, 156, 32, 236, 156, 160, 237, 154, 168, 32, 236, 139, 156, 234, 176,
     132, 32, 236, 180, 136, 234, 179, 188, 235, 161, 156, 32, 236, 157, 184, 237, 149, 156, 32, 236, 158, 144,
     235, 143, 153, 32, 236, 183, 168, 236, 134, 140]"

definition DUPLICATE_PAYMENT_CANCEL_REASON :: js_string where
  "DUPLICATE_PAYMENT_CANCEL_REASON =
     text_of_bytes [236, 164, 145, 235, 179, 181, 32, 234, 178, 176, 236, 160, 156, 235, 161, 156, 32, 236, 157,
     184, 237, 149, 156, 32, 236, 158, 144, 235, 143, 153, 32, 236, 183, 168, 236, 134, 140]"

definition TICKET_LIMIT_CANCEL_REASON :: js_string where
  "TICKET_LIMIT_CANCEL_REASON =
     text_of_bytes [236, 152, 136, 235, 167, 164, 32, 235, 167, 164, 236, 136, 152, 32, 236, 160, 156, 237, 149,
     156, 32, 236, 180, 136, 234, 179, 188, 235, 161, 156, 32, 236, 157, 184, 237, 149, 156, 32, 236, 158, 144,
     235, 143, 153, 32, 236, 183, 168, 236, 134, 140]"

definition SEAT_UNAVAILABLE_CANCEL_REASON :: js_string where
  "SEAT_UNAVAILABLE_CANCEL_REASON =
     text_of_bytes [237, 140, 144, 235, 167, 164, 32, 235, 182, 136, 234, 176, 128, 235, 138, 165, 32, 236, 162,
     140, 236, 132, 157, 236, 156, 188, 235, 161, 156, 32, 236, 157, 184, 237, 149, 156, 32, 236, 158, 144, 235,
     143, 153, 32, 236, 183, 168, 236, 134, 140]"

definition HOLD_LOST_CANCEL_REASON :: js_string where
  "HOLD_LOST_CANCEL_REASON =
     text_of_bytes [236, 162, 140, 236, 132, 157, 32, 236, 160, 144, 236, 156, 160, 32, 235, 167, 140, 235, 163,
     140, 235, 161, 156, 32, 236, 157, 184, 237, 149, 156, 32, 236, 158, 144, 235, 143, 153, 32, 236, 183, 168,
     236, 134, 140]"

definition NOT_DONE_CANCEL_REASON :: js_string where
  "NOT_DONE_CANCEL_REASON =
     text_of_bytes [234, 178, 176, 236, 160, 156, 32, 235, 175, 184, 236, 153, 132, 235, 163, 140, 32, 236, 131,
     129, 237, 131, 156, 235, 161, 156, 32, 236, 157, 184, 237, 149, 156, 32, 236, 158, 144, 235, 143, 153, 32,
     236, 183, 168, 236, 134, 140]"

definition METHOD_CANCEL_REASON :: js_string where
  "METHOD_CANCEL_REASON =
     text_of_bytes [237, 151, 136, 236, 154, 169, 235, 144, 152, 236, 167, 128, 32, 236, 149, 138, 236, 157, 128,
     32, 234, 178, 176, 236, 160, 156, 236, 136, 152, 235, 139, 168, 236, 156, 188, 235, 161, 156, 32, 236, 157,
     184, 237, 149, 156, 32, 236, 158, 144, 235, 143, 153, 32, 236, 183, 168, 236, 134, 140]"

definition MISMATCH_CANCEL_REASON :: js_string where
  "MISMATCH_CANCEL_REASON =
     text_of_bytes [234, 178, 176, 236, 160, 156, 32, 236, 138, 185, 236, 157, 184, 32, 236, 160, 149, 235, 179,
     180, 32, 235, 182, 136, 236, 157, 188, 236, 185, 152, 235, 161, 156, 32, 236, 157, 184, 237, 149, 156, 32,
     236, 158, 144, 235, 143, 153, 32, 236, 183, 168, 236, 134, 140]"

definition SERVER_ERROR_CANCEL_REASON :: js_string where
  "SERVER_ERROR_CANCEL_REASON =
     text_of_bytes [236, 132, 156, 235, 178, 132, 32, 236, 152, 164, 235, 165, 152, 235, 161, 156, 32, 236, 157,
     184, 237, 149, 156, 32, 236, 158, 144, 235, 143, 153, 32, 236, 183, 168, 236, 134, 140]"

definition PROVIDER_CANCELLED_REASON :: js_string where
  "PROVIDER_CANCELLED_REASON =
     text_of_bytes [234, 178, 176, 236, 160, 156, 236, 130, 172, 236, 151, 144, 236, 132, 156, 32, 236, 183, 168,
     236, 134, 140, 235, 144, 156, 32, 234, 178, 176, 236, 160, 156]"

definition duplicateCancelIdempotencyKey :: "js_string \<Rightarrow> js_string" where
  "duplicateCancelIdempotencyKey paymentKey = ''reservation-finalization-duplicate-cancel:'' @ paymentKey"

definition reconcileCancelIdempotencyKey :: "js_string \<Rightarrow> js_string \<Rightarrow> js_string" where
  "reconcileCancelIdempotencyKey paymentKey uuid = ''payment-confirm-reconcile-cancel:'' @ paymentKey @ '':'' @ uuid"

definition hasProviderCancelInProgress :: "'x toss_response_scheme \<Rightarrow> bool" where
  "hasProviderCancelInProgress p = list_ex (\<lambda>c. tc_cancelStatus c = Some ''IN_PROGRESS'') (or_else (tr_cancels p) [])"

definition isProviderFullCancelCompleted :: "'x toss_response_scheme \<Rightarrow> bool" where
  "isProviderFullCancelCompleted r \<longleftrightarrow> tr_status r = ''CANCELED''
     \<and> (case tr_cancels r of None \<Rightarrow> True
        | Some cs \<Rightarrow> list_ex (\<lambda>c. tc_cancelStatus c = None \<or> tc_cancelStatus c = Some ''DONE'') cs)"

end
