(* ===== verification/ConfirmStore.thy ===== *)
theory ConfirmStore
  imports ConfirmWorld
begin

text \<open>
  The database, the world and the calls of payment confirm. A statement sees the database after other
  writers changed it and either fails or takes effect; a transaction is one atomic step that commits, is
  rolled back, or commits while its acknowledgement is lost.
\<close>

section \<open>Rows\<close>

record payment_row =
  py_id :: js_string
  py_reservationId :: js_string
  py_paymentKey :: js_string
  py_tossOrderId :: js_string
  py_method :: js_string
  py_provider :: js_string
  py_currency :: js_string
  py_asyncStatus :: "js_string option"
  py_amount :: int
  py_status :: js_string
  py_paidAt :: "int option"
  py_cancelledAt :: "int option"
  py_cancelReason :: "js_string option"
  py_charge :: charge_fields
  py_metadata :: "metadata option"

record reservation_row =
  rs_id :: js_string
  rs_userId :: js_string
  rs_showtimeId :: js_string
  rs_status :: js_string
  rs_totalAmount :: int
  rs_tossOrderId :: js_string
  rs_admissionActiveUntilAt :: "int option"
  rs_paymentDeadlineAt :: "int option"
  rs_checkoutPaymentMethod :: "payment_method option"
  rs_charge :: charge_fields

record order_seat = seat_input +
  os_tierName :: js_string
  os_price :: int

record ticket_item_row =
  ki_reservationId :: js_string
  ki_paymentId :: js_string
  ki_showtimeId :: js_string
  ki_seatId :: js_string
  ki_seatKey :: js_string
  ki_price :: int
  ki_serviceFee :: int
  ki_status :: js_string

record showtime_row =
  sh_performanceId :: js_string
  sh_dateTime :: "int option"

record performance_policy =
  bp_maxTicketsPerUser :: int
  bp_allowedPaymentMethods :: "js_string list option"

record order_db =
  fd_payments :: "payment_row list"
  fd_reservations :: "reservation_row list"
  fd_seats :: "(js_string \<times> order_seat) list"
  fd_tickets :: "ticket_item_row list"
  fd_inventory :: "inventory_row list"
  fd_showtimes :: "js_string \<Rightarrow> showtime_row option"
  fd_policies :: "js_string \<Rightarrow> performance_policy option"
  fd_accounts :: "account_row list"
  fd_diagnostics :: "(js_string \<times> js_string \<times> js_string) list"

definition order_seat_key :: "'x seat_input_scheme \<Rightarrow> js_string" where
  "order_seat_key s = or_else (in_seatKey s) []"

definition order_floor_key :: "'x seat_input_scheme \<Rightarrow> js_string" where
  "order_floor_key s = or_else (in_floorKey s) []"

definition find_payment :: "order_db \<Rightarrow> js_string \<Rightarrow> payment_row option" where
  "find_payment db orderId = List.find (\<lambda>p. py_tossOrderId p = orderId) (fd_payments db)"

definition find_order_payment :: "order_db \<Rightarrow> js_string \<Rightarrow> js_string \<Rightarrow> payment_row option" where
  "find_order_payment db orderId reservationId =
     List.find (\<lambda>p. py_tossOrderId p = orderId \<and> py_reservationId p = reservationId) (fd_payments db)"

definition find_reservation :: "order_db \<Rightarrow> js_string \<Rightarrow> reservation_row option" where
  "find_reservation db reservationId = List.find (\<lambda>r. rs_id r = reservationId) (fd_reservations db)"

text \<open>\<open>insert \<dots> onConflictDoNothing\<close>: \<open>reservation_id\<close> and \<open>payment_key\<close> are unique.\<close>

definition payment_conflict :: "payment_row \<Rightarrow> order_db \<Rightarrow> bool" where
  "payment_conflict p db = list_ex (\<lambda>q. py_reservationId q = py_reservationId p \<or> py_paymentKey q = py_paymentKey p) (fd_payments db)"

definition insert_payment :: "payment_row \<Rightarrow> order_db \<Rightarrow> bool \<times> order_db" where
  "insert_payment p db =
     (if payment_conflict p db then (False, db) else (True, db\<lparr>fd_payments := fd_payments db @ [p]\<rparr>))"

definition update_payments :: "(payment_row \<Rightarrow> bool) \<Rightarrow> (payment_row \<Rightarrow> payment_row) \<Rightarrow> order_db \<Rightarrow> order_db" where
  "update_payments P f db = db\<lparr>fd_payments := map (\<lambda>p. if P p then f p else p) (fd_payments db)\<rparr>"

definition update_reservations :: "(reservation_row \<Rightarrow> bool) \<Rightarrow> js_string \<Rightarrow> order_db \<Rightarrow> order_db" where
  "update_reservations P status db =
     db\<lparr>fd_reservations := map (\<lambda>r. if P r then r\<lparr>rs_status := status\<rparr> else r) (fd_reservations db)\<rparr>"

text \<open>\<open>UPDATE reservations SET status = 'FAILED'\<close> of a reservation that still waits for its payment.\<close>

definition fail_reservation :: "js_string \<Rightarrow> order_db \<Rightarrow> order_db" where
  "fail_reservation reservationId =
     update_reservations (\<lambda>r. rs_id r = reservationId \<and> rs_status r = ''PENDING_PAYMENT'') ''FAILED''"

definition put_diagnostic :: "js_string \<Rightarrow> js_string \<times> js_string \<Rightarrow> order_db \<Rightarrow> order_db" where
  "put_diagnostic reservationId kc db = db\<lparr>fd_diagnostics := AList.update reservationId kc (fd_diagnostics db)\<rparr>"

section \<open>World and environment\<close>

datatype event =
    ConfirmSent payment_identity int
  | ConfirmAnswered payment_identity toss_payment
  | ConfirmRejected payment_identity failure
  | LookedUp payment_identity toss_payment
  | CancelSent js_string
  | Committed approved_snapshot js_string
  | JobQueued payment_identity js_string
  | JobLost payment_identity js_string
  | SoldBroadcast js_string js_string

record reconcile_job =
  jb_context :: reconcile_context
  jb_reason :: js_string
  jb_attempt :: nat
  jb_startAfter :: int

record world =
  fw_tick :: nat
  fw_db :: order_db
  fw_jobs :: "reconcile_job list"
  fw_markers :: "js_string list"
  fw_log :: "event list"

datatype tx_end = TxCommits | TxRolledBack db_error | TxAckLost db_error

text \<open>
  The answers of the outside at the n-th call. The lease calls and the marker store answer \<open>None\<close> when the
  key-value server is down; \<open>en_seats\<close> is \<open>None\<close> when the seat locks cannot be checked, and otherwise the
  rejection, if any. \<open>en_confirm\<close> and \<open>en_query\<close> answer parsed payments; a malformed body of a lookup is
  \<open>Inr None\<close>.
\<close>

record environment =
  en_now :: "nat \<Rightarrow> int"
  en_others :: "nat \<Rightarrow> order_db \<Rightarrow> order_db"
  en_dbFails :: "nat \<Rightarrow> db_error option"
  en_tx :: "nat \<Rightarrow> tx_end"
  en_confirm :: "nat \<Rightarrow> payment_identity \<Rightarrow> int \<Rightarrow> failure + toss_payment"
  en_query :: "nat \<Rightarrow> js_string \<Rightarrow> failure + toss_payment option"
  en_cancel :: "nat \<Rightarrow> cancel_request \<Rightarrow> failure + toss_response"
  en_acquireLease :: "nat \<Rightarrow> bool option"
  en_refreshLease :: "nat \<Rightarrow> bool option"
  en_releaseLease :: "nat \<Rightarrow> unit option"
  en_markAttempt :: "nat \<Rightarrow> unit option"
  en_seats :: "nat \<Rightarrow> booking_error option option"
  en_hasMarkers :: bool
  en_marker :: "nat \<Rightarrow> unit option"
  en_jobs :: "nat \<Rightarrow> bool"
  en_newId :: "nat \<Rightarrow> js_string"
  en_benefits :: "nat \<Rightarrow> db_error option"
  en_phone :: "js_string \<Rightarrow> js_string option"
  en_quotes :: bool

type_synonym 'a confirm_prog = "(world, failure, 'a) prog"

section \<open>Calls\<close>

definition tick :: "nat confirm_prog" where
  "tick w = (Inr (fw_tick w), w\<lparr>fw_tick := fw_tick w + 1\<rparr>)"

definition log_event :: "event \<Rightarrow> unit confirm_prog" where
  "log_event e = alter (\<lambda>w. w\<lparr>fw_log := fw_log w @ [e]\<rparr>)"

definition clock :: "environment \<Rightarrow> int confirm_prog" where
  "clock E = bnd tick (\<lambda>n. ret (en_now E n))"

text \<open>One statement on the database.\<close>

definition statement :: "environment \<Rightarrow> (order_db \<Rightarrow> 'a \<times> order_db) \<Rightarrow> 'a confirm_prog" where
  "statement E act w =
     (let n = fw_tick w;
          w1 = w\<lparr>fw_tick := n + 1, fw_db := en_others E n (fw_db w)\<rparr>
      in case en_dbFails E n of
           Some e \<Rightarrow> (Inl (DatabaseFailure e), w1)
         | None \<Rightarrow> (let (x, db) = act (fw_db w1) in (Inr x, w1\<lparr>fw_db := db\<rparr>)))"

definition select :: "environment \<Rightarrow> (order_db \<Rightarrow> 'a) \<Rightarrow> 'a confirm_prog" where
  "select E f = statement E (\<lambda>db. (f db, db))"

text \<open>A transaction; \<open>committed\<close> is the event of its commit.\<close>

definition transaction ::
  "environment \<Rightarrow> (nat \<Rightarrow> order_db \<Rightarrow> failure + ('a \<times> order_db)) \<Rightarrow> ('a \<Rightarrow> event list) \<Rightarrow> 'a confirm_prog" where
  "transaction E act committed w =
     (let n = fw_tick w;
          w1 = w\<lparr>fw_tick := n + 1, fw_db := en_others E n (fw_db w)\<rparr>
      in case en_tx E n of
           TxRolledBack e \<Rightarrow> (Inl (DatabaseFailure e), w1)
         | TxCommits \<Rightarrow>
             (case act n (fw_db w1) of Inl f \<Rightarrow> (Inl f, w1)
              | Inr (x, db) \<Rightarrow> (Inr x, w1\<lparr>fw_db := db, fw_log := fw_log w1 @ committed x\<rparr>))
         | TxAckLost e \<Rightarrow>
             (case act n (fw_db w1) of Inl f \<Rightarrow> (Inl f, w1)
              | Inr (x, db) \<Rightarrow> (Inl (DatabaseFailure e), w1\<lparr>fw_db := db, fw_log := fw_log w1 @ committed x\<rparr>)))"

text \<open>A call of the key-value server that may be unreachable.\<close>

definition reach :: "(nat \<Rightarrow> 'a option) \<Rightarrow> 'a confirm_prog" where
  "reach f = bnd tick (\<lambda>n. case f n of None \<Rightarrow> raise OtherFailure | Some x \<Rightarrow> ret x)"

definition seat_locks :: "environment \<Rightarrow> unit confirm_prog" where
  "seat_locks E = bnd (reach (en_seats E)) (\<lambda>r. case r of None \<Rightarrow> ret () | Some e \<Rightarrow> raise (Http 409 (SeatHold e)))"

definition call_confirm :: "environment \<Rightarrow> payment_identity \<Rightarrow> int \<Rightarrow> toss_payment confirm_prog" where
  "call_confirm E i amount =
     bnd tick (\<lambda>n. bnd (log_event (ConfirmSent i amount)) (\<lambda>_.
       case en_confirm E n i amount of
         Inl f \<Rightarrow> bnd (log_event (ConfirmRejected i f)) (\<lambda>_. raise f)
       | Inr p \<Rightarrow> bnd (log_event (ConfirmAnswered i p)) (\<lambda>_. ret p)))"

text \<open>A payment of another order under the key is no answer about this order and is not noted.\<close>

definition call_query :: "environment \<Rightarrow> payment_identity \<Rightarrow> toss_payment option confirm_prog" where
  "call_query E i =
     bnd tick (\<lambda>n. case en_query E n (pi_paymentKey i) of
         Inl f \<Rightarrow> raise f
       | Inr None \<Rightarrow> ret None
       | Inr (Some p) \<Rightarrow>
           bnd (if tp_paymentKey p = pi_paymentKey i \<and> tp_orderId p = pi_orderId i then log_event (LookedUp i p) else ret ())
             (\<lambda>_. ret (Some p)))"

definition call_cancel :: "environment \<Rightarrow> cancel_request \<Rightarrow> toss_response confirm_prog" where
  "call_cancel E r = bnd tick (\<lambda>n. bnd (log_event (CancelSent (cr_paymentKey r))) (\<lambda>_. pure (en_cancel E n r)))"

end
