(* ===== verification/Compensation.thy ===== *)
theory Compensation
  imports ConfirmStore
begin

text \<open>
  Undoing an approval that cannot be issued: the compensation functions of
  \<open>reservation-finalization.service.ts\<close>. An approval that no payment row records is first claimed with a
  row that is waiting for its cancellation, then cancelled at the provider, then recorded as cancelled; what
  stays open is handed to the reconcile job.
\<close>

section \<open>The confirm marker and the reconcile job\<close>

definition markProviderConfirmSent :: "environment \<Rightarrow> payment_identity \<Rightarrow> unit confirm_prog" where
  "markProviderConfirmSent E i =
     (if \<not> en_hasMarkers E then ret ()
      else handle (bnd (reach (en_marker E)) (\<lambda>_. alter (\<lambda>w. w\<lparr>fw_markers := pi_orderId i # fw_markers w\<rparr>)))
             (\<lambda>_. raise (Http 503 Unrecordable)))"

definition mayHaveProviderApproval :: "environment \<Rightarrow> js_string \<Rightarrow> bool confirm_prog" where
  "mayHaveProviderApproval E orderId =
     (if \<not> en_hasMarkers E then ret True
      else handle (bnd (reach (en_marker E)) (\<lambda>_. inspect (\<lambda>w. orderId \<in> set (fw_markers w)))) (\<lambda>_. ret True))"

definition job_key :: "reconcile_context \<Rightarrow> payment_identity" where
  "job_key c = payment_identity.truncate (rc_identity c)"

text \<open>The queue keeps one queued job of each approval.\<close>

definition enqueue :: "reconcile_job \<Rightarrow> reconcile_job list \<Rightarrow> reconcile_job list" where
  "enqueue j jobs = (if list_ex (\<lambda>k. job_key (jb_context k) = job_key (jb_context j)) jobs then jobs else jobs @ [j])"

definition scheduleConfirmReconcile ::
  "environment \<Rightarrow> reconcile_context \<Rightarrow> js_string \<Rightarrow> nat \<Rightarrow> int option \<Rightarrow> bool confirm_prog" where
  "scheduleConfirmReconcile E c reason attempt startAfter =
     bnd (clock E) (\<lambda>now.
     bnd tick (\<lambda>n.
       if en_jobs E n then
         bnd (alter (\<lambda>w. w\<lparr>fw_jobs := enqueue \<lparr>jb_context = c, jb_reason = reason, jb_attempt = attempt,
               jb_startAfter = or_else startAfter (now + RECONCILE_INITIAL_DELAY_MS)\<rparr> (fw_jobs w)\<rparr>)) (\<lambda>_.
         bnd (log_event (JobQueued (job_key c) reason)) (\<lambda>_. ret True))
       else bnd (log_event (JobLost (job_key c) reason)) (\<lambda>_. ret False)))"

definition schedule_first :: "environment \<Rightarrow> reconcile_context option \<Rightarrow> js_string \<Rightarrow> unit confirm_prog" where
  "schedule_first E c reason =
     (case c of None \<Rightarrow> ret () | Some c \<Rightarrow> bnd (scheduleConfirmReconcile E c reason 0 None) (\<lambda>_. ret ()))"

definition throwOutcomeUnknown ::
  "environment \<Rightarrow> reconcile_context option \<Rightarrow> js_string \<Rightarrow> message \<Rightarrow> 'a confirm_prog" where
  "throwOutcomeUnknown E c reason msg = bnd (schedule_first E c reason) (\<lambda>_. raise (Http 503 msg))"

section \<open>Cancelling at the provider\<close>

definition cancel_snapshot :: "approved_snapshot \<Rightarrow> cancel_payment" where
  "cancel_snapshot a =
     \<lparr>cp_id = as_existingPaymentId a, cp_paymentKey = as_paymentKey a, cp_provider = as_provider a,
      cp_currency = as_currency a, cp_amount = as_totalAmount a, cp_refundedAmount = None,
      cp_providerRefundedAmountMinor = None,
      cp_metadataSecretKeyScope = (case as_metadata a of None \<Rightarrow> None | Some m \<Rightarrow> md_secretKeyScope m),
      cp_metadataRequestedProvider = (case as_metadata a of None \<Rightarrow> None | Some m \<Rightarrow> md_requestedProvider m),
      cp_providerChargeCurrency = cf_currency (as_charge a), cp_providerChargeAmountMinor = cf_amountMinor (as_charge a)\<rparr>"

definition cancelApprovedPaymentOrThrow ::
  "environment \<Rightarrow> approved_snapshot \<Rightarrow> js_string \<Rightarrow> js_string option \<Rightarrow> bool confirm_prog" where
  "cancelApprovedPaymentOrThrow E a reason idempotencyKey =
     (case buildFullPaymentCancelRequest (cancel_snapshot a) reason
             (nullish idempotencyKey (Some (''reservation-finalization-cancel:'' @ as_orderId a)))
             (nullish (as_existingPaymentId a) (Some (as_orderId a))) of
        Inl e \<Rightarrow> raise OtherFailure
      | Inr command \<Rightarrow>
          handle (bnd (call_cancel E command) (\<lambda>response. ret (isProviderFullCancelCompleted response)))
            (\<lambda>_. raise (Http 500 CancelFailed)))"

definition cancelExistingDonePaymentAfterFailure ::
  "environment \<Rightarrow> approved_snapshot \<Rightarrow> js_string \<Rightarrow> js_string \<Rightarrow> unit confirm_prog" where
  "cancelExistingDonePaymentAfterFailure E a reservationId reason =
     bnd (cancelApprovedPaymentOrThrow E a reason None) (\<lambda>completed.
       if \<not> completed then ret ()
       else bnd (clock E) (\<lambda>now.
            bnd (statement E (\<lambda>db. ((), update_payments (\<lambda>p. Some (py_id p) = as_existingPaymentId a)
                   (\<lambda>p. p\<lparr>py_status := ''CANCELED'', py_cancelledAt := Some now, py_cancelReason := Some reason\<rparr>) db))) (\<lambda>_.
            statement E (\<lambda>db. ((), fail_reservation reservationId db)))))"

section \<open>Reading the finalization\<close>

datatype finalization_state = StCommitted js_string js_string | StCancelled | StNotCommitted | StUnknown

definition readFinalizationState :: "environment \<Rightarrow> js_string \<Rightarrow> js_string \<Rightarrow> finalization_state confirm_prog" where
  "readFinalizationState E reservationId orderId =
     handle
       (bnd (select E (\<lambda>db. find_order_payment db orderId reservationId)) (\<lambda>payment.
          case payment of
            None \<Rightarrow> ret StNotCommitted
          | Some p \<Rightarrow>
              if py_asyncStatus p = Some ''cancel_pending'' \<or> py_status p = ''CANCELED'' \<or> py_status p = ''PARTIAL_CANCELED''
              then ret StCancelled
              else if py_status p \<noteq> ''DONE'' then ret StNotCommitted
              else bnd (select E (\<lambda>db. map_option rs_status (find_reservation db reservationId))) (\<lambda>status.
                     ret (if status = Some ''CONFIRMED'' then StCommitted (py_id p) (py_paymentKey p) else StNotCommitted))))
       (\<lambda>_. ret StUnknown)"

definition cancelApprovalIfCommittedWithAnotherPayment ::
  "environment \<Rightarrow> approved_snapshot \<Rightarrow> js_string \<Rightarrow> unit confirm_prog" where
  "cancelApprovalIfCommittedWithAnotherPayment E a committedKey =
     (if committedKey = as_paymentKey a then ret ()
      else handle
        (bnd (cancelApprovedPaymentOrThrow E (a\<lparr>as_existingPaymentId := None\<rparr>) DUPLICATE_PAYMENT_CANCEL_REASON
                (Some (duplicateCancelIdempotencyKey (as_paymentKey a)))) (\<lambda>_. ret ()))
        (\<lambda>_. schedule_first E (as_reconcile a) ''duplicate_cancel_failed''))"

section \<open>Compensating an approval without a row\<close>

definition charge_values :: "approved_snapshot \<Rightarrow> charge_fields option" where
  "charge_values a =
     (let c = as_charge a
      in if cf_currency c \<in> {None, Some []} \<or> cf_amountMinor c = None \<or> cf_rate c \<in> {None, Some []} \<or> cf_quotedAt c = None
         then None else Some c)"

definition new_payment_row :: "js_string \<Rightarrow> js_string \<Rightarrow> approved_snapshot \<Rightarrow> payment_row" where
  "new_payment_row pid reservationId a =
     \<lparr>py_id = pid, py_reservationId = reservationId, py_paymentKey = as_paymentKey a, py_tossOrderId = as_orderId a,
      py_method = as_method a, py_provider = as_provider a, py_currency = as_currency a, py_asyncStatus = None,
      py_amount = as_totalAmount a, py_status = ''DONE'', py_paidAt = Some (as_approvedAt a), py_cancelledAt = None,
      py_cancelReason = None, py_charge = or_else (charge_values a) no_charge, py_metadata = as_metadata a\<rparr>"

definition claim_row :: "js_string \<Rightarrow> js_string \<Rightarrow> approved_snapshot \<Rightarrow> js_string \<Rightarrow> payment_row" where
  "claim_row pid reservationId a reason =
     (new_payment_row pid reservationId a)\<lparr>py_asyncStatus := Some ''cancel_pending'', py_cancelReason := Some reason,
        py_metadata := Some ((or_else (as_metadata a) no_metadata)\<lparr>md_confirmCompensationClaim := True\<rparr>)\<rparr>"

definition record_diagnostic :: "environment \<Rightarrow> js_string \<Rightarrow> js_string \<times> js_string \<Rightarrow> unit confirm_prog" where
  "record_diagnostic E reservationId kc = statement E (\<lambda>db. ((), put_diagnostic reservationId kc db))"

definition COMPENSATED_DIAGNOSTIC :: "js_string \<times> js_string" where
  "COMPENSATED_DIAGNOSTIC = (''payment_compensated_cancel'', ''CONFIRM_APPROVAL_COMPENSATED'')"

definition claim_still_owned :: "js_string \<Rightarrow> payment_row \<Rightarrow> bool" where
  "claim_still_owned paymentId p \<longleftrightarrow> py_id p = paymentId \<and> py_status p = ''DONE'' \<and> py_asyncStatus p = Some ''cancel_pending''
     \<and> isConfirmCompensationClaimOwned (py_metadata p)"

definition recordCompensatedCancel :: "environment \<Rightarrow> js_string \<Rightarrow> js_string \<Rightarrow> js_string \<Rightarrow> unit confirm_prog" where
  "recordCompensatedCancel E paymentId reservationId reason =
     handle
       (bnd (clock E) (\<lambda>now.
        bnd (transaction E (\<lambda>_ db.
               if list_ex (claim_still_owned paymentId) (fd_payments db)
               then Inr (True, fail_reservation reservationId
                      (update_payments (claim_still_owned paymentId)
                        (\<lambda>p. p\<lparr>py_status := ''CANCELED'', py_asyncStatus := Some ''compensation_cancelled'',
                              py_cancelledAt := Some now, py_cancelReason := Some reason\<rparr>) db))
               else Inr (False, db)) (\<lambda>_. [])) (\<lambda>converged.
          if \<not> converged then ret () else record_diagnostic E reservationId COMPENSATED_DIAGNOSTIC)))
       (\<lambda>_. ret ())"

datatype compensation = Compensated | CancelPending | RecordedElsewhere finalization_state | LeaseLost

definition cancelClaimedApproval ::
  "environment \<Rightarrow> approved_snapshot \<Rightarrow> js_string \<Rightarrow> js_string \<Rightarrow> js_string option \<Rightarrow> compensation confirm_prog" where
  "cancelClaimedApproval E a reservationId reason idempotencyKey =
     bnd (cancelApprovedPaymentOrThrow E a reason idempotencyKey) (\<lambda>completed.
       if \<not> completed then ret CancelPending
       else bnd (recordCompensatedCancel E (or_else (as_existingPaymentId a) []) reservationId reason)
              (\<lambda>_. ret Compensated))"

definition compensateUnrecordedApproval ::
  "environment \<Rightarrow> approved_snapshot \<Rightarrow> js_string \<Rightarrow> js_string \<Rightarrow> js_string option \<Rightarrow> compensation confirm_prog" where
  "compensateUnrecordedApproval E a reservationId reason idempotencyKey =
     bnd (handle (reach (en_refreshLease E)) (\<lambda>_. ret False)) (\<lambda>owned.
       if \<not> owned then ret LeaseLost
       else bnd tick (\<lambda>n.
            let row = claim_row (en_newId E n) reservationId a reason in
            bnd (statement E (insert_payment row)) (\<lambda>claimed.
              if \<not> claimed
              then bnd (readFinalizationState E reservationId (as_orderId a)) (\<lambda>st. ret (RecordedElsewhere st))
              else cancelClaimedApproval E (a\<lparr>as_existingPaymentId := Some (py_id row)\<rparr>) reservationId reason idempotencyKey)))"

definition cancelUnclaimedApproval :: "environment \<Rightarrow> approved_snapshot \<Rightarrow> js_string \<Rightarrow> unit confirm_prog" where
  "cancelUnclaimedApproval E a reason =
     bnd (handle (cancelApprovedPaymentOrThrow E a reason None)
            (\<lambda>e. bnd (schedule_first E (as_reconcile a) ''compensation_cancel_failed'') (\<lambda>_. raise e))) (\<lambda>completed.
       schedule_first E (as_reconcile a)
         (if completed then ''compensation_cancelled_unrecorded'' else ''compensation_cancel_pending''))"

definition compensateConfirmApproval ::
  "environment \<Rightarrow> approved_snapshot \<Rightarrow> js_string \<Rightarrow> js_string \<Rightarrow> unit confirm_prog" where
  "compensateConfirmApproval E a reservationId reason =
     bnd (outcome_of (compensateUnrecordedApproval E a reservationId reason None)) (\<lambda>r.
       case r of
         Inl e \<Rightarrow>
           if is_http e
           then bnd (schedule_first E (as_reconcile a) ''compensation_cancel_failed'') (\<lambda>_. raise e)
           else cancelUnclaimedApproval E a reason
       | Inr Compensated \<Rightarrow> ret ()
       | Inr CancelPending \<Rightarrow> schedule_first E (as_reconcile a) ''compensation_cancel_pending''
       | Inr LeaseLost \<Rightarrow>
           throwOutcomeUnknown E (as_reconcile a) ''confirm_lease_lost_before_compensation'' ConfirmInProgress
       | Inr (RecordedElsewhere (StCommitted pid key)) \<Rightarrow>
           bnd (cancelApprovalIfCommittedWithAnotherPayment E a key) (\<lambda>_. raise (Http 503 ConfirmInProgress))
       | Inr (RecordedElsewhere StCancelled) \<Rightarrow> ret ()
       | Inr (RecordedElsewhere _) \<Rightarrow>
           throwOutcomeUnknown E (as_reconcile a) ''compensation_claim_unresolved'' OutcomePending)"

definition cancelApprovedPaymentAfterFailure ::
  "environment \<Rightarrow> approved_snapshot \<Rightarrow> js_string \<Rightarrow> js_string \<Rightarrow> unit confirm_prog" where
  "cancelApprovedPaymentAfterFailure E a reservationId reason =
     (if as_existingPaymentId a \<noteq> None then cancelExistingDonePaymentAfterFailure E a reservationId reason
      else compensateConfirmApproval E a reservationId reason)"

end
