(* ===== verification/ProviderApproval.thy ===== *)
theory ProviderApproval
  imports Compensation
begin

text \<open>
  The provider's part of payment confirm, from \<open>reservation-finalization.service.ts\<close>: the confirm call, the
  lookup of a payment, what an answer must look like to be accepted, and the rejections that are taken before
  the provider is asked.
\<close>

section \<open>Snapshots and expectations\<close>

definition charge_of :: "provider_charge \<Rightarrow> charge_fields" where
  "charge_of c = \<lparr>cf_currency = Some ''USD'', cf_amountMinor = Some (pc_amountMinor c), cf_rate = Some (pc_rate c),
     cf_quotedAt = Some (pc_quotedAt c)\<rparr>"

definition buildProviderApprovalExpectation :: "bool \<Rightarrow> bool \<Rightarrow> provider_charge option \<Rightarrow> int \<Rightarrow> expectation" where
  "buildProviderApprovalExpectation isPaypal isOverseasCard charge confirmAmount =
     (case (isPaypal, isOverseasCard, charge) of
        (True, _, Some c) \<Rightarrow> \<lparr>xp_route = PAYPAL, xp_currency = USD, xp_amountMinor = pc_amountMinor c, xp_secretKeyScope = DefaultScope\<rparr>
      | (_, True, Some c) \<Rightarrow> \<lparr>xp_route = OVERSEAS_CARD_USD, xp_currency = USD, xp_amountMinor = pc_amountMinor c, xp_secretKeyScope = OverseasCard\<rparr>
      | (_, True, None) \<Rightarrow> \<lparr>xp_route = OVERSEAS_CARD_KRW, xp_currency = KRW, xp_amountMinor = confirmAmount, xp_secretKeyScope = OverseasCard\<rparr>
      | _ \<Rightarrow> \<lparr>xp_route = DOMESTIC, xp_currency = KRW, xp_amountMinor = confirmAmount, xp_secretKeyScope = DefaultScope\<rparr>)"

definition toNewApprovedPaymentSnapshot ::
  "payment_identity \<Rightarrow> int \<Rightarrow> expectation \<Rightarrow> provider_charge option \<Rightarrow> toss_payment \<Rightarrow> int \<Rightarrow> approved_snapshot" where
  "toNewApprovedPaymentSnapshot i totalAmount x charge p now =
     (let isPaypal = (xp_route x = PAYPAL);
          isOverseasCard = (xp_route x = OVERSEAS_CARD_KRW \<or> xp_route x = OVERSEAS_CARD_USD)
      in \<lparr>as_existingPaymentId = None, as_paymentKey = pi_paymentKey i, as_orderId = pi_orderId i,
          as_method = (case tp_method p of Some (c # cs) \<Rightarrow> c # cs | _ \<Rightarrow> if isPaypal then ''FOREIGN_EASY_PAY'' else ''CARD''),
          as_provider = (if isPaypal then ''PAYPAL'' else ''CARD''), as_currency = ''KRW'', as_totalAmount = totalAmount,
          as_approvedAt = or_else (tp_approvedAt p) now, as_asyncStatus = Some ''sync'',
          as_charge = (case charge of None \<Rightarrow> no_charge | Some c \<Rightarrow> charge_of c),
          as_metadata = (if isOverseasCard then Some OVERSEAS_CARD_PROVIDER_METADATA else None),
          as_reconcile = Some \<lparr>rc_identity = payment_identity.truncate i, rc_expectation = x, rc_providerCharge = charge\<rparr>\<rparr>)"

definition toApprovedPaymentSnapshot :: "payment_row \<Rightarrow> int \<Rightarrow> approved_snapshot" where
  "toApprovedPaymentSnapshot p now =
     \<lparr>as_existingPaymentId = Some (py_id p), as_paymentKey = py_paymentKey p, as_orderId = py_tossOrderId p,
      as_method = py_method p, as_provider = py_provider p, as_currency = py_currency p, as_totalAmount = py_amount p,
      as_approvedAt = or_else (py_paidAt p) now, as_asyncStatus = py_asyncStatus p, as_charge = py_charge p,
      as_metadata = py_metadata p, as_reconcile = None\<rparr>"

section \<open>What must have been approved\<close>

datatype mismatch = IdentityMismatch | StatusMismatch | CurrencyMismatch | AmountDiffers | MethodMismatch js_string

text \<open>\<open>tr_totalAmount\<close> is in hundredths, so won amounts are compared hundredfold.\<close>

definition findProviderApprovalMismatch ::
  "toss_payment \<Rightarrow> payment_identity \<Rightarrow> expectation \<Rightarrow> payment_method option \<Rightarrow> js_string list \<Rightarrow> mismatch option" where
  "findProviderApprovalMismatch p i x checkout enforced =
     (if tp_paymentKey p \<noteq> pi_paymentKey i \<or> tp_orderId p \<noteq> pi_orderId i then Some IdentityMismatch
      else if tr_status p \<noteq> ''DONE'' then Some StatusMismatch
      else let currency = map_option (\<lambda>s. js_upper (js_trim s)) (tr_currency p) in
        if \<not> (case xp_currency x of
                USD \<Rightarrow> (case currency of None \<Rightarrow> False | Some c \<Rightarrow> c \<in> set USD_CURRENCY_LABELS)
              | KRW \<Rightarrow> currency = Some ''KRW'') then Some CurrencyMismatch
        else if \<not> (case xp_currency x of
                USD \<Rightarrow> tr_totalAmount p = xp_amountMinor x
              | KRW \<Rightarrow> tr_totalAmount p = 100 * xp_amountMinor x) then Some AmountDiffers
        else if \<not> isAllowedApprovedMethod (tp_method p) (xp_route x) then Some (MethodMismatch ''route'')
        else map_option MethodMismatch
          (findApprovedMethodPolicyMismatch (normalizeTossApprovedMethod (tp_method p) (tp_easyPay p)) checkout enforced))"

section \<open>Looking a payment up\<close>

datatype provider_lookup = LkApproved toss_payment | LkNotApproved "toss_payment option" | LkUnknown

definition lookupProviderPayment :: "environment \<Rightarrow> payment_identity \<Rightarrow> provider_lookup confirm_prog" where
  "lookupProviderPayment E i =
     bnd (outcome_of (call_query E i)) (\<lambda>r.
       case r of
         Inl f \<Rightarrow> ret (if isProviderPaymentNotFound f then LkNotApproved None else LkUnknown)
       | Inr None \<Rightarrow> ret LkUnknown
       | Inr (Some p) \<Rightarrow>
           ret (if tp_paymentKey p \<noteq> pi_paymentKey i \<or> tp_orderId p \<noteq> pi_orderId i then LkNotApproved None
                else if tr_status p \<in> set PROVIDER_APPROVED_STATUSES then LkApproved p
                else LkNotApproved (Some p)))"

section \<open>Recording what the provider did not approve\<close>

definition record_new_row :: "environment \<Rightarrow> payment_row \<Rightarrow> js_string \<times> js_string \<Rightarrow> unit confirm_prog" where
  "record_new_row E row kc =
     handle
       (bnd (transaction E (\<lambda>_ db. let (ok, db1) = insert_payment row db
               in if ok then Inr (True, fail_reservation (py_reservationId row) db1) else Inr (False, db1)) (\<lambda>_. [])) (\<lambda>ok.
          if \<not> ok then ret () else record_diagnostic E (py_reservationId row) kc))
       (\<lambda>_. ret ())"

text \<open>The amount of both recorded rows is the reservation's total; charge and metadata come from the snapshot.\<close>

definition recordProviderNotApprovedPayment ::
  "environment \<Rightarrow> payment_identity \<Rightarrow> reservation_row \<Rightarrow> provider_charge option \<Rightarrow> expectation \<Rightarrow> toss_payment \<Rightarrow> unit confirm_prog" where
  "recordProviderNotApprovedPayment E i r charge x p =
     bnd (clock E) (\<lambda>now.
     bnd tick (\<lambda>n.
       record_new_row E
         ((new_payment_row (en_newId E n) (rs_id r) (toNewApprovedPaymentSnapshot i (rs_totalAmount r) x charge p now))
            \<lparr>py_asyncStatus := Some ''confirm_rejected'', py_status := tr_status p, py_paidAt := None\<rparr>)
         (paymentTerminalFailureDiagnostic (tr_status p))))"

definition last_cancel :: "toss_payment \<Rightarrow> toss_cancel option" where
  "last_cancel p = (case tr_cancels p of Some (c # cs) \<Rightarrow> Some (last (c # cs)) | _ \<Rightarrow> None)"

definition provider_cancel_reason :: "toss_payment \<Rightarrow> js_string" where
  "provider_cancel_reason p =
     (case last_cancel p of None \<Rightarrow> PROVIDER_CANCELLED_REASON
      | Some c \<Rightarrow> (case tc_cancelReason c of None \<Rightarrow> PROVIDER_CANCELLED_REASON
          | Some s \<Rightarrow> text_or (js_trim s) PROVIDER_CANCELLED_REASON))"

definition recordProviderCancelledApproval ::
  "environment \<Rightarrow> payment_identity \<Rightarrow> reservation_row \<Rightarrow> provider_charge option \<Rightarrow> expectation \<Rightarrow> toss_payment \<Rightarrow> unit confirm_prog" where
  "recordProviderCancelledApproval E i r charge x p =
     bnd (clock E) (\<lambda>now.
     bnd tick (\<lambda>n.
       record_new_row E
         ((new_payment_row (en_newId E n) (rs_id r) (toNewApprovedPaymentSnapshot i (rs_totalAmount r) x charge p now))
            \<lparr>py_asyncStatus := Some ''compensation_cancelled'', py_status := ''CANCELED'', py_paidAt := tp_approvedAt p,
             py_cancelledAt := Some (or_else (case last_cancel p of None \<Rightarrow> None | Some c \<Rightarrow> tc_canceledAt c) now),
             py_cancelReason := Some (provider_cancel_reason p)\<rparr>)
         COMPENSATED_DIAGNOSTIC))"

definition recordProviderNotApprovedPaymentIfTerminal ::
  "environment \<Rightarrow> payment_identity \<Rightarrow> reservation_row \<Rightarrow> provider_charge option \<Rightarrow> expectation \<Rightarrow> toss_payment option \<Rightarrow> unit confirm_prog" where
  "recordProviderNotApprovedPaymentIfTerminal E i r charge x payment =
     (case payment of
        None \<Rightarrow> ret ()
      | Some p \<Rightarrow>
          if tr_status p \<in> set PROVIDER_NOT_APPROVED_STATUSES then recordProviderNotApprovedPayment E i r charge x p
          else if tr_status p = ''CANCELED'' then recordProviderCancelledApproval E i r charge x p
          else ret ())"

section \<open>A failed confirm call\<close>

definition reconcileFailedProviderConfirm ::
  "environment \<Rightarrow> payment_identity \<Rightarrow> reservation_row \<Rightarrow> provider_charge option \<Rightarrow> expectation \<Rightarrow> failure \<Rightarrow> toss_payment confirm_prog" where
  "reconcileFailedProviderConfirm E i r charge x confirmError =
     (let outcomeUnknown = isTossConfirmOutcomeUnknown confirmError;
          unresolved =
            (if \<not> outcomeUnknown then raise (toDefinitiveConfirmRejection confirmError)
             else throwOutcomeUnknown E
               (Some \<lparr>rc_identity = payment_identity.truncate i, rc_expectation = x, rc_providerCharge = charge\<rparr>)
               ''provider_confirm_unresolved'' OutcomePending)
      in bnd (handle (call_query E i) (\<lambda>_. ret None)) (\<lambda>queried.
           case queried of
             None \<Rightarrow> unresolved
           | Some p \<Rightarrow>
               if tp_paymentKey p = pi_paymentKey i \<and> tp_orderId p = pi_orderId i then
                 (if tr_status p \<in> set PROVIDER_APPROVED_STATUSES then ret p
                  else if tr_status p = ''CANCELED'' then
                    bnd (recordProviderCancelledApproval E i r charge x p) (\<lambda>_. raise (Http 409 CancelInProgress))
                  else if tr_status p \<in> set PROVIDER_NOT_APPROVED_STATUSES then
                    bnd (recordProviderNotApprovedPayment E i r charge x p) (\<lambda>_.
                      raise (if outcomeUnknown then Http 409 NotApproved else toDefinitiveConfirmRejection confirmError))
                  else unresolved)
               else unresolved))"

section \<open>Approving\<close>

definition loadShowtimeSaleContext :: "environment \<Rightarrow> js_string \<Rightarrow> (int \<times> js_string list option) confirm_prog" where
  "loadShowtimeSaleContext E showtimeId =
     bnd (select E (\<lambda>db. case fd_showtimes db showtimeId of
           None \<Rightarrow> None
         | Some s \<Rightarrow> (case sh_dateTime s of None \<Rightarrow> None
             | Some at \<Rightarrow> Some (at, case fd_policies db (sh_performanceId s) of None \<Rightarrow> None
                 | Some b \<Rightarrow> bp_allowedPaymentMethods b)))) (\<lambda>row.
       case row of None \<Rightarrow> raise (Http 404 ShowtimeMissing) | Some c \<Rightarrow> ret c)"

definition mismatch_cancel_reason :: "mismatch \<Rightarrow> js_string" where
  "mismatch_cancel_reason m =
     (case m of StatusMismatch \<Rightarrow> NOT_DONE_CANCEL_REASON | MethodMismatch d \<Rightarrow> METHOD_CANCEL_REASON
      | _ \<Rightarrow> MISMATCH_CANCEL_REASON)"

text \<open>\<open>amount\<close> is the amount sent to the provider, in hundredths of the charge currency.\<close>

definition request_provider_approval ::
  "environment \<Rightarrow> payment_identity \<Rightarrow> reservation_row \<Rightarrow> int \<Rightarrow> provider_charge option \<Rightarrow> expectation \<Rightarrow> int \<Rightarrow> toss_payment confirm_prog" where
  "request_provider_approval E i r amount charge x startsAt =
     bnd (clock E) (\<lambda>now.
       if isShowtimeSalesClosed (Some startsAt) now then
         bnd (mayHaveProviderApproval E (pi_orderId i)) (\<lambda>may.
           if \<not> may then raise (Http 403 SalesClosed)
           else bnd (lookupProviderPayment E i) (\<lambda>lookup.
             case lookup of
               LkUnknown \<Rightarrow> throwOutcomeUnknown E
                 (Some \<lparr>rc_identity = payment_identity.truncate i, rc_expectation = x, rc_providerCharge = charge\<rparr>)
                 ''closed_showtime_lookup_failed'' OutcomePending
             | LkNotApproved p \<Rightarrow>
                 bnd (recordProviderNotApprovedPaymentIfTerminal E i r charge x p) (\<lambda>_. raise (Http 403 SalesClosed))
             | LkApproved p \<Rightarrow> ret p))
       else
         bnd (markProviderConfirmSent E i) (\<lambda>_.
           handle (call_confirm E i amount) (reconcileFailedProviderConfirm E i r charge x)))"

definition approvePaymentWithProvider ::
  "environment \<Rightarrow> payment_identity \<Rightarrow> reservation_row \<Rightarrow> int \<Rightarrow> provider_charge option \<Rightarrow> expectation \<Rightarrow> approved_snapshot confirm_prog" where
  "approvePaymentWithProvider E i r amount charge x =
     bnd (loadShowtimeSaleContext E (rs_showtimeId r)) (\<lambda>(startsAt, allowed).
     bnd (request_provider_approval E i r amount charge x startsAt) (\<lambda>p.
     bnd (clock E) (\<lambda>now.
       let a = toNewApprovedPaymentSnapshot i (rs_totalAmount r) x charge p now in
       (case findProviderApprovalMismatch p i x (rs_checkoutPaymentMethod r) (resolveEnforcedAllowedPaymentMethods allowed) of
          None \<Rightarrow> ret a
        | Some m \<Rightarrow>
            bnd (cancelApprovedPaymentAfterFailure E a (rs_id r) (mismatch_cancel_reason m)) (\<lambda>_.
              raise (if m = StatusMismatch then Http 409 ApprovalNotDone else Http 400 ApprovalMismatch))))))"

section \<open>Rejections before the provider is asked\<close>

text \<open>An approval that was found is compensated; what stays open goes to the reconcile job.\<close>

definition compensate_then_reject ::
  "environment \<Rightarrow> reconcile_context \<Rightarrow> approved_snapshot \<Rightarrow> js_string \<Rightarrow> failure \<Rightarrow> js_string \<Rightarrow> unit confirm_prog" where
  "compensate_then_reject E c a reservationId rejection cancelReason =
     bnd (outcome_of (compensateUnrecordedApproval E a reservationId cancelReason None)) (\<lambda>result.
       case result of
         Inl e \<Rightarrow>
           if is_http e
           then bnd (scheduleConfirmReconcile E c ''compensation_cancel_failed'' 0 None) (\<lambda>_. raise e)
           else throwOutcomeUnknown E (Some c) ''compensation_claim_failed'' OutcomePending
       | Inr CancelPending \<Rightarrow>
           bnd (scheduleConfirmReconcile E c ''compensation_cancel_pending'' 0 None) (\<lambda>_. raise rejection)
       | Inr Compensated \<Rightarrow> raise rejection
       | Inr LeaseLost \<Rightarrow>
           throwOutcomeUnknown E (Some c) ''confirm_lease_lost_before_compensation'' ConfirmInProgress
       | Inr (RecordedElsewhere StCancelled) \<Rightarrow> raise rejection
       | Inr (RecordedElsewhere (StCommitted pid key)) \<Rightarrow>
           bnd (cancelApprovalIfCommittedWithAnotherPayment E a key) (\<lambda>_. raise (Http 503 ConfirmInProgress))
       | Inr (RecordedElsewhere _) \<Rightarrow>
           throwOutcomeUnknown E (Some c) ''compensation_claim_unresolved'' OutcomePending)"

definition rejectBeforeApprovalWithoutLocalPayment ::
  "environment \<Rightarrow> payment_identity \<Rightarrow> reservation_row \<Rightarrow> provider_charge option \<Rightarrow> expectation \<Rightarrow> js_string \<Rightarrow> failure \<Rightarrow> js_string
     \<Rightarrow> unit confirm_prog" where
  "rejectBeforeApprovalWithoutLocalPayment E i r charge x gate rejection cancelReason =
     (let c = \<lparr>rc_identity = payment_identity.truncate i, rc_expectation = x, rc_providerCharge = charge\<rparr> in
      bnd (mayHaveProviderApproval E (pi_orderId i)) (\<lambda>may.
        if \<not> may then raise rejection
        else bnd (lookupProviderPayment E i) (\<lambda>lookup.
          case lookup of
            LkUnknown \<Rightarrow> throwOutcomeUnknown E (Some c) (''pre_approval_'' @ gate @ ''_lookup_failed'') OutcomePending
          | LkNotApproved p \<Rightarrow>
              bnd (recordProviderNotApprovedPaymentIfTerminal E i r charge x p) (\<lambda>_. raise rejection)
          | LkApproved p \<Rightarrow>
              bnd (clock E) (\<lambda>now.
                compensate_then_reject E c (toNewApprovedPaymentSnapshot i (rs_totalAmount r) x charge p now)
                  (rs_id r) rejection cancelReason))))"

end
