(* ===== verification/ConfirmFlow.thy ===== *)
theory ConfirmFlow
  imports ProviderApproval
begin

text \<open>
  Payment confirm: \<open>confirmAndCreateReservation\<close> of \<open>reservation-finalization.service.ts\<close>, from the lease over
  the gates and the provider's approval to the issuance transaction and its retries.
\<close>

section \<open>The requested charge\<close>

definition resolve_charge :: "environment \<Rightarrow> js_string \<Rightarrow> charge_fields \<Rightarrow> failure + provider_charge" where
  "resolve_charge E amountText c =
     (if \<not> en_quotes E then Inl (Http 400 ChargeUnverifiable)
      else case parseProviderDecimalToMinor amountText of
        Inl e \<Rightarrow> Inl (Http 400 ChargeMalformed)
      | Inr amountMinor \<Rightarrow>
          (case (cf_rate c, cf_quotedAt c) of
             (Some (r # rs), Some quotedAt) \<Rightarrow>
               if cf_currency c \<noteq> Some ''USD'' \<or> cf_amountMinor c \<noteq> Some amountMinor then Inl (Http 400 ChargeMismatch)
               else Inr \<lparr>pc_amountMinor = amountMinor, pc_amountDecimal = amountText, pc_rate = r # rs, pc_quotedAt = quotedAt\<rparr>
           | _ \<Rightarrow> Inl (Http 400 ChargeMismatch)))"

definition resolvePaypalProviderCharge :: "environment \<Rightarrow> js_string \<Rightarrow> reservation_row \<Rightarrow> failure + provider_charge" where
  "resolvePaypalProviderCharge E amountText r = resolve_charge E amountText (rs_charge r)"

definition resolveOverseasCardProviderCharge :: "environment \<Rightarrow> js_string \<Rightarrow> reservation_row \<Rightarrow> failure + provider_charge" where
  "resolveOverseasCardProviderCharge E amountText r = resolve_charge E amountText (rs_charge r)"

definition isPaypalConfirmPaymentRequest :: "confirm_kind \<Rightarrow> bool" where
  "isPaypalConfirmPaymentRequest k = (case k of PaypalRequest _ \<Rightarrow> True | _ \<Rightarrow> False)"

definition isOverseasCardConfirmPaymentRequest :: "confirm_kind \<Rightarrow> bool" where
  "isOverseasCardConfirmPaymentRequest k =
     (case k of OverseasCharge _ \<Rightarrow> True | OverseasAmount _ \<Rightarrow> True | OverseasBare \<Rightarrow> True | _ \<Rightarrow> False)"

definition is_done :: "payment_row option \<Rightarrow> bool" where
  "is_done p = (map_option py_status p = Some ''DONE'')"

text \<open>The charge and the amount in won of the request; an empty charge text is no charge.\<close>

definition requested_amount ::
  "environment \<Rightarrow> confirm_kind \<Rightarrow> reservation_row \<Rightarrow> payment_row option \<Rightarrow> failure + (provider_charge option \<times> int)" where
  "requested_amount E k r existing =
     (let bare = (if rs_status r = ''CONFIRMED'' \<and> is_done existing then Inr (None, rs_totalAmount r)
                  else Inl (Http 400 AmountMissing));
          charged = map_sum id (\<lambda>c. (Some c, 0))
      in case k of
           PaypalRequest t \<Rightarrow> charged (resolvePaypalProviderCharge E t r)
         | OverseasCharge t \<Rightarrow> if t = [] then bare else charged (resolveOverseasCardProviderCharge E t r)
         | OverseasAmount n \<Rightarrow> Inr (None, n)
         | OverseasBare \<Rightarrow> bare
         | DomesticAmount n \<Rightarrow> Inr (None, n)
         | DomesticBare \<Rightarrow> Inl (Http 400 AmountMissing))"

definition calculatePayableTotal :: "order_seat list \<Rightarrow> int" where
  "calculatePayableTotal seats = sum_list (map os_price seats) + int (length seats) * TICKET_SERVICE_FEE_KRW"

definition getReservationSeatSelections :: "order_db \<Rightarrow> js_string \<Rightarrow> order_seat list" where
  "getReservationSeatSelections db reservationId =
     map (\<lambda>(_, s). toFloorAwareSeatSelection s no_defaults) (filter (\<lambda>(rid, _). rid = reservationId) (fd_seats db))"

section \<open>An existing payment\<close>

definition assertExistingDonePaymentMatchesRequest ::
  "environment \<Rightarrow> payment_row \<Rightarrow> reservation_row \<Rightarrow> confirm_request \<Rightarrow> failure option" where
  "assertExistingDonePaymentMatchesRequest E p r dto =
     (let charged = (\<lambda>provider t.
            if \<not> en_quotes E then Some (Http 400 ChargeMismatch)
            else case parseProviderDecimalToMinor t of
              Inl e \<Rightarrow> Some OtherFailure
            | Inr m \<Rightarrow>
                if py_provider p \<noteq> provider \<or> py_amount p \<noteq> rs_totalAmount r \<or> cf_amountMinor (py_charge p) \<noteq> Some m
                   \<or> cf_amountMinor (rs_charge r) \<noteq> Some m then Some (Http 400 ChargeMismatch) else None);
          plain = (\<lambda>requested. if py_amount p \<noteq> rs_totalAmount r \<or> Some (py_amount p) \<noteq> requested
            then Some (Http 400 AmountMismatch) else None)
      in if py_reservationId p \<noteq> rs_id r \<or> py_paymentKey p \<noteq> pi_paymentKey dto \<or> py_tossOrderId p \<noteq> pi_orderId dto
         then Some (Http 400 PaymentMismatch)
         else case cd_kind dto of
           PaypalRequest t \<Rightarrow> charged ''PAYPAL'' t
         | OverseasCharge t \<Rightarrow> if t = [] then plain (Some (rs_totalAmount r)) else charged ''CARD'' t
         | OverseasAmount _ \<Rightarrow> plain (Some (rs_totalAmount r))
         | OverseasBare \<Rightarrow> plain (Some (rs_totalAmount r))
         | DomesticAmount n \<Rightarrow> plain (Some n)
         | DomesticBare \<Rightarrow> plain None)"

definition canBackfillOverseasCardProviderMetadata ::
  "environment \<Rightarrow> payment_row \<Rightarrow> reservation_row \<Rightarrow> confirm_request \<Rightarrow> bool" where
  "canBackfillOverseasCardProviderMetadata E p r dto \<longleftrightarrow>
     py_provider p = ''CARD'' \<and> py_method p = ''CARD'' \<and> assertExistingDonePaymentMatchesRequest E p r dto = None"

definition hasOverseasCardProviderMetadata :: "metadata option \<Rightarrow> bool" where
  "hasOverseasCardProviderMetadata md =
     (case md of None \<Rightarrow> False
      | Some m \<Rightarrow> md_secretKeyScope m = Some ''overseas-card''
          \<or> map_option js_upper (md_requestedProvider m) = Some ''OVERSEAS_CARD'')"

definition assertExistingDonePaymentCanSatisfyOverseasCardRequest ::
  "environment \<Rightarrow> payment_row \<Rightarrow> reservation_row \<Rightarrow> confirm_request \<Rightarrow> failure option" where
  "assertExistingDonePaymentCanSatisfyOverseasCardRequest E p r dto =
     (if \<not> isOverseasCardConfirmPaymentRequest (cd_kind dto) then None
      else if hasOverseasCardProviderMetadata (py_metadata p) \<or> canBackfillOverseasCardProviderMetadata E p r dto then None
      else Some (Http 400 OverseasMismatch))"

definition assertCheckoutMethodMatchesProviderChargeRequest :: "confirm_kind \<Rightarrow> payment_method option \<Rightarrow> failure option" where
  "assertCheckoutMethodMatchesProviderChargeRequest k checkout =
     (if isPaypalConfirmPaymentRequest k then
        (if \<not> isPaypalCheckoutMethod checkout then Some (Http 400 RouteMismatch) else None)
      else if isOverseasCardConfirmPaymentRequest k then
        (case k of
           OverseasCharge t \<Rightarrow> if t \<noteq> [] \<and> \<not> isOverseasCardCheckoutMethod checkout then Some (Http 400 RouteMismatch) else None
         | _ \<Rightarrow> None)
      else if isPaypalCheckoutMethod checkout \<or> isOverseasCardCheckoutMethod checkout then Some (Http 400 RouteMismatch)
      else None)"

definition backfillOverseasCardProviderMetadataIfMissing :: "environment \<Rightarrow> payment_row \<Rightarrow> unit confirm_prog" where
  "backfillOverseasCardProviderMetadataIfMissing E p =
     (if py_metadata p \<noteq> None then ret ()
      else statement E (\<lambda>db. ((), update_payments (\<lambda>q. py_id q = py_id p \<and> py_metadata q = None)
             (\<lambda>q. q\<lparr>py_metadata := Some OVERSEAS_CARD_PROVIDER_METADATA\<rparr>) db)))"

section \<open>The order under confirmation\<close>

record order =
  or_request :: confirm_request
  or_userId :: js_string
  or_reservation :: reservation_row
  or_existing :: "payment_row option"
  or_seats :: "order_seat list"
  or_charge :: "provider_charge option"
  or_amount :: int

definition or_identity :: "order \<Rightarrow> payment_identity" where
  "or_identity o1 = payment_identity.truncate (or_request o1)"

definition or_expectation :: "order \<Rightarrow> expectation" where
  "or_expectation o1 =
     buildProviderApprovalExpectation (isPaypalConfirmPaymentRequest (cd_kind (or_request o1)))
       (isOverseasCardConfirmPaymentRequest (cd_kind (or_request o1))) (or_charge o1) (or_amount o1)"

text \<open>What the provider is asked to charge, in hundredths: the quoted cents, or the won amount.\<close>

definition or_sent_amount :: "order \<Rightarrow> int" where
  "or_sent_amount o1 = (case or_charge o1 of Some c \<Rightarrow> pc_amountMinor c | None \<Rightarrow> 100 * or_amount o1)"

section \<open>The gates\<close>

definition isPastWindow :: "int option \<Rightarrow> int \<Rightarrow> bool" where
  "isPastWindow v now = (case v of None \<Rightarrow> False | Some t \<Rightarrow> t < now)"

text \<open>A gate that rejects: a recorded payment is refunded, without a row the provider decides.\<close>

definition undo_before_rejection :: "environment \<Rightarrow> order \<Rightarrow> js_string \<Rightarrow> failure \<Rightarrow> js_string \<Rightarrow> unit confirm_prog" where
  "undo_before_rejection E o1 gate rejection reason =
     (case or_existing o1 of
        Some p \<Rightarrow>
          if py_status p = ''DONE'' then
            bnd (clock E) (\<lambda>now. cancelExistingDonePaymentAfterFailure E (toApprovedPaymentSnapshot p now) (rs_id (or_reservation o1)) reason)
          else ret ()
      | None \<Rightarrow> rejectBeforeApprovalWithoutLocalPayment E (or_identity o1) (or_reservation o1) (or_charge o1) (or_expectation o1)
                  gate rejection reason)"

definition admission_gate :: "environment \<Rightarrow> order \<Rightarrow> unit confirm_prog" where
  "admission_gate E o1 =
     bnd (clock E) (\<lambda>now.
       if \<not> isPastWindow (rs_admissionActiveUntilAt (or_reservation o1)) now then ret ()
       else bnd (undo_before_rejection E o1 ''admission_window'' (Http 409 HoldExpired) ADMISSION_WINDOW_CANCEL_REASON)
              (\<lambda>_. raise (Http 409 HoldExpired)))"

definition existing_payment_gate :: "environment \<Rightarrow> order \<Rightarrow> unit confirm_prog" where
  "existing_payment_gate E o1 =
     (case or_existing o1 of
        None \<Rightarrow>
          (case assertCheckoutMethodMatchesProviderChargeRequest (cd_kind (or_request o1)) (rs_checkoutPaymentMethod (or_reservation o1)) of
             Some e \<Rightarrow> raise e | None \<Rightarrow> ret ())
      | Some p \<Rightarrow>
          if py_status p \<noteq> ''DONE'' then raise (Http 409 HoldExpired)
          else (case assertExistingDonePaymentCanSatisfyOverseasCardRequest E p (or_reservation o1) (or_request o1) of
              Some e \<Rightarrow> raise e
            | None \<Rightarrow> (case assertExistingDonePaymentMatchesRequest E p (or_reservation o1) (or_request o1) of
                Some e \<Rightarrow> raise e | None \<Rightarrow> ret ())))"

text \<open>The rows that the ticket count reads.\<close>

definition limit_view :: "order_db \<Rightarrow> limit_db" where
  "limit_view db =
     \<lparr>db_tickets = map (\<lambda>k. \<lparr>tk_user = (case find_reservation db (ki_reservationId k) of None \<Rightarrow> [] | Some r \<Rightarrow> rs_userId r),
         tk_performance = (case fd_showtimes db (ki_showtimeId k) of None \<Rightarrow> [] | Some s \<Rightarrow> sh_performanceId s),
         tk_reservation = ki_reservationId k,
         tk_reservationStatus = (case find_reservation db (ki_reservationId k) of None \<Rightarrow> [] | Some r \<Rightarrow> rs_status r),
         tk_status = ki_status k\<rparr>) (fd_tickets db),
      db_pending = [], db_accounts = fd_accounts db\<rparr>"

record limit_snapshot =
  ls_performanceId :: js_string
  ls_maxTicketsPerUser :: int
  ls_activeTicketCount :: int

definition getTicketLimitSnapshot ::
  "environment \<Rightarrow> js_string \<Rightarrow> js_string \<Rightarrow> js_string \<Rightarrow> order_db \<Rightarrow> failure + limit_snapshot" where
  "getTicketLimitSnapshot E userId reservationId showtimeId db =
     (case fd_showtimes db showtimeId of
        None \<Rightarrow> Inl (Http 404 ShowtimeMissing)
      | Some s \<Rightarrow>
          Inr \<lparr>ls_performanceId = sh_performanceId s,
               ls_maxTicketsPerUser = (case fd_policies db (sh_performanceId s) of None \<Rightarrow> DEFAULT_MAX_TICKETS
                 | Some b \<Rightarrow> bp_maxTicketsPerUser b),
               ls_activeTicketCount =
                 snapshot_activeTicketCount (en_phone E) (limit_view db) 0 userId reservationId (sh_performanceId s)\<rparr>)"

definition over_limit :: "limit_snapshot \<Rightarrow> order_seat list \<Rightarrow> bool" where
  "over_limit l seats \<longleftrightarrow> ls_activeTicketCount l + int (length seats) > ls_maxTicketsPerUser l"

definition ticket_limit_gate :: "environment \<Rightarrow> order \<Rightarrow> unit confirm_prog" where
  "ticket_limit_gate E o1 =
     bnd (select E (getTicketLimitSnapshot E (or_userId o1) (rs_id (or_reservation o1)) (rs_showtimeId (or_reservation o1)))) (\<lambda>r.
     bnd (pure r) (\<lambda>l.
       if \<not> over_limit l (or_seats o1) then ret ()
       else bnd (undo_before_rejection E o1 ''ticket_limit'' (Http 409 (TicketLimitExceeded (ls_maxTicketsPerUser l)))
                   TICKET_LIMIT_CANCEL_REASON)
              (\<lambda>_. raise (Http 409 (TicketLimitExceeded (ls_maxTicketsPerUser l))))))"

definition hold_cancel_reason :: "failure \<Rightarrow> js_string" where
  "hold_cancel_reason e = (if e = Http 409 (SeatHold SeatStopped) then SEAT_UNAVAILABLE_CANCEL_REASON else HOLD_LOST_CANCEL_REASON)"

definition seat_hold_gate :: "environment \<Rightarrow> order \<Rightarrow> unit confirm_prog" where
  "seat_hold_gate E o1 =
     handle (seat_locks E) (\<lambda>e.
       bnd (if is_done (or_existing o1) \<or> or_existing o1 = None \<and> is_http e
            then undo_before_rejection E o1 ''seat_hold'' e (hold_cancel_reason e) else ret ())
         (\<lambda>_. raise e))"

section \<open>The issuance transaction\<close>

definition unique_violation :: db_error where
  "unique_violation = [\<lparr>el_code = Some ''23505'', el_message = None, el_constraint = None\<rparr>]"

definition ticket_row_of :: "js_string \<Rightarrow> js_string \<Rightarrow> js_string \<Rightarrow> order_seat \<Rightarrow> ticket_item_row" where
  "ticket_row_of reservationId paymentId showtimeId s =
     \<lparr>ki_reservationId = reservationId, ki_paymentId = paymentId, ki_showtimeId = showtimeId, ki_seatId = in_seatId s,
      ki_seatKey = order_seat_key s, ki_price = os_price s, ki_serviceFee = TICKET_SERVICE_FEE_KRW, ki_status = ''active''\<rparr>"

definition seat_taken :: "ticket_item_row \<Rightarrow> ticket_item_row \<Rightarrow> bool" where
  "seat_taken k j \<longleftrightarrow> ki_showtimeId j = ki_showtimeId k \<and> ki_seatKey j = ki_seatKey k \<and> ki_status j \<in> set ACTIVE_TICKET_ITEM_STATUSES"

text \<open>One row after the other, under both unique indexes of the table.\<close>

fun insert_tickets :: "ticket_item_row list \<Rightarrow> ticket_item_row list \<Rightarrow> failure + ticket_item_row list" where
  "insert_tickets rows [] = Inr rows"
| "insert_tickets rows (k # ks) =
     (if list_ex (\<lambda>j. ki_reservationId j = ki_reservationId k \<and> ki_seatKey j = ki_seatKey k) rows
        then Inl (DatabaseFailure unique_violation)
      else if list_ex (seat_taken k) rows then Inl (Http 409 SeatUnsellable)
      else insert_tickets (rows @ [k]) ks)"

definition same_inventory_seat :: "js_string \<Rightarrow> order_seat \<Rightarrow> inventory_row \<Rightarrow> bool" where
  "same_inventory_seat showtimeId s iv \<longleftrightarrow> iv_showtimeId iv = showtimeId \<and> iv_floorKey iv = order_floor_key s
     \<and> (iv_seatKey iv = Some (order_seat_key s) \<or> iv_seatKey iv = None \<and> iv_seatId iv = in_seatId s)"

fun sell_seats :: "js_string \<Rightarrow> order_seat list \<Rightarrow> inventory_row list \<Rightarrow> failure + inventory_row list" where
  "sell_seats showtimeId [] rows = Inr rows"
| "sell_seats showtimeId (s # ss) rows =
     (let free = (\<lambda>iv. same_inventory_seat showtimeId s iv \<and> iv_status iv = ''available'')
      in if list_ex free rows
         then sell_seats showtimeId ss (map (\<lambda>iv. if free iv then iv\<lparr>iv_status := ''sold''\<rparr> else iv) rows)
         else if list_ex (\<lambda>iv. iv_showtimeId iv = showtimeId \<and> iv_floorKey iv = order_floor_key s
                   \<and> iv_seatKey iv = Some (order_seat_key s)) rows
         then Inl (Http 409 SeatUnsellable)
         else sell_seats showtimeId ss (rows @ [\<lparr>iv_showtimeId = showtimeId, iv_floorKey = order_floor_key s,
                iv_seatKey = Some (order_seat_key s), iv_seatId = in_seatId s, iv_status = ''sold''\<rparr>]))"

definition commit_payment ::
  "js_string \<Rightarrow> js_string \<Rightarrow> approved_snapshot \<Rightarrow> order_db \<Rightarrow> failure + (js_string \<times> order_db)" where
  "commit_payment newId reservationId a db =
     (case as_existingPaymentId a of
        Some pid \<Rightarrow>
          Inr (pid, update_payments (\<lambda>p. py_id p = pid)
            (\<lambda>p. p\<lparr>py_status := ''DONE'', py_amount := as_totalAmount a, py_paidAt := Some (as_approvedAt a),
                  py_asyncStatus := Some (or_else (as_asyncStatus a) ''pending_webhook''),
                  py_charge := or_else (charge_values a) (py_charge p),
                  py_metadata := (case as_metadata a of None \<Rightarrow> py_metadata p | Some m \<Rightarrow> Some m)\<rparr>) db)
      | None \<Rightarrow>
          (case insert_payment ((new_payment_row newId reservationId a)
                  \<lparr>py_asyncStatus := Some (or_else (as_asyncStatus a) ''sync'')\<rparr>) db of
             (True, db1) \<Rightarrow> Inr (newId, db1)
           | (False, db1) \<Rightarrow> Inl (DatabaseFailure unique_violation)))"

definition commitFinalization ::
  "environment \<Rightarrow> order \<Rightarrow> approved_snapshot \<Rightarrow> nat \<Rightarrow> order_db \<Rightarrow> failure + (js_string \<times> order_db)" where
  "commitFinalization E o1 a n db =
     (let r = or_reservation o1; seats = or_seats o1
      in case getTicketLimitSnapshot E (or_userId o1) (rs_id r) (rs_showtimeId r) db of
        Inl f \<Rightarrow> Inl f
      | Inr l \<Rightarrow>
          if over_limit l seats then Inl (Http 409 (TicketLimitExceeded (ls_maxTicketsPerUser l)))
          else (case commit_payment (en_newId E n) (rs_id r) a
                       (update_reservations (\<lambda>q. rs_id q = rs_id r) ''CONFIRMED'' db) of
              Inl f \<Rightarrow> Inl f
            | Inr (pid, db1) \<Rightarrow>
                (case insert_tickets (fd_tickets db1) (map (ticket_row_of (rs_id r) pid (rs_showtimeId r)) seats) of
                   Inl f \<Rightarrow> Inl f
                 | Inr tickets \<Rightarrow>
                     (case en_benefits E n of
                        Some e \<Rightarrow> Inl (DatabaseFailure e)
                      | None \<Rightarrow>
                          (case sell_seats (rs_showtimeId r) seats (fd_inventory db1) of
                             Inl f \<Rightarrow> Inl f
                           | Inr inventory \<Rightarrow> Inr (pid, db1\<lparr>fd_tickets := tickets, fd_inventory := inventory\<rparr>))))))"

section \<open>Committing\<close>

definition resolvePostApprovalConflictCancelReason :: "failure \<Rightarrow> js_string" where
  "resolvePostApprovalConflictCancelReason e =
     (case e of Http s (TicketLimitExceeded n) \<Rightarrow> TICKET_LIMIT_CANCEL_REASON | _ \<Rightarrow> SEAT_UNAVAILABLE_CANCEL_REASON)"

definition error_chain :: "failure \<Rightarrow> db_error" where
  "error_chain f = (case f of DatabaseFailure e \<Rightarrow> e | _ \<Rightarrow> [])"

definition throwIfCommitUnverifiable ::
  "environment \<Rightarrow> approved_snapshot \<Rightarrow> bool \<Rightarrow> finalization_state \<Rightarrow> unit confirm_prog" where
  "throwIfCommitUnverifiable E a mayHaveCommitted st =
     (if st \<noteq> StUnknown \<or> \<not> mayHaveCommitted then ret ()
      else throwOutcomeUnknown E (as_reconcile a) ''finalization_commit_unverified'' OutcomePending)"

text \<open>One turn of the loop; \<open>again\<close> is the next one, while there is one.\<close>

definition commit_turn ::
  "environment \<Rightarrow> order \<Rightarrow> approved_snapshot \<Rightarrow> (bool \<Rightarrow> js_string confirm_prog) option \<Rightarrow> bool \<Rightarrow> js_string confirm_prog" where
  "commit_turn E o1 a again may =
     bnd (outcome_of (transaction E (commitFinalization E o1 a) (\<lambda>pid. [Committed a pid]))) (\<lambda>r.
       case r of
         Inr pid \<Rightarrow> ret pid
       | Inl e \<Rightarrow>
           (let may1 = (may \<or> isConnectionLossDatabaseError (error_chain e)) in
            bnd (readFinalizationState E (rs_id (or_reservation o1)) (pi_orderId (or_request o1))) (\<lambda>st.
              case st of
                StCommitted pid key \<Rightarrow> bnd (cancelApprovalIfCommittedWithAnotherPayment E a key) (\<lambda>_. ret pid)
              | StCancelled \<Rightarrow> raise (Http 409 CancelInProgress)
              | _ \<Rightarrow>
                  if is_conflict e then
                    bnd (throwIfCommitUnverifiable E a may1 st) (\<lambda>_.
                    bnd (cancelApprovedPaymentAfterFailure E a (rs_id (or_reservation o1))
                           (resolvePostApprovalConflictCancelReason e)) (\<lambda>_. raise e))
                  else if isTransientDatabaseError (error_chain e) \<and> again \<noteq> None then the again may1
                  else
                    bnd (throwIfCommitUnverifiable E a may1 st) (\<lambda>_.
                    bnd (cancelApprovedPaymentAfterFailure E a (rs_id (or_reservation o1)) SERVER_ERROR_CANCEL_REASON)
                      (\<lambda>_. raise (Http 500 PostApprovalFailure))))))"

fun commit_turns :: "nat \<Rightarrow> environment \<Rightarrow> order \<Rightarrow> approved_snapshot \<Rightarrow> bool \<Rightarrow> js_string confirm_prog" where
  "commit_turns 0 E o1 a = commit_turn E o1 a None"
| "commit_turns (Suc left) E o1 a = commit_turn E o1 a (Some (commit_turns left E o1 a))"

definition commitFinalizationWithRetry :: "environment \<Rightarrow> order \<Rightarrow> approved_snapshot \<Rightarrow> js_string confirm_prog" where
  "commitFinalizationWithRetry E o1 a = commit_turns (FINALIZATION_MAX_ATTEMPTS - 1) E o1 a False"

section \<open>After the approval\<close>

datatype lease_state = LeaseOwned | LeaseReacquired | LeaseGone | LeaseUnknown

definition verifyConfirmLeaseAfterApproval :: "environment \<Rightarrow> lease_state confirm_prog" where
  "verifyConfirmLeaseAfterApproval E =
     bnd (outcome_of (reach (en_refreshLease E))) (\<lambda>r.
       case r of
         Inl f \<Rightarrow> ret LeaseUnknown
       | Inr True \<Rightarrow> ret LeaseOwned
       | Inr False \<Rightarrow>
           bnd (outcome_of (reach (en_acquireLease E))) (\<lambda>q.
             ret (case q of Inl f \<Rightarrow> LeaseUnknown | Inr got \<Rightarrow> if got then LeaseReacquired else LeaseGone)))"

definition lease_reason :: "lease_state \<Rightarrow> js_string" where
  "lease_reason l = ''confirm_lease_'' @
     (case l of LeaseOwned \<Rightarrow> ''owned'' | LeaseReacquired \<Rightarrow> ''reacquired'' | LeaseGone \<Rightarrow> ''lost'' | LeaseUnknown \<Rightarrow> ''unknown'')"

definition existing_snapshot :: "environment \<Rightarrow> order \<Rightarrow> payment_row \<Rightarrow> int \<Rightarrow> approved_snapshot" where
  "existing_snapshot E o1 p now =
     (toApprovedPaymentSnapshot p now)\<lparr>as_metadata :=
        (case py_metadata p of
           Some m \<Rightarrow> Some m
         | None \<Rightarrow>
             if isOverseasCardConfirmPaymentRequest (cd_kind (or_request o1))
                \<and> canBackfillOverseasCardProviderMetadata E p (or_reservation o1) (or_request o1)
             then Some OVERSEAS_CARD_PROVIDER_METADATA else None)\<rparr>"

definition obtain_approval :: "environment \<Rightarrow> order \<Rightarrow> approved_snapshot confirm_prog" where
  "obtain_approval E o1 =
     (case or_existing o1 of
        Some p \<Rightarrow> bnd (clock E) (\<lambda>now. ret (existing_snapshot E o1 p now))
      | None \<Rightarrow> approvePaymentWithProvider E (or_identity o1) (or_reservation o1) (or_sent_amount o1) (or_charge o1) (or_expectation o1))"

text \<open>The order is confirmed already (\<open>None\<close>) or its issuance committed with a payment.\<close>

definition issue_approved :: "environment \<Rightarrow> order \<Rightarrow> approved_snapshot \<Rightarrow> js_string option confirm_prog" where
  "issue_approved E o1 a =
     (let issue =
        bnd (outcome_of (seat_locks E)) (\<lambda>r.
          case r of
            Inl e \<Rightarrow>
              if \<not> is_http e then throwOutcomeUnknown E (as_reconcile a) ''seat_lock_check_failed'' OutcomePending
              else bnd (cancelApprovedPaymentAfterFailure E a (rs_id (or_reservation o1)) HOLD_LOST_CANCEL_REASON) (\<lambda>_. raise e)
          | Inr _ \<Rightarrow> bnd (commitFinalizationWithRetry E o1 a) (\<lambda>pid. ret (Some pid)))
      in bnd (verifyConfirmLeaseAfterApproval E) (\<lambda>lease.
         if lease = LeaseOwned then issue
         else bnd (readFinalizationState E (rs_id (or_reservation o1)) (pi_orderId (or_request o1))) (\<lambda>st.
           case st of
             StCommitted pid key \<Rightarrow> bnd (cancelApprovalIfCommittedWithAnotherPayment E a key) (\<lambda>_. ret None)
           | StCancelled \<Rightarrow> raise (Http 409 CancelInProgress)
           | _ \<Rightarrow>
               if lease \<noteq> LeaseReacquired
               then throwOutcomeUnknown E (as_reconcile a) (lease_reason lease)
                 (if lease = LeaseGone then ConfirmInProgress else OutcomePending)
               else issue)))"

definition runPostCommitSideEffects :: "environment \<Rightarrow> order \<Rightarrow> unit confirm_prog" where
  "runPostCommitSideEffects E o1 =
     bnd (handle (seat_locks E) (\<lambda>_. ret ())) (\<lambda>_.
       alter (\<lambda>w. w\<lparr>fw_log := fw_log w @
         map (\<lambda>s. SoldBroadcast (rs_showtimeId (or_reservation o1)) (order_seat_key s)) (or_seats o1)\<rparr>))"

definition confirm_pending :: "environment \<Rightarrow> order \<Rightarrow> js_string confirm_prog" where
  "confirm_pending E o1 =
     bnd (admission_gate E o1) (\<lambda>_.
     bnd (existing_payment_gate E o1) (\<lambda>_.
     bnd (ticket_limit_gate E o1) (\<lambda>_.
     bnd (seat_hold_gate E o1) (\<lambda>_.
     bnd (obtain_approval E o1) (\<lambda>a.
     bnd (handle (issue_approved E o1 a) (\<lambda>e.
            bnd (if is_http e then ret () else schedule_first E (as_reconcile a) ''unexpected_post_approval_error'')
              (\<lambda>_. raise e))) (\<lambda>committed.
     bnd (if committed = None then ret () else runPostCommitSideEffects E o1) (\<lambda>_.
       ret (rs_id (or_reservation o1)))))))))"

text \<open>The order and its payment row, if any, are read; the rest decides on them.\<close>

definition confirm_order :: "environment \<Rightarrow> confirm_request \<Rightarrow> js_string \<Rightarrow> payment_row option \<Rightarrow> reservation_row \<Rightarrow> js_string confirm_prog" where
  "confirm_order E dto userId existing r =
     bnd (reject_if (Option.bind existing py_asyncStatus = Some ''cancel_pending'') (Http 409 CancelInProgress)) (\<lambda>_.
     bnd (reject_if (rs_status r \<noteq> ''CONFIRMED'' \<and> rs_status r \<noteq> ''PENDING_PAYMENT'') (Http 409 HoldExpired)) (\<lambda>_.
     bnd (select E (\<lambda>db. getReservationSeatSelections db (rs_id r))) (\<lambda>seats.
     bnd (pure (requested_amount E (cd_kind dto) r existing)) (\<lambda>(charge, amount).
     bnd (reject_if (rs_totalAmount r \<noteq> calculatePayableTotal seats
            \<or> charge = None \<and> amount \<noteq> calculatePayableTotal seats) (Http 400 AmountMismatch)) (\<lambda>_.
       if rs_status r = ''CONFIRMED'' then
         bnd (case existing of
                Some p \<Rightarrow>
                  if isOverseasCardConfirmPaymentRequest (cd_kind dto) \<and> py_status p = ''DONE''
                     \<and> canBackfillOverseasCardProviderMetadata E p r dto
                  then handle (backfillOverseasCardProviderMetadataIfMissing E p) (\<lambda>_. ret ())
                  else ret ()
              | None \<Rightarrow> ret ()) (\<lambda>_. ret (rs_id r))
       else confirm_pending E \<lparr>or_request = dto, or_userId = userId, or_reservation = r, or_existing = existing,
              or_seats = seats, or_charge = charge, or_amount = amount\<rparr>)))))"

definition confirmAndCreateReservationLocked :: "environment \<Rightarrow> confirm_request \<Rightarrow> js_string \<Rightarrow> js_string confirm_prog" where
  "confirmAndCreateReservationLocked E dto userId =
     bnd (select E (\<lambda>db. find_payment db (pi_orderId dto))) (\<lambda>existing.
       if map_option py_status existing = Some [] then ret (py_reservationId (the existing))
       else
         bnd (select E (\<lambda>db. List.find (\<lambda>r. rs_tossOrderId r = pi_orderId dto \<and> rs_userId r = userId) (fd_reservations db))) (\<lambda>found.
           case found of
             None \<Rightarrow> raise (Http 404 OrderMissing)
           | Some r \<Rightarrow> confirm_order E dto userId existing r))"

section \<open>Under the lease\<close>

text \<open>The lease timer only refreshes; a failed release is logged.\<close>

definition confirmAndCreateReservation :: "environment \<Rightarrow> confirm_request \<Rightarrow> js_string \<Rightarrow> js_string confirm_prog" where
  "confirmAndCreateReservation E dto userId =
     bnd (reach (en_acquireLease E)) (\<lambda>acquired.
       if \<not> acquired then raise (Http 503 ConfirmInProgress)
       else always
         (bnd (reach (en_refreshLease E)) (\<lambda>owned.
            if \<not> owned then raise (Http 503 ConfirmInProgress)
            else bnd (reach (en_markAttempt E)) (\<lambda>_. confirmAndCreateReservationLocked E dto userId)))
         (handle (reach (en_releaseLease E)) (\<lambda>_. ret ())))"

end
