(* ===== verification/Reconcile.thy ===== *)
theory Reconcile
  imports ConfirmFlow
begin

text \<open>
  The reconcile job of \<open>reservation-finalization.service.ts\<close>: it converges an order whose confirm ended
  without a known outcome, once no client can finalize it any more, and reschedules itself with a capped
  backoff. It never issues tickets.
\<close>

datatype resolution =
    MissingReservation | Recorded | ReCompensated | ReNotApproved | DuplicateCancelled | ManualReview | AsyncCompensationOwned

datatype reconcile_outcome = Resolved resolution | Retry js_string int

record reconcile_input =
  ri_context :: reconcile_context
  ri_reservation :: reservation_row
  ri_now :: int
  ri_attempt :: nat

definition backoff_ms :: "nat \<Rightarrow> int" where
  "backoff_ms attempt = min RECONCILE_BACKOFF_MAX_MS (RECONCILE_BACKOFF_BASE_MS * 2 ^ attempt)"

definition retry :: "int \<Rightarrow> nat \<Rightarrow> js_string \<Rightarrow> int option \<Rightarrow> reconcile_outcome" where
  "retry now attempt reason retryAt = Retry reason (or_else retryAt (now + backoff_ms attempt))"

definition ri_retry :: "reconcile_input \<Rightarrow> js_string \<Rightarrow> reconcile_outcome confirm_prog" where
  "ri_retry i reason = ret (retry (ri_now i) (ri_attempt i) reason None)"

definition ri_retry_soon :: "reconcile_input \<Rightarrow> js_string \<Rightarrow> reconcile_outcome confirm_prog" where
  "ri_retry_soon i reason = ret (retry (ri_now i) (ri_attempt i) reason (Some (ri_now i + RECONCILE_LEASE_BUSY_DELAY_MS)))"

definition ri_identity :: "reconcile_input \<Rightarrow> payment_identity" where
  "ri_identity i = rc_identity (ri_context i)"

definition isLeaseStillOwned :: "environment \<Rightarrow> bool confirm_prog" where
  "isLeaseStillOwned E = handle (reach (en_refreshLease E)) (\<lambda>_. ret False)"

definition resolveClientFinalizableUntil :: "reservation_row \<Rightarrow> int option" where
  "resolveClientFinalizableUntil r =
     (case (rs_admissionActiveUntilAt r, map_option (\<lambda>d. d + PAYMENT_CONFIRM_LOCK_TTL * 1000) (rs_paymentDeadlineAt r)) of
        (None, None) \<Rightarrow> None | (Some a, None) \<Rightarrow> Some a | (None, Some b) \<Rightarrow> Some b | (Some a, Some b) \<Rightarrow> Some (max a b))"

definition reconcile_key :: "environment \<Rightarrow> js_string \<Rightarrow> js_string confirm_prog" where
  "reconcile_key E paymentKey = bnd tick (\<lambda>n. ret (reconcileCancelIdempotencyKey paymentKey (en_newId E n)))"

definition cancelUnrecordableApproval :: "environment \<Rightarrow> reconcile_input \<Rightarrow> js_string \<Rightarrow> reconcile_outcome confirm_prog" where
  "cancelUnrecordableApproval E i reason =
     bnd (lookupProviderPayment E (ri_identity i)) (\<lambda>lookup.
       case lookup of
         LkUnknown \<Rightarrow> ri_retry i ''provider_lookup_failed''
       | LkNotApproved p \<Rightarrow> ret (Resolved ReNotApproved)
       | LkApproved p \<Rightarrow>
           if hasProviderCancelInProgress p then ri_retry i ''provider_cancel_in_progress''
           else bnd (isLeaseStillOwned E) (\<lambda>owned.
             if \<not> owned then ri_retry_soon i ''confirm_lease_lost''
             else bnd (clock E) (\<lambda>now.
                  bnd (reconcile_key E (pi_paymentKey (ri_identity i))) (\<lambda>key.
                  bnd (cancelApprovedPaymentOrThrow E
                         (toNewApprovedPaymentSnapshot (ri_identity i) 0 (rc_expectation (ri_context i))
                            (rc_providerCharge (ri_context i)) p now) reason (Some key)) (\<lambda>completed.
                    if completed then ret (Resolved DuplicateCancelled)
                    else ri_retry i ''compensation_cancel_pending'')))))"

definition resumeClaimedCompensation :: "environment \<Rightarrow> reconcile_input \<Rightarrow> payment_row \<Rightarrow> reconcile_outcome confirm_prog" where
  "resumeClaimedCompensation E i payment =
     (let reason = or_else (py_cancelReason payment) ADMISSION_WINDOW_CANCEL_REASON in
      bnd (lookupProviderPayment E (ri_identity i)) (\<lambda>lookup.
        case lookup of
          LkUnknown \<Rightarrow> ri_retry i ''provider_lookup_failed''
        | LkNotApproved p \<Rightarrow>
            if map_option tr_status p = Some ''CANCELED''
            then bnd (recordCompensatedCancel E (py_id payment) (rs_id (ri_reservation i)) reason)
                   (\<lambda>_. ret (Resolved ReCompensated))
            else ret (Resolved ManualReview)
        | LkApproved p \<Rightarrow>
            if hasProviderCancelInProgress p then ri_retry i ''provider_cancel_in_progress''
            else bnd (isLeaseStillOwned E) (\<lambda>owned.
              if \<not> owned then ri_retry_soon i ''confirm_lease_lost''
              else bnd (clock E) (\<lambda>now.
                   bnd (reconcile_key E (py_paymentKey payment)) (\<lambda>key.
                   bnd (cancelClaimedApproval E (toApprovedPaymentSnapshot payment now) (rs_id (ri_reservation i)) reason (Some key))
                     (\<lambda>result. if result = Compensated then ret (Resolved ReCompensated)
                        else ri_retry i ''compensation_cancel_pending''))))))"

definition compensate_unrecorded :: "environment \<Rightarrow> reconcile_input \<Rightarrow> toss_payment \<Rightarrow> reconcile_outcome confirm_prog" where
  "compensate_unrecorded E i p =
     bnd (clock E) (\<lambda>now.
     bnd (reconcile_key E (pi_paymentKey (ri_identity i))) (\<lambda>key.
     bnd (compensateUnrecordedApproval E
            (toNewApprovedPaymentSnapshot (ri_identity i) (rs_totalAmount (ri_reservation i)) (rc_expectation (ri_context i))
               (rc_providerCharge (ri_context i)) p now)
            (rs_id (ri_reservation i)) ADMISSION_WINDOW_CANCEL_REASON (Some key)) (\<lambda>result.
       case result of
         Compensated \<Rightarrow> ret (Resolved ReCompensated)
       | CancelPending \<Rightarrow> ri_retry i ''compensation_cancel_pending''
       | LeaseLost \<Rightarrow> ri_retry_soon i ''confirm_lease_lost''
       | RecordedElsewhere st \<Rightarrow>
           (case st of
              StCommitted pid k \<Rightarrow>
                if k = pi_paymentKey (ri_identity i) then ret (Resolved Recorded)
                else cancelUnrecordableApproval E i DUPLICATE_PAYMENT_CANCEL_REASON
            | _ \<Rightarrow> ri_retry_soon i ''payment_recorded_concurrently''))))"

definition decide_by_provider :: "environment \<Rightarrow> reconcile_input \<Rightarrow> reconcile_outcome confirm_prog" where
  "decide_by_provider E i =
     bnd (lookupProviderPayment E (ri_identity i)) (\<lambda>lookup.
       case lookup of
         LkUnknown \<Rightarrow> ri_retry i ''provider_lookup_failed''
       | LkNotApproved p \<Rightarrow>
           if map_option tr_status p \<in> {Some ''IN_PROGRESS'', Some ''READY''} then ri_retry i ''provider_in_progress''
           else bnd (recordProviderNotApprovedPaymentIfTerminal E (ri_identity i) (ri_reservation i)
                       (rc_providerCharge (ri_context i)) (rc_expectation (ri_context i)) p)
                  (\<lambda>_. ret (Resolved ReNotApproved))
       | LkApproved p \<Rightarrow>
           if hasProviderCancelInProgress p then ri_retry i ''provider_cancel_in_progress''
           else compensate_unrecorded E i p)"

definition reconcileUnresolvedConfirmLocked :: "environment \<Rightarrow> reconcile_input \<Rightarrow> reconcile_outcome confirm_prog" where
  "reconcileUnresolvedConfirmLocked E i =
     bnd (select E (\<lambda>db. find_order_payment db (pi_orderId (ri_identity i)) (rs_id (ri_reservation i)))) (\<lambda>payment.
       case payment of
         Some p \<Rightarrow>
           if py_paymentKey p \<noteq> pi_paymentKey (ri_identity i) then
             cancelUnrecordableApproval E i
               (if py_status p \<in> set CAPTURED_PAYMENT_STATUSES then DUPLICATE_PAYMENT_CANCEL_REASON else ADMISSION_WINDOW_CANCEL_REASON)
           else if \<not> (py_status p = ''DONE'' \<and> py_asyncStatus p = Some ''cancel_pending'' \<and> rs_status (ri_reservation i) \<noteq> ''CONFIRMED'')
             then ret (Resolved Recorded)
           else if \<not> isConfirmCompensationClaimOwned (py_metadata p) then ret (Resolved AsyncCompensationOwned)
           else resumeClaimedCompensation E i p
       | None \<Rightarrow>
           if rs_status (ri_reservation i) = ''CONFIRMED'' then ret (Resolved Recorded)
           else (case (if rs_status (ri_reservation i) = ''PENDING_PAYMENT'' then resolveClientFinalizableUntil (ri_reservation i) else None) of
               Some until \<Rightarrow>
                 if until > ri_now i then
                   ret (retry (ri_now i) (ri_attempt i) ''awaiting_client_window'' (Some (until + RECONCILE_WINDOW_MARGIN_MS)))
                 else decide_by_provider E i
             | None \<Rightarrow> decide_by_provider E i))"

definition reconcileUnresolvedConfirm :: "environment \<Rightarrow> reconcile_job \<Rightarrow> reconcile_outcome confirm_prog" where
  "reconcileUnresolvedConfirm E job =
     bnd (clock E) (\<lambda>now.
     let retry_here = retry now (jb_attempt job); orderId = pi_orderId (rc_identity (jb_context job)) in
     bnd (outcome_of (select E (\<lambda>db. List.find (\<lambda>r. rs_tossOrderId r = orderId) (fd_reservations db)))) (\<lambda>found.
       case found of
         Inl e \<Rightarrow> ret (retry_here ''reservation_read_failed'' None)
       | Inr None \<Rightarrow> ret (Resolved MissingReservation)
       | Inr (Some r) \<Rightarrow>
           bnd (outcome_of (reach (en_acquireLease E))) (\<lambda>lease.
             case lease of
               Inl e \<Rightarrow> ret (retry_here ''confirm_lease_unavailable'' None)
             | Inr False \<Rightarrow> ret (retry_here ''confirm_lease_busy'' (Some (now + RECONCILE_LEASE_BUSY_DELAY_MS)))
             | Inr True \<Rightarrow>
                 always
                   (handle (reconcileUnresolvedConfirmLocked E
                       \<lparr>ri_context = jb_context job, ri_reservation = r, ri_now = now, ri_attempt = jb_attempt job\<rparr>)
                     (\<lambda>_. ret (retry_here ''reconcile_failed'' None)))
                   (handle (reach (en_releaseLease E)) (\<lambda>_. ret ())))))"

text \<open>A job that cannot be queued again fails, so that the queue runs this attempt once more.\<close>

definition runPaymentConfirmReconcileJob :: "environment \<Rightarrow> reconcile_job \<Rightarrow> reconcile_outcome confirm_prog" where
  "runPaymentConfirmReconcileJob E job =
     bnd (reconcileUnresolvedConfirm E job) (\<lambda>outcome.
       case outcome of
         Resolved r \<Rightarrow> ret outcome
       | Retry reason retryAt \<Rightarrow>
           if jb_attempt job + 1 \<ge> PAYMENT_CONFIRM_RECONCILE_MAX_ATTEMPTS then ret outcome
           else bnd (scheduleConfirmReconcile E (jb_context job) (jb_reason job) (jb_attempt job + 1) (Some retryAt)) (\<lambda>scheduled.
             if \<not> scheduled then raise OtherFailure else ret outcome))"

end
