(* ===== verification/ConfirmRules.thy ===== *)
theory ConfirmRules
  imports Reconcile
begin

text \<open>
  What every call of payment confirm leaves in place: no payment row disappears, the log grows, and only by
  events of certain kinds. \<open>runs E K p\<close> says this of a program \<open>p\<close> for the event kinds \<open>K\<close>; its rules follow the
  combinators, so a function is covered by applying them to its text.
\<close>

section \<open>Events and rows\<close>

datatype kind = KConfirm | KLookup | KCancel | KCommit | KJob | KSold

fun kind_of :: "event \<Rightarrow> kind" where
  "kind_of (ConfirmSent i a) = KConfirm"
| "kind_of (ConfirmAnswered i p) = KConfirm"
| "kind_of (ConfirmRejected i f) = KConfirm"
| "kind_of (LookedUp i p) = KLookup"
| "kind_of (CancelSent k) = KCancel"
| "kind_of (Committed a pid) = KCommit"
| "kind_of (JobQueued i r) = KJob"
| "kind_of (JobLost i r) = KJob"
| "kind_of (SoldBroadcast s k) = KSold"

text \<open>The order and the payment key of each payment row.\<close>

definition row_ids :: "order_db \<Rightarrow> (js_string \<times> js_string) set" where
  "row_ids db = (\<lambda>p. (py_tossOrderId p, py_paymentKey p)) ` set (fd_payments db)"

text \<open>
  The unique columns and indexes: one payment row of a reservation and of a payment key, and one ticket that is
  not cancelled or expired of a seat of a showtime.
\<close>

definition active_ticket :: "ticket_item_row \<Rightarrow> bool" where
  "active_ticket k \<longleftrightarrow> ki_status k \<in> set ACTIVE_TICKET_ITEM_STATUSES"

definition seat_of_ticket :: "ticket_item_row \<Rightarrow> js_string \<times> js_string" where
  "seat_of_ticket k = (ki_showtimeId k, ki_seatKey k)"

definition db_ok :: "order_db \<Rightarrow> bool" where
  "db_ok db \<longleftrightarrow> distinct (map py_reservationId (fd_payments db)) \<and> distinct (map py_paymentKey (fd_payments db)) \<and>
     distinct (map seat_of_ticket (filter active_ticket (fd_tickets db)))"

definition order_ids :: "order_db \<Rightarrow> js_string set" where
  "order_ids db = rs_id ` set (fd_reservations db)"

definition grows :: "order_db \<Rightarrow> order_db \<Rightarrow> bool" where
  "grows db db1 \<longleftrightarrow> row_ids db \<subseteq> row_ids db1 \<and> order_ids db \<subseteq> order_ids db1 \<and> (db_ok db \<longrightarrow> db_ok db1)"

lemma grows_refl [simp]: "grows db db"
  by (simp add: grows_def)

lemma grows_trans: "grows a b \<Longrightarrow> grows b c \<Longrightarrow> grows a c"
  by (auto simp: grows_def)

text \<open>
  What is relied on: other writers insert and update orders and payment rows but never delete or rename them, and
  the database enforces its unique indexes on them too.
\<close>

definition keeps_rows :: "environment \<Rightarrow> bool" where
  "keeps_rows E \<longleftrightarrow> (\<forall>n db. grows db (en_others E n db))"

definition after :: "kind set \<Rightarrow> world \<Rightarrow> world \<Rightarrow> bool" where
  "after K w w1 \<longleftrightarrow> grows (fw_db w) (fw_db w1) \<and>
     (\<exists>es. fw_log w1 = fw_log w @ es \<and> (\<forall>e \<in> set es. kind_of e \<in> K)) \<and>
     (KJob \<in> K \<or> fw_jobs w1 = fw_jobs w)"

lemma after_refl: "after K w w"
  by (simp add: after_def)

lemma after_trans: "after K w w1 \<Longrightarrow> after K w1 w2 \<Longrightarrow> after K w w2"
  by (auto simp: after_def intro: grows_trans)

lemma after_sub: "after K w w1 \<Longrightarrow> K \<subseteq> K1 \<Longrightarrow> after K1 w w1"
  by (fastforce simp: after_def)

lemma after_log: "after K w w1 \<Longrightarrow> e \<in> set (fw_log w) \<Longrightarrow> e \<in> set (fw_log w1)"
  by (auto simp: after_def)

lemma after_rows: "after K w w1 \<Longrightarrow> x \<in> row_ids (fw_db w) \<Longrightarrow> x \<in> row_ids (fw_db w1)"
  by (auto simp: after_def grows_def)

lemma after_orders: "after K w w1 \<Longrightarrow> x \<in> order_ids (fw_db w) \<Longrightarrow> x \<in> order_ids (fw_db w1)"
  by (auto simp: after_def grows_def)

lemma after_ok: "after K w w1 \<Longrightarrow> db_ok (fw_db w) \<Longrightarrow> db_ok (fw_db w1)"
  by (simp add: after_def grows_def)

lemma after_jobs: "after K w w1 \<Longrightarrow> KJob \<notin> K \<Longrightarrow> fw_jobs w1 = fw_jobs w"
  by (auto simp: after_def)

lemma after_new: "after K w w1 \<Longrightarrow> e \<in> set (fw_log w1) \<Longrightarrow> e \<in> set (fw_log w) \<or> kind_of e \<in> K"
  by (auto simp: after_def)

definition runs :: "kind set \<Rightarrow> 'a confirm_prog \<Rightarrow> bool" where
  "runs K p \<longleftrightarrow> (\<forall>w. wp p (\<lambda>_. after K w) (\<lambda>_. after K w) w)"

section \<open>The combinators\<close>

named_theorems runs_rules "programs that keep rows and log"

lemma runsI: "(\<And>w r w1. p w = (r, w1) \<Longrightarrow> after K w w1) \<Longrightarrow> runs K p"
  unfolding runs_def wp_def by (auto split: prod.splits sum.splits)

lemma runsD: "runs K p \<Longrightarrow> p w = (r, w1) \<Longrightarrow> after K w w1"
  unfolding runs_def wp_def by (auto split: prod.splits sum.splits)

lemma runs_ret [runs_rules]: "runs K (ret x)"
  by (rule runsI) (simp add: ret_def after_refl)

lemma runs_raise [runs_rules]: "runs K (raise e)"
  by (rule runsI) (simp add: raise_def after_refl)

lemma runs_pure [runs_rules]: "runs K (pure r)"
  by (rule runsI) (simp add: pure_def after_refl)

lemma runs_reject_if [runs_rules]: "runs K (reject_if c e)"
  by (simp add: reject_if_def runs_ret runs_raise)

lemma runs_inspect [runs_rules]: "runs K (inspect f)"
  by (rule runsI) (simp add: inspect_def after_refl)

lemma runs_bnd [runs_rules]:
  assumes "runs K p" and "\<And>x. runs K (f x)"
  shows "runs K (bnd p f)"
proof (rule runsI)
  fix w r w2
  assume b: "bnd p f w = (r, w2)"
  obtain q w1 where q: "p w = (q, w1)" by fastforce
  note a = runsD [OF assms(1) q]
  show "after K w w2"
  proof (cases q)
    case (Inl e)
    with b q a show ?thesis by (simp add: bnd_def)
  next
    case (Inr x)
    with b q have "f x w1 = (r, w2)" by (simp add: bnd_def)
    from after_trans [OF a runsD [OF assms(2) this]] show ?thesis .
  qed
qed

lemma runs_handle [runs_rules]:
  assumes "runs K p" and "\<And>e. runs K (h e)"
  shows "runs K (handle p h)"
proof (rule runsI)
  fix w r w2
  assume b: "handle p h w = (r, w2)"
  obtain q w1 where q: "p w = (q, w1)" by fastforce
  note a = runsD [OF assms(1) q]
  show "after K w w2"
  proof (cases q)
    case (Inr x)
    with b q a show ?thesis by (simp add: handle_def)
  next
    case (Inl e)
    with b q have "h e w1 = (r, w2)" by (simp add: handle_def)
    from after_trans [OF a runsD [OF assms(2) this]] show ?thesis .
  qed
qed

lemma runs_outcome_of [runs_rules]: "runs K p \<Longrightarrow> runs K (outcome_of p)"
  by (rule runsI) (auto simp: outcome_of_def split: prod.splits dest: runsD)

lemma runs_always [runs_rules]:
  assumes "runs K p" and "runs K c"
  shows "runs K (always p c)"
proof (rule runsI)
  fix w r w3
  assume b: "always p c w = (r, w3)"
  obtain q w1 where q: "p w = (q, w1)" by fastforce
  obtain q2 w2 where q2: "c w1 = (q2, w2)" by fastforce
  from b q q2 have "w3 = w2" by (simp add: always_def split: sum.splits)
  with after_trans [OF runsD [OF assms(1) q] runsD [OF assms(2) q2]] show "after K w w3" by simp
qed

lemma runs_if [runs_rules]: "(c \<Longrightarrow> runs K p) \<Longrightarrow> (\<not> c \<Longrightarrow> runs K q) \<Longrightarrow> runs K (if c then p else q)"
  by simp

lemma runs_let [runs_rules]: "(\<And>x. x = t \<Longrightarrow> runs K (f x)) \<Longrightarrow> runs K (Let t f)"
  by simp

lemma runs_case_option [runs_rules]:
  "(x = None \<Longrightarrow> runs K p) \<Longrightarrow> (\<And>y. x = Some y \<Longrightarrow> runs K (f y)) \<Longrightarrow> runs K (case x of None \<Rightarrow> p | Some y \<Rightarrow> f y)"
  by (cases x) simp_all

lemma runs_case_sum [runs_rules]:
  "(\<And>e. x = Inl e \<Longrightarrow> runs K (f e)) \<Longrightarrow> (\<And>y. x = Inr y \<Longrightarrow> runs K (g y)) \<Longrightarrow> runs K (case x of Inl e \<Rightarrow> f e | Inr y \<Rightarrow> g y)"
  by (cases x) simp_all

lemma runs_case_prod [runs_rules]: "(\<And>a b. x = (a, b) \<Longrightarrow> runs K (f a b)) \<Longrightarrow> runs K (case x of (a, b) \<Rightarrow> f a b)"
  by (cases x) simp

lemma runs_case_bool [runs_rules]:
  "(x \<Longrightarrow> runs K p) \<Longrightarrow> (\<not> x \<Longrightarrow> runs K q) \<Longrightarrow> runs K (case x of True \<Rightarrow> p | False \<Rightarrow> q)"
  by (cases x) simp_all

lemma runs_case_compensation [runs_rules]:
  "runs K a \<Longrightarrow> runs K b \<Longrightarrow> (\<And>st. runs K (c st)) \<Longrightarrow> runs K d \<Longrightarrow>
    runs K (case x of Compensated \<Rightarrow> a | CancelPending \<Rightarrow> b | RecordedElsewhere st \<Rightarrow> c st | LeaseLost \<Rightarrow> d)"
  by (cases x) simp_all

lemma runs_case_state [runs_rules]:
  "(\<And>pid k. runs K (a pid k)) \<Longrightarrow> runs K b \<Longrightarrow> runs K c \<Longrightarrow> runs K d \<Longrightarrow>
    runs K (case x of StCommitted pid k \<Rightarrow> a pid k | StCancelled \<Rightarrow> b | StNotCommitted \<Rightarrow> c | StUnknown \<Rightarrow> d)"
  by (cases x) simp_all

lemma runs_case_lookup [runs_rules]:
  "(\<And>p. runs K (a p)) \<Longrightarrow> (\<And>p. runs K (b p)) \<Longrightarrow> runs K c \<Longrightarrow>
    runs K (case x of LkApproved p \<Rightarrow> a p | LkNotApproved p \<Rightarrow> b p | LkUnknown \<Rightarrow> c)"
  by (cases x) simp_all

section \<open>The calls\<close>

lemma runs_tick [runs_rules]: "runs K tick"
  by (rule runsI) (auto simp: tick_def after_def)

lemma runs_log [runs_rules]: "kind_of e \<in> K \<Longrightarrow> runs K (log_event e)"
  by (rule runsI) (auto simp: log_event_def alter_def after_def)

lemma runs_alter:
  assumes "\<And>w. grows (fw_db w) (fw_db (f w))" and "\<And>w. \<exists>es. fw_log (f w) = fw_log w @ es \<and> (\<forall>e \<in> set es. kind_of e \<in> K)"
    and "\<And>w. KJob \<in> K \<or> fw_jobs (f w) = fw_jobs w"
  shows "runs K (alter f)"
  using assms by (intro runsI) (auto simp: alter_def after_def)

lemma runs_clock [runs_rules]: "runs K (clock E)"
  unfolding clock_def by (intro runs_rules)

lemma runs_reach [runs_rules]: "runs K (reach f)"
  unfolding reach_def by (intro runs_rules)

lemma runs_seat_locks [runs_rules]: "runs K (seat_locks E)"
  unfolding seat_locks_def by (intro runs_rules)

lemma others_keep: "keeps_rows E \<Longrightarrow> grows db (en_others E n db)"
  by (simp add: keeps_rows_def)

lemma runs_statement:
  assumes E: "keeps_rows E" and act: "\<And>db. grows db (snd (act db))"
  shows "runs K (statement E act)"
proof (rule runsI)
  fix w r w1
  assume s: "statement E act w = (r, w1)"
  let ?d = "en_others E (fw_tick w) (fw_db w)"
  have o1: "grows (fw_db w) ?d" using others_keep [OF E] .
  from grows_trans [OF o1 act] o1 s show "after K w w1"
    by (cases "act ?d") (auto simp: statement_def Let_def after_def split: option.splits dest: sym [of "act ?d"])
qed

lemma runs_select [runs_rules]: "keeps_rows E \<Longrightarrow> runs K (select E f)"
  unfolding select_def by (rule runs_statement) simp_all

lemma runs_transaction:
  assumes E: "keeps_rows E" and act: "\<And>n db x db1. act n db = Inr (x, db1) \<Longrightarrow> grows db db1"
    and kinds: "\<And>x e. e \<in> set (committed x) \<Longrightarrow> kind_of e \<in> K"
  shows "runs K (transaction E act committed)"
proof (rule runsI)
  fix w r w1
  assume s: "transaction E act committed w = (r, w1)"
  let ?d = "en_others E (fw_tick w) (fw_db w)"
  have o1: "grows (fw_db w) ?d" using others_keep [OF E] .
  have done_: "after K w (w\<lparr>fw_tick := Suc (fw_tick w), fw_db := db1, fw_log := fw_log w @ committed x\<rparr>)"
    if "act (fw_tick w) ?d = Inr (x, db1)" for x db1
    using grows_trans [OF o1 act [OF that]] kinds [of _ x] by (simp add: after_def)
  have undone: "after K w (w\<lparr>fw_tick := Suc (fw_tick w), fw_db := ?d\<rparr>)" using o1 by (simp add: after_def)
  show "after K w w1"
  proof (cases "en_tx E (fw_tick w)")
    case (TxRolledBack e)
    with s undone show ?thesis by (auto simp: transaction_def Let_def)
  next
    case TxCommits
    with s undone done_ show ?thesis by (auto simp: transaction_def Let_def split: sum.splits prod.splits)
  next
    case (TxAckLost e)
    with s undone done_ show ?thesis by (auto simp: transaction_def Let_def split: sum.splits prod.splits)
  qed
qed

lemma row_ids_update [simp]:
  assumes "\<And>p. py_tossOrderId (f p) = py_tossOrderId p \<and> py_paymentKey (f p) = py_paymentKey p"
  shows "row_ids (update_payments P f db) = row_ids db"
proof -
  have "fd_payments (update_payments P f db) = map (\<lambda>p. if P p then f p else p) (fd_payments db)"
    by (simp add: update_payments_def)
  then have "row_ids (update_payments P f db) =
      (\<lambda>p. (py_tossOrderId (if P p then f p else p), py_paymentKey (if P p then f p else p))) ` set (fd_payments db)"
    by (simp only: row_ids_def set_map image_image)
  also have "\<dots> = row_ids db" unfolding row_ids_def using assms by (intro image_cong) auto
  finally show ?thesis .
qed

lemma grows_update [simp]:
  assumes "\<And>p. py_tossOrderId (f p) = py_tossOrderId p \<and> py_paymentKey (f p) = py_paymentKey p"
    and "\<And>p. py_reservationId (f p) = py_reservationId p"
  shows "grows db (update_payments P f db)"
proof -
  have "map g (map (\<lambda>p. if P p then f p else p) ps) = map g ps" if "\<And>p. g (f p) = g p" for g :: "payment_row \<Rightarrow> js_string" and ps
    using that by simp
  then have "map g (fd_payments (update_payments P f db)) = map g (fd_payments db)" if "\<And>p. g (f p) = g p" for g :: "payment_row \<Rightarrow> js_string"
    using that by (simp add: update_payments_def)
  moreover have "fd_tickets (update_payments P f db) = fd_tickets db" by (simp add: update_payments_def)
  moreover have "order_ids (update_payments P f db) = order_ids db" by (simp add: update_payments_def order_ids_def)
  ultimately show ?thesis using assms by (simp add: grows_def db_ok_def)
qed

lemma row_ids_reservations [simp]: "row_ids (update_reservations P s db) = row_ids db" "row_ids (fail_reservation rid db) = row_ids db"
  by (simp_all add: row_ids_def update_reservations_def fail_reservation_def)

lemma order_ids_reservations [simp]: "order_ids (update_reservations P s db) = order_ids db" "order_ids (fail_reservation rid db) = order_ids db"
proof -
  have "map rs_id (fd_reservations (update_reservations P s db)) = map rs_id (fd_reservations db)" for P s
    by (simp add: update_reservations_def)
  then have "set (map rs_id (fd_reservations (update_reservations P s db))) = set (map rs_id (fd_reservations db))" for P s
    by (simp only:)
  then show "order_ids (update_reservations P s db) = order_ids db" for P s
    by (simp only: order_ids_def set_map)
  then show "order_ids (fail_reservation rid db) = order_ids db"
    by (simp only: fail_reservation_def)
qed

lemma db_ok_reservations [simp]: "db_ok (update_reservations P s db) = db_ok db" "db_ok (fail_reservation rid db) = db_ok db"
  by (simp_all add: db_ok_def update_reservations_def fail_reservation_def)

lemma grows_reservations [simp]: "grows db (update_reservations P s db1) = grows db db1" "grows db (fail_reservation rid db1) = grows db db1"
  by (simp_all add: grows_def)

lemma grows_diagnostic [simp]: "grows db (put_diagnostic rid kc db)"
  by (simp add: grows_def row_ids_def order_ids_def db_ok_def put_diagnostic_def)

lemma grows_insert: "grows db (snd (insert_payment p db))"
  by (auto simp: grows_def row_ids_def order_ids_def db_ok_def insert_payment_def payment_conflict_def list_ex_iff)

lemma insert_payment_grows: "insert_payment p db = (ok, db1) \<Longrightarrow> grows db db1"
  using grows_insert [of db p] by simp

lemma insert_payment_True: "insert_payment p db = (True, db1) \<Longrightarrow> (py_tossOrderId p, py_paymentKey p) \<in> row_ids db1"
  by (auto simp: insert_payment_def row_ids_def split: if_splits)

end
