(* ===== verification/ConfirmRuns.thy ===== *)
theory ConfirmRuns
  imports ConfirmRules
begin

text \<open>
  Which kinds of events each function of payment confirm can log. None deletes a payment row, and a commit is
  logged by the issuance transaction only.
\<close>

lemma runs_mark [runs_rules]: "runs K (markProviderConfirmSent E i)"
  unfolding markProviderConfirmSent_def
  by (intro runs_rules runs_alter) (simp_all add: row_ids_def)

lemma runs_may [runs_rules]: "runs K (mayHaveProviderApproval E i)"
  unfolding mayHaveProviderApproval_def by (intro runs_rules)

lemma runs_schedule [runs_rules]: "KJob \<in> K \<Longrightarrow> runs K (scheduleConfirmReconcile E c reason n t)"
  unfolding scheduleConfirmReconcile_def
  by (intro runs_rules runs_alter) (simp_all add: row_ids_def)

lemma runs_schedule_first [runs_rules]: "KJob \<in> K \<Longrightarrow> runs K (schedule_first E c reason)"
  unfolding schedule_first_def by (intro runs_rules)

lemma runs_unknown [runs_rules]: "KJob \<in> K \<Longrightarrow> runs K (throwOutcomeUnknown E c reason m)"
  unfolding throwOutcomeUnknown_def by (intro runs_rules)

lemma runs_call_cancel [runs_rules]: "KCancel \<in> K \<Longrightarrow> runs K (call_cancel E r)"
  unfolding call_cancel_def by (intro runs_rules) simp

lemma runs_call_query [runs_rules]: "KLookup \<in> K \<Longrightarrow> runs K (call_query E i)"
  unfolding call_query_def by (intro runs_rules) simp

lemma runs_call_confirm [runs_rules]: "KConfirm \<in> K \<Longrightarrow> runs K (call_confirm E i a)"
  unfolding call_confirm_def by (intro runs_rules) simp_all

lemma runs_cancel [runs_rules]: "KCancel \<in> K \<Longrightarrow> runs K (cancelApprovedPaymentOrThrow E a reason key)"
  unfolding cancelApprovedPaymentOrThrow_def by (intro runs_rules)

section \<open>With the database\<close>

lemma runs_read_state [runs_rules]: "keeps_rows E \<Longrightarrow> runs K (readFinalizationState E rid oid)"
  unfolding readFinalizationState_def by (intro runs_rules)

lemma runs_update_payments [runs_rules]:
  "keeps_rows E \<Longrightarrow> (\<And>p. py_tossOrderId (f p) = py_tossOrderId p \<and> py_paymentKey (f p) = py_paymentKey p) \<Longrightarrow>
    (\<And>p. py_reservationId (f p) = py_reservationId p) \<Longrightarrow> runs K (statement E (\<lambda>db. (u, update_payments P f db)))"
  by (rule runs_statement) simp_all

lemma runs_fail [runs_rules]: "keeps_rows E \<Longrightarrow> runs K (statement E (\<lambda>db. (u, fail_reservation rid db)))"
  by (rule runs_statement) simp_all

lemma runs_diagnostic [runs_rules]: "keeps_rows E \<Longrightarrow> runs K (record_diagnostic E rid kc)"
  unfolding record_diagnostic_def by (rule runs_statement) simp_all

lemma runs_insert [runs_rules]: "keeps_rows E \<Longrightarrow> runs K (statement E (insert_payment row))"
  by (rule runs_statement) (simp_all add: grows_insert)

lemma runs_existing [runs_rules]:
  "keeps_rows E \<Longrightarrow> KCancel \<in> K \<Longrightarrow> runs K (cancelExistingDonePaymentAfterFailure E a rid reason)"
  unfolding cancelExistingDonePaymentAfterFailure_def by (intro runs_rules) simp_all

lemma runs_if_other [runs_rules]:
  "KCancel \<in> K \<Longrightarrow> KJob \<in> K \<Longrightarrow> runs K (cancelApprovalIfCommittedWithAnotherPayment E a key)"
  unfolding cancelApprovalIfCommittedWithAnotherPayment_def by (intro runs_rules)

lemma runs_record_cancel [runs_rules]: "keeps_rows E \<Longrightarrow> runs K (recordCompensatedCancel E pid rid reason)"
  unfolding recordCompensatedCancel_def
  by (intro runs_rules runs_transaction) (auto split: if_splits)

lemma runs_cancel_claimed [runs_rules]:
  "keeps_rows E \<Longrightarrow> KCancel \<in> K \<Longrightarrow> runs K (cancelClaimedApproval E a rid reason key)"
  unfolding cancelClaimedApproval_def by (intro runs_rules)

lemma runs_compensate [runs_rules]:
  "keeps_rows E \<Longrightarrow> KCancel \<in> K \<Longrightarrow> runs K (compensateUnrecordedApproval E a rid reason key)"
  unfolding compensateUnrecordedApproval_def by (intro runs_rules)

lemma runs_unclaimed [runs_rules]:
  "KCancel \<in> K \<Longrightarrow> KJob \<in> K \<Longrightarrow> runs K (cancelUnclaimedApproval E a reason)"
  unfolding cancelUnclaimedApproval_def by (intro runs_rules)

lemma runs_compensate_confirm [runs_rules]:
  "keeps_rows E \<Longrightarrow> KCancel \<in> K \<Longrightarrow> KJob \<in> K \<Longrightarrow> runs K (compensateConfirmApproval E a rid reason)"
  unfolding compensateConfirmApproval_def by (intro runs_rules)

lemma runs_cancel_approved [runs_rules]:
  "keeps_rows E \<Longrightarrow> KCancel \<in> K \<Longrightarrow> KJob \<in> K \<Longrightarrow> runs K (cancelApprovedPaymentAfterFailure E a rid reason)"
  unfolding cancelApprovedPaymentAfterFailure_def by (intro runs_rules)

section \<open>The provider\<close>

lemma runs_lookup [runs_rules]: "KLookup \<in> K \<Longrightarrow> runs K (lookupProviderPayment E i)"
  unfolding lookupProviderPayment_def by (intro runs_rules)

lemma runs_record_row [runs_rules]: "keeps_rows E \<Longrightarrow> runs K (record_new_row E row kc)"
  unfolding record_new_row_def
  by (intro runs_rules runs_transaction) (auto simp: Let_def split: if_splits prod.splits dest: insert_payment_grows)

lemma runs_record_rejected [runs_rules]: "keeps_rows E \<Longrightarrow> runs K (recordProviderNotApprovedPayment E i r c x p)"
  unfolding recordProviderNotApprovedPayment_def by (intro runs_rules)

lemma runs_record_cancelled [runs_rules]: "keeps_rows E \<Longrightarrow> runs K (recordProviderCancelledApproval E i r c x p)"
  unfolding recordProviderCancelledApproval_def by (intro runs_rules)

lemma runs_record_terminal [runs_rules]: "keeps_rows E \<Longrightarrow> runs K (recordProviderNotApprovedPaymentIfTerminal E i r c x p)"
  unfolding recordProviderNotApprovedPaymentIfTerminal_def by (intro runs_rules)

lemma runs_failed_confirm [runs_rules]:
  "keeps_rows E \<Longrightarrow> KLookup \<in> K \<Longrightarrow> KJob \<in> K \<Longrightarrow> runs K (reconcileFailedProviderConfirm E i r c x f)"
  unfolding reconcileFailedProviderConfirm_def by (intro runs_rules) (simp_all add: runs_rules)

lemma runs_sale_context [runs_rules]: "keeps_rows E \<Longrightarrow> runs K (loadShowtimeSaleContext E st)"
  unfolding loadShowtimeSaleContext_def by (intro runs_rules)

lemma runs_request [runs_rules]:
  "keeps_rows E \<Longrightarrow> KLookup \<in> K \<Longrightarrow> KJob \<in> K \<Longrightarrow> KConfirm \<in> K \<Longrightarrow> runs K (request_provider_approval E i r amt c x st)"
  unfolding request_provider_approval_def by (intro runs_rules)

lemma runs_approve [runs_rules]:
  "keeps_rows E \<Longrightarrow> KLookup \<in> K \<Longrightarrow> KJob \<in> K \<Longrightarrow> KConfirm \<in> K \<Longrightarrow> KCancel \<in> K \<Longrightarrow>
    runs K (approvePaymentWithProvider E i r amt c x)"
  unfolding approvePaymentWithProvider_def by (intro runs_rules)

lemma runs_compensate_reject [runs_rules]:
  "keeps_rows E \<Longrightarrow> KJob \<in> K \<Longrightarrow> KCancel \<in> K \<Longrightarrow> runs K (compensate_then_reject E c a rid f reason)"
  unfolding compensate_then_reject_def by (intro runs_rules)

lemma runs_reject_before [runs_rules]:
  "keeps_rows E \<Longrightarrow> KLookup \<in> K \<Longrightarrow> KJob \<in> K \<Longrightarrow> KCancel \<in> K \<Longrightarrow>
    runs K (rejectBeforeApprovalWithoutLocalPayment E i r c x gate f reason)"
  unfolding rejectBeforeApprovalWithoutLocalPayment_def by (intro runs_rules)

section \<open>The flow\<close>

lemma runs_undo [runs_rules]:
  "keeps_rows E \<Longrightarrow> KLookup \<in> K \<Longrightarrow> KJob \<in> K \<Longrightarrow> KCancel \<in> K \<Longrightarrow> runs K (undo_before_rejection E o1 gate f reason)"
  unfolding undo_before_rejection_def by (intro runs_rules)

lemma runs_gates [runs_rules]:
  assumes "keeps_rows E" and "KLookup \<in> K" and "KJob \<in> K" and "KCancel \<in> K"
  shows "runs K (admission_gate E o1)" and "runs K (existing_payment_gate E o1)" and "runs K (ticket_limit_gate E o1)"
    and "runs K (seat_hold_gate E o1)"
  unfolding admission_gate_def existing_payment_gate_def ticket_limit_gate_def seat_hold_gate_def
  by (intro runs_rules assms)+

text \<open>A ticket is inserted only while no active one of its seat exists.\<close>

lemma inserted_tickets_unique:
  assumes "insert_tickets rows ks = Inr rows1" and "distinct (map seat_of_ticket (filter active_ticket rows))"
  shows "distinct (map seat_of_ticket (filter active_ticket rows1))"
  using assms
proof (induction rows ks rule: insert_tickets.induct)
  case (2 rows k ks)
  have free: "seat_of_ticket k \<notin> seat_of_ticket ` {x \<in> set rows. active_ticket x}"
    using 2(2) by (auto simp: list_ex_iff seat_taken_def seat_of_ticket_def active_ticket_def split: if_splits)
  with 2 show ?case by (auto split: if_splits)
qed simp

lemma commitFinalization_parts:
  assumes "commitFinalization E o1 a n db = Inr (pid, db2)"
  obtains db1 tickets inventory where
    "commit_payment (en_newId E n) (rs_id (or_reservation o1)) a
       (update_reservations (\<lambda>q. rs_id q = rs_id (or_reservation o1)) ''CONFIRMED'' db) = Inr (pid, db1)"
    and "insert_tickets (fd_tickets db1) (map (ticket_row_of (rs_id (or_reservation o1)) pid (rs_showtimeId (or_reservation o1))) (or_seats o1))
      = Inr tickets"
    and "sell_seats (rs_showtimeId (or_reservation o1)) (or_seats o1) (fd_inventory db1) = Inr inventory"
    and "db2 = db1\<lparr>fd_tickets := tickets, fd_inventory := inventory\<rparr>"
  using assms by (auto simp: commitFinalization_def Let_def split: sum.splits if_splits prod.splits option.splits)

lemma commit_payment_grows: "commit_payment newId rid a db = Inr (pid, db1) \<Longrightarrow> grows db db1"
  by (auto simp: commit_payment_def split: option.splits prod.splits bool.splits dest: insert_payment_grows intro!: grows_update)

lemma commitFinalization_rows:
  assumes "commitFinalization E o1 a n db = Inr (pid, db2)"
  shows "grows db db2" and "as_existingPaymentId a = None \<Longrightarrow> (as_orderId a, as_paymentKey a) \<in> row_ids db2"
proof -
  let ?db = "update_reservations (\<lambda>q. rs_id q = rs_id (or_reservation o1)) ''CONFIRMED'' db"
  from assms obtain db1 tickets inventory where
    c: "commit_payment (en_newId E n) (rs_id (or_reservation o1)) a ?db = Inr (pid, db1)"
    and t: "insert_tickets (fd_tickets db1) (map (ticket_row_of (rs_id (or_reservation o1)) pid (rs_showtimeId (or_reservation o1)))
      (or_seats o1)) = Inr tickets"
    and d: "db2 = db1\<lparr>fd_tickets := tickets, fd_inventory := inventory\<rparr>"
    by (rule commitFinalization_parts)
  have "grows ?db db1" by (rule commit_payment_grows [OF c])
  then have "grows db db1" by (auto simp: grows_def)
  moreover have "grows db1 db2" using inserted_tickets_unique [OF t] by (auto simp: d grows_def row_ids_def order_ids_def db_ok_def)
  ultimately show "grows db db2" by (rule grows_trans)
  assume "as_existingPaymentId a = None"
  with c have "insert_payment ((new_payment_row (en_newId E n) (rs_id (or_reservation o1)) a)
      \<lparr>py_asyncStatus := Some (or_else (as_asyncStatus a) ''sync'')\<rparr>) ?db = (True, db1)"
    by (auto simp: commit_payment_def split: prod.splits bool.splits)
  from insert_payment_True [OF this] show "(as_orderId a, as_paymentKey a) \<in> row_ids db2"
    by (simp add: d row_ids_def new_payment_row_def)
qed

lemma runs_commit_turn:
  assumes "keeps_rows E" and "KCommit \<in> K" and "KJob \<in> K" and "KCancel \<in> K" and "\<And>f m. again = Some f \<Longrightarrow> runs K (f m)"
  shows "runs K (commit_turn E o1 a again may)"
proof -
  have t: "runs K (transaction E (commitFinalization E o1 a) (\<lambda>pid. [Committed a pid]))"
    using assms(1,2) commitFinalization_rows(1) by (intro runs_transaction) auto
  have u: "runs K (throwIfCommitUnverifiable E a m st)" for m st
    unfolding throwIfCommitUnverifiable_def using assms(3) by (intro runs_rules)
  show ?thesis
    unfolding commit_turn_def by (intro runs_rules t u assms) auto
qed

lemma runs_commit [runs_rules]:
  assumes "keeps_rows E" and "KCommit \<in> K" and "KJob \<in> K" and "KCancel \<in> K"
  shows "runs K (commitFinalizationWithRetry E o1 a)"
proof -
  have "runs K (commit_turns left E o1 a may)" for left may
    by (induction left arbitrary: may) (auto intro!: runs_commit_turn assms)
  then show ?thesis by (simp add: commitFinalizationWithRetry_def)
qed

lemma runs_lease [runs_rules]: "runs K (verifyConfirmLeaseAfterApproval E)"
  unfolding verifyConfirmLeaseAfterApproval_def by (intro runs_rules)

lemma runs_issue [runs_rules]:
  assumes "keeps_rows E" and "KCommit \<in> K" and "KJob \<in> K" and "KCancel \<in> K"
  shows "runs K (issue_approved E o1 a)"
  unfolding issue_approved_def by (intro runs_rules assms) (simp_all add: runs_rules assms)

lemma runs_obtain [runs_rules]:
  "keeps_rows E \<Longrightarrow> KLookup \<in> K \<Longrightarrow> KJob \<in> K \<Longrightarrow> KConfirm \<in> K \<Longrightarrow> KCancel \<in> K \<Longrightarrow> runs K (obtain_approval E o1)"
  unfolding obtain_approval_def by (intro runs_rules)

lemma runs_side_effects [runs_rules]: "KSold \<in> K \<Longrightarrow> runs K (runPostCommitSideEffects E o1)"
  unfolding runPostCommitSideEffects_def
  by (intro runs_rules runs_alter) auto

end
