(* ===== verification/ConfirmSettles.thy ===== *)
theory ConfirmSettles
  imports ConfirmRuns
begin

text \<open>
  Settled approvals: compensation, cancellation and issuance of an approved payment leave it recorded, with a
  cancellation sent, or in the hands of the reconcile job, whatever fails on the way.
\<close>

section \<open>Settled approvals\<close>

text \<open>
  A row of this payment or of this order exists, a cancellation of this payment was sent, or its reconcile job
  was queued (a job that could not be queued is reported for manual work).
\<close>

definition settled :: "payment_identity \<Rightarrow> world \<Rightarrow> bool" where
  "settled i w \<longleftrightarrow>
     (\<exists>x \<in> row_ids (fw_db w). fst x = pi_orderId i \<or> snd x = pi_paymentKey i) \<or>
     CancelSent (pi_paymentKey i) \<in> set (fw_log w) \<or>
     (\<exists>r. JobQueued i r \<in> set (fw_log w) \<or> JobLost i r \<in> set (fw_log w))"

lemma settled_after: "after K w w1 \<Longrightarrow> settled i w \<Longrightarrow> settled i w1"
  unfolding settled_def using after_log after_rows by blast

lemma settledI:
  "x \<in> row_ids (fw_db w) \<Longrightarrow> fst x = pi_orderId i \<or> snd x = pi_paymentKey i \<Longrightarrow> settled i w"
  "CancelSent (pi_paymentKey i) \<in> set (fw_log w) \<Longrightarrow> settled i w"
  "JobQueued i r \<in> set (fw_log w) \<Longrightarrow> settled i w"
  "JobLost i r \<in> set (fw_log w) \<Longrightarrow> settled i w"
  by (auto simp: settled_def)

lemma wp_runs:
  assumes "runs K p" and "\<And>x w1. after K w w1 \<Longrightarrow> Q x w1" and "\<And>e w1. after K w w1 \<Longrightarrow> Er e w1"
  shows "wp p Q Er w"
proof -
  from assms(1) have "wp p (\<lambda>_. after K w) (\<lambda>_. after K w) w" by (simp add: runs_def)
  from wp_mono [OF this assms(2,3)] show ?thesis .
qed

lemma wp_and_runs:
  assumes "runs K p" and "wp p Q Er w" and "\<And>x w1. after K w w1 \<Longrightarrow> Q x w1 \<Longrightarrow> Q1 x w1"
    and "\<And>e w1. after K w w1 \<Longrightarrow> Er e w1 \<Longrightarrow> Er1 e w1"
  shows "wp p Q1 Er1 w"
proof -
  from assms(1) have "wp p (\<lambda>_. after K w) (\<lambda>_. after K w) w" by (simp add: runs_def)
  from wp_mono [OF wp_both [OF this assms(2)]] assms(3,4) show ?thesis by blast
qed

lemma settled_stays:
  assumes "runs UNIV p" and "settled i w"
  shows "wp p (\<lambda>_. settled i) (\<lambda>_. settled i) w"
  by (rule wp_runs [OF assms(1)]) (auto intro: settled_after [OF _ assms(2)])

text \<open>An approval of this payment that no row records, with its reconcile context.\<close>

definition open_approval :: "payment_identity \<Rightarrow> approved_snapshot \<Rightarrow> bool" where
  "open_approval i a \<longleftrightarrow> as_existingPaymentId a = None \<and> as_paymentKey a = pi_paymentKey i \<and>
     as_orderId a = pi_orderId i \<and> (\<exists>c. as_reconcile a = Some c \<and> job_key c = i)"

lemma wp_tick: "(\<And>n. Q n (w\<lparr>fw_tick := Suc n\<rparr>)) \<Longrightarrow> wp tick Q Er w"
  by (simp add: wp_def tick_def)

lemma clock_total: "(\<And>t w1. fw_db w1 = fw_db w \<Longrightarrow> fw_log w1 = fw_log w \<Longrightarrow> Q t w1) \<Longrightarrow> wp (clock E) Q Er w"
  by (simp add: clock_def wp_def bnd_def tick_def ret_def)

lemma schedule_settles:
  assumes "job_key c = i"
  shows "wp (scheduleConfirmReconcile E c reason n t) (\<lambda>_. settled i) (\<lambda>_ _. False) w"
  unfolding scheduleConfirmReconcile_def wp_eqs
  by (rule clock_total, rule wp_tick) (auto simp: wp_eqs log_event_def assms intro: settledI)

lemma schedule_first_settles:
  assumes "open_approval i a"
  shows "wp (schedule_first E (as_reconcile a) reason) (\<lambda>_. settled i) (\<lambda>_ _. False) w"
proof -
  from assms obtain c where c: "as_reconcile a = Some c" "job_key c = i" by (auto simp: open_approval_def)
  from schedule_settles [OF c(2)] show ?thesis by (simp add: schedule_first_def c(1) wp_eqs)
qed

lemma unknown_settles:
  assumes "job_key c = i"
  shows "wp (throwOutcomeUnknown E (Some c) reason m) (\<lambda>_ _. False) (\<lambda>e w1. is_http e \<and> settled i w1) w"
  unfolding throwOutcomeUnknown_def schedule_first_def
  by (simp add: wp_eqs) (rule wp_mono [OF schedule_settles [OF assms]], simp_all)

lemma open_unknown_settles:
  assumes "open_approval i a"
  shows "wp (throwOutcomeUnknown E (as_reconcile a) reason m) (\<lambda>_ _. False) (\<lambda>e w1. is_http e \<and> settled i w1) w"
proof -
  from assms obtain c where c: "as_reconcile a = Some c" "job_key c = i" by (auto simp: open_approval_def)
  from unknown_settles [OF c(2)] show ?thesis by (simp add: c(1))
qed

lemma request_key: "buildFullPaymentCancelRequest p reason k s = Inr command \<Longrightarrow> cr_paymentKey command = cp_paymentKey p"
  by (auto simp: buildFullPaymentCancelRequest_def finish_request_def split: sum.splits)

lemma cancel_settles:
  assumes "as_paymentKey a = pi_paymentKey i"
  shows "wp (cancelApprovedPaymentOrThrow E a reason k) (\<lambda>_. settled i) (\<lambda>e w1. is_http e \<longrightarrow> settled i w1) w"
proof (cases "buildFullPaymentCancelRequest (cancel_snapshot a) reason
    (nullish k (Some (''reservation-finalization-cancel:'' @ as_orderId a))) (nullish (as_existingPaymentId a) (Some (as_orderId a)))")
  case (Inl e)
  then show ?thesis by (simp add: cancelApprovedPaymentOrThrow_def wp_eqs)
next
  case (Inr command)
  have "cr_paymentKey command = pi_paymentKey i"
    using request_key [OF Inr] assms by (simp add: cancel_snapshot_def)
  then show ?thesis
    unfolding cancelApprovedPaymentOrThrow_def Inr sum.case call_cancel_def wp_eqs
    by (intro wp_tick) (auto simp: wp_eqs log_event_def split: sum.splits intro!: settledI(2))
qed

lemma select_row:
  assumes "keeps_rows E" and "\<And>w1. after {} w w1 \<Longrightarrow> Q (f (fw_db w1)) w1" and "\<And>e w1. after {} w w1 \<Longrightarrow> Er e w1"
  shows "wp (select E f) Q Er w"
proof -
  obtain r w1 where s: "select E f w = (r, w1)" by fastforce
  from runsD [OF runs_select [OF assms(1)] s] have a: "after {} w w1" .
  from s have "r = Inr (f (fw_db w1)) \<or> (\<exists>e. r = Inl e)"
    by (auto simp: select_def statement_def Let_def split: option.splits)
  with assms(2,3) [OF a] s show ?thesis by (auto simp: wp_def)
qed

lemma find_order_row:
  "find_order_payment db oid rid = Some p \<Longrightarrow> (oid, py_paymentKey p) \<in> row_ids db"
  unfolding find_order_payment_def row_ids_def by (auto dest: find_SomeD)

lemma read_state_settles:
  assumes E: "keeps_rows E" and oid: "oid = pi_orderId i"
  shows "wp (readFinalizationState E rid oid)
    (\<lambda>st w1. (case st of StCommitted pid k \<Rightarrow> settled i w1 | StCancelled \<Rightarrow> settled i w1 | _ \<Rightarrow> True)) (\<lambda>_ _. False) w"
  unfolding readFinalizationState_def wp_eqs
proof (rule select_row [OF E], goal_cases)
  case (1 w1)
  show ?case
  proof (cases "find_order_payment (fw_db w1) oid rid")
    case None
    then show ?thesis by (simp add: wp_eqs)
  next
    case (Some p)
    from find_order_row [OF this] have s: "settled i w1" by (rule settledI(1)) (simp add: oid)
    then have "settled i w2" if "after {} w1 w2" for w2 using that settled_after by blast
    with s show ?thesis unfolding Some option.case by (simp add: wp_eqs select_row [OF E])
  qed
qed (simp add: wp_eqs)

section \<open>Compensation settles\<close>

lemma insert_row:
  assumes "\<And>w1. (py_tossOrderId row, py_paymentKey row) \<in> row_ids (fw_db w1) \<Longrightarrow> Q True w1" and "\<And>w1. Q False w1"
    and "\<And>e w1. Er (DatabaseFailure e) w1"
  shows "wp (statement E (insert_payment row)) Q Er w"
proof -
  obtain ok db1 where i: "insert_payment row (en_others E (fw_tick w) (fw_db w)) = (ok, db1)" by fastforce
  have "ok \<Longrightarrow> (py_tossOrderId row, py_paymentKey row) \<in> row_ids db1"
    using insert_payment_True i by (cases ok) auto
  with assms(1) [of "w\<lparr>fw_tick := Suc (fw_tick w), fw_db := db1\<rparr>"] assms(2,3) show ?thesis
    by (cases ok) (auto simp: wp_def statement_def Let_def i split: option.splits)
qed

lemma reach_runs: "(\<And>x w1. Q x w1) \<Longrightarrow> (\<And>e w1. e = OtherFailure \<Longrightarrow> Er e w1) \<Longrightarrow> wp (reach f) Q Er w"
  unfolding reach_def wp_eqs by (rule wp_tick) (simp add: wp_eqs split: option.split)

definition comp_settles :: "payment_identity \<Rightarrow> compensation \<Rightarrow> world \<Rightarrow> bool" where
  "comp_settles i r w = (case r of
     Compensated \<Rightarrow> settled i w | CancelPending \<Rightarrow> settled i w | LeaseLost \<Rightarrow> True
   | RecordedElsewhere st \<Rightarrow> (case st of StCommitted pid k \<Rightarrow> settled i w | StCancelled \<Rightarrow> settled i w | _ \<Rightarrow> True))"

lemma comp_settlesI: "settled i w \<Longrightarrow> comp_settles i r w"
  by (simp add: comp_settles_def split: compensation.split finalization_state.split)

lemma claim_row_ids: "(py_tossOrderId (claim_row pid rid a reason), py_paymentKey (claim_row pid rid a reason)) = (as_orderId a, as_paymentKey a)"
  by (simp add: claim_row_def new_payment_row_def)

lemma compensate_settles:
  assumes E: "keeps_rows E" and a: "open_approval i a"
  shows "wp (compensateUnrecordedApproval E a rid reason key) (comp_settles i) (\<lambda>e w1. is_http e \<longrightarrow> settled i w1) w"
proof -
  let ?Er = "\<lambda>e w1. is_http e \<longrightarrow> settled i w1"
  have lost: "wp (ret LeaseLost) (comp_settles i) ?Er w1" for w1 by (simp add: wp_eqs comp_settles_def)
  have claimed: "wp (cancelClaimedApproval E b rid reason key) (comp_settles i) ?Er w1" if "settled i w1" for b w1
    using settled_stays [OF runs_cancel_claimed [OF E] that] by (rule wp_mono [rotated 0]) (auto intro: comp_settlesI)
  have elsewhere: "wp (readFinalizationState E rid (as_orderId a)) (\<lambda>st. comp_settles i (RecordedElsewhere st)) ?Er w1" for w1
    using a by (intro wp_mono [OF read_state_settles [OF E, where i = i]]) (auto simp: comp_settles_def open_approval_def)
  have insert: "wp (statement E (insert_payment (claim_row pid rid a reason)))
      (\<lambda>claimed. wp (if \<not> claimed then bnd (readFinalizationState E rid (as_orderId a)) (\<lambda>st. ret (RecordedElsewhere st))
          else cancelClaimedApproval E (a\<lparr>as_existingPaymentId := Some (py_id (claim_row pid rid a reason))\<rparr>) rid reason key)
        (comp_settles i) ?Er) ?Er w1" for pid w1
  proof (rule insert_row, goal_cases)
    case (1 w2)
    then have "settled i w2" using a by (intro settledI(1)) (auto simp: claim_row_ids open_approval_def)
    from claimed [OF this] show ?case by simp
  next
    case (2 w2)
    show ?case by (simp add: wp_eqs elsewhere)
  qed simp
  show ?thesis
    unfolding compensateUnrecordedApproval_def wp_eqs Let_def
    by (rule reach_runs) (auto simp: wp_eqs comp_settles_def simp del: split_paired_All intro!: wp_tick insert [unfolded wp_eqs])
qed

lemma then_anything:
  assumes "settled i w" and "runs UNIV p" and "\<And>x w1. settled i w1 \<Longrightarrow> Q x w1" and "\<And>e w1. settled i w1 \<Longrightarrow> Er e w1"
  shows "wp p Q Er w"
  using settled_stays [OF assms(2,1)] by (rule wp_mono) (auto intro: assms(3,4))

lemma unclaimed_settles:
  assumes a: "open_approval i a"
  shows "wp (cancelUnclaimedApproval E a reason) (\<lambda>_. settled i) (\<lambda>_. settled i) w"
proof -
  note s = schedule_first_settles [OF a]
  show ?thesis
    unfolding cancelUnclaimedApproval_def wp_eqs
  proof (rule wp_runs [of UNIV], goal_cases)
    case 1
    show ?case by (intro runs_rules) simp
  next
    case (2 completed w1)
    show ?case by (rule wp_mono [OF s]) simp_all
  next
    case (3 e w1)
    show ?case by (rule wp_mono [OF s]) simp_all
  qed
qed

lemma compensate_confirm_settles:
  assumes E: "keeps_rows E" and a: "open_approval i a"
  shows "wp (compensateConfirmApproval E a rid reason) (\<lambda>_. settled i) (\<lambda>_. settled i) w"
proof -
  let ?S = "\<lambda>_. settled i"
  have sched: "wp (schedule_first E (as_reconcile a) t) ?S ?S w1" for t w1
    by (rule wp_mono [OF schedule_first_settles [OF a]]) simp_all
  have unknown: "wp (throwOutcomeUnknown E (as_reconcile a) t m) ?S ?S w1" for t m w1
    by (rule wp_mono [OF open_unknown_settles [OF a]]) simp_all
  have other: "wp (cancelApprovalIfCommittedWithAnotherPayment E a k) ?S ?S w1"
    if "settled i w1" for k w1
    by (rule then_anything [OF that]) (auto intro: runs_rules)
  show ?thesis
    unfolding compensateConfirmApproval_def wp_eqs
  proof (rule wp_mono [OF compensate_settles [OF E a]], goal_cases)
    case (1 r w1)
    then show ?case
      by (cases r) (auto simp: comp_settles_def wp_eqs sched unknown other split: finalization_state.splits)
  next
    case (2 e w1)
    have "wp (schedule_first E (as_reconcile a) ''compensation_cancel_failed'') (\<lambda>_. wp (raise e) ?S ?S) ?S w1"
      by (rule wp_mono [OF schedule_first_settles [OF a]]) (simp_all add: wp_eqs)
    then show ?case by (simp add: wp_eqs unclaimed_settles [OF a])
  qed
qed

lemma cancel_approved_settles:
  assumes "keeps_rows E" and "open_approval i a"
  shows "wp (cancelApprovedPaymentAfterFailure E a rid reason) (\<lambda>_. settled i) (\<lambda>_. settled i) w"
  using compensate_confirm_settles [OF assms] assms(2) by (simp add: cancelApprovedPaymentAfterFailure_def open_approval_def)

section \<open>Issuing settles\<close>

lemma transaction_commits:
  assumes E: "keeps_rows E"
  shows "wp (transaction E (commitFinalization E o1 a) c)
    (\<lambda>pid w1. as_existingPaymentId a = None \<longrightarrow> (as_orderId a, as_paymentKey a) \<in> row_ids (fw_db w1)) (\<lambda>_ _. True) w"
  unfolding wp_def transaction_def Let_def
  by (auto split: tx_end.splits sum.splits prod.splits dest: commitFinalization_rows(2))

lemma commit_turn_settles:
  assumes E: "keeps_rows E" and a: "open_approval i a" and oid: "pi_orderId (or_request o1) = pi_orderId i"
    and again: "\<And>f m w1. again = Some f \<Longrightarrow> wp (f m) (\<lambda>_. settled i) (\<lambda>_. settled i) w1"
  shows "wp (commit_turn E o1 a again may) (\<lambda>_. settled i) (\<lambda>_. settled i) w"
proof -
  let ?S = "\<lambda>_. settled i" and ?rid = "rs_id (or_reservation o1)"
  have undo: "wp (bnd (throwIfCommitUnverifiable E a m st) (\<lambda>_. bnd (cancelApprovedPaymentAfterFailure E a ?rid reason) (\<lambda>_. raise e))) ?S ?S w1"
    for m st reason w1 and e :: failure
  proof -
    have "wp (cancelApprovedPaymentAfterFailure E a ?rid reason) (\<lambda>_. wp (raise e) ?S ?S) ?S w2" for w2
      by (rule wp_mono [OF cancel_approved_settles [OF E a]]) (simp_all add: wp_eqs)
    moreover have "wp (throwOutcomeUnknown E (as_reconcile a) t m1) Q ?S w2" for t m1 w2 and Q :: "unit \<Rightarrow> world \<Rightarrow> bool"
      by (rule wp_mono [OF open_unknown_settles [OF a]]) simp_all
    ultimately show ?thesis by (simp add: throwIfCommitUnverifiable_def wp_eqs)
  qed
  have other: "wp (bnd (cancelApprovalIfCommittedWithAnotherPayment E a k) (\<lambda>_. ret pid)) ?S ?S w1"
    if "settled i w1" for k w1 and pid :: js_string
    unfolding wp_eqs by (rule then_anything [OF that]) (auto simp: wp_eqs intro: runs_rules)
  show ?thesis
    unfolding commit_turn_def wp_eqs
  proof (rule wp_mono [OF transaction_commits [OF E]], goal_cases)
    case (1 pid w1)
    with a show ?case by (auto simp: open_approval_def wp_eqs intro!: settledI(1))
  next
    case (2 e w1)
    show ?case
      unfolding sum.case Let_def wp_eqs
    proof (rule wp_mono [OF read_state_settles [OF E oid]], goal_cases)
      case (1 st w2)
      then show ?case
        by (cases st) (auto simp: wp_raise wp_ret undo [unfolded wp_eqs] other [unfolded wp_eqs] again wp_bnd)
    qed simp
  qed
qed

lemma commit_settles:
  assumes "keeps_rows E" and "open_approval i a" and "pi_orderId (or_request o1) = pi_orderId i"
  shows "wp (commitFinalizationWithRetry E o1 a) (\<lambda>_. settled i) (\<lambda>_. settled i) w"
proof -
  have "wp (commit_turns left E o1 a may) (\<lambda>_. settled i) (\<lambda>_. settled i) w1" for left may w1
    by (induction left arbitrary: may w1) (auto intro!: commit_turn_settles [OF assms])
  then show ?thesis by (simp add: commitFinalizationWithRetry_def)
qed

lemma lease_total: "(\<And>l w1. Q l w1) \<Longrightarrow> wp (verifyConfirmLeaseAfterApproval E) Q Er w"
  unfolding verifyConfirmLeaseAfterApproval_def wp_eqs
  by (rule reach_runs) (auto simp: wp_eqs split: bool.split intro!: reach_runs)

lemma issue_settles:
  assumes E: "keeps_rows E" and a: "open_approval i a" and oid: "pi_orderId (or_request o1) = pi_orderId i"
  shows "wp (issue_approved E o1 a) (\<lambda>_. settled i) (\<lambda>_. settled i) w"
proof -
  let ?S = "\<lambda>_. settled i" and ?rid = "rs_id (or_reservation o1)"
  have unknown: "wp (throwOutcomeUnknown E (as_reconcile a) t m :: js_string option confirm_prog) ?S ?S w1" for t m w1
    by (rule wp_mono [OF open_unknown_settles [OF a]]) simp_all
  have commit: "wp (commitFinalizationWithRetry E o1 a) ?S ?S w1" for w1 by (rule commit_settles [OF E a oid])
  have cancel: "wp (cancelApprovedPaymentAfterFailure E a ?rid reason) ?S ?S w1" for reason w1
    by (rule cancel_approved_settles [OF E a])
  have other: "wp (cancelApprovalIfCommittedWithAnotherPayment E a k) ?S ?S w1" if "settled i w1" for k w1
    by (rule then_anything [OF that]) (auto intro: runs_rules)
  have locks: "wp (seat_locks E) (\<lambda>x. wp (bnd (commitFinalizationWithRetry E o1 a) (\<lambda>pid. ret (Some pid))) ?S ?S)
      (\<lambda>e. wp (if \<not> is_http e then throwOutcomeUnknown E (as_reconcile a) ''seat_lock_check_failed'' OutcomePending
          else bnd (cancelApprovedPaymentAfterFailure E a ?rid HOLD_LOST_CANCEL_REASON) (\<lambda>_. raise e :: js_string option confirm_prog)) ?S ?S) w1" for w1
    by (rule wp_runs [OF runs_seat_locks [of UNIV]]) (simp_all add: wp_eqs unknown commit cancel)
  show ?thesis
    unfolding issue_approved_def Let_def
  proof (simp only: wp_bnd, rule lease_total, goal_cases)
    case (1 lease w1)
    show ?case
    proof (cases "lease = LeaseOwned")
      case True
      then show ?thesis using locks by (simp add: wp_eqs)
    next
      case False
      have "wp (readFinalizationState E ?rid (pi_orderId (or_request o1)))
          (\<lambda>st. wp (case st of
             StCommitted pid key \<Rightarrow> bnd (cancelApprovalIfCommittedWithAnotherPayment E a key) (\<lambda>_. ret None)
           | StCancelled \<Rightarrow> raise (Http 409 CancelInProgress)
           | _ \<Rightarrow> if lease \<noteq> LeaseReacquired
               then throwOutcomeUnknown E (as_reconcile a) (lease_reason lease)
                 (if lease = LeaseGone then ConfirmInProgress else OutcomePending)
               else bnd (outcome_of (seat_locks E)) (\<lambda>r. case r of
                   Inl e \<Rightarrow> if \<not> is_http e then throwOutcomeUnknown E (as_reconcile a) ''seat_lock_check_failed'' OutcomePending
                     else bnd (cancelApprovedPaymentAfterFailure E a ?rid HOLD_LOST_CANCEL_REASON) (\<lambda>_. raise e)
                 | Inr _ \<Rightarrow> bnd (commitFinalizationWithRetry E o1 a) (\<lambda>pid. ret (Some pid)))) ?S ?S) ?S w1"
      proof (rule wp_mono [OF read_state_settles [OF E oid]], goal_cases)
        case (1 st w2)
        then show ?case using locks by (cases st) (auto simp: wp_eqs unknown other)
      qed simp
      with False show ?thesis by (simp add: wp_bnd)
    qed
  qed
qed

end
