(* ===== verification/ConfirmDemo.thy ===== *)
theory ConfirmDemo
  imports ConfirmFlow
begin

text \<open>
  Two runs of payment confirm on a small database, evaluated step by step: one whose confirm call times out at
  the provider, and one that is approved and issues a ticket. The theorems on confirm are applied to them.
\<close>

section \<open>An order of one seat\<close>

definition demo_pi :: payment_identity where
  "demo_pi = \<lparr>pi_paymentKey = ''pay-1'', pi_orderId = ''order-1''\<rparr>"

definition demo_request :: confirm_request where
  "demo_request = \<lparr>pi_paymentKey = ''pay-1'', pi_orderId = ''order-1'', cd_kind = DomesticAmount 12000\<rparr>"

definition demo_rows :: order_db where
  "demo_rows =
     \<lparr>fd_payments = [],
      fd_reservations = [\<lparr>rs_id = ''r1'', rs_userId = ''u1'', rs_showtimeId = ''st1'', rs_status = ''PENDING_PAYMENT'',
        rs_totalAmount = 12000, rs_tossOrderId = ''order-1'', rs_admissionActiveUntilAt = None, rs_paymentDeadlineAt = None,
        rs_checkoutPaymentMethod = Some \<lparr>pm_method = ''CARD'', pm_provider = ''CARD'', pm_currency = None, pm_consentRequired = None\<rparr>,
        rs_charge = no_charge\<rparr>],
      fd_seats = [(''r1'', \<lparr>in_seatId = ''1F:A-1'', in_floorKey = None, in_floorLabel = None, in_seatKey = None,
        os_tierName = ''VIP'', os_price = 10000\<rparr>)],
      fd_tickets = [], fd_inventory = [],
      fd_showtimes = (\<lambda>s. if s = ''st1'' then Some \<lparr>sh_performanceId = ''p1'', sh_dateTime = Some 100000\<rparr> else None),
      fd_policies = (\<lambda>p. None), fd_accounts = [], fd_diagnostics = []\<rparr>"

definition demo_env :: "(nat \<Rightarrow> payment_identity \<Rightarrow> int \<Rightarrow> failure + toss_payment) \<Rightarrow> environment" where
  "demo_env confirm =
     \<lparr>en_now = (\<lambda>n. 1000), en_others = (\<lambda>n db. db), en_dbFails = (\<lambda>n. None), en_tx = (\<lambda>n. TxCommits),
      en_confirm = confirm,
      en_query = (\<lambda>n k. Inl (TossFailure \<lparr>te_code = ''PROVIDER_TIMEOUT'', te_httpStatus = None\<rparr>)),
      en_cancel = (\<lambda>n r. Inl OtherFailure), en_acquireLease = (\<lambda>n. Some True), en_refreshLease = (\<lambda>n. Some True),
      en_releaseLease = (\<lambda>n. Some ()), en_markAttempt = (\<lambda>n. Some ()), en_seats = (\<lambda>n. Some None),
      en_hasMarkers = True, en_marker = (\<lambda>n. Some ()), en_jobs = (\<lambda>n. True), en_newId = (\<lambda>n. ''id''),
      en_benefits = (\<lambda>n. None), en_phone = (\<lambda>p. None), en_quotes = False\<rparr>"

definition demo_start :: world where
  "demo_start = \<lparr>fw_tick = 0, fw_db = demo_rows, fw_jobs = [], fw_markers = [], fw_log = []\<rparr>"

definition demo_seat :: order_seat where
  "demo_seat = \<lparr>in_seatId = ''A-1'', in_floorKey = Some ''1F'', in_floorLabel = Some (map char_of [49, 236, 184, 181 :: nat]), in_seatKey = Some ''1F:A-1'',
     os_tierName = ''VIP'', os_price = 10000\<rparr>"

definition demo_pending :: order where
  "demo_pending = \<lparr>or_request = demo_request, or_userId = ''u1'', or_reservation = hd (fd_reservations demo_rows),
     or_existing = None, or_seats = [demo_seat], or_charge = None, or_amount = 12000\<rparr>"

lemma demo_outside: "en_acquireLease (demo_env f) n = Some True" "en_refreshLease (demo_env f) n = Some True"
  "en_releaseLease (demo_env f) n = Some ()" "en_markAttempt (demo_env f) n = Some ()" "en_seats (demo_env f) n = Some None"
  "en_now (demo_env f) n = 1000" "en_hasMarkers (demo_env f)" "en_marker (demo_env f) n = Some ()" "en_confirm (demo_env f) = f"
  by (simp_all add: demo_env_def)

lemma demo_seats: "getReservationSeatSelections demo_rows ''r1'' = [demo_seat]"
  by code_simp+

lemma demo_total: "calculatePayableTotal [demo_seat] = 12000"
  by code_simp+

lemma demo_select: "fw_db w = demo_rows \<Longrightarrow> select (demo_env c) f w = (Inr (f demo_rows), w\<lparr>fw_tick := fw_tick w + 1, fw_db := demo_rows\<rparr>)"
  by (simp add: select_def statement_def demo_env_def Let_def)

lemma demo_found: "find_payment demo_rows ''order-1'' = None"
  "List.find (\<lambda>r. rs_tossOrderId r = ''order-1'' \<and> rs_userId r = ''u1'') (fd_reservations demo_rows) = Some (hd (fd_reservations demo_rows))"
  by (simp_all add: demo_rows_def find_payment_def)

lemma demo_row: "rs_id (hd (fd_reservations demo_rows)) = ''r1''" "rs_status (hd (fd_reservations demo_rows)) = ''PENDING_PAYMENT''"
  "rs_totalAmount (hd (fd_reservations demo_rows)) = 12000" "rs_showtimeId (hd (fd_reservations demo_rows)) = ''st1''"
  "rs_admissionActiveUntilAt (hd (fd_reservations demo_rows)) = None"
  by (simp_all add: demo_rows_def)

lemma demo_locked:
  "fw_db w = demo_rows \<Longrightarrow> confirmAndCreateReservationLocked (demo_env c) demo_request ''u1'' w =
    confirm_pending (demo_env c) demo_pending (w\<lparr>fw_tick := fw_tick w + 3, fw_db := demo_rows\<rparr>)"
  by (simp add: confirmAndCreateReservationLocked_def confirm_order_def bnd_def demo_select demo_found demo_row demo_seats demo_total
      demo_request_def reject_if_def ret_def requested_amount_def pure_def demo_pending_def eval_nat_numeral)

lemma demo_run:
  "fw_log (snd (confirmAndCreateReservation (demo_env c) demo_request ''u1'' demo_start)) =
    fw_log (snd (confirm_pending (demo_env c) demo_pending (demo_start\<lparr>fw_tick := 6\<rparr>)))"
  by (simp add: confirmAndCreateReservation_def demo_start_def bnd_def always_def handle_def reach_def tick_def ret_def demo_locked
      demo_outside split: prod.splits sum.splits)

section \<open>The gates are passed\<close>

lemma demo_gate_checks:
  "assertCheckoutMethodMatchesProviderChargeRequest (cd_kind demo_request) (rs_checkoutPaymentMethod (hd (fd_reservations demo_rows))) = None"
  "getTicketLimitSnapshot (demo_env c) ''u1'' ''r1'' ''st1'' demo_rows =
     Inr \<lparr>ls_performanceId = ''p1'', ls_maxTicketsPerUser = 1, ls_activeTicketCount = 0\<rparr>"
  by code_simp+

lemma demo_order: "or_request demo_pending = demo_request" "or_userId demo_pending = ''u1''"
  "or_reservation demo_pending = hd (fd_reservations demo_rows)" "or_existing demo_pending = None" "or_seats demo_pending = [demo_seat]"
  by (simp_all add: demo_pending_def)

lemma demo_confirm_gates:
  "confirm_pending (demo_env c) demo_pending (demo_start\<lparr>fw_tick := 6\<rparr>) =
    bnd (obtain_approval (demo_env c) demo_pending) (\<lambda>a.
      bnd (handle (issue_approved (demo_env c) demo_pending a) (\<lambda>e.
             bnd (if is_http e then ret () else schedule_first (demo_env c) (as_reconcile a) ''unexpected_post_approval_error'')
               (\<lambda>_. raise e))) (\<lambda>committed.
      bnd (if committed = None then ret () else runPostCommitSideEffects (demo_env c) demo_pending) (\<lambda>_.
        ret ''r1''))) (demo_start\<lparr>fw_tick := 9\<rparr>)"
  by (simp add: confirm_pending_def admission_gate_def existing_payment_gate_def ticket_limit_gate_def seat_hold_gate_def seat_locks_def
      demo_order demo_start_def bnd_def clock_def tick_def ret_def demo_outside demo_row isPastWindow_def demo_gate_checks demo_select
      pure_def over_limit_def handle_def reach_def eval_nat_numeral)

section \<open>A confirm without an answer\<close>

definition timed_out :: "nat \<Rightarrow> payment_identity \<Rightarrow> int \<Rightarrow> failure + toss_payment" where
  "timed_out n i amount = Inl (TossFailure \<lparr>te_code = ''PROVIDER_TIMEOUT'', te_httpStatus = None\<rparr>)"

lemma demo_timeout:
  "fw_log (snd (confirmAndCreateReservation (demo_env timed_out) demo_request ''u1'' demo_start)) =
    [ConfirmSent demo_pi 1200000,
     ConfirmRejected demo_pi (TossFailure \<lparr>te_code = ''PROVIDER_TIMEOUT'', te_httpStatus = None\<rparr>),
     JobQueued demo_pi ''provider_confirm_unresolved'']"
  unfolding demo_run demo_confirm_gates by code_simp


section \<open>A confirm that is approved\<close>

definition demo_answer :: toss_payment where
  "demo_answer = \<lparr>tr_status = ''DONE'', tr_totalAmount = 1200000, tr_balanceAmount = None, tr_currency = Some ''KRW'', tr_cancels = None,
     tp_paymentKey = ''pay-1'', tp_orderId = ''order-1'', tp_method = Some ''CARD'', tp_easyPay = NoEasyPay, tp_approvedAt = Some 900\<rparr>"

definition approved :: "nat \<Rightarrow> payment_identity \<Rightarrow> int \<Rightarrow> failure + toss_payment" where
  "approved n i amount = Inr demo_answer"

definition demo_approval :: approved_snapshot where
  "demo_approval = toNewApprovedPaymentSnapshot demo_pi 12000 (or_expectation demo_pending) None demo_answer 1000"

lemma demo_enforced: "resolveEnforcedAllowedPaymentMethods None = [''CARD'']"
  by code_simp+

lemma demo_card_texts: "js_trim ''CARD'' = ''CARD''" "js_trim ''KRW'' = ''KRW''" "js_upper ''CARD'' = ''CARD''" "js_upper ''KRW'' = ''KRW''"
  by (rule js_trim_printable, simp add: printable_def)+ (simp_all add: js_upper_def upper_char_def)

lemma demo_method: "normalizeTossApprovedMethod (Some ''CARD'') NoEasyPay = \<lparr>am_category = ''CARD'', am_provider = None\<rparr>"
  by (simp add: normalizeTossApprovedMethod_def lookupLabel_def METHOD_CATEGORY_BY_LABEL_def demo_card_texts Let_def)

lemma demo_route: "isAllowedApprovedMethod (Some ''CARD'') DOMESTIC"
  by (simp add: isAllowedApprovedMethod_def DOMESTIC_METHOD_LABELS_def CARD_METHOD_LABELS_def demo_card_texts)

lemma demo_expectation: "xp_currency (or_expectation demo_pending) = KRW" "xp_amountMinor (or_expectation demo_pending) = 12000"
    "xp_route (or_expectation demo_pending) = DOMESTIC"
  by code_simp+

lemma demo_checkout: "rs_checkoutPaymentMethod (hd (fd_reservations demo_rows)) =
    Some \<lparr>pm_method = ''CARD'', pm_provider = ''CARD'', pm_currency = None, pm_consentRequired = None\<rparr>"
  by (simp add: demo_rows_def)

lemma demo_match:
  "findProviderApprovalMismatch demo_answer demo_pi (or_expectation demo_pending) (rs_checkoutPaymentMethod (hd (fd_reservations demo_rows)))
     [''CARD''] = None"
  by (simp add: findProviderApprovalMismatch_def demo_answer_def demo_pi_def demo_expectation demo_checkout demo_card_texts demo_route demo_method
      findApprovedMethodPolicyMismatch_def)

lemma demo_showtime: "fd_showtimes demo_rows ''st1'' = Some \<lparr>sh_performanceId = ''p1'', sh_dateTime = Some 100000\<rparr>"
  "fd_policies demo_rows p = None"
  by (simp_all add: demo_rows_def)

lemma demo_order_parts: "or_identity demo_pending = demo_pi" "or_charge demo_pending = None" "or_sent_amount demo_pending = 1200000"
    "pi_orderId demo_pi = ''order-1''" "pi_paymentKey demo_pi = ''pay-1''"
  by (simp_all add: or_identity_def or_sent_amount_def demo_pending_def demo_request_def demo_pi_def payment_identity.truncate_def)

lemma demo_obtained:
  "obtain_approval (demo_env approved) demo_pending (demo_start\<lparr>fw_tick := 9\<rparr>) =
    (Inr demo_approval, demo_start\<lparr>fw_tick := 14, fw_markers := [''order-1''],
       fw_log := [ConfirmSent demo_pi 1200000, ConfirmAnswered demo_pi demo_answer]\<rparr>)"
  by (simp add: obtain_approval_def demo_order demo_order_parts approvePaymentWithProvider_def loadShowtimeSaleContext_def demo_row demo_select
        demo_start_def bnd_def clock_def tick_def ret_def demo_outside request_provider_approval_def isShowtimeSalesClosed_def demo_showtime
        markProviderConfirmSent_def handle_def reach_def alter_def call_confirm_def log_event_def approved_def demo_enforced demo_match
        demo_approval_def Let_def eval_nat_numeral)

lemma demo_issue:
  "fw_log (snd (confirmAndCreateReservation (demo_env approved) demo_request ''u1'' demo_start)) =
    [ConfirmSent demo_pi 1200000, ConfirmAnswered demo_pi demo_answer, Committed demo_approval ''id'', SoldBroadcast ''st1'' ''1F:A-1'']"
proof -
  have "fw_log (snd (confirmAndCreateReservation (demo_env approved) demo_request ''u1'' demo_start)) =
    fw_log (snd ((bnd (handle (issue_approved (demo_env approved) demo_pending demo_approval) (\<lambda>e.
             bnd (if is_http e then ret () else schedule_first (demo_env approved) (as_reconcile demo_approval) ''unexpected_post_approval_error'')
               (\<lambda>_. raise e))) (\<lambda>committed.
      bnd (if committed = None then ret () else runPostCommitSideEffects (demo_env approved) demo_pending) (\<lambda>_.
        ret ''r1''))) (demo_start\<lparr>fw_tick := 14, fw_markers := [''order-1''],
       fw_log := [ConfirmSent demo_pi 1200000, ConfirmAnswered demo_pi demo_answer]\<rparr>)))"
    by (simp add: demo_run demo_confirm_gates bnd_def [of "obtain_approval e o1" for e o1] demo_obtained)
  also have "\<dots> = [ConfirmSent demo_pi 1200000, ConfirmAnswered demo_pi demo_answer, Committed demo_approval ''id'', SoldBroadcast ''st1'' ''1F:A-1'']"
    by code_simp
  finally show ?thesis .
qed

end
