(* ===== verification/ConfirmTheorems.thy ===== *)
theory ConfirmTheorems
  imports ConfirmSettles ConfirmDemo
begin

text \<open>
  What payment confirm guarantees about a charge: once the provider may have approved a payment of an order,
  confirm leaves it recorded, cancelled, or in the hands of the reconcile job, whatever fails on the way.
\<close>

section \<open>Approvals that may exist\<close>

text \<open>The provider answered a payment of this order as approved.\<close>

definition approved_seen :: "payment_identity \<Rightarrow> world \<Rightarrow> bool" where
  "approved_seen i w \<longleftrightarrow> (\<exists>p. ConfirmAnswered i p \<in> set (fw_log w)) \<or>
     (\<exists>p. LookedUp i p \<in> set (fw_log w) \<and> tr_status p \<in> set PROVIDER_APPROVED_STATUSES)"

text \<open>A confirm was sent, and neither a definite rejection nor a lookup proves that nothing was approved.\<close>

definition undecided :: "payment_identity \<Rightarrow> world \<Rightarrow> bool" where
  "undecided i w \<longleftrightarrow> (\<exists>n. ConfirmSent i n \<in> set (fw_log w)) \<and>
     \<not> (\<exists>f. ConfirmRejected i f \<in> set (fw_log w) \<and> \<not> isTossConfirmOutcomeUnknown f) \<and>
     \<not> (\<exists>p. LookedUp i p \<in> set (fw_log w) \<and> (tr_status p = ''CANCELED'' \<or> tr_status p \<in> set PROVIDER_NOT_APPROVED_STATUSES))"

definition may_be_charged :: "payment_identity \<Rightarrow> world \<Rightarrow> bool" where
  "may_be_charged i w \<longleftrightarrow> approved_seen i w \<or> undecided i w"

abbreviation taken_care :: "payment_identity \<Rightarrow> world \<Rightarrow> bool" where
  "taken_care i w \<equiv> may_be_charged i w \<longrightarrow> settled i w"

abbreviation quiet :: "kind set" where
  "quiet \<equiv> {KCancel, KCommit, KJob, KSold}"

lemma quiet_events:
  assumes "after quiet w w1"
  shows "ConfirmSent i n \<in> set (fw_log w1) \<longleftrightarrow> ConfirmSent i n \<in> set (fw_log w)"
    and "ConfirmAnswered i p \<in> set (fw_log w1) \<longleftrightarrow> ConfirmAnswered i p \<in> set (fw_log w)"
    and "ConfirmRejected i f \<in> set (fw_log w1) \<longleftrightarrow> ConfirmRejected i f \<in> set (fw_log w)"
    and "LookedUp i p \<in> set (fw_log w1) \<longleftrightarrow> LookedUp i p \<in> set (fw_log w)"
  using after_new [OF assms] after_log [OF assms] by (metis kind.distinct kind_of.simps empty_iff insert_iff)+

lemma quiet_charged: "after quiet w w1 \<Longrightarrow> may_be_charged i w1 = may_be_charged i w"
  by (simp add: may_be_charged_def approved_seen_def undecided_def quiet_events)

lemma quiet_keeps:
  assumes "runs quiet p" and "\<not> may_be_charged i w" and "\<And>x w1. \<not> may_be_charged i w1 \<Longrightarrow> Q x w1"
    and "\<And>e w1. \<not> may_be_charged i w1 \<Longrightarrow> Er e w1"
  shows "wp p Q Er w"
  by (rule wp_runs [OF assms(1)]) (auto simp: quiet_charged assms(2) intro: assms(3,4))

definition this_order :: "payment_identity \<Rightarrow> toss_payment \<Rightarrow> bool" where
  "this_order i p \<longleftrightarrow> tp_paymentKey p = pi_paymentKey i \<and> tp_orderId p = pi_orderId i"

lemma query_cases:
  assumes "\<And>e w1. fw_log w1 = fw_log w \<Longrightarrow> Er e w1" and "\<And>w1. fw_log w1 = fw_log w \<Longrightarrow> Q None w1"
    and "\<And>p w1. \<not> this_order i p \<Longrightarrow> fw_log w1 = fw_log w \<Longrightarrow> Q (Some p) w1"
    and "\<And>p w1. this_order i p \<Longrightarrow> fw_log w1 = fw_log w @ [LookedUp i p] \<Longrightarrow> Q (Some p) w1"
  shows "wp (call_query E i) Q Er w"
  unfolding call_query_def wp_eqs
  by (rule wp_tick)
    (auto simp: wp_eqs log_event_def this_order_def [symmetric] assms split: sum.split option.split)

lemma lookup_cases:
  assumes "\<And>w1. fw_log w1 = fw_log w \<Longrightarrow> Q LkUnknown w1" and "\<And>w1. fw_log w1 = fw_log w \<Longrightarrow> Q (LkNotApproved None) w1"
    and "\<And>p w1. this_order i p \<Longrightarrow> tr_status p \<notin> set PROVIDER_APPROVED_STATUSES \<Longrightarrow>
      fw_log w1 = fw_log w @ [LookedUp i p] \<Longrightarrow> Q (LkNotApproved (Some p)) w1"
    and "\<And>p w1. this_order i p \<Longrightarrow> tr_status p \<in> set PROVIDER_APPROVED_STATUSES \<Longrightarrow>
      fw_log w1 = fw_log w @ [LookedUp i p] \<Longrightarrow> Q (LkApproved p) w1"
  shows "wp (lookupProviderPayment E i) Q Er w"
  unfolding lookupProviderPayment_def wp_eqs
  by (rule query_cases) (auto simp: wp_eqs assms this_order_def)

lemma charged_same: "fw_log w1 = fw_log w \<Longrightarrow> may_be_charged i w1 = may_be_charged i w"
  by (simp add: may_be_charged_def approved_seen_def undecided_def)

lemma charged_lookup:
  "fw_log w1 = fw_log w @ [LookedUp i p] \<Longrightarrow> tr_status p \<notin> set PROVIDER_APPROVED_STATUSES \<Longrightarrow>
    \<not> may_be_charged i w \<Longrightarrow> \<not> may_be_charged i w1"
  by (auto simp: may_be_charged_def approved_seen_def undecided_def)

section \<open>Up to the approval\<close>

lemma new_snapshot_open:
  "as_existingPaymentId (toNewApprovedPaymentSnapshot i amt x c p now) = None"
  "open_approval i (toNewApprovedPaymentSnapshot i amt x c p now)"
  by (simp_all add: toNewApprovedPaymentSnapshot_def open_approval_def job_key_def Let_def payment_identity.truncate_def)

lemma key_of_context [simp]:
  "job_key \<lparr>rc_identity = payment_identity.truncate i, rc_expectation = x, rc_providerCharge = c\<rparr> = i" for i :: payment_identity
  by (simp add: job_key_def payment_identity.truncate_def)

lemma unknown_taken:
  "job_key c = i \<Longrightarrow> (\<And>e w1. is_http e \<Longrightarrow> settled i w1 \<Longrightarrow> Er e w1) \<Longrightarrow> wp (throwOutcomeUnknown E (Some c) t m) Q Er w"
  by (rule wp_mono [OF unknown_settles]) auto

lemma schedule_taken:
  "job_key c = i \<Longrightarrow> (\<And>x w1. settled i w1 \<Longrightarrow> Q x w1) \<Longrightarrow> wp (scheduleConfirmReconcile E c t k at) Q Er w"
  by (rule wp_mono [OF schedule_settles]) simp_all

lemma compensate_reject_settles:
  assumes E: "keeps_rows E" and a: "open_approval i a" and c: "job_key c = i"
  shows "wp (compensate_then_reject E c a rid f reason) (\<lambda>_. settled i) (\<lambda>_. settled i) w"
  unfolding compensate_then_reject_def wp_eqs
proof (rule wp_mono [OF compensate_settles [OF E a]], goal_cases)
  case (1 r w1)
  have other: "wp (cancelApprovalIfCommittedWithAnotherPayment E a k) (\<lambda>_. settled i) (\<lambda>_. settled i) w1" if "settled i w1" for k w1
    by (rule then_anything [OF that]) (auto intro: runs_rules)
  have s: "wp (scheduleConfirmReconcile E c t k at) (\<lambda>_. settled i) (\<lambda>_. settled i) w1" for t k at w1
    by (rule schedule_taken [OF c])
  have u: "wp (throwOutcomeUnknown E (Some c) t m) (\<lambda>_. settled i) (\<lambda>_. settled i) w1" for t m w1
    by (rule unknown_taken [OF c])
  from 1 show ?case
    by (cases r) (auto simp: comp_settles_def wp_eqs s u other split: finalization_state.splits)
next
  case (2 e w1)
  then show ?case by (simp add: wp_eqs schedule_taken [OF c] unknown_taken [OF c])
qed

lemma wp_unless:
  "(c \<Longrightarrow> wp q Q Er w) \<Longrightarrow> (\<not> c \<Longrightarrow> wp p Q Er w) \<Longrightarrow> wp (if \<not> c then p else q) Q Er w"
  by simp

lemma lookup_decides:
  assumes n: "\<not> may_be_charged i w"
    and unknown: "\<And>w1. Q LkUnknown w1"
    and rejected: "\<And>p w1. \<not> may_be_charged i w1 \<Longrightarrow> Q (LkNotApproved p) w1"
    and approved: "\<And>p w1. Q (LkApproved p) w1"
  shows "wp (lookupProviderPayment E i) Q Er w"
proof (rule lookup_cases, goal_cases)
  case (2 w1)
  with n charged_same [OF 2] have "\<not> may_be_charged i w1" by simp
  then show ?case by (rule rejected)
next
  case (3 p w1)
  from charged_lookup [OF 3(3,2) n] show ?case by (rule rejected)
qed (rule unknown approved)+

lemma quiet_then_raise:
  "runs quiet p \<Longrightarrow> \<not> may_be_charged i w \<Longrightarrow> wp (bnd p (\<lambda>_. raise f)) (\<lambda>_. taken_care i) (\<lambda>_. taken_care i) w"
  unfolding wp_bnd wp_raise by (rule quiet_keeps) blast+

lemma rejected_taken_care:
  assumes E: "keeps_rows E" and n: "\<not> may_be_charged i w"
  shows "wp (rejectBeforeApprovalWithoutLocalPayment E i r c x gate f reason) (\<lambda>_. taken_care i) (\<lambda>_. taken_care i) w"
  unfolding rejectBeforeApprovalWithoutLocalPayment_def Let_def wp_bnd
proof (rule quiet_keeps [OF runs_may n], rule wp_unless, goal_cases)
  case (1 may w1)
  then show ?case
    unfolding wp_bnd
  proof (intro lookup_decides, goal_cases)
    case (2 w2)
    show ?case unfolding provider_lookup.case by (rule unknown_taken [OF key_of_context]) blast
  next
    case (3 p w2)
    from quiet_then_raise [OF runs_record_terminal [OF E] 3(3)] show ?case unfolding provider_lookup.case .
  next
    case (4 p w2)
    show ?case
      unfolding provider_lookup.case wp_bnd
      by (rule clock_total, rule wp_mono [OF compensate_reject_settles [OF E new_snapshot_open(2) key_of_context]]) blast+
  qed
next
  case (2 may w1)
  then show ?case unfolding wp_raise by blast
qed blast

lemma wp_if_rule: "(c \<Longrightarrow> wp p Q Er w) \<Longrightarrow> (\<not> c \<Longrightarrow> wp q Q Er w) \<Longrightarrow> wp (if c then p else q) Q Er w"
  by simp

lemma unresolved_taken_care:
  assumes "\<not> approved_seen i w" and "ConfirmRejected i f \<in> set (fw_log w)" and "job_key c = i"
  shows "wp (if \<not> isTossConfirmOutcomeUnknown f then raise (toDefinitiveConfirmRejection f)
      else throwOutcomeUnknown E (Some c) t m) Q (\<lambda>_. taken_care i) w"
proof (rule wp_unless, goal_cases)
  case 1
  show ?case by (rule unknown_taken [OF assms(3)]) blast
next
  case 2
  with assms(1,2) show ?case unfolding wp_raise may_be_charged_def undecided_def by blast
qed

lemma provider_statuses:
  "''CANCELED'' \<notin> set PROVIDER_APPROVED_STATUSES" "s \<in> set PROVIDER_NOT_APPROVED_STATUSES \<Longrightarrow> s \<notin> set PROVIDER_APPROVED_STATUSES"
  by (auto simp: PROVIDER_APPROVED_STATUSES_def PROVIDER_NOT_APPROVED_STATUSES_def)

lemma terminal_lookup:
  assumes "\<not> approved_seen i w" and "fw_log w1 = fw_log w @ [LookedUp i p]"
    and "tr_status p = ''CANCELED'' \<or> tr_status p \<in> set PROVIDER_NOT_APPROVED_STATUSES"
  shows "\<not> may_be_charged i w1"
proof -
  from assms(3) have "tr_status p \<notin> set PROVIDER_APPROVED_STATUSES" using provider_statuses by metis
  with assms show ?thesis by (auto simp: may_be_charged_def approved_seen_def undecided_def)
qed

lemma failed_confirm_decides:
  assumes E: "keeps_rows E" and a: "\<not> approved_seen i w" and r: "ConfirmRejected i f \<in> set (fw_log w)"
  shows "wp (reconcileFailedProviderConfirm E i rr c x f) (\<lambda>_ _. True) (\<lambda>_. taken_care i) w"
proof -
  have open_end: "wp (if \<not> isTossConfirmOutcomeUnknown f then raise (toDefinitiveConfirmRejection f)
      else throwOutcomeUnknown E (Some \<lparr>rc_identity = payment_identity.truncate i, rc_expectation = x, rc_providerCharge = c\<rparr>)
        ''provider_confirm_unresolved'' OutcomePending) (\<lambda>_ _. True) (\<lambda>_. taken_care i) w1"
    if "fw_log w1 = fw_log w \<or> (\<exists>p. fw_log w1 = fw_log w @ [LookedUp i p] \<and> tr_status p \<notin> set PROVIDER_APPROVED_STATUSES)" for w1
    by (rule unresolved_taken_care [OF _ _ key_of_context]) (use that a r in \<open>auto simp: approved_seen_def\<close>)
  have quiet_raise: "wp (bnd q (\<lambda>_. raise g)) (\<lambda>_ _. True) (\<lambda>_. taken_care i) w1"
    if "runs quiet q" and "\<not> may_be_charged i w1" for q :: "unit confirm_prog" and g w1
    unfolding wp_bnd wp_raise by (rule quiet_keeps [OF that]) blast+
  show ?thesis
    unfolding reconcileFailedProviderConfirm_def Let_def wp_bnd wp_handle wp_ret
  proof (rule query_cases, goal_cases)
    case (1 e w1)
    then show ?case unfolding option.case by (intro open_end) blast
  next
    case (2 w1)
    then show ?case unfolding option.case by (intro open_end) blast
  next
    case (3 p w1)
    then show ?case unfolding option.case
      by (simp only: this_order_def if_False) (intro open_end disjI1)
  next
    case (4 p w1)
    have ours: "tp_paymentKey p = pi_paymentKey i \<and> tp_orderId p = pi_orderId i" using 4(1) by (simp add: this_order_def)
    show ?case
      unfolding option.case if_P [OF ours]
    proof (rule wp_if_rule [OF _ wp_if_rule [OF _ wp_if_rule]], goal_cases)
      case 1
      show ?case by (simp add: wp_ret)
    next
      case 2
      from terminal_lookup [OF a 4(2)] 2 show ?case by (intro quiet_raise runs_record_cancelled E) blast
    next
      case 3
      from terminal_lookup [OF a 4(2)] 3 show ?case by (intro quiet_raise runs_record_rejected E) blast
    next
      case 4
      with \<open>fw_log w1 = fw_log w @ [LookedUp i p]\<close> show ?case by (intro open_end) blast
    qed
  qed
qed

lemma confirm_call:
  assumes n: "\<not> may_be_charged i w" and h: "\<And>f w1. \<not> approved_seen i w1 \<Longrightarrow> ConfirmRejected i f \<in> set (fw_log w1) \<Longrightarrow> wp (h f) Q Er w1"
    and q: "\<And>p w1. Q p w1"
  shows "wp (handle (call_confirm E i amt) h) Q Er w"
proof -
  have "\<not> approved_seen i w" using n by (simp add: may_be_charged_def)
  then have "wp (call_confirm E i amt) Q (\<lambda>f. wp (h f) Q Er) w"
    unfolding call_confirm_def wp_eqs log_event_def
    by (intro wp_tick) (auto simp: wp_eqs q approved_seen_def split: sum.split intro!: h)
  then show ?thesis by (simp only: wp_handle)
qed

lemma request_decides:
  assumes E: "keeps_rows E" and n: "\<not> may_be_charged i w"
  shows "wp (request_provider_approval E i r amt c x st) (\<lambda>_ _. True) (\<lambda>_. taken_care i) w"
  unfolding request_provider_approval_def wp_bnd
proof (rule quiet_keeps [OF runs_clock n], rule wp_if_rule, goal_cases)
  case (1 now w1)
  show ?case
    unfolding wp_bnd
  proof (rule quiet_keeps [OF runs_may 1(1)], goal_cases)
    case (1 may w2)
    show ?case
    proof (rule wp_unless, goal_cases)
      case 1
      show ?case unfolding wp_bnd
      proof (rule lookup_decides [OF \<open>\<not> may_be_charged i w2\<close>], goal_cases)
        case (1 w3)
        show ?case unfolding provider_lookup.case by (rule unknown_taken [OF key_of_context]) blast
      next
        case (2 p w3)
        show ?case unfolding provider_lookup.case wp_bnd wp_raise
          by (rule quiet_keeps [OF runs_record_terminal [OF E] 2]) blast+
      next
        case (3 p w3)
        show ?case unfolding provider_lookup.case wp_ret by blast
      qed
    next
      case 2
      show ?case unfolding wp_raise using 2 \<open>\<not> may_be_charged i w2\<close> by blast
    qed
  qed blast
next
  case (2 now w1)
  show ?case
    unfolding wp_bnd
  proof (rule quiet_keeps [OF runs_mark 2(1)], goal_cases)
    case (1 u w2)
    then show ?case by (rule confirm_call) (auto intro: failed_confirm_decides [OF E])
  qed blast
qed blast

lemma approve_decides:
  assumes E: "keeps_rows E" and n: "\<not> may_be_charged i w"
  shows "wp (approvePaymentWithProvider E i r amt c x) (\<lambda>a _. open_approval i a) (\<lambda>_. taken_care i) w"
  unfolding approvePaymentWithProvider_def wp_bnd
proof (rule quiet_keeps [OF runs_sale_context [OF E] n], goal_cases)
  case (1 ctx w1)
  obtain st allowed where ctx: "ctx = (st, allowed)" by fastforce
  show ?case
    unfolding ctx prod.case wp_bnd
  proof (rule wp_mono [OF request_decides [OF E 1]], rule clock_total, goal_cases)
    case (1 p w2 now w3)
    show ?case
    proof (cases "findProviderApprovalMismatch p i x (rs_checkoutPaymentMethod r) (resolveEnforcedAllowedPaymentMethods allowed)")
      case None
      show ?thesis unfolding Let_def None option.case wp_ret by (rule new_snapshot_open(2))
    next
      case (Some m)
      show ?thesis unfolding Let_def Some option.case wp_bnd wp_raise
        by (rule wp_mono [OF cancel_approved_settles [OF E new_snapshot_open(2)]]) blast+
    qed
  qed blast
qed blast

section \<open>The gates\<close>

text \<open>A step that starts with nothing approved, and either goes on like that or ends with a settled approval.\<close>

definition careful :: "payment_identity \<Rightarrow> 'a confirm_prog \<Rightarrow> bool" where
  "careful i p \<longleftrightarrow> (\<forall>w. \<not> may_be_charged i w \<longrightarrow> wp p (\<lambda>_ w1. \<not> may_be_charged i w1) (\<lambda>_. taken_care i) w)"

named_theorems careful_rules "steps that leave no approval open"

lemma careful_quiet: "runs quiet p \<Longrightarrow> careful i p"
  unfolding careful_def by (auto elim: quiet_keeps)

lemma careful_bnd [careful_rules]:
  assumes "careful i p" and "\<And>x. careful i (f x)"
  shows "careful i (bnd p f)"
  unfolding careful_def
proof (intro allI impI)
  fix w
  assume "\<not> may_be_charged i w"
  with assms(1) have "wp p (\<lambda>_ w1. \<not> may_be_charged i w1) (\<lambda>_. taken_care i) w" by (simp add: careful_def)
  then show "wp (bnd p f) (\<lambda>_ w1. \<not> may_be_charged i w1) (\<lambda>_. taken_care i) w"
    unfolding wp_bnd by (rule wp_mono) (use assms(2) in \<open>auto simp: careful_def\<close>)
qed

lemma careful_raise:
  assumes "\<And>w. \<not> may_be_charged i w \<Longrightarrow> wp p (\<lambda>_. taken_care i) (\<lambda>_. taken_care i) w"
  shows "careful i (bnd p (\<lambda>_. raise f))"
  unfolding careful_def wp_bnd wp_raise using assms by blast

lemma careful_if [careful_rules]: "(c \<Longrightarrow> careful i p) \<Longrightarrow> (\<not> c \<Longrightarrow> careful i q) \<Longrightarrow> careful i (if c then p else q)"
  by simp

lemma careful_option [careful_rules]:
  "(x = None \<Longrightarrow> careful i p) \<Longrightarrow> (\<And>y. x = Some y \<Longrightarrow> careful i (f y)) \<Longrightarrow> careful i (case x of None \<Rightarrow> p | Some y \<Rightarrow> f y)"
  by (cases x) simp_all

lemma careful_basic [careful_rules]:
  "careful i (ret x)" "careful i (raise e)" "careful i (pure r)" "careful i (reject_if c e)" "careful i (clock E)" "careful i (reach g)"
  by (intro careful_quiet runs_rules)+

lemma careful_select [careful_rules]: "keeps_rows E \<Longrightarrow> careful i (select E f)"
  by (intro careful_quiet runs_rules)

lemma undo_taken_care:
  assumes E: "keeps_rows E" and i: "or_identity o1 = i" and n: "\<not> may_be_charged i w"
  shows "wp (undo_before_rejection E o1 gate f reason) (\<lambda>_. taken_care i) (\<lambda>_. taken_care i) w"
proof (cases "or_existing o1")
  case None
  show ?thesis unfolding undo_before_rejection_def None option.case i by (rule rejected_taken_care [OF E n])
next
  case (Some p)
  have "runs quiet (undo_before_rejection E o1 gate f reason)"
    unfolding undo_before_rejection_def Some option.case by (intro runs_rules E) simp
  from this n show ?thesis by (rule quiet_keeps) blast+
qed

lemma careful_gates [careful_rules]:
  assumes E: "keeps_rows E" and i: "or_identity o1 = i"
  shows "careful i (admission_gate E o1)" and "careful i (existing_payment_gate E o1)"
    and "careful i (ticket_limit_gate E o1)"
proof -
  note undo = careful_raise [OF undo_taken_care [OF E i]]
  show "careful i (admission_gate E o1)" unfolding admission_gate_def by (intro undo careful_rules E)
  show "careful i (existing_payment_gate E o1)" unfolding existing_payment_gate_def by (intro careful_rules)
  show "careful i (ticket_limit_gate E o1)" unfolding ticket_limit_gate_def by (intro undo careful_rules E)
qed

lemma careful_seat_gate [careful_rules]:
  assumes E: "keeps_rows E" and i: "or_identity o1 = i"
  shows "careful i (seat_hold_gate E o1)"
  unfolding careful_def seat_hold_gate_def wp_handle
proof (intro allI impI, goal_cases)
  case (1 w)
  show ?case
  proof (rule quiet_keeps [OF runs_seat_locks 1], goal_cases)
    case (2 e w1)
    show ?case
      unfolding wp_bnd wp_raise
    proof (rule wp_if_rule, goal_cases)
      case 1
      show ?case by (rule undo_taken_care [OF E i 2])
    next
      case 2
      show ?case unfolding wp_ret using \<open>\<not> may_be_charged i w1\<close> by blast
    qed
  qed
qed

section \<open>The whole confirm\<close>

text \<open>Steps after which everything is taken care of.\<close>

definition diligent :: "payment_identity \<Rightarrow> 'a confirm_prog \<Rightarrow> bool" where
  "diligent i p \<longleftrightarrow> (\<forall>w. \<not> may_be_charged i w \<longrightarrow> wp p (\<lambda>_. taken_care i) (\<lambda>_. taken_care i) w)"

lemma diligent_careful: "careful i p \<Longrightarrow> diligent i p"
  unfolding careful_def diligent_def by (auto elim: wp_mono)

lemma diligent_bnd: "careful i p \<Longrightarrow> (\<And>x. diligent i (f x)) \<Longrightarrow> diligent i (bnd p f)"
  unfolding diligent_def wp_bnd
proof (intro allI impI, goal_cases)
  case (1 w)
  then have "wp p (\<lambda>_ w1. \<not> may_be_charged i w1) (\<lambda>_. taken_care i) w" by (simp add: careful_def)
  then show ?case by (rule wp_mono) (use 1(2) in auto)
qed

lemma diligent_if: "(c \<Longrightarrow> diligent i p) \<Longrightarrow> (\<not> c \<Longrightarrow> diligent i q) \<Longrightarrow> diligent i (if c then p else q)"
  by simp

lemma obtain_decides:
  assumes E: "keeps_rows E" and i: "or_identity o1 = i" and n: "\<not> may_be_charged i w"
  shows "wp (obtain_approval E o1) (\<lambda>a w1. open_approval i a \<or> \<not> may_be_charged i w1) (\<lambda>_. taken_care i) w"
proof (cases "or_existing o1")
  case None
  show ?thesis
    unfolding obtain_approval_def None option.case i by (rule wp_mono [OF approve_decides [OF E n]]) blast+
next
  case (Some p)
  show ?thesis
    unfolding obtain_approval_def Some option.case wp_bnd wp_ret by (rule quiet_keeps [OF runs_clock n]) blast+
qed

definition confirm_tail :: "environment \<Rightarrow> order \<Rightarrow> approved_snapshot \<Rightarrow> js_string confirm_prog" where
  "confirm_tail E o1 a =
     bnd (handle (issue_approved E o1 a) (\<lambda>e.
            bnd (if is_http e then ret () else schedule_first E (as_reconcile a) ''unexpected_post_approval_error'')
              (\<lambda>_. raise e))) (\<lambda>committed.
     bnd (if committed = None then ret () else runPostCommitSideEffects E o1) (\<lambda>_.
       ret (rs_id (or_reservation o1))))"

lemma tail_quiet: "keeps_rows E \<Longrightarrow> runs quiet (confirm_tail E o1 a)"
  unfolding confirm_tail_def by (intro runs_rules) simp_all

lemma tail_settles:
  assumes E: "keeps_rows E" and a: "open_approval i a" and oid: "pi_orderId (or_request o1) = pi_orderId i"
  shows "wp (confirm_tail E o1 a) (\<lambda>_. settled i) (\<lambda>_. settled i) w"
proof -
  let ?S = "\<lambda>_. settled i"
  have fx: "wp (bnd (if committed = None then ret () else runPostCommitSideEffects E o1) (\<lambda>_. ret (rs_id (or_reservation o1)))) ?S ?S w1"
    if "settled i w1" for committed :: "js_string option" and w1
    by (rule settled_stays [OF _ that]) (intro runs_rules UNIV_I)
  have failed: "wp (bnd (if is_http e then ret () else schedule_first E (as_reconcile a) t) (\<lambda>_. raise e)) Q ?S w1"
    if "settled i w1" for e t w1 and Q :: "js_string option \<Rightarrow> world \<Rightarrow> bool"
    unfolding wp_bnd wp_raise by (rule then_anything [OF that]) (intro runs_rules UNIV_I)
  show ?thesis
    unfolding confirm_tail_def wp_bnd wp_handle
    by (rule wp_mono [OF issue_settles [OF E a oid]]) (use fx failed in \<open>simp_all add: wp_bnd\<close>)
qed

lemma pending_diligent:
  assumes E: "keeps_rows E" and i: "or_identity o1 = i"
  shows "diligent i (confirm_pending E o1)"
proof -
  have oid: "pi_orderId (or_request o1) = pi_orderId i" using i by (auto simp: or_identity_def payment_identity.truncate_def)
  have rest: "diligent i (bnd (obtain_approval E o1) (confirm_tail E o1))"
    unfolding diligent_def wp_bnd
  proof (intro allI impI, rule wp_mono [OF obtain_decides [OF E i]], goal_cases)
    case (2 w a w1)
    from 2(2) show ?case
    proof
      assume "open_approval i a"
      show ?case by (rule wp_mono [OF tail_settles [OF E \<open>open_approval i a\<close> oid]]) blast+
    next
      assume "\<not> may_be_charged i w1"
      show ?case by (rule quiet_keeps [OF tail_quiet [OF E] \<open>\<not> may_be_charged i w1\<close>]) blast+
    qed
  qed blast+
  show ?thesis
    unfolding confirm_pending_def confirm_tail_def [symmetric]
    by (intro diligent_bnd careful_gates careful_seat_gate E i rest)
qed

lemma runs_backfill [runs_rules]: "keeps_rows E \<Longrightarrow> runs K (backfillOverseasCardProviderMetadataIfMissing E p)"
  unfolding backfillOverseasCardProviderMetadataIfMissing_def by (intro runs_rules) simp_all

lemma locked_diligent:
  assumes E: "keeps_rows E" and i: "payment_identity.truncate dto = i"
  shows "diligent i (confirmAndCreateReservationLocked E dto userId)"
proof -
  note q = careful_quiet [of _ i]
  have pending: "diligent i (confirm_pending E \<lparr>or_request = dto, or_userId = userId, or_reservation = r, or_existing = existing,
      or_seats = seats, or_charge = charge, or_amount = amount\<rparr>)" for r existing seats charge amount
    by (rule pending_diligent [OF E]) (simp add: or_identity_def i)
  have confirmed: "diligent i (bnd (case existing of Some p \<Rightarrow> if c p then handle (backfillOverseasCardProviderMetadataIfMissing E p) (\<lambda>_. ret ()) else ret ()
      | None \<Rightarrow> ret ()) (\<lambda>_. ret x))" for existing c and x :: js_string
    by (intro diligent_careful q runs_rules E)
  have pair: "diligent i (case x of (charge, amount) \<Rightarrow> p charge amount)" if "\<And>charge amount. diligent i (p charge amount)"
    for x :: "provider_charge option \<times> int" and p :: "provider_charge option \<Rightarrow> int \<Rightarrow> js_string confirm_prog"
    using that by (cases x) simp
  have order: "diligent i (confirm_order E dto userId existing r)" for existing r
    unfolding confirm_order_def
    by (intro diligent_bnd diligent_if pair pending confirmed careful_rules E)
  have found: "diligent i (case found of None \<Rightarrow> raise f | Some r \<Rightarrow> confirm_order E dto userId existing r)" for found f existing
    by (cases found) (simp_all add: order diligent_careful [OF careful_basic(2)])
  show ?thesis
    unfolding confirmAndCreateReservationLocked_def
    by (intro diligent_bnd diligent_if found careful_rules E diligent_careful [OF careful_basic(1)])
qed


lemma demo_keeps_rows: "keeps_rows (demo_env f)"
  by (simp add: keeps_rows_def demo_env_def grows_refl)


end
