(* ===== verification/LogGrowth.thy ===== *)
theory LogGrowth
  imports ConfirmSettles
begin

text \<open>
  What a program can add to the part of the log one looks at (the approvals that were issued, the payments whose
  cancellation was sent, the jobs that were queued). \<open>log_view\<close> is the interface such a part offers: programs
  that log other kinds of events leave it alone. Its rules follow the combinators and are proved once.
\<close>

named_theorems adds_rules "programs that add at most given entries to a part of the log"

locale log_view =
  fixes view :: "world \<Rightarrow> 'x set" and others :: "kind set"
  assumes unchanged: "after others w w1 \<Longrightarrow> view w1 = view w"
begin

definition adds :: "'x set \<Rightarrow> 'a confirm_prog \<Rightarrow> bool" where
  "adds X p \<longleftrightarrow> (\<forall>w. wp p (\<lambda>_ w1. view w1 \<subseteq> X \<union> view w) (\<lambda>_ w1. view w1 \<subseteq> X \<union> view w) w)"

lemma adds_none: "runs others p \<Longrightarrow> adds X p"
  unfolding adds_def using unchanged by (auto intro!: wp_runs [of others p])

lemma adds_bnd [adds_rules]:
  assumes "adds X p" and "\<And>x. adds X (f x)"
  shows "adds X (bnd p f)"
  unfolding adds_def wp_bnd
proof
  fix w
  let ?R = "\<lambda>w0 _ w1. view w1 \<subseteq> X \<union> view w0"
  have "wp p (?R w) (?R w) w" using assms(1) by (simp add: adds_def)
  then show "wp p (\<lambda>x. wp (f x) (?R w) (?R w)) (?R w) w"
  proof (rule wp_mono, goal_cases)
    case (1 x w1)
    have "wp (f x) (?R w1) (?R w1) w1" using assms(2) by (simp add: adds_def)
    then show ?case by (rule wp_mono) (use 1 in blast)+
  qed
qed

lemma adds_outcome [adds_rules]: "adds X p \<Longrightarrow> adds X (outcome_of p)"
  by (simp add: adds_def wp_outcome_of)

lemma adds_if [adds_rules]: "(c \<Longrightarrow> adds X p) \<Longrightarrow> (\<not> c \<Longrightarrow> adds X q) \<Longrightarrow> adds X (if c then p else q)"
  by simp

lemma adds_sum [adds_rules]:
  "(\<And>e. adds X (p e)) \<Longrightarrow> (\<And>x. adds X (q x)) \<Longrightarrow> adds X (case r of Inl e \<Rightarrow> p e | Inr x \<Rightarrow> q x)"
  by (cases r) simp_all

lemma adds_option [adds_rules]:
  "adds X p \<Longrightarrow> (\<And>x. adds X (q x)) \<Longrightarrow> adds X (case r of None \<Rightarrow> p | Some x \<Rightarrow> q x)"
  by (cases r) simp_all

lemma adds_state [adds_rules]:
  "(\<And>pid k. adds X (p pid k)) \<Longrightarrow> adds X b \<Longrightarrow> adds X c \<Longrightarrow> adds X d \<Longrightarrow>
    adds X (case x of StCommitted pid k \<Rightarrow> p pid k | StCancelled \<Rightarrow> b | StNotCommitted \<Rightarrow> c | StUnknown \<Rightarrow> d)"
  by (cases x) simp_all

lemma adds_compensation [adds_rules]:
  "adds X p \<Longrightarrow> adds X b \<Longrightarrow> (\<And>st. adds X (c st)) \<Longrightarrow> adds X d \<Longrightarrow>
    adds X (case x of Compensated \<Rightarrow> p | CancelPending \<Rightarrow> b | RecordedElsewhere st \<Rightarrow> c st | LeaseLost \<Rightarrow> d)"
  by (cases x) simp_all

lemma adds_handle [adds_rules]:
  assumes "adds X p" and "\<And>e. adds X (h e)"
  shows "adds X (handle p h)"
proof -
  have e: "handle p h = bnd (outcome_of p) (\<lambda>s. case s of Inl e \<Rightarrow> h e | Inr y \<Rightarrow> ret y)"
    by (rule ext) (simp add: handle_def bnd_def outcome_of_def ret_def split: prod.splits sum.splits)
  show ?thesis
    unfolding e by (intro adds_bnd adds_outcome adds_sum assms adds_none runs_ret)
qed

lemma addsD: "adds X p \<Longrightarrow> wp p (\<lambda>_ w1. view w1 \<subseteq> X \<union> view w) (\<lambda>_ w1. view w1 \<subseteq> X \<union> view w) w"
  by (simp add: adds_def)

end

section \<open>Issued approvals and sent cancellations\<close>

definition commits :: "world \<Rightarrow> approved_snapshot set" where
  "commits w = {b. \<exists>pid. Committed b pid \<in> set (fw_log w)}"

definition cancels :: "world \<Rightarrow> js_string set" where
  "cancels w = {k. CancelSent k \<in> set (fw_log w)}"

abbreviation no_issue :: "kind set" where
  "no_issue \<equiv> - {KCommit}"

abbreviation no_cancel :: "kind set" where
  "no_cancel \<equiv> - {KCancel}"

interpretation issue_log: log_view commits no_issue
  by unfold_locales (use after_new after_log in \<open>fastforce simp: commits_def\<close>)

interpretation cancel_log: log_view cancels no_cancel
  by unfold_locales (use after_new after_log in \<open>fastforce simp: cancels_def\<close>)

abbreviation issues_only :: "approved_snapshot \<Rightarrow> 'a confirm_prog \<Rightarrow> bool" where
  "issues_only a \<equiv> issue_log.adds {a}"

abbreviation cancels_only :: "js_string \<Rightarrow> 'a confirm_prog \<Rightarrow> bool" where
  "cancels_only k \<equiv> cancel_log.adds {k}"

section \<open>What a program returns\<close>

lemma anything: "wp p (\<lambda>_ _. True) (\<lambda>_ _. True) w"
  by (simp add: wp_def split: prod.splits sum.splits)

lemma after_wp: "(\<And>x w1. Q x w1) \<Longrightarrow> (\<And>e w1. Er e w1) \<Longrightarrow> wp p Q Er w"
  by (rule wp_mono [OF anything])

definition returns :: "('a \<Rightarrow> bool) \<Rightarrow> 'a confirm_prog \<Rightarrow> bool" where
  "returns Q p \<longleftrightarrow> (\<forall>w. wp p (\<lambda>x _. Q x) (\<lambda>_ _. True) w)"

named_theorems returns_rules "programs that return given values only"

lemma returns_ret [returns_rules]: "Q x \<Longrightarrow> returns Q (ret x)"
  by (simp add: returns_def wp_eqs)

lemma returns_bnd [returns_rules]: "(\<And>x. returns Q (f x)) \<Longrightarrow> returns Q (bnd p f)"
  unfolding returns_def wp_bnd by (auto intro: after_wp)

lemma returns_handle [returns_rules]:
  assumes "returns Q p" and "\<And>e. returns Q (h e)"
  shows "returns Q (handle p h)"
  unfolding returns_def wp_handle
proof
  fix w
  from assms(1) have "wp p (\<lambda>x _. Q x) (\<lambda>_ _. True) w" by (simp add: returns_def)
  then show "wp p (\<lambda>x _. Q x) (\<lambda>e. wp (h e) (\<lambda>x _. Q x) (\<lambda>_ _. True)) w"
    by (rule wp_mono) (use assms(2) in \<open>simp_all add: returns_def\<close>)
qed

lemma returns_always [returns_rules]:
  assumes "returns Q p"
  shows "returns Q (always p q)"
  unfolding returns_def wp_always
proof
  fix w
  from assms have "wp p (\<lambda>x _. Q x) (\<lambda>_ _. True) w" by (simp add: returns_def)
  then show "wp p (\<lambda>x. wp q (\<lambda>_ _. Q x) (\<lambda>_ _. True)) (\<lambda>e. wp q (\<lambda>_ _. True) (\<lambda>_ _. True)) w"
    by (rule wp_mono) (auto intro: after_wp)
qed

lemma returns_cases [returns_rules]:
  "(c \<Longrightarrow> returns Q a) \<Longrightarrow> (\<not> c \<Longrightarrow> returns Q b) \<Longrightarrow> returns Q (if c then a else b)"
  "returns Q a \<Longrightarrow> (\<And>x. o1 = Some x \<Longrightarrow> returns Q (g x)) \<Longrightarrow> returns Q (case o1 of None \<Rightarrow> a | Some x \<Rightarrow> g x)"
  "(\<And>e. returns Q (d e)) \<Longrightarrow> (\<And>y. returns Q (k y)) \<Longrightarrow> returns Q (case s of Inl e \<Rightarrow> d e | Inr y \<Rightarrow> k y)"
  "returns Q a \<Longrightarrow> returns Q b \<Longrightarrow> returns Q (case t of True \<Rightarrow> a | False \<Rightarrow> b)"
  "(\<And>p. returns Q (m p)) \<Longrightarrow> (\<And>p. returns Q (n p)) \<Longrightarrow> returns Q a \<Longrightarrow>
    returns Q (case l of LkApproved p \<Rightarrow> m p | LkNotApproved p \<Rightarrow> n p | LkUnknown \<Rightarrow> a)"
  "returns Q a \<Longrightarrow> returns Q b \<Longrightarrow> (\<And>st. returns Q (h st)) \<Longrightarrow> returns Q d1 \<Longrightarrow>
    returns Q (case x of Compensated \<Rightarrow> a | CancelPending \<Rightarrow> b | RecordedElsewhere st \<Rightarrow> h st | LeaseLost \<Rightarrow> d1)"
  "(\<And>pid k. returns Q (f pid k)) \<Longrightarrow> returns Q a \<Longrightarrow> returns Q b \<Longrightarrow> returns Q d1 \<Longrightarrow>
    returns Q (case y of StCommitted pid k \<Rightarrow> f pid k | StCancelled \<Rightarrow> a | StNotCommitted \<Rightarrow> b | StUnknown \<Rightarrow> d1)"
  by (auto split: option.split sum.split bool.split provider_lookup.split compensation.split finalization_state.split)

end
