(* ===== verification/ConfirmIssue.thy ===== *)
theory ConfirmIssue
  imports ConfirmTheorems LogGrowth
begin

text \<open>
  What payment confirm issues tickets for: an approval that the provider itself answered, of this order and
  payment, completed, in the full amount and with the method that was checked out.
\<close>

section \<open>Steps that issue at most one approval\<close>

lemma issues_transaction: "issues_only a (transaction E act (\<lambda>pid. [Committed a pid]))"
  unfolding issue_log.adds_def wp_def transaction_def Let_def commits_def
  by (auto split: tx_end.splits sum.splits prod.splits)

lemma issues_turn:
  assumes E: "keeps_rows E" and again: "\<And>f m. again = Some f \<Longrightarrow> issues_only a (f m)"
  shows "issues_only a (commit_turn E o1 a again may)"
proof -
  have again_the: "issues_only a (the again m)" if "again \<noteq> None" for m using that again by auto
  have quiet1: "issues_only a (readFinalizationState E rid oid)" "issues_only a (ret x)" "issues_only a (raise f)"
    "issues_only a (cancelApprovalIfCommittedWithAnotherPayment E b k)" "issues_only a (cancelApprovedPaymentAfterFailure E b rid reason)"
    "issues_only a (throwIfCommitUnverifiable E b m st)" for rid oid b k reason m st f and x :: js_string
    unfolding throwIfCommitUnverifiable_def by (intro issue_log.adds_none runs_rules E; simp)+
  show ?thesis
    unfolding commit_turn_def Let_def
    by (intro adds_rules issues_transaction quiet1 again_the) blast+
qed

lemma issues_issue:
  assumes E: "keeps_rows E"
  shows "issues_only a (issue_approved E o1 a)"
proof -
  have turns: "issues_only a (commit_turns left E o1 a may)" for left may
    by (induction left arbitrary: may) (auto intro!: issues_turn [OF E])
  have quiet1: "issues_only a (readFinalizationState E rid oid)" "issues_only a (ret x)" "issues_only a (raise f)"
    "issues_only a (cancelApprovalIfCommittedWithAnotherPayment E b k)" "issues_only a (cancelApprovedPaymentAfterFailure E b rid reason)"
    "issues_only a (verifyConfirmLeaseAfterApproval E)" "issues_only a (seat_locks E)" "issues_only a (throwOutcomeUnknown E c t m)"
    for rid oid b k reason m c t f and x :: "js_string option"
    by (intro issue_log.adds_none runs_rules E; simp)+
  show ?thesis
    unfolding issue_approved_def Let_def commitFinalizationWithRetry_def by (intro adds_rules turns quiet1)
qed

section \<open>Approvals the provider answered\<close>

definition answered :: "payment_identity \<Rightarrow> toss_payment \<Rightarrow> world \<Rightarrow> bool" where
  "answered i p w \<longleftrightarrow> ConfirmAnswered i p \<in> set (fw_log w) \<or> LookedUp i p \<in> set (fw_log w)"

lemma answered_after: "after K w w1 \<Longrightarrow> answered i p w \<Longrightarrow> answered i p w1"
  unfolding answered_def using after_log by blast

lemma query_answers: "wp (call_query E i) (\<lambda>q w1. \<forall>p. q = Some p \<longrightarrow> this_order i p \<longrightarrow> answered i p w1) (\<lambda>_ _. True) w"
  by (rule query_cases) (auto simp: answered_def)

lemma failed_confirm_answers:
  "wp (reconcileFailedProviderConfirm E i r c x f) (\<lambda>p. answered i p) (\<lambda>_ _. True) w"
  unfolding reconcileFailedProviderConfirm_def Let_def wp_bnd wp_handle wp_ret
proof (rule query_cases, goal_cases)
  case (4 p w1)
  have "answered i p w1" using 4(2) by (simp add: answered_def)
  then show ?case
    by (auto simp: wp_eqs throwOutcomeUnknown_def intro: after_wp)
qed (auto simp: wp_eqs throwOutcomeUnknown_def this_order_def intro: after_wp)

lemma request_answers:
  "wp (request_provider_approval E i r amt c x st) (\<lambda>p. answered i p) (\<lambda>_ _. True) w"
proof -
  have lookup: "wp (lookupProviderPayment E i) (\<lambda>l w1. \<forall>p. l = LkApproved p \<longrightarrow> answered i p w1) (\<lambda>_ _. True) w1" for w1
    by (rule lookup_cases) (auto simp: answered_def)
  have confirm: "wp (call_confirm E i amt) (\<lambda>p. answered i p) (\<lambda>_ _. True) w1" for w1
    unfolding call_confirm_def wp_eqs log_event_def by (rule wp_tick) (auto simp: wp_eqs answered_def split: sum.split)
  have closed: "wp (bnd (lookupProviderPayment E i) (\<lambda>lookup. case lookup of
        LkUnknown \<Rightarrow> throwOutcomeUnknown E b t m
      | LkNotApproved p \<Rightarrow> bnd (q p) (\<lambda>_. raise f)
      | LkApproved p \<Rightarrow> ret p)) (\<lambda>p. answered i p) (\<lambda>_ _. True) w1" for b t m q f w1
    unfolding wp_bnd
    by (rule wp_mono [OF lookup]) (auto simp: wp_eqs throwOutcomeUnknown_def intro: after_wp split: provider_lookup.split)
  have called: "wp (handle (call_confirm E i amt) (reconcileFailedProviderConfirm E i r c x)) (\<lambda>p. answered i p) (\<lambda>_ _. True) w1" for w1
    unfolding wp_handle by (rule wp_mono [OF confirm]) (auto intro: failed_confirm_answers)
  show ?thesis
    unfolding request_provider_approval_def wp_bnd [of "clock E"]
  proof (rule after_wp, rule wp_if_rule, goal_cases)
    case (1 now w1)
    show ?case
      unfolding wp_bnd [of "mayHaveProviderApproval E (pi_orderId i)"]
      by (rule after_wp, rule wp_unless, rule closed) (simp_all add: wp_raise)
  next
    case (2 now w1)
    show ?case unfolding wp_bnd by (rule after_wp, rule called) simp
  qed simp
qed

text \<open>What makes an approval of the order acceptable.\<close>

definition matched :: "payment_identity \<Rightarrow> expectation \<Rightarrow> reservation_row \<Rightarrow> approved_snapshot \<Rightarrow> world \<Rightarrow> bool" where
  "matched i x r a w \<longleftrightarrow> as_paymentKey a = pi_paymentKey i \<and> as_orderId a = pi_orderId i \<and> as_totalAmount a = rs_totalAmount r \<and>
     (\<exists>p stored. answered i p w \<and> findProviderApprovalMismatch p i x (rs_checkoutPaymentMethod r)
        (resolveEnforcedAllowedPaymentMethods stored) = None)"

lemma matched_after: "after K w w1 \<Longrightarrow> matched i x r a w \<Longrightarrow> matched i x r a w1"
  unfolding matched_def using answered_after by blast

lemma approve_matches:
  "wp (approvePaymentWithProvider E i r amt c x) (\<lambda>a. matched i x r a) (\<lambda>_ _. True) w"
  unfolding approvePaymentWithProvider_def wp_bnd
proof (rule after_wp, goal_cases)
  case (1 ctx w1)
  obtain st allowed where ctx: "ctx = (st, allowed)" by fastforce
  show ?case
    unfolding ctx prod.case wp_bnd
  proof (rule wp_mono [OF request_answers], rule clock_total, goal_cases)
    case (1 p w2 now w3)
    then have "answered i p w3" by (simp add: answered_def)
    then show ?case
      unfolding Let_def
      by (auto simp: wp_eqs matched_def toNewApprovedPaymentSnapshot_def Let_def intro: after_wp split: option.split)
  qed simp
qed simp

section \<open>Every issued approval is matched\<close>

definition sound_issues :: "payment_identity \<Rightarrow> expectation \<Rightarrow> reservation_row \<Rightarrow> world \<Rightarrow> bool" where
  "sound_issues i x r w \<longleftrightarrow> (\<forall>b \<in> commits w. as_existingPaymentId b = None \<longrightarrow> matched i x r b w)"

lemma sound_quiet:
  assumes "runs no_issue p" and "sound_issues i x r w" and "\<And>y w1. sound_issues i x r w1 \<Longrightarrow> Q y w1"
    and "\<And>e w1. sound_issues i x r w1 \<Longrightarrow> Er e w1"
  shows "wp p Q Er w"
proof (rule wp_runs [OF assms(1)])
  fix y w1
  assume a: "after no_issue w w1"
  have "sound_issues i x r w1"
    using assms(2) matched_after [OF a] by (auto simp: sound_issues_def issue_log.unchanged [OF a])
  then show "Q y w1" by (rule assms(3))
next
  fix e w1
  assume a: "after no_issue w w1"
  have "sound_issues i x r w1"
    using assms(2) matched_after [OF a] by (auto simp: sound_issues_def issue_log.unchanged [OF a])
  then show "Er e w1" by (rule assms(4))
qed

lemma tail_issues:
  assumes E: "keeps_rows E"
  shows "issues_only a (confirm_tail E o1 a)"
  unfolding confirm_tail_def
proof (rule issue_log.adds_bnd, rule issue_log.adds_handle [OF issues_issue [OF E]], goal_cases)
  case (1 e)
  show ?case by (rule issue_log.adds_none) (intro runs_rules; simp)
next
  case (2 committed)
  show ?case by (rule issue_log.adds_none) (intro runs_rules; simp)
qed

lemma tail_sound:
  assumes E: "keeps_rows E" and s: "sound_issues i x r w" and m: "matched i x r a w \<or> as_existingPaymentId a \<noteq> None"
  shows "wp (confirm_tail E o1 a) (\<lambda>_. sound_issues i x r) (\<lambda>_. sound_issues i x r) w"
proof -
  have run: "runs UNIV (confirm_tail E o1 a)" unfolding confirm_tail_def by (intro runs_rules E UNIV_I)
  have i: "wp (confirm_tail E o1 a) (\<lambda>_ w1. commits w1 \<subseteq> insert a (commits w)) (\<lambda>_ w1. commits w1 \<subseteq> insert a (commits w)) w"
    using issue_log.addsD [OF tail_issues [OF E]] by simp
  have kept: "sound_issues i x r w1" if "after UNIV w w1" and "commits w1 \<subseteq> insert a (commits w)" for w1
    unfolding sound_issues_def
  proof (intro ballI impI)
    fix b
    assume "b \<in> commits w1" and new: "as_existingPaymentId b = None"
    with that(2) consider "b = a" | "b \<in> commits w" by blast
    then have "matched i x r b w" using s m new by cases (auto simp: sound_issues_def)
    then show "matched i x r b w1" by (rule matched_after [OF that(1)])
  qed
  show ?thesis by (rule wp_and_runs [OF run i]) (erule (1) kept)+
qed

lemma obtain_sound:
  assumes E: "keeps_rows E" and s: "sound_issues (or_identity o1) (or_expectation o1) (or_reservation o1) w"
  shows "wp (obtain_approval E o1)
    (\<lambda>a w1. sound_issues (or_identity o1) (or_expectation o1) (or_reservation o1) w1 \<and>
       (matched (or_identity o1) (or_expectation o1) (or_reservation o1) a w1 \<or> as_existingPaymentId a \<noteq> None))
    (\<lambda>_. sound_issues (or_identity o1) (or_expectation o1) (or_reservation o1)) w"
proof (cases "or_existing o1")
  case None
  let ?S = "sound_issues (or_identity o1) (or_expectation o1) (or_reservation o1)"
  have "wp (obtain_approval E o1) (\<lambda>_. ?S) (\<lambda>_. ?S) w"
    by (rule sound_quiet [OF _ s]) (intro runs_rules E | simp)+
  moreover have "wp (obtain_approval E o1) (\<lambda>a. matched (or_identity o1) (or_expectation o1) (or_reservation o1) a) (\<lambda>_ _. True) w"
    unfolding obtain_approval_def None option.case by (rule approve_matches)
  ultimately show ?thesis by (rule wp_mono [OF wp_both]) blast+
next
  case (Some p)
  show ?thesis
    unfolding obtain_approval_def Some option.case wp_bnd wp_ret
    by (rule sound_quiet [OF runs_clock s]) (simp_all add: existing_snapshot_def toApprovedPaymentSnapshot_def)
qed

lemma pending_sound:
  assumes E: "keeps_rows E" and s: "sound_issues (or_identity o1) (or_expectation o1) (or_reservation o1) w"
  shows "wp (confirm_pending E o1) (\<lambda>_. sound_issues (or_identity o1) (or_expectation o1) (or_reservation o1))
    (\<lambda>_. sound_issues (or_identity o1) (or_expectation o1) (or_reservation o1)) w"
  unfolding confirm_pending_def confirm_tail_def [symmetric]
proof -
  let ?S = "sound_issues (or_identity o1) (or_expectation o1) (or_reservation o1)"
  have step: "wp (bnd p f) (\<lambda>_. ?S) (\<lambda>_. ?S) w1" if "runs no_issue p" and "?S w1" and "\<And>y w2. ?S w2 \<Longrightarrow> wp (f y) (\<lambda>_. ?S) (\<lambda>_. ?S) w2"
    for p :: "unit confirm_prog" and f :: "unit \<Rightarrow> js_string confirm_prog" and w1
    unfolding wp_bnd by (rule sound_quiet [OF that(1,2)]) (auto intro: that(3))
  have rest: "wp (bnd (obtain_approval E o1) (confirm_tail E o1)) (\<lambda>_. ?S) (\<lambda>_. ?S) w1" if "?S w1" for w1
    unfolding wp_bnd by (rule wp_mono [OF obtain_sound [OF E that]]) (auto intro: tail_sound [OF E])
  show "wp (bnd (admission_gate E o1) (\<lambda>_. bnd (existing_payment_gate E o1) (\<lambda>_. bnd (ticket_limit_gate E o1) (\<lambda>_.
      bnd (seat_hold_gate E o1) (\<lambda>_. bnd (obtain_approval E o1) (confirm_tail E o1)))))) (\<lambda>_. ?S) (\<lambda>_. ?S) w"
    by (rule step, (intro runs_rules E; simp), rule s, rule step, (intro runs_rules E; simp), assumption,
        rule step, (intro runs_rules E; simp), assumption, rule step, (intro runs_rules E; simp), assumption, rule rest)
qed

section \<open>From the request to the issue\<close>

text \<open>The terms of an order, which are fixed when the checkout is prepared.\<close>

definition order_terms :: "reservation_row \<Rightarrow> js_string \<times> js_string \<times> js_string \<times> int \<times> payment_method option \<times> charge_fields" where
  "order_terms r = (rs_tossOrderId r, rs_userId r, rs_showtimeId r, rs_totalAmount r, rs_checkoutPaymentMethod r, rs_charge r)"

text \<open>What is relied on: nobody changes the terms of this order while it is confirmed.\<close>

definition terms_fixed :: "environment \<Rightarrow> js_string \<Rightarrow> bool" where
  "terms_fixed E oid \<longleftrightarrow> (\<forall>n db. \<forall>r \<in> set (fd_reservations (en_others E n db)). rs_tossOrderId r = oid \<longrightarrow>
     order_terms r \<in> order_terms ` set (fd_reservations db))"

text \<open>The provider took the whole amount: the quoted cents of the order, or its total in won (hundredfold).\<close>

definition paid_in_full :: "reservation_row \<Rightarrow> toss_payment \<Rightarrow> bool" where
  "paid_in_full r p \<longleftrightarrow> tr_status p = ''DONE'' \<and>
     (let currency = map_option (\<lambda>s. js_upper (js_trim s)) (tr_currency p) in
      currency = Some ''KRW'' \<and> tr_totalAmount p = 100 * rs_totalAmount r \<or>
      (\<exists>c. currency = Some c \<and> c \<in> set USD_CURRENCY_LABELS) \<and> cf_currency (rs_charge r) = Some ''USD'' \<and>
      cf_amountMinor (rs_charge r) = Some (tr_totalAmount p))"

definition paid_for :: "payment_identity \<Rightarrow> js_string \<Rightarrow> order_db \<Rightarrow> approved_snapshot \<Rightarrow> world \<Rightarrow> bool" where
  "paid_for i userId db a w \<longleftrightarrow> as_paymentKey a = pi_paymentKey i \<and> as_orderId a = pi_orderId i \<and>
     (\<exists>r \<in> set (fd_reservations db). rs_tossOrderId r = pi_orderId i \<and> rs_userId r = userId \<and> as_totalAmount a = rs_totalAmount r \<and>
       (\<exists>p stored. answered i p w \<and> tp_paymentKey p = pi_paymentKey i \<and> tp_orderId p = pi_orderId i \<and> paid_in_full r p \<and>
          findApprovedMethodPolicyMismatch (normalizeTossApprovedMethod (tp_method p) (tp_easyPay p)) (rs_checkoutPaymentMethod r)
            (resolveEnforcedAllowedPaymentMethods stored) = None))"

lemma no_mismatch:
  assumes "findProviderApprovalMismatch p i x checkout enforced = None"
  shows "tp_paymentKey p = pi_paymentKey i" and "tp_orderId p = pi_orderId i" and "tr_status p = ''DONE''"
    and "findApprovedMethodPolicyMismatch (normalizeTossApprovedMethod (tp_method p) (tp_easyPay p)) checkout enforced = None"
    and "xp_currency x = KRW \<Longrightarrow> map_option (\<lambda>s. js_upper (js_trim s)) (tr_currency p) = Some ''KRW'' \<and> tr_totalAmount p = 100 * xp_amountMinor x"
    and "xp_currency x = USD \<Longrightarrow> (\<exists>c. map_option (\<lambda>s. js_upper (js_trim s)) (tr_currency p) = Some c \<and> c \<in> set USD_CURRENCY_LABELS) \<and>
      tr_totalAmount p = xp_amountMinor x"
  using assms by (auto simp: findProviderApprovalMismatch_def Let_def split: if_splits option.splits)

lemma resolved_charge:
  "resolve_charge E t c = Inr q \<Longrightarrow> cf_currency c = Some ''USD'' \<and> cf_amountMinor c = Some (pc_amountMinor q)"
  by (auto simp: resolve_charge_def split: if_splits sum.splits option.splits list.splits)

lemma requested_expectation:
  assumes "requested_amount E k r existing = Inr (charge, amount)" and "charge = None \<longrightarrow> amount = rs_totalAmount r"
    and x: "x = buildProviderApprovalExpectation (isPaypalConfirmPaymentRequest k) (isOverseasCardConfirmPaymentRequest k) charge amount"
  shows "xp_currency x = KRW \<and> xp_amountMinor x = rs_totalAmount r \<or>
    xp_currency x = USD \<and> cf_currency (rs_charge r) = Some ''USD'' \<and> cf_amountMinor (rs_charge r) = Some (xp_amountMinor x)"
proof (cases charge)
  case None
  with assms show ?thesis
    by (cases k) (auto simp: requested_amount_def Let_def buildProviderApprovalExpectation_def isPaypalConfirmPaymentRequest_def
        isOverseasCardConfirmPaymentRequest_def map_sum_def split: if_splits sum.splits)
next
  case (Some q)
  have "xp_currency x = USD \<and> xp_amountMinor x = pc_amountMinor q \<and> resolve_charge E t (rs_charge r) = Inr q"
    if "k = PaypalRequest t \<or> k = OverseasCharge t" for t
    using that assms Some
    by (auto simp: requested_amount_def Let_def buildProviderApprovalExpectation_def isPaypalConfirmPaymentRequest_def
        isOverseasCardConfirmPaymentRequest_def resolvePaypalProviderCharge_def resolveOverseasCardProviderCharge_def
        map_sum_def split: if_splits sum.splits)
  moreover from assms(1) Some obtain t where "k = PaypalRequest t \<or> k = OverseasCharge t"
    by (cases k) (auto simp: requested_amount_def Let_def split: if_splits)
  ultimately show ?thesis using resolved_charge by metis
qed

lemma matched_is_paid:
  assumes m: "matched i x r a w" and q: "requested_amount E k r existing = Inr (charge, amount)" "charge = None \<longrightarrow> amount = rs_totalAmount r"
      "x = buildProviderApprovalExpectation (isPaypalConfirmPaymentRequest k) (isOverseasCardConfirmPaymentRequest k) charge amount"
    and r: "order_terms r \<in> order_terms ` set (fd_reservations db)" "rs_tossOrderId r = pi_orderId i" "rs_userId r = userId"
  shows "paid_for i userId db a w"
proof -
  from m obtain p stored where p: "answered i p w"
    and f: "findProviderApprovalMismatch p i x (rs_checkoutPaymentMethod r) (resolveEnforcedAllowedPaymentMethods stored) = None"
    and a: "as_paymentKey a = pi_paymentKey i" "as_orderId a = pi_orderId i" "as_totalAmount a = rs_totalAmount r"
    by (auto simp: matched_def)
  from r(1) obtain r0 where r0: "r0 \<in> set (fd_reservations db)" and t: "order_terms r = order_terms r0" by auto
  from t have s: "rs_tossOrderId r0 = rs_tossOrderId r" "rs_userId r0 = rs_userId r" "rs_totalAmount r0 = rs_totalAmount r"
    "rs_checkoutPaymentMethod r0 = rs_checkoutPaymentMethod r" "rs_charge r0 = rs_charge r" by (simp_all add: order_terms_def)
  note n = no_mismatch [OF f]
  from requested_expectation [OF q] n(3,5,6) have "paid_in_full r0 p" by (auto simp: paid_in_full_def Let_def s)
  with r0 n(1,2,4) p a r(2,3) show ?thesis
    unfolding paid_for_def by (intro conjI bexI [of _ r0] exI [of _ p] exI [of _ stored]) (simp_all add: s)
qed

text \<open>Nothing is issued yet, and the order still has its initial terms.\<close>

definition untouched :: "js_string \<Rightarrow> order_db \<Rightarrow> world \<Rightarrow> bool" where
  "untouched oid db w \<longleftrightarrow> commits w = {} \<and>
     (\<forall>r \<in> set (fd_reservations (fw_db w)). rs_tossOrderId r = oid \<longrightarrow> order_terms r \<in> order_terms ` set (fd_reservations db))"

lemma untouched_others:
  assumes t: "terms_fixed E oid" and u: "untouched oid db w" and c: "fw_log w1 = fw_log w" and d: "fw_db w1 = en_others E n (fw_db w)"
  shows "untouched oid db w1"
  unfolding untouched_def
proof (intro conjI ballI impI)
  show "commits w1 = {}" using u c by (simp add: untouched_def commits_def)
  fix r
  assume "r \<in> set (fd_reservations (fw_db w1))" and o: "rs_tossOrderId r = oid"
  with t d have "order_terms r \<in> order_terms ` set (fd_reservations (fw_db w))" by (simp add: terms_fixed_def)
  then obtain r0 where r0: "r0 \<in> set (fd_reservations (fw_db w))" and e: "order_terms r = order_terms r0" by auto
  from e o have "rs_tossOrderId r0 = oid" by (simp add: order_terms_def)
  with u r0 e show "order_terms r \<in> order_terms ` set (fd_reservations db)" by (simp add: untouched_def)
qed

lemma untouched_select:
  assumes "terms_fixed E oid" and "untouched oid db w"
    and q: "\<And>w1. untouched oid db w1 \<Longrightarrow> Q (f (fw_db w1)) w1" and e: "\<And>e w1. untouched oid db w1 \<Longrightarrow> Er e w1"
  shows "wp (select E f) Q Er w"
proof -
  let ?w = "w\<lparr>fw_tick := Suc (fw_tick w), fw_db := en_others E (fw_tick w) (fw_db w)\<rparr>"
  have "untouched oid db ?w" by (rule untouched_others [OF assms(1,2)]) simp_all
  from q [OF this] e [OF this] show ?thesis
    by (simp add: wp_def select_def statement_def Let_def split: option.split)
qed

lemma untouched_reach:
  assumes "untouched oid db w" and "\<And>x w1. untouched oid db w1 \<Longrightarrow> Q x w1" and "\<And>e w1. untouched oid db w1 \<Longrightarrow> Er e w1"
  shows "wp (reach f) Q Er w"
  using assms by (simp add: wp_def reach_def bnd_def tick_def raise_def ret_def untouched_def commits_def split: option.split)

definition all_paid :: "payment_identity \<Rightarrow> js_string \<Rightarrow> order_db \<Rightarrow> world \<Rightarrow> bool" where
  "all_paid i userId db w \<longleftrightarrow> (\<forall>b \<in> commits w. as_existingPaymentId b = None \<longrightarrow> paid_for i userId db b w)"

lemma untouched_paid: "untouched oid db w \<Longrightarrow> all_paid i userId db w"
  by (simp add: untouched_def all_paid_def)

lemma untouched_sound: "untouched oid db w \<Longrightarrow> sound_issues i x r w"
  by (simp add: untouched_def sound_issues_def)

lemma paid_for_after: "after K w w1 \<Longrightarrow> paid_for i userId db b w \<Longrightarrow> paid_for i userId db b w1"
  unfolding paid_for_def using answered_after by blast

lemma paid_after: "after no_issue w w1 \<Longrightarrow> all_paid i userId db w \<Longrightarrow> all_paid i userId db w1"
  using paid_for_after by (auto simp: all_paid_def issue_log.unchanged)

lemma paid_quiet:
  assumes "runs no_issue p" and "all_paid i userId db w"
  shows "wp p (\<lambda>_. all_paid i userId db) (\<lambda>_. all_paid i userId db) w"
  by (rule wp_runs [OF assms(1)]) (rule paid_after [OF _ assms(2)], assumption)+

lemma pending_paid:
  assumes E: "keeps_rows E" and u: "untouched oid db w"
    and q: "requested_amount E (cd_kind (or_request o1)) (or_reservation o1) existing = Inr (or_charge o1, or_amount o1)"
      "or_charge o1 = None \<longrightarrow> or_amount o1 = rs_totalAmount (or_reservation o1)"
    and r: "order_terms (or_reservation o1) \<in> order_terms ` set (fd_reservations db)"
      "rs_tossOrderId (or_reservation o1) = pi_orderId (or_request o1)" "rs_userId (or_reservation o1) = userId"
    and i: "or_identity o1 = i"
  shows "wp (confirm_pending E o1) (\<lambda>_. all_paid i userId db) (\<lambda>_. all_paid i userId db) w"
proof -
  have oid: "rs_tossOrderId (or_reservation o1) = pi_orderId i" using r(2) i by (auto simp: or_identity_def payment_identity.truncate_def)
  have "all_paid i userId db w1" if "sound_issues (or_identity o1) (or_expectation o1) (or_reservation o1) w1" for w1
    using that matched_is_paid [OF _ q or_expectation_def r(1) oid r(3)] by (auto simp: sound_issues_def all_paid_def i)
  with pending_sound [OF E untouched_sound [OF u], of o1] show ?thesis by (auto elim: wp_mono)
qed

definition pays :: "environment \<Rightarrow> confirm_request \<Rightarrow> js_string \<Rightarrow> order_db \<Rightarrow> 'a confirm_prog \<Rightarrow> bool" where
  "pays E dto userId db p \<longleftrightarrow> (\<forall>w. untouched (pi_orderId dto) db w \<longrightarrow>
     wp p (\<lambda>_. all_paid (payment_identity.truncate dto) userId db) (\<lambda>_. all_paid (payment_identity.truncate dto) userId db) w)"

lemma pays_quiet: "runs no_issue p \<Longrightarrow> pays E dto userId db p"
  unfolding pays_def by (intro allI impI paid_quiet untouched_paid)

lemma pays_select:
  assumes "terms_fixed E (pi_orderId dto)" and "\<And>w. untouched (pi_orderId dto) db w \<Longrightarrow> pays E dto userId db (g (f (fw_db w)))"
  shows "pays E dto userId db (bnd (select E f) g)"
  unfolding pays_def wp_bnd
proof (intro allI impI)
  fix w
  assume "untouched (pi_orderId dto) db w"
  then show "wp (select E f) (\<lambda>x. wp (g x) (\<lambda>_. all_paid (payment_identity.truncate dto) userId db)
      (\<lambda>_. all_paid (payment_identity.truncate dto) userId db)) (\<lambda>_. all_paid (payment_identity.truncate dto) userId db) w"
    by (rule untouched_select [OF assms(1)]) (use assms(2) in \<open>simp_all add: pays_def untouched_paid\<close>)
qed

lemma pays_reject: "(\<not> c \<Longrightarrow> pays E dto userId db p) \<Longrightarrow> pays E dto userId db (bnd (reject_if c e) (\<lambda>_. p))"
  by (simp add: pays_def wp_bnd wp_reject_if untouched_paid)

lemma pays_pure: "(\<And>x. r = Inr x \<Longrightarrow> pays E dto userId db (p x)) \<Longrightarrow> pays E dto userId db (bnd (pure r) p)"
  by (cases r) (simp_all add: pays_def wp_bnd wp_pure untouched_paid)

lemma pays_reach: "(\<And>x. pays E dto userId db (p x)) \<Longrightarrow> pays E dto userId db (bnd (reach f) p)"
  unfolding pays_def wp_bnd by (auto intro!: untouched_reach untouched_paid)

lemma order_pays:
  assumes E: "keeps_rows E" and t: "terms_fixed E (pi_orderId dto)"
    and r: "order_terms r \<in> order_terms ` set (fd_reservations db)" "rs_tossOrderId r = pi_orderId dto" "rs_userId r = userId"
  shows "pays E dto userId db (confirm_order E dto userId existing r)"
  unfolding confirm_order_def
proof (rule pays_reject, rule pays_reject, rule pays_select [OF t], rule pays_pure, goal_cases)
  case (1 w x)
  obtain charge amount where x: "x = (charge, amount)" by fastforce
  show ?case
    unfolding x prod.case
  proof (rule pays_reject, goal_cases)
    case 1
    then have total: "charge = None \<longrightarrow> amount = rs_totalAmount r" by auto
    show ?case
    proof (cases "rs_status r = ''CONFIRMED''")
      case True
      show ?thesis unfolding if_P [OF True] by (rule pays_quiet) (intro runs_rules E)
    next
      case False
      show ?thesis
        unfolding if_not_P [OF False] pays_def
        using \<open>requested_amount E (cd_kind dto) r existing = Inr x\<close> total r
        by (intro allI impI pending_paid [OF E]) (simp_all add: x or_identity_def)
    qed
  qed
qed



end
