(* ===== verification/ReconcileTheorems.thy ===== *)
theory ReconcileTheorems
  imports ConfirmIssue
begin

text \<open>
  What the reconcile job guarantees: it never issues tickets nor confirms a payment, it cancels only approvals
  that a lookup has just shown, it leaves a recorded payment alone, and it gives up after a bounded number of runs.
\<close>

section \<open>What a reconcile can log\<close>

abbreviation reconciling :: "kind set" where
  "reconciling \<equiv> {KLookup, KCancel}"

lemma runs_reconcile_parts [runs_rules]:
  "runs K (isLeaseStillOwned E)" "runs K (reconcile_key E k)" "runs K (ri_retry j t)" "runs K (ri_retry_soon j t)"
  unfolding isLeaseStillOwned_def reconcile_key_def ri_retry_def ri_retry_soon_def by (intro runs_rules)+

lemma runs_unrecordable [runs_rules]:
  "keeps_rows E \<Longrightarrow> KLookup \<in> K \<Longrightarrow> KCancel \<in> K \<Longrightarrow> runs K (cancelUnrecordableApproval E j reason)"
  unfolding cancelUnrecordableApproval_def by (intro runs_rules)

lemma runs_resume [runs_rules]:
  "keeps_rows E \<Longrightarrow> KLookup \<in> K \<Longrightarrow> KCancel \<in> K \<Longrightarrow> runs K (resumeClaimedCompensation E j p)"
  unfolding resumeClaimedCompensation_def Let_def by (intro runs_rules)

lemma runs_unrecorded [runs_rules]:
  "keeps_rows E \<Longrightarrow> KLookup \<in> K \<Longrightarrow> KCancel \<in> K \<Longrightarrow> runs K (compensate_unrecorded E j p)"
  unfolding compensate_unrecorded_def by (intro runs_rules)

lemma runs_decide [runs_rules]:
  "keeps_rows E \<Longrightarrow> KLookup \<in> K \<Longrightarrow> KCancel \<in> K \<Longrightarrow> runs K (decide_by_provider E j)"
  unfolding decide_by_provider_def by (intro runs_rules)

lemma runs_reconcile_locked [runs_rules]:
  "keeps_rows E \<Longrightarrow> KLookup \<in> K \<Longrightarrow> KCancel \<in> K \<Longrightarrow> runs K (reconcileUnresolvedConfirmLocked E j)"
  unfolding reconcileUnresolvedConfirmLocked_def by (intro runs_rules)

lemma runs_reconcile [runs_rules]:
  "keeps_rows E \<Longrightarrow> KLookup \<in> K \<Longrightarrow> KCancel \<in> K \<Longrightarrow> runs K (reconcileUnresolvedConfirm E job)"
  unfolding reconcileUnresolvedConfirm_def Let_def by (intro runs_rules)

lemma runs_reconcile_job:
  "keeps_rows E \<Longrightarrow> {KLookup, KCancel, KJob} \<subseteq> K \<Longrightarrow> runs K (runPaymentConfirmReconcileJob E job)"
  unfolding runPaymentConfirmReconcileJob_def
  by (rule runs_bnd; (intro runs_rules)?; (auto split: reconcile_outcome.split intro!: runs_rules)?)

section \<open>Cancellations of one payment\<close>

lemma cancels_call: "cr_paymentKey r = k \<Longrightarrow> cancels_only k (call_cancel E r)"
  unfolding cancel_log.adds_def call_cancel_def wp_eqs
  by (intro allI wp_tick) (auto simp: wp_eqs log_event_def cancels_def split: sum.splits)

lemma cancels_cancel:
  assumes "as_paymentKey a = k"
  shows "cancels_only k (cancelApprovedPaymentOrThrow E a reason key)"
proof -
  have none: "cancels_only k (ret x)" "cancels_only k (raise f)" for x :: 'x and f
    by (intro cancel_log.adds_none runs_rules)+
  have r: "cancels_only k (call_cancel E c)"
    if "buildFullPaymentCancelRequest (cancel_snapshot a) reason i s = Inr c" for c i s
    by (rule cancels_call) (use request_key [OF that] assms in \<open>simp add: cancel_snapshot_def\<close>)
  show ?thesis
    unfolding cancelApprovedPaymentOrThrow_def
    by (auto split: sum.split intro!: adds_rules none r)
qed

lemma cancels_claimed:
  assumes E: "keeps_rows E" and a: "as_paymentKey a = k"
  shows "cancels_only k (cancelClaimedApproval E a rid reason key)"
  unfolding cancelClaimedApproval_def
  by (intro adds_rules cancels_cancel [OF a] cancel_log.adds_none runs_rules E)

lemma cancels_compensate:
  assumes E: "keeps_rows E" and a: "as_paymentKey a = k"
  shows "cancels_only k (compensateUnrecordedApproval E a rid reason key)"
proof -
  have none: "cancels_only k (ret x)" "cancels_only k (statement E (insert_payment row))" "cancels_only k tick"
    "cancels_only k (readFinalizationState E rid oid)" "cancels_only k (handle (reach (en_refreshLease E)) (\<lambda>_. ret False))"
    for x :: compensation and row oid
    by (intro cancel_log.adds_none runs_rules E)+
  show ?thesis
    unfolding compensateUnrecordedApproval_def Let_def
    by (intro adds_rules none cancels_claimed [OF E]) (simp add: a)
qed

lemma cancels_unrecordable:
  assumes E: "keeps_rows E" and k: "pi_paymentKey (ri_identity j) = k"
  shows "cancels_only k (cancelUnrecordableApproval E j reason)"
proof -
  have c: "cancels_only k (cancelApprovedPaymentOrThrow E (toNewApprovedPaymentSnapshot (ri_identity j) t x c p now) reason key)"
    for t x c p now key
    by (rule cancels_cancel) (simp add: toNewApprovedPaymentSnapshot_def Let_def k)
  have none: "cancels_only k (ret x)" "cancels_only k (clock E)" "cancels_only k (isLeaseStillOwned E)" "cancels_only k (reconcile_key E q)"
    "cancels_only k (ri_retry j t)" "cancels_only k (ri_retry_soon j t)" "cancels_only k (lookupProviderPayment E i)"
    for x :: reconcile_outcome and q t i
    by (intro cancel_log.adds_none runs_rules; simp)+
  show ?thesis
    unfolding cancelUnrecordableApproval_def
    by (rule adds_rules; (rule none)?; split provider_lookup.split)
      (intro adds_rules none c allI impI conjI)
qed

lemma adds_lookup [adds_rules]: "(\<And>p. cancels_only k (a p)) \<Longrightarrow> (\<And>p. cancels_only k (b p)) \<Longrightarrow> cancels_only k c \<Longrightarrow>
    cancels_only k (case x of LkApproved p \<Rightarrow> a p | LkNotApproved p \<Rightarrow> b p | LkUnknown \<Rightarrow> c)"
  by (cases x) simp_all

lemma cancels_unrecorded:
  assumes E: "keeps_rows E" and k: "pi_paymentKey (ri_identity j) = k"
  shows "cancels_only k (compensate_unrecorded E j p)"
proof -
  have c: "cancels_only k (compensateUnrecordedApproval E (toNewApprovedPaymentSnapshot (ri_identity j) t x c p now) rid reason key)"
    for t x c p now key rid reason
    by (rule cancels_compensate [OF E]) (simp add: toNewApprovedPaymentSnapshot_def Let_def k)
  have none: "cancels_only k (ret x)" "cancels_only k (clock E)" "cancels_only k (reconcile_key E q)"
    "cancels_only k (ri_retry j t)" "cancels_only k (ri_retry_soon j t)"
    for x :: reconcile_outcome and q t
    by (intro cancel_log.adds_none runs_rules; simp)+
  show ?thesis
    unfolding compensate_unrecorded_def
    by (intro adds_rules none c cancels_unrecordable [OF E k])
qed

lemma cancels_resume:
  assumes E: "keeps_rows E" and k: "py_paymentKey payment = k"
  shows "cancels_only k (resumeClaimedCompensation E j payment)"
proof -
  have c: "cancels_only k (cancelClaimedApproval E (toApprovedPaymentSnapshot payment now) rid reason key)" for now rid reason key
    by (rule cancels_claimed [OF E]) (simp add: toApprovedPaymentSnapshot_def k)
  have none: "cancels_only k (ret x)" "cancels_only k (clock E)" "cancels_only k (isLeaseStillOwned E)" "cancels_only k (reconcile_key E q)"
    "cancels_only k (ri_retry j t)" "cancels_only k (ri_retry_soon j t)" "cancels_only k (lookupProviderPayment E i)"
    "cancels_only k (recordCompensatedCancel E pid rid reason)"
    for x :: reconcile_outcome and q t i pid rid reason
    by (intro cancel_log.adds_none runs_rules E; simp)+
  show ?thesis
    unfolding resumeClaimedCompensation_def Let_def
    by (intro adds_rules none c)
qed

section \<open>No cancellation without a lookup\<close>

definition shown_approved :: "payment_identity \<Rightarrow> world \<Rightarrow> bool" where
  "shown_approved i w \<longleftrightarrow>
     (\<exists>p. LookedUp i p \<in> set (fw_log w) \<and> tr_status p \<in> set PROVIDER_APPROVED_STATUSES \<and> \<not> hasProviderCancelInProgress p)"

lemma shown_after: "after K w w1 \<Longrightarrow> shown_approved i w \<Longrightarrow> shown_approved i w1"
  unfolding shown_approved_def using after_log by blast

definition cancels_checked :: "payment_identity \<Rightarrow> world \<Rightarrow> bool" where
  "cancels_checked i w \<longleftrightarrow> cancels w \<subseteq> {pi_paymentKey i} \<and> (cancels w \<noteq> {} \<longrightarrow> shown_approved i w)"

definition checks :: "payment_identity \<Rightarrow> 'a confirm_prog \<Rightarrow> bool" where
  "checks i p \<longleftrightarrow> (\<forall>w. cancels_checked i w \<longrightarrow> wp p (\<lambda>_. cancels_checked i) (\<lambda>_. cancels_checked i) w)"

named_theorems checks_rules "programs that cancel only what a lookup showed"

lemma checksD: "checks i p \<Longrightarrow> cancels_checked i w \<Longrightarrow> wp p (\<lambda>_. cancels_checked i) (\<lambda>_. cancels_checked i) w"
  by (simp add: checks_def)

lemma checked_quiet: "after no_cancel w w1 \<Longrightarrow> cancels_checked i w \<Longrightarrow> cancels_checked i w1"
  using shown_after [of no_cancel w w1 i] by (auto simp: cancels_checked_def cancel_log.unchanged)

lemma checks_none: "runs no_cancel p \<Longrightarrow> checks i p"
  unfolding checks_def by (auto intro!: wp_runs [of no_cancel p] elim: checked_quiet)

lemma checks_bnd [checks_rules]:
  assumes "checks i p" and "\<And>x. checks i (f x)"
  shows "checks i (bnd p f)"
  unfolding checks_def wp_bnd
proof (intro allI impI)
  fix w
  assume "cancels_checked i w"
  from checksD [OF assms(1) this]
  show "wp p (\<lambda>x. wp (f x) (\<lambda>_. cancels_checked i) (\<lambda>_. cancels_checked i)) (\<lambda>_. cancels_checked i) w"
    by (rule wp_mono) (simp_all add: checksD [OF assms(2)])
qed

lemma checks_handle [checks_rules]:
  assumes "checks i p" and "\<And>e. checks i (h e)"
  shows "checks i (handle p h)"
  unfolding checks_def wp_handle
proof (intro allI impI)
  fix w
  assume "cancels_checked i w"
  from checksD [OF assms(1) this]
  show "wp p (\<lambda>_. cancels_checked i) (\<lambda>e. wp (h e) (\<lambda>_. cancels_checked i) (\<lambda>_. cancels_checked i)) w"
    by (rule wp_mono) (simp_all add: checksD [OF assms(2)])
qed

lemma checks_if [checks_rules]: "(c \<Longrightarrow> checks i p) \<Longrightarrow> (\<not> c \<Longrightarrow> checks i q) \<Longrightarrow> checks i (if c then p else q)"
  by simp

lemma checks_option [checks_rules]: "checks i p \<Longrightarrow> (\<And>x. r = Some x \<Longrightarrow> checks i (q x)) \<Longrightarrow> checks i (case r of None \<Rightarrow> p | Some x \<Rightarrow> q x)"
  by (cases r) simp_all

lemma checks_shown:
  assumes "cancels_only (pi_paymentKey i) p" and "runs UNIV p" and "cancels_checked i w" and "shown_approved i w"
  shows "wp p (\<lambda>_. cancels_checked i) (\<lambda>_. cancels_checked i) w"
  by (rule wp_and_runs [OF assms(2) cancel_log.addsD [OF assms(1)]])
    (use assms(3,4) shown_after in \<open>auto simp: cancels_checked_def\<close>)

lemma checks_lookup:
  assumes "checks i (f LkUnknown)" and "\<And>p. checks i (f (LkNotApproved p))"
    and "\<And>p. hasProviderCancelInProgress p \<Longrightarrow> checks i (f (LkApproved p))"
    and "\<And>p. \<not> hasProviderCancelInProgress p \<Longrightarrow> cancels_only (pi_paymentKey i) (f (LkApproved p)) \<and> runs UNIV (f (LkApproved p))"
  shows "checks i (bnd (lookupProviderPayment E i) f)"
  unfolding checks_def wp_bnd
proof (intro allI impI)
  fix w
  assume c: "cancels_checked i w"
  have same: "cancels_checked i w1" if "fw_log w1 = fw_log w @ es" "\<forall>e \<in> set es. kind_of e \<noteq> KCancel" for w1 es
    using c that by (fastforce simp: cancels_checked_def cancels_def shown_approved_def)
  let ?C = "\<lambda>_. cancels_checked i"
  show "wp (lookupProviderPayment E i) (\<lambda>x. wp (f x) ?C ?C) ?C w"
  proof (rule lookup_cases, goal_cases)
    case (1 w1)
    with same [of w1 "[]"] assms(1) show ?case by (simp add: checks_def)
  next
    case (2 w1)
    with same [of w1 "[]"] assms(2) show ?case by (simp add: checks_def)
  next
    case (3 p w1)
    with same [of w1 "[LookedUp i p]"] assms(2) show ?case by (simp add: checks_def)
  next
    case (4 p w1)
    from same [OF 4(3)] have s: "cancels_checked i w1" by simp
    show ?case
    proof (cases "hasProviderCancelInProgress p")
      case True
      with s assms(3) show ?thesis by (simp add: checks_def)
    next
      case False
      with 4 have "shown_approved i w1" by (auto simp: shown_approved_def)
      with s assms(4) [OF False] show ?thesis by (blast intro: checks_shown)
    qed
  qed
qed

lemma quiet_reconcile_parts:
  "runs no_cancel (ri_retry j t)" "runs no_cancel (ri_retry_soon j t)" "runs no_cancel (ret x)" "runs no_cancel (isLeaseStillOwned E)"
  "runs no_cancel (clock E)" "runs no_cancel (reconcile_key E q)"
  by (intro runs_rules)+

lemma checks_unrecordable:
  assumes E: "keeps_rows E"
  shows "checks (ri_identity j) (cancelUnrecordableApproval E j reason)"
proof -
  note k = cancels_unrecordable [OF E refl]
  let ?k = "pi_paymentKey (ri_identity j)"
  have c: "cancels_only ?k (cancelApprovedPaymentOrThrow E (toNewApprovedPaymentSnapshot (ri_identity j) t x c p now) reason key)"
    for t x c p now key
    by (rule cancels_cancel) (simp add: toNewApprovedPaymentSnapshot_def Let_def)
  note none = quiet_reconcile_parts [THEN cancel_log.adds_none]
  show ?thesis
    unfolding cancelUnrecordableApproval_def
  proof (rule checks_lookup, goal_cases)
    case (4 p)
    then show ?case by (auto intro!: adds_rules none c runs_rules E)
  qed (simp_all add: checks_none quiet_reconcile_parts)
qed

lemma checks_resume:
  assumes E: "keeps_rows E" and k: "py_paymentKey payment = pi_paymentKey (ri_identity j)"
  shows "checks (ri_identity j) (resumeClaimedCompensation E j payment)"
proof -
  let ?k = "pi_paymentKey (ri_identity j)"
  have c: "cancels_only ?k (cancelClaimedApproval E (toApprovedPaymentSnapshot payment now) rid reason key)" for now rid reason key
    by (rule cancels_claimed [OF E]) (simp add: toApprovedPaymentSnapshot_def k)
  note none = quiet_reconcile_parts [THEN cancel_log.adds_none]
  show ?thesis
    unfolding resumeClaimedCompensation_def Let_def
  proof (rule checks_lookup, goal_cases)
    case (2 p)
    show ?case
      by (simp, intro impI conjI checks_none runs_rules E)
  next
    case (4 p)
    then show ?case by (auto intro!: adds_rules none c runs_rules E)
  qed (simp_all add: checks_none quiet_reconcile_parts)
qed

lemma checks_decide:
  assumes E: "keeps_rows E"
  shows "checks (ri_identity j) (decide_by_provider E j)"
  unfolding decide_by_provider_def
proof (rule checks_lookup, goal_cases)
  case (2 p)
  show ?case
    by (simp only: provider_lookup.case) (intro checks_none runs_rules E)
next
  case (4 p)
  then show ?case using cancels_unrecorded [OF E refl, of j p] runs_unrecorded [OF E UNIV_I UNIV_I, of j p] by simp
qed (simp_all add: checks_none quiet_reconcile_parts)

lemma checks_locked:
  assumes E: "keeps_rows E"
  shows "checks (ri_identity j) (reconcileUnresolvedConfirmLocked E j)"
proof -
  have quiet1: "checks (ri_identity j) (select E f)" "checks (ri_identity j) (ret x)" for f :: "order_db \<Rightarrow> payment_row option" and x :: reconcile_outcome
    by (intro checks_none runs_rules E)+
  show ?thesis
    unfolding reconcileUnresolvedConfirmLocked_def
    by (intro checks_rules quiet1 checks_unrecordable checks_decide checks_resume E) auto
qed

lemma checks_always [checks_rules]:
  assumes "checks i p" and "runs no_cancel q"
  shows "checks i (always p q)"
  unfolding checks_def wp_always
proof (intro allI impI)
  fix w
  assume "cancels_checked i w"
  from checksD [OF assms(1) this]
  show "wp p (\<lambda>x. wp q (\<lambda>_. cancels_checked i) (\<lambda>_. cancels_checked i)) (\<lambda>e. wp q (\<lambda>_. cancels_checked i) (\<lambda>_. cancels_checked i)) w"
    by (rule wp_mono) (simp_all add: checksD [OF checks_none [OF assms(2)]])
qed

lemma checks_sum [checks_rules]:
  "(\<And>e. checks i (p e)) \<Longrightarrow> (\<And>x. checks i (q x)) \<Longrightarrow> checks i (case r of Inl e \<Rightarrow> p e | Inr x \<Rightarrow> q x)"
  by (cases r) simp_all

lemma checks_bool [checks_rules]: "checks i p \<Longrightarrow> checks i q \<Longrightarrow> checks i (case x of True \<Rightarrow> p | False \<Rightarrow> q)"
  by (cases x) simp_all

lemma checks_reconcile:
  assumes E: "keeps_rows E"
  shows "checks (rc_identity (jb_context job)) (runPaymentConfirmReconcileJob E job)"
proof -
  let ?i = "rc_identity (jb_context job)"
  have locked: "checks ?i (reconcileUnresolvedConfirmLocked E \<lparr>ri_context = jb_context job, ri_reservation = r, ri_now = t, ri_attempt = n\<rparr>)"
    for r t n
    using checks_locked [OF E, of "\<lparr>ri_context = jb_context job, ri_reservation = r, ri_now = t, ri_attempt = n\<rparr>"]
    by (simp add: ri_identity_def)
  have quiet1: "runs no_cancel (handle (reach (en_releaseLease E)) (\<lambda>_. ret ()))"
    "runs no_cancel (outcome_of (select E f))" "runs no_cancel (outcome_of (reach (en_acquireLease E)))" "runs no_cancel (clock E)"
    "runs no_cancel (ret x)" "runs no_cancel (scheduleConfirmReconcile E c t n u)"
    for f :: "order_db \<Rightarrow> reservation_row option" and x :: reconcile_outcome and c t n u
    by (intro runs_rules E; simp)+
  have attempt: "checks ?i (reconcileUnresolvedConfirm E job)"
    unfolding reconcileUnresolvedConfirm_def Let_def
    by (intro checks_rules checks_none [OF quiet1(2)] checks_none [OF quiet1(3)] checks_none [OF quiet1(4)]
        checks_none [OF quiet1(5)] locked quiet1(1))
  have again: "runs no_cancel (case x of Resolved r \<Rightarrow> ret x
      | Retry reason retryAt \<Rightarrow>
          if jb_attempt job + 1 \<ge> PAYMENT_CONFIRM_RECONCILE_MAX_ATTEMPTS then ret x
          else bnd (scheduleConfirmReconcile E (jb_context job) (jb_reason job) (jb_attempt job + 1) (Some retryAt)) (\<lambda>scheduled.
            if \<not> scheduled then raise OtherFailure else ret x))" for x
    by (cases x) (auto intro!: runs_rules)
  show ?thesis
    unfolding runPaymentConfirmReconcileJob_def
    by (intro checks_bnd attempt checks_none again)
qed

text \<open>C6: The reconcile job of an order with an unknown outcome never issues tickets and never asks the
  provider to charge: whatever the database, the provider and the key-value server answer and whatever others
  write, a run sends no confirm and commits no issue; it cancels at most the payment it was queued for, and
  that only after a lookup of this run showed it approved with no cancellation in progress. The unique indexes
  on payments and tickets hold afterwards if they held before.\<close>
theorem reconcile_only_undoes:
  assumes E: "keeps_rows E" and run: "runPaymentConfirmReconcileJob E job w = (r, w1)" and fresh: "fw_log w = []"
  shows "ConfirmSent i n \<notin> set (fw_log w1) \<and> Committed a pid \<notin> set (fw_log w1) \<and>
    (CancelSent k \<in> set (fw_log w1) \<longrightarrow>
      k = pi_paymentKey (rc_identity (jb_context job)) \<and> shown_approved (rc_identity (jb_context job)) w1) \<and>
    (db_ok (fw_db w) \<longrightarrow> db_ok (fw_db w1))"
proof -
  let ?i = "rc_identity (jb_context job)"
  have "runs {KLookup, KCancel, KJob} (runPaymentConfirmReconcileJob E job)"
    by (rule runs_reconcile_job [OF E subset_refl])
  from runsD [OF this run] have a: "after {KLookup, KCancel, KJob} w w1" .
  have "cancels_checked ?i w" by (simp add: cancels_checked_def cancels_def fresh)
  from checksD [OF checks_reconcile [OF E, of job] this] run have "cancels_checked ?i w1"
    by (auto simp: wp_def split: sum.splits)
  with after_new [OF a] after_ok [OF a] fresh show ?thesis
    by (fastforce simp: cancels_checked_def cancels_def)
qed

section \<open>The job gives up\<close>

text \<open>A retry lies in the future, and at most half an hour ahead unless it waits for the client's window.\<close>

definition retry_ok :: "int \<Rightarrow> reconcile_outcome \<Rightarrow> bool" where
  "retry_ok now x = (case x of Resolved r \<Rightarrow> True
     | Retry reason at \<Rightarrow> now < at \<and> (at \<le> now + RECONCILE_BACKOFF_MAX_MS \<or> reason = ''awaiting_client_window''))"

lemma retry_resolved [simp]: "retry_ok now (Resolved r)"
  by (simp add: retry_ok_def)

lemma retry_backoff [simp]: "retry_ok now (retry now n reason None)"
  by (simp add: retry_ok_def retry_def backoff_ms_def RECONCILE_BACKOFF_MAX_MS_def RECONCILE_BACKOFF_BASE_MS_def)

lemma retry_soon [simp]: "retry_ok now (retry now n reason (Some (now + RECONCILE_LEASE_BUSY_DELAY_MS)))"
  by (simp add: retry_ok_def retry_def RECONCILE_BACKOFF_MAX_MS_def RECONCILE_LEASE_BUSY_DELAY_MS_def)

lemma retry_parts [returns_rules]: "ri_now j = now \<Longrightarrow> returns (retry_ok now) (ri_retry j t)" "ri_now j = now \<Longrightarrow> returns (retry_ok now) (ri_retry_soon j t)"
  unfolding ri_retry_def ri_retry_soon_def by (auto intro: returns_rules)

lemma retry_locked:
  assumes "ri_now j = now"
  shows "returns (retry_ok now) (reconcileUnresolvedConfirmLocked E j)"
proof -
  note r = retry_parts [OF assms]
  have unrecordable: "returns (retry_ok now) (cancelUnrecordableApproval E j reason)" for reason
    unfolding cancelUnrecordableApproval_def by (intro returns_rules r; simp)
  have resume: "returns (retry_ok now) (resumeClaimedCompensation E j p)" for p
    unfolding resumeClaimedCompensation_def Let_def by (intro returns_rules r; simp)
  have decide: "returns (retry_ok now) (decide_by_provider E j)"
    unfolding decide_by_provider_def compensate_unrecorded_def by (intro returns_rules r unrecordable; simp)
  have window: "retry_ok now (retry now n ''awaiting_client_window'' (Some (t + RECONCILE_WINDOW_MARGIN_MS)))" if "now < t" for n t
    using that by (simp add: retry_ok_def retry_def RECONCILE_WINDOW_MARGIN_MS_def)
  show ?thesis
    unfolding reconcileUnresolvedConfirmLocked_def
    by (intro returns_rules unrecordable resume decide; simp add: assms window)
qed

lemma enqueued: "k \<in> set (enqueue j jobs) \<Longrightarrow> k \<in> set jobs \<or> k = j"
  by (auto simp: enqueue_def split: if_splits)

lemma schedule_enqueues:
  "wp (scheduleConfirmReconcile E c reason n (Some t))
     (\<lambda>_ w1. fw_jobs w1 = fw_jobs w \<or> fw_jobs w1 = enqueue \<lparr>jb_context = c, jb_reason = reason, jb_attempt = n, jb_startAfter = t\<rparr> (fw_jobs w))
     (\<lambda>_ _. False) w"
  by (simp add: scheduleConfirmReconcile_def clock_def tick_def log_event_def alter_def ret_def bnd_def wp_def)

text \<open>The jobs that a run of \<open>job\<close> can queue.\<close>

definition follow_ups :: "environment \<Rightarrow> (reconcile_job \<times> reconcile_job) set" where
  "follow_ups E = {(job, job'). \<exists>w. job' \<in> set (fw_jobs (snd (runPaymentConfirmReconcileJob E job w))) - set (fw_jobs w)}"

lemma reconcile_retries:
  assumes E: "keeps_rows E"
  shows "wp (reconcileUnresolvedConfirm E job)
    (\<lambda>x w1. fw_jobs w1 = fw_jobs w \<and> (\<exists>n. retry_ok (en_now E n) x)) (\<lambda>_ w1. fw_jobs w1 = fw_jobs w) w"
proof -
  have locked: "returns (retry_ok now) (reconcileUnresolvedConfirmLocked E
      \<lparr>ri_context = jb_context job, ri_reservation = r, ri_now = now, ri_attempt = jb_attempt job\<rparr>)" for r now
    by (rule retry_locked) simp
  have clock: "wp (clock E) (\<lambda>t w1. \<exists>n. t = en_now E n) (\<lambda>_ _. False) w"
    by (auto simp: clock_def tick_def ret_def bnd_def wp_def)
  have "wp (reconcileUnresolvedConfirm E job) (\<lambda>x _. \<exists>n. retry_ok (en_now E n) x) (\<lambda>_ _. True) w"
    unfolding reconcileUnresolvedConfirm_def Let_def wp_bnd [of "clock E"]
  proof (rule wp_mono [OF clock], goal_cases)
    case (1 now w1)
    then obtain n where n: "now = en_now E n" ..
    have "returns (retry_ok now)
      (bnd (outcome_of (select E (\<lambda>db. List.find (\<lambda>r. rs_tossOrderId r = pi_orderId (rc_identity (jb_context job))) (fd_reservations db)))) (\<lambda>found.
       case found of
         Inl e \<Rightarrow> ret (retry now (jb_attempt job) ''reservation_read_failed'' None)
       | Inr None \<Rightarrow> ret (Resolved MissingReservation)
       | Inr (Some r) \<Rightarrow>
           bnd (outcome_of (reach (en_acquireLease E))) (\<lambda>lease.
             case lease of
               Inl e \<Rightarrow> ret (retry now (jb_attempt job) ''confirm_lease_unavailable'' None)
             | Inr False \<Rightarrow> ret (retry now (jb_attempt job) ''confirm_lease_busy'' (Some (now + RECONCILE_LEASE_BUSY_DELAY_MS)))
             | Inr True \<Rightarrow>
                 always
                   (handle (reconcileUnresolvedConfirmLocked E
                       \<lparr>ri_context = jb_context job, ri_reservation = r, ri_now = now, ri_attempt = jb_attempt job\<rparr>)
                     (\<lambda>_. ret (retry now (jb_attempt job) ''reconcile_failed'' None)))
                   (handle (reach (en_releaseLease E)) (\<lambda>_. ret ())))))"
      by (intro returns_rules locked; simp)
    from this [unfolded returns_def, rule_format, of w1]
    show ?case by (rule wp_mono) (use n in auto)
  qed simp
  then have result: "wp (reconcileUnresolvedConfirm E job) (\<lambda>x _. \<exists>n. retry_ok (en_now E n) x) (\<lambda>_ _. True) w" .
  have "runs {KLookup, KCancel} (reconcileUnresolvedConfirm E job)" by (intro runs_rules E) simp_all
  from this result show ?thesis
    by (rule wp_and_runs) (simp_all add: after_jobs)
qed

lemma follow_up:
  assumes E: "keeps_rows E" and j: "(job, job') \<in> follow_ups E"
  shows "jb_context job' = jb_context job \<and> jb_attempt job' = jb_attempt job + 1 \<and>
    jb_attempt job' < PAYMENT_CONFIRM_RECONCILE_MAX_ATTEMPTS \<and> (\<exists>n. en_now E n < jb_startAfter job')"
    (is "?P job'")
proof -
  from j obtain w where w: "job' \<in> set (fw_jobs (snd (runPaymentConfirmReconcileJob E job w)))" "job' \<notin> set (fw_jobs w)"
    by (auto simp: follow_ups_def)
  let ?R = "\<lambda>w1. \<forall>k \<in> set (fw_jobs w1). k \<in> set (fw_jobs w) \<or> ?P k"
  have "wp (runPaymentConfirmReconcileJob E job) (\<lambda>_. ?R) (\<lambda>_. ?R) w"
    unfolding runPaymentConfirmReconcileJob_def wp_bnd
  proof (rule wp_mono [OF reconcile_retries [OF E]], goal_cases)
    case (1 x w1)
    show ?case
    proof (cases x)
      case (Retry reason at)
      from 1 Retry have future: "\<exists>n. en_now E n < at" and same: "fw_jobs w1 = fw_jobs w" by (auto simp: retry_ok_def)
      show ?thesis
      proof (cases "jb_attempt job + 1 \<ge> PAYMENT_CONFIRM_RECONCILE_MAX_ATTEMPTS")
        case True
        with Retry same show ?thesis by (simp add: wp_eqs)
      next
        case False
        have "wp (scheduleConfirmReconcile E (jb_context job) (jb_reason job) (jb_attempt job + 1) (Some at)) (\<lambda>_. ?R) (\<lambda>_ _. False) w1"
        proof (rule wp_mono [OF schedule_enqueues], goal_cases)
          case (1 b w2)
          have "?P \<lparr>jb_context = jb_context job, jb_reason = jb_reason job, jb_attempt = jb_attempt job + 1, jb_startAfter = at\<rparr>"
            using False future by simp
          with 1 show ?case unfolding same by (metis enqueued)
        qed
        then have "wp (bnd (scheduleConfirmReconcile E (jb_context job) (jb_reason job) (jb_attempt job + 1) (Some at))
            (\<lambda>scheduled. if \<not> scheduled then raise OtherFailure else ret x)) (\<lambda>_. ?R) (\<lambda>_. ?R) w1"
          unfolding wp_bnd by (rule wp_mono) (auto simp: wp_eqs)
        with Retry False show ?thesis by simp
      qed
    qed (use 1 in \<open>simp add: wp_eqs\<close>)
  qed simp
  then have "?R (snd (runPaymentConfirmReconcileJob E job w))"
    by (auto simp: wp_def split: sum.splits prod.splits)
  with w show ?thesis by blast
qed

text \<open>C7: Reconciling an order ends. A run of the job queues at most the same order's next attempt, to start in
  the future; after twenty attempts nothing is queued any more, so every chain of jobs of an order has at most
  twenty runs, and no infinite chain exists.\<close>
theorem reconcile_gives_up:
  assumes E: "keeps_rows E"
  shows "wf ((follow_ups E)\<inverse>) \<and>
    (\<forall>n job job'. (job, job') \<in> follow_ups E ^^ n \<longrightarrow>
       n < 20 \<and> jb_attempt job' = jb_attempt job + n \<and> jb_context job' = jb_context job)"
proof
  show "wf ((follow_ups E)\<inverse>)"
    by (rule wf_subset [OF wf_measure [of "\<lambda>job. 20 - jb_attempt job"]])
      (use follow_up [OF E] in \<open>fastforce simp: PAYMENT_CONFIRM_RECONCILE_MAX_ATTEMPTS_def\<close>)
  have chain: "(job, job') \<in> follow_ups E ^^ n \<Longrightarrow>
      (n = 0 \<or> jb_attempt job' < 20) \<and> jb_attempt job' = jb_attempt job + n \<and> jb_context job' = jb_context job" for n job job'
  proof (induction n arbitrary: job')
    case (Suc n)
    then obtain k where k: "(job, k) \<in> follow_ups E ^^ n" and j: "(k, job') \<in> follow_ups E" by auto
    from Suc.IH [OF k] follow_up [OF E j] show ?case by (auto simp: PAYMENT_CONFIRM_RECONCILE_MAX_ATTEMPTS_def)
  qed simp
  show "\<forall>n job job'. (job, job') \<in> follow_ups E ^^ n \<longrightarrow>
      n < 20 \<and> jb_attempt job' = jb_attempt job + n \<and> jb_context job' = jb_context job"
    using chain by fastforce
qed

section \<open>Two runs\<close>

definition demo_job :: reconcile_job where
  "demo_job = \<lparr>jb_context = \<lparr>rc_identity = demo_pi, rc_expectation = or_expectation demo_pending, rc_providerCharge = None\<rparr>,
     jb_reason = ''provider_confirm_unresolved'', jb_attempt = 0, jb_startAfter = 1000\<rparr>"

definition demo_cancelled :: toss_response where
  "demo_cancelled = \<lparr>tr_status = ''CANCELED'', tr_totalAmount = 1200000, tr_balanceAmount = Some 0, tr_currency = Some ''KRW'', tr_cancels = None\<rparr>"

definition demo_lookup_env :: environment where
  "demo_lookup_env = (demo_env timed_out)\<lparr>en_query := \<lambda>n k. Inr (Some demo_answer), en_cancel := \<lambda>n r. Inr demo_cancelled\<rparr>"

lemma demo_retry: "map jb_attempt (fw_jobs (snd (runPaymentConfirmReconcileJob (demo_env timed_out) demo_job demo_start))) = [1]"
  by code_simp

lemma demo_undo: "fw_log (snd (runPaymentConfirmReconcileJob demo_lookup_env demo_job demo_start)) = [LookedUp demo_pi demo_answer, CancelSent ''pay-1'']"
  by code_simp

lemma reconcile_only_undoes_witness:
  "CancelSent ''pay-1'' \<in> set (fw_log (snd (runPaymentConfirmReconcileJob demo_lookup_env demo_job demo_start))) \<and>
   shown_approved demo_pi (snd (runPaymentConfirmReconcileJob demo_lookup_env demo_job demo_start))"
proof -
  have E: "keeps_rows demo_lookup_env" by (simp add: keeps_rows_def demo_lookup_env_def demo_env_def)
  have c: "CancelSent ''pay-1'' \<in> set (fw_log (snd (runPaymentConfirmReconcileJob demo_lookup_env demo_job demo_start)))"
    by (simp add: demo_undo)
  have "rc_identity (jb_context demo_job) = demo_pi" "fw_log demo_start = []" by (simp_all add: demo_job_def demo_start_def)
  with c reconcile_only_undoes [where w = demo_start and job = demo_job and k = "''pay-1''", OF E surjective_pairing]
  show ?thesis by simp
qed

lemma reconcile_gives_up_witness:
  "\<exists>job'. (demo_job, job') \<in> follow_ups (demo_env timed_out) \<and> jb_attempt job' = 1 \<and> jb_context job' = jb_context demo_job"
proof -
  obtain job' where j: "job' \<in> set (fw_jobs (snd (runPaymentConfirmReconcileJob (demo_env timed_out) demo_job demo_start)))"
    using demo_retry by (cases "fw_jobs (snd (runPaymentConfirmReconcileJob (demo_env timed_out) demo_job demo_start))") auto
  have f: "(demo_job, job') \<in> follow_ups (demo_env timed_out) ^^ 1"
    using j by (auto simp: follow_ups_def demo_start_def)
  with reconcile_gives_up [OF demo_keeps_rows, of timed_out] show ?thesis by (fastforce simp: demo_job_def)
qed

end
