(* ===== verification/ConfirmExclusive.thy ===== *)
theory ConfirmExclusive
  imports ConfirmIssue
begin

text \<open>
  Payment confirm never does both: an order whose tickets it issued for a new approval is not refunded by the
  same run, even when the acknowledgement of the commit is lost and the order has to be read back.
\<close>

section \<open>Issued orders\<close>

definition issued :: "js_string \<Rightarrow> js_string \<Rightarrow> js_string \<Rightarrow> order_db \<Rightarrow> bool" where
  "issued oid rid k db \<longleftrightarrow>
     (\<exists>p. find_order_payment db oid rid = Some p \<and> py_status p = ''DONE'' \<and> py_asyncStatus p \<noteq> Some ''cancel_pending'' \<and> py_paymentKey p = k) \<and>
     map_option rs_status (find_reservation db rid) = Some ''CONFIRMED''"

text \<open>What is relied on: while the confirm runs nobody cancels or refunds an order that it has just issued, and a
  commit loses its acknowledgement only with the connection.\<close>

definition keeps_issued :: "environment \<Rightarrow> bool" where
  "keeps_issued E \<longleftrightarrow> (\<forall>n db oid rid k. issued oid rid k db \<longrightarrow> issued oid rid k (en_others E n db))"

definition lost_with_connection :: "environment \<Rightarrow> bool" where
  "lost_with_connection E \<longleftrightarrow> (\<forall>n e. en_tx E n = TxAckLost e \<longrightarrow> isConnectionLossDatabaseError e)"

definition new_issues :: "world \<Rightarrow> approved_snapshot set" where
  "new_issues w = {a \<in> commits w. as_existingPaymentId a = None}"

lemma new_issues_quiet: "after no_issue w w1 \<Longrightarrow> new_issues w1 = new_issues w"
  by (simp add: new_issues_def issue_log.unchanged)

lemma find_first: "List.find P xs = None \<Longrightarrow> List.find P (xs @ [x]) = (if P x then Some x else None)"
  by (induction xs) auto

lemma confirmed_status:
  assumes "rid \<in> order_ids db"
  shows "map_option rs_status (find_reservation (update_reservations (\<lambda>q. rs_id q = rid) ''CONFIRMED'' db) rid) = Some ''CONFIRMED''"
proof -
  have "rid \<in> rs_id ` set rs \<Longrightarrow> map_option rs_status
      (List.find (\<lambda>r. rs_id r = rid) (map (\<lambda>r. if rs_id r = rid then r\<lparr>rs_status := ''CONFIRMED''\<rparr> else r) rs)) = Some ''CONFIRMED''" for rs
    by (induction rs) auto
  then show ?thesis using assms by (simp add: find_reservation_def update_reservations_def order_ids_def)
qed

lemma commit_issues:
  assumes c: "commitFinalization E o1 a n db = Inr (pid, db2)" and new: "as_existingPaymentId a = None"
    and oid: "as_orderId a = oid" and r: "rs_id (or_reservation o1) \<in> order_ids db"
    and sync: "as_asyncStatus a \<noteq> Some ''cancel_pending''"
  shows "issued oid (rs_id (or_reservation o1)) (as_paymentKey a) db2"
proof -
  let ?rid = "rs_id (or_reservation o1)"
  let ?db = "update_reservations (\<lambda>q. rs_id q = ?rid) ''CONFIRMED'' db"
  let ?row = "(new_payment_row (en_newId E n) ?rid a)\<lparr>py_asyncStatus := Some (or_else (as_asyncStatus a) ''sync'')\<rparr>"
  from c obtain db1 tickets inventory where
    p: "commit_payment (en_newId E n) ?rid a ?db = Inr (pid, db1)" and d: "db2 = db1\<lparr>fd_tickets := tickets, fd_inventory := inventory\<rparr>"
    by (rule commitFinalization_parts)
  from p new have i: "insert_payment ?row ?db = (True, db1)" by (auto simp: commit_payment_def split: prod.splits bool.splits)
  then have free: "\<not> payment_conflict ?row ?db" and d1: "db1 = ?db\<lparr>fd_payments := fd_payments ?db @ [?row]\<rparr>"
    by (auto simp: insert_payment_def split: if_splits)
  have "List.find (\<lambda>p. py_tossOrderId p = oid \<and> py_reservationId p = ?rid) (fd_payments ?db) = None"
    using free by (auto simp: find_None_iff payment_conflict_def list_ex_iff new_payment_row_def)
  then have "find_order_payment db2 oid ?rid = Some ?row"
    by (simp add: find_order_payment_def d d1 find_first) (simp add: new_payment_row_def oid)
  moreover have "fd_reservations db2 = fd_reservations ?db" by (simp add: d d1)
  then have "map_option rs_status (find_reservation db2 ?rid) = Some ''CONFIRMED''"
    using confirmed_status [OF r] by (simp add: find_reservation_def)
  ultimately show ?thesis
    using sync by (cases "as_asyncStatus a") (auto simp: issued_def new_payment_row_def)
qed

lemma issued_select:
  assumes E: "keeps_issued E" and i: "issued oid rid k (fw_db w)"
    and "\<And>w1. issued oid rid k (fw_db w1) \<Longrightarrow> fw_log w1 = fw_log w \<Longrightarrow> Q (f (fw_db w1)) w1"
    and "\<And>e w1. issued oid rid k (fw_db w1) \<Longrightarrow> fw_log w1 = fw_log w \<Longrightarrow> Er e w1"
  shows "wp (select E f) Q Er w"
proof -
  let ?w = "w\<lparr>fw_tick := Suc (fw_tick w), fw_db := en_others E (fw_tick w) (fw_db w)\<rparr>"
  have "issued oid rid k (fw_db ?w)" using E i by (simp add: keeps_issued_def)
  with assms(3) [of ?w] assms(4) [of ?w] show ?thesis
    by (auto simp: wp_def select_def statement_def Let_def split: option.splits)
qed

lemma issued_read:
  assumes E: "keeps_issued E" and i: "issued oid rid k (fw_db w)"
  shows "wp (readFinalizationState E rid oid)
    (\<lambda>st w1. issued oid rid k (fw_db w1) \<and> fw_log w1 = fw_log w \<and> (st = StUnknown \<or> (\<exists>pid. st = StCommitted pid k)))
    (\<lambda>_ _. False) w"
  unfolding readFinalizationState_def wp_handle wp_bnd wp_ret
proof (rule issued_select [OF E i], goal_cases)
  case (1 w1)
  then obtain p where p: "find_order_payment (fw_db w1) oid rid = Some p" "py_status p = ''DONE''"
    "py_asyncStatus p \<noteq> Some ''cancel_pending''" "py_paymentKey p = k"
    by (auto simp: issued_def)
  show ?case
    unfolding p(1) option.case
    using p(2-4) 1(2)
    by (simp add: wp_bnd wp_ret) (rule issued_select [OF E 1(1)], auto simp: issued_def)
qed (auto simp: wp_eqs)

section \<open>One of both\<close>

definition exclusive :: "world \<Rightarrow> bool" where
  "exclusive w \<longleftrightarrow> new_issues w = {} \<or> cancels w = {}"

text \<open>Nothing was refunded; what was issued is on record, and the loop knows that it may have been.\<close>

definition at_most_issued :: "js_string \<Rightarrow> js_string \<Rightarrow> js_string \<Rightarrow> bool \<Rightarrow> world \<Rightarrow> bool" where
  "at_most_issued oid rid k may w \<longleftrightarrow> rid \<in> order_ids (fw_db w) \<and> cancels w = {} \<and>
     (new_issues w \<noteq> {} \<longrightarrow> may \<and> issued oid rid k (fw_db w))"

lemma exclusive_no_issue:
  assumes "runs no_issue p" and "new_issues w = {}"
  shows "wp p (\<lambda>_. exclusive) (\<lambda>_. exclusive) w"
  by (rule wp_runs [OF assms(1)]) (simp_all add: exclusive_def new_issues_quiet assms(2))

lemma log_views_same: "fw_log w1 = fw_log w \<Longrightarrow> new_issues w1 = new_issues w \<and> cancels w1 = cancels w"
  by (simp add: new_issues_def commits_def cancels_def)

text \<open>The issuance transaction of a new approval, with what may have happened to it.\<close>

lemma transaction_issues:
  assumes rows: "keeps_rows E" and E: "keeps_issued E" and lost: "lost_with_connection E"
    and new: "as_existingPaymentId a = None" and a: "as_asyncStatus a \<noteq> Some ''cancel_pending''"
    and w: "at_most_issued (as_orderId a) (rs_id (or_reservation o1)) (as_paymentKey a) may w"
  shows "wp (outcome_of (transaction E (commitFinalization E o1 a) (\<lambda>pid. [Committed a pid])))
    (\<lambda>r w1. case r of Inr pid \<Rightarrow> cancels w1 = {}
       | Inl e \<Rightarrow> at_most_issued (as_orderId a) (rs_id (or_reservation o1)) (as_paymentKey a)
           (may \<or> isConnectionLossDatabaseError (error_chain e)) w1)
    (\<lambda>_ _. False) w"
proof -
  let ?rid = "rs_id (or_reservation o1)" and ?k = "as_paymentKey a" and ?oid = "as_orderId a"
  let ?J = "at_most_issued ?oid ?rid ?k" and ?n = "fw_tick w"
  let ?d = "en_others E ?n (fw_db w)"
  have none: "cancels w = {}" using w by (simp add: at_most_issued_def)
  have r: "?rid \<in> order_ids ?d" using w others_keep [OF rows, of "fw_db w" ?n] by (auto simp: at_most_issued_def grows_def)
  have i: "issued ?oid ?rid ?k ?d" if "new_issues w \<noteq> {}" using w that E by (simp add: at_most_issued_def keeps_issued_def)
  have same: "?J (may \<or> m) (w\<lparr>fw_tick := t, fw_db := ?d\<rparr>)" for m t
    using w r i by (auto simp: at_most_issued_def new_issues_def commits_def cancels_def)
  have done_: "?J (may \<or> True) (w\<lparr>fw_tick := t, fw_db := db2, fw_log := fw_log w @ [Committed a pid]\<rparr>)"
    if c: "commitFinalization E o1 a ?n ?d = Inr (pid, db2)" for pid db2 t
    using commit_issues [OF c new refl r a] commitFinalization_rows(1) [OF c] r none
    by (auto simp: at_most_issued_def grows_def cancels_def)
  have quiet1: "cancels (w\<lparr>fw_tick := t, fw_db := d, fw_log := fw_log w @ [Committed a pid]\<rparr>) = {}" for t d pid
    using none by (simp add: cancels_def)
  show ?thesis
  proof (cases "en_tx E ?n")
    case (TxAckLost e)
    then have "isConnectionLossDatabaseError e" using lost by (simp add: lost_with_connection_def)
    then show ?thesis
      using done_ same by (auto simp: wp_def outcome_of_def transaction_def Let_def TxAckLost error_chain_def split: sum.split prod.split)
  next
    case TxCommits
    then show ?thesis
      using quiet1 same by (auto simp: wp_def outcome_of_def transaction_def Let_def split: sum.split prod.split)
  next
    case (TxRolledBack e)
    then show ?thesis
      using same by (auto simp: wp_def outcome_of_def transaction_def Let_def)
  qed
qed

lemma after_nothing: "after {} w w1 \<Longrightarrow> fw_log w1 = fw_log w"
  by (auto simp: after_def)

lemma turn_exclusive:
  assumes rows: "keeps_rows E" and E: "keeps_issued E" and lost: "lost_with_connection E"
    and new: "as_existingPaymentId a = None" and sync: "as_asyncStatus a \<noteq> Some ''cancel_pending''"
    and oid: "as_orderId a = pi_orderId (or_request o1)"
    and again: "\<And>f m w1. again = Some f \<Longrightarrow> at_most_issued (as_orderId a) (rs_id (or_reservation o1)) (as_paymentKey a) m w1 \<Longrightarrow>
      wp (f m) (\<lambda>_. exclusive) (\<lambda>_. exclusive) w1"
    and w: "at_most_issued (as_orderId a) (rs_id (or_reservation o1)) (as_paymentKey a) may w"
  shows "wp (commit_turn E o1 a again may) (\<lambda>_. exclusive) (\<lambda>_. exclusive) w"
  unfolding commit_turn_def wp_bnd
proof (rule wp_mono [OF transaction_issues [OF rows E lost new sync w]], goal_cases)
  case (1 r w1)
  let ?rid = "rs_id (or_reservation o1)" and ?k = "as_paymentKey a" and ?oid = "as_orderId a" and ?X = "\<lambda>_. exclusive"
  show ?case
  proof (cases r)
    case (Inr pid)
    with 1 show ?thesis by (simp add: wp_eqs exclusive_def)
  next
    case (Inl e)
    let ?m = "may \<or> isConnectionLossDatabaseError (error_chain e)"
    from 1 Inl have J: "at_most_issued ?oid ?rid ?k ?m w1" by simp
    then have c1: "cancels w1 = {}" by (simp add: at_most_issued_def)
    let ?T = "\<lambda>st. case st of
        StCommitted pid key \<Rightarrow> bnd (cancelApprovalIfCommittedWithAnotherPayment E a key) (\<lambda>_. ret pid)
      | StCancelled \<Rightarrow> raise (Http 409 CancelInProgress)
      | _ \<Rightarrow>
          if is_conflict e then
            bnd (throwIfCommitUnverifiable E a ?m st) (\<lambda>_.
            bnd (cancelApprovedPaymentAfterFailure E a ?rid (resolvePostApprovalConflictCancelReason e)) (\<lambda>_. raise e))
          else if isTransientDatabaseError (error_chain e) \<and> again \<noteq> None then the again ?m
          else
            bnd (throwIfCommitUnverifiable E a ?m st) (\<lambda>_.
            bnd (cancelApprovedPaymentAfterFailure E a ?rid SERVER_ERROR_CANCEL_REASON)
              (\<lambda>_. raise (Http 500 PostApprovalFailure)))"
    have again_on: "wp (the again ?m) ?X ?X w2" if "again \<noteq> None" "at_most_issued ?oid ?rid ?k ?m w2" for w2
      using again [OF _ that(2)] that(1) by auto
    have "wp (bnd (readFinalizationState E ?rid ?oid) ?T) ?X ?X w1"
      unfolding wp_bnd
    proof (cases "new_issues w1 = {}")
      case True
      show "wp (readFinalizationState E ?rid ?oid) (\<lambda>st. wp (?T st) ?X ?X) ?X w1"
      proof (rule wp_runs [OF runs_read_state [OF rows, of "{}"]], goal_cases)
        case (1 st w2)
        have n: "new_issues w2 = {}" and J2: "at_most_issued ?oid ?rid ?k ?m w2"
          using J True log_views_same [OF after_nothing [OF 1]] after_orders [OF 1] by (auto simp: at_most_issued_def)
        have quiet1: "runs no_issue (throwIfCommitUnverifiable E a m st1)" for m st1
          unfolding throwIfCommitUnverifiable_def by (intro runs_rules) simp
        have undo: "wp (bnd (throwIfCommitUnverifiable E a ?m st) (\<lambda>_.
            bnd (cancelApprovedPaymentAfterFailure E a ?rid reason) (\<lambda>_. raise f))) ?X ?X w2" for reason f
          by (rule exclusive_no_issue [OF _ n]) (intro runs_rules quiet1 rows; simp)
        show ?case
        proof (cases st)
          case (StCommitted pid key)
          show ?thesis
            unfolding StCommitted finalization_state.case
            by (rule exclusive_no_issue [OF _ n]) (intro runs_rules; simp)
        next
          case StCancelled
          then show ?thesis using n by (simp add: wp_eqs exclusive_def)
        qed (use undo again_on [OF _ J2] in auto)
      next
        case (2 e1 w2)
        then show ?case
          using c1 log_views_same [OF after_nothing] by (auto simp: exclusive_def)
      qed
    next
      case False
      then have m: "?m" and i: "issued ?oid ?rid ?k (fw_db w1)" using J by (simp_all add: at_most_issued_def)
      have unknown: "wp (bnd (throwIfCommitUnverifiable E a ?m StUnknown) g) ?X ?X w2" if "cancels w2 = {}" for w2 and g :: "unit \<Rightarrow> js_string confirm_prog"
      proof -
        have r: "runs no_cancel (schedule_first E (as_reconcile a) t)" for t by (intro runs_rules) simp
        show ?thesis
          using m unfolding throwIfCommitUnverifiable_def throwOutcomeUnknown_def
          by (simp add: wp_eqs) (rule wp_runs [OF r], simp_all add: exclusive_def cancel_log.unchanged that)
      qed
      show "wp (readFinalizationState E ?rid ?oid) (\<lambda>st. wp (?T st) ?X ?X) ?X w1"
      proof (rule wp_and_runs [OF runs_read_state [OF rows, of "{}"] issued_read [OF E i]], goal_cases)
        case (1 st w2)
        have c2: "cancels w2 = {}" and J2: "at_most_issued ?oid ?rid ?k ?m w2"
          using 1 J m log_views_same [OF after_nothing [OF 1(1)]] after_orders [OF 1(1)] by (auto simp: at_most_issued_def)
        from 1 consider "st = StUnknown" | pid where "st = StCommitted pid ?k" by blast
        then show ?case
        proof cases
          case 1
          then show ?thesis using unknown [OF c2] again_on [OF _ J2] by simp
        next
          case (2 pid)
          with c2 show ?thesis by (simp add: cancelApprovalIfCommittedWithAnotherPayment_def wp_eqs exclusive_def)
        qed
      qed simp
    qed
    then show ?thesis by (simp add: Inl Let_def oid)
  qed
qed simp

section \<open>From the order to its tickets\<close>

definition untaken :: "js_string \<Rightarrow> world \<Rightarrow> bool" where
  "untaken rid w \<longleftrightarrow> rid \<in> order_ids (fw_db w) \<and> cancels w = {} \<and> new_issues w = {}"

lemma untaken_issued: "untaken rid w \<Longrightarrow> at_most_issued oid rid k may w"
  by (simp add: untaken_def at_most_issued_def)

lemma untaken_exclusive: "untaken rid w \<Longrightarrow> exclusive w"
  by (simp add: untaken_def exclusive_def)

lemma runs_sub:
  assumes "runs K p" and "K \<subseteq> K1"
  shows "runs K1 p"
  by (rule runsI) (rule after_sub [OF runsD [OF assms(1)] assms(2)])

lemma untaken_after: "after (no_issue \<inter> no_cancel) w w1 \<Longrightarrow> untaken rid w \<Longrightarrow> untaken rid w1"
  using after_sub [of "no_issue \<inter> no_cancel" w w1 no_issue] after_sub [of "no_issue \<inter> no_cancel" w w1 no_cancel]
  by (auto simp: untaken_def new_issues_quiet cancel_log.unchanged intro: after_orders)

text \<open>A program that sends no cancellation unless it fails, and issues nothing.\<close>

definition gentle :: "'a confirm_prog \<Rightarrow> bool" where
  "gentle p \<longleftrightarrow> runs no_issue p \<and> (\<forall>w. wp p (\<lambda>_ w1. cancels w1 = cancels w) (\<lambda>_ _. True) w)"

named_theorems gentle_rules "programs that cancel only when they fail"

lemma gentle_runs: "runs (no_issue \<inter> no_cancel) p \<Longrightarrow> gentle p"
  unfolding gentle_def
  by (auto intro: runs_sub wp_runs [of no_cancel p] simp: cancel_log.unchanged)

lemma gentle_step:
  assumes "gentle p" and "untaken rid w" and "\<And>x w1. untaken rid w1 \<Longrightarrow> wp (f x) (\<lambda>_. exclusive) (\<lambda>_. exclusive) w1"
  shows "wp (bnd p f) (\<lambda>_. exclusive) (\<lambda>_. exclusive) w"
proof -
  from assms(1) have r: "runs no_issue p" and c: "wp p (\<lambda>_ w1. cancels w1 = cancels w) (\<lambda>_ _. True) w"
    unfolding gentle_def by blast+
  show ?thesis
    unfolding wp_bnd
  proof (rule wp_and_runs [OF r c], goal_cases)
  case (1 x w1)
  then have "untaken rid w1" using assms(2) after_orders by (auto simp: untaken_def new_issues_quiet)
  then show ?case by (rule assms(3))
next
  case (2 e w1)
  then show ?case using assms(2) by (simp add: untaken_def exclusive_def new_issues_quiet)
  qed
qed

lemma gentle_fails: "runs no_issue p \<Longrightarrow> gentle (bnd p (\<lambda>_. raise e))"
  unfolding gentle_def wp_bnd wp_raise by (auto intro: runs_rules after_wp)

lemma gentle_bnd [gentle_rules]:
  assumes "gentle p" and "\<And>x. gentle (f x)"
  shows "gentle (bnd p f)"
proof -
  have "wp (bnd p f) (\<lambda>_ w1. cancels w1 = cancels w) (\<lambda>_ _. True) w" for w
  proof -
    from assms(1) have c: "wp p (\<lambda>_ w1. cancels w1 = cancels w) (\<lambda>_ _. True) w" unfolding gentle_def by blast
    show ?thesis
    unfolding wp_bnd
  proof (rule wp_mono [OF c], goal_cases)
    case (1 x w1)
    have "wp (f x) (\<lambda>_ w2. cancels w2 = cancels w1) (\<lambda>_ _. True) w1" using assms(2) unfolding gentle_def by blast
    then show ?case by (rule wp_mono) (simp_all add: 1)
  qed simp
  qed
  then show ?thesis using assms unfolding gentle_def by (auto intro: runs_rules)
qed

lemma gentle_handle [gentle_rules]:
  assumes "runs (no_issue \<inter> no_cancel) p" and "\<And>e. gentle (h e)"
  shows "gentle (handle p h)"
proof -
  have c: "runs no_cancel p" and i: "runs no_issue p" by (rule runs_sub [OF assms(1)], simp)+
  have "wp (handle p h) (\<lambda>_ w1. cancels w1 = cancels w) (\<lambda>_ _. True) w" for w
    unfolding wp_handle
  proof (rule wp_runs [OF c], goal_cases)
    case (2 e w1)
    have "wp (h e) (\<lambda>_ w2. cancels w2 = cancels w1) (\<lambda>_ _. True) w1" using assms(2) unfolding gentle_def by blast
    then show ?case by (rule wp_mono) (simp_all add: cancel_log.unchanged [OF 2])
  qed (simp add: cancel_log.unchanged)
  then show ?thesis using assms(2) i unfolding gentle_def by (auto intro: runs_rules)
qed

lemma gentle_if [gentle_rules]: "(c \<Longrightarrow> gentle p) \<Longrightarrow> (\<not> c \<Longrightarrow> gentle q) \<Longrightarrow> gentle (if c then p else q)"
  by simp

lemma gentle_option [gentle_rules]:
  "(x = None \<Longrightarrow> gentle p) \<Longrightarrow> (\<And>y. x = Some y \<Longrightarrow> gentle (f y)) \<Longrightarrow> gentle (case x of None \<Rightarrow> p | Some y \<Rightarrow> f y)"
  by (cases x) simp_all

lemma gentle_gates [gentle_rules]:
  assumes "keeps_rows E"
  shows "gentle (admission_gate E o1)" and "gentle (existing_payment_gate E o1)" and "gentle (ticket_limit_gate E o1)"
    and "gentle (seat_hold_gate E o1)"
proof -
  have undo: "runs no_issue (undo_before_rejection E o1 g f reason)" for g f reason by (intro runs_rules assms; simp)
  have quiet1: "gentle (clock E)" "gentle (ret x)" "gentle (raise f)" for x :: 'x and f
    by (intro gentle_runs runs_rules)+
  have quiet2: "gentle (select E q)" "gentle (pure s)" for q :: "order_db \<Rightarrow> 'y" and s :: "failure + 'z"
    by (intro gentle_runs runs_rules assms)+
  show "gentle (admission_gate E o1)" unfolding admission_gate_def by (intro gentle_rules quiet1 gentle_fails undo)
  show "gentle (ticket_limit_gate E o1)" unfolding ticket_limit_gate_def by (intro gentle_rules quiet1 quiet2 gentle_fails undo)
  show "gentle (existing_payment_gate E o1)" unfolding existing_payment_gate_def by (intro gentle_runs runs_rules)
  have hold: "runs no_issue (if c then undo_before_rejection E o1 g f reason else ret ())" for c g f reason
    by (intro runs_rules undo)
  show "gentle (seat_hold_gate E o1)"
    unfolding seat_hold_gate_def by (intro gentle_rules gentle_fails hold runs_rules)
qed

lemma gentle_obtain:
  assumes E: "keeps_rows E"
  shows "gentle (obtain_approval E o1)"
proof -
  have approve: "gentle (approvePaymentWithProvider E i r amt c x)" for i r amt c x
  proof -
    have cancel: "gentle (bnd (cancelApprovedPaymentAfterFailure E a rid reason) (\<lambda>_. raise f))" for a rid reason f
      by (rule gentle_fails) (intro runs_rules E; simp)
    have quiet1: "gentle (clock E)" "gentle (loadShowtimeSaleContext E st)" "gentle (request_provider_approval E i r amt c x t)"
      "gentle (ret a)" for st t and a :: approved_snapshot
      by (intro gentle_runs runs_rules E; simp)+
    have pair: "gentle (case y of (s, u) \<Rightarrow> p s u)" if "\<And>s u. gentle (p s u)" for y and p :: "int \<Rightarrow> js_string list option \<Rightarrow> approved_snapshot confirm_prog"
      using that by (cases y) simp
    show ?thesis
      unfolding approvePaymentWithProvider_def Let_def by (intro gentle_rules pair quiet1 cancel)
  qed
  have "gentle (bnd (clock E) (\<lambda>now. ret (existing_snapshot E o1 p now)))" for p by (intro gentle_runs runs_rules)
  with approve show ?thesis unfolding obtain_approval_def by (cases "or_existing o1") simp_all
qed

text \<open>What is issued is an existing payment, or a new approval of this order.\<close>

lemma obtained:
  "returns (\<lambda>a. as_existingPaymentId a = None \<longrightarrow> as_orderId a = pi_orderId (or_request o1) \<and> as_asyncStatus a = Some ''sync'')
    (obtain_approval E o1)"
proof -
  have new: "as_orderId (toNewApprovedPaymentSnapshot i t x c p now) = pi_orderId i"
    "as_asyncStatus (toNewApprovedPaymentSnapshot i t x c p now) = Some ''sync''" for i :: payment_identity and t x c p now
    by (simp_all add: toNewApprovedPaymentSnapshot_def Let_def)
  have cancelled: "returns Q (bnd p (\<lambda>_. raise f))" for Q :: "approved_snapshot \<Rightarrow> bool" and p :: "unit confirm_prog" and f
    by (intro returns_rules) (simp add: returns_def wp_eqs)
  have i: "pi_orderId (or_identity o1) = pi_orderId (or_request o1)"
    by (simp add: or_identity_def payment_identity.truncate_def)
  show ?thesis
    unfolding obtain_approval_def approvePaymentWithProvider_def Let_def
    by (rule returns_rules)
      (auto split: prod.split intro!: returns_rules cancelled simp: new i existing_snapshot_def toApprovedPaymentSnapshot_def)
qed

lemma issue_exclusive:
  assumes rows: "keeps_rows E" and E: "keeps_issued E" and lost: "lost_with_connection E"
    and new: "as_existingPaymentId a = None" and sync: "as_asyncStatus a = Some ''sync''" and oid: "as_orderId a = pi_orderId (or_request o1)"
    and w: "untaken (rs_id (or_reservation o1)) w"
  shows "wp (issue_approved E o1 a) (\<lambda>_. exclusive) (\<lambda>_. exclusive) w"
proof -
  let ?rid = "rs_id (or_reservation o1)" and ?X = "\<lambda>_. exclusive"
  have sync': "as_asyncStatus a \<noteq> Some ''cancel_pending''" by (simp add: sync)
  have turns: "at_most_issued (as_orderId a) ?rid (as_paymentKey a) may w1 \<Longrightarrow> wp (commit_turns left E o1 a may) ?X ?X w1" for left may w1
  proof (induction left arbitrary: may w1)
    case 0
    show ?case unfolding commit_turns.simps by (rule turn_exclusive [OF rows E lost new sync' oid _ 0]) simp
  next
    case (Suc left)
    show ?case unfolding commit_turns.simps
      by (rule turn_exclusive [OF rows E lost new sync' oid _ Suc.prems]) (auto intro: Suc.IH)
  qed
  have none: "wp p ?X ?X w1" if "runs no_issue p" "untaken ?rid w1" for p :: "js_string option confirm_prog" and w1
    using that by (auto intro: exclusive_no_issue simp: untaken_def)
  have committed: "wp (bnd (commitFinalizationWithRetry E o1 a) (\<lambda>pid. ret (Some pid))) ?X ?X w1" if "untaken ?rid w1" for w1
    unfolding commitFinalizationWithRetry_def wp_bnd wp_ret by (rule turns [OF untaken_issued [OF that]])
  let ?lock = "\<lambda>r. case r of
      Inl e \<Rightarrow>
        if \<not> is_http e then throwOutcomeUnknown E (as_reconcile a) ''seat_lock_check_failed'' OutcomePending
        else bnd (cancelApprovedPaymentAfterFailure E a ?rid HOLD_LOST_CANCEL_REASON) (\<lambda>_. raise e)
    | Inr _ \<Rightarrow> bnd (commitFinalizationWithRetry E o1 a) (\<lambda>pid. ret (Some pid))"
  have locked: "wp (?lock r) ?X ?X w1" if u: "untaken ?rid w1" for r :: "failure + unit" and w1
  proof (cases r)
    case (Inl e)
    show ?thesis unfolding Inl sum.case by (rule none [OF _ u]) (intro runs_rules rows; simp)
  next
    case (Inr y)
    show ?thesis unfolding Inr sum.case by (rule committed [OF u])
  qed
  have issue: "wp (bnd (outcome_of (seat_locks E)) ?lock) ?X ?X w1" if "untaken ?rid w1" for w1
    by (rule gentle_step [OF _ that]) (intro gentle_runs runs_rules, rule locked)
  show ?thesis
    unfolding issue_approved_def Let_def
  proof (rule gentle_step [OF _ w], goal_cases)
    case 1
    show ?case by (intro gentle_runs runs_rules)
  next
    case (2 lease w1)
    show ?case
    proof (cases "lease = LeaseOwned")
      case True
      then show ?thesis using issue [OF 2] by simp
    next
      case False
      show ?thesis
        unfolding if_not_P [OF False]
      proof (rule gentle_step [OF _ 2], goal_cases)
        case 1
        show ?case by (intro gentle_runs runs_rules rows)
      next
        case (2 st w2)
        have unknown: "wp (throwOutcomeUnknown E c t m :: js_string option confirm_prog) ?X ?X w2" for c t m by (rule none [OF _ 2]) (intro runs_rules; simp)
        show ?case
        proof (cases st)
          case (StCommitted pid k)
          show ?thesis unfolding StCommitted finalization_state.case by (rule none [OF _ 2]) (intro runs_rules; simp)
        next
          case StCancelled
          show ?thesis unfolding StCancelled finalization_state.case by (rule none [OF _ 2]) (intro runs_rules)
        qed (use unknown issue [OF 2] in auto)
      qed
    qed
  qed
qed

lemma tail_exclusive:
  assumes rows: "keeps_rows E" and E: "keeps_issued E" and lost: "lost_with_connection E"
    and a: "as_existingPaymentId a = None \<longrightarrow> as_orderId a = pi_orderId (or_request o1) \<and> as_asyncStatus a = Some ''sync''"
    and w: "untaken (rs_id (or_reservation o1)) w"
  shows "wp (confirm_tail E o1 a) (\<lambda>_. exclusive) (\<lambda>_. exclusive) w"
proof (cases "as_existingPaymentId a")
  case (Some pid)
  have "wp (confirm_tail E o1 a) (\<lambda>_ w1. commits w1 \<subseteq> {a} \<union> commits w) (\<lambda>_ w1. commits w1 \<subseteq> {a} \<union> commits w) w"
    by (rule issue_log.addsD [OF tail_issues [OF rows]])
  then show ?thesis
    by (rule wp_mono) (use w Some in \<open>auto simp: exclusive_def untaken_def new_issues_def\<close>)
next
  case None
  have quiet1: "exclusive w2" if "after (no_issue \<inter> no_cancel) w1 w2" "exclusive w1" for w1 w2
    using that after_sub [OF that(1), of no_issue] after_sub [OF that(1), of no_cancel]
    by (auto simp: exclusive_def new_issues_quiet cancel_log.unchanged)
  have after: "runs (no_issue \<inter> no_cancel) (bnd (if c = None then ret () else runPostCommitSideEffects E o1) (\<lambda>_. ret x))"
    for c :: "js_string option" and x :: js_string by (intro runs_rules) simp
  have failed: "runs (no_issue \<inter> no_cancel) (bnd (if is_http e then ret () else schedule_first E (as_reconcile a) t) (\<lambda>_. raise e))"
    for e t by (intro runs_rules) simp
  have i: "wp (issue_approved E o1 a) (\<lambda>_. exclusive) (\<lambda>_. exclusive) w"
    using issue_exclusive [OF rows E lost None _ _ w] a None by simp
  show ?thesis
    unfolding confirm_tail_def wp_bnd [of "handle p h" for p h] wp_handle
  proof (rule wp_mono [OF i], goal_cases)
    case (1 c w1)
    show ?case by (rule wp_runs [OF after]) (use quiet1 1 in blast)+
  next
    case (2 e w1)
    have "wp (bnd (if is_http e then ret () else schedule_first E (as_reconcile a) ''unexpected_post_approval_error'') (\<lambda>_. raise e))
        (\<lambda>_ :: js_string option. \<lambda>w2. False \<or> exclusive w2) (\<lambda>_. exclusive) w1"
      by (rule wp_runs [OF failed]) (use quiet1 2 in blast)+
    then show ?case by (simp add: wp_bnd wp_raise)
  qed
qed

lemma pending_exclusive:
  assumes rows: "keeps_rows E" and E: "keeps_issued E" and lost: "lost_with_connection E"
    and w: "untaken (rs_id (or_reservation o1)) w"
  shows "wp (confirm_pending E o1) (\<lambda>_. exclusive) (\<lambda>_. exclusive) w"
proof -
  have g: "gentle (obtain_approval E o1)" by (rule gentle_obtain [OF rows])
  have tail: "wp (bnd (obtain_approval E o1) (confirm_tail E o1)) (\<lambda>_. exclusive) (\<lambda>_. exclusive) w1"
    if u: "untaken (rs_id (or_reservation o1)) w1" for w1
  proof -
    from g have r: "runs no_issue (obtain_approval E o1)" and c: "wp (obtain_approval E o1) (\<lambda>_ w2. cancels w2 = cancels w1) (\<lambda>_ _. True) w1"
      unfolding gentle_def by blast+
    have a: "wp (obtain_approval E o1) (\<lambda>a _. as_existingPaymentId a = None \<longrightarrow>
        as_orderId a = pi_orderId (or_request o1) \<and> as_asyncStatus a = Some ''sync'') (\<lambda>_ _. True) w1"
      using obtained [of o1 E] unfolding returns_def by blast
    show ?thesis
      unfolding wp_bnd
    proof (rule wp_and_runs [OF r wp_both [OF c a]], goal_cases)
      case (1 x w2)
      then have "untaken (rs_id (or_reservation o1)) w2" using u after_orders by (auto simp: untaken_def new_issues_quiet)
      with 1 show ?case by (intro tail_exclusive [OF rows E lost]) blast+
    next
      case (2 e w2)
      then show ?case using u by (simp add: untaken_def exclusive_def new_issues_quiet)
    qed
  qed
  show ?thesis
    unfolding confirm_pending_def
    by (rule gentle_step [OF gentle_gates(1) [OF rows] w], rule gentle_step [OF gentle_gates(2) [OF rows]], assumption,
        rule gentle_step [OF gentle_gates(3) [OF rows]], assumption, rule gentle_step [OF gentle_gates(4) [OF rows]], assumption)
      (use tail in \<open>simp add: confirm_tail_def [abs_def]\<close>)
qed

text \<open>The order is not known to exist before it is read.\<close>

definition still :: "world \<Rightarrow> bool" where
  "still w \<longleftrightarrow> cancels w = {} \<and> new_issues w = {}"

lemma still_step:
  assumes "runs (no_issue \<inter> no_cancel) p" and "still w" and "\<And>x w1. still w1 \<Longrightarrow> wp (f x) (\<lambda>_. exclusive) (\<lambda>_. exclusive) w1"
  shows "wp (bnd p f) (\<lambda>_. exclusive) (\<lambda>_. exclusive) w"
proof -
  have "still w1" if "after (no_issue \<inter> no_cancel) w w1" for w1
    using assms(2) after_sub [OF that, of no_issue] after_sub [OF that, of no_cancel]
    by (auto simp: still_def new_issues_quiet cancel_log.unchanged)
  then show ?thesis
    unfolding wp_bnd by (intro wp_runs [OF assms(1)]) (auto intro: assms(3) simp: still_def exclusive_def)
qed

lemma order_exclusive:
  assumes rows: "keeps_rows E" and E: "keeps_issued E" and lost: "lost_with_connection E"
    and w: "untaken (rs_id r) w"
  shows "wp (confirm_order E dto userId existing r) (\<lambda>_. exclusive) (\<lambda>_. exclusive) w"
proof -
  have pending: "wp (confirm_pending E \<lparr>or_request = dto, or_userId = userId, or_reservation = r, or_existing = existing,
      or_seats = seats, or_charge = charge, or_amount = amount\<rparr>) (\<lambda>_. exclusive) (\<lambda>_. exclusive) w1"
    if "untaken (rs_id r) w1" for seats charge amount w1
    by (rule pending_exclusive [OF rows E lost]) (simp add: that)
  have confirmed: "wp (bnd (case existing of Some p \<Rightarrow> if c p then handle (backfillOverseasCardProviderMetadataIfMissing E p) (\<lambda>_. ret ()) else ret ()
      | None \<Rightarrow> ret ()) (\<lambda>_. ret x)) (\<lambda>_. exclusive) (\<lambda>_. exclusive) w1" if "untaken (rs_id r) w1" for c and x :: js_string and w1
    by (rule exclusive_no_issue) (use that in \<open>auto simp: untaken_def intro!: runs_rules rows\<close>)
  have gentle1: "gentle (reject_if c f)" "gentle (select E s)" "gentle (pure q)" for c f and s :: "order_db \<Rightarrow> 's" and q :: "failure + 'q"
    by (intro gentle_runs runs_rules rows)+
  show ?thesis
    unfolding confirm_order_def
  proof (rule gentle_step [OF gentle1(1) w], rule gentle_step [OF gentle1(1)], assumption, rule gentle_step [OF gentle1(2)], assumption,
      rule gentle_step [OF gentle1(3)], assumption, goal_cases)
    case (1 u w2 v w3 seats w4 x w1)
    obtain charge amount where x: "x = (charge, amount)" by fastforce
    show ?case
      unfolding x prod.case
      by (rule gentle_step [OF gentle1(1)], fact) (use pending confirmed in auto)
  qed
qed

text \<open>C3: Payment confirm never issues tickets and takes the money back. Whatever fails, as long as nobody
  refunds the order meanwhile, orders and payments are not deleted and a commit loses its acknowledgement only
  with the connection: a run that commits the issue of a newly approved payment sends no cancellation, neither
  before nor afterwards, even when the commit went unacknowledged and the order is read back or the
  issue tried again.\<close>
theorem issued_orders_are_not_refunded:
  assumes rows: "keeps_rows E" and E: "keeps_issued E" and lost: "lost_with_connection E"
    and run: "confirmAndCreateReservation E dto userId w = (r, w1)" and fresh: "fw_log w = []"
    and c: "Committed a pid \<in> set (fw_log w1)" and new: "as_existingPaymentId a = None"
  shows "CancelSent k \<notin> set (fw_log w1)"
proof -
  let ?X = "\<lambda>_. exclusive"
  have w: "still w" by (simp add: still_def cancels_def new_issues_def commits_def fresh)
  have locked: "wp (confirmAndCreateReservationLocked E dto userId) ?X ?X w1" if s: "still w1" for w1
    unfolding confirmAndCreateReservationLocked_def
  proof (rule still_step [OF _ s], goal_cases)
    case 1
    show ?case by (intro runs_rules rows)
  next
    case (2 existing w2)
    show ?case
    proof (cases "map_option py_status existing = Some []")
      case True
      with 2 show ?thesis by (simp add: wp_ret still_def exclusive_def)
    next
      case False
      show ?thesis
        unfolding if_not_P [OF False] wp_bnd
      proof (rule select_row [OF rows], goal_cases)
        case (1 w3)
        have s3: "still w3" using 2 log_views_same [OF after_nothing [OF 1]] by (simp add: still_def)
        show ?case
        proof (cases "List.find (\<lambda>r. rs_tossOrderId r = pi_orderId dto \<and> rs_userId r = userId) (fd_reservations (fw_db w3))")
          case None
          with s3 show ?thesis by (simp add: wp_raise still_def exclusive_def)
        next
          case (Some r)
          then have "untaken (rs_id r) w3" using s3 by (auto simp: untaken_def still_def order_ids_def dest: find_SomeD)
          then show ?thesis unfolding Some option.case by (rule order_exclusive [OF rows E lost])
        qed
      next
        case (2 e w3)
        then show ?case using \<open>still w2\<close> log_views_same [OF after_nothing] by (auto simp: still_def exclusive_def)
      qed
    qed
  qed
  have release: "runs (no_issue \<inter> no_cancel) (handle (reach (en_releaseLease E)) (\<lambda>_. ret ()))" by (intro runs_rules)
  have quiet1: "exclusive w3" if "after (no_issue \<inter> no_cancel) w2 w3" "exclusive w2" for w2 w3
    using that after_sub [OF that(1), of no_issue] after_sub [OF that(1), of no_cancel]
    by (auto simp: exclusive_def new_issues_quiet cancel_log.unchanged)
  have under: "wp (always p (handle (reach (en_releaseLease E)) (\<lambda>_. ret ()))) ?X ?X w2" if "wp p ?X ?X w2" for p :: "js_string confirm_prog" and w2
    unfolding wp_always using that by (rule wp_mono) (rule wp_runs [OF release]; use quiet1 in blast)+
  have "wp (confirmAndCreateReservation E dto userId) ?X ?X w"
    unfolding confirmAndCreateReservation_def
  proof (rule still_step [OF _ w], goal_cases)
    case 1
    show ?case by (intro runs_rules)
  next
    case (2 acquired w2)
    have body: "wp (bnd (reach (en_refreshLease E)) (\<lambda>owned.
      if \<not> owned then raise (Http 503 ConfirmInProgress)
      else bnd (reach (en_markAttempt E)) (\<lambda>_. confirmAndCreateReservationLocked E dto userId))) ?X ?X w2"
      by (rule still_step [OF runs_reach 2]) (auto simp: wp_raise still_def exclusive_def intro!: still_step runs_rules locked)
    then show ?case using under [OF body] 2 by (auto simp: wp_raise still_def exclusive_def)
  qed
  with run have "exclusive w1" by (auto simp: wp_def split: sum.splits)
  with c new show ?thesis by (auto simp: exclusive_def new_issues_def commits_def cancels_def)
qed

lemma issued_orders_are_not_refunded_witness:
  "Committed demo_approval ''id'' \<in> set (fw_log (snd (confirmAndCreateReservation (demo_env approved) demo_request ''u1'' demo_start))) \<and>
   CancelSent ''pay-1'' \<notin> set (fw_log (snd (confirmAndCreateReservation (demo_env approved) demo_request ''u1'' demo_start)))"
proof -
  let ?run = "confirmAndCreateReservation (demo_env approved) demo_request ''u1'' demo_start"
  have kept: "keeps_issued (demo_env approved)" and lost: "lost_with_connection (demo_env approved)"
    by (simp_all add: keeps_issued_def lost_with_connection_def demo_env_def)
  have c: "Committed demo_approval ''id'' \<in> set (fw_log (snd ?run))" by (simp add: demo_issue)
  have new: "as_existingPaymentId demo_approval = None"
    by (simp add: demo_approval_def toNewApprovedPaymentSnapshot_def demo_expectation Let_def)
  have fresh: "fw_log demo_start = []" by (simp add: demo_start_def)
  from issued_orders_are_not_refunded [OF demo_keeps_rows kept lost surjective_pairing fresh c new, of "''pay-1''"] c
  show ?thesis by blast
qed

end
