(* ===== verification/IssueTheorems.thy ===== *)
theory IssueTheorems
  imports ConfirmDemo ConfirmIssue ConfirmExclusive
begin

text \<open>
  What the issuance transaction of payment confirm leaves in the database when it commits: the whole order and
  nothing but the order, within the buyer's ticket limit, on seats that were free.
\<close>

lemma inserted_tickets:
  "insert_tickets rows ks = Inr rows1 \<Longrightarrow> rows1 = rows @ ks"
  by (induction rows ks rule: insert_tickets.induct) (auto split: if_splits)

lemma inserted_free:
  assumes "insert_tickets rows ks = Inr rows1" and "k \<in> set ks" and "j \<in> set rows"
  shows "\<not> seat_taken k j"
  using assms by (induction rows ks rule: insert_tickets.induct) (auto simp: list_ex_iff split: if_splits)

text \<open>A seat is sold when a row of the inventory says so.\<close>

definition sold_in :: "js_string \<Rightarrow> order_seat \<Rightarrow> inventory_row list \<Rightarrow> bool" where
  "sold_in st s rows \<longleftrightarrow> list_ex (\<lambda>iv. same_inventory_seat st s iv \<and> iv_status iv = ''sold'') rows"

lemma sold_stays: "sell_seats st ss rows = Inr rows1 \<Longrightarrow> sold_in st s rows \<Longrightarrow> sold_in st s rows1"
proof (induction st ss rows rule: sell_seats.induct)
  case (2 st t ss rows)
  have "sold_in st s (map (\<lambda>iv. if same_inventory_seat st t iv \<and> iv_status iv = ''available'' then iv\<lparr>iv_status := ''sold''\<rparr> else iv) rows)"
    using 2(4) by (auto simp: sold_in_def list_ex_iff same_inventory_seat_def)
  moreover have "sold_in st s (rows @ [iv])" for iv using 2(4) by (auto simp: sold_in_def list_ex_iff)
  ultimately show ?case using 2 by (auto simp: Let_def split: if_splits)
qed simp

lemma sold_all: "sell_seats st ss rows = Inr rows1 \<Longrightarrow> s \<in> set ss \<Longrightarrow> sold_in st s rows1"
proof (induction st ss rows rule: sell_seats.induct)
  case (2 st t ss rows)
  let ?free = "\<lambda>iv. same_inventory_seat st t iv \<and> iv_status iv = ''available''"
  let ?rows = "if list_ex ?free rows then map (\<lambda>iv. if ?free iv then iv\<lparr>iv_status := ''sold''\<rparr> else iv) rows
    else rows @ [\<lparr>iv_showtimeId = st, iv_floorKey = order_floor_key t, iv_seatKey = Some (order_seat_key t), iv_seatId = in_seatId t, iv_status = ''sold''\<rparr>]"
  have rest: "sell_seats st ss ?rows = Inr rows1" using 2(3) by (auto simp: Let_def split: if_splits)
  have "list_ex ?free rs \<Longrightarrow> sold_in st t (map (\<lambda>iv. if ?free iv then iv\<lparr>iv_status := ''sold''\<rparr> else iv) rs)" for rs
    by (induction rs) (auto simp: sold_in_def same_inventory_seat_def)
  then have "sold_in st t ?rows" by (simp add: sold_in_def same_inventory_seat_def)
  from sold_stays [OF rest this] have "sold_in st t rows1" .
  with 2 rest show ?case by (auto simp: Let_def split: if_splits)
qed simp

text \<open>A seat is for sale when a row offers it, or when no row lists it under its key.\<close>

definition for_sale :: "js_string \<Rightarrow> order_seat \<Rightarrow> inventory_row list \<Rightarrow> bool" where
  "for_sale st s rows \<longleftrightarrow> list_ex (\<lambda>iv. same_inventory_seat st s iv \<and> iv_status iv = ''available'') rows \<or>
     \<not> list_ex (\<lambda>iv. iv_showtimeId iv = st \<and> iv_floorKey iv = order_floor_key s \<and> iv_seatKey iv = Some (order_seat_key s)) rows"

lemma sold_was_for_sale: "sell_seats st ss rows = Inr rows1 \<Longrightarrow> s \<in> set ss \<Longrightarrow> for_sale st s rows"
proof (induction st ss rows rule: sell_seats.induct)
  case (2 st t ss rows)
  let ?free = "\<lambda>iv. same_inventory_seat st t iv \<and> iv_status iv = ''available''"
  let ?sold = "map (\<lambda>iv. if ?free iv then iv\<lparr>iv_status := ''sold''\<rparr> else iv) rows"
  have kept: "for_sale st s ?sold \<Longrightarrow> for_sale st s rows"
    by (auto simp: for_sale_def list_ex_iff same_inventory_seat_def split: if_splits)
  have added: "for_sale st s (rows @ [iv]) \<Longrightarrow> iv_status iv = ''sold'' \<Longrightarrow> for_sale st s rows" for iv
    by (auto simp: for_sale_def list_ex_iff)
  have this_one: "for_sale st t rows" using 2(3) by (auto simp: for_sale_def Let_def split: if_splits)
  show ?case
  proof (cases "list_ex ?free rows")
    case True
    with 2(3) have "sell_seats st ss ?sold = Inr rows1" by (simp add: Let_def)
    with 2(1) [OF refl True] 2(4) kept this_one show ?thesis by auto
  next
    case False
    with 2 this_one added show ?thesis by (auto simp: Let_def split: if_splits)
  qed
qed simp

text \<open>C4: An issue is complete and sells nothing twice. When the issuance transaction commits, exactly the
  ordered seats got tickets of this order and payment, each of them is sold in the inventory, was for sale
  before and had no valid ticket of anybody; the buyer's tickets for the performance, over all accounts of
  the same person, stay within the limit; the order is confirmed, and the payment of a new approval is on
  record as paid with the order's amount.\<close>
theorem issue_is_complete:
  assumes c: "commitFinalization E o1 a n db = Inr (pid, db2)" and rid: "rs_id (or_reservation o1) \<in> order_ids db"
  shows "fd_tickets db2 = fd_tickets db @ map (ticket_row_of (rs_id (or_reservation o1)) pid (rs_showtimeId (or_reservation o1))) (or_seats o1) \<and>
    (\<forall>s \<in> set (or_seats o1). sold_in (rs_showtimeId (or_reservation o1)) s (fd_inventory db2) \<and>
       for_sale (rs_showtimeId (or_reservation o1)) s (fd_inventory db) \<and>
       (\<forall>j \<in> set (fd_tickets db). \<not> seat_taken (ticket_row_of (rs_id (or_reservation o1)) pid (rs_showtimeId (or_reservation o1)) s) j)) \<and>
    (\<exists>l. getTicketLimitSnapshot E (or_userId o1) (rs_id (or_reservation o1)) (rs_showtimeId (or_reservation o1)) db = Inr l \<and>
       ls_activeTicketCount l + int (length (or_seats o1)) \<le> ls_maxTicketsPerUser l) \<and>
    map_option rs_status (find_reservation db2 (rs_id (or_reservation o1))) = Some ''CONFIRMED'' \<and>
    (as_existingPaymentId a = None \<longrightarrow>
       (\<exists>p \<in> set (fd_payments db2). py_id p = pid \<and> py_reservationId p = rs_id (or_reservation o1) \<and> py_paymentKey p = as_paymentKey a \<and>
          py_status p = ''DONE'' \<and> py_amount p = as_totalAmount a))"
proof -
  let ?rid = "rs_id (or_reservation o1)" and ?st = "rs_showtimeId (or_reservation o1)"
  let ?db = "update_reservations (\<lambda>q. rs_id q = ?rid) ''CONFIRMED'' db"
  from c obtain db1 tickets inventory where
    p: "commit_payment (en_newId E n) ?rid a ?db = Inr (pid, db1)"
    and t: "insert_tickets (fd_tickets db1) (map (ticket_row_of ?rid pid ?st) (or_seats o1)) = Inr tickets"
    and i: "sell_seats ?st (or_seats o1) (fd_inventory db1) = Inr inventory"
    and d: "db2 = db1\<lparr>fd_tickets := tickets, fd_inventory := inventory\<rparr>"
    by (rule commitFinalization_parts)
  have same: "fd_tickets db1 = fd_tickets db" "fd_inventory db1 = fd_inventory db" "fd_reservations db1 = fd_reservations ?db"
    using p by (auto simp: commit_payment_def update_payments_def insert_payment_def update_reservations_def
        split: option.splits if_splits)
  have limit: "\<exists>l. getTicketLimitSnapshot E (or_userId o1) ?rid ?st db = Inr l \<and> ls_activeTicketCount l + int (length (or_seats o1)) \<le> ls_maxTicketsPerUser l"
    using c by (auto simp: commitFinalization_def Let_def over_limit_def split: sum.splits if_splits)
  have status: "map_option rs_status (find_reservation db2 ?rid) = Some ''CONFIRMED''"
    using confirmed_status [OF rid] by (simp add: find_reservation_def d same)
  have pay: "\<exists>q \<in> set (fd_payments db2). py_id q = pid \<and> py_reservationId q = ?rid \<and> py_paymentKey q = as_paymentKey a \<and>
      py_status q = ''DONE'' \<and> py_amount q = as_totalAmount a" if "as_existingPaymentId a = None"
    using p that by (auto simp: d commit_payment_def insert_payment_def new_payment_row_def split: if_splits)
  have free: "\<not> seat_taken (ticket_row_of ?rid pid ?st s) j" if "s \<in> set (or_seats o1)" "j \<in> set (fd_tickets db)" for s j
    by (rule inserted_free [OF t]) (use that same in auto)
  have seats: "sold_in ?st s (fd_inventory db2) \<and> for_sale ?st s (fd_inventory db)" if "s \<in> set (or_seats o1)" for s
    using sold_all [OF i that] sold_was_for_sale [OF i that] by (simp add: d same)
  from inserted_tickets [OF t] have "fd_tickets db2 = fd_tickets db @ map (ticket_row_of ?rid pid ?st) (or_seats o1)" by (simp add: d same)
  with limit status pay free seats show ?thesis by blast
qed

lemma issue_is_complete_witness:
  "\<exists>db2. commitFinalization (demo_env approved) demo_pending demo_approval 0 demo_rows = Inr (''id'', db2) \<and>
     map ki_seatKey (fd_tickets db2) = [''1F:A-1''] \<and> sold_in ''st1'' demo_seat (fd_inventory db2)"
proof -
  have "map_sum (\<lambda>_. ()) fst (commitFinalization (demo_env approved) demo_pending demo_approval 0 demo_rows) = Inr ''id''"
    by code_simp
  then obtain db2 where c: "commitFinalization (demo_env approved) demo_pending demo_approval 0 demo_rows = Inr (''id'', db2)"
    by (cases "commitFinalization (demo_env approved) demo_pending demo_approval 0 demo_rows") auto
  have r: "rs_id (or_reservation demo_pending) \<in> order_ids demo_rows" by (simp add: demo_pending_def demo_rows_def order_ids_def)
  have "rs_showtimeId (or_reservation demo_pending) = ''st1''" "fd_tickets demo_rows = []" by (simp_all add: demo_pending_def demo_rows_def)
  with issue_is_complete [OF c r] c show ?thesis
    by (simp add: demo_order ticket_row_of_def order_seat_key_def demo_seat_def)
qed



end
