(* ===== verification/CancelWorld.thy ===== *)
theory CancelWorld
  imports Effects DbErrors CancelPolicy RefundFee SeatIdentity
begin

text \<open>
  The rows and requests that the finalization of a cancellation works on
  (\<open>apps/api/src/modules/cancellation/payment-cancellation-finalizer.service.ts\<close>): orders, payments, refunds, ticket
  items, QR credentials, the seat inventory, benefit entitlements, the audit log and the release jobs. A
  statement is a program over this world; a transaction that fails leaves it as it was.
\<close>

section \<open>What the provider answered\<close>

text \<open>JSON of a provider response. It comes out of a parser, so it holds no \<open>Date\<close>.\<close>

datatype json = JNull | JBool bool | JNum int | JText js_string | JArr "json list" | JObj "(js_string \<times> json) list"

definition REDACTED_PROVIDER_METADATA_VALUE :: js_string where
  "REDACTED_PROVIDER_METADATA_VALUE = ''[REDACTED]''"

text \<open>The alternatives of \<open>SENSITIVE_PROVIDER_METADATA_KEY\<close>, each optional separator written out.\<close>

definition SENSITIVE_FRAGMENTS :: "js_string list" where
  "SENSITIVE_FRAGMENTS = [''secret'', ''password'', ''authorization'', ''credential''] @
     concat (map (\<lambda>(a, b). [a @ b, a @ ''-'' @ b, a @ ''_'' @ b])
       [(''access'', ''token''), (''refresh'', ''token''), (''id'', ''token''), (''api'', ''key'')])"

definition sensitive_key :: "js_string \<Rightarrow> bool" where
  "sensitive_key k = list_ex (\<lambda>f. js_includes f (js_lower k)) SENSITIVE_FRAGMENTS"

fun sanitizeProviderMetadata :: "json \<Rightarrow> json" where
  "sanitizeProviderMetadata (JArr xs) = JArr (map sanitizeProviderMetadata xs)"
| "sanitizeProviderMetadata (JObj fs) =
     JObj (map (\<lambda>(k, v). (k, if sensitive_key k then JText REDACTED_PROVIDER_METADATA_VALUE else sanitizeProviderMetadata v)) fs)"
| "sanitizeProviderMetadata v = v"

record provider_cancel = toss_cancel +
  pv_transactionKey :: "js_string option"

text \<open>Amounts are in hundredths; the untyped rest of the answer is kept as JSON.\<close>

record cancel_response =
  pr_status :: "js_string option"
  pr_balanceAmount :: "int option"
  pr_totalAmount :: "int option"
  pr_currency :: "js_string option"
  pr_cancels :: "provider_cancel list option"
  pr_json :: json

section \<open>Rows\<close>

record order_record =
  ord_id :: js_string
  ord_status :: js_string
  ord_cancelledAt :: "int option"
  ord_cancelReason :: "js_string option"

datatype cancel_source = RefundRequest | RefundRetry | CancelWebhook | TicketItemSource

datatype reconciliation_status = Unverified | Attributed js_string | Unattributed

record reconciliation =
  rl_status :: reconciliation_status
  rl_faceValueAmount :: int
  rl_providerCancelAmount :: "int option"
  rl_earlierRecordedAmount :: "int option"
  rl_recordedAt :: int

record captured_payment =
  pmt_id :: js_string
  pmt_status :: js_string
  pmt_cancelledAt :: "int option"
  pmt_cancelReason :: "js_string option"
  pmt_refundCompletedAt :: "int option"
  pmt_cancellationSource :: "cancel_source option"
  pmt_cancellationQuote :: "reservation_quote option"
  pmt_providerCancellation :: "json option"
  pmt_reconciliation :: "reconciliation option"

record refund_row =
  rfd_id :: js_string
  rfd_reservationId :: js_string
  rfd_paymentId :: js_string
  rfd_status :: js_string
  rfd_sentToPgAt :: "int option"
  rfd_completedAt :: "int option"
  rfd_resultCode :: "js_string option"
  rfd_resultMessage :: "js_string option"
  rfd_failureReason :: "js_string option"
  rfd_expectedDepositAt :: "int option"
  rfd_customerServiceCtaVisible :: bool
  rfd_localOnly :: bool

record item_command =
  icm_reason :: js_string
  icm_currency :: cancel_currency
  icm_amountMinor :: int
  icm_cancelRequestId :: "js_string option"
  icm_completedAt :: "int option"
  icm_transactionKey :: "js_string option"

record issued_item =
  itm_id :: js_string
  itm_reservationId :: js_string
  itm_paymentId :: js_string
  itm_showtimeId :: js_string
  itm_seatId :: js_string
  itm_floorKey :: js_string
  itm_seatKey :: js_string
  itm_price :: int
  itm_serviceFee :: int
  itm_status :: js_string
  itm_cancelledAt :: "int option"
  itm_cancelReason :: "js_string option"
  itm_cancellationFee :: int
  itm_serviceFeeRefund :: int
  itm_refundableAmount :: int
  itm_command :: "item_command option"
  itm_reopenState :: js_string
  itm_reopenHoldUntil :: "int option"
  itm_reopenJobId :: "js_string option"

record credential_row =
  crd_reservationId :: js_string
  crd_paymentId :: js_string
  crd_showtimeId :: js_string
  crd_ticketItemId :: "js_string option"
  crd_status :: js_string
  crd_revokedAt :: "int option"

record seat_row =
  sea_showtimeId :: js_string
  sea_floorKey :: js_string
  sea_seatKey :: js_string
  sea_status :: js_string
  sea_lockedBy :: "js_string option"
  sea_lockedUntil :: "int option"
  sea_soldAt :: "int option"
  sea_heldCancelledAt :: "int option"
  sea_reopenHoldUntil :: "int option"
  sea_reopenJobId :: "js_string option"

record entitlement_row =
  ent_ticketItemId :: js_string
  ent_state :: js_string
  ent_inactiveReason :: "js_string option"

record audit_row =
  aud_operatorUserId :: js_string
  aud_seatKey :: js_string
  aud_reservationId :: js_string
  aud_createdAt :: int

record release_job =
  rj_id :: js_string
  rj_reservationId :: js_string
  rj_showtimeId :: js_string
  rj_releaseAt :: int
  rj_seats :: "seat_identity list"

record cancel_world =
  cw_orders :: "order_record list"
  cw_payments :: "captured_payment list"
  cw_refunds :: "refund_row list"
  cw_items :: "issued_item list"
  cw_credentials :: "credential_row list"
  cw_seats :: "seat_row list"
  cw_entitlements :: "entitlement_row list"
  cw_audit :: "audit_row list"
  cw_jobs :: "release_job list"

section \<open>Statements\<close>

datatype cancel_failure =
    NoCompletionEvidence | RefundNotFound | RefundCount | OrderNotFound | OrderCount | PaymentNotFound | PaymentCount
  | ItemCount | CredentialCount | InventoryState

type_synonym 'a cancel_prog = "(cancel_world, cancel_failure, 'a) prog"

text \<open>\<open>UPDATE \<dots> SET f WHERE P RETURNING\<close>: the rows as they are afterwards.\<close>

definition change_rows :: "('r \<Rightarrow> bool) \<Rightarrow> ('r \<Rightarrow> 'r) \<Rightarrow> 'r list \<Rightarrow> 'r list" where
  "change_rows P f rows = map (\<lambda>r. if P r then f r else r) rows"

definition changed_rows :: "('r \<Rightarrow> bool) \<Rightarrow> ('r \<Rightarrow> 'r) \<Rightarrow> 'r list \<Rightarrow> 'r list" where
  "changed_rows P f rows = map f (filter P rows)"

definition update_items :: "(issued_item \<Rightarrow> bool) \<Rightarrow> (issued_item \<Rightarrow> issued_item) \<Rightarrow> issued_item list cancel_prog" where
  "update_items P f w = (Inr (changed_rows P f (cw_items w)), w\<lparr>cw_items := change_rows P f (cw_items w)\<rparr>)"

text \<open>Conditions on a seat may look at the ticket items, as \<open>noActiveTicketItemOnSeat\<close> does.\<close>

definition update_seats :: "(issued_item list \<Rightarrow> seat_row \<Rightarrow> bool) \<Rightarrow> (seat_row \<Rightarrow> seat_row) \<Rightarrow> seat_row list cancel_prog" where
  "update_seats P f w =
     (Inr (changed_rows (P (cw_items w)) f (cw_seats w)), w\<lparr>cw_seats := change_rows (P (cw_items w)) f (cw_seats w)\<rparr>)"

definition update_orders :: "(order_record \<Rightarrow> bool) \<Rightarrow> (order_record \<Rightarrow> order_record) \<Rightarrow> order_record list cancel_prog" where
  "update_orders P f w = (Inr (changed_rows P f (cw_orders w)), w\<lparr>cw_orders := change_rows P f (cw_orders w)\<rparr>)"

definition update_captured :: "(captured_payment \<Rightarrow> bool) \<Rightarrow> (captured_payment \<Rightarrow> captured_payment) \<Rightarrow> captured_payment list cancel_prog" where
  "update_captured P f w = (Inr (changed_rows P f (cw_payments w)), w\<lparr>cw_payments := change_rows P f (cw_payments w)\<rparr>)"

definition update_refunds :: "(refund_row \<Rightarrow> bool) \<Rightarrow> (refund_row \<Rightarrow> refund_row) \<Rightarrow> refund_row list cancel_prog" where
  "update_refunds P f w = (Inr (changed_rows P f (cw_refunds w)), w\<lparr>cw_refunds := change_rows P f (cw_refunds w)\<rparr>)"

definition update_credentials :: "(credential_row \<Rightarrow> bool) \<Rightarrow> (credential_row \<Rightarrow> credential_row) \<Rightarrow> unit cancel_prog" where
  "update_credentials P f = alter (\<lambda>w. w\<lparr>cw_credentials := change_rows P f (cw_credentials w)\<rparr>)"

text \<open>A loop whose turns return a value.\<close>

fun for_each :: "('a \<Rightarrow> 'b cancel_prog) \<Rightarrow> 'a list \<Rightarrow> 'b list cancel_prog" where
  "for_each p [] = ret []"
| "for_each p (x # xs) = bnd (p x) (\<lambda>y. bnd (for_each p xs) (\<lambda>ys. ret (y # ys)))"

definition cancel_transaction :: "'a cancel_prog \<Rightarrow> 'a cancel_prog" where
  "cancel_transaction p w = (case p w of (Inl e, w1) \<Rightarrow> (Inl e, w) | (Inr x, w1) \<Rightarrow> (Inr x, w1))"

section \<open>Seat ownership\<close>

definition is_active_item :: "issued_item \<Rightarrow> bool" where
  "is_active_item k \<longleftrightarrow> itm_status k = ''active'' \<or> itm_status k = ''cancellation_pending''"

definition item_on_seat :: "js_string \<Rightarrow> js_string \<Rightarrow> js_string \<Rightarrow> issued_item \<Rightarrow> bool" where
  "item_on_seat st fl sk k \<longleftrightarrow> itm_showtimeId k = st \<and> itm_floorKey k = fl \<and> itm_seatKey k = sk"

definition noActiveTicketItemOnSeat :: "issued_item list \<Rightarrow> seat_row \<Rightarrow> bool" where
  "noActiveTicketItemOnSeat items s \<longleftrightarrow>
     \<not> list_ex (\<lambda>k. item_on_seat (sea_showtimeId s) (sea_floorKey s) (sea_seatKey s) k \<and> is_active_item k) items"

definition is_seat :: "js_string \<Rightarrow> seat_identity \<Rightarrow> seat_row \<Rightarrow> bool" where
  "is_seat st i s \<longleftrightarrow> sea_showtimeId s = st \<and> sea_floorKey s = floorKey i \<and> sea_seatKey s = seatKey i"

section \<open>Requests\<close>

record item_cancellation =
  icx_ticketItemId :: js_string
  icx_cancellationFee :: int
  icx_serviceFeeRefund :: int
  icx_refundableAmount :: int
  icx_command :: "item_command option"

record finalize_input =
  fi_reservationId :: js_string
  fi_showtimeId :: js_string
  fi_paymentId :: js_string
  fi_holdMinMinutes :: "int option"
  fi_holdMaxMinutes :: "int option"
  fi_seats :: "seat_input list"
  fi_refundId :: "js_string option"
  fi_item :: "item_cancellation option"
  fi_quote :: "reservation_quote option"
  fi_reason :: js_string
  fi_response :: "cancel_response option"
  fi_adminId :: "js_string option"
  fi_source :: cancel_source
  fi_localOnly :: bool

definition JOB_ENQUEUE_FAILED :: js_string where
  "JOB_ENQUEUE_FAILED = ''JOB_ENQUEUE_FAILED''"

definition DEFAULT_CANCELLED_SEAT_HOLD_MINUTES :: int where
  "DEFAULT_CANCELLED_SEAT_HOLD_MINUTES = 1"

definition DEFAULT_CANCELLED_SEAT_HOLD_MAX_MINUTES :: int where
  "DEFAULT_CANCELLED_SEAT_HOLD_MAX_MINUTES = 10"

definition resolveHoldWindowMinutes :: "finalize_input \<Rightarrow> int \<times> int" where
  "resolveHoldWindowMinutes i =
     (or_else (fi_holdMinMinutes i) DEFAULT_CANCELLED_SEAT_HOLD_MINUTES,
      or_else (fi_holdMaxMinutes i) DEFAULT_CANCELLED_SEAT_HOLD_MAX_MINUTES)"

text \<open>\<open>Math.random()\<close> is \<open>k / 2 ^ 53\<close> for a \<open>k\<close> below \<open>2 ^ 53\<close>.\<close>

definition pickCancelledSeatReleaseDelaySeconds :: "int \<Rightarrow> int \<Rightarrow> int \<Rightarrow> int" where
  "pickCancelledSeatReleaseDelaySeconds minMinutes maxMinutes k =
     (let minSeconds = max 60 (minMinutes * 60); maxSeconds = max minSeconds (maxMinutes * 60)
      in k * (maxSeconds - minSeconds + 1) div 2 ^ 53 + minSeconds)"

definition resolveLocalPaymentStatus :: "cancel_response option \<Rightarrow> js_string" where
  "resolveLocalPaymentStatus r =
     (case r of None \<Rightarrow> ''CANCELED''
      | Some r \<Rightarrow>
          if pr_status r = Some ''CANCELED'' \<or> pr_balanceAmount r = Some 0 then ''CANCELED''
          else if pr_status r = Some ''PARTIAL_CANCELED'' \<and> (case pr_balanceAmount r of None \<Rightarrow> False | Some b \<Rightarrow> b > 0)
            then ''PARTIAL_CANCELED''
          else ''CANCELED'')"

fun result_message :: "cancel_source \<Rightarrow> js_string" where
  "result_message RefundRequest = ''PG cancel completed''"
| "result_message RefundRetry = ''PG cancel completed after retry''"
| "result_message CancelWebhook = ''PG cancel completed from webhook''"
| "result_message TicketItemSource = ''PG cancel completed for ticket item''"

definition normalizeReservationSeatIdentity :: "seat_input \<Rightarrow> seat_identity" where
  "normalizeReservationSeatIdentity s = normalizeSeatIdentity s no_defaults"

text \<open>The first seat of every key.\<close>

fun unique_from :: "js_string list \<Rightarrow> seat_identity list \<Rightarrow> seat_identity list" where
  "unique_from seen [] = []"
| "unique_from seen (i # is) =
     (if seatKey i \<in> set seen then unique_from seen is else i # unique_from (seatKey i # seen) is)"

definition uniqueSeatIdentities :: "seat_input list \<Rightarrow> seat_identity list" where
  "uniqueSeatIdentities seats = unique_from [] (map normalizeReservationSeatIdentity seats)"

definition item_seat_input :: "issued_item \<Rightarrow> seat_input" where
  "item_seat_input k = \<lparr>in_seatId = itm_seatId k, in_floorKey = Some (itm_floorKey k), in_floorLabel = None, in_seatKey = Some (itm_seatKey k)\<rparr>"

end
