(* ===== verification/Finalizer.thy ===== *)
theory Finalizer
  imports CancelWorld
begin

text \<open>
  Finalizing a cancellation (\<open>finalizeFullPaymentCancellation\<close> of
  \<open>payment-cancellation-finalizer.service.ts\<close>): one transaction that closes the refund, the order, the payment and
  the ticket items, revokes their credentials and puts their seats on hold, then the release job of the held
  seats; and the two workers that free held seats (\<open>cancelled-seat-release.worker.ts\<close>,
  \<open>held-cancelled-seat-recovery.worker.ts\<close>).
\<close>

section \<open>The order, the refund and the payment\<close>

definition already_finalized :: "finalize_input \<Rightarrow> cancel_world \<Rightarrow> bool" where
  "already_finalized i w \<longleftrightarrow> fi_source i = CancelWebhook \<and>
     (map_option ord_status (List.find (\<lambda>o1. ord_id o1 = fi_reservationId i) (cw_orders w)) = Some ''CANCELLED'' \<or>
      (case fi_item i of None \<Rightarrow> False
       | Some t \<Rightarrow> map_option itm_status (List.find (\<lambda>k. itm_id k = icx_ticketItemId t) (cw_items w)) = Some ''cancelled''))"

definition preserves_remaining :: "finalize_input \<Rightarrow> cancel_world \<Rightarrow> bool" where
  "preserves_remaining i w =
     (case fi_item i of None \<Rightarrow> False
      | Some t \<Rightarrow> list_ex (\<lambda>k. itm_reservationId k = fi_reservationId i \<and> itm_id k \<noteq> icx_ticketItemId t \<and> is_active_item k) (cw_items w))"

definition answers_command :: "item_command \<Rightarrow> provider_cancel \<Rightarrow> bool" where
  "answers_command c v \<longleftrightarrow> tc_cancelStatus v = Some ''DONE'' \<and> tc_cancelReason v = Some (icm_reason c)
     \<and> (case tc_cancelAmount v of None \<Rightarrow> False | Some a \<Rightarrow> to_minor (icm_currency c) a = icm_amountMinor c)
     \<and> (icm_cancelRequestId c \<in> {None, Some []} \<or> tc_cancelRequestId v = icm_cancelRequestId c)"

definition complete_command :: "finalize_input \<Rightarrow> int \<Rightarrow> unit cancel_prog" where
  "complete_command i now =
     (case fi_item i of
        None \<Rightarrow> ret ()
      | Some t \<Rightarrow>
          (case icx_command t of
             None \<Rightarrow> ret ()
           | Some c \<Rightarrow>
               (case List.find (answers_command c) (or_else (Option.bind (fi_response i) pr_cancels) []) of
                  None \<Rightarrow> raise NoCompletionEvidence
                | Some v \<Rightarrow>
                    bnd (update_items (\<lambda>k. itm_id k = icx_ticketItemId t \<and> itm_paymentId k = fi_paymentId i)
                      (\<lambda>k. k\<lparr>itm_command := map_option (\<lambda>m. m\<lparr>icm_completedAt := Some (or_else (tc_canceledAt v) now),
                           icm_transactionKey := nullish (pv_transactionKey v) (icm_transactionKey m)\<rparr>) (itm_command k)\<rparr>))
                      (\<lambda>_. ret ()))))"

definition provider_status :: "finalize_input \<Rightarrow> js_string" where
  "provider_status i = or_else (Option.bind (fi_response i) pr_status) ''CANCELED''"

definition close_refund :: "finalize_input \<Rightarrow> int \<Rightarrow> unit cancel_prog" where
  "close_refund i now =
     (case fi_refundId i of
        None \<Rightarrow> ret ()
      | Some [] \<Rightarrow> ret ()
      | Some rid \<Rightarrow>
          bnd (update_refunds
                 (\<lambda>r. rfd_id r = rid \<and> rfd_reservationId r = fi_reservationId i \<and> rfd_paymentId r = fi_paymentId i)
                 (\<lambda>r. r\<lparr>rfd_status := ''completed'', rfd_sentToPgAt := nullish (rfd_sentToPgAt r) (Some now),
                       rfd_completedAt := Some now,
                       rfd_resultCode := Some (if fi_localOnly i then ''NO_PROVIDER_REFUND'' else provider_status i),
                       rfd_resultMessage := Some (if fi_localOnly i
                         then ''Cancelled locally without a provider refund because nothing is refundable''
                         else result_message (fi_source i)),
                       rfd_failureReason := None, rfd_expectedDepositAt := None, rfd_customerServiceCtaVisible := False,
                       rfd_localOnly := (rfd_localOnly r \<or> fi_localOnly i)\<rparr>)) (\<lambda>updated.
          bnd (reject_if (updated = []) RefundNotFound) (\<lambda>_.
               reject_if (length updated \<noteq> 1) RefundCount)))"

definition close_order :: "finalize_input \<Rightarrow> int \<Rightarrow> unit cancel_prog" where
  "close_order i now =
     bnd (update_orders (\<lambda>o1. ord_id o1 = fi_reservationId i)
            (\<lambda>o1. o1\<lparr>ord_status := ''CANCELLED'', ord_cancelledAt := Some now, ord_cancelReason := Some (fi_reason i)\<rparr>)) (\<lambda>orders.
     bnd (reject_if (orders = []) OrderNotFound) (\<lambda>_.
     bnd (reject_if (length orders \<noteq> 1) OrderCount) (\<lambda>_.
       if fi_localOnly i then ret ()
       else
         bnd (update_captured (\<lambda>p. pmt_id p = fi_paymentId i)
                (\<lambda>p. p\<lparr>pmt_status := resolveLocalPaymentStatus (fi_response i), pmt_cancelledAt := Some now,
                      pmt_cancelReason := Some (fi_reason i), pmt_refundCompletedAt := Some now,
                      pmt_cancellationSource := Some (fi_source i),
                      pmt_cancellationQuote := nullish (fi_quote i) (pmt_cancellationQuote p),
                      pmt_providerCancellation :=
                        nullish (map_option (\<lambda>r. sanitizeProviderMetadata (pr_json r)) (fi_response i)) (pmt_providerCancellation p)\<rparr>)) (\<lambda>payments.
         bnd (reject_if (payments = []) PaymentNotFound) (\<lambda>_.
              reject_if (length payments \<noteq> 1) PaymentCount)))))"

section \<open>The ticket items\<close>

definition of_order :: "finalize_input \<Rightarrow> issued_item \<Rightarrow> bool" where
  "of_order i k \<longleftrightarrow> itm_reservationId k = fi_reservationId i \<and> itm_paymentId k = fi_paymentId i \<and> itm_showtimeId k = fi_showtimeId i"

definition cancel_item :: "finalize_input \<Rightarrow> int \<Rightarrow> int \<Rightarrow> int \<Rightarrow> int \<Rightarrow> issued_item \<Rightarrow> issued_item" where
  "cancel_item i now fee serviceRefund refundable k =
     k\<lparr>itm_status := ''cancelled'', itm_cancelledAt := Some now, itm_cancelReason := Some (fi_reason i),
       itm_cancellationFee := fee, itm_serviceFeeRefund := serviceRefund, itm_refundableAmount := refundable,
       itm_reopenState := ''not_required'', itm_reopenHoldUntil := None, itm_reopenJobId := None\<rparr>"

definition cancellable :: "issued_item \<Rightarrow> bool" where
  "cancellable k \<longleftrightarrow> is_active_item k \<or> itm_status k = ''cancelled''"

text \<open>Each branch returns the cancelled items' ids and the seats to hold. The seats of a quote are normalised
  when they are collected and again when duplicates are removed.\<close>

definition identity_input :: "seat_identity \<Rightarrow> seat_input" where
  "identity_input s = \<lparr>in_seatId = seatId s, in_floorKey = Some (floorKey s), in_floorLabel = None, in_seatKey = Some (seatKey s)\<rparr>"

definition cancel_quoted_item :: "finalize_input \<Rightarrow> int \<Rightarrow> item_quote \<Rightarrow> issued_item cancel_prog" where
  "cancel_quoted_item i now q =
     bnd (update_items (\<lambda>k. of_order i k \<and> itm_id k = iq_ticketItemId q \<and> cancellable k)
            (cancel_item i now (cancellationFee (iq_quote q)) (serviceFeeRefund (iq_quote q)) (refundableAmount (iq_quote q)))) (\<lambda>updated.
       case updated of [k] \<Rightarrow> ret k | _ \<Rightarrow> raise ItemCount)"

definition cancel_quoted ::
  "finalize_input \<Rightarrow> int \<Rightarrow> reservation_quote \<Rightarrow> seat_identity list \<Rightarrow> (js_string list \<times> seat_identity list) cancel_prog" where
  "cancel_quoted i now q seats =
     bnd (for_each (cancel_quoted_item i now) (rq_items q)) (\<lambda>ks.
       let seated = filter (\<lambda>k. itm_seatId k \<noteq> []) ks
       in ret (map itm_id ks, if seated = [] then seats
           else uniqueSeatIdentities (map (\<lambda>k. identity_input (normalizeReservationSeatIdentity (item_seat_input k))) seated)))"

definition cancel_one ::
  "finalize_input \<Rightarrow> int \<Rightarrow> item_cancellation \<Rightarrow> seat_identity list \<Rightarrow> (js_string list \<times> seat_identity list) cancel_prog" where
  "cancel_one i now t seats =
     bnd (update_items (\<lambda>k. of_order i k \<and> itm_id k = icx_ticketItemId t \<and> cancellable k)
            (cancel_item i now (icx_cancellationFee t) (icx_serviceFeeRefund t) (icx_refundableAmount t))) (\<lambda>updated.
       if length updated < length seats then raise ItemCount else ret (map itm_id updated, seats))"

text \<open>
  What a cancellation without a quote gave back: the difference to the face value is recorded on the single
  cancelled item, or on the payment for reconciliation. The answer's amounts are in hundredths of a won.
\<close>

definition reconcile_amounts ::
  "cancel_response option \<Rightarrow> issued_item list \<Rightarrow> issued_item list \<Rightarrow> int \<Rightarrow> reconciliation option" where
  "reconcile_amounts response newly earlier now =
     (let face = sum_list (map (\<lambda>k. itm_price k + itm_serviceFee k) newly);
          unverified = Some \<lparr>rl_status = Unverified, rl_faceValueAmount = face, rl_providerCancelAmount = None,
            rl_earlierRecordedAmount = None, rl_recordedAt = now\<rparr>
      in case response of
           None \<Rightarrow> unverified
         | Some r \<Rightarrow>
             (case (pr_totalAmount r, pr_balanceAmount r) of
                (Some totalAmount, Some balance) \<Rightarrow>
                  if pr_currency r \<noteq> Some ''KRW'' then unverified
                  else
                    let earlierRecorded = sum_list (map itm_refundableAmount earlier);
                        amount = (totalAmount - balance) - 100 * earlierRecorded
                    in if amount = 100 * face then None
                       else Some \<lparr>rl_status =
                           (case newly of
                              [k] \<Rightarrow> if amount mod 100 = 0 \<and> isSafeInteger (amount div 100) \<and> amount > 0 then Attributed (itm_id k) else Unattributed
                            | _ \<Rightarrow> Unattributed),
                         rl_faceValueAmount = face, rl_providerCancelAmount = Some amount,
                         rl_earlierRecordedAmount = Some earlierRecorded, rl_recordedAt = now\<rparr>
              | _ \<Rightarrow> unverified))"

definition attribute_amount :: "int \<Rightarrow> issued_item \<Rightarrow> issued_item" where
  "attribute_amount amount k =
     k\<lparr>itm_cancellationFee := max 0 (itm_price k - amount),
       itm_serviceFeeRefund := min (itm_serviceFee k) (max 0 (amount - itm_price k)),
       itm_refundableAmount := amount\<rparr>"

definition attributeQuotelessProviderRefund ::
  "finalize_input \<Rightarrow> int \<Rightarrow> issued_item list \<Rightarrow> issued_item list \<Rightarrow> unit cancel_prog" where
  "attributeQuotelessProviderRefund i now newly earlier =
     (if newly = [] \<or> fi_localOnly i then ret ()
      else case reconcile_amounts (fi_response i) newly earlier now of
        None \<Rightarrow> ret ()
      | Some rl \<Rightarrow>
          bnd (case rl_status rl of
                 Attributed iid \<Rightarrow>
                   bnd (update_items (\<lambda>k. itm_id k = iid) (attribute_amount (or_else (rl_providerCancelAmount rl) 0 div 100))) (\<lambda>_. ret ())
               | _ \<Rightarrow> ret ()) (\<lambda>_.
          bnd (update_captured (\<lambda>p. pmt_id p = fi_paymentId i) (\<lambda>p. p\<lparr>pmt_reconciliation := Some rl\<rparr>)) (\<lambda>_. ret ())))"

definition cancel_quoteless ::
  "finalize_input \<Rightarrow> int \<Rightarrow> seat_identity list \<Rightarrow> (js_string list \<times> seat_identity list) cancel_prog" where
  "cancel_quoteless i now seats =
     (let seatKeys = map seatKey seats in
      bnd (update_items (\<lambda>k. of_order i k \<and> itm_seatKey k \<in> set seatKeys \<and> is_active_item k)
             (\<lambda>k. cancel_item i now 0 (itm_serviceFee k) (itm_price k + itm_serviceFee k) k)) (\<lambda>updated.
      bnd (inspect (\<lambda>w. filter (\<lambda>k. of_order i k \<and> itm_status k = ''cancelled'') (cw_items w))) (\<lambda>cancelled.
      bnd (reject_if (\<not> list_all (\<lambda>sk. sk \<in> itm_seatKey ` set updated \<or> sk \<in> itm_seatKey ` set cancelled) seatKeys) ItemCount) (\<lambda>_.
      bnd (attributeQuotelessProviderRefund i now updated
             (filter (\<lambda>k. itm_id k \<notin> itm_id ` set updated) cancelled)) (\<lambda>_.
        ret (map itm_id updated, uniqueSeatIdentities (map item_seat_input updated)))))))"

definition cancel_items :: "finalize_input \<Rightarrow> int \<Rightarrow> seat_identity list \<Rightarrow> (js_string list \<times> seat_identity list) cancel_prog" where
  "cancel_items i now seats =
     (case fi_quote i of
        Some q \<Rightarrow> cancel_quoted i now q seats
      | None \<Rightarrow> (case fi_item i of Some t \<Rightarrow> cancel_one i now t seats | None \<Rightarrow> cancel_quoteless i now seats))"

section \<open>Benefits and credentials\<close>

definition inactivateBenefitEntitlementsForTicketItems :: "js_string list \<Rightarrow> unit cancel_prog" where
  "inactivateBenefitEntitlementsForTicketItems ids =
     (if ids = [] then ret ()
      else alter (\<lambda>w. w\<lparr>cw_entitlements :=
        change_rows (\<lambda>e. ent_ticketItemId e \<in> set ids \<and> ent_state e \<noteq> ''redeemed'')
          (\<lambda>e. e\<lparr>ent_state := ''inactive'', ent_inactiveReason := Some ''ticket_item_cancelled''\<rparr>) (cw_entitlements w)\<rparr>))"

definition credential_scope :: "finalize_input \<Rightarrow> js_string list \<Rightarrow> credential_row \<Rightarrow> bool" where
  "credential_scope i ids c \<longleftrightarrow>
     (case crd_ticketItemId c of Some t \<Rightarrow> t \<in> set ids | None \<Rightarrow> fi_item i = None)"

definition revoke_credentials :: "finalize_input \<Rightarrow> int \<Rightarrow> js_string list \<Rightarrow> unit cancel_prog" where
  "revoke_credentials i now ids =
     bnd (update_credentials
            (\<lambda>c. crd_reservationId c = fi_reservationId i \<and> crd_paymentId c = fi_paymentId i \<and> crd_showtimeId c = fi_showtimeId i
               \<and> credential_scope i ids c
               \<and> crd_status c \<in> (if fi_item i = None then {''active'', ''revoked'', ''used''} else {''active'', ''revoked''}))
            (\<lambda>c. c\<lparr>crd_status := ''revoked'', crd_revokedAt := Some now\<rparr>)) (\<lambda>_.
     bnd (inspect (\<lambda>w. list_ex (\<lambda>c. crd_reservationId c = fi_reservationId i \<and> credential_scope i ids c
            \<and> crd_status c \<in> {''active'', ''used''}) (cw_credentials w))) (\<lambda>remaining.
       reject_if remaining CredentialCount))"

section \<open>Holding the seats\<close>

definition record_ticket_hold :: "finalize_input \<Rightarrow> seat_identity \<Rightarrow> int \<Rightarrow> js_string option \<Rightarrow> unit cancel_prog" where
  "record_ticket_hold i s holdUntil jobId =
     bnd (update_items (\<lambda>k. itm_reservationId k = fi_reservationId i \<and> itm_seatKey k = seatKey s \<and> itm_status k = ''cancelled'')
            (\<lambda>k. k\<lparr>itm_reopenState := ''held_cancelled'', itm_reopenHoldUntil := Some holdUntil, itm_reopenJobId := jobId\<rparr>))
       (\<lambda>_. ret ())"

definition keeps_job :: "seat_row \<Rightarrow> bool" where
  "keeps_job s \<longleftrightarrow> sea_reopenJobId s \<noteq> None \<and> sea_reopenJobId s \<noteq> Some JOB_ENQUEUE_FAILED"

text \<open>The seat's release state, or nothing when another valid ticket owns the seat.\<close>

definition hold_seat :: "finalize_input \<Rightarrow> int \<Rightarrow> int \<Rightarrow> js_string \<Rightarrow> seat_identity \<Rightarrow> (seat_identity \<times> js_string) option cancel_prog" where
  "hold_seat i now releaseAt jobId s =
     bnd (update_seats (\<lambda>items r. is_seat (fi_showtimeId i) s r \<and> sea_status r = ''sold'' \<and> noActiveTicketItemOnSeat items r)
            (\<lambda>r. r\<lparr>sea_status := ''held_cancelled'', sea_lockedBy := None, sea_lockedUntil := None, sea_soldAt := None,
                  sea_heldCancelledAt := Some now, sea_reopenHoldUntil := Some releaseAt, sea_reopenJobId := Some jobId\<rparr>)) (\<lambda>sold.
       case sold of
         [r] \<Rightarrow> bnd (record_ticket_hold i s releaseAt (Some jobId)) (\<lambda>_. ret (Some (s, jobId)))
       | _ # _ # _ \<Rightarrow> raise InventoryState
       | [] \<Rightarrow>
           bnd (update_seats (\<lambda>items r. is_seat (fi_showtimeId i) s r \<and> sea_status r = ''held_cancelled'' \<and> noActiveTicketItemOnSeat items r)
                  (\<lambda>r. r\<lparr>sea_status := ''held_cancelled'', sea_lockedBy := None, sea_lockedUntil := None, sea_soldAt := None,
                        sea_heldCancelledAt := nullish (sea_heldCancelledAt r) (Some now),
                        sea_reopenHoldUntil := (if keeps_job r then sea_reopenHoldUntil r else Some releaseAt),
                        sea_reopenJobId := (if keeps_job r then sea_reopenJobId r else Some jobId)\<rparr>)) (\<lambda>held.
             case held of
               [r] \<Rightarrow>
                 bnd (record_ticket_hold i s (or_else (sea_reopenHoldUntil r) releaseAt) (Some (or_else (sea_reopenJobId r) jobId)))
                   (\<lambda>_. ret (Some (s, or_else (sea_reopenJobId r) jobId)))
             | _ \<Rightarrow>
                 bnd (inspect (\<lambda>w. list_ex (\<lambda>k. item_on_seat (fi_showtimeId i) (floorKey s) (seatKey s) k \<and> is_active_item k) (cw_items w)))
                   (\<lambda>owned. if owned then ret None else raise InventoryState)))"

definition record_audit :: "finalize_input \<Rightarrow> int \<Rightarrow> seat_identity list \<Rightarrow> unit cancel_prog" where
  "record_audit i now seats =
     (case fi_adminId i of
        None \<Rightarrow> ret ()
      | Some op \<Rightarrow> alter (\<lambda>w. w\<lparr>cw_audit := cw_audit w @ map (\<lambda>s. \<lparr>aud_operatorUserId = op, aud_seatKey = seatKey s,
          aud_reservationId = fi_reservationId i, aud_createdAt = now\<rparr>) seats\<rparr>))"

section \<open>The transaction\<close>

definition cancel_order_tickets :: "finalize_input \<Rightarrow> int \<Rightarrow> seat_identity list cancel_prog" where
  "cancel_order_tickets i now =
     (let seats = uniqueSeatIdentities (fi_seats i) in
      if seats = [] then ret []
      else bnd (cancel_items i now seats) (\<lambda>(ids, held).
           bnd (inactivateBenefitEntitlementsForTicketItems ids) (\<lambda>_.
           bnd (revoke_credentials i now ids) (\<lambda>_. ret held))))"

text \<open>\<open>None\<close> when the cancellation was applied before; otherwise the seats and their release states.\<close>

definition finalize_steps ::
  "finalize_input \<Rightarrow> int \<Rightarrow> int \<Rightarrow> js_string \<Rightarrow> (seat_identity list \<times> (seat_identity \<times> js_string) list) option cancel_prog" where
  "finalize_steps i now releaseAt jobId =
     bnd (inspect (already_finalized i)) (\<lambda>done.
       if done then ret None
       else
         bnd (inspect (preserves_remaining i)) (\<lambda>preserves.
         bnd (complete_command i now) (\<lambda>_.
         bnd (close_refund i now) (\<lambda>_.
         bnd (if preserves then ret () else close_order i now) (\<lambda>_.
         bnd (cancel_order_tickets i now) (\<lambda>seats.
         bnd (for_each (hold_seat i now releaseAt jobId) seats) (\<lambda>states.
         bnd (record_audit i now seats) (\<lambda>_.
           ret (Some (seats, List.map_filter id states))))))))))"

section \<open>The release job\<close>

record finalize_result =
  fz_releaseJobId :: js_string
  fz_releaseEnqueued :: bool
  fz_alreadyFinalized :: bool

definition finalize_result_of :: "js_string \<Rightarrow> bool \<Rightarrow> finalize_result" where
  "finalize_result_of jobId enqueued = \<lparr>fz_releaseJobId = jobId, fz_releaseEnqueued = enqueued, fz_alreadyFinalized = False\<rparr>"

text \<open>\<open>sent\<close>: the queue is available and accepted the job under the id that was given to it.\<close>

definition scheduleCancelledSeatRelease ::
  "bool \<Rightarrow> finalize_input \<Rightarrow> seat_identity list \<Rightarrow> int \<Rightarrow> js_string \<Rightarrow> bool cancel_prog" where
  "scheduleCancelledSeatRelease sent i seats releaseAt jobId =
     (if \<not> sent then ret False
      else bnd (alter (\<lambda>w. w\<lparr>cw_jobs := cw_jobs w @ [\<lparr>rj_id = jobId, rj_reservationId = fi_reservationId i,
                 rj_showtimeId = fi_showtimeId i, rj_releaseAt = releaseAt, rj_seats = seats\<rparr>]\<rparr>)) (\<lambda>_. ret True))"

text \<open>\<open>recordable\<close>: the transaction of the marker commits; a failure of it is only logged.\<close>

definition markReleaseJobEnqueueFailed :: "bool \<Rightarrow> finalize_input \<Rightarrow> seat_identity list \<Rightarrow> js_string \<Rightarrow> unit cancel_prog" where
  "markReleaseJobEnqueueFailed recordable i seats jobId =
     (if seats = [] \<or> \<not> recordable then ret ()
      else
        bnd (update_seats (\<lambda>_ r. sea_showtimeId r = fi_showtimeId i \<and> sea_status r = ''held_cancelled'' \<and> sea_reopenJobId r = Some jobId
               \<and> list_ex (\<lambda>s. sea_floorKey r = floorKey s \<and> sea_seatKey r = seatKey s) seats)
             (\<lambda>r. r\<lparr>sea_reopenJobId := Some JOB_ENQUEUE_FAILED\<rparr>)) (\<lambda>_.
        bnd (update_items (\<lambda>k. itm_reservationId k = fi_reservationId i \<and> itm_seatKey k \<in> seatKey ` set seats
               \<and> itm_status k = ''cancelled'' \<and> itm_reopenState k = ''held_cancelled'' \<and> itm_reopenJobId k = Some jobId)
             (\<lambda>k. k\<lparr>itm_reopenJobId := Some JOB_ENQUEUE_FAILED\<rparr>)) (\<lambda>_. ret ())))"

definition finalizeFullPaymentCancellation ::
  "finalize_input \<Rightarrow> int \<Rightarrow> int \<Rightarrow> js_string \<Rightarrow> bool \<Rightarrow> bool \<Rightarrow> finalize_result cancel_prog" where
  "finalizeFullPaymentCancellation i now rng jobId sent recordable =
     (let (minMinutes, maxMinutes) = resolveHoldWindowMinutes i;
          releaseAt = now + pickCancelledSeatReleaseDelaySeconds minMinutes maxMinutes rng * 1000
      in bnd (cancel_transaction (finalize_steps i now releaseAt jobId)) (\<lambda>outcome.
           case outcome of
             None \<Rightarrow> ret \<lparr>fz_releaseJobId = JOB_ENQUEUE_FAILED, fz_releaseEnqueued = False, fz_alreadyFinalized = True\<rparr>
           | Some (seats, states) \<Rightarrow>
               let needing = map fst (filter (\<lambda>x. snd x = jobId) states);
                   existing = List.find (\<lambda>j. j \<noteq> [] \<and> j \<noteq> JOB_ENQUEUE_FAILED \<and> j \<noteq> jobId) (map snd states)
               in if seats \<noteq> [] \<and> needing = [] then ret (finalize_result_of (or_else existing JOB_ENQUEUE_FAILED) (existing \<noteq> None))
                  else
                    let targets = (if needing = [] then seats else needing) in
                    bnd (scheduleCancelledSeatRelease sent i targets releaseAt jobId) (\<lambda>enqueued.
                      if enqueued then ret (finalize_result_of jobId True)
                      else bnd (markReleaseJobEnqueueFailed recordable i targets jobId)
                             (\<lambda>_. ret (finalize_result_of JOB_ENQUEUE_FAILED False)))))"

section \<open>Freeing held seats\<close>

definition SHOWTIME_IMMINENT_REOPEN_REASON :: js_string where
  "SHOWTIME_IMMINENT_REOPEN_REASON = ''SHOWTIME_IMMINENT''"

definition shouldKeepHeldCancelledSeat :: "int \<Rightarrow> int \<Rightarrow> bool" where
  "shouldKeepHeldCancelledSeat showtimeAt releaseAt \<longleftrightarrow> releaseAt \<ge> showtimeAt - 5 * 60 * 1000"

definition free_seat :: "seat_row \<Rightarrow> seat_row" where
  "free_seat r = r\<lparr>sea_status := ''available'', sea_lockedBy := None, sea_lockedUntil := None, sea_soldAt := None,
     sea_heldCancelledAt := None, sea_reopenHoldUntil := None, sea_reopenJobId := None\<rparr>"

definition reopen_item :: "issued_item \<Rightarrow> issued_item" where
  "reopen_item k = k\<lparr>itm_reopenState := ''available'', itm_reopenHoldUntil := None, itm_reopenJobId := None\<rparr>"

definition markShowtimeImminentHold :: "release_job \<Rightarrow> js_string \<Rightarrow> unit cancel_prog" where
  "markShowtimeImminentHold job jobId =
     bnd (for_each (\<lambda>s. update_seats (\<lambda>_ r. is_seat (rj_showtimeId job) s r \<and> sea_status r = ''held_cancelled'' \<and> sea_reopenJobId r = Some jobId)
            (\<lambda>r. r\<lparr>sea_status := ''held_cancelled'', sea_reopenHoldUntil := Some (rj_releaseAt job),
                  sea_reopenJobId := Some SHOWTIME_IMMINENT_REOPEN_REASON\<rparr>)) (rj_seats job)) (\<lambda>_. ret ())"

definition release_seat :: "js_string \<Rightarrow> js_string \<Rightarrow> seat_identity \<Rightarrow> bool cancel_prog" where
  "release_seat showtimeId jobId s =
     bnd (update_seats (\<lambda>items r. is_seat showtimeId s r \<and> sea_status r = ''held_cancelled'' \<and> sea_reopenJobId r = Some jobId
            \<and> noActiveTicketItemOnSeat items r) free_seat) (\<lambda>released.
       if released = [] then ret False
       else bnd (update_items (\<lambda>k. itm_showtimeId k = showtimeId \<and> itm_seatKey k = seatKey s \<and> itm_status k = ''cancelled''
                   \<and> itm_reopenState k = ''held_cancelled'' \<and> itm_reopenJobId k = Some jobId) reopen_item) (\<lambda>_. ret True))"

definition releaseHeldSeats :: "js_string \<Rightarrow> seat_identity list \<Rightarrow> js_string \<Rightarrow> seat_identity list cancel_prog" where
  "releaseHeldSeats showtimeId seats jobId =
     bnd (for_each (\<lambda>s. bnd (release_seat showtimeId jobId s) (\<lambda>released. ret (if released then [s] else []))) seats)
       (\<lambda>xs. ret (concat xs))"

datatype release_status = Released "seat_identity list" | SkippedImminent | MissingShowtime | MissingJob

definition handleReleaseJob :: "(js_string \<Rightarrow> int option) \<Rightarrow> release_job \<Rightarrow> js_string option \<Rightarrow> release_status cancel_prog" where
  "handleReleaseJob showtimes job releaseJobId =
     (case releaseJobId of
        None \<Rightarrow> ret MissingJob
      | Some [] \<Rightarrow> ret MissingJob
      | Some jobId \<Rightarrow>
          (case showtimes (rj_showtimeId job) of
             None \<Rightarrow> ret MissingShowtime
           | Some showtimeAt \<Rightarrow>
               if shouldKeepHeldCancelledSeat showtimeAt (rj_releaseAt job)
               then bnd (markShowtimeImminentHold job jobId) (\<lambda>_. ret SkippedImminent)
               else bnd (releaseHeldSeats (rj_showtimeId job) (rj_seats job) jobId) (\<lambda>released. ret (Released released))))"

definition HELD_SEAT_RECOVERY_GRACE_MS :: int where "HELD_SEAT_RECOVERY_GRACE_MS = 15 * 60 * 1000"
definition HELD_SEAT_RECOVERY_SHOWTIME_GUARD_MS :: int where "HELD_SEAT_RECOVERY_SHOWTIME_GUARD_MS = 5 * 60 * 1000"
definition HELD_SEAT_RECOVERY_BATCH_SIZE :: nat where "HELD_SEAT_RECOVERY_BATCH_SIZE = 200"

definition stranded :: "(js_string \<Rightarrow> int option) \<Rightarrow> int \<Rightarrow> issued_item list \<Rightarrow> seat_row \<Rightarrow> bool" where
  "stranded showtimes now items r \<longleftrightarrow> sea_status r = ''held_cancelled''
     \<and> (case sea_reopenHoldUntil r of None \<Rightarrow> False | Some t \<Rightarrow> t < now - HELD_SEAT_RECOVERY_GRACE_MS)
     \<and> sea_reopenJobId r \<noteq> Some SHOWTIME_IMMINENT_REOPEN_REASON
     \<and> (case showtimes (sea_showtimeId r) of None \<Rightarrow> False | Some t \<Rightarrow> t > now + HELD_SEAT_RECOVERY_SHOWTIME_GUARD_MS)
     \<and> noActiveTicketItemOnSeat items r"

text \<open>\<open>locked\<close>: rows that another transaction has locked are skipped. The unique index makes (showtime, floor, seat
  key) the row's identity.\<close>

definition sweep_candidates ::
  "(js_string \<Rightarrow> int option) \<Rightarrow> int \<Rightarrow> (seat_row \<Rightarrow> bool) \<Rightarrow> issued_item list \<Rightarrow> seat_row list \<Rightarrow> seat_row list" where
  "sweep_candidates showtimes now locked items rows =
     take HELD_SEAT_RECOVERY_BATCH_SIZE
       (sort_key (\<lambda>r. or_else (sea_reopenHoldUntil r) 0) (filter (\<lambda>r. stranded showtimes now items r \<and> \<not> locked r) rows))"

definition releaseExpiredHeldSeats ::
  "(js_string \<Rightarrow> int option) \<Rightarrow> int \<Rightarrow> (seat_row \<Rightarrow> bool) \<Rightarrow> (js_string \<times> js_string) list cancel_prog" where
  "releaseExpiredHeldSeats showtimes now locked w =
     (let released = sweep_candidates showtimes now locked (cw_items w) (cw_seats w);
          freed = (\<lambda>r. r \<in> set released)
      in (Inr (map (\<lambda>r. (sea_showtimeId r, sea_seatKey r)) released),
          w\<lparr>cw_seats := change_rows freed free_seat (cw_seats w),
            cw_items := change_rows (\<lambda>k. list_ex (\<lambda>r. itm_showtimeId k = sea_showtimeId r \<and> itm_seatKey k = sea_seatKey r) released
              \<and> itm_status k = ''cancelled'' \<and> itm_reopenState k = ''held_cancelled'') reopen_item (cw_items w)\<rparr>))"

end
