(* ===== verification/CancelTheorems.thy ===== *)
theory CancelTheorems
  imports Finalizer
begin

text \<open>
  What the finalization of cancellations guarantees: a seat with a valid ticket is never freed, a finished
  cancellation leaves no usable ticket and no forgotten seat, it is applied once, and a seat whose release job
  was lost is freed by the recovery sweep.
\<close>

section \<open>No seat is freed under a ticket\<close>

definition seats_free :: "cancel_world \<Rightarrow> bool" where
  "seats_free w \<longleftrightarrow> (\<forall>r \<in> set (cw_seats w). sea_status r \<in> {''available'', ''held_cancelled''} \<longrightarrow> noActiveTicketItemOnSeat (cw_items w) r)"

definition keeps_free :: "'a cancel_prog \<Rightarrow> bool" where
  "keeps_free p \<longleftrightarrow> (\<forall>w. seats_free w \<longrightarrow> wp p (\<lambda>_. seats_free) (\<lambda>_. seats_free) w)"

named_theorems free_rules "programs that free no seat under a ticket"

lemma keeps_freeD: "keeps_free p \<Longrightarrow> seats_free w \<Longrightarrow> wp p (\<lambda>_. seats_free) (\<lambda>_. seats_free) w"
  by (simp add: keeps_free_def)

lemma free_bnd [free_rules]:
  assumes "keeps_free p" and "\<And>x. keeps_free (f x)"
  shows "keeps_free (bnd p f)"
  unfolding keeps_free_def wp_bnd
proof (intro allI impI)
  fix w
  assume "seats_free w"
  from keeps_freeD [OF assms(1) this] show "wp p (\<lambda>x. wp (f x) (\<lambda>_. seats_free) (\<lambda>_. seats_free)) (\<lambda>_. seats_free) w"
    by (rule wp_mono) (simp_all add: keeps_freeD [OF assms(2)])
qed

lemma free_basic [free_rules]: "keeps_free (ret x)" "keeps_free (raise e)" "keeps_free (inspect g)" "keeps_free (reject_if c e)"
  by (simp_all add: keeps_free_def wp_eqs)

lemma free_cases [free_rules]:
  "(c \<Longrightarrow> keeps_free p) \<Longrightarrow> (\<not> c \<Longrightarrow> keeps_free q) \<Longrightarrow> keeps_free (if c then p else q)"
  "keeps_free p \<Longrightarrow> (\<And>x. o1 = Some x \<Longrightarrow> keeps_free (g x)) \<Longrightarrow> keeps_free (case o1 of None \<Rightarrow> p | Some x \<Rightarrow> g x)"
  "keeps_free p \<Longrightarrow> (\<And>x xs. keeps_free (k x xs)) \<Longrightarrow> keeps_free (case l of [] \<Rightarrow> p | x # xs \<Rightarrow> k x xs)"
  "(\<And>a b. keeps_free (h a b)) \<Longrightarrow> keeps_free (case y of (a, b) \<Rightarrow> h a b)"
  by (auto split: option.split list.split prod.split)

lemma free_for_each [free_rules]: "(\<And>x. keeps_free (p x)) \<Longrightarrow> keeps_free (for_each p xs)"
  by (induction xs) (auto intro: free_rules)

lemma free_transaction [free_rules]: "keeps_free p \<Longrightarrow> keeps_free (cancel_transaction p)"
  unfolding keeps_free_def cancel_transaction_def wp_def by (auto split: prod.splits sum.splits)

text \<open>A change of items that activates none and moves none.\<close>

definition retires :: "(issued_item \<Rightarrow> issued_item) \<Rightarrow> bool" where
  "retires f \<longleftrightarrow> (\<forall>k. (is_active_item (f k) \<longrightarrow> is_active_item k) \<and> itm_showtimeId (f k) = itm_showtimeId k \<and>
     itm_floorKey (f k) = itm_floorKey k \<and> itm_seatKey (f k) = itm_seatKey k)"

lemma retired_seat:
  "retires f \<Longrightarrow> noActiveTicketItemOnSeat items r \<Longrightarrow> noActiveTicketItemOnSeat (change_rows P f items) r"
  by (auto simp: noActiveTicketItemOnSeat_def list_ex_iff change_rows_def item_on_seat_def retires_def)

lemma free_items [free_rules]: "retires f \<Longrightarrow> keeps_free (update_items P f)"
  unfolding keeps_free_def by (auto simp: wp_def update_items_def seats_free_def intro: retired_seat)

lemma free_seats [free_rules]:
  assumes "\<And>items r. P items r \<Longrightarrow> sea_status (f r) \<in> {''available'', ''held_cancelled''} \<Longrightarrow>
      noActiveTicketItemOnSeat items r \<or> sea_status r \<in> {''available'', ''held_cancelled''}"
    and "\<And>r. sea_showtimeId (f r) = sea_showtimeId r \<and> sea_floorKey (f r) = sea_floorKey r \<and> sea_seatKey (f r) = sea_seatKey r"
  shows "keeps_free (update_seats P f)"
proof -
  have same: "noActiveTicketItemOnSeat items (f r) = noActiveTicketItemOnSeat items r" for items r
    using assms(2) [of r] by (simp add: noActiveTicketItemOnSeat_def)
  have keep: "noActiveTicketItemOnSeat (cw_items w) (if P (cw_items w) r then f r else r)"
    if w: "seats_free w" and r: "r \<in> set (cw_seats w)"
      and s: "sea_status (if P (cw_items w) r then f r else r) \<in> {''available'', ''held_cancelled''}" for w r
  proof (cases "P (cw_items w) r")
    case True
    with s assms(1) [OF True] have "noActiveTicketItemOnSeat (cw_items w) r \<or> sea_status r \<in> {''available'', ''held_cancelled''}" by simp
    with w r True show ?thesis by (auto simp: seats_free_def same)
  next
    case False
    with w r s show ?thesis by (auto simp: seats_free_def)
  qed
  have "seats_free (w\<lparr>cw_seats := change_rows (P (cw_items w)) f (cw_seats w)\<rparr>)" if "seats_free w" for w
    unfolding seats_free_def
  proof (intro ballI impI)
    fix q
    assume q: "q \<in> set (cw_seats (w\<lparr>cw_seats := change_rows (P (cw_items w)) f (cw_seats w)\<rparr>))"
      and s: "sea_status q \<in> {''available'', ''held_cancelled''}"
    then obtain r where r: "r \<in> set (cw_seats w)" "q = (if P (cw_items w) r then f r else r)"
      by (auto simp: change_rows_def)
    from keep [OF that r(1)] s r(2) show "noActiveTicketItemOnSeat (cw_items (w\<lparr>cw_seats := change_rows (P (cw_items w)) f (cw_seats w)\<rparr>)) q"
      by simp
  qed
  then show ?thesis by (simp add: keeps_free_def wp_def update_seats_def)
qed

text \<open>Statements on other tables.\<close>

lemma free_other [free_rules]: "(\<And>w. cw_items (g w) = cw_items w \<and> cw_seats (g w) = cw_seats w) \<Longrightarrow> keeps_free (alter g)"
  unfolding keeps_free_def by (simp add: wp_eqs seats_free_def)

lemma free_tables [free_rules]:
  "keeps_free (update_orders P1 f1)" "keeps_free (update_captured P2 f2)" "keeps_free (update_refunds P3 f3)"
  "keeps_free (update_credentials P4 f4)"
  unfolding keeps_free_def update_orders_def update_captured_def update_refunds_def update_credentials_def
  by (auto simp: wp_def alter_def seats_free_def)

section \<open>The operations\<close>

lemma cancel_item_retires: "retires (cancel_item i now a b c)" "retires (\<lambda>k. cancel_item i now (x k) (y k) (z k) k)"
  by (simp_all add: retires_def cancel_item_def is_active_item_def)

lemma free_cancel_items [free_rules]: "keeps_free (cancel_items i now seats)"
proof -
  have quoted: "keeps_free (cancel_quoted_item i now q)" for q
    unfolding cancel_quoted_item_def by (intro free_rules cancel_item_retires)
  have attribute: "keeps_free (attributeQuotelessProviderRefund i now ns es)" for ns es
    unfolding attributeQuotelessProviderRefund_def
    by (auto split: reconciliation_status.split option.split intro!: free_rules simp: retires_def attribute_amount_def is_active_item_def)
  show ?thesis
    unfolding cancel_items_def cancel_quoted_def cancel_one_def cancel_quoteless_def Let_def
    by (intro free_rules quoted attribute cancel_item_retires)
qed

lemma free_hold [free_rules]: "keeps_free (hold_seat i now releaseAt jobId s)"
proof -
  have item: "keeps_free (record_ticket_hold i t u j)" for t u j
    unfolding record_ticket_hold_def by (intro free_rules) (simp add: retires_def is_active_item_def)
  show ?thesis unfolding hold_seat_def by (intro free_rules item) simp_all
qed

lemma free_finalize_steps [free_rules]: "keeps_free (finalize_steps i now releaseAt jobId)"
  unfolding finalize_steps_def cancel_order_tickets_def complete_command_def close_refund_def close_order_def Let_def
    inactivateBenefitEntitlementsForTicketItems_def revoke_credentials_def record_audit_def
  by (intro free_rules) (simp_all add: retires_def is_active_item_def)

lemma free_finalize: "keeps_free (finalizeFullPaymentCancellation i now rng jobId sent recordable)"
proof -
  have mark: "keeps_free (markReleaseJobEnqueueFailed recordable i seats jobId)" for seats
    unfolding markReleaseJobEnqueueFailed_def by (intro free_rules) (auto simp: retires_def is_active_item_def)
  have send: "keeps_free (scheduleCancelledSeatRelease sent i seats t jobId)" for seats t
    unfolding scheduleCancelledSeatRelease_def by (intro free_rules) simp
  show ?thesis
    unfolding finalizeFullPaymentCancellation_def Let_def
    by (intro free_rules mark send)
qed

lemma free_release_job: "keeps_free (handleReleaseJob showtimes job releaseJobId)"
proof -
  have release: "keeps_free (release_seat st jobId s)" for st jobId s
    unfolding release_seat_def by (intro free_rules) (auto simp: retires_def reopen_item_def is_active_item_def free_seat_def)
  have mark: "keeps_free (markShowtimeImminentHold job jobId)" for jobId
    unfolding markShowtimeImminentHold_def by (intro free_rules) auto
  show ?thesis
    unfolding handleReleaseJob_def releaseHeldSeats_def by (intro free_rules release mark)
qed

lemma sweep_as_statements:
  "releaseExpiredHeldSeats showtimes now locked w =
    bnd (update_seats (\<lambda>items r. r \<in> set (sweep_candidates showtimes now locked items (cw_seats w))) free_seat) (\<lambda>_.
    bnd (update_items (\<lambda>k. list_ex (\<lambda>r. itm_showtimeId k = sea_showtimeId r \<and> itm_seatKey k = sea_seatKey r)
        (sweep_candidates showtimes now locked (cw_items w) (cw_seats w)) \<and> itm_status k = ''cancelled'' \<and> itm_reopenState k = ''held_cancelled'') reopen_item) (\<lambda>_.
      ret (map (\<lambda>r. (sea_showtimeId r, sea_seatKey r)) (sweep_candidates showtimes now locked (cw_items w) (cw_seats w))))) w"
  by (simp add: releaseExpiredHeldSeats_def Let_def bnd_def update_seats_def update_items_def ret_def)

lemma candidate_stranded:
  "r \<in> set (sweep_candidates showtimes now locked items rows) \<Longrightarrow> r \<in> set rows \<and> stranded showtimes now items r \<and> \<not> locked r"
  unfolding sweep_candidates_def by (drule in_set_takeD) simp

lemma free_sweep: "keeps_free (releaseExpiredHeldSeats showtimes now locked)"
proof -
  have "wp (releaseExpiredHeldSeats showtimes now locked) (\<lambda>_. seats_free) (\<lambda>_. seats_free) w" if w: "seats_free w" for w
  proof -
    let ?p = "bnd (update_seats (\<lambda>items r. r \<in> set (sweep_candidates showtimes now locked items (cw_seats w))) free_seat) (\<lambda>_.
      bnd (update_items (\<lambda>k. list_ex (\<lambda>r. itm_showtimeId k = sea_showtimeId r \<and> itm_seatKey k = sea_seatKey r)
        (sweep_candidates showtimes now locked (cw_items w) (cw_seats w)) \<and> itm_status k = ''cancelled'' \<and> itm_reopenState k = ''held_cancelled'') reopen_item) (\<lambda>_.
      ret (map (\<lambda>r. (sea_showtimeId r, sea_seatKey r)) (sweep_candidates showtimes now locked (cw_items w) (cw_seats w)))))"
    have "keeps_free ?p"
      by (intro free_rules) (auto dest: candidate_stranded simp: stranded_def free_seat_def retires_def reopen_item_def is_active_item_def)
    from keeps_freeD [OF this w] show ?thesis by (simp add: wp_def sweep_as_statements)
  qed
  then show ?thesis by (simp add: keeps_free_def)
qed

section \<open>Any order of operations\<close>

text \<open>
  Cancellations, release jobs and sweeps in any order and with any outcome of the queue, and the sale of a seat:
  payment confirm issues a valid ticket only on a seat that is for sale, and marks the seat sold.
\<close>

definition sell_seat :: "issued_item \<Rightarrow> cancel_world \<Rightarrow> cancel_world" where
  "sell_seat k w =
     w\<lparr>cw_items := cw_items w @ [k],
       cw_seats := change_rows (\<lambda>r. item_on_seat (sea_showtimeId r) (sea_floorKey r) (sea_seatKey r) k)
         (\<lambda>r. r\<lparr>sea_status := ''sold''\<rparr>) (cw_seats w)\<rparr>"

inductive seat_step :: "(js_string \<Rightarrow> int option) \<Rightarrow> cancel_world \<Rightarrow> cancel_world \<Rightarrow> bool" for showtimes where
  finalize: "finalizeFullPaymentCancellation i now rng jobId sent recordable w = (r, w1) \<Longrightarrow> seat_step showtimes w w1"
| job: "handleReleaseJob showtimes j jid w = (r, w1) \<Longrightarrow> seat_step showtimes w w1"
| sweep: "releaseExpiredHeldSeats showtimes now locked w = (r, w1) \<Longrightarrow> seat_step showtimes w w1"
| sale: "seat_step showtimes w (sell_seat k w)"

inductive_cases seat_step_cases: "seat_step showtimes w w1"

lemma free_run: "keeps_free p \<Longrightarrow> p w = (r, w1) \<Longrightarrow> seats_free w \<Longrightarrow> seats_free w1"
  using keeps_freeD [of p w] by (auto simp: wp_def split: sum.splits)

lemma free_sale:
  assumes "seats_free w"
  shows "seats_free (sell_seat k w)"
proof -
  have "noActiveTicketItemOnSeat (cw_items w @ [k]) r" if "noActiveTicketItemOnSeat (cw_items w) r"
    and "\<not> item_on_seat (sea_showtimeId r) (sea_floorKey r) (sea_seatKey r) k" for r
    using that by (simp add: noActiveTicketItemOnSeat_def)
  with assms show ?thesis by (auto simp: seats_free_def sell_seat_def change_rows_def)
qed

text \<open>C8: No seat goes back on sale while somebody holds a valid ticket for it. Over any sequence of sales,
  finalized cancellations (of a whole order or of one ticket, by the buyer, an administrator, a retry or a
  webhook, successful or not), release jobs and recovery sweeps, a seat that the inventory shows as
  available or on hold has no active or pending-cancellation ticket.\<close>
theorem no_seat_freed_under_ticket:
  assumes "(seat_step showtimes)\<^sup>*\<^sup>* w w1" and "seats_free w"
  shows "seats_free w1"
  using assms
proof (induction rule: rtranclp_induct)
  case (step w1 w2)
  from step.hyps(2) show ?case
    by cases (use step in \<open>blast intro: free_run [OF free_finalize] free_run [OF free_release_job] free_run [OF free_sweep] free_sale\<close>)+
qed

section \<open>A finished cancellation\<close>

text \<open>What a step leaves of the tickets: who is cancelled, the credentials, the benefits and the orders.\<close>

definition facts :: "issued_item \<Rightarrow> js_string \<times> js_string \<times> js_string \<times> js_string \<times> js_string \<times> js_string \<times> js_string" where
  "facts k = (itm_id k, itm_status k, itm_showtimeId k, itm_floorKey k, itm_seatKey k, itm_reservationId k, itm_paymentId k)"

definition same_tickets :: "cancel_world \<Rightarrow> cancel_world \<Rightarrow> bool" where
  "same_tickets w w1 \<longleftrightarrow> map facts (cw_items w1) = map facts (cw_items w) \<and> cw_credentials w1 = cw_credentials w \<and>
     cw_entitlements w1 = cw_entitlements w \<and> cw_orders w1 = cw_orders w"

lemma same_tickets_refl: "same_tickets w w"
  by (simp add: same_tickets_def)

lemma same_tickets_trans: "same_tickets w w1 \<Longrightarrow> same_tickets w1 w2 \<Longrightarrow> same_tickets w w2"
  by (simp add: same_tickets_def)

lemma facts_image: "map facts ks1 = map facts ks \<Longrightarrow> (\<exists>k \<in> set ks1. Q (facts k)) = (\<exists>k \<in> set ks. Q (facts k))"
proof -
  assume "map facts ks1 = map facts ks"
  then have "facts ` set ks1 = facts ` set ks" by (metis set_map)
  then have "(\<exists>x \<in> facts ` set ks1. Q x) = (\<exists>x \<in> facts ` set ks. Q x)" by simp
  then show ?thesis by simp
qed

definition seat_owned :: "finalize_input \<Rightarrow> seat_identity \<Rightarrow> cancel_world \<Rightarrow> bool" where
  "seat_owned i s w \<longleftrightarrow> (\<exists>k \<in> set (cw_items w). item_on_seat (fi_showtimeId i) (floorKey s) (seatKey s) k \<and> is_active_item k)"

lemma owned_facts: "seat_owned i s w \<longleftrightarrow> (\<exists>k \<in> set (cw_items w).
    case facts k of (x, st, sh, fl, sk, ab) \<Rightarrow> sh = fi_showtimeId i \<and> fl = floorKey s \<and> sk = seatKey s \<and> (st = ''active'' \<or> st = ''cancellation_pending''))"
  by (auto simp: seat_owned_def facts_def item_on_seat_def is_active_item_def)

lemma owned_same:
  assumes "same_tickets w w1"
  shows "seat_owned i s w1 = seat_owned i s w"
proof -
  from assms have "map facts (cw_items w1) = map facts (cw_items w)" by (simp add: same_tickets_def)
  then show ?thesis unfolding owned_facts by (rule facts_image)
qed

text \<open>A seat on hold waits for the release job that its row names.\<close>

definition seat_held :: "finalize_input \<Rightarrow> seat_identity \<Rightarrow> cancel_world \<Rightarrow> bool" where
  "seat_held i s w \<longleftrightarrow> (\<exists>r \<in> set (cw_seats w). is_seat (fi_showtimeId i) s r \<and> sea_status r = ''held_cancelled'' \<and> sea_reopenJobId r \<noteq> None)"

lemma held_update:
  assumes "seat_held i s w" and "\<And>r. P (cw_items w) r \<Longrightarrow> sea_status (f r) = ''held_cancelled'' \<and> sea_reopenJobId (f r) \<noteq> None"
    and "\<And>r. sea_showtimeId (f r) = sea_showtimeId r \<and> sea_floorKey (f r) = sea_floorKey r \<and> sea_seatKey (f r) = sea_seatKey r"
  shows "seat_held i s (w\<lparr>cw_seats := change_rows (P (cw_items w)) f (cw_seats w)\<rparr>)"
proof -
  from assms(1) obtain r where r: "r \<in> set (cw_seats w)" "is_seat (fi_showtimeId i) s r" "sea_status r = ''held_cancelled''" "sea_reopenJobId r \<noteq> None"
    unfolding seat_held_def by blast
  let ?r = "if P (cw_items w) r then f r else r"
  have "?r \<in> set (change_rows (P (cw_items w)) f (cw_seats w))" using r(1) by (auto simp: change_rows_def)
  moreover have "is_seat (fi_showtimeId i) s ?r" "sea_status ?r = ''held_cancelled''" "sea_reopenJobId ?r \<noteq> None"
    using r assms(2,3) by (auto simp: is_seat_def)
  ultimately show ?thesis unfolding seat_held_def by auto
qed

lemma held_new:
  assumes "changed_rows (P (cw_items w)) f (cw_seats w) = [q]" and "\<And>items r. P items r \<Longrightarrow> is_seat (fi_showtimeId i) s r"
    and "\<And>r. P (cw_items w) r \<Longrightarrow> sea_status (f r) = ''held_cancelled'' \<and> sea_reopenJobId (f r) \<noteq> None"
    and "\<And>r. sea_showtimeId (f r) = sea_showtimeId r \<and> sea_floorKey (f r) = sea_floorKey r \<and> sea_seatKey (f r) = sea_seatKey r"
  shows "seat_held i s (w\<lparr>cw_seats := change_rows (P (cw_items w)) f (cw_seats w)\<rparr>)"
proof -
  from assms(1) have "filter (P (cw_items w)) (cw_seats w) \<noteq> []" by (auto simp: changed_rows_def)
  then obtain r where r: "r \<in> set (cw_seats w)" "P (cw_items w) r" by (auto simp: filter_empty_conv)
  then have "f r \<in> set (change_rows (P (cw_items w)) f (cw_seats w))" by (auto simp: change_rows_def)
  moreover have "is_seat (fi_showtimeId i) s (f r)" using assms(2) [OF r(2)] assms(4) [of r] by (simp add: is_seat_def)
  ultimately show ?thesis using assms(3) [OF r(2)] unfolding seat_held_def by auto
qed

lemma held_items: "seat_held i s (w\<lparr>cw_items := ks\<rparr>) = seat_held i s w"
  by (simp add: seat_held_def)

text \<open>Statements that leave the tickets alone, and keep every held seat held.\<close>

definition only_holds :: "finalize_input \<Rightarrow> cancel_world \<Rightarrow> cancel_world \<Rightarrow> bool" where
  "only_holds i w w1 \<longleftrightarrow> same_tickets w w1 \<and> (\<forall>s. seat_held i s w \<longrightarrow> seat_held i s w1)"

lemma only_holds_refl: "only_holds i w w"
  by (simp add: only_holds_def same_tickets_refl)

lemma only_holds_trans: "only_holds i w w1 \<Longrightarrow> only_holds i w1 w2 \<Longrightarrow> only_holds i w w2"
  by (simp add: only_holds_def same_tickets_def)

lemma holds_seats:
  assumes "\<And>r. P (cw_items w) r \<Longrightarrow> sea_status (f r) = ''held_cancelled'' \<and> sea_reopenJobId (f r) \<noteq> None"
    and "\<And>r. sea_showtimeId (f r) = sea_showtimeId r \<and> sea_floorKey (f r) = sea_floorKey r \<and> sea_seatKey (f r) = sea_seatKey r"
  shows "only_holds i w (w\<lparr>cw_seats := change_rows (P (cw_items w)) f (cw_seats w)\<rparr>)"
  unfolding only_holds_def
  by (intro conjI allI impI, simp add: same_tickets_def, rule held_update) (use assms in auto)

lemma holds_items:
  assumes "\<And>k. facts (f k) = facts k"
  shows "only_holds i w (w\<lparr>cw_items := change_rows P f (cw_items w)\<rparr>)"
  using assms by (simp add: only_holds_def same_tickets_def held_items change_rows_def comp_def if_distrib cong: if_cong)

lemma holds_record:
  "wp (record_ticket_hold i s t j) (\<lambda>_ w1. only_holds i w w1 \<and> cw_seats w1 = cw_seats w) (\<lambda>_ _. False) w"
  by (simp add: record_ticket_hold_def wp_eqs) (simp add: wp_def update_items_def, rule holds_items, simp add: facts_def)

lemma wp_update_seats:
  "wp (update_seats P f) Q E w =
    Q (changed_rows (P (cw_items w)) f (cw_seats w)) (w\<lparr>cw_seats := change_rows (P (cw_items w)) f (cw_seats w)\<rparr>)"
  by (simp add: wp_def update_seats_def)

text \<open>A statement of \<open>hold_seat\<close>: what it leaves, and that one changed row is a held seat.\<close>

lemma hold_update:
  assumes "\<And>items r. P items r \<Longrightarrow> is_seat (fi_showtimeId i) s r"
    and "\<And>r. sea_status (f r) = ''held_cancelled'' \<and> sea_reopenJobId (f r) \<noteq> None"
    and "\<And>r. sea_showtimeId (f r) = sea_showtimeId r \<and> sea_floorKey (f r) = sea_floorKey r \<and> sea_seatKey (f r) = sea_seatKey r"
  shows "wp (update_seats P f) (\<lambda>rows w1. only_holds i w w1 \<and> (\<forall>q. rows = [q] \<longrightarrow> seat_held i s w1)) E w"
proof -
  have "seat_held i s (w\<lparr>cw_seats := change_rows (P (cw_items w)) f (cw_seats w)\<rparr>)"
    if "changed_rows (P (cw_items w)) f (cw_seats w) = [q]" for q
    using that assms by (intro held_new) auto
  moreover have "only_holds i w (w\<lparr>cw_seats := change_rows (P (cw_items w)) f (cw_seats w)\<rparr>)"
    using assms by (intro holds_seats) auto
  ultimately show ?thesis unfolding wp_update_seats by blast
qed

definition hold_state :: "finalize_input \<Rightarrow> seat_identity \<Rightarrow> (seat_identity \<times> js_string) option \<Rightarrow> cancel_world \<Rightarrow> bool" where
  "hold_state i s o1 w \<longleftrightarrow> (case o1 of None \<Rightarrow> seat_owned i s w | Some _ \<Rightarrow> seat_held i s w)"

lemma hold_state_later: "only_holds i w w1 \<Longrightarrow> hold_state i s o1 w \<Longrightarrow> hold_state i s o1 w1"
  by (auto simp: hold_state_def only_holds_def owned_same split: option.splits)

lemma wp_records:
  assumes "only_holds i w0 w" and "seat_held i s w"
  shows "wp (bnd (record_ticket_hold i s t j) (\<lambda>_. ret (Some x))) (\<lambda>o1 w1. only_holds i w0 w1 \<and> hold_state i s o1 w1) E w"
  unfolding wp_bnd
proof (rule wp_mono [OF holds_record [of i s t j w]], goal_cases)
  case (1 x w1)
  with assms show ?case by (auto simp: wp_eqs hold_state_def only_holds_def same_tickets_def)
qed simp

lemma hold_post:
  "wp (hold_seat i now releaseAt jobId s) (\<lambda>o1 w1. only_holds i w w1 \<and> hold_state i s o1 w1) (\<lambda>_ _. True) w"
  unfolding hold_seat_def wp_bnd [of "update_seats _ _"]
proof (rule wp_mono [OF hold_update [of _ i s]], goal_cases)
  case (4 rows w1)
  show ?case
  proof (cases rows rule: remdups_adj.cases)
    case 1
    show ?thesis unfolding 1 list.case wp_bnd [of "update_seats _ _"]
    proof (rule wp_mono [OF hold_update [of _ i s]], goal_cases)
      case (4 held w2)
      from only_holds_trans [OF conjunct1 [OF \<open>only_holds i w w1 \<and> _\<close>] conjunct1 [OF 4]] have w2: "only_holds i w w2" .
      have owned: "wp (bnd (inspect (\<lambda>w. list_ex (\<lambda>k. item_on_seat (fi_showtimeId i) (floorKey s) (seatKey s) k \<and> is_active_item k) (cw_items w)))
           (\<lambda>owned. if owned then ret None else raise InventoryState)) (\<lambda>o1 w1. only_holds i w w1 \<and> hold_state i s o1 w1) (\<lambda>_ _. True) w2"
        using w2 by (auto simp: wp_eqs hold_state_def seat_owned_def list_ex_iff)
      show ?case
      proof (cases held rule: remdups_adj.cases)
        case (2 q)
        with 4 have "seat_held i s w2" by blast
        from wp_records [OF w2 this] show ?thesis unfolding 2 list.case .
      qed (use owned in simp_all)
    qed (auto simp: keeps_job_def)
  next
    case (2 q)
    from 4 2 have "only_holds i w w1" "seat_held i s w1" by auto
    from wp_records [OF this] show ?thesis unfolding 2 list.case .
  next
    case (3 x y xs)
    then show ?thesis by (simp add: wp_eqs)
  qed
qed auto

lemma holds_post:
  "wp (for_each (hold_seat i now releaseAt jobId) ss)
     (\<lambda>os w1. only_holds i w w1 \<and> (\<forall>s \<in> set ss. seat_held i s w1 \<or> seat_owned i s w1)) (\<lambda>_ _. True) w"
proof (induction ss arbitrary: w)
  case Nil
  then show ?case by (simp add: wp_eqs only_holds_refl)
next
  case (Cons s ss)
  show ?case unfolding for_each.simps wp_bnd
  proof (rule wp_mono [OF hold_post [of i now releaseAt jobId s w]], goal_cases)
    case (1 o1 w1)
    show ?case
    proof (rule wp_mono [OF Cons.IH [of w1]], goal_cases)
      case (1 os w2)
      from hold_state_later [OF conjunct1 [OF 1] conjunct2 [OF \<open>only_holds i w w1 \<and> hold_state i s o1 w1\<close>]]
      have "seat_held i s w2 \<or> seat_owned i s w2" by (auto simp: hold_state_def split: option.splits)
      with 1 only_holds_trans [OF conjunct1 [OF \<open>only_holds i w w1 \<and> hold_state i s o1 w1\<close>] conjunct1 [OF 1]]
      show ?case by (simp add: wp_eqs)
    qed simp
  qed simp
qed

section \<open>The tickets a cancellation reaches\<close>

definition place :: "issued_item \<Rightarrow> js_string \<times> js_string \<times> js_string \<times> js_string \<times> js_string" where
  "place k = (itm_id k, itm_reservationId k, itm_paymentId k, itm_showtimeId k, itm_seatKey k)"

definition moved :: "js_string list \<Rightarrow> issued_item \<Rightarrow> issued_item \<Rightarrow> bool" where
  "moved ids k k1 \<longleftrightarrow> place k1 = place k \<and> (itm_status k1 = itm_status k \<or> itm_status k1 = ''cancelled'' \<and> itm_id k \<in> set ids)"

definition moves :: "js_string list \<Rightarrow> cancel_world \<Rightarrow> cancel_world \<Rightarrow> bool" where
  "moves ids w w1 \<longleftrightarrow> list_all2 (moved ids) (cw_items w) (cw_items w1) \<and> cw_orders w1 = cw_orders w"

lemma moves_refl: "moves ids w w"
  by (simp add: moves_def moved_def list_all2_refl)

lemma moves_trans:
  assumes "moves ids w w1" and "moves ids1 w1 w2" and "set ids \<union> set ids1 \<subseteq> set ids2"
  shows "moves ids2 w w2"
proof -
  have "list_all2 (moved ids2) (cw_items w) (cw_items w2)"
  proof (rule list_all2_trans [of "moved ids" "moved ids1" "moved ids2"])
    show "moved ids2 k k2" if "moved ids k k1" "moved ids1 k1 k2" for k k1 k2
      using that assms(3) by (auto simp: moved_def place_def)
    show "list_all2 (moved ids) (cw_items w) (cw_items w1)" "list_all2 (moved ids1) (cw_items w1) (cw_items w2)"
      using assms(1,2) by (simp_all add: moves_def)
  qed
  with assms(1,2) show ?thesis by (simp add: moves_def)
qed

definition none_active :: "(js_string \<times> js_string \<times> js_string \<times> js_string \<times> js_string \<Rightarrow> bool) \<Rightarrow> cancel_world \<Rightarrow> bool" where
  "none_active T w \<longleftrightarrow> (\<forall>k \<in> set (cw_items w). T (place k) \<longrightarrow> \<not> is_active_item k)"

lemma moves_back:
  assumes "moves ids w w1" and "k1 \<in> set (cw_items w1)"
  obtains k where "k \<in> set (cw_items w)" "moved ids k k1"
proof -
  from assms obtain n where n: "n < length (cw_items w1)" "k1 = cw_items w1 ! n" by (auto simp: in_set_conv_nth)
  with assms(1) have "n < length (cw_items w)" "moved ids (cw_items w ! n) k1"
    by (auto simp: moves_def list_all2_conv_all_nth)
  then show thesis using that nth_mem by blast
qed

lemma none_active_later: "none_active T w \<Longrightarrow> moves ids w w1 \<Longrightarrow> none_active T w1"
  unfolding none_active_def by (auto elim!: moves_back simp: moved_def is_active_item_def)

lemma wp_update_items:
  "wp (update_items P f) Q E w = Q (changed_rows P f (cw_items w)) (w\<lparr>cw_items := change_rows P f (cw_items w)\<rparr>)"
  by (simp add: wp_def update_items_def)

lemma wp_tables:
  "wp (update_captured P1 f1) Q1 E1 w = Q1 (changed_rows P1 f1 (cw_payments w)) (w\<lparr>cw_payments := change_rows P1 f1 (cw_payments w)\<rparr>)"
  "wp (update_refunds P2 f2) Q2 E2 w = Q2 (changed_rows P2 f2 (cw_refunds w)) (w\<lparr>cw_refunds := change_rows P2 f2 (cw_refunds w)\<rparr>)"
  "wp (update_orders P3 f3) Q3 E3 w = Q3 (changed_rows P3 f3 (cw_orders w)) (w\<lparr>cw_orders := change_rows P3 f3 (cw_orders w)\<rparr>)"
  by (simp_all add: wp_def update_captured_def update_refunds_def update_orders_def)

lemma moves_other: "cw_items w1 = cw_items w \<Longrightarrow> cw_orders w1 = cw_orders w \<Longrightarrow> moves ids w0 w1 = moves ids w0 w"
  by (simp add: moves_def)

lemma moves_change:
  assumes "\<And>k. P k \<Longrightarrow> moved ids k (f k)"
  shows "moves ids w (w\<lparr>cw_items := change_rows P f (cw_items w)\<rparr>)"
  using assms by (auto simp: moves_def change_rows_def list_all2_map2 moved_def intro!: list_all2_refl)

text \<open>The statement that cancels the items of a condition.\<close>

lemma cancel_update:
  assumes "\<And>k. place (f k) = place k \<and> itm_status (f k) = ''cancelled''"
    and "\<And>k. T (place k) \<Longrightarrow> is_active_item k \<Longrightarrow> P k"
  shows "wp (update_items P f) (\<lambda>rows w1. moves (map itm_id rows) w w1 \<and> none_active T w1) E w"
proof -
  have [simp]: "itm_id (f k) = itm_id k" for k using assms(1) [of k] by (simp add: place_def)
  have "list_all2 (moved (map itm_id (changed_rows P f (cw_items w)))) (cw_items w) (change_rows P f (cw_items w))"
    unfolding change_rows_def list_all2_map2
    by (rule list_all2_all_nthI) (use assms(1) in \<open>auto simp: moved_def changed_rows_def\<close>)
  moreover have "\<not> is_active_item k1" if "k1 \<in> set (change_rows P f (cw_items w))" "T (place k1)" for k1
    using that assms by (auto simp: change_rows_def is_active_item_def split: if_splits)
  ultimately show ?thesis by (simp add: wp_update_items moves_def none_active_def)
qed

text \<open>The three ways to cancel items: by quote, one item, or the order's seats.\<close>

definition targeted :: "finalize_input \<Rightarrow> js_string \<times> js_string \<times> js_string \<times> js_string \<times> js_string \<Rightarrow> bool" where
  "targeted i p = (case p of (kid, res, pay, st, sk) \<Rightarrow>
     res = fi_reservationId i \<and> pay = fi_paymentId i \<and> st = fi_showtimeId i \<and>
     (case fi_quote i of
        Some q \<Rightarrow> kid \<in> iq_ticketItemId ` set (rq_items q)
      | None \<Rightarrow> (case fi_item i of Some t \<Rightarrow> kid = icx_ticketItemId t | None \<Rightarrow> sk \<in> seatKey ` set (uniqueSeatIdentities (fi_seats i)))))"

lemma place_cancel_item: "place (cancel_item i now a b c k) = place k \<and> itm_status (cancel_item i now a b c k) = ''cancelled''"
  by (simp add: place_def cancel_item_def)

lemma active_cancellable: "is_active_item k \<Longrightarrow> cancellable k"
  by (simp add: cancellable_def)

definition quoted :: "finalize_input \<Rightarrow> js_string \<Rightarrow> js_string \<times> js_string \<times> js_string \<times> js_string \<times> js_string \<Rightarrow> bool" where
  "quoted i q p = (case p of (kid, res, pay, st, sk) \<Rightarrow>
     res = fi_reservationId i \<and> pay = fi_paymentId i \<and> st = fi_showtimeId i \<and> kid = q)"

lemma quoted_post:
  "wp (cancel_quoted_item i now q)
     (\<lambda>k w1. moves [itm_id k] w w1 \<and> none_active (quoted i (iq_ticketItemId q)) w1) (\<lambda>_ _. True) w"
  unfolding cancel_quoted_item_def wp_bnd
proof (rule wp_mono [OF cancel_update [where T = "quoted i (iq_ticketItemId q)"]], goal_cases)
  case (3 rows w1)
  then show ?case by (cases rows rule: remdups_adj.cases) (simp_all add: wp_eqs)
qed (rule place_cancel_item, auto simp: quoted_def place_def of_order_def active_cancellable)

lemma quotes_post:
  "wp (for_each (cancel_quoted_item i now) qs)
     (\<lambda>ks w1. moves (map itm_id ks) w w1 \<and> (\<forall>q \<in> set qs. none_active (quoted i (iq_ticketItemId q)) w1)) (\<lambda>_ _. True) w"
proof (induction qs arbitrary: w)
  case Nil
  then show ?case by (simp add: wp_eqs moves_refl)
next
  case (Cons q qs)
  show ?case unfolding for_each.simps wp_bnd
  proof (rule wp_mono [OF quoted_post [of i now q w]], goal_cases)
    case q: (1 k w1)
    show ?case
    proof (rule wp_mono [OF Cons.IH [of w1]], goal_cases)
      case (1 ks w2)
      with q moves_trans [of "[itm_id k]" w w1 "map itm_id ks" w2 "itm_id k # map itm_id ks"]
        none_active_later [of "quoted i (iq_ticketItemId q)" w1 "map itm_id ks" w2]
      show ?case by (simp add: wp_eqs)
    qed simp
  qed simp
qed

lemma attribute_moves:
  "wp (attributeQuotelessProviderRefund i now ns es) (\<lambda>_. moves [] w) (\<lambda>_ _. True) w"
proof -
  have "moved [] k (attribute_amount a k)" for a k
    by (simp add: moved_def attribute_amount_def place_def)
  then have m: "moves [] w (w\<lparr>cw_items := change_rows P (attribute_amount a) (cw_items w)\<rparr>)" for P a
    by (intro moves_change)
  show ?thesis
    unfolding attributeQuotelessProviderRefund_def
    by (simp add: wp_eqs wp_tables wp_update_items m moves_refl moves_other [of "_\<lparr>cw_payments := _\<rparr>"]
        split: option.split reconciliation_status.split)
qed

lemma quoteless_post:
  assumes "fi_quote i = None" and "fi_item i = None"
  shows "wp (cancel_quoteless i now (uniqueSeatIdentities (fi_seats i)))
     (\<lambda>(ids, held) w1. moves ids w w1 \<and> none_active (targeted i) w1) (\<lambda>_ _. True) w"
  unfolding cancel_quoteless_def Let_def wp_bnd [of "update_items _ _"]
proof (rule wp_mono [OF cancel_update [where T = "targeted i"]], goal_cases)
  case (3 rows w1)
  have m: "moves (map itm_id rows) w w2 \<and> none_active (targeted i) w2" if "moves [] w1 w2" for w2
    using 3 that moves_trans [of "map itm_id rows" w w1 "[]" w2 "map itm_id rows"] none_active_later by auto
  show ?case unfolding wp_eqs
    by (auto intro!: wp_mono [OF attribute_moves] m)
qed (rule place_cancel_item, use assms in \<open>auto simp: targeted_def place_def of_order_def\<close>)

lemma cancelled_post:
  "wp (cancel_items i now (uniqueSeatIdentities (fi_seats i)))
     (\<lambda>(ids, held) w1. moves ids w w1 \<and> none_active (targeted i) w1) (\<lambda>_ _. True) w"
proof (cases "fi_quote i")
  case (Some q)
  have t: "targeted i p \<Longrightarrow> \<exists>c \<in> set (rq_items q). quoted i (iq_ticketItemId c) p" for p
    using Some by (auto simp: targeted_def quoted_def)
  have all: "none_active (targeted i) w1" if "\<forall>c \<in> set (rq_items q). none_active (quoted i (iq_ticketItemId c)) w1" for w1
    using that t unfolding none_active_def by blast
  show ?thesis unfolding cancel_items_def cancel_quoted_def Some option.case wp_bnd Let_def
    by (rule wp_mono [OF quotes_post]) (auto simp: wp_eqs all)
next
  case None
  show ?thesis
  proof (cases "fi_item i")
    case (Some t)
    have "wp (cancel_one i now t seats) (\<lambda>(ids, held) w1. moves ids w w1 \<and> none_active (targeted i) w1) (\<lambda>_ _. True) w" for seats
      unfolding cancel_one_def wp_bnd
    proof (rule wp_mono [OF cancel_update [where T = "targeted i"]], goal_cases)
      case (3 rows w1)
      then show ?case by (simp add: wp_eqs)
    qed (rule place_cancel_item, use None Some in \<open>auto simp: targeted_def place_def of_order_def active_cancellable\<close>)
    with None Some show ?thesis by (simp add: cancel_items_def)
  next
    case item: None
    with None quoteless_post [OF None item] show ?thesis by (simp add: cancel_items_def)
  qed
qed

section \<open>Credentials, benefits and the order\<close>

definition unusable :: "finalize_input \<Rightarrow> js_string list \<Rightarrow> cancel_world \<Rightarrow> bool" where
  "unusable i ids w \<longleftrightarrow>
     (\<forall>c \<in> set (cw_credentials w). crd_reservationId c = fi_reservationId i \<and> credential_scope i ids c \<longrightarrow> crd_status c \<notin> {''active'', ''used''}) \<and>
     (\<forall>e \<in> set (cw_entitlements w). ent_ticketItemId e \<in> set ids \<longrightarrow> ent_state e \<in> {''inactive'', ''redeemed''})"

lemma inactivate_post:
  "wp (inactivateBenefitEntitlementsForTicketItems ids)
     (\<lambda>_ w1. cw_items w1 = cw_items w \<and> cw_orders w1 = cw_orders w \<and>
       (\<forall>e \<in> set (cw_entitlements w1). ent_ticketItemId e \<in> set ids \<longrightarrow> ent_state e \<in> {''inactive'', ''redeemed''})) E w"
  by (auto simp: inactivateBenefitEntitlementsForTicketItems_def wp_eqs change_rows_def)

lemma revoke_post:
  "wp (revoke_credentials i now ids)
     (\<lambda>_ w1. cw_items w1 = cw_items w \<and> cw_orders w1 = cw_orders w \<and> cw_entitlements w1 = cw_entitlements w \<and>
       (\<forall>c \<in> set (cw_credentials w1). crd_reservationId c = fi_reservationId i \<and> credential_scope i ids c \<longrightarrow> crd_status c \<notin> {''active'', ''used''}))
     (\<lambda>_ _. True) w"
  by (auto simp: revoke_credentials_def update_credentials_def wp_eqs list_ex_iff)

lemma tickets_post:
  "wp (bnd (cancel_items i now (uniqueSeatIdentities (fi_seats i))) (\<lambda>(ids, held).
       bnd (inactivateBenefitEntitlementsForTicketItems ids) (\<lambda>_. bnd (revoke_credentials i now ids) (\<lambda>_. ret held))))
     (\<lambda>held w1. \<exists>ids. moves ids w w1 \<and> none_active (targeted i) w1 \<and> unusable i ids w1) (\<lambda>_ _. True) w"
  unfolding wp_bnd [of "cancel_items _ _ _"]
proof (rule wp_mono [OF cancelled_post], goal_cases)
  case (1 x w1)
  obtain ids held where x: "x = (ids, held)" by (cases x)
  have same: "moves ids w w2 \<and> none_active (targeted i) w2" if "cw_items w2 = cw_items w1" "cw_orders w2 = cw_orders w1" for w2
    using 1 that by (simp add: x moves_def none_active_def)
  show ?case unfolding x prod.case wp_bnd
  proof (rule wp_mono [OF inactivate_post [where w = w1]], goal_cases)
    case (1 u w2)
    show ?case
    proof (rule wp_mono [OF revoke_post [of i now ids w2]], goal_cases)
      case (1 u w3)
      with \<open>cw_items w2 = _ \<and> _\<close> same [of w3] show ?case by (auto simp: wp_eqs unusable_def)
    qed simp
  qed
qed simp

section \<open>The whole transaction\<close>

lemma complete_post: "wp (complete_command i now) (\<lambda>_. moves [] w) (\<lambda>_ _. True) w"
proof -
  have m: "moves [] w (w\<lparr>cw_items := change_rows P (\<lambda>k. k\<lparr>itm_command := f k\<rparr>) (cw_items w)\<rparr>)" for P f
    by (rule moves_change) (simp add: moved_def place_def)
  show ?thesis unfolding complete_command_def
    by (simp add: wp_eqs wp_update_items m moves_refl split: option.split)
qed

lemma refund_post:
  "wp (close_refund i now) (\<lambda>_ w1. cw_items w1 = cw_items w \<and> cw_orders w1 = cw_orders w) (\<lambda>_ _. True) w"
  unfolding close_refund_def by (simp add: wp_eqs wp_tables split: option.split list.split)

definition order_cancelled :: "finalize_input \<Rightarrow> cancel_world \<Rightarrow> bool" where
  "order_cancelled i w \<longleftrightarrow> (\<exists>o1 \<in> set (cw_orders w). ord_id o1 = fi_reservationId i) \<and>
     (\<forall>o1 \<in> set (cw_orders w). ord_id o1 = fi_reservationId i \<longrightarrow> ord_status o1 = ''CANCELLED'')"

lemma closed_orders:
  assumes "changed_rows (\<lambda>o1. ord_id o1 = fi_reservationId i)
     (\<lambda>o1. o1\<lparr>ord_status := ''CANCELLED'', ord_cancelledAt := a, ord_cancelReason := b\<rparr>) (cw_orders w) \<noteq> []"
  shows "order_cancelled i (w\<lparr>cw_orders := change_rows (\<lambda>o1. ord_id o1 = fi_reservationId i)
     (\<lambda>o1. o1\<lparr>ord_status := ''CANCELLED'', ord_cancelledAt := a, ord_cancelReason := b\<rparr>) (cw_orders w)\<rparr>)"
proof -
  from assms obtain o1 where "o1 \<in> set (cw_orders w)" "ord_id o1 = fi_reservationId i"
    by (auto simp: changed_rows_def filter_empty_conv)
  then show ?thesis by (auto simp: order_cancelled_def change_rows_def intro!: bexI [of _ "o1\<lparr>ord_status := ''CANCELLED'', ord_cancelledAt := a, ord_cancelReason := b\<rparr>"] split: if_splits)
qed

lemma order_cancelled_other: "order_cancelled i (w\<lparr>cw_payments := ps\<rparr>) = order_cancelled i w"
  by (simp add: order_cancelled_def)

lemma order_post:
  "wp (close_order i now) (\<lambda>_ w1. cw_items w1 = cw_items w \<and> order_cancelled i w1) (\<lambda>_ _. True) w"
  unfolding close_order_def
  by (simp add: wp_eqs wp_tables closed_orders order_cancelled_other)

definition no_use :: "finalize_input \<Rightarrow> js_string \<Rightarrow> cancel_world \<Rightarrow> bool" where
  "no_use i kid w \<longleftrightarrow>
     (\<forall>c \<in> set (cw_credentials w). crd_reservationId c = fi_reservationId i \<and> crd_ticketItemId c = Some kid \<longrightarrow> crd_status c \<notin> {''active'', ''used''}) \<and>
     (\<forall>e \<in> set (cw_entitlements w). ent_ticketItemId e = kid \<longrightarrow> ent_state e \<in> {''inactive'', ''redeemed''})"

definition finished :: "finalize_input \<Rightarrow> cancel_world \<Rightarrow> cancel_world \<Rightarrow> bool" where
  "finished i w w1 \<longleftrightarrow> (preserves_remaining i w \<or> order_cancelled i w1) \<and> (fi_seats i = [] \<or> none_active (targeted i) w1) \<and>
     (\<forall>k \<in> set (cw_items w1). itm_status k = ''cancelled'' \<longrightarrow>
        (\<exists>k0 \<in> set (cw_items w). itm_id k0 = itm_id k \<and> itm_status k0 = ''cancelled'') \<or> no_use i (itm_id k) w1)"

lemma unique_nil: "uniqueSeatIdentities ss = [] \<longleftrightarrow> ss = []"
  by (cases ss) (simp_all add: uniqueSeatIdentities_def)

lemma finishedI:
  assumes "list_all2 (moved []) (cw_items w) (cw_items w1)" and "preserves_remaining i w \<or> order_cancelled i w1"
    and "moves ids w1 w2" and "fi_seats i = [] \<and> ids = [] \<or> none_active (targeted i) w2 \<and> unusable i ids w2"
  shows "finished i w w2"
proof -
  have used: "(\<exists>k0 \<in> set (cw_items w). itm_id k0 = itm_id k \<and> itm_status k0 = ''cancelled'') \<or> no_use i (itm_id k) w2"
    if k: "k \<in> set (cw_items w2)" and c: "itm_status k = ''cancelled''" for k
  proof -
    from moves_back [OF assms(3) k] obtain k1 where k1: "k1 \<in> set (cw_items w1)" "moved ids k1 k" .
    have "moves [] (w\<lparr>cw_orders := cw_orders w1\<rparr>) w1" using assms(1) by (simp add: moves_def)
    from moves_back [OF this k1(1)] obtain k0 where k0: "k0 \<in> set (cw_items w)" "moved [] k0 k1" by auto
    show ?thesis
    proof (cases "itm_status k1 = ''cancelled''")
      case True
      with k0 k1 show ?thesis by (auto simp: moved_def place_def)
    next
      case False
      with k1 c have i: "itm_id k \<in> set ids" by (auto simp: moved_def place_def)
      then have "unusable i ids w2" using assms(4) by auto
      with i have "no_use i (itm_id k) w2" by (auto simp: no_use_def unusable_def credential_scope_def)
      then show ?thesis ..
    qed
  qed
  moreover have "order_cancelled i w2 = order_cancelled i w1" using assms(3) by (simp add: order_cancelled_def moves_def)
  ultimately show ?thesis using assms(2,4) by (auto simp: finished_def)
qed

lemma same_tickets_back:
  assumes "same_tickets w1 w2" and "k2 \<in> set (cw_items w2)"
  obtains k where "k \<in> set (cw_items w1)" "itm_id k = itm_id k2" "itm_status k = itm_status k2" "place k = place k2"
proof -
  from assms(1) have "facts ` set (cw_items w1) = facts ` set (cw_items w2)" unfolding same_tickets_def by (metis set_map)
  with assms(2) obtain k where "k \<in> set (cw_items w1)" "facts k2 = facts k" by blast
  with that show thesis by (simp add: facts_def place_def)
qed

lemma finished_later:
  assumes "finished i w w1" and "same_tickets w1 w2"
  shows "finished i w w2"
proof -
  have "no_use i kid w2 = no_use i kid w1" "order_cancelled i w2 = order_cancelled i w1" for kid
    using assms(2) by (simp_all add: same_tickets_def no_use_def order_cancelled_def)
  moreover have "none_active (targeted i) w2" if "none_active (targeted i) w1"
    using that unfolding none_active_def by (auto elim!: same_tickets_back [OF assms(2)] simp: is_active_item_def)
  moreover have "(\<exists>k0 \<in> set (cw_items w). itm_id k0 = itm_id k \<and> itm_status k0 = ''cancelled'') \<or> no_use i (itm_id k) w1"
    if "k \<in> set (cw_items w2)" "itm_status k = ''cancelled''" for k
  proof -
    from same_tickets_back [OF assms(2) that(1)] obtain k1 where "k1 \<in> set (cw_items w1)" "itm_id k1 = itm_id k" "itm_status k1 = itm_status k" .
    moreover from this(1) assms(1)
    have "itm_status k1 = ''cancelled'' \<longrightarrow> (\<exists>k0 \<in> set (cw_items w). itm_id k0 = itm_id k1 \<and> itm_status k0 = ''cancelled'') \<or> no_use i (itm_id k1) w1"
      unfolding finished_def by (elim conjE) (erule bspec)
    ultimately show ?thesis using that(2) by simp
  qed
  moreover from assms(1) have "preserves_remaining i w \<or> order_cancelled i w1" "fi_seats i = [] \<or> none_active (targeted i) w1"
    by (simp_all add: finished_def)
  ultimately show ?thesis unfolding finished_def by auto
qed

definition settled :: "finalize_input \<Rightarrow> cancel_world \<Rightarrow> (seat_identity list \<times> (seat_identity \<times> js_string) list) option \<Rightarrow> cancel_world \<Rightarrow> bool" where
  "settled i w o1 w1 \<longleftrightarrow> (case o1 of None \<Rightarrow> w1 = w
     | Some (seats, states) \<Rightarrow> finished i w w1 \<and> (\<forall>s \<in> set seats. seat_held i s w1 \<or> seat_owned i s w1))"

lemma audit_post:
  "wp (record_audit i now seats) (\<lambda>_ w1. cw_items w1 = cw_items w \<and> cw_seats w1 = cw_seats w \<and> same_tickets w w1) E w"
  unfolding record_audit_def by (simp add: wp_eqs same_tickets_def split: option.split)

lemma holding_post:
  assumes "finished i w w1"
  shows "wp (bnd (for_each (hold_seat i now releaseAt jobId) seats) (\<lambda>states. bnd (record_audit i now seats) (\<lambda>_.
      ret (Some (seats, List.map_filter id states))))) (settled i w) (\<lambda>_ _. True) w1"
  unfolding wp_bnd
proof (rule wp_mono [OF holds_post [of i now releaseAt jobId seats w1]], goal_cases)
  case (1 states w2)
  show ?case
  proof (rule wp_mono [OF audit_post [of i now seats w2]], goal_cases)
    case (1 u w3)
    have "finished i w w3"
      using finished_later [OF assms] 1 \<open>only_holds i w1 w2 \<and> _\<close> by (auto simp: only_holds_def intro: same_tickets_trans)
    moreover have "seat_held i s w3 \<or> seat_owned i s w3" if "s \<in> set seats" for s
      using that 1 \<open>only_holds i w1 w2 \<and> _\<close> by (auto simp: seat_held_def owned_same)
    ultimately show ?case by (simp add: wp_eqs settled_def)
  qed simp
qed simp

lemma cancel_phase_post:
  "wp (cancel_order_tickets i now)
     (\<lambda>held w1. \<exists>ids. moves ids w w1 \<and> (fi_seats i = [] \<and> ids = [] \<or> none_active (targeted i) w1 \<and> unusable i ids w1)) (\<lambda>_ _. True) w"
proof (cases "fi_seats i = []")
  case True
  then have "uniqueSeatIdentities (fi_seats i) = []" by (simp only: unique_nil)
  with True show ?thesis by (auto simp: cancel_order_tickets_def wp_eqs Let_def intro: moves_refl)
next
  case False
  then have "uniqueSeatIdentities (fi_seats i) \<noteq> []" by (simp only: unique_nil simp_thms)
  then show ?thesis unfolding cancel_order_tickets_def Let_def if_not_P [OF \<open>uniqueSeatIdentities (fi_seats i) \<noteq> []\<close>]
    by (intro wp_mono [OF tickets_post]) auto
qed

lemma steps_post: "wp (finalize_steps i now releaseAt jobId) (settled i w) (\<lambda>_ _. True) w"
proof -
  have tail: "wp (bnd (cancel_order_tickets i now) (\<lambda>seats.
       bnd (for_each (hold_seat i now releaseAt jobId) seats) (\<lambda>states. bnd (record_audit i now seats) (\<lambda>_.
         ret (Some (seats, List.map_filter id states)))))) (settled i w) (\<lambda>_ _. True) w1"
    if w1: "list_all2 (moved []) (cw_items w) (cw_items w1)" "preserves_remaining i w \<or> order_cancelled i w1" for w1
    unfolding wp_bnd [of "cancel_order_tickets _ _"]
    by (rule wp_mono [OF cancel_phase_post]) (auto intro!: holding_post intro: finishedI [OF w1])
  show ?thesis
    unfolding finalize_steps_def wp_bnd [of "inspect _"] wp_inspect
  proof (cases "already_finalized i w", goal_cases)
    case 2
    show ?case unfolding if_not_P [OF 2] wp_bnd [of "inspect _"] wp_inspect wp_bnd [of "complete_command _ _"]
    proof (rule wp_mono [OF complete_post], goal_cases)
      case (1 u w1)
      show ?case unfolding wp_bnd [of "close_refund _ _"]
      proof (rule wp_mono [OF refund_post], goal_cases)
        case (1 u w2)
        have items: "list_all2 (moved []) (cw_items w) (cw_items w2)"
          using 1 \<open>moves [] w w1\<close> by (simp add: moves_def)
        show ?case
        proof (cases "preserves_remaining i w")
          case True
          with tail [OF items] show ?thesis by (simp add: wp_bnd [of "ret ()"] wp_ret)
        next
          case False
          show ?thesis unfolding if_not_P [OF False] wp_bnd [of "close_order _ _"]
            by (rule wp_mono [OF order_post]) (use tail items in auto)
        qed
      qed simp
    qed simp
  qed (simp add: wp_eqs settled_def)
qed

lemma transaction_result:
  "cancel_transaction p w = (Inr x, w1) \<Longrightarrow> p w = (Inr x, w1)"
  by (simp add: cancel_transaction_def split: prod.splits sum.splits)

lemma transaction_failed: "cancel_transaction p w = (Inl e, w1) \<Longrightarrow> w1 = w"
  by (simp add: cancel_transaction_def split: prod.splits sum.splits)

text \<open>C9: A finished cancellation is complete. When the transaction of a cancellation commits, the order is
  cancelled unless other valid tickets of it remain, no ticket it was about is valid any more, every ticket that
  it cancelled has no QR credential that can be used and no benefit that can be redeemed, and every seat it gave
  back is either on hold with a job that will free it or owned by another valid ticket. When the transaction
  fails, nothing has changed.\<close>
theorem cancellation_is_complete:
  assumes "cancel_transaction (finalize_steps i now releaseAt jobId) w = (r, w1)"
  shows "case r of Inl e \<Rightarrow> w1 = w | Inr None \<Rightarrow> w1 = w
    | Inr (Some (seats, states)) \<Rightarrow>
        (preserves_remaining i w \<or> (\<exists>o1 \<in> set (cw_orders w1). ord_id o1 = fi_reservationId i) \<and>
          (\<forall>o1 \<in> set (cw_orders w1). ord_id o1 = fi_reservationId i \<longrightarrow> ord_status o1 = ''CANCELLED'')) \<and>
        (fi_seats i = [] \<or> (\<forall>k \<in> set (cw_items w1). targeted i (place k) \<longrightarrow> \<not> is_active_item k)) \<and>
        (\<forall>k \<in> set (cw_items w1). itm_status k = ''cancelled'' \<longrightarrow>
          (\<exists>k0 \<in> set (cw_items w). itm_id k0 = itm_id k \<and> itm_status k0 = ''cancelled'') \<or>
          (\<forall>c \<in> set (cw_credentials w1). crd_reservationId c = fi_reservationId i \<and> crd_ticketItemId c = Some (itm_id k) \<longrightarrow> crd_status c \<notin> {''active'', ''used''}) \<and>
          (\<forall>e \<in> set (cw_entitlements w1). ent_ticketItemId e = itm_id k \<longrightarrow> ent_state e \<in> {''inactive'', ''redeemed''})) \<and>
        (\<forall>s \<in> set seats. seat_held i s w1 \<or> seat_owned i s w1)"
proof (cases r)
  case (Inl e)
  from assms [unfolded Inl] have "w1 = w" by (rule transaction_failed)
  with Inl show ?thesis by (simp only: sum.case)
next
  case (Inr x)
  from assms [unfolded Inr] have "finalize_steps i now releaseAt jobId w = (Inr x, w1)" by (rule transaction_result)
  from wp_result [OF steps_post this] have x: "settled i w x w1" unfolding sum.case .
  show ?thesis
  proof (cases x)
    case None
    from x show ?thesis unfolding Inr None settled_def sum.case option.case .
  next
    case (Some p)
    obtain seats states where p: "p = (seats, states)" by (cases p)
    from x show ?thesis
      unfolding Inr Some p settled_def sum.case option.case prod.case finished_def order_cancelled_def none_active_def no_use_def conj_assoc .
  qed
qed

section \<open>Replays, and seats whose job was lost\<close>

lemma order_cancelled_found:
  assumes "order_cancelled i w"
  shows "map_option ord_status (List.find (\<lambda>o1. ord_id o1 = fi_reservationId i) (cw_orders w)) = Some ''CANCELLED''"
  using assms by (cases "List.find (\<lambda>o1. ord_id o1 = fi_reservationId i) (cw_orders w)")
    (auto simp: order_cancelled_def find_None_iff find_Some_iff)

text \<open>What follows the transaction leaves the orders as they are.\<close>

lemma release_keeps_orders:
  "wp (bnd (scheduleCancelledSeatRelease sent i ts t jobId) (\<lambda>enqueued.
     if enqueued then ret (finalize_result_of jobId True)
     else bnd (markReleaseJobEnqueueFailed recordable i ts1 jobId) (\<lambda>_. ret (finalize_result_of JOB_ENQUEUE_FAILED False))))
   (\<lambda>_ w1. cw_orders w1 = cw_orders w) (\<lambda>_ w1. cw_orders w1 = cw_orders w) w"
  by (simp add: scheduleCancelledSeatRelease_def markReleaseJobEnqueueFailed_def wp_eqs wp_update_seats wp_update_items)

lemma finalized_order:
  assumes "finalizeFullPaymentCancellation i now rng jobId sent recordable w = (Inr res, w1)" and "fi_item i = None"
  shows "map_option ord_status (List.find (\<lambda>o1. ord_id o1 = fi_reservationId i) (cw_orders w1)) = Some ''CANCELLED''"
proof -
  define releaseAt where "releaseAt = now + pickCancelledSeatReleaseDelaySeconds (fst (resolveHoldWindowMinutes i)) (snd (resolveHoldWindowMinutes i)) rng * 1000"
  note run = assms(1) [unfolded finalizeFullPaymentCancellation_def case_prod_beta Let_def, folded releaseAt_def]
  obtain r w0 where t: "cancel_transaction (finalize_steps i now releaseAt jobId) w = (r, w0)" by (cases "cancel_transaction (finalize_steps i now releaseAt jobId) w")
  with run obtain x where r: "r = Inr x" by (cases r) (auto simp: bnd_def)
  from transaction_result [OF t [unfolded r]] have s: "finalize_steps i now releaseAt jobId w = (Inr x, w0)" .
  show ?thesis
  proof (cases x)
    case None
    with s have "already_finalized i w" and "w0 = w" using wp_result [OF steps_post s]
      by (auto simp: finalize_steps_def bnd_def inspect_def settled_def ret_def raise_def split: if_splits prod.splits sum.splits)
    with run t r None assms(2) show ?thesis by (auto simp: bnd_def ret_def already_finalized_def)
  next
    case (Some p)
    with wp_result [OF steps_post s] assms(2) have "order_cancelled i w0"
      by (auto simp: settled_def finished_def preserves_remaining_def split: prod.splits)
    moreover from run t r Some have "cw_orders w1 = cw_orders w0"
      using wp_result [OF release_keeps_orders] by (auto simp: bnd_def [of "cancel_transaction _"] ret_def split: if_splits prod.splits)
    ultimately show ?thesis using order_cancelled_found by simp
  qed
qed

text \<open>C11: A cancellation is applied once. After the cancellation of a whole order has gone through, whoever asked
  for it, a cancel webhook for that order, whatever it says, reports that the cancellation was applied already and
  changes nothing: no row, no seat and no release job.\<close>
theorem replayed_cancellation_is_ignored:
  assumes "finalizeFullPaymentCancellation i now rng jobId sent recordable w = (Inr res, w1)" and "fi_item i = None"
    and "fi_source i2 = CancelWebhook" and "fi_reservationId i2 = fi_reservationId i"
  shows "finalizeFullPaymentCancellation i2 now2 rng2 jobId2 sent2 recordable2 w1 =
    (Inr \<lparr>fz_releaseJobId = JOB_ENQUEUE_FAILED, fz_releaseEnqueued = False, fz_alreadyFinalized = True\<rparr>, w1)"
proof -
  from finalized_order [OF assms(1,2)] assms(3,4) have "already_finalized i2 w1" by (simp add: already_finalized_def)
  then have "cancel_transaction (finalize_steps i2 now2 releaseAt jobId2) w1 = (Inr None, w1)" for releaseAt
    by (simp add: cancel_transaction_def finalize_steps_def bnd_def inspect_def ret_def)
  then show ?thesis by (simp add: finalizeFullPaymentCancellation_def case_prod_beta Let_def bnd_def [of "cancel_transaction _"] ret_def)
qed

lemma in_take_sorted:
  assumes "x \<in> set xs" and "sorted (map f xs)" and "length (filter (\<lambda>y. f y \<le> f x) xs) \<le> n"
  shows "x \<in> set (take n xs)"
proof -
  from assms(1) obtain m where m: "m < length xs" "x = xs ! m" by (auto simp: in_set_conv_nth)
  have "f (xs ! j) \<le> f x" if "j \<le> m" for j
    using sorted_nth_mono [OF assms(2), of j m] that m by simp
  then have "\<forall>y \<in> set (take (Suc m) xs). f y \<le> f x"
    using m by (auto simp: in_set_conv_nth)
  then have "filter (\<lambda>y. f y \<le> f x) (take (Suc m) xs) = take (Suc m) xs" by simp
  then have "length (filter (\<lambda>y. f y \<le> f x) (take (Suc m) xs @ drop (Suc m) xs)) \<ge> Suc m"
    using m by (simp only: filter_append length_append) simp
  with assms(3) have "m < n" by simp
  with m show ?thesis by (auto simp: in_set_conv_nth intro!: exI [of _ m])
qed

lemma swept:
  assumes "r \<in> set rows" and "stranded showtimes now items r" and "\<not> locked r"
    and "length (filter (\<lambda>q. stranded showtimes now items q \<and> \<not> locked q \<and> or_else (sea_reopenHoldUntil q) 0 \<le> or_else (sea_reopenHoldUntil r) 0) rows)
      \<le> HELD_SEAT_RECOVERY_BATCH_SIZE"
  shows "r \<in> set (sweep_candidates showtimes now locked items rows)"
  unfolding sweep_candidates_def
proof (rule in_take_sorted [where f = "\<lambda>r. or_else (sea_reopenHoldUntil r) 0"])
  let ?key = "\<lambda>q. or_else (sea_reopenHoldUntil q) 0"
  have "length (filter P (sort_key ?key xs)) = length (filter P xs)" for P and xs :: "seat_row list"
    by (simp add: filter_sort)
  with assms(4) show "length (filter (\<lambda>y. ?key y \<le> ?key r) (sort_key ?key (filter (\<lambda>r. stranded showtimes now items r \<and> \<not> locked r) rows))) \<le> HELD_SEAT_RECOVERY_BATCH_SIZE"
    by (simp add: conj_ac)
qed (use assms in simp_all)

text \<open>C12: A seat whose release job was lost goes back on sale. A seat on hold for more than 15 minutes past its
  time, for a show more than 5 minutes away, whose job has not been kept for the show's start and that no valid
  ticket owns, is available after the next sweep, whatever became of the job, unless another transaction has locked
  the row or 200 other such seats have waited at least as long.\<close>
theorem stranded_seat_is_freed:
  assumes "r \<in> set (cw_seats w)" and "sea_status r = ''held_cancelled''"
    and "sea_reopenHoldUntil r = Some held" and "held + 15 * 60 * 1000 < now"
    and "sea_reopenJobId r \<noteq> Some SHOWTIME_IMMINENT_REOPEN_REASON"
    and "showtimes (sea_showtimeId r) = Some start" and "now + 5 * 60 * 1000 < start"
    and "noActiveTicketItemOnSeat (cw_items w) r" and "\<not> locked r"
    and "length (filter (\<lambda>q. stranded showtimes now (cw_items w) q \<and> \<not> locked q \<and> or_else (sea_reopenHoldUntil q) 0 \<le> held) (cw_seats w)) \<le> 200"
  shows "\<exists>freed w1. releaseExpiredHeldSeats showtimes now locked w = (Inr freed, w1) \<and>
    (sea_showtimeId r, sea_seatKey r) \<in> set freed \<and>
    (\<exists>q \<in> set (cw_seats w1). sea_showtimeId q = sea_showtimeId r \<and> sea_floorKey q = sea_floorKey r \<and> sea_seatKey q = sea_seatKey r
       \<and> sea_status q = ''available'' \<and> sea_reopenJobId q = None)"
proof -
  have "r \<in> set (sweep_candidates showtimes now locked (cw_items w) (cw_seats w))"
    by (rule swept) (use assms in \<open>simp_all add: stranded_def HELD_SEAT_RECOVERY_GRACE_MS_def
      HELD_SEAT_RECOVERY_SHOWTIME_GUARD_MS_def HELD_SEAT_RECOVERY_BATCH_SIZE_def\<close>)
  with assms(1) show ?thesis
    by (auto simp: releaseExpiredHeldSeats_def Let_def change_rows_def free_seat_def intro!: bexI [of _ "free_seat r"] rev_image_eqI [of r])
qed

end
