(* ===== verification/CancelRefund.thy ===== *)
theory CancelRefund
  imports CancelTheorems
begin

text \<open>
  What a cancellation without a quote records as refunded (\<open>attributeQuotelessProviderRefund\<close>): the total of the
  order's cancelled items is what the payment provider gave back, or the payment is marked for reconciliation.
\<close>

definition returned :: "finalize_input \<Rightarrow> issued_item list \<Rightarrow> int" where
  "returned i items = sum_list (map itm_refundableAmount (filter (\<lambda>k. of_order i k \<and> itm_status k = ''cancelled'') items))"

lemma sum_partition:
  "sum_list (map g (filter C xs)) = sum_list (map g (filter (\<lambda>x. C x \<and> D x) xs)) + (sum_list (map g (filter (\<lambda>x. C x \<and> \<not> D x) xs)) :: int)"
  by (induction xs) auto

lemma filter_changed:
  assumes "\<And>k. k \<in> set xs \<Longrightarrow> Q (if P k then f k else k) \<longleftrightarrow> P k"
  shows "filter Q (change_rows P f xs) = changed_rows P f xs"
proof -
  have "filter (Q \<circ> (\<lambda>r. if P r then f r else r)) xs = filter P xs"
    by (rule filter_cong) (use assms in auto)
  then show ?thesis by (simp add: change_rows_def changed_rows_def filter_map)
qed

lemma filter_unchanged:
  assumes "\<And>k. k \<in> set xs \<Longrightarrow> P k \<Longrightarrow> \<not> Q k \<and> \<not> Q (f k)"
  shows "filter Q (change_rows P f xs) = filter Q xs"
  using assms by (induction xs) (auto simp: change_rows_def)

text \<open>Items of the order, by whether this cancellation cancelled them.\<close>

lemma newly_and_earlier:
  assumes "distinct (map itm_id xs)" and "\<And>k. P k \<Longrightarrow> of_order i k"
    and "\<And>k. of_order i (f k) = of_order i k \<and> itm_id (f k) = itm_id k \<and> itm_status (f k) = ''cancelled''"
  shows "filter (\<lambda>k. (of_order i k \<and> itm_status k = ''cancelled'') \<and> itm_id k \<in> itm_id ` set (changed_rows P f xs)) (change_rows P f xs) = changed_rows P f xs"
proof (rule filter_changed)
  fix k
  assume k: "k \<in> set xs"
  have "P k" if "itm_id k \<in> itm_id ` set (changed_rows P f xs)"
  proof -
    from that assms(3) obtain q where "q \<in> set xs" "P q" "itm_id q = itm_id k" by (auto simp: changed_rows_def)
    with assms(1) k show ?thesis by (metis distinct_map inj_onD)
  qed
  moreover have "itm_id k \<in> itm_id ` set (changed_rows P f xs)" if "P k"
    using that k assms(3) by (auto simp: changed_rows_def image_image intro!: image_eqI [of _ _ k])
  ultimately show "((of_order i (if P k then f k else k) \<and> itm_status (if P k then f k else k) = ''cancelled'') \<and>
      itm_id (if P k then f k else k) \<in> itm_id ` set (changed_rows P f xs)) \<longleftrightarrow> P k"
    using assms(2,3) by auto
qed

lemma returned_split:
  assumes "distinct (map itm_id xs)" and "\<And>k. P k \<Longrightarrow> of_order i k"
    and "\<And>k. of_order i (f k) = of_order i k \<and> itm_id (f k) = itm_id k \<and> itm_status (f k) = ''cancelled''"
  shows "returned i (change_rows P f xs) = sum_list (map itm_refundableAmount (changed_rows P f xs)) +
    sum_list (map itm_refundableAmount (filter (\<lambda>k. itm_id k \<notin> itm_id ` set (changed_rows P f xs))
      (filter (\<lambda>k. of_order i k \<and> itm_status k = ''cancelled'') (change_rows P f xs))))"
  unfolding returned_def
  by (subst sum_partition [where D = "\<lambda>k. itm_id k \<in> itm_id ` set (changed_rows P f xs)"], subst newly_and_earlier [OF assms])
    (simp_all add: conj_commute)

lemma attributed_total:
  assumes "distinct (map itm_id ks)" and "filter (\<lambda>k. (of_order i k \<and> itm_status k = ''cancelled'') \<and> itm_id k \<in> {itm_id k1}) ks = [k1]"
  shows "returned i (change_rows (\<lambda>k. itm_id k = itm_id k1) (attribute_amount a) ks) = a +
    sum_list (map itm_refundableAmount (filter (\<lambda>k. itm_id k \<notin> {itm_id k1}) (filter (\<lambda>k. of_order i k \<and> itm_status k = ''cancelled'') ks)))"
proof -
  let ?C = "\<lambda>k. of_order i k \<and> itm_status k = ''cancelled''"
  let ?g = "\<lambda>r. if itm_id r = itm_id k1 then attribute_amount a r else r"
  have g: "?C (?g k) = ?C k" "itm_id (?g k) = itm_id k" for k by (simp_all add: attribute_amount_def of_order_def)
  have "filter (\<lambda>k. ?C k \<and> itm_id k \<in> {itm_id k1}) (map ?g ks) = map ?g (filter (\<lambda>k. ?C k \<and> itm_id k \<in> {itm_id k1}) ks)"
    unfolding filter_map comp_def g ..
  then have one: "filter (\<lambda>k. ?C k \<and> itm_id k \<in> {itm_id k1}) (change_rows (\<lambda>k. itm_id k = itm_id k1) (attribute_amount a) ks) = [attribute_amount a k1]"
    unfolding assms(2) change_rows_def by simp
  have rest: "filter (\<lambda>k. ?C k \<and> itm_id k \<notin> {itm_id k1}) (change_rows (\<lambda>k. itm_id k = itm_id k1) (attribute_amount a) ks) =
      filter (\<lambda>k. ?C k \<and> itm_id k \<notin> {itm_id k1}) ks"
    by (rule filter_unchanged) (simp add: attribute_amount_def)
  show ?thesis unfolding returned_def
    by (subst sum_partition [where D = "\<lambda>k. itm_id k \<in> {itm_id k1}"], subst one, subst rest) (simp add: attribute_amount_def conj_commute)
qed

definition left_to_reconcile :: "finalize_input \<Rightarrow> cancel_world \<Rightarrow> bool" where
  "left_to_reconcile i w \<longleftrightarrow> (\<exists>rl. rl_status rl \<in> {Unverified, Unattributed} \<and>
     (\<forall>p \<in> set (cw_payments w). pmt_id p = fi_paymentId i \<longrightarrow> pmt_reconciliation p = Some rl))"

lemma marked: "rl_status rl \<in> {Unverified, Unattributed} \<Longrightarrow>
  left_to_reconcile i (w\<lparr>cw_payments := change_rows (\<lambda>p. pmt_id p = fi_paymentId i) (\<lambda>p. p\<lparr>pmt_reconciliation := Some rl\<rparr>) (cw_payments w)\<rparr>)"
  unfolding left_to_reconcile_def by (rule exI [of _ rl]) (auto simp: change_rows_def split: if_splits)

lemma attributed:
  assumes "reconcile_amounts response newly earlier now = Some rl" and "rl_status rl = Attributed iid"
  obtains k r tot bal where "newly = [k]" "iid = itm_id k" "response = Some r" "pr_totalAmount r = Some tot" "pr_balanceAmount r = Some bal"
    "rl_providerCancelAmount rl = Some (tot - bal - 100 * sum_list (map itm_refundableAmount earlier))"
    "(tot - bal - 100 * sum_list (map itm_refundableAmount earlier)) mod 100 = 0"
  using assms unfolding reconcile_amounts_def
  by (auto simp: Let_def split: option.splits if_splits list.splits)

lemma exact_refund:
  assumes "reconcile_amounts (Some r) newly earlier now = None" and "pr_totalAmount r = Some tot" and "pr_balanceAmount r = Some bal"
  shows "tot - bal = 100 * (sum_list (map (\<lambda>k. itm_price k + itm_serviceFee k) newly) + sum_list (map itm_refundableAmount earlier))"
  using assms by (auto simp: reconcile_amounts_def Let_def split: if_splits)

lemma attribution_post:
  assumes "newly \<noteq> []" and "\<not> fi_localOnly i" and "fi_response i = Some r" and "pr_totalAmount r = Some tot" and "pr_balanceAmount r = Some bal"
    and sum: "returned i (cw_items w) = sum_list (map (\<lambda>k. itm_price k + itm_serviceFee k) newly) + sum_list (map itm_refundableAmount earlier)"
    and one: "\<And>k a. newly = [k] \<Longrightarrow> returned i (change_rows (\<lambda>q. itm_id q = itm_id k) (attribute_amount a) (cw_items w)) = a + sum_list (map itm_refundableAmount earlier)"
  shows "wp (attributeQuotelessProviderRefund i now newly earlier)
    (\<lambda>_ w1. 100 * returned i (cw_items w1) = tot - bal \<or> left_to_reconcile i w1) (\<lambda>_ _. True) w"
proof (cases "reconcile_amounts (Some r) newly earlier now")
  case None
  with exact_refund [OF None assms(4,5)] sum assms(1,2,3) show ?thesis
    by (simp add: attributeQuotelessProviderRefund_def wp_eqs)
next
  case (Some rl)
  show ?thesis
  proof (cases "rl_status rl")
    case (Attributed iid)
    from Some Attributed obtain k r1 tot1 bal1 where k: "newly = [k]" "iid = itm_id k" "Some r = Some r1" "pr_totalAmount r1 = Some tot1" "pr_balanceAmount r1 = Some bal1"
      "rl_providerCancelAmount rl = Some (tot1 - bal1 - 100 * sum_list (map itm_refundableAmount earlier))"
      "(tot1 - bal1 - 100 * sum_list (map itm_refundableAmount earlier)) mod 100 = 0"
      by (rule attributed)
    have t: "tot1 = tot" "bal1 = bal" using k(3,4,5) assms(4,5) by auto
    define amount where "amount = tot - bal - 100 * sum_list (map itm_refundableAmount earlier)"
    have r1: "rl_providerCancelAmount rl = Some amount" "amount mod 100 = 0" using k(6,7) unfolding t amount_def .
    have "returned i (change_rows (\<lambda>q. itm_id q = itm_id k) (attribute_amount (amount div 100)) (cw_items w)) =
        amount div 100 + sum_list (map itm_refundableAmount earlier)"
      by (rule one [OF k(1)])
    moreover have "100 * (amount div 100) = amount" using mult_div_mod_eq [of 100 amount] unfolding r1(2) by (simp only: add_0_right)
    ultimately have total: "100 * returned i (change_rows (\<lambda>q. itm_id q = itm_id k) (attribute_amount (amount div 100)) (cw_items w)) = tot - bal"
      unfolding amount_def by simp
    show ?thesis
      unfolding attributeQuotelessProviderRefund_def assms(3) Some option.case Attributed reconciliation_status.case k(2)
      using assms(1,2) by (simp add: wp_eqs wp_update_items wp_tables r1(1) total)
  qed (use assms(1,2,3) Some in \<open>simp_all add: attributeQuotelessProviderRefund_def wp_eqs wp_tables marked\<close>)
qed

text \<open>C10: What the database says was refunded is what the provider refunded. After the cancellation of an order
  without a quote, where the provider reports the charged total and the balance that is left, the refundable
  amounts of the order's cancelled tickets add up exactly to the total less the balance, earlier partial
  cancellations included; or else the payment carries a reconciliation record that says that the amount could not be
  verified or attributed.\<close>
theorem quoteless_refund_accounts:
  assumes run: "cancel_quoteless i now seats w = (Inr (ids, held), w1)" and "distinct (map itm_id (cw_items w))" and "ids \<noteq> []"
    and "\<not> fi_localOnly i" and "fi_response i = Some r" and "pr_totalAmount r = Some tot" and "pr_balanceAmount r = Some bal"
  shows "100 * sum_list (map itm_refundableAmount (filter (\<lambda>k. of_order i k \<and> itm_status k = ''cancelled'') (cw_items w1))) = tot - bal \<or>
    (\<exists>rl. rl_status rl \<in> {Unverified, Unattributed} \<and>
       (\<forall>p \<in> set (cw_payments w1). pmt_id p = fi_paymentId i \<longrightarrow> pmt_reconciliation p = Some rl))"
proof -
  define P where "P k = (of_order i k \<and> itm_seatKey k \<in> set (map seatKey seats) \<and> is_active_item k)" for k
  define f where "f k = cancel_item i now 0 (itm_serviceFee k) (itm_price k + itm_serviceFee k) k" for k
  let ?ks = "change_rows P f (cw_items w)"
  let ?new = "changed_rows P f (cw_items w)"
  let ?old = "filter (\<lambda>k. itm_id k \<notin> itm_id ` set ?new) (filter (\<lambda>k. of_order i k \<and> itm_status k = ''cancelled'') ?ks)"
  have f: "of_order i (f k) = of_order i k \<and> itm_id (f k) = itm_id k \<and> itm_status (f k) = ''cancelled''" for k
    by (simp add: f_def cancel_item_def of_order_def)
  note split = newly_and_earlier [OF assms(2) _ f, of P] returned_split [OF assms(2) _ f, of P]
  have face: "map itm_refundableAmount ?new = map (\<lambda>k. itm_price k + itm_serviceFee k) ?new"
    by (simp add: changed_rows_def f_def cancel_item_def)
  have d: "distinct (map itm_id ?ks)"
  proof -
    have "map itm_id ?ks = map itm_id (cw_items w)" using f by (auto simp: change_rows_def)
    with assms(2) show ?thesis by simp
  qed
  have one: "returned i (change_rows (\<lambda>q. itm_id q = itm_id k) (attribute_amount a) ?ks) = a + sum_list (map itm_refundableAmount ?old)"
    if "?new = [k]" for k a
    using attributed_total [OF d, of i k a] split(1) that by (simp add: P_def)
  have att: "wp (attributeQuotelessProviderRefund i now ?new ?old)
      (\<lambda>_ w1. 100 * returned i (cw_items w1) = tot - bal \<or> left_to_reconcile i w1) (\<lambda>_ _. True) (w\<lparr>cw_items := ?ks\<rparr>)" if "?new \<noteq> []"
    by (rule attribution_post) (use that assms one split(2) face in \<open>simp_all add: P_def\<close>)
  have old: "?old = filter (\<lambda>x. of_order i x \<and> itm_status x = ''cancelled'' \<and> itm_id x \<notin> itm_id ` set ?new) ?ks"
    by (simp add: conj_ac)
  have "wp (cancel_quoteless i now seats)
      (\<lambda>(ids, held) w1. ids \<noteq> [] \<longrightarrow> 100 * returned i (cw_items w1) = tot - bal \<or> left_to_reconcile i w1) (\<lambda>_ _. True) w"
    unfolding cancel_quoteless_def Let_def wp_bnd wp_update_items wp_inspect wp_reject_if P_def [symmetric] f_def [symmetric]
    by (cases "?new = []") (auto simp: wp_eqs attributeQuotelessProviderRefund_def [of _ _ "[]"] intro!: wp_mono [OF att [unfolded old]])
  from wp_result [OF this run] assms(3) show ?thesis by (simp add: returned_def left_to_reconcile_def)
qed

end
