(* ===== verification/CancelWitness.thy ===== *)
theory CancelWitness
  imports CancelRefund
begin

text \<open>A concrete order with two tickets, and the theorems on cancellation applied to it.\<close>

definition demo_ticket :: "js_string \<Rightarrow> js_string \<Rightarrow> issued_item" where
  "demo_ticket t seat = \<lparr>itm_id = t, itm_reservationId = ''o'', itm_paymentId = ''p'', itm_showtimeId = ''s'', itm_seatId = seat,
     itm_floorKey = ''1F'', itm_seatKey = ''1F:'' @ seat, itm_price = 50000, itm_serviceFee = 2000, itm_status = ''active'',
     itm_cancelledAt = None, itm_cancelReason = None, itm_cancellationFee = 0, itm_serviceFeeRefund = 0, itm_refundableAmount = 0,
     itm_command = None, itm_reopenState = ''not_required'', itm_reopenHoldUntil = None, itm_reopenJobId = None\<rparr>"

definition demo_seat :: "js_string \<Rightarrow> seat_row" where
  "demo_seat seat = \<lparr>sea_showtimeId = ''s'', sea_floorKey = ''1F'', sea_seatKey = ''1F:'' @ seat, sea_status = ''sold'',
     sea_lockedBy = None, sea_lockedUntil = None, sea_soldAt = Some 5, sea_heldCancelledAt = None, sea_reopenHoldUntil = None, sea_reopenJobId = None\<rparr>"

definition demo_order :: cancel_world where
  "demo_order = \<lparr>cw_orders = [\<lparr>ord_id = ''o'', ord_status = ''CONFIRMED'', ord_cancelledAt = None, ord_cancelReason = None\<rparr>],
     cw_payments = [\<lparr>pmt_id = ''p'', pmt_status = ''DONE'', pmt_cancelledAt = None, pmt_cancelReason = None, pmt_refundCompletedAt = None,
       pmt_cancellationSource = None, pmt_cancellationQuote = None, pmt_providerCancellation = None, pmt_reconciliation = None\<rparr>],
     cw_refunds = [], cw_items = [demo_ticket ''t1'' ''A-1'', demo_ticket ''t2'' ''A-2''],
     cw_credentials = [\<lparr>crd_reservationId = ''o'', crd_paymentId = ''p'', crd_showtimeId = ''s'', crd_ticketItemId = Some ''t1'',
       crd_status = ''active'', crd_revokedAt = None\<rparr>],
     cw_seats = [demo_seat ''A-1'', demo_seat ''A-2''],
     cw_entitlements = [\<lparr>ent_ticketItemId = ''t1'', ent_state = ''available'', ent_inactiveReason = None\<rparr>],
     cw_audit = [], cw_jobs = []\<rparr>"

definition demo_cancel :: finalize_input where
  "demo_cancel = \<lparr>fi_reservationId = ''o'', fi_showtimeId = ''s'', fi_paymentId = ''p'', fi_holdMinMinutes = None, fi_holdMaxMinutes = None,
     fi_seats = [item_seat_input (demo_ticket ''t1'' ''A-1''), item_seat_input (demo_ticket ''t2'' ''A-2'')],
     fi_refundId = None, fi_item = None, fi_quote = None, fi_reason = ''user'',
     fi_response = Some \<lparr>pr_status = Some ''CANCELED'', pr_balanceAmount = Some 0, pr_totalAmount = Some 10400000, pr_currency = Some ''KRW'',
       pr_cancels = None, pr_json = JObj [(''secret'', JText ''x'')]\<rparr>,
     fi_adminId = None, fi_source = RefundRequest, fi_localOnly = False\<rparr>"

definition demo_run :: "(cancel_failure + finalize_result) \<times> cancel_world" where
  "demo_run = finalizeFullPaymentCancellation demo_cancel 1000 0 ''job'' True True demo_order"

lemma demo_starts_free: "seats_free demo_order"
  by code_simp

theorem no_seat_freed_under_ticket_witness: "seats_free (snd demo_run)"
proof (rule no_seat_freed_under_ticket [of "\<lambda>_. None" demo_order])
  show "(seat_step (\<lambda>_. None))\<^sup>*\<^sup>* demo_order (snd demo_run)"
    unfolding demo_run_def by (intro r_into_rtranclp seat_step.finalize [OF surjective_pairing])
qed (rule demo_starts_free)

lemma demo_commits:
  "\<exists>seats states w1. cancel_transaction (finalize_steps demo_cancel 1000 61000 ''job'') demo_order = (Inr (Some (seats, states)), w1) \<and> seats \<noteq> []"
proof -
  have "map_sum (\<lambda>_. ()) (map_option (\<lambda>x. fst x \<noteq> [])) (fst (cancel_transaction (finalize_steps demo_cancel 1000 61000 ''job'') demo_order)) = Inr (Some True)"
    by code_simp
  then show ?thesis by (cases "cancel_transaction (finalize_steps demo_cancel 1000 61000 ''job'') demo_order") (auto simp: map_sum_def split: sum.splits)
qed

theorem cancellation_is_complete_witness:
  "\<exists>seats states w1. cancel_transaction (finalize_steps demo_cancel 1000 61000 ''job'') demo_order = (Inr (Some (seats, states)), w1) \<and> seats \<noteq> []
     \<and> (\<forall>s \<in> set seats. seat_held demo_cancel s w1 \<or> seat_owned demo_cancel s w1)"
proof -
  from demo_commits obtain seats states w1 where
    run: "cancel_transaction (finalize_steps demo_cancel 1000 61000 ''job'') demo_order = (Inr (Some (seats, states)), w1)" "seats \<noteq> []" by blast
  from cancellation_is_complete [OF run(1)] have "\<forall>s \<in> set seats. seat_held demo_cancel s w1 \<or> seat_owned demo_cancel s w1"
    unfolding sum.case option.case prod.case by (elim conjE)
  with run show ?thesis by blast
qed

lemma demo_finishes: "\<exists>res. demo_run = (Inr res, snd demo_run)"
proof -
  have "map_sum (\<lambda>_. ()) (\<lambda>_. ()) (fst demo_run) = Inr ()" by code_simp
  then show ?thesis by (cases "fst demo_run") (auto simp: prod_eq_iff)
qed

theorem replayed_cancellation_is_ignored_witness:
  "finalizeFullPaymentCancellation (demo_cancel\<lparr>fi_source := CancelWebhook\<rparr>) 2000 7 ''job2'' True True (snd demo_run) =
    (Inr \<lparr>fz_releaseJobId = JOB_ENQUEUE_FAILED, fz_releaseEnqueued = False, fz_alreadyFinalized = True\<rparr>, snd demo_run)"
proof -
  from demo_finishes obtain res where "finalizeFullPaymentCancellation demo_cancel 1000 0 ''job'' True True demo_order = (Inr res, snd demo_run)"
    unfolding demo_run_def by blast
  from replayed_cancellation_is_ignored [OF this] show ?thesis by (simp add: demo_cancel_def)
qed

text \<open>The seats of the demo order after a release job that was never sent, half an hour later.\<close>

definition demo_stranded :: seat_row where
  "demo_stranded = (demo_seat ''A-1'')\<lparr>sea_status := ''held_cancelled'', sea_soldAt := None, sea_heldCancelledAt := Some 1000,
     sea_reopenHoldUntil := Some 61000, sea_reopenJobId := Some JOB_ENQUEUE_FAILED\<rparr>"

theorem stranded_seat_is_freed_witness:
  "\<exists>freed w1. releaseExpiredHeldSeats (\<lambda>_. Some 90000000) 2000000 (\<lambda>_. False) (demo_order\<lparr>cw_items := [], cw_seats := [demo_stranded]\<rparr>) = (Inr freed, w1)
     \<and> (''s'', ''1F:A-1'') \<in> set freed"
proof -
  let ?w = "demo_order\<lparr>cw_items := [], cw_seats := [demo_stranded]\<rparr>"
  have "\<exists>freed w1. releaseExpiredHeldSeats (\<lambda>_. Some 90000000) 2000000 (\<lambda>_. False) ?w = (Inr freed, w1) \<and>
      (sea_showtimeId demo_stranded, sea_seatKey demo_stranded) \<in> set freed \<and>
      (\<exists>q \<in> set (cw_seats w1). sea_showtimeId q = sea_showtimeId demo_stranded \<and> sea_floorKey q = sea_floorKey demo_stranded \<and>
        sea_seatKey q = sea_seatKey demo_stranded \<and> sea_status q = ''available'' \<and> sea_reopenJobId q = None)"
    by (rule stranded_seat_is_freed [where held = 61000 and start = 90000000])
      (simp_all add: demo_stranded_def demo_seat_def noActiveTicketItemOnSeat_def JOB_ENQUEUE_FAILED_def SHOWTIME_IMMINENT_REOPEN_REASON_def)
  then show ?thesis by (auto simp: demo_stranded_def demo_seat_def)
qed

lemma demo_cancels_both:
  "\<exists>ids held w1. cancel_quoteless demo_cancel 1000 (uniqueSeatIdentities (fi_seats demo_cancel)) demo_order = (Inr (ids, held), w1) \<and> ids \<noteq> []"
proof -
  have "map_sum (\<lambda>_. ()) (\<lambda>x. fst x \<noteq> []) (fst (cancel_quoteless demo_cancel 1000 (uniqueSeatIdentities (fi_seats demo_cancel)) demo_order)) = Inr True"
    by code_simp
  then show ?thesis
    by (cases "cancel_quoteless demo_cancel 1000 (uniqueSeatIdentities (fi_seats demo_cancel)) demo_order") (auto simp: map_sum_def split: sum.splits)
qed

theorem quoteless_refund_accounts_witness:
  "\<exists>ids held w1. cancel_quoteless demo_cancel 1000 (uniqueSeatIdentities (fi_seats demo_cancel)) demo_order = (Inr (ids, held), w1) \<and>
    (100 * sum_list (map itm_refundableAmount (filter (\<lambda>k. of_order demo_cancel k \<and> itm_status k = ''cancelled'') (cw_items w1))) = 10400000 \<or>
    (\<exists>rl. rl_status rl \<in> {Unverified, Unattributed} \<and>
       (\<forall>p \<in> set (cw_payments w1). pmt_id p = ''p'' \<longrightarrow> pmt_reconciliation p = Some rl)))"
proof -
  from demo_cancels_both obtain ids held w1 where
    run: "cancel_quoteless demo_cancel 1000 (uniqueSeatIdentities (fi_seats demo_cancel)) demo_order = (Inr (ids, held), w1)" "ids \<noteq> []" by blast
  have "distinct (map itm_id (cw_items demo_order))" "\<not> fi_localOnly demo_cancel"
    "map_option pr_totalAmount (fi_response demo_cancel) = Some (Some 10400000)" "map_option pr_balanceAmount (fi_response demo_cancel) = Some (Some 0)"
    by code_simp+
  moreover obtain r where "fi_response demo_cancel = Some r" by (simp add: demo_cancel_def)
  ultimately show ?thesis
    using quoteless_refund_accounts [OF run(1) _ run(2), of r 10400000 0] run(1) by (auto simp: demo_cancel_def)
qed

end
