(* ===== verification/EntryWorld.thy ===== *)
theory EntryWorld
  imports Effects DbErrors
begin

text \<open>
  The gate: QR tokens and the rows that check-in and benefit redemption work on
  (\<open>modules/ticket/qr-ticket.service.ts\<close>, \<open>modules/field-operations\<close>). Signing is a library: \<open>ge_decode\<close> and
  \<open>ge_verify\<close> answer for \<open>JwtService\<close>, \<open>ge_tokenRef\<close> is the truncated SHA-256 of a token.
\<close>

section \<open>Tokens\<close>

record seat_claims =
  sc_seatId :: "js_string option"
  sc_seatKey :: "js_string option"
  sc_floorKey :: "js_string option"
  sc_floorLabel :: "js_string option"
  sc_row :: "js_string option"
  sc_number :: "js_string option"
  sc_tierName :: "js_string option"

text \<open>A claim is \<open>None\<close> when it is missing or no string; \<open>cl_exp\<close> is in seconds.\<close>

record token_claims =
  cl_exp :: "int option"
  cl_type :: "js_string option"
  cl_jti :: "js_string option"
  cl_reservationId :: "js_string option"
  cl_paymentId :: "js_string option"
  cl_showtimeId :: "js_string option"
  cl_ticketItemId :: "js_string option"
  cl_seatIdentity :: "seat_claims option"
  cl_secretVersion :: "js_string option"

datatype token_answer = TokenOk token_claims | TokenInvalid | TokenBroken

text \<open>\<open>QR_TICKET_SECRET_KEYRING_JSON\<close> as \<open>JSON.parse\<close> leaves it: an object's string entries, in order.\<close>

datatype keyring_text = NoKeyring | NotJson | NotAnObject | KeyringEntries "(js_string \<times> js_string option) list"

datatype gate_error = Unauthorized | Conflict | Unavailable | GateFailed

record gate_env =
  ge_decode :: "js_string \<Rightarrow> js_string option"
  ge_verify :: "js_string \<Rightarrow> js_string \<Rightarrow> token_answer"
  ge_tokenRef :: "js_string \<Rightarrow> js_string"
  ge_secretVersion :: "js_string option"
  ge_secret :: "js_string option"
  ge_keyring :: keyring_text

definition configured :: "js_string option \<Rightarrow> gate_error + js_string" where
  "configured v = (case map_option js_trim v of None \<Rightarrow> Inl GateFailed | Some [] \<Rightarrow> Inl GateFailed | Some s \<Rightarrow> Inr s)"

definition getCurrentSecretVersion :: "gate_env \<Rightarrow> gate_error + js_string" where
  "getCurrentSecretVersion E = configured (ge_secretVersion E)"

definition getCurrentSecret :: "gate_env \<Rightarrow> gate_error + js_string" where
  "getCurrentSecret E = configured (ge_secret E)"

text \<open>A \<open>Map\<close> from versions to secrets.\<close>

fun set_entries :: "(js_string \<Rightarrow> js_string option) \<Rightarrow> (js_string \<times> js_string option) list \<Rightarrow> js_string \<Rightarrow> js_string option" where
  "set_entries m [] = m"
| "set_entries m ((version, secret) # es) =
     (case secret of
        None \<Rightarrow> set_entries m es
      | Some s \<Rightarrow> if js_trim s = [] then set_entries m es else set_entries (m(version \<mapsto> s)) es)"

definition parseConfiguredKeyring :: "gate_env \<Rightarrow> gate_error + (js_string \<Rightarrow> js_string option)" where
  "parseConfiguredKeyring E =
     (case ge_keyring E of
        NoKeyring \<Rightarrow> Inr Map.empty
      | NotJson \<Rightarrow> Inl GateFailed
      | NotAnObject \<Rightarrow> Inl GateFailed
      | KeyringEntries es \<Rightarrow> Inr (set_entries Map.empty es))"

definition loadSecretKeyring :: "gate_env \<Rightarrow> gate_error + (js_string \<Rightarrow> js_string option)" where
  "loadSecretKeyring E =
     (case parseConfiguredKeyring E of
        Inl e \<Rightarrow> Inl e
      | Inr m \<Rightarrow>
          (case getCurrentSecretVersion E of
             Inl e \<Rightarrow> Inl e
           | Inr version \<Rightarrow>
               (case getCurrentSecret E of Inl e \<Rightarrow> Inl e | Inr secret \<Rightarrow> Inr (m(version \<mapsto> secret)))))"

definition findKeyringSecret :: "(js_string \<Rightarrow> js_string option) \<Rightarrow> js_string \<Rightarrow> js_string option" where
  "findKeyringSecret m version = (case m version of None \<Rightarrow> None | Some [] \<Rightarrow> None | Some s \<Rightarrow> Some s)"

definition getVerificationSecret :: "gate_env \<Rightarrow> js_string \<Rightarrow> gate_error + js_string" where
  "getVerificationSecret E version =
     (case loadSecretKeyring E of
        Inl e \<Rightarrow> Inl e
      | Inr m \<Rightarrow> (case findKeyringSecret m version of None \<Rightarrow> Inl Unauthorized | Some s \<Rightarrow> Inr s))"

definition filled :: "js_string option \<Rightarrow> bool" where
  "filled v \<longleftrightarrow> v \<noteq> None \<and> v \<noteq> Some []"

definition isSeatIdentity :: "seat_claims option \<Rightarrow> bool" where
  "isSeatIdentity v =
     (case v of None \<Rightarrow> False
      | Some c \<Rightarrow> list_all filled [sc_seatId c, sc_seatKey c, sc_floorKey c, sc_floorLabel c, sc_row c, sc_number c, sc_tierName c])"

definition isSeatLevelPayload :: "token_claims \<Rightarrow> bool" where
  "isSeatLevelPayload c \<longleftrightarrow> filled (cl_ticketItemId c) \<and> isSeatIdentity (cl_seatIdentity c)"

text \<open>Read with \<open>allowExpiredForScanner\<close>: an expired signature still identifies its ticket.\<close>

definition verifyTicketPayload :: "gate_env \<Rightarrow> js_string \<Rightarrow> gate_error + token_claims" where
  "verifyTicketPayload E token =
     (case ge_decode E token of
        None \<Rightarrow> Inl Unauthorized
      | Some [] \<Rightarrow> Inl Unauthorized
      | Some version \<Rightarrow>
          (case getVerificationSecret E version of
             Inl e \<Rightarrow> Inl e
           | Inr secret \<Rightarrow>
               (case ge_verify E secret token of
                  TokenInvalid \<Rightarrow> Inl Unauthorized
                | TokenBroken \<Rightarrow> Inl GateFailed
                | TokenOk c \<Rightarrow>
                    if cl_type c \<noteq> Some ''qr-ticket'' \<or> cl_secretVersion c \<noteq> Some version \<or> \<not> filled (cl_jti c) \<or> \<not> filled (cl_reservationId c)
                       \<or> \<not> filled (cl_paymentId c) \<or> \<not> filled (cl_showtimeId c) then Inl Unauthorized
                    else if \<not> isSeatLevelPayload c then Inl Unauthorized
                    else Inr c)))"

definition maskJti :: "js_string \<Rightarrow> js_string" where
  "maskJti jti =
     (if length jti \<le> 10 then take 2 jti @ ''...'' @ drop (length jti - 2) jti
      else take 6 jti @ ''...'' @ drop (length jti - 4) jti)"

section \<open>Rows\<close>

record qr_credential =
  qc_id :: js_string
  qc_ticketItemId :: "js_string option"
  qc_reservationId :: js_string
  qc_paymentId :: js_string
  qc_showtimeId :: js_string
  qc_jti :: js_string
  qc_status :: js_string
  qc_expiresAt :: "int option"
  qc_usedAt :: "int option"
  qc_revokedAt :: "int option"

record entry_item =
  en_id :: js_string
  en_status :: js_string
  en_entered :: bool
  en_enteredAt :: "int option"

datatype scan_result =
    ScanSuccess | ScanDuplicate | ScanTampered | ScanRefundedCancelled | ScanExpired | ScanWrongShowtime | ScanAlreadyUsed

datatype check_in_outcome =
    Processable | Entered | Duplicate | Tampered | RefundedCancelled | ExpiredTicket | WrongShowtime | AlreadyUsed
  | OfflinePending | SyncedOffline | RejectedOffline

datatype rejection = RejectionFor check_in_outcome | CancellationPendingRejection

datatype scan_stage = VerifyStage | ConsumeStage

datatype scan_source = OnlineScan | OfflineScan

datatype sync_state = SyncNotRequired | SyncDone | SyncRejected

record scan_event =
  sv_id :: js_string
  sv_ticketId :: "js_string option"
  sv_ticketItemId :: "js_string option"
  sv_reservationId :: "js_string option"
  sv_showtimeId :: "js_string option"
  sv_requestedShowtimeId :: "js_string option"
  sv_scannerUserId :: js_string
  sv_result :: scan_result
  sv_source :: scan_source
  sv_syncState :: sync_state
  sv_deviceAttemptId :: "js_string option"
  sv_maskedJti :: "js_string option"
  sv_rejectionReason :: "rejection option"
  sv_stage :: "scan_stage option"
  sv_redactedTokenRef :: "js_string option"
  sv_metaShowtimeId :: "js_string option"
  sv_scannedAt :: int

datatype benefit_source = FromConfiguration | FromLiveRun | FromTestRun | FromRollback

record gate_benefit =
  be_id :: js_string
  be_showtimeId :: js_string
  be_ticketItemId :: js_string
  be_state :: js_string
  be_redeemedAt :: "int option"
  be_redeemedByUserId :: "js_string option"
  be_source :: benefit_source
  be_runId :: "js_string option"
  be_copyParses :: bool

datatype redemption_outcome = Redeemed | DuplicateRedemption | NotEligible | InactiveBenefit | TamperedToken | OtherShowtime

record redemption_row =
  rr_id :: js_string
  rr_showtimeId :: js_string
  rr_requestedShowtimeId :: "js_string option"
  rr_ticketItemId :: js_string
  rr_benefitEntitlementId :: js_string
  rr_scannerUserId :: js_string
  rr_deviceAttemptId :: js_string
  rr_redactedTokenRef :: js_string
  rr_result :: redemption_outcome
  rr_createdAt :: int

datatype audit_status = AuditSuccess | AuditDenied

record gate_audit =
  ga_action :: js_string
  ga_status :: audit_status
  ga_resourceId :: js_string
  ga_actor :: js_string

text \<open>Orders and payments by their id, with their status.\<close>

record gate_world =
  gw_credentials :: "qr_credential list"
  gw_items :: "entry_item list"
  gw_orders :: "(js_string \<times> js_string) list"
  gw_payments :: "(js_string \<times> js_string) list"
  gw_events :: "scan_event list"
  gw_benefits :: "gate_benefit list"
  gw_redemptions :: "redemption_row list"
  gw_audit :: "gate_audit list"

type_synonym 'a gate_prog = "(gate_world, gate_error, 'a) prog"

definition gate_transaction :: "'a gate_prog \<Rightarrow> 'a gate_prog" where
  "gate_transaction p w = (case p w of (Inl e, w1) \<Rightarrow> (Inl e, w) | (Inr x, w1) \<Rightarrow> (Inr x, w1))"

section \<open>What a scanner sees of a ticket\<close>

datatype qr_status = QrActive | QrRevoked | QrUsed | QrExpired

definition reached :: "int option \<Rightarrow> int \<Rightarrow> bool" where
  "reached t now = (case t of None \<Rightarrow> False | Some x \<Rightarrow> x \<le> now)"

definition mapCredentialStatus :: "int \<Rightarrow> qr_credential \<Rightarrow> qr_status" where
  "mapCredentialStatus now t =
     (if qc_revokedAt t \<noteq> None \<or> qc_status t = ''revoked'' then QrRevoked
      else if reached (qc_expiresAt t) now \<or> qc_status t = ''expired'' then QrExpired
      else QrActive)"

definition mapScannerStatus :: "int \<Rightarrow> qr_credential \<Rightarrow> qr_status" where
  "mapScannerStatus now t = (if qc_usedAt t \<noteq> None \<or> qc_status t = ''used'' then QrUsed else mapCredentialStatus now t)"

record scanner_contract =
  ct_ticketId :: js_string
  ct_ticketItemId :: js_string
  ct_ticketStatus :: qr_status
  ct_cancellationPending :: bool
  ct_reservationId :: js_string
  ct_paymentId :: js_string
  ct_showtimeId :: js_string
  ct_maskedJti :: js_string
  ct_enteredAt :: "int option"

definition contract_status :: "int \<Rightarrow> token_claims \<Rightarrow> qr_credential \<Rightarrow> entry_item \<Rightarrow> js_string \<Rightarrow> js_string \<Rightarrow> qr_status" where
  "contract_status now c t k orderStatus paymentStatus =
     (if en_status k = ''expired'' \<or> (case cl_exp c of None \<Rightarrow> False | Some x \<Rightarrow> x * 1000 \<le> now) then QrExpired
      else if en_status k \<noteq> ''active'' \<or> orderStatus \<noteq> ''CONFIRMED'' \<or> paymentStatus \<noteq> ''DONE'' then QrRevoked
      else if mapCredentialStatus now t \<noteq> QrActive then mapCredentialStatus now t
      else if en_entered k then QrUsed else mapScannerStatus now t)"

definition names :: "token_claims \<Rightarrow> qr_credential \<Rightarrow> bool" where
  "names c t \<longleftrightarrow> Some (qc_jti t) = cl_jti c \<and> qc_ticketItemId t = cl_ticketItemId c \<and> Some (qc_reservationId t) = cl_reservationId c
     \<and> Some (qc_paymentId t) = cl_paymentId c \<and> Some (qc_showtimeId t) = cl_showtimeId c"

text \<open>The joined row of a token: its credential, ticket item, order status and payment status.\<close>

definition gate_ticket :: "token_claims \<Rightarrow> gate_world \<Rightarrow> (qr_credential \<times> entry_item \<times> js_string \<times> js_string) option" where
  "gate_ticket c w =
     (case List.find (names c) (gw_credentials w) of
        None \<Rightarrow> None
      | Some t \<Rightarrow>
          (case (List.find (\<lambda>k. Some (en_id k) = qc_ticketItemId t) (gw_items w),
                 map_of (gw_orders w) (qc_reservationId t), map_of (gw_payments w) (qc_paymentId t)) of
             (Some k, Some orderStatus, Some paymentStatus) \<Rightarrow> Some (t, k, orderStatus, paymentStatus)
           | _ \<Rightarrow> None))"

definition verifyTicketForScannerContract :: "gate_env \<Rightarrow> int \<Rightarrow> js_string \<Rightarrow> gate_world \<Rightarrow> gate_error + scanner_contract" where
  "verifyTicketForScannerContract E now token w =
     (case verifyTicketPayload E token of
        Inl e \<Rightarrow> Inl e
      | Inr c \<Rightarrow>
          (case gate_ticket c w of
             None \<Rightarrow> Inl Unauthorized
           | Some (t, k, orderStatus, paymentStatus) \<Rightarrow>
               Inr \<lparr>ct_ticketId = qc_id t, ct_ticketItemId = en_id k,
                 ct_ticketStatus = contract_status now c t k orderStatus paymentStatus,
                 ct_cancellationPending = (en_status k = ''cancellation_pending''),
                 ct_reservationId = qc_reservationId t, ct_paymentId = qc_paymentId t, ct_showtimeId = qc_showtimeId t,
                 ct_maskedJti = maskJti (qc_jti t), ct_enteredAt = nullish (en_enteredAt k) (qc_usedAt t)\<rparr>))"

end
