(* ===== verification/CheckIn.thy ===== *)
theory CheckIn
  imports EntryWorld
begin

text \<open>
  Admission at the gate (\<open>field-check-in.service.ts\<close>): \<open>verify\<close> looks a ticket up, \<open>consume\<close> lets its holder in, and
  recovered offline attempts go through \<open>consume\<close> again (\<open>offline-sync.service.ts\<close>). The ids that the database
  generates are arguments. The texts and seat labels of a response are not modelled.
\<close>

section \<open>Outcomes\<close>

definition classifyScannerContract :: "scanner_contract \<Rightarrow> js_string option \<Rightarrow> check_in_outcome" where
  "classifyScannerContract c requested =
     (if filled requested \<and> requested \<noteq> Some (ct_showtimeId c) then WrongShowtime
      else case ct_ticketStatus c of
        QrActive \<Rightarrow> Processable
      | QrUsed \<Rightarrow> AlreadyUsed
      | QrExpired \<Rightarrow> ExpiredTicket
      | QrRevoked \<Rightarrow> RefundedCancelled)"

fun scanResultForOutcome :: "check_in_outcome \<Rightarrow> scan_result" where
  "scanResultForOutcome Processable = ScanSuccess"
| "scanResultForOutcome Entered = ScanSuccess"
| "scanResultForOutcome SyncedOffline = ScanTampered"
| "scanResultForOutcome RejectedOffline = ScanTampered"
| "scanResultForOutcome OfflinePending = ScanTampered"
| "scanResultForOutcome Duplicate = ScanDuplicate"
| "scanResultForOutcome Tampered = ScanTampered"
| "scanResultForOutcome RefundedCancelled = ScanRefundedCancelled"
| "scanResultForOutcome ExpiredTicket = ScanExpired"
| "scanResultForOutcome WrongShowtime = ScanWrongShowtime"
| "scanResultForOutcome AlreadyUsed = ScanAlreadyUsed"

text \<open>A stored result as the outcome that is answered again.\<close>

fun receipt_outcome :: "scan_result \<Rightarrow> check_in_outcome" where
  "receipt_outcome ScanSuccess = Entered"
| "receipt_outcome ScanDuplicate = Duplicate"
| "receipt_outcome ScanTampered = Tampered"
| "receipt_outcome ScanRefundedCancelled = RefundedCancelled"
| "receipt_outcome ScanExpired = ExpiredTicket"
| "receipt_outcome ScanWrongShowtime = WrongShowtime"
| "receipt_outcome ScanAlreadyUsed = AlreadyUsed"

definition resolveScanSyncState :: "scan_source option \<Rightarrow> scan_result \<Rightarrow> sync_state" where
  "resolveScanSyncState source r =
     (if source \<noteq> Some OfflineScan then SyncNotRequired else if r = ScanSuccess then SyncDone else SyncRejected)"

definition rejectionReasonForContract :: "check_in_outcome \<Rightarrow> scanner_contract \<Rightarrow> rejection" where
  "rejectionReasonForContract o1 c =
     (if o1 = RefundedCancelled \<and> ct_cancellationPending c then CancellationPendingRejection else RejectionFor o1)"

definition ticketResourceId :: "scanner_contract \<Rightarrow> js_string" where
  "ticketResourceId c =
     (if ct_ticketItemId c \<noteq> [] then ct_ticketItemId c else if ct_ticketId c \<noteq> [] then ct_ticketId c else ct_reservationId c)"

definition VERIFY_ATTEMPT_PREFIX :: js_string where
  "VERIFY_ATTEMPT_PREFIX = ''verify:''"

definition UNKNOWN_SCANNER_USER_ID :: js_string where
  "UNKNOWN_SCANNER_USER_ID = ''00000000-0000-4000-8000-000000000000''"

section \<open>Records\<close>

record scanner_context =
  sx_scannerUserId :: js_string
  sx_scanSource :: "scan_source option"
  sx_offlineSyncState :: "sync_state option"

definition writeAudit :: "js_string \<Rightarrow> audit_status \<Rightarrow> js_string \<Rightarrow> js_string option \<Rightarrow> unit gate_prog" where
  "writeAudit action st resource scanner =
     alter (\<lambda>w. w\<lparr>gw_audit := gw_audit w @ [\<lparr>ga_action = action, ga_status = st, ga_resourceId = resource,
       ga_actor = or_else scanner UNKNOWN_SCANNER_USER_ID\<rparr>]\<rparr>)"

text \<open>The unique index on the device attempt: a second event of an attempt is ignored or fails.\<close>

definition recordScanEvent :: "bool \<Rightarrow> scan_event \<Rightarrow> js_string option gate_prog" where
  "recordScanEvent keepFirstAttempt ev =
     bnd (inspect (\<lambda>w. sv_deviceAttemptId ev \<noteq> None \<and> sv_deviceAttemptId ev \<in> sv_deviceAttemptId ` set (gw_events w))) (\<lambda>taken.
       if taken then if keepFirstAttempt then ret None else raise GateFailed
       else bnd (alter (\<lambda>w. w\<lparr>gw_events := gw_events w @ [ev]\<rparr>)) (\<lambda>_. ret (Some (sv_id ev))))"

definition scan_event_of ::
  "gate_env \<Rightarrow> js_string \<Rightarrow> int \<Rightarrow> scanner_contract option \<Rightarrow> scanner_context \<Rightarrow> scan_result \<Rightarrow> js_string \<Rightarrow> js_string \<Rightarrow> js_string \<Rightarrow> rejection option \<Rightarrow> scan_stage \<Rightarrow> scan_event" where
  "scan_event_of E eid now c ctx r attempt requested token reason stage =
     \<lparr>sv_id = eid, sv_ticketId = map_option ct_ticketId c, sv_ticketItemId = map_option ct_ticketItemId c,
      sv_reservationId = map_option ct_reservationId c, sv_showtimeId = map_option ct_showtimeId c,
      sv_requestedShowtimeId = Some requested, sv_scannerUserId = sx_scannerUserId ctx, sv_result = r,
      sv_source = or_else (sx_scanSource ctx) OnlineScan,
      sv_syncState = or_else (sx_offlineSyncState ctx) (resolveScanSyncState (sx_scanSource ctx) r),
      sv_deviceAttemptId = Some attempt, sv_maskedJti = map_option ct_maskedJti c, sv_rejectionReason = reason,
      sv_stage = Some stage, sv_redactedTokenRef = Some (ge_tokenRef E token), sv_metaShowtimeId = Some requested, sv_scannedAt = now\<rparr>"

section \<open>Verifying\<close>

record verify_request =
  vq_token :: js_string
  vq_showtimeId :: "js_string option"
  vq_deviceAttemptId :: "js_string option"

record prior_scan =
  ps_scannedAt :: int
  ps_scannerUserId :: "js_string option"
  ps_deviceAttemptId :: "js_string option"

fun index_from :: "char \<Rightarrow> js_string \<Rightarrow> nat \<Rightarrow> nat option" where
  "index_from c [] n = None"
| "index_from c (x # s) n = (if x = c then Some n else index_from c s (Suc n))"

text \<open>\<open>/^([^-]+-[^-]+)(?:-|$)/\<close>: two non-empty groups, the second up to a dash or the end.\<close>

definition masked_prefix :: "js_string \<Rightarrow> js_string option" where
  "masked_prefix v =
     (case index_from (CHR ''-'') v 0 of
        None \<Rightarrow> None
      | Some m \<Rightarrow>
          (let rest = drop (Suc m) v; n = or_else (index_from (CHR ''-'') rest 0) (length rest)
           in if m = 0 \<or> n = 0 then None else Some (take (Suc m + n) v)))"

definition maskContextValue :: "js_string \<Rightarrow> js_string" where
  "maskContextValue v =
     (if length v \<le> 14 then v else or_else (masked_prefix v) (take 12 v) @ ''...'' @ drop (length v - 4) v)"

definition is_success_of :: "scanner_contract \<Rightarrow> scan_event \<Rightarrow> bool" where
  "is_success_of c ev \<longleftrightarrow> sv_ticketItemId ev = Some (ct_ticketItemId c) \<and> sv_reservationId ev = Some (ct_reservationId c)
     \<and> sv_showtimeId ev = Some (ct_showtimeId c) \<and> sv_result ev = ScanSuccess"

text \<open>The latest successful scan: \<open>ORDER BY scanned_at DESC LIMIT 1\<close>.\<close>

definition latest :: "scan_event list \<Rightarrow> scan_event option" where
  "latest evs = fold (\<lambda>e best. case best of None \<Rightarrow> Some e | Some b \<Rightarrow> if sv_scannedAt e > sv_scannedAt b then Some e else Some b) evs None"

definition findPriorSuccessfulScan :: "scanner_contract \<Rightarrow> gate_world \<Rightarrow> prior_scan option" where
  "findPriorSuccessfulScan c w =
     (case latest (filter (is_success_of c) (gw_events w)) of
        None \<Rightarrow> map_option (\<lambda>t. \<lparr>ps_scannedAt = t, ps_scannerUserId = None, ps_deviceAttemptId = None\<rparr>) (ct_enteredAt c)
      | Some e \<Rightarrow> Some \<lparr>ps_scannedAt = sv_scannedAt e,
          ps_scannerUserId = (if sv_scannerUserId e = [] then None else Some (maskContextValue (sv_scannerUserId e))),
          ps_deviceAttemptId = (case sv_deviceAttemptId e of None \<Rightarrow> None | Some [] \<Rightarrow> None | Some a \<Rightarrow> Some (maskContextValue a))\<rparr>)"

record verify_response =
  vp_outcome :: check_in_outcome
  vp_processable :: bool
  vp_contract :: "scanner_contract option"
  vp_rejectionReason :: "rejection option"
  vp_priorScan :: "prior_scan option"

definition recordVerifyRejection ::
  "gate_env \<Rightarrow> js_string \<Rightarrow> int \<Rightarrow> scanner_contract option \<Rightarrow> verify_request \<Rightarrow> js_string option \<Rightarrow> check_in_outcome \<Rightarrow> unit gate_prog" where
  "recordVerifyRejection E eid now c q scanner o1 =
     (case (map_option js_trim (vq_deviceAttemptId q), scanner, nullish (vq_showtimeId q) (map_option ct_showtimeId c)) of
        (Some attempt, Some sid, Some requested) \<Rightarrow>
          if attempt = [] \<or> sid = [] \<or> requested = [] then ret ()
          else
            bnd (inspect (\<lambda>w. case c of None \<Rightarrow> False
                 | Some c \<Rightarrow> list_ex (\<lambda>e. sv_deviceAttemptId e = Some attempt \<and> sv_ticketItemId e = Some (ct_ticketItemId c)) (gw_events w))) (\<lambda>consumed.
              if consumed then ret ()
              else bnd (recordScanEvent True (scan_event_of E eid now c
                       \<lparr>sx_scannerUserId = sid, sx_scanSource = Some OnlineScan, sx_offlineSyncState = None\<rparr>
                       (scanResultForOutcome o1) (VERIFY_ATTEMPT_PREFIX @ attempt) requested (vq_token q)
                       (Some (case c of None \<Rightarrow> RejectionFor o1 | Some c \<Rightarrow> rejectionReasonForContract o1 c)) VerifyStage)) (\<lambda>_. ret ()))
      | _ \<Rightarrow> ret ())"

definition checkInVerify :: "gate_env \<Rightarrow> js_string \<Rightarrow> int \<Rightarrow> verify_request \<Rightarrow> js_string option \<Rightarrow> verify_response gate_prog" where
  "checkInVerify E eid now q scanner =
     bnd (inspect (verifyTicketForScannerContract E now (vq_token q))) (\<lambda>verified.
       case verified of
         Inl Unauthorized \<Rightarrow>
           bnd (writeAudit ''field.scan.verify'' AuditDenied (ge_tokenRef E (vq_token q)) scanner) (\<lambda>_.
           bnd (recordVerifyRejection E eid now None q scanner Tampered) (\<lambda>_.
             ret \<lparr>vp_outcome = Tampered, vp_processable = False, vp_contract = None,
               vp_rejectionReason = Some (RejectionFor Tampered), vp_priorScan = None\<rparr>))
       | Inl e \<Rightarrow> raise e
       | Inr c \<Rightarrow>
           let o1 = classifyScannerContract c (vq_showtimeId q) in
           bnd (inspect (\<lambda>w. if o1 = AlreadyUsed then findPriorSuccessfulScan c w else None)) (\<lambda>prior.
           bnd (if o1 = Processable then ret ()
                else bnd (writeAudit ''field.scan.verify'' AuditDenied (ticketResourceId c) scanner)
                       (\<lambda>_. recordVerifyRejection E eid now (Some c) q scanner o1)) (\<lambda>_.
             ret \<lparr>vp_outcome = o1, vp_processable = (o1 = Processable), vp_contract = Some c,
               vp_rejectionReason = (if o1 = Processable then None else Some (rejectionReasonForContract o1 c)), vp_priorScan = prior\<rparr>)))"

section \<open>Consuming\<close>

record consume_request =
  cq_token :: js_string
  cq_showtimeId :: js_string
  cq_deviceAttemptId :: js_string

record consume_response =
  cp_outcome :: check_in_outcome
  cp_contract :: "scanner_contract option"
  cp_scanEventId :: "js_string option"
  cp_consumedAt :: "int option"
  cp_rejectionReason :: "rejection option"
  cp_priorScan :: "prior_scan option"

definition same_request :: "gate_env \<Rightarrow> consume_request \<Rightarrow> scanner_context \<Rightarrow> scanner_contract \<Rightarrow> scan_event \<Rightarrow> bool" where
  "same_request E q ctx verified r \<longleftrightarrow> sv_stage r \<noteq> Some VerifyStage \<and> sv_ticketItemId r = Some (ct_ticketItemId verified)
     \<and> nullish (sv_requestedShowtimeId r) (nullish (sv_metaShowtimeId r) (sv_showtimeId r)) = Some (cq_showtimeId q)
     \<and> sv_scannerUserId r = sx_scannerUserId ctx \<and> sv_redactedTokenRef r = Some (ge_tokenRef E (cq_token q))"

definition receipt_response :: "scanner_contract \<Rightarrow> scan_event \<Rightarrow> consume_response" where
  "receipt_response verified r =
     \<lparr>cp_outcome = receipt_outcome (sv_result r), cp_contract = Some verified, cp_scanEventId = Some (sv_id r),
      cp_consumedAt = (if sv_result r = ScanSuccess then Some (sv_scannedAt r) else None),
      cp_rejectionReason = sv_rejectionReason r, cp_priorScan = None\<rparr>"

text \<open>The entry of an active ticket: its item and its credential.\<close>

definition admit :: "scanner_contract \<Rightarrow> int \<Rightarrow> unit gate_prog" where
  "admit c now =
     bnd (alter (\<lambda>w. w\<lparr>gw_items := map (\<lambda>k. if en_id k = ct_ticketItemId c \<and> en_status k = ''active'' \<and> \<not> en_entered k
            then k\<lparr>en_entered := True, en_enteredAt := Some now\<rparr> else k) (gw_items w)\<rparr>)) (\<lambda>_.
     alter (\<lambda>w. w\<lparr>gw_credentials := map (\<lambda>t. if qc_id t = ct_ticketId c \<and> qc_status t = ''active'' \<and> qc_usedAt t = None
            then t\<lparr>qc_usedAt := Some now\<rparr> else t) (gw_credentials w)\<rparr>))"

definition consume_ticket :: "gate_env \<Rightarrow> js_string \<Rightarrow> int \<Rightarrow> consume_request \<Rightarrow> scanner_context \<Rightarrow> consume_response gate_prog" where
  "consume_ticket E eid now q ctx =
     bnd (inspect (verifyTicketForScannerContract E now (cq_token q))) (\<lambda>again.
       case again of
         Inl e \<Rightarrow> raise e
       | Inr c \<Rightarrow>
           let o1 = classifyScannerContract c (Some (cq_showtimeId q)); entered = (o1 = Processable) in
           bnd (inspect (\<lambda>w. if o1 = AlreadyUsed then findPriorSuccessfulScan c w else None)) (\<lambda>prior.
           bnd (if entered then admit c now else ret ()) (\<lambda>_.
           bnd (recordScanEvent False (scan_event_of E eid now (Some c) ctx (if entered then ScanSuccess else scanResultForOutcome o1)
                  (cq_deviceAttemptId q) (cq_showtimeId q) (cq_token q)
                  (if entered then None else Some (rejectionReasonForContract o1 c)) ConsumeStage)) (\<lambda>scanEventId.
           bnd (writeAudit ''field.scan.consume'' (if entered then AuditSuccess else AuditDenied) (ticketResourceId c) (Some (sx_scannerUserId ctx))) (\<lambda>_.
             ret \<lparr>cp_outcome = (if entered then Entered else o1), cp_contract = Some c, cp_scanEventId = scanEventId,
               cp_consumedAt = (if entered then Some now else None),
               cp_rejectionReason = (if entered then None else Some (rejectionReasonForContract o1 c)), cp_priorScan = prior\<rparr>)))))"

definition consume_unverified :: "gate_env \<Rightarrow> js_string \<Rightarrow> int \<Rightarrow> consume_request \<Rightarrow> scanner_context \<Rightarrow> consume_response gate_prog" where
  "consume_unverified E eid now q ctx =
     bnd (writeAudit ''field.scan.consume'' AuditDenied (ge_tokenRef E (cq_token q)) (Some (sx_scannerUserId ctx))) (\<lambda>_.
     bnd (recordScanEvent True (scan_event_of E eid now None ctx ScanTampered (cq_deviceAttemptId q) (cq_showtimeId q) (cq_token q)
            (Some (RejectionFor Tampered)) ConsumeStage)) (\<lambda>scanEventId.
       ret \<lparr>cp_outcome = Tampered, cp_contract = None, cp_scanEventId = scanEventId, cp_consumedAt = None,
         cp_rejectionReason = Some (RejectionFor Tampered), cp_priorScan = None\<rparr>))"

text \<open>
  \<open>verified\<close> is the contract as it was read before the transaction took its locks: by then other gates and
  cancellations may have changed the rows. The advisory lock of the attempt and the row locks make the rest one
  step.
\<close>

definition checkInConsume ::
  "gate_env \<Rightarrow> js_string \<Rightarrow> int \<Rightarrow> consume_request \<Rightarrow> scanner_context \<Rightarrow> gate_error + scanner_contract \<Rightarrow> consume_response gate_prog" where
  "checkInConsume E eid now q ctx verified =
     (case verified of
        Inl Unauthorized \<Rightarrow> gate_transaction (consume_unverified E eid now q ctx)
      | Inl e \<Rightarrow> raise e
      | Inr v \<Rightarrow>
          gate_transaction
            (bnd (inspect (\<lambda>w. List.find (\<lambda>r. sv_deviceAttemptId r = Some (cq_deviceAttemptId q)) (gw_events w))) (\<lambda>receipt.
               case receipt of
                 Some r \<Rightarrow> if same_request E q ctx v r then ret (receipt_response v r) else raise Conflict
               | None \<Rightarrow> consume_ticket E eid now q ctx)))"

section \<open>Recovered offline attempts\<close>

record offline_attempt =
  oa_deviceAttemptId :: js_string
  oa_scannerUserId :: js_string
  oa_showtimeId :: js_string
  oa_token :: js_string
  oa_pending :: bool

datatype attempt_state = AttemptSynced | AttemptRejected | AttemptPending

record sync_result =
  sr_deviceAttemptId :: js_string
  sr_syncState :: attempt_state
  sr_outcome :: check_in_outcome
  sr_scanEventId :: "js_string option"

fun dedupe_from :: "js_string list \<Rightarrow> offline_attempt list \<Rightarrow> offline_attempt list" where
  "dedupe_from seen [] = []"
| "dedupe_from seen (a # as) =
     (if \<not> oa_pending a \<or> oa_deviceAttemptId a \<in> set seen then dedupe_from seen as
      else a # dedupe_from (oa_deviceAttemptId a # seen) as)"

definition dedupePendingAttempts :: "offline_attempt list \<Rightarrow> offline_attempt list" where
  "dedupePendingAttempts as = dedupe_from [] as"

definition consumeResponseToSyncResult :: "js_string \<Rightarrow> consume_response \<Rightarrow> sync_result" where
  "consumeResponseToSyncResult attempt r =
     \<lparr>sr_deviceAttemptId = attempt, sr_syncState = (if cp_outcome r = Entered then AttemptSynced else AttemptRejected),
      sr_outcome = cp_outcome r, sr_scanEventId = cp_scanEventId r\<rparr>"

text \<open>\<open>HttpException\<close> with a status below 500.\<close>

definition denied :: "gate_error \<Rightarrow> bool" where
  "denied e \<longleftrightarrow> e = Unauthorized \<or> e = Conflict"

definition attempt_request :: "offline_attempt \<Rightarrow> consume_request" where
  "attempt_request a = \<lparr>cq_token = oa_token a, cq_showtimeId = oa_showtimeId a, cq_deviceAttemptId = oa_deviceAttemptId a\<rparr>"

definition offline_context :: "js_string \<Rightarrow> scanner_context" where
  "offline_context scanner = \<lparr>sx_scannerUserId = scanner, sx_scanSource = Some OfflineScan, sx_offlineSyncState = None\<rparr>"

definition resolveAttempt :: "gate_env \<Rightarrow> js_string \<Rightarrow> int \<Rightarrow> js_string \<Rightarrow> offline_attempt \<Rightarrow> sync_result gate_prog" where
  "resolveAttempt E eid now scanner a =
     (if oa_scannerUserId a \<noteq> scanner
      then ret \<lparr>sr_deviceAttemptId = oa_deviceAttemptId a, sr_syncState = AttemptRejected, sr_outcome = RejectedOffline, sr_scanEventId = None\<rparr>
      else
        handle
          (bnd (inspect (verifyTicketForScannerContract E now (oa_token a))) (\<lambda>verified.
           bnd (checkInConsume E eid now (attempt_request a) (offline_context scanner) verified) (\<lambda>consumed.
             ret (consumeResponseToSyncResult (oa_deviceAttemptId a) consumed))))
          (\<lambda>e. ret \<lparr>sr_deviceAttemptId = oa_deviceAttemptId a,
             sr_syncState = (if denied e then AttemptRejected else AttemptPending),
             sr_outcome = (if denied e then RejectedOffline else OfflinePending), sr_scanEventId = None\<rparr>))"

text \<open>\<open>eid\<close> names the event of an attempt.\<close>

fun resolve_all :: "gate_env \<Rightarrow> (js_string \<Rightarrow> js_string) \<Rightarrow> int \<Rightarrow> js_string \<Rightarrow> offline_attempt list \<Rightarrow> sync_result list gate_prog" where
  "resolve_all E eid now scanner [] = ret []"
| "resolve_all E eid now scanner (a # as) =
     bnd (resolveAttempt E (eid (oa_deviceAttemptId a)) now scanner a) (\<lambda>r.
     bnd (resolve_all E eid now scanner as) (\<lambda>rs. ret (r # rs)))"

definition syncPendingAttempts :: "gate_env \<Rightarrow> (js_string \<Rightarrow> js_string) \<Rightarrow> int \<Rightarrow> js_string \<Rightarrow> offline_attempt list \<Rightarrow> sync_result list gate_prog" where
  "syncPendingAttempts E eid now scanner attempts =
     bnd (resolve_all E eid now scanner (dedupePendingAttempts attempts)) (\<lambda>results.
     bnd (writeAudit ''field.scan.offline_sync'' AuditSuccess scanner (Some scanner)) (\<lambda>_.
       ret results))"

end
