(* ===== verification/Redemption.thy ===== *)
theory Redemption
  imports EntryWorld
begin

text \<open>
  Handing out a benefit at the gate (\<open>benefit-redemption.service.ts\<close>). A transaction that fails, or that a lock or
  statement timeout ends (\<open>fault\<close>), leaves no trace.
\<close>

record redemption_request =
  rq_token :: js_string
  rq_showtimeId :: js_string
  rq_deviceAttemptId :: js_string
  rq_benefitEntitlementId :: js_string

text \<open>\<open>rp_benefit\<close>: the row that the response shows; \<open>rp_prior\<close>: time and record of the earlier redemption.\<close>

record redemption_response =
  rp_outcome :: redemption_outcome
  rp_benefit :: "gate_benefit option"
  rp_redemptionEventId :: "js_string option"
  rp_redeemedAt :: "int option"
  rp_prior :: "(int \<times> js_string option) option"

definition PG_LOCK_NOT_AVAILABLE :: js_string where "PG_LOCK_NOT_AVAILABLE = ''55P03''"
definition PG_QUERY_CANCELED :: js_string where "PG_QUERY_CANCELED = ''57014''"

text \<open>The first code among an error and three of its causes.\<close>

definition postgresErrorCode :: "db_error \<Rightarrow> js_string option" where
  "postgresErrorCode e = Option.bind (List.find (\<lambda>l. el_code l \<noteq> None) (take 4 e)) el_code"

definition translateRedemptionDbError :: "db_error \<Rightarrow> gate_error" where
  "translateRedemptionDbError e =
     (if postgresErrorCode e = Some PG_LOCK_NOT_AVAILABLE then Conflict
      else if postgresErrorCode e = Some PG_QUERY_CANCELED then Unavailable else GateFailed)"

text \<open>The row as the client sees it: its copy has to parse, and a drawn benefit has to name its run.\<close>

definition toBenefitEntitlement :: "gate_benefit \<Rightarrow> gate_benefit gate_prog" where
  "toBenefitEntitlement b =
     (if \<not> be_copyParses b \<or> be_source b \<in> {FromLiveRun, FromTestRun} \<and> be_runId b \<in> {None, Some []} then raise GateFailed else ret b)"

definition notEligibleResponse :: redemption_response where
  "notEligibleResponse = \<lparr>rp_outcome = NotEligible, rp_benefit = None, rp_redemptionEventId = None, rp_redeemedAt = None, rp_prior = None\<rparr>"

definition rejected :: "redemption_outcome \<Rightarrow> gate_benefit \<Rightarrow> redemption_response gate_prog" where
  "rejected o1 b =
     bnd (toBenefitEntitlement b) (\<lambda>b. ret \<lparr>rp_outcome = o1, rp_benefit = Some b, rp_redemptionEventId = None, rp_redeemedAt = None, rp_prior = None\<rparr>)"

definition duplicateResponse :: "int \<Rightarrow> gate_benefit \<Rightarrow> redemption_row option \<Rightarrow> redemption_response gate_prog" where
  "duplicateResponse now b prior =
     bnd (toBenefitEntitlement b) (\<lambda>b. ret \<lparr>rp_outcome = DuplicateRedemption, rp_benefit = Some b, rp_redemptionEventId = None,
       rp_redeemedAt = be_redeemedAt b,
       rp_prior = Some (case prior of Some r \<Rightarrow> rr_createdAt r | None \<Rightarrow> or_else (be_redeemedAt b) now, map_option rr_id prior)\<rparr>)"

definition markEntitlementRedeemed :: "gate_benefit \<Rightarrow> redemption_row \<Rightarrow> gate_benefit" where
  "markEntitlementRedeemed b r =
     b\<lparr>be_state := ''redeemed'', be_redeemedAt := Some (rr_createdAt r), be_redeemedByUserId := Some (rr_scannerUserId r)\<rparr>"

definition responseForExistingAttempt :: "int \<Rightarrow> redemption_row \<Rightarrow> gate_benefit \<Rightarrow> redemption_response gate_prog" where
  "responseForExistingAttempt now r b =
     (case rr_result r of
        Redeemed \<Rightarrow> bnd (toBenefitEntitlement b) (\<lambda>b. ret \<lparr>rp_outcome = Redeemed, rp_benefit = Some b,
          rp_redemptionEventId = Some (rr_id r), rp_redeemedAt = Some (rr_createdAt r), rp_prior = None\<rparr>)
      | DuplicateRedemption \<Rightarrow> duplicateResponse now (if be_state b = ''redeemed'' then b else markEntitlementRedeemed b r) (Some r)
      | o1 \<Rightarrow> rejected o1 b)"

definition responseForMatchingAttempt ::
  "gate_env \<Rightarrow> int \<Rightarrow> redemption_row \<Rightarrow> gate_benefit \<Rightarrow> redemption_request \<Rightarrow> js_string \<Rightarrow> redemption_response gate_prog" where
  "responseForMatchingAttempt E now r b q scanner =
     (if rr_benefitEntitlementId r \<noteq> be_id b \<or> rr_ticketItemId r \<noteq> be_ticketItemId b \<or> rr_showtimeId r \<noteq> be_showtimeId b
         \<or> rr_scannerUserId r \<noteq> scanner \<or> rr_redactedTokenRef r \<noteq> ge_tokenRef E (rq_token q)
         \<or> or_else (rr_requestedShowtimeId r) (rr_showtimeId r) \<noteq> rq_showtimeId q
      then raise Conflict else responseForExistingAttempt now r b)"

definition findEntitlement :: "js_string \<Rightarrow> gate_world \<Rightarrow> gate_benefit option" where
  "findEntitlement bid w = List.find (\<lambda>b. be_id b = bid) (gw_benefits w)"

definition is_redeemed_record :: "js_string \<Rightarrow> js_string \<Rightarrow> redemption_row \<Rightarrow> bool" where
  "is_redeemed_record st bid r \<longleftrightarrow> rr_showtimeId r = st \<and> rr_benefitEntitlementId r = bid \<and> rr_result r = Redeemed"

text \<open>\<open>ORDER BY created_at DESC LIMIT 1\<close>\<close>

definition findPriorRedeemed :: "js_string \<Rightarrow> js_string \<Rightarrow> gate_world \<Rightarrow> redemption_row option" where
  "findPriorRedeemed st bid w =
     fold (\<lambda>r best. case best of None \<Rightarrow> Some r | Some b \<Rightarrow> if rr_createdAt r > rr_createdAt b then Some r else Some b)
       (filter (is_redeemed_record st bid) (gw_redemptions w)) None"

definition findExistingAttemptByDeviceId :: "js_string \<Rightarrow> gate_world \<Rightarrow> redemption_row option" where
  "findExistingAttemptByDeviceId attempt w = List.find (\<lambda>r. rr_deviceAttemptId r = attempt) (gw_redemptions w)"

text \<open>The unique index on the device attempt makes a second record fail.\<close>

definition recordRedemption ::
  "gate_env \<Rightarrow> js_string \<Rightarrow> int \<Rightarrow> redemption_request \<Rightarrow> js_string \<Rightarrow> gate_benefit \<Rightarrow> redemption_outcome \<Rightarrow> js_string gate_prog" where
  "recordRedemption E rid now q scanner b result =
     bnd (inspect (\<lambda>w. rq_deviceAttemptId q \<in> rr_deviceAttemptId ` set (gw_redemptions w))) (\<lambda>taken.
     bnd (reject_if taken GateFailed) (\<lambda>_.
     bnd (alter (\<lambda>w. w\<lparr>gw_redemptions := gw_redemptions w @ [\<lparr>rr_id = rid, rr_showtimeId = be_showtimeId b,
            rr_requestedShowtimeId = Some (rq_showtimeId q), rr_ticketItemId = be_ticketItemId b, rr_benefitEntitlementId = be_id b,
            rr_scannerUserId = scanner, rr_deviceAttemptId = rq_deviceAttemptId q, rr_redactedTokenRef = ge_tokenRef E (rq_token q),
            rr_result = result, rr_createdAt = now\<rparr>]\<rparr>)) (\<lambda>_.
       ret rid)))"

definition record_and_reject ::
  "gate_env \<Rightarrow> js_string \<Rightarrow> int \<Rightarrow> redemption_request \<Rightarrow> js_string \<Rightarrow> gate_benefit \<Rightarrow> redemption_outcome \<Rightarrow> redemption_response gate_prog" where
  "record_and_reject E rid now q scanner b o1 =
     bnd (recordRedemption E rid now q scanner b o1) (\<lambda>_. rejected o1 b)"

definition to_redeem :: "gate_benefit \<Rightarrow> redemption_request \<Rightarrow> js_string \<Rightarrow> gate_benefit \<Rightarrow> bool" where
  "to_redeem b q itemId x \<longleftrightarrow> be_id x = be_id b \<and> be_showtimeId x = rq_showtimeId q \<and> be_ticketItemId x = itemId \<and> be_state x = ''active''"

definition redeem_row :: "int \<Rightarrow> js_string \<Rightarrow> gate_benefit \<Rightarrow> gate_benefit" where
  "redeem_row now scanner b = b\<lparr>be_state := ''redeemed'', be_redeemedAt := Some now, be_redeemedByUserId := Some scanner\<rparr>"

definition redeem_active ::
  "gate_env \<Rightarrow> js_string \<Rightarrow> int \<Rightarrow> redemption_request \<Rightarrow> js_string \<Rightarrow> gate_benefit \<Rightarrow> js_string \<Rightarrow> redemption_response gate_prog" where
  "redeem_active E rid now q scanner b itemId =
     bnd (inspect (\<lambda>w. List.find (to_redeem b q itemId) (gw_benefits w))) (\<lambda>found.
     bnd (alter (\<lambda>w. w\<lparr>gw_benefits := map (\<lambda>x. if to_redeem b q itemId x then redeem_row now scanner x else x) (gw_benefits w)\<rparr>)) (\<lambda>_.
       case found of
         Some x \<Rightarrow>
           bnd (recordRedemption E rid now q scanner (redeem_row now scanner x) Redeemed) (\<lambda>eid.
           bnd (toBenefitEntitlement (redeem_row now scanner x)) (\<lambda>shown.
             ret \<lparr>rp_outcome = Redeemed, rp_benefit = Some shown, rp_redemptionEventId = Some eid, rp_redeemedAt = Some now, rp_prior = None\<rparr>))
       | None \<Rightarrow>
           bnd (inspect (findPriorRedeemed (be_showtimeId b) (be_id b))) (\<lambda>prior.
             case prior of
               Some p \<Rightarrow>
                 bnd (inspect (findEntitlement (be_id b))) (\<lambda>reloaded.
                   let b1 = or_else reloaded (markEntitlementRedeemed b p) in
                   bnd (recordRedemption E rid now q scanner b1 DuplicateRedemption) (\<lambda>_. duplicateResponse now b1 (Some p)))
             | None \<Rightarrow> record_and_reject E rid now q scanner b InactiveBenefit)))"

definition redeemLocked :: "gate_env \<Rightarrow> js_string \<Rightarrow> int \<Rightarrow> redemption_request \<Rightarrow> js_string \<Rightarrow> redemption_response gate_prog" where
  "redeemLocked E rid now q scanner =
     bnd (inspect (findEntitlement (rq_benefitEntitlementId q))) (\<lambda>entitlement.
       case entitlement of
         None \<Rightarrow> ret notEligibleResponse
       | Some b \<Rightarrow>
           bnd (inspect (verifyTicketForScannerContract E now (rq_token q))) (\<lambda>verified.
             case verified of
               Inl Unauthorized \<Rightarrow> record_and_reject E rid now q scanner b TamperedToken
             | Inl e \<Rightarrow> raise e
             | Inr c \<Rightarrow>
                 if ct_showtimeId c \<noteq> rq_showtimeId q \<or> be_showtimeId b \<noteq> rq_showtimeId q
                 then record_and_reject E rid now q scanner b OtherShowtime
                 else if be_ticketItemId b \<noteq> ct_ticketItemId c then record_and_reject E rid now q scanner b NotEligible
                 else if be_state b = ''inactive'' \<or> ct_ticketStatus c = QrRevoked \<or> ct_ticketStatus c = QrExpired
                 then record_and_reject E rid now q scanner b InactiveBenefit
                 else
                   bnd (inspect (findPriorRedeemed (be_showtimeId b) (be_id b))) (\<lambda>prior.
                     if be_state b = ''redeemed'' \<or> prior \<noteq> None
                     then bnd (recordRedemption E rid now q scanner b DuplicateRedemption) (\<lambda>_. duplicateResponse now b prior)
                     else redeem_active E rid now q scanner b (ct_ticketItemId c))))"

definition redeem ::
  "gate_env \<Rightarrow> db_error option \<Rightarrow> js_string \<Rightarrow> int \<Rightarrow> redemption_request \<Rightarrow> js_string \<Rightarrow> redemption_response gate_prog" where
  "redeem E fault rid now q scanner =
     (case fault of
        Some e \<Rightarrow> raise (translateRedemptionDbError e)
      | None \<Rightarrow>
          gate_transaction
            (bnd (inspect (findExistingAttemptByDeviceId (rq_deviceAttemptId q))) (\<lambda>existing.
             bnd (inspect (findEntitlement (rq_benefitEntitlementId q))) (\<lambda>entitlement.
               case existing of
                 Some r \<Rightarrow> (case entitlement of None \<Rightarrow> ret notEligibleResponse | Some b \<Rightarrow> responseForMatchingAttempt E now r b q scanner)
               | None \<Rightarrow> redeemLocked E rid now q scanner))))"

end
