(* ===== verification/Invariants.thy ===== *)
theory Invariants
  imports Effects
begin

text \<open>Programs that keep a property of the world, whether they return or fail.\<close>

definition keeps :: "('w \<Rightarrow> bool) \<Rightarrow> ('w, 'e, 'a) prog \<Rightarrow> bool" where
  "keeps I p \<longleftrightarrow> (\<forall>w. I w \<longrightarrow> wp p (\<lambda>_. I) (\<lambda>_. I) w)"

named_theorems keeps_rules "programs that keep a property, by their text"

lemma keepsI: "(\<And>w. I w \<Longrightarrow> wp p (\<lambda>_. I) (\<lambda>_. I) w) \<Longrightarrow> keeps I p"
  by (simp add: keeps_def)

lemma keepsD: "keeps I p \<Longrightarrow> I w \<Longrightarrow> wp p (\<lambda>_. I) (\<lambda>_. I) w"
  by (simp add: keeps_def)

lemma keeps_run: "keeps I p \<Longrightarrow> p w = (r, w1) \<Longrightarrow> I w \<Longrightarrow> I w1"
  using keepsD [of I p w] by (auto simp: wp_def split: sum.splits)

lemma keeps_bnd [keeps_rules]:
  assumes "keeps I p" and "\<And>x. keeps I (f x)"
  shows "keeps I (bnd p f)"
  unfolding keeps_def wp_bnd
proof (intro allI impI)
  fix w
  assume "I w"
  from keepsD [OF assms(1) this] show "wp p (\<lambda>x. wp (f x) (\<lambda>_. I) (\<lambda>_. I)) (\<lambda>_. I) w"
    by (rule wp_mono) (simp_all add: keepsD [OF assms(2)])
qed

lemma keeps_handle [keeps_rules]:
  assumes "keeps I p" and "\<And>e. keeps I (h e)"
  shows "keeps I (handle p h)"
  unfolding keeps_def wp_handle
proof (intro allI impI)
  fix w
  assume "I w"
  from keepsD [OF assms(1) this] show "wp p (\<lambda>_. I) (\<lambda>e. wp (h e) (\<lambda>_. I) (\<lambda>_. I)) w"
    by (rule wp_mono) (simp_all add: keepsD [OF assms(2)])
qed

lemma keeps_basic [keeps_rules]: "keeps I (ret x)" "keeps I (raise e)" "keeps I (inspect g)" "keeps I (reject_if c e)"
  by (simp_all add: keeps_def wp_eqs)

lemma keeps_alter [keeps_rules]: "(\<And>w. I w \<Longrightarrow> I (g w)) \<Longrightarrow> keeps I (alter g)"
  by (simp add: keeps_def wp_eqs)

lemma keeps_cases [keeps_rules]:
  "(c \<Longrightarrow> keeps I p) \<Longrightarrow> (\<not> c \<Longrightarrow> keeps I q) \<Longrightarrow> keeps I (if c then p else q)"
  "keeps I p \<Longrightarrow> (\<And>x. o1 = Some x \<Longrightarrow> keeps I (g x)) \<Longrightarrow> keeps I (case o1 of None \<Rightarrow> p | Some x \<Rightarrow> g x)"
  "(\<And>a. s = Inl a \<Longrightarrow> keeps I (m a)) \<Longrightarrow> (\<And>b. s = Inr b \<Longrightarrow> keeps I (n b)) \<Longrightarrow> keeps I (case s of Inl a \<Rightarrow> m a | Inr b \<Rightarrow> n b)"
  "keeps I p \<Longrightarrow> (\<And>x xs. keeps I (k x xs)) \<Longrightarrow> keeps I (case l of [] \<Rightarrow> p | x # xs \<Rightarrow> k x xs)"
  "(\<And>a b. keeps I (h a b)) \<Longrightarrow> keeps I (case y of (a, b) \<Rightarrow> h a b)"
  by (auto split: option.split sum.split list.split prod.split)

text \<open>A program whose parts all keep \<open>I\<close> after what an earlier part read of the world.\<close>

lemma keeps_read:
  assumes "\<And>w. I w \<Longrightarrow> wp (f (g w)) (\<lambda>_. I) (\<lambda>_. I) w"
  shows "keeps I (bnd (inspect g) f)"
  using assms by (simp add: keeps_def wp_eqs)

lemma keeps_steps:
  assumes "rtranclp R w w1" and "I w" and "\<And>u v. R u v \<Longrightarrow> I u \<Longrightarrow> I v"
  shows "I w1"
  using assms(1,2) by (induction rule: rtranclp_induct) (simp_all add: assms(3))

end
