(* ===== verification/EntryTheorems.thy ===== *)
theory EntryTheorems
  imports CheckIn Redemption Invariants
begin

text \<open>
  What holds at the gate whatever the scanners, retries, recovered offline attempts, cancellations and refunds do
  meanwhile: a ticket admits once and only while it is valid, a benefit is handed out once, and a repeated request
  is answered as the first one was.
\<close>

section \<open>The contract of a token\<close>

lemma found: "List.find P xs = Some x \<Longrightarrow> x \<in> set xs \<and> P x"
  by (auto simp: find_Some_iff in_set_conv_nth)

lemma contract_rows:
  assumes "verifyTicketForScannerContract E now token w = Inr c"
  obtains cl t k orderStatus paymentStatus where "verifyTicketPayload E token = Inr cl" "t \<in> set (gw_credentials w)" "names cl t"
    "k \<in> set (gw_items w)" "Some (en_id k) = qc_ticketItemId t" "map_of (gw_orders w) (qc_reservationId t) = Some orderStatus"
    "map_of (gw_payments w) (qc_paymentId t) = Some paymentStatus" "ct_ticketItemId c = en_id k" "ct_ticketId c = qc_id t"
    "ct_ticketStatus c = contract_status now cl t k orderStatus paymentStatus" "ct_showtimeId c = qc_showtimeId t"
proof -
  from assms obtain cl t k os ps where *: "verifyTicketPayload E token = Inr cl" "gate_ticket cl w = Some (t, k, os, ps)"
    "c = \<lparr>ct_ticketId = qc_id t, ct_ticketItemId = en_id k, ct_ticketStatus = contract_status now cl t k os ps,
       ct_cancellationPending = (en_status k = ''cancellation_pending''), ct_reservationId = qc_reservationId t,
       ct_paymentId = qc_paymentId t, ct_showtimeId = qc_showtimeId t, ct_maskedJti = maskJti (qc_jti t),
       ct_enteredAt = nullish (en_enteredAt k) (qc_usedAt t)\<rparr>"
    by (auto simp: verifyTicketForScannerContract_def split: sum.splits option.splits)
  from *(2) have "List.find (names cl) (gw_credentials w) = Some t" "List.find (\<lambda>k. Some (en_id k) = qc_ticketItemId t) (gw_items w) = Some k"
    "map_of (gw_orders w) (qc_reservationId t) = Some os" "map_of (gw_payments w) (qc_paymentId t) = Some ps"
    by (auto simp: gate_ticket_def split: option.splits)
  from found [OF this(1)] found [OF this(2)] this(3,4) show thesis
    by (intro that [of cl t k os ps]) (use * in simp_all)
qed

lemma active_contract:
  assumes "contract_status now cl t k orderStatus paymentStatus = QrActive"
  shows "en_status k = ''active'' \<and> orderStatus = ''CONFIRMED'' \<and> paymentStatus = ''DONE'' \<and> \<not> en_entered k \<and> qc_usedAt t = None \<and>
    qc_revokedAt t = None \<and> qc_status t \<notin> {''revoked'', ''expired'', ''used''} \<and> \<not> reached (qc_expiresAt t) now"
  using assms by (auto simp: contract_status_def mapScannerStatus_def mapCredentialStatus_def split: if_splits)

lemma processable_active: "classifyScannerContract c (Some st) = Processable \<Longrightarrow> ct_ticketStatus c = QrActive \<and> (st = [] \<or> ct_showtimeId c = st)"
  by (auto simp: classifyScannerContract_def filled_def split: if_splits qr_status.splits)

lemma rejected_no_success: "o1 \<noteq> Processable \<Longrightarrow> classifyScannerContract c st = o1 \<Longrightarrow> scanResultForOutcome o1 \<noteq> ScanSuccess"
  by (auto simp: classifyScannerContract_def split: if_splits qr_status.splits)

text \<open>The token decides the ticket item, in every world and at every time.\<close>

lemma contract_item:
  assumes "verifyTicketForScannerContract E now token w = Inr c" and "verifyTicketForScannerContract E now1 token w1 = Inr c1"
  shows "ct_ticketItemId c1 = ct_ticketItemId c"
proof -
  from assms(1) obtain cl t and k :: entry_item where 1: "verifyTicketPayload E token = Inr cl" "names cl t" "Some (en_id k) = qc_ticketItemId t" "ct_ticketItemId c = en_id k"
    by (rule contract_rows) blast
  from assms(2) obtain cl1 t1 and k1 :: entry_item where 2: "verifyTicketPayload E token = Inr cl1" "names cl1 t1" "Some (en_id k1) = qc_ticketItemId t1" "ct_ticketItemId c1 = en_id k1"
    by (rule contract_rows) blast
  from 1(1) 2(1) have "cl1 = cl" by simp
  with 1(2,3) 2(2,3) have "Some (en_id k1) = Some (en_id k)" by (simp add: names_def)
  with 1(4) 2(4) show ?thesis by simp
qed

section \<open>Counting entries and redemptions\<close>

definition entries :: "js_string \<Rightarrow> gate_world \<Rightarrow> nat" where
  "entries kid w = length (filter (\<lambda>e. sv_result e = ScanSuccess \<and> sv_ticketItemId e = Some kid) (gw_events w))"

definition handed_out :: "js_string \<Rightarrow> gate_world \<Rightarrow> nat" where
  "handed_out bid w = length (filter (\<lambda>r. rr_result r = Redeemed \<and> rr_benefitEntitlementId r = bid) (gw_redemptions w))"

definition entered_once :: "gate_world \<Rightarrow> bool" where
  "entered_once w \<longleftrightarrow> distinct (map en_id (gw_items w)) \<and>
     (\<forall>kid. entries kid w \<le> 1 \<and> (entries kid w = 1 \<longrightarrow> (\<forall>k \<in> set (gw_items w). en_id k = kid \<longrightarrow> en_entered k)))"

definition redeemed_once :: "gate_world \<Rightarrow> bool" where
  "redeemed_once w \<longleftrightarrow> distinct (map be_id (gw_benefits w)) \<and>
     (\<forall>bid. handed_out bid w \<le> 1 \<and> (handed_out bid w = 1 \<longrightarrow> (\<forall>b \<in> set (gw_benefits w). be_id b = bid \<longrightarrow> be_state b = ''redeemed'')))"

definition gate_ok :: "gate_world \<Rightarrow> bool" where
  "gate_ok w \<longleftrightarrow> entered_once w \<and> redeemed_once w"

text \<open>Writers outside the gate: cancellations, refunds, draws, issuance. They write no scan and no redemption record,
  never undo an entry or a redemption and reuse no id.\<close>

definition leaves_gate :: "gate_world \<Rightarrow> gate_world \<Rightarrow> bool" where
  "leaves_gate w w1 \<longleftrightarrow> gw_events w1 = gw_events w \<and> gw_redemptions w1 = gw_redemptions w \<and>
     distinct (map en_id (gw_items w1)) \<and> distinct (map be_id (gw_benefits w1)) \<and>
     (\<forall>k \<in> set (gw_items w1). \<not> en_entered k \<longrightarrow> entries (en_id k) w = 0 \<or> (\<exists>k0 \<in> set (gw_items w). en_id k0 = en_id k \<and> \<not> en_entered k0)) \<and>
     (\<forall>b \<in> set (gw_benefits w1). be_state b \<noteq> ''redeemed'' \<longrightarrow>
        handed_out (be_id b) w = 0 \<or> (\<exists>b0 \<in> set (gw_benefits w). be_id b0 = be_id b \<and> be_state b0 \<noteq> ''redeemed''))"

lemma leaves_gate_ok:
  assumes "gate_ok w" and "leaves_gate w w1"
  shows "gate_ok w1"
proof -
  have same: "entries kid w1 = entries kid w" "handed_out bid w1 = handed_out bid w" for kid bid
    using assms(2) by (simp_all add: leaves_gate_def entries_def handed_out_def)
  have "en_entered k" if "k \<in> set (gw_items w1)" "entries (en_id k) w = 1" for k
    using that assms by (fastforce simp: gate_ok_def entered_once_def leaves_gate_def)
  moreover have "be_state b = ''redeemed''" if "b \<in> set (gw_benefits w1)" "handed_out (be_id b) w = 1" for b
    using that assms by (fastforce simp: gate_ok_def redeemed_once_def leaves_gate_def)
  ultimately show ?thesis using assms
    unfolding gate_ok_def entered_once_def redeemed_once_def same by (auto simp: leaves_gate_def)
qed

text \<open>The steps of the gate touch either the entries or the redemptions.\<close>

lemma entries_append:
  "entries kid (w\<lparr>gw_events := gw_events w @ [e]\<rparr>) =
    entries kid w + (if sv_result e = ScanSuccess \<and> sv_ticketItemId e = Some kid then 1 else 0)"
  by (simp add: entries_def)

lemma ok_audit: "gate_ok w \<Longrightarrow> gate_ok (w\<lparr>gw_audit := a\<rparr>)"
  by (simp add: gate_ok_def entered_once_def redeemed_once_def entries_def handed_out_def)

lemma ok_credentials: "gate_ok w \<Longrightarrow> gate_ok (w\<lparr>gw_credentials := cs\<rparr>)"
  by (simp add: gate_ok_def entered_once_def redeemed_once_def entries_def handed_out_def)

lemma ok_event: "gate_ok w \<Longrightarrow> sv_result e \<noteq> ScanSuccess \<Longrightarrow> gate_ok (w\<lparr>gw_events := gw_events w @ [e]\<rparr>)"
  by (simp add: gate_ok_def entered_once_def redeemed_once_def entries_append) (simp add: handed_out_def)

lemma keeps_audit [keeps_rules]: "keeps gate_ok (writeAudit a s r x)"
  unfolding writeAudit_def by (intro keeps_rules ok_audit)

lemma keeps_event [keeps_rules]: "sv_result e \<noteq> ScanSuccess \<Longrightarrow> keeps gate_ok (recordScanEvent keepFirst e)"
  unfolding recordScanEvent_def by (intro keeps_rules ok_event)

lemma keeps_transaction [keeps_rules]: "keeps I p \<Longrightarrow> keeps I (gate_transaction p)"
  unfolding keeps_def gate_transaction_def wp_def by (auto split: prod.splits sum.splits)

section \<open>Each step\<close>

lemma keeps_verify: "keeps gate_ok (checkInVerify E eid now q scanner)"
proof -
  have rejection: "keeps gate_ok (recordVerifyRejection E eid now c q scanner o1)" if "scanResultForOutcome o1 \<noteq> ScanSuccess" for c o1
    unfolding recordVerifyRejection_def by (auto intro!: keeps_rules simp: that scan_event_of_def split: option.splits)
  show ?thesis
    unfolding checkInVerify_def
  proof (rule keeps_bnd, rule keeps_basic, goal_cases)
    case (1 verified)
    show ?case
    proof (cases verified)
      case (Inl e)
      then show ?thesis by (cases e) (auto intro!: keeps_rules rejection)
    next
      case (Inr c)
      have "keeps gate_ok (recordVerifyRejection E eid now (Some c) q scanner (classifyScannerContract c (vq_showtimeId q)))"
        if "classifyScannerContract c (vq_showtimeId q) \<noteq> Processable"
        using rejected_no_success [OF that refl] by (rule rejection)
      with Inr show ?thesis by (auto intro!: keeps_rules simp: Let_def)
    qed
  qed
qed

lemma keeps_unverified: "keeps gate_ok (consume_unverified E eid now q ctx)"
  unfolding consume_unverified_def by (intro keeps_rules) (simp add: scan_event_of_def)

text \<open>Admission: the item is entered and its entry is recorded in one step.\<close>

definition admitted :: "scanner_contract \<Rightarrow> int \<Rightarrow> gate_world \<Rightarrow> gate_world" where
  "admitted c now w =
     w\<lparr>gw_items := map (\<lambda>k. if en_id k = ct_ticketItemId c \<and> en_status k = ''active'' \<and> \<not> en_entered k
         then k\<lparr>en_entered := True, en_enteredAt := Some now\<rparr> else k) (gw_items w),
       gw_credentials := map (\<lambda>t. if qc_id t = ct_ticketId c \<and> qc_status t = ''active'' \<and> qc_usedAt t = None
         then t\<lparr>qc_usedAt := Some now\<rparr> else t) (gw_credentials w)\<rparr>"

lemma wp_admit: "wp (admit c now) Q E w = Q () (admitted c now w)"
  by (simp add: admit_def wp_eqs admitted_def)

lemma same_id: "distinct (map f xs) \<Longrightarrow> x \<in> set xs \<Longrightarrow> y \<in> set xs \<Longrightarrow> f x = f y \<Longrightarrow> x = y"
  by (metis distinct_map inj_onD)

lemma admitted_ok:
  assumes "gate_ok w" and "k \<in> set (gw_items w)" and "en_id k = ct_ticketItemId c" and "en_status k = ''active''" and "\<not> en_entered k"
    and "sv_result e = ScanSuccess" and "sv_ticketItemId e = Some (ct_ticketItemId c)"
  shows "gate_ok ((admitted c now w)\<lparr>gw_events := gw_events w @ [e]\<rparr>)"
proof -
  let ?w = "(admitted c now w)\<lparr>gw_events := gw_events w @ [e]\<rparr>"
  have d: "distinct (map en_id (gw_items w))" using assms(1) by (simp add: gate_ok_def entered_once_def)
  have none: "entries (en_id k) w = 0"
    using assms(1,2,5) unfolding gate_ok_def entered_once_def by (metis less_one nat_less_le)
  have count: "entries kid ?w = entries kid w + (if kid = en_id k then 1 else 0)" for kid
    using assms(3,6,7) by (simp add: entries_def admitted_def)
  have ids: "map en_id (gw_items ?w) = map en_id (gw_items w)" by (simp add: admitted_def)
  have in1: "en_entered q" if "q \<in> set (gw_items ?w)" "en_id q = en_id k" for q
  proof -
    from that(1) obtain p where p: "p \<in> set (gw_items w)" "q = (if en_id p = ct_ticketItemId c \<and> en_status p = ''active'' \<and> \<not> en_entered p
         then p\<lparr>en_entered := True, en_enteredAt := Some now\<rparr> else p)" by (auto simp: admitted_def)
    with that(2) have "en_id p = en_id k" by (auto split: if_splits)
    with same_id [OF d p(1) assms(2)] have "p = k" by simp
    with p(2) assms(3-5) show ?thesis by simp
  qed
  have in2: "en_entered q" if "q \<in> set (gw_items ?w)" "entries (en_id q) w = 1" for q
  proof -
    from that(1) obtain p where p: "p \<in> set (gw_items w)" "q = p \<or> en_entered q" "en_id q = en_id p"
      by (auto simp: admitted_def)
    with that(2) assms(1) show ?thesis by (auto simp: gate_ok_def entered_once_def)
  qed
  have "entered_once ?w"
    unfolding entered_once_def ids count using assms(1) none in1 in2
    by (auto simp: gate_ok_def entered_once_def)
  moreover have "redeemed_once ?w" using assms(1) by (simp add: gate_ok_def redeemed_once_def handed_out_def admitted_def)
  ultimately show ?thesis by (simp add: gate_ok_def)
qed

lemma admitted_alone: "gate_ok w \<Longrightarrow> gate_ok (admitted c now w)"
proof -
  assume ok: "gate_ok w"
  have "map en_id (gw_items (admitted c now w)) = map en_id (gw_items w)" by (simp add: admitted_def)
  with ok show ?thesis
    by (auto simp: gate_ok_def entered_once_def redeemed_once_def) (auto simp: entries_def handed_out_def admitted_def)
qed

lemma keeps_consume_ticket: "keeps gate_ok (consume_ticket E eid now q ctx)"
  unfolding consume_ticket_def
proof (rule keeps_read, goal_cases)
  case (1 w)
  show ?case
  proof (cases "verifyTicketForScannerContract E now (cq_token q) w")
    case (Inl e)
    with 1 show ?thesis by (simp add: wp_eqs)
  next
    case (Inr c)
    let ?o = "classifyScannerContract c (Some (cq_showtimeId q))"
    show ?thesis
    proof (cases "?o = Processable")
      case False
      with 1 False show ?thesis
        unfolding Inr sum.case Let_def if_not_P [OF False]
        by (intro keepsD [of gate_ok]) (intro keeps_rules, simp_all add: scan_event_of_def rejected_no_success [OF False refl])
    next
      case True
      from processable_active [OF True] have active: "ct_ticketStatus c = QrActive" ..
      from Inr obtain cl t k os ps where rows: "k \<in> set (gw_items w)" "ct_ticketItemId c = en_id k"
        "ct_ticketStatus c = contract_status now cl t k os ps" by (rule contract_rows)
      from active rows(3) have "en_status k = ''active''" "\<not> en_entered k" using active_contract [of now cl t k os ps] by simp_all
      have alone: "gate_ok (admitted c now w)" using 1 by (rule admitted_alone)
      from \<open>en_status k = ''active''\<close> \<open>\<not> en_entered k\<close> 1 rows(1,2) have ok: "gate_ok ((admitted c now w)\<lparr>gw_events := gw_events w @ [scan_event_of E eid now (Some c) ctx ScanSuccess a b t x ConsumeStage]\<rparr>)" for a b t x
        by (intro admitted_ok [of w k]) (simp_all add: scan_event_of_def)
      have events: "gw_events (admitted c now w) = gw_events w" by (simp add: admitted_def)
      show ?thesis
        unfolding Inr sum.case Let_def if_P [OF True] wp_bnd wp_inspect wp_admit recordScanEvent_def writeAudit_def
        using alone ok by (simp add: wp_eqs events ok_audit del: option.case_eq_if)
    qed
  qed
qed

lemma keeps_consume: "keeps gate_ok (checkInConsume E eid now q ctx verified)"
  unfolding checkInConsume_def
  by (auto split: sum.split gate_error.split intro!: keeps_rules keeps_unverified keeps_consume_ticket)

lemma keeps_sync: "keeps gate_ok (syncPendingAttempts E eids now scanner attempts)"
proof -
  have one: "keeps gate_ok (resolveAttempt E eid now scanner a)" for eid a
    unfolding resolveAttempt_def by (intro keeps_rules keeps_consume)
  have "keeps gate_ok (resolve_all E eids now scanner as)" for as
    by (induction as) (auto intro!: keeps_rules one)
  then show ?thesis unfolding syncPendingAttempts_def by (intro keeps_rules)
qed

text \<open>Redemption.\<close>

lemma ok_record:
  assumes "gate_ok w" and "rr_result r \<noteq> Redeemed"
  shows "gate_ok (w\<lparr>gw_redemptions := gw_redemptions w @ [r]\<rparr>)"
  using assms by (simp add: gate_ok_def entered_once_def redeemed_once_def entries_def handed_out_def)

lemma keeps_record [keeps_rules]: "o1 \<noteq> Redeemed \<Longrightarrow> keeps gate_ok (recordRedemption E rid now q scanner b o1)"
  unfolding recordRedemption_def by (intro keeps_rules ok_record) simp_all

lemma keeps_shown [keeps_rules]: "keeps I (toBenefitEntitlement b)" "keeps I (rejected o1 b)" "keeps I (duplicateResponse now b p)"
  "keeps I (responseForExistingAttempt now r b)" "keeps I (responseForMatchingAttempt E now r b q scanner)"
  by (auto intro!: keeps_rules simp: toBenefitEntitlement_def rejected_def duplicateResponse_def responseForExistingAttempt_def
      responseForMatchingAttempt_def split: redemption_outcome.split)

lemma redeemed_ok:
  assumes "gate_ok w" and "b \<in> set (gw_benefits w)" and "be_state b = ''active''" and "rr_result r = Redeemed" and "rr_benefitEntitlementId r = be_id b"
    and "to_redeem b0 q itemId b"
  shows "gate_ok (w\<lparr>gw_benefits := map (\<lambda>x. if to_redeem b0 q itemId x then redeem_row now scanner x else x) (gw_benefits w),
    gw_redemptions := gw_redemptions w @ [r]\<rparr>)" (is "gate_ok ?w")
proof -
  have d: "distinct (map be_id (gw_benefits w))" using assms(1) by (simp add: gate_ok_def redeemed_once_def)
  have none: "handed_out (be_id b) w = 0"
    using assms(1,2,3) unfolding gate_ok_def redeemed_once_def by (auto simp: le_Suc_eq)
  have count: "handed_out bid ?w = handed_out bid w + (if bid = be_id b then 1 else 0)" for bid
    using assms(4,5) by (simp add: handed_out_def)
  have keep: "be_id (if to_redeem b0 q itemId x then redeem_row now scanner x else x) = be_id x" for x
    by (simp add: redeem_row_def)
  have ids: "map be_id (gw_benefits ?w) = map be_id (gw_benefits w)" using keep by (simp add: comp_def)
  have in1: "be_state x = ''redeemed''" if "x \<in> set (gw_benefits ?w)" "be_id x = be_id b" for x
  proof -
    from that(1) obtain p where p: "p \<in> set (gw_benefits w)" "x = (if to_redeem b0 q itemId p then redeem_row now scanner p else p)" by auto
    with that(2) keep have "be_id p = be_id b" by metis
    with same_id [OF d p(1) assms(2)] have "p = b" by simp
    with p(2) assms(6) show ?thesis by (simp add: redeem_row_def)
  qed
  have in2: "be_state x = ''redeemed''" if "x \<in> set (gw_benefits ?w)" "handed_out (be_id x) w = 1" for x
  proof -
    from that(1) obtain p where p: "p \<in> set (gw_benefits w)" "x = p \<or> be_state x = ''redeemed''" "be_id x = be_id p"
      by (auto simp: redeem_row_def)
    with that(2) assms(1) show ?thesis by (auto simp: gate_ok_def redeemed_once_def)
  qed
  have "redeemed_once ?w"
    unfolding redeemed_once_def ids count using assms(1) none in1 in2 by (auto simp: gate_ok_def redeemed_once_def)
  moreover have "entered_once ?w" using assms(1) by (simp add: gate_ok_def entered_once_def entries_def)
  ultimately show ?thesis by (simp add: gate_ok_def)
qed

lemma redeemed_alone:
  assumes "gate_ok w"
  shows "gate_ok (w\<lparr>gw_benefits := map (\<lambda>x. if P x then redeem_row now scanner x else x) (gw_benefits w)\<rparr>)" (is "gate_ok ?w")
proof -
  have "be_id (if P x then redeem_row now scanner x else x) = be_id x" for x by (simp add: redeem_row_def)
  then have ids: "map be_id (gw_benefits ?w) = map be_id (gw_benefits w)" by (simp add: comp_def)
  have "distinct (map be_id (gw_benefits ?w))" unfolding ids using assms by (simp add: gate_ok_def redeemed_once_def)
  moreover have "entries kid ?w = entries kid w" "handed_out bid ?w = handed_out bid w" for kid bid
    by (simp_all add: entries_def handed_out_def)
  moreover have "be_state b = ''redeemed''" if "b \<in> set (gw_benefits ?w)" "handed_out (be_id b) w = 1" for b
    using that assms by (auto simp: gate_ok_def redeemed_once_def redeem_row_def)
  ultimately show ?thesis using assms unfolding gate_ok_def entered_once_def redeemed_once_def by auto
qed

lemma keeps_redeem_active: "keeps gate_ok (redeem_active E rid now q scanner b itemId)"
  unfolding redeem_active_def
proof (rule keeps_read, goal_cases)
  case (1 w)
  let ?w = "w\<lparr>gw_benefits := map (\<lambda>x. if to_redeem b q itemId x then redeem_row now scanner x else x) (gw_benefits w)\<rparr>"
  have alone: "gate_ok ?w" using 1 by (rule redeemed_alone)
  show ?case
  proof (cases "List.find (to_redeem b q itemId) (gw_benefits w)")
    case None
    have "keeps gate_ok (bnd (inspect (findPriorRedeemed (be_showtimeId b) (be_id b))) (\<lambda>prior.
             case prior of
               Some p \<Rightarrow>
                 bnd (inspect (findEntitlement (be_id b))) (\<lambda>reloaded.
                   let b1 = or_else reloaded (markEntitlementRedeemed b p) in
                   bnd (recordRedemption E rid now q scanner b1 DuplicateRedemption) (\<lambda>_. duplicateResponse now b1 (Some p)))
             | None \<Rightarrow> record_and_reject E rid now q scanner b InactiveBenefit))"
      unfolding record_and_reject_def Let_def by (intro keeps_rules) simp_all
    from keepsD [OF this alone] None show ?thesis by (simp add: wp_bnd wp_alter)
  next
    case (Some x)
    from found [OF this] have x: "x \<in> set (gw_benefits w)" "to_redeem b q itemId x" by simp_all
    then have "be_state x = ''active''" by (simp add: to_redeem_def)
    have "gate_ok (?w\<lparr>gw_redemptions := gw_redemptions w @ [r]\<rparr>)" if "rr_result r = Redeemed" "rr_benefitEntitlementId r = be_id x" for r
      using redeemed_ok [OF 1 x(1) \<open>be_state x = ''active''\<close> that x(2)] by simp
    then show ?thesis unfolding Some option.case wp_bnd wp_alter recordRedemption_def toBenefitEntitlement_def
      using alone by (simp add: wp_eqs redeem_row_def)
  qed
qed

lemma keeps_redeem: "keeps gate_ok (redeem E fault rid now q scanner)"
  unfolding redeem_def redeemLocked_def record_and_reject_def
  by (auto split: option.split sum.split gate_error.split intro!: keeps_rules keeps_redeem_active)

section \<open>Any order of steps\<close>

inductive gate_step :: "gate_env \<Rightarrow> gate_world \<Rightarrow> gate_world \<Rightarrow> bool" for E where
  look_up: "checkInVerify E eid now q scanner w = (r, w1) \<Longrightarrow> gate_step E w w1"
| admission: "checkInConsume E eid now cq ctx verified w = (r2, w1) \<Longrightarrow> gate_step E w w1"
| recovery: "syncPendingAttempts E eids now scanner_id attempts w = (r3, w1) \<Longrightarrow> gate_step E w w1"
| redemption: "redeem E fault rid now rq scanner_id w = (r4, w1) \<Longrightarrow> gate_step E w w1"
| elsewhere: "leaves_gate w w1 \<Longrightarrow> gate_step E w w1"

inductive_cases gate_step_cases: "gate_step E w w1"

lemmas gate_keeps = keeps_run [OF keeps_verify] keeps_run [OF keeps_consume] keeps_run [OF keeps_sync] keeps_run [OF keeps_redeem]

lemma step_ok: "gate_step E w w1 \<Longrightarrow> gate_ok w \<Longrightarrow> gate_ok w1"
  by (erule gate_step_cases) (blast intro: gate_keeps leaves_gate_ok)+

text \<open>C13: A ticket admits once. Whatever is scanned at however many gates, retried after a lost response, or
  recovered from offline scanners, and whatever cancellations, refunds and draws change in between, at most one
  successful entry is recorded for a ticket item, and an item with a recorded entry stays entered.\<close>
theorem ticket_admits_once:
  assumes "(gate_step E)\<^sup>*\<^sup>* w w1" and "gate_ok w"
  shows "length (filter (\<lambda>e. sv_result e = ScanSuccess \<and> sv_ticketItemId e = Some kid) (gw_events w1)) \<le> 1 \<and>
    ((\<exists>e \<in> set (gw_events w1). sv_result e = ScanSuccess \<and> sv_ticketItemId e = Some kid) \<longrightarrow>
      (\<forall>k \<in> set (gw_items w1). en_id k = kid \<longrightarrow> en_entered k))"
proof -
  have ok: "gate_ok w1" by (rule keeps_steps [where I = gate_ok, OF assms]) (rule step_ok)
  have "entries kid w1 \<noteq> 0" if "\<exists>e \<in> set (gw_events w1). sv_result e = ScanSuccess \<and> sv_ticketItemId e = Some kid"
    using that by (auto simp: entries_def filter_empty_conv)
  moreover from ok have "entries kid w1 \<le> 1" by (simp add: gate_ok_def entered_once_def)
  ultimately have "entries kid w1 = 1" if "\<exists>e \<in> set (gw_events w1). sv_result e = ScanSuccess \<and> sv_ticketItemId e = Some kid"
    using that by fastforce
  with ok \<open>entries kid w1 \<le> 1\<close> show ?thesis by (auto simp: gate_ok_def entered_once_def entries_def)
qed

text \<open>C14: A benefit is handed out once. Over the same sequences of steps at most one redemption is recorded for a
  benefit of a ticket, and a benefit with a recorded redemption stays redeemed.\<close>
theorem benefit_handed_out_once:
  assumes "(gate_step E)\<^sup>*\<^sup>* w w1" and "gate_ok w"
  shows "length (filter (\<lambda>r. rr_result r = Redeemed \<and> rr_benefitEntitlementId r = bid) (gw_redemptions w1)) \<le> 1 \<and>
    ((\<exists>r \<in> set (gw_redemptions w1). rr_result r = Redeemed \<and> rr_benefitEntitlementId r = bid) \<longrightarrow>
      (\<forall>b \<in> set (gw_benefits w1). be_id b = bid \<longrightarrow> be_state b = ''redeemed''))"
proof -
  have ok: "gate_ok w1" by (rule keeps_steps [where I = gate_ok, OF assms]) (rule step_ok)
  have "handed_out bid w1 \<noteq> 0" if "\<exists>r \<in> set (gw_redemptions w1). rr_result r = Redeemed \<and> rr_benefitEntitlementId r = bid"
    using that by (auto simp: handed_out_def filter_empty_conv)
  moreover from ok have "handed_out bid w1 \<le> 1" by (simp add: gate_ok_def redeemed_once_def)
  ultimately have "handed_out bid w1 = 1" if "\<exists>r \<in> set (gw_redemptions w1). rr_result r = Redeemed \<and> rr_benefitEntitlementId r = bid"
    using that by fastforce
  with ok \<open>handed_out bid w1 \<le> 1\<close> show ?thesis by (auto simp: gate_ok_def redeemed_once_def handed_out_def)
qed

section \<open>Who gets in\<close>

definition may_enter :: "gate_env \<Rightarrow> int \<Rightarrow> consume_request \<Rightarrow> gate_world \<Rightarrow> bool" where
  "may_enter E now q w \<longleftrightarrow> (\<exists>cl t k. verifyTicketPayload E (cq_token q) = Inr cl \<and> t \<in> set (gw_credentials w) \<and> names cl t \<and>
     k \<in> set (gw_items w) \<and> qc_ticketItemId t = Some (en_id k) \<and> en_status k = ''active'' \<and> \<not> en_entered k \<and>
     map_of (gw_orders w) (qc_reservationId t) = Some ''CONFIRMED'' \<and> map_of (gw_payments w) (qc_paymentId t) = Some ''DONE'' \<and>
     qc_revokedAt t = None \<and> qc_usedAt t = None \<and> \<not> reached (qc_expiresAt t) now \<and> (cq_showtimeId q = [] \<or> qc_showtimeId t = cq_showtimeId q))"

lemma processable_may_enter:
  assumes "verifyTicketForScannerContract E now (cq_token q) w = Inr c" and "classifyScannerContract c (Some (cq_showtimeId q)) = Processable"
  shows "may_enter E now q w"
proof -
  from assms(1) obtain cl t k os ps where rows: "verifyTicketPayload E (cq_token q) = Inr cl" "t \<in> set (gw_credentials w)" "names cl t"
    "k \<in> set (gw_items w)" "Some (en_id k) = qc_ticketItemId t" "map_of (gw_orders w) (qc_reservationId t) = Some os"
    "map_of (gw_payments w) (qc_paymentId t) = Some ps" "ct_ticketStatus c = contract_status now cl t k os ps" "ct_showtimeId c = qc_showtimeId t"
    by (rule contract_rows)
  from processable_active [OF assms(2)] rows(8,9) have "contract_status now cl t k os ps = QrActive" "cq_showtimeId q = [] \<or> qc_showtimeId t = cq_showtimeId q"
    by auto
  with active_contract [OF this(1)] rows show ?thesis unfolding may_enter_def by (intro exI [of _ cl] exI [of _ t] exI [of _ k]) simp
qed

lemma consume_ticket_post:
  "wp (consume_ticket E eid now q ctx) (\<lambda>resp _. cp_outcome resp = Entered \<longrightarrow> may_enter E now q w) (\<lambda>_ _. True) w"
proof (cases "verifyTicketForScannerContract E now (cq_token q) w")
  case (Inr c)
  show ?thesis
  proof (cases "classifyScannerContract c (Some (cq_showtimeId q)) = Processable")
    case True
    with Inr processable_may_enter have "may_enter E now q w" by blast
    then show ?thesis by (simp add: wp_def split: prod.split sum.split)
  next
    case False
    then have "classifyScannerContract c (Some (cq_showtimeId q)) \<noteq> Entered"
      by (auto simp: classifyScannerContract_def split: qr_status.splits if_splits)
    with False Inr show ?thesis
      by (simp add: consume_ticket_def Let_def wp_eqs recordScanEvent_def writeAudit_def)
  qed
qed (simp add: consume_ticket_def wp_eqs)

lemma wp_transaction: "wp p Q (\<lambda>_ _. True) w \<Longrightarrow> (\<And>e. E e w) \<Longrightarrow> wp (gate_transaction p) Q E w"
  by (auto simp: gate_transaction_def wp_def split: prod.splits sum.splits)

text \<open>C15: Only the holder of a valid ticket gets in. When a scan lets somebody in and records the entry, the token
  was signed with a secret of the keyring and names a credential of a ticket item that, at that moment, is active
  and not entered, belongs to a confirmed and paid order and to the show at that gate, and whose credential is
  neither revoked nor used nor expired; whatever an earlier look at the ticket had shown.\<close>
theorem entry_needs_valid_ticket:
  assumes "checkInConsume E eid now q ctx verified w = (Inr resp, w1)" and "cp_outcome resp = Entered"
    and "gw_events w1 \<noteq> gw_events w" and "cq_showtimeId q \<noteq> []"
  shows "\<exists>cl t k. verifyTicketPayload E (cq_token q) = Inr cl \<and> t \<in> set (gw_credentials w) \<and> names cl t \<and>
     k \<in> set (gw_items w) \<and> qc_ticketItemId t = Some (en_id k) \<and> en_status k = ''active'' \<and> \<not> en_entered k \<and>
     map_of (gw_orders w) (qc_reservationId t) = Some ''CONFIRMED'' \<and> map_of (gw_payments w) (qc_paymentId t) = Some ''DONE'' \<and>
     qc_revokedAt t = None \<and> qc_usedAt t = None \<and> \<not> reached (qc_expiresAt t) now \<and> qc_showtimeId t = cq_showtimeId q"
proof -
  have "wp (checkInConsume E eid now q ctx verified)
      (\<lambda>resp w1. cp_outcome resp = Entered \<and> gw_events w1 \<noteq> gw_events w \<longrightarrow> may_enter E now q w) (\<lambda>_ _. True) w"
  proof (cases verified)
    case (Inl e)
    then show ?thesis
      by (cases e) (auto simp: checkInConsume_def wp_eqs consume_unverified_def recordScanEvent_def writeAudit_def intro!: wp_transaction)
  next
    case (Inr v)
    have "wp (consume_ticket E eid now q ctx) (\<lambda>resp w1. cp_outcome resp = Entered \<and> gw_events w1 \<noteq> gw_events w \<longrightarrow> may_enter E now q w) (\<lambda>_ _. True) w"
      by (rule wp_mono [OF consume_ticket_post]) simp_all
    with Inr show ?thesis
      by (auto simp: checkInConsume_def wp_bnd wp_inspect wp_if wp_ret wp_raise intro!: wp_transaction split: option.split)
  qed
  from wp_result [OF this assms(1)] assms(2-4) show ?thesis by (simp add: may_enter_def)
qed

section \<open>Repeated requests\<close>

text \<open>Every step of the gate only appends scan events.\<close>

abbreviation logged :: "scan_event list \<Rightarrow> gate_world \<Rightarrow> bool" where
  "logged evs w \<equiv> prefix evs (gw_events w)"

lemma logged_event: "keeps (logged evs) (recordScanEvent k e)" "keeps (logged evs) (writeAudit a s r x)"
  unfolding recordScanEvent_def writeAudit_def by (intro keeps_rules; simp add: prefix_prefix)+

lemma logged_verify: "keeps (logged evs) (checkInVerify E eid now q scanner)"
proof -
  have "keeps (logged evs) (recordVerifyRejection E eid now c q scanner o1)" for c o1
    unfolding recordVerifyRejection_def by (auto intro!: keeps_rules logged_event split: option.splits)
  then show ?thesis
    unfolding checkInVerify_def Let_def
    by (intro keeps_rules) (auto intro!: keeps_rules logged_event split: gate_error.split)
qed

lemma logged_consume: "keeps (logged evs) (checkInConsume E eid now q ctx verified)"
proof -
  have "keeps (logged evs) (admit c now)" for c unfolding admit_def by (intro keeps_rules) simp_all
  then show ?thesis
    unfolding checkInConsume_def consume_ticket_def consume_unverified_def Let_def
    by (auto split: sum.split gate_error.split intro!: keeps_rules logged_event)
qed

lemma logged_sync: "keeps (logged evs) (syncPendingAttempts E eids now scanner attempts)"
proof -
  have one: "keeps (logged evs) (resolveAttempt E eid now scanner a)" for eid a
    unfolding resolveAttempt_def by (intro keeps_rules logged_consume)
  have "keeps (logged evs) (resolve_all E eids now scanner as)" for as
    by (induction as) (auto intro!: keeps_rules one)
  then show ?thesis unfolding syncPendingAttempts_def by (intro keeps_rules logged_event)
qed

lemma logged_redeem: "keeps (logged evs) (redeem E fault rid now q scanner)"
proof -
  have "keeps (logged evs) (recordRedemption E rid now q scanner b o1)" for b o1
    unfolding recordRedemption_def by (intro keeps_rules) simp_all
  then show ?thesis
    unfolding redeem_def redeemLocked_def record_and_reject_def redeem_active_def Let_def
    by (auto split: option.split sum.split gate_error.split intro!: keeps_rules)
qed

lemma logged_step: "gate_step E w w1 \<Longrightarrow> logged evs w \<Longrightarrow> logged evs w1"
  by (erule gate_step_cases)
    (blast intro: keeps_run [OF logged_verify] keeps_run [OF logged_consume] keeps_run [OF logged_sync] keeps_run [OF logged_redeem],
     simp_all add: leaves_gate_def keeps_run [OF logged_consume] keeps_run [OF logged_sync] keeps_run [OF logged_redeem])

lemma find_prefix: "prefix xs ys \<Longrightarrow> List.find P xs = Some r \<Longrightarrow> List.find P ys = Some r"
proof (induction xs arbitrary: ys)
  case (Cons x xs)
  then obtain zs where "ys = x # zs" "prefix xs zs" by (cases ys) auto
  with Cons show ?case by (auto split: if_splits)
qed simp

text \<open>The receipt that an attempt leaves answers a repetition of it.\<close>

definition receipt_of :: "gate_env \<Rightarrow> consume_request \<Rightarrow> scanner_context \<Rightarrow> scanner_contract \<Rightarrow> consume_response \<Rightarrow> gate_world \<Rightarrow> bool" where
  "receipt_of E q ctx v resp w \<longleftrightarrow> (\<exists>r. List.find (\<lambda>r. sv_deviceAttemptId r = Some (cq_deviceAttemptId q)) (gw_events w) = Some r \<and>
     same_request E q ctx v r \<and> cp_outcome resp = receipt_outcome (sv_result r) \<and> cp_scanEventId resp = Some (sv_id r) \<and>
     cp_consumedAt resp = (if sv_result r = ScanSuccess then Some (sv_scannedAt r) else None) \<and> cp_rejectionReason resp = sv_rejectionReason r)"

lemma classified_receipt: "classifyScannerContract c st \<noteq> Processable \<Longrightarrow> receipt_outcome (scanResultForOutcome (classifyScannerContract c st)) = classifyScannerContract c st"
  by (cases "ct_ticketStatus c") (auto simp: classifyScannerContract_def split: if_splits)

lemma find_new: "List.find P xs = None \<Longrightarrow> P r \<Longrightarrow> List.find P (xs @ [r]) = Some r"
  by (induction xs) auto

lemma consume_ticket_receipt:
  assumes "verifyTicketForScannerContract E now0 (cq_token q) w0 = Inr v"
    and "List.find (\<lambda>r. sv_deviceAttemptId r = Some (cq_deviceAttemptId q)) (gw_events w) = None"
  shows "wp (consume_ticket E eid now q ctx) (\<lambda>resp w1. receipt_of E q ctx v resp w1) (\<lambda>_ _. True) w"
proof (cases "verifyTicketForScannerContract E now (cq_token q) w")
  case (Inr c)
  have item: "ct_ticketItemId c = ct_ticketItemId v" by (rule contract_item [OF assms(1) Inr])
  have new: "List.find (\<lambda>r. sv_deviceAttemptId r = Some (cq_deviceAttemptId q)) (gw_events w @ [scan_event_of E eid now (Some c) ctx res (cq_deviceAttemptId q) st tok x stage])
      = Some (scan_event_of E eid now (Some c) ctx res (cq_deviceAttemptId q) st tok x stage)" for res st tok x stage
    using assms(2) by (rule find_new) (simp add: scan_event_of_def)
  have same: "same_request E q ctx v (scan_event_of E eid now (Some c) ctx res (cq_deviceAttemptId q) (cq_showtimeId q) (cq_token q) x ConsumeStage)" for res x
    by (simp add: same_request_def scan_event_of_def item)
  show ?thesis
  proof (cases "classifyScannerContract c (Some (cq_showtimeId q)) = Processable")
    case True
    have events: "gw_events (admitted c now w) = gw_events w" by (simp add: admitted_def)
    show ?thesis
      unfolding consume_ticket_def wp_bnd [of "inspect _"] wp_inspect Inr sum.case Let_def if_P [OF True]
      by (simp add: wp_bnd wp_inspect wp_admit recordScanEvent_def writeAudit_def wp_eqs events receipt_of_def new same)
        (simp add: scan_event_of_def)
  next
    case False
    show ?thesis
      unfolding consume_ticket_def wp_bnd [of "inspect _"] wp_inspect Inr sum.case Let_def if_not_P [OF False]
      by (simp add: wp_bnd wp_inspect recordScanEvent_def writeAudit_def wp_eqs receipt_of_def new same)
        (simp add: scan_event_of_def classified_receipt [OF False] rejected_no_success [OF False refl])
  qed
qed (simp add: consume_ticket_def wp_eqs)

lemma consume_receipt:
  assumes "verifyTicketForScannerContract E now0 (cq_token q) w0 = Inr v"
  shows "wp (checkInConsume E eid now q ctx (Inr v)) (\<lambda>resp w1. receipt_of E q ctx v resp w1) (\<lambda>_ _. True) w"
  unfolding checkInConsume_def sum.case
proof (rule wp_transaction, goal_cases)
  case 1
  show ?case
  proof (cases "List.find (\<lambda>r. sv_deviceAttemptId r = Some (cq_deviceAttemptId q)) (gw_events w)")
    case None
    from consume_ticket_receipt [OF assms None] None show ?thesis by (simp add: wp_bnd wp_inspect)
  next
    case (Some r)
    then show ?thesis by (simp add: wp_eqs receipt_of_def receipt_response_def)
  qed
qed simp


section \<open>Who gets a benefit\<close>

definition may_redeem :: "gate_env \<Rightarrow> int \<Rightarrow> redemption_request \<Rightarrow> gate_world \<Rightarrow> bool" where
  "may_redeem E now q w \<longleftrightarrow> (\<exists>c b. verifyTicketForScannerContract E now (rq_token q) w = Inr c \<and> ct_ticketStatus c \<in> {QrActive, QrUsed} \<and>
     ct_showtimeId c = rq_showtimeId q \<and> b \<in> set (gw_benefits w) \<and> be_id b = rq_benefitEntitlementId q \<and> be_state b = ''active'' \<and>
     be_ticketItemId b = ct_ticketItemId c \<and> be_showtimeId b = rq_showtimeId q)"

lemma wp_recordRedemption:
  "wp (recordRedemption E rid now q scanner b o1) Q (\<lambda>_ _. True) w =
    (rq_deviceAttemptId q \<notin> rr_deviceAttemptId ` set (gw_redemptions w) \<longrightarrow>
     Q rid (w\<lparr>gw_redemptions := gw_redemptions w @ [\<lparr>rr_id = rid, rr_showtimeId = be_showtimeId b,
            rr_requestedShowtimeId = Some (rq_showtimeId q), rr_ticketItemId = be_ticketItemId b, rr_benefitEntitlementId = be_id b,
            rr_scannerUserId = scanner, rr_deviceAttemptId = rq_deviceAttemptId q, rr_redactedTokenRef = ge_tokenRef E (rq_token q),
            rr_result = o1, rr_createdAt = now\<rparr>]\<rparr>))"
  by (simp add: recordRedemption_def wp_eqs)

text \<open>Only the last branch answers with a redemption.\<close>

lemma other_outcomes:
  "o1 \<noteq> Redeemed \<Longrightarrow> wp (record_and_reject E rid now q scanner b o1) (\<lambda>resp _. rp_outcome resp = Redeemed \<longrightarrow> X) (\<lambda>_ _. True) w"
  "wp (duplicateResponse now b1 p) (\<lambda>resp _. rp_outcome resp = Redeemed \<longrightarrow> X) (\<lambda>_ _. True) w1"
  by (simp_all add: record_and_reject_def rejected_def duplicateResponse_def toBenefitEntitlement_def wp_bnd wp_recordRedemption wp_if wp_raise wp_ret)

lemma redeem_active_post:
  "wp (redeem_active E rid now q scanner b itemId)
     (\<lambda>resp _. rp_outcome resp = Redeemed \<longrightarrow> (\<exists>x \<in> set (gw_benefits w). to_redeem b q itemId x)) (\<lambda>_ _. True) w"
proof (cases "List.find (to_redeem b q itemId) (gw_benefits w)")
  case None
  show ?thesis unfolding redeem_active_def wp_bnd wp_inspect wp_alter None option.case
    by (auto simp: wp_bnd wp_inspect Let_def wp_recordRedemption other_outcomes split: option.split)
next
  case (Some x)
  from found [OF this] have "\<exists>x \<in> set (gw_benefits w). to_redeem b q itemId x" by blast
  then show ?thesis by (simp add: wp_def split: prod.split sum.split)
qed

lemma redeemLocked_post:
  "wp (redeemLocked E rid now q scanner) (\<lambda>resp _. rp_outcome resp = Redeemed \<longrightarrow> may_redeem E now q w) (\<lambda>_ _. True) w"
proof (cases "findEntitlement (rq_benefitEntitlementId q) w")
  case None
  then show ?thesis by (simp add: redeemLocked_def wp_eqs notEligibleResponse_def)
next
  case (Some b)
  from found [OF this [unfolded findEntitlement_def]] have b: "be_id b = rq_benefitEntitlementId q" by simp
  show ?thesis
  proof (cases "verifyTicketForScannerContract E now (rq_token q) w")
    case (Inl e)
    with Some show ?thesis by (cases e) (simp_all add: redeemLocked_def wp_bnd wp_inspect wp_raise other_outcomes)
  next
    case (Inr c)
    have active: "wp (redeem_active E rid now q scanner b (ct_ticketItemId c)) (\<lambda>resp _. rp_outcome resp = Redeemed \<longrightarrow> may_redeem E now q w) (\<lambda>_ _. True) w"
      if "ct_showtimeId c = rq_showtimeId q" "ct_ticketStatus c \<noteq> QrRevoked" "ct_ticketStatus c \<noteq> QrExpired"
    proof (rule wp_mono [OF redeem_active_post], goal_cases)
      case (1 resp w1)
      from that have "ct_ticketStatus c \<in> {QrActive, QrUsed}" by (cases "ct_ticketStatus c") auto
      with 1 that Inr b show ?case by (auto simp: may_redeem_def to_redeem_def)
    qed simp
    show ?thesis unfolding redeemLocked_def wp_bnd wp_inspect Some option.case Inr sum.case
      by (auto simp: wp_if wp_bnd wp_inspect wp_recordRedemption other_outcomes intro!: active)
  qed
qed

text \<open>C17: A benefit goes to the holder of its ticket. When a request hands a benefit out and records it, the token
  names the ticket item that the benefit belongs to, of the show at that gate, the ticket is valid (entered already or
  not), neither cancelled nor expired, and the benefit was active.\<close>
theorem benefit_needs_its_ticket:
  assumes "redeem E fault rid now q scanner w = (Inr resp, w1)" and "rp_outcome resp = Redeemed" and "gw_redemptions w1 \<noteq> gw_redemptions w"
  shows "\<exists>c b. verifyTicketForScannerContract E now (rq_token q) w = Inr c \<and> ct_ticketStatus c \<in> {QrActive, QrUsed} \<and>
     ct_showtimeId c = rq_showtimeId q \<and> b \<in> set (gw_benefits w) \<and> be_id b = rq_benefitEntitlementId q \<and> be_state b = ''active'' \<and>
     be_ticketItemId b = ct_ticketItemId c \<and> be_showtimeId b = rq_showtimeId q"
proof -
  have shown: "wp (responseForMatchingAttempt E now r b q scanner) (\<lambda>_ w1. w1 = w) (\<lambda>_ _. True) w" for r b
    by (simp add: responseForMatchingAttempt_def responseForExistingAttempt_def duplicateResponse_def rejected_def toBenefitEntitlement_def
        wp_eqs split: redemption_outcome.split)
  have fresh: "wp (redeemLocked E rid now q scanner) (\<lambda>resp w1. rp_outcome resp = Redeemed \<and> gw_redemptions w1 \<noteq> gw_redemptions w \<longrightarrow> may_redeem E now q w) (\<lambda>_ _. True) w"
    by (rule wp_mono [OF redeemLocked_post]) simp_all
  have again: "wp (responseForMatchingAttempt E now r b q scanner) (\<lambda>resp w1. rp_outcome resp = Redeemed \<and> gw_redemptions w1 \<noteq> gw_redemptions w \<longrightarrow> may_redeem E now q w) (\<lambda>_ _. True) w" for r b
    by (rule wp_mono [OF shown]) simp_all
  have "wp (redeem E fault rid now q scanner)
      (\<lambda>resp w1. rp_outcome resp = Redeemed \<and> gw_redemptions w1 \<noteq> gw_redemptions w \<longrightarrow> may_redeem E now q w) (\<lambda>_ _. True) w"
    unfolding redeem_def
    by (auto simp: wp_raise wp_bnd wp_inspect wp_ret fresh again intro!: wp_transaction split: option.split)
  from wp_result [OF this assms(1)] assms(2,3) show ?thesis by (simp add: may_redeem_def)
qed

end
