(* ===== verification/EntryWitness.thy ===== *)
theory EntryWitness
  imports EntryTheorems
begin

text \<open>A concrete gate with one ticket and one benefit, and the theorems on entry applied to it.\<close>

definition gate_claims :: token_claims where
  "gate_claims = \<lparr>cl_exp = Some 100, cl_type = Some ''qr-ticket'', cl_jti = Some ''jti-1'', cl_reservationId = Some ''o'',
     cl_paymentId = Some ''p'', cl_showtimeId = Some ''s'', cl_ticketItemId = Some ''t1'',
     cl_seatIdentity = Some \<lparr>sc_seatId = Some ''1F:A-1'', sc_seatKey = Some ''A-1'', sc_floorKey = Some ''1F'', sc_floorLabel = Some ''1'',
       sc_row = Some ''A'', sc_number = Some ''1'', sc_tierName = Some ''R''\<rparr>, cl_secretVersion = Some ''v1''\<rparr>"

definition demo_gate :: gate_env where
  "demo_gate = \<lparr>ge_decode = \<lambda>_. Some ''v1'', ge_verify = \<lambda>s t. if s = ''k'' \<and> t = ''qr'' then TokenOk gate_claims else TokenInvalid,
     ge_tokenRef = take 2, ge_secretVersion = Some ''v1'', ge_secret = Some ''k'', ge_keyring = NoKeyring\<rparr>"

definition demo_hall :: gate_world where
  "demo_hall = \<lparr>gw_credentials = [\<lparr>qc_id = ''c1'', qc_ticketItemId = Some ''t1'', qc_reservationId = ''o'', qc_paymentId = ''p'',
       qc_showtimeId = ''s'', qc_jti = ''jti-1'', qc_status = ''active'', qc_expiresAt = Some 100000, qc_usedAt = None, qc_revokedAt = None\<rparr>],
     gw_items = [\<lparr>en_id = ''t1'', en_status = ''active'', en_entered = False, en_enteredAt = None\<rparr>],
     gw_orders = [(''o'', ''CONFIRMED'')], gw_payments = [(''p'', ''DONE'')], gw_events = [],
     gw_benefits = [\<lparr>be_id = ''b'', be_showtimeId = ''s'', be_ticketItemId = ''t1'', be_state = ''active'', be_redeemedAt = None,
       be_redeemedByUserId = None, be_source = FromConfiguration, be_runId = None, be_copyParses = True\<rparr>],
     gw_redemptions = [], gw_audit = []\<rparr>"

definition demo_scan :: consume_request where
  "demo_scan = \<lparr>cq_token = ''qr'', cq_showtimeId = ''s'', cq_deviceAttemptId = ''a1''\<rparr>"

definition demo_scanner :: scanner_context where
  "demo_scanner = \<lparr>sx_scannerUserId = ''u'', sx_scanSource = None, sx_offlineSyncState = None\<rparr>"

definition demo_contract :: "gate_error + scanner_contract" where
  "demo_contract = verifyTicketForScannerContract demo_gate 50 ''qr'' demo_hall"

definition demo_entry :: "(gate_error + consume_response) \<times> gate_world" where
  "demo_entry = checkInConsume demo_gate ''e1'' 50 demo_scan demo_scanner demo_contract demo_hall"

definition demo_redemption :: redemption_request where
  "demo_redemption = \<lparr>rq_token = ''qr'', rq_showtimeId = ''s'', rq_deviceAttemptId = ''a2'', rq_benefitEntitlementId = ''b''\<rparr>"

definition demo_handover :: "(gate_error + redemption_response) \<times> gate_world" where
  "demo_handover = redeem demo_gate None ''r1'' 60 demo_redemption ''u'' (snd demo_entry)"

lemma demo_hall_ok: "gate_ok demo_hall"
  by (simp add: gate_ok_def entered_once_def redeemed_once_def entries_def handed_out_def demo_hall_def)

lemma demo_contract_shown: "\<exists>v. demo_contract = Inr v"
proof -
  have "isl demo_contract = False" by code_simp
  then have "demo_contract = Inr (projr demo_contract)" by (simp only: sum.collapse(2) not_False_eq_True)
  then show ?thesis ..
qed

lemma demo_entry_result: "\<exists>resp. demo_entry = (Inr resp, snd demo_entry) \<and> cp_outcome resp = Entered"
proof -
  have "map_sum (\<lambda>_. ()) cp_outcome (fst demo_entry) = Inr Entered" by code_simp
  then show ?thesis by (cases "fst demo_entry") (auto simp: prod_eq_iff)
qed

lemma demo_entry_recorded: "gw_events demo_hall = []" "map sv_ticketItemId (gw_events (snd demo_entry)) = [Some ''t1'']"
  "map sv_result (gw_events (snd demo_entry)) = [ScanSuccess]"
  by code_simp+

lemma demo_handover_result: "\<exists>resp. demo_handover = (Inr resp, snd demo_handover) \<and> rp_outcome resp = Redeemed"
proof -
  have "map_sum (\<lambda>_. ()) rp_outcome (fst demo_handover) = Inr Redeemed" by code_simp
  then show ?thesis by (cases "fst demo_handover") (auto simp: prod_eq_iff)
qed

lemma demo_handover_recorded: "gw_redemptions (snd demo_entry) = []" "map rr_result (gw_redemptions (snd demo_handover)) = [Redeemed]"
  "map rr_benefitEntitlementId (gw_redemptions (snd demo_handover)) = [''b'']"
  by code_simp+

lemma demo_steps: "gate_step demo_gate demo_hall (snd demo_entry)" "gate_step demo_gate (snd demo_entry) (snd demo_handover)"
  unfolding demo_handover_def demo_entry_def
  by (rule gate_step.admission gate_step.redemption, rule surjective_pairing)+

theorem ticket_admits_once_witness:
  "length (filter (\<lambda>e. sv_result e = ScanSuccess \<and> sv_ticketItemId e = Some ''t1'') (gw_events (snd demo_entry))) = 1 \<and>
    filter (\<lambda>k. en_id k = ''t1'' \<and> \<not> en_entered k) (gw_items (snd demo_entry)) = []"
proof -
  from demo_entry_recorded obtain e where e: "gw_events (snd demo_entry) = [e]" "sv_ticketItemId e = Some ''t1''" "sv_result e = ScanSuccess"
    by (auto simp: map_eq_Cons_conv)
  from ticket_admits_once [OF r_into_rtranclp [of "gate_step demo_gate", OF demo_steps(1)] demo_hall_ok, of "''t1''"] e
  show ?thesis by (simp add: filter_empty_conv)
qed

theorem benefit_handed_out_once_witness:
  "length (filter (\<lambda>r. rr_result r = Redeemed \<and> rr_benefitEntitlementId r = ''b'') (gw_redemptions (snd demo_handover))) = 1 \<and>
    filter (\<lambda>b. be_id b = ''b'' \<and> be_state b \<noteq> ''redeemed'') (gw_benefits (snd demo_handover)) = []"
proof -
  from demo_handover_recorded obtain r where r: "gw_redemptions (snd demo_handover) = [r]" "rr_result r = Redeemed" "rr_benefitEntitlementId r = ''b''"
    by (auto simp: map_eq_Cons_conv)
  from rtranclp.rtrancl_into_rtrancl [OF r_into_rtranclp [of "gate_step demo_gate", OF demo_steps(1)] demo_steps(2)]
  have "(gate_step demo_gate)\<^sup>*\<^sup>* demo_hall (snd demo_handover)" .
  from benefit_handed_out_once [OF this demo_hall_ok, of "''b''"] r show ?thesis by (simp add: filter_empty_conv)
qed

theorem entry_needs_valid_ticket_witness:
  "\<exists>cl t k. verifyTicketPayload demo_gate ''qr'' = Inr cl \<and> t \<in> set (gw_credentials demo_hall) \<and> names cl t \<and>
     k \<in> set (gw_items demo_hall) \<and> qc_ticketItemId t = Some (en_id k) \<and> en_status k = ''active'' \<and> qc_showtimeId t = ''s''"
proof -
  from demo_entry_result obtain resp where run: "demo_entry = (Inr resp, snd demo_entry)" "cp_outcome resp = Entered" by blast
  moreover have "gw_events (snd demo_entry) \<noteq> gw_events demo_hall" using demo_entry_recorded by auto
  moreover have "cq_showtimeId demo_scan \<noteq> []" by (simp add: demo_scan_def)
  ultimately show ?thesis
    using entry_needs_valid_ticket [of demo_gate "''e1''" 50 demo_scan demo_scanner demo_contract demo_hall resp "snd demo_entry"]
    unfolding demo_entry_def [symmetric] by (fastforce simp: demo_scan_def)
qed


theorem benefit_needs_its_ticket_witness:
  "\<exists>c b. verifyTicketForScannerContract demo_gate 60 ''qr'' (snd demo_entry) = Inr c \<and> ct_ticketStatus c \<in> {QrActive, QrUsed} \<and>
     b \<in> set (gw_benefits (snd demo_entry)) \<and> be_id b = ''b'' \<and> be_state b = ''active'' \<and> be_ticketItemId b = ct_ticketItemId c"
proof -
  from demo_handover_result obtain resp where run: "demo_handover = (Inr resp, snd demo_handover)" "rp_outcome resp = Redeemed" by blast
  moreover have "gw_redemptions (snd demo_handover) \<noteq> gw_redemptions (snd demo_entry)" using demo_handover_recorded by auto
  ultimately show ?thesis
    using benefit_needs_its_ticket [of demo_gate None "''r1''" 60 demo_redemption "''u''" "snd demo_entry" resp "snd demo_handover"]
    unfolding demo_handover_def [symmetric] by (fastforce simp: demo_redemption_def)
qed

end
