(* ===== verification/Spec2Isabelle.thy ===== *)
theory Spec2Isabelle
  imports SeatTheorems BookingService TicketLimit FreshReads QueueTheorems CancelPolicy RefundFee Benefits ReconcileTheorems IssueTheorems CancelWitness EntryWitness
begin

text \<open>
  Grabit sells seats for performances: a queue admits buyers, admitted buyers lock seats, a checkout is paid
  through Toss Payments, tickets are issued, may be cancelled for a fee, and carry benefits that are drawn
  or redeemed at the venue. This development models the server side (\<open>apps/api/src\<close>) and the rules shared with
  the clients (\<open>packages/shared/src\<close>), and proves the properties that keep money, seats and places in line
  straight. This file only collects the theories; the properties (C1, C2, ...) stand in the theories below.

  \<^bold>\<open>Parts and theories.\<close>
  \<^item> Vocabulary. \<open>Prelude\<close>: JavaScript strings as UTF-8 bytes, trimming, case, splitting, numbers read from text.
    \<open>Redis\<close>: the key-value server as the record \<open>redis_ops\<close> of its commands with the contract (a locale) that the
    seat scripts need. \<open>Effects\<close>: asynchronous code with exceptions as functions of a world, with \<open>bnd\<close>, \<open>handle\<close>
    (catch), \<open>always\<close> (finally) and a weakest-precondition calculus \<open>wp\<close>. \<open>DbErrors\<close>: \<open>transient-db-error.ts\<close>.
  \<^item> Seats. \<open>SeatIdentity\<close> (\<open>seat-identity.ts\<close>: normalisation and runtime ids); \<open>SeatLocks\<close> (the Lua scripts of
    \<open>booking.service.ts\<close> over \<open>redis_ops\<close>); \<open>MemRedis\<close>, \<open>MemServer\<close> (\<open>InMemoryRedis\<close> of \<open>redis.provider.ts\<close> with
    its script emulations, shown to be a server that keeps the contract and to agree with the scripts);
    \<open>SeatSystem\<close>, \<open>SeatSpec\<close>, \<open>SeatTheorems\<close> (runs of the scripts, their abstract specification as an ownership map,
    and the properties); \<open>SeatStatus\<close> (the status caches of one instance and the overlay of its own changes);
    \<open>ShowtimeSales\<close>, \<open>AdminAccess\<close>, \<open>BookingService\<close> (the gates and the public calls around the scripts).
  \<^item> Queue. \<open>QueueScripts\<close> (the scripts of \<open>queue-redis-scripts.ts\<close> over a performance's hash slot and their
    JavaScript mirror), \<open>QueueSystem\<close> (runs and their invariant), \<open>QueueService\<close> (\<open>queue.service.ts\<close>: admission,
    re-entry, status, recovery, release) and \<open>QueueTheorems\<close>.
  \<^item> Reads. \<open>FreshReads\<close> (\<open>fresh-read-batcher.ts\<close> as a step relation of the event loop).
  \<^item> Payment rules. \<open>CancelPolicy\<close> (\<open>payment-cancel-policy.ts\<close>, \<open>toss-cancel-matcher.ts\<close>), \<open>RefundFee\<close> (both copies of
    the fee schedule), \<open>ChargeQuote\<close> (\<open>provider-charge-quote.service.ts\<close>), \<open>PaymentMethods\<close> (checkout and approved
    methods), \<open>TicketLimit\<close> (\<open>ticket-limit.ts\<close>), \<open>Benefits\<close> (the draw of \<open>benefit-runner.service.ts\<close>).
  \<^item> Payment confirm (\<open>reservation-finalization.service.ts\<close>). \<open>ConfirmWorld\<close>, \<open>ConfirmStore\<close> (requests, rows,
    the world with its event log and the environment that answers every outside call), \<open>Compensation\<close>,
    \<open>ProviderApproval\<close>, \<open>ConfirmFlow\<close> (\<open>confirmAndCreateReservation\<close>), \<open>Reconcile\<close> (the reconcile job). Proofs:
    \<open>ConfirmRules\<close> and \<open>ConfirmRuns\<close> (which events and rows each function can touch), \<open>LogGrowth\<close> (what programs add
    to a part of the log), \<open>ConfirmSettles\<close>, \<open>ConfirmTheorems\<close>, \<open>ConfirmIssue\<close>, \<open>ConfirmExclusive\<close>, \<open>IssueTheorems\<close>,
    \<open>ReconcileTheorems\<close>, and the evaluated runs of \<open>ConfirmDemo\<close>.
  \<^item> Cancellation (\<open>modules/cancellation\<close>, \<open>cancelled-seat-release.worker.ts\<close>). \<open>CancelWorld\<close> (rows, provider answers and
    requests), \<open>Finalizer\<close> (\<open>finalizeFullPaymentCancellation\<close> step by step, the release job and the recovery sweep).
    \<open>CancelTheorems\<close>: seats and tickets over any order of steps, completeness, replays, lost jobs; \<open>CancelRefund\<close>: the
    money of cancellations without a quote; \<open>CancelWitness\<close>: the properties on an evaluated order.
  \<^item> Gate (\<open>modules/field-operations\<close>, the token check of \<open>modules/ticket/qr-ticket.service.ts\<close>). \<open>EntryWorld\<close> (tokens, rows,
    the scanner's contract), \<open>CheckIn\<close> (verify, consume, recovered offline attempts), \<open>Redemption\<close> (benefits handed out).
    \<open>Invariants\<close>: what a program keeps whether it returns or fails. \<open>EntryTheorems\<close>: one entry per ticket and one
    hand-over per benefit over any order of steps, who may enter, repeated requests; \<open>EntryWitness\<close>: an evaluated gate.

  \<^bold>\<open>State and steps.\<close> The scripts and caches are functions on explicit states (a key-value store with deadlines, a
  hash slot, the maps of a service instance); systems of several clients are step relations or lists of calls in
  any order. Payment confirm, which calls the database, the provider and the key-value server in between, is a
  program over a world: the rows of one database, the queued jobs and a log of what was sent and committed. The
  environment decides at every call whether it fails and what it answers; before every statement the other
  writers may change the database by an arbitrary function, restricted only by the named hypotheses of a property
  (\<open>keeps_rows\<close>: orders and payments are not deleted and the unique indexes hold for all writers;
  \<open>terms_fixed\<close>, \<open>keeps_issued\<close>, \<open>lost_with_connection\<close>). A transaction is one atomic step that commits, is rolled
  back, or commits while its acknowledgement is lost.

  \<^bold>\<open>Data.\<close> Instants and amounts are integers (JavaScript numbers are exact on the ranges that occur; the queue
  theories write rounding out where the code rounds); provider amounts are in hundredths. Texts are byte lists, so
  the Korean labels and reasons stand as their UTF-8 bytes. JSON columns are records of the fields the code reads.
  Library code is a parameter: SHA-256, random ids, \<open>libphonenumber\<close>, the JSON of shared copies.

  \<^bold>\<open>Bounds and termination.\<close> Every function of the model is total. Retry loops of the code are bounded there and
  recurse on the number of turns left (three for the issuance transaction, which is \<open>FINALIZATION_MAX_ATTEMPTS\<close>);
  the reconcile job reschedules itself and is shown to stop after twenty runs; the flush loop of the batcher ends
  by the number of pending keys. The purge loop of the queue service carries the number of its turns.

  \<^bold>\<open>What the groups of lemmas show.\<close> \<open>*_fields\<close> and \<open>*_effect\<close> lemmas say what a step changes and leaves; \<open>*_ok\<close>
  lemmas that a step keeps an invariant; \<open>runs_*\<close>, \<open>adds_*\<close>, \<open>returns_*\<close>, \<open>checks_*\<close>, \<open>gentle_*\<close> are rules that follow
  the text of a program, collected under \<open>runs_rules\<close>, \<open>adds_rules\<close>, \<open>returns_rules\<close>, \<open>checks_rules\<close>, \<open>gentle_rules\<close>;
  \<open>*_witness\<close> lemmas apply a property to a concrete run, so its hypotheses can hold.

  \<^bold>\<open>Modelling decisions.\<close> A compensation record of an asynchronous approval under the payment's metadata is taken to
  parse (the field \<open>md_asyncDoneCompensation\<close>). Log lines, Sentry reports and websocket broadcasts other than the
  sold seats of a confirm are not part of a state. In the confirm model the seats' locks are one answer of the
  environment, because their scripts are modelled in \<open>SeatLocks\<close>.

  \<^bold>\<open>Not modelled.\<close> The webhooks and the asynchronous completion of \<open>payment.service.ts\<close>, the order and cancel
  commands of \<open>reservation.service.ts\<close> and \<open>refund.service.ts\<close>, the administration, account, messaging,
  ticket and traffic modules, the job workers and the web application are not modelled yet; the database schema,
  migrations, translations and assets hold no logic of their own.
\<close>

end
